(* ===== verification/OB_Prelude.thy ===== *)
theory OB_Prelude
  imports Complex_Main "HOL-Library.AList" "HOL-Library.Sublist" "HOL-Library.Char_ord"
begin

text \<open>
  Shared vocabulary of the development: the values JavaScript passes around, the errors the
  service throws (\<open>src/src/errors.ts\<close>), results of fallible code, the insertion-ordered
  \<open>Map\<close> of the language as an association list, ASCII string helpers and the rounding of
  \<open>Number.prototype.toFixed\<close>. The collections \<open>ob_ops\<close> and \<open>ob_inv\<close> are filled by the
  component theories.
\<close>

named_theorems ob_ops \<open>definitions of operations, for unfolding\<close>
named_theorems ob_inv \<open>preservation of a component's invariant\<close>

type_synonym millis = int

section \<open>Values and errors\<close>

datatype jsval =
    JUndefined
  | JNull
  | JBool bool
  | JNum rat
  | JStr string
  | JArr "jsval list"
  | JObj "(string \<times> jsval) list"

text \<open>
  \<open>OpenBrowseError\<close>: the code, message, HTTP status, retry flag and details that the
  constructor stores. Any other thrown \<open>Error\<close> keeps its message only.
\<close>

record ob_error =
  code :: string
  message :: string
  statusCode :: int
  retryable :: bool
  details :: "(string \<times> jsval) list"

datatype js_error = OpenBrowseError ob_error | JsError string

type_synonym 'a outcome = "js_error + 'a"

definition ob_err :: "string \<Rightarrow> string \<Rightarrow> int \<Rightarrow> bool \<Rightarrow> js_error" where
  "ob_err c m s r =
     OpenBrowseError \<lparr>code = c, message = m, statusCode = s, retryable = r, details = []\<rparr>"

definition isOpenBrowseError :: "js_error \<Rightarrow> bool" where
  "isOpenBrowseError e = (case e of OpenBrowseError _ \<Rightarrow> True | JsError _ \<Rightarrow> False)"

definition error_code :: "js_error \<Rightarrow> string" where
  "error_code e = (case e of OpenBrowseError o' \<Rightarrow> code o' | JsError _ \<Rightarrow> '''')"

lemma error_code_ob_err [simp]: "error_code (ob_err c m s r) = c"
  by (simp add: error_code_def ob_err_def)

lemma isOpenBrowseError_ob_err [simp]: "isOpenBrowseError (ob_err c m s r)"
  by (simp add: isOpenBrowseError_def ob_err_def)

text \<open>Sequencing of fallible steps: the first throw leaves the function.\<close>

definition res_bind :: "'e + 'a \<Rightarrow> ('a \<Rightarrow> 'e + 'b) \<Rightarrow> 'e + 'b" where
  "res_bind r f = (case r of Inl e \<Rightarrow> Inl e | Inr x \<Rightarrow> f x)"

lemma res_bind_simps [simp]:
  "res_bind (Inl e) f = Inl e"
  "res_bind (Inr x) f = f x"
  by (simp_all add: res_bind_def)

lemma res_bind_Inr_iff: "res_bind r f = Inr y \<longleftrightarrow> (\<exists>x. r = Inr x \<and> f x = Inr y)"
  by (cases r) auto

lemma res_bind_InrE:
  assumes "res_bind r f = Inr y"
  obtains x where "r = Inr x" and "f x = Inr y"
  using assms by (auto simp: res_bind_Inr_iff)

text \<open>A guard: \<open>if (!c) throw e\<close>.\<close>

definition ensure :: "bool \<Rightarrow> 'e \<Rightarrow> 'e + unit" where
  "ensure c e = (if c then Inr () else Inl e)"

lemma ensure_Inr_iff [simp]: "ensure c e = Inr u \<longleftrightarrow> c"
  by (simp add: ensure_def)

lemma ensure_Inl_iff [simp]: "ensure c e = Inl x \<longleftrightarrow> \<not> c \<and> x = e"
  by (auto simp: ensure_def)

lemma res_bind_ensure: "res_bind (ensure c e) f = (if c then f () else Inl e)"
  by (simp add: ensure_def)

section \<open>Sorting\<close>

text \<open>\<open>Array.prototype.sort\<close> is stable; \<open>le x y\<close> stands for \<open>compare(x, y) <= 0\<close>.\<close>

fun insert_le :: "('a \<Rightarrow> 'a \<Rightarrow> bool) \<Rightarrow> 'a \<Rightarrow> 'a list \<Rightarrow> 'a list" where
  "insert_le le x [] = [x]"
| "insert_le le x (y # ys) = (if le x y then x # y # ys else y # insert_le le x ys)"

definition sort_le :: "('a \<Rightarrow> 'a \<Rightarrow> bool) \<Rightarrow> 'a list \<Rightarrow> 'a list" where
  "sort_le le xs = foldr (insert_le le) xs []"

lemma set_insert_le [simp]: "set (insert_le le x ys) = insert x (set ys)"
  by (induction ys) auto

lemma length_insert_le [simp]: "length (insert_le le x ys) = Suc (length ys)"
  by (induction ys) auto

lemma set_sort_le [simp]: "set (sort_le le xs) = set xs"
  by (induction xs) (auto simp: sort_le_def)

lemma length_sort_le [simp]: "length (sort_le le xs) = length xs"
  by (induction xs) (auto simp: sort_le_def)

lemma sorted_insert_le:
  assumes "transp le" and "\<And>a b. le a b \<or> le b a"
  shows "sorted_wrt le ys \<Longrightarrow> sorted_wrt le (insert_le le x ys)"
  using assms by (induction ys) (auto dest: transpD)

lemma sorted_sort_le:
  assumes "transp le" and "\<And>a b. le a b \<or> le b a"
  shows "sorted_wrt le (sort_le le xs)"
  by (induction xs) (simp_all add: sort_le_def sorted_insert_le [OF assms])

section \<open>The insertion-ordered Map of JavaScript\<close>

text \<open>
  \<open>Map.set\<close> overwrites in place or appends, \<open>Map.delete\<close> removes and iteration follows the
  insertion order: this is \<open>AList.update\<close>, \<open>AList.delete\<close> and the list itself. Deleting a key
  and setting it again moves it to the end, which the caches of the program use as recency.
\<close>

type_synonym ('k, 'v) jsmap = "('k \<times> 'v) list"

abbreviation map_set :: "'k \<Rightarrow> 'v \<Rightarrow> ('k, 'v) jsmap \<Rightarrow> ('k, 'v) jsmap" where
  "map_set \<equiv> AList.update"

abbreviation map_remove :: "'k \<Rightarrow> ('k, 'v) jsmap \<Rightarrow> ('k, 'v) jsmap" where
  "map_remove \<equiv> AList.delete"

definition map_get_or :: "'v \<Rightarrow> ('k, 'v) jsmap \<Rightarrow> 'k \<Rightarrow> 'v" where
  "map_get_or d m k = (case map_of m k of None \<Rightarrow> d | Some v \<Rightarrow> v)"

definition map_keys_ok :: "('k, 'v) jsmap \<Rightarrow> bool" where
  "map_keys_ok m \<longleftrightarrow> distinct (map fst m)"

text \<open>\<open>[...new Set(xs)]\<close>: the distinct values at their first occurrence.\<close>

definition js_set :: "'a list \<Rightarrow> 'a list" where
  "js_set xs = rev (remdups (rev xs))"

lemma set_js_set [simp]: "set (js_set xs) = set xs"
  by (simp add: js_set_def)

lemma distinct_js_set [simp]: "distinct (js_set xs)"
  by (simp add: js_set_def)

lemma js_set_eq_Nil [simp]: "js_set xs = [] \<longleftrightarrow> xs = []"
  by (simp add: js_set_def)

lemma map_keys_ok_Nil [simp]: "map_keys_ok []"
  by (simp add: map_keys_ok_def)

lemma map_keys_ok_set [simp]: "map_keys_ok m \<Longrightarrow> map_keys_ok (map_set k v m)"
  by (simp add: map_keys_ok_def distinct_update)

lemma map_keys_ok_remove [simp]: "map_keys_ok m \<Longrightarrow> map_keys_ok (map_remove k m)"
  by (simp add: map_keys_ok_def distinct_delete)

lemma map_keys_ok_tl: "map_keys_ok (x # m) \<Longrightarrow> map_keys_ok m"
  by (simp add: map_keys_ok_def)

lemma map_of_set [simp]: "map_of (map_set k v m) = (map_of m)(k \<mapsto> v)"
  by (rule update_conv')

lemma map_of_remove [simp]: "map_of (map_remove k m) = (map_of m)(k := None)"
  by (rule delete_conv')

lemma map_get_or_set [simp]:
  "map_get_or d (map_set k v m) j = (if j = k then v else map_get_or d m j)"
  by (simp add: map_get_or_def)

lemma map_remove_fresh: "map_of m k = None \<Longrightarrow> map_remove k m = m"
  by (simp add: map_of_eq_None_iff)

lemma map_set_append_fresh: "map_of m k = None \<Longrightarrow> map_set k v m = m @ [(k, v)]"
  by (induction m) (auto split: if_splits)

lemma map_remove_set_same [simp]: "map_remove k (map_set k v m) = map_remove k m"
  by (simp add: delete_update_same)

lemma set_map_remove: "set (map_remove k m) = {p \<in> set m. fst p \<noteq> k}"
  by (auto simp: AList.delete_eq)

lemma map_move_to_end: "map_set k v (map_remove k m) = map_remove k m @ [(k, v)]"
  by (rule map_set_append_fresh) simp

lemma set_map_set: "map_keys_ok m \<Longrightarrow> set (map_set k v m) = insert (k, v) {p \<in> set m. fst p \<noteq> k}"
proof (induction m)
  case (Cons p m)
  then show ?case by (cases p) (auto simp: map_keys_ok_def image_iff)
qed simp

lemma map_of_Some_in: "map_of m k = Some v \<Longrightarrow> (k, v) \<in> set m"
  by (rule map_of_SomeD)

lemma map_keys_ok_map_of: "map_keys_ok m \<Longrightarrow> (k, v) \<in> set m \<Longrightarrow> map_of m k = Some v"
  by (simp add: map_keys_ok_def)

text \<open>A total over the values of a map, and how the operations change it.\<close>

definition map_total :: "('v \<Rightarrow> int) \<Rightarrow> ('k, 'v) jsmap \<Rightarrow> int" where
  "map_total f m = sum_list (map (f \<circ> snd) m)"

lemma map_total_Nil [simp]: "map_total f [] = 0"
  by (simp add: map_total_def)

lemma map_total_Cons [simp]: "map_total f (p # m) = f (snd p) + map_total f m"
  by (simp add: map_total_def)

lemma map_total_append [simp]: "map_total f (m @ n) = map_total f m + map_total f n"
  by (simp add: map_total_def)

lemma map_total_remove:
  "map_keys_ok m \<Longrightarrow> map_of m k = Some v \<Longrightarrow> map_total f (map_remove k m) = map_total f m - f v"
proof (induction m)
  case (Cons p m)
  then show ?case
    by (cases "fst p = k") (auto simp: map_keys_ok_def split: if_splits)
qed simp

lemma map_total_set_fresh:
  "map_of m k = None \<Longrightarrow> map_total f (map_set k v m) = map_total f m + f v"
  by (simp add: map_set_append_fresh)

lemma map_total_nonneg: "(\<And>v. 0 \<le> f v) \<Longrightarrow> 0 \<le> map_total f m"
  by (induction m) auto

section \<open>Strings and numbers\<close>

definition starts_with :: "string \<Rightarrow> string \<Rightarrow> bool" where
  "starts_with s p \<longleftrightarrow> prefix p s"

definition ends_with :: "string \<Rightarrow> string \<Rightarrow> bool" where
  "ends_with s p \<longleftrightarrow> suffix p s"

definition lower_char :: "char \<Rightarrow> char" where
  "lower_char c = (let n = of_char c :: nat in if 65 \<le> n \<and> n \<le> 90 then char_of (n + 32) else c)"

definition to_lower :: "string \<Rightarrow> string" where
  "to_lower = map lower_char"

definition is_digit :: "char \<Rightarrow> bool" where
  "is_digit c \<longleftrightarrow> (let n = of_char c :: nat in 48 \<le> n \<and> n \<le> 57)"

definition digit_val :: "char \<Rightarrow> nat" where
  "digit_val c = of_char c - 48"

definition is_space :: "char \<Rightarrow> bool" where
  "is_space c \<longleftrightarrow> (let n = of_char c :: nat in (9 \<le> n \<and> n \<le> 13) \<or> n = 32 \<or> n = 160)"

definition trim :: "string \<Rightarrow> string" where
  "trim s = rev (dropWhile is_space (rev (dropWhile is_space s)))"

text \<open>\<open>String.prototype.split\<close> on one character, without a limit.\<close>

fun split_on :: "char \<Rightarrow> string \<Rightarrow> string list" where
  "split_on c [] = [[]]"
| "split_on c (x # xs) =
     (if x = c then [] # split_on c xs
      else (case split_on c xs of [] \<Rightarrow> [[x]] | w # ws \<Rightarrow> (x # w) # ws))"

lemma split_on_nonempty [simp]: "split_on c s \<noteq> []"
  by (induction s) (auto split: list.splits)

lemma split_on_no_sep: "w \<in> set (split_on c s) \<Longrightarrow> c \<notin> set w"
proof (induction s arbitrary: w)
  case (Cons x xs)
  then show ?case
    by (cases "split_on c xs") (auto split: if_splits)
qed simp

lemma split_on_id: "c \<notin> set s \<Longrightarrow> split_on c s = [s]"
  by (induction s) auto

lemma split_on_append: "c \<notin> set w \<Longrightarrow> split_on c (w @ c # s) = w # split_on c s"
  by (induction w) auto

text \<open>\<open>includes\<close> on strings: the needle is a contiguous part.\<close>

definition str_includes :: "string \<Rightarrow> string \<Rightarrow> bool" where
  "str_includes s p \<longleftrightarrow> sublist p s"

text \<open>Decimal digits of a natural number, most significant first.\<close>

fun show_nat :: "nat \<Rightarrow> string" where
  "show_nat n = (if n < 10 then [char_of (48 + n)] else show_nat (n div 10) @ [char_of (48 + n mod 10)])"

declare show_nat.simps [simp del]

definition show_int :: "int \<Rightarrow> string" where
  "show_int i = (if i < 0 then CHR ''-'' # show_nat (nat (- i)) else show_nat (nat i))"

definition digits_val :: "string \<Rightarrow> nat" where
  "digits_val s = foldl (\<lambda>acc c. 10 * acc + digit_val c) 0 s"

lemma digits_val_snoc [simp]: "digits_val (s @ [c]) = 10 * digits_val s + digit_val c"
  by (simp add: digits_val_def)

lemma of_char_digit: "n < 10 \<Longrightarrow> (of_char (char_of (48 + n :: nat)) :: nat) = 48 + n"
  by simp

lemma show_nat_digits: "list_all is_digit (show_nat n)"
proof (induction n rule: show_nat.induct)
  case (1 n)
  then show ?case
    by (cases "n < 10"; subst show_nat.simps) (simp_all add: is_digit_def[of "char_of _"])
qed

lemma show_nat_not_Nil [simp]: "show_nat n \<noteq> []"
  by (subst show_nat.simps) simp

lemma digits_val_show_nat [simp]: "digits_val (show_nat n) = n"
proof (induction n rule: show_nat.induct)
  case (1 n)
  show ?case
  proof (cases "n < 10")
    case True
    then show ?thesis
      by (subst show_nat.simps) (simp add: digits_val_def digit_val_def)
  next
    case False
    with 1 have "digits_val (show_nat (n div 10)) = n div 10" by simp
    with False show ?thesis
      by (subst show_nat.simps) (simp add: digit_val_def)
  qed
qed

text \<open>
  \<open>toFixed(d)\<close> read back as a number: the multiple of \<open>10 ^ -d\<close> nearest to the value, the
  larger one on a tie, as ECMAScript prescribes.
\<close>

definition to_fixed :: "nat \<Rightarrow> rat \<Rightarrow> rat" where
  "to_fixed d x = of_int \<lfloor>x * 10 ^ d + 1 / 2\<rfloor> / 10 ^ d"

lemma to_fixed_nonneg: "0 \<le> x \<Longrightarrow> 0 \<le> to_fixed d x"
  by (simp add: to_fixed_def)

lemma to_fixed_mono: "x \<le> y \<Longrightarrow> to_fixed d x \<le> to_fixed d y"
  by (simp add: to_fixed_def divide_right_mono floor_mono mult_right_mono)

lemma to_fixed_of_int: "to_fixed d (of_int n) = of_int n"
proof -
  have "\<lfloor>of_int n * 10 ^ d + 1 / 2 :: rat\<rfloor> = n * 10 ^ d"
  proof (rule floor_unique)
    show "of_int (n * 10 ^ d) \<le> (of_int n * 10 ^ d + 1 / 2 :: rat)" by simp
    show "(of_int n * 10 ^ d + 1 / 2 :: rat) < of_int (n * 10 ^ d) + 1" by simp
  qed
  then show ?thesis by (simp add: to_fixed_def)
qed

section \<open>Lists\<close>

lemma filter_length_less: "x \<in> set xs \<Longrightarrow> \<not> P x \<Longrightarrow> length (filter P xs) < length xs"
  by (induction xs) (auto simp: le_imp_less_Suc)

lemma sum_list_map_nonneg: "(\<And>x. x \<in> set xs \<Longrightarrow> (0::int) \<le> f x) \<Longrightarrow> 0 \<le> sum_list (map f xs)"
  by (induction xs) auto

text \<open>Updating the one element of a list that carries an identifier.\<close>

definition update_by :: "('a \<Rightarrow> 'k) \<Rightarrow> 'k \<Rightarrow> ('a \<Rightarrow> 'a) \<Rightarrow> 'a list \<Rightarrow> 'a list" where
  "update_by key k f = map (\<lambda>x. if key x = k then f x else x)"

lemma length_update_by [simp]: "length (update_by key k f xs) = length xs"
  by (simp add: update_by_def)

lemma update_by_keys:
  "(\<And>x. key (f x) = key x) \<Longrightarrow> map key (update_by key k f xs) = map key xs"
  by (simp add: update_by_def)

lemma in_update_by:
  "y \<in> set (update_by key k f xs) \<longleftrightarrow>
     (\<exists>x \<in> set xs. y = (if key x = k then f x else x))"
  unfolding update_by_def by (simp only: set_map image_iff)

end
