(* ===== verification/OB_Regex.thy ===== *)
theory OB_Regex
  imports OB_Prelude
begin

text \<open>
  The regular expressions of the language, as far as the service uses them: characters and classes,
  sequences, alternatives, greedy and lazy repetition and the end anchor, matched by backtracking.
  \<open>rx_rest r s\<close> lists what is left of \<open>s\<close> after each way to match \<open>r\<close> at its front, in the order the
  matcher of the language tries them, so the head is the match it reports. Flags are part of the classes: a
  case-insensitive literal is a class of two characters.
\<close>

datatype rx =
    RSym "char \<Rightarrow> bool"
  | REps
  | RSeq rx rx
  | RAlt rx rx
  | RStar rx
  | RLazy rx
  | RRep rx nat nat
  | REnd

section \<open>Matching\<close>

text \<open>The size of an expression with its repetition counts, which bounds the unfolding of \<open>RRep\<close>.\<close>

fun rx_size :: "rx \<Rightarrow> nat" where
  "rx_size (RSym P) = 1"
| "rx_size REps = 1"
| "rx_size (RSeq a b) = Suc (rx_size a + rx_size b)"
| "rx_size (RAlt a b) = Suc (rx_size a + rx_size b)"
| "rx_size (RStar a) = Suc (rx_size a)"
| "rx_size (RLazy a) = Suc (rx_size a)"
| "rx_size (RRep a m n) = Suc (rx_size a + n)"
| "rx_size REnd = 1"

function rx_rest :: "rx \<Rightarrow> string \<Rightarrow> string list" where
  "rx_rest (RSym P) s = (case s of [] \<Rightarrow> [] | c # t \<Rightarrow> if P c then [t] else [])"
| "rx_rest REps s = [s]"
| "rx_rest (RSeq a b) s = concat (map (rx_rest b) (rx_rest a s))"
| "rx_rest (RAlt a b) s = rx_rest a s @ rx_rest b s"
| "rx_rest (RStar a) s = concat (map (rx_rest (RStar a)) (filter (\<lambda>t. length t < length s) (rx_rest a s))) @ [s]"
| "rx_rest (RLazy a) s = s # concat (map (rx_rest (RLazy a)) (filter (\<lambda>t. length t < length s) (rx_rest a s)))"
| "rx_rest (RRep a m n) s =
     (if n = 0 then (if m = 0 then [s] else [])
      else concat (map (rx_rest (RRep a (m - 1) (n - 1))) (rx_rest a s)) @ (if m = 0 then [s] else []))"
| "rx_rest REnd s = (if s = [] then [[]] else [])"
  by pat_completeness auto

termination
  by (relation "measures [\<lambda>(r, s). rx_size r, \<lambda>(r, s). length s]") auto

declare rx_rest.simps(5-7) [simp del]

lemma rx_rest_rep [simp]:
  "rx_rest (RRep a m 0) s = (if m = 0 then [s] else [])"
  "rx_rest (RRep a m (Suc n)) s = concat (map (rx_rest (RRep a (m - 1) n)) (rx_rest a s)) @ (if m = 0 then [s] else [])"
  by (subst rx_rest.simps(7); simp)+

text \<open>\<open>/^r/.test(s)\<close>, \<open>/^r$/.test(s)\<close> and \<open>/r/.test(s)\<close>.\<close>

definition rx_prefix :: "rx \<Rightarrow> string \<Rightarrow> bool" where
  "rx_prefix r s \<longleftrightarrow> rx_rest r s \<noteq> []"

definition rx_full :: "rx \<Rightarrow> string \<Rightarrow> bool" where
  "rx_full r s \<longleftrightarrow> [] \<in> set (rx_rest r s)"

fun rx_test :: "rx \<Rightarrow> string \<Rightarrow> bool" where
  "rx_test r [] = rx_prefix r []"
| "rx_test r (c # s) = (rx_prefix r (c # s) \<or> rx_test r s)"

text \<open>
  \<open>s.replace(/r/g, f)\<close>: the first match at the first position that has one, and again after it; an
  empty match is replaced and the next character is kept. \<open>f\<close> receives the matched text.
\<close>

function rx_replace_all :: "rx \<Rightarrow> (string \<Rightarrow> string) \<Rightarrow> string \<Rightarrow> string" where
  "rx_replace_all r f s =
     (case rx_rest r s of
        [] \<Rightarrow> (case s of [] \<Rightarrow> [] | c # t \<Rightarrow> c # rx_replace_all r f t)
      | t # _ \<Rightarrow>
          if length t < length s then f (take (length s - length t) s) @ rx_replace_all r f t
          else f [] @ (case s of [] \<Rightarrow> [] | c # t' \<Rightarrow> c # rx_replace_all r f t'))"
  by pat_completeness auto

termination
  by (relation "measure (\<lambda>(r, f, s). length s)") (auto split: list.splits)

declare rx_replace_all.simps [simp del]

section \<open>Building blocks\<close>

definition ch :: "char \<Rightarrow> rx" where
  "ch c = RSym (\<lambda>d. d = c)"

definition one_of :: "string \<Rightarrow> rx" where
  "one_of cs = RSym (\<lambda>d. d \<in> set cs)"

definition none_of :: "string \<Rightarrow> rx" where
  "none_of cs = RSym (\<lambda>d. d \<notin> set cs)"

definition lit :: "string \<Rightarrow> rx" where
  "lit s = foldr (\<lambda>c r. RSeq (ch c) r) s REps"

text \<open>A literal under the flag \<open>i\<close>.\<close>

definition lit_i :: "string \<Rightarrow> rx" where
  "lit_i s = foldr (\<lambda>c r. RSeq (RSym (\<lambda>d. lower_char d = lower_char c)) r) s REps"

definition seqs :: "rx list \<Rightarrow> rx" where
  "seqs rs = foldr RSeq rs REps"

definition alts :: "rx list \<Rightarrow> rx" where
  "alts rs = (case rs of [] \<Rightarrow> RSym (\<lambda>_. False) | r # rest \<Rightarrow> foldl RAlt r rest)"

definition opt :: "rx \<Rightarrow> rx" where
  "opt r = RAlt r REps"

definition plus :: "rx \<Rightarrow> rx" where
  "plus r = RSeq r (RStar r)"

definition digit :: rx where
  "digit = RSym is_digit"

definition space :: rx where
  "space = RSym is_space"

definition is_upper_letter :: "char \<Rightarrow> bool" where
  "is_upper_letter c = (let n = of_char c :: nat in 65 \<le> n \<and> n \<le> 90)"

definition is_lower_letter :: "char \<Rightarrow> bool" where
  "is_lower_letter c = (let n = of_char c :: nat in 97 \<le> n \<and> n \<le> 122)"

definition is_letter :: "char \<Rightarrow> bool" where
  "is_letter c = (is_upper_letter c \<or> is_lower_letter c)"

text \<open>\<open>\\w\<close> and a class given by letters, digits and further characters.\<close>

definition word_char :: "char \<Rightarrow> bool" where
  "word_char c = (is_letter c \<or> is_digit c \<or> c = CHR ''_'')"

definition alnum_or :: "string \<Rightarrow> rx" where
  "alnum_or cs = RSym (\<lambda>c. is_letter c \<or> is_digit c \<or> c \<in> set cs)"

section \<open>The matcher is exact\<close>

text \<open>Which rests a match may leave, without an order and without the limits of the backtracking.\<close>

inductive rx_match :: "rx \<Rightarrow> string \<Rightarrow> string \<Rightarrow> bool" where
  match_sym: "P c \<Longrightarrow> rx_match (RSym P) (c # s) s"
| match_eps: "rx_match REps s s"
| match_seq: "rx_match a s t \<Longrightarrow> rx_match b t u \<Longrightarrow> rx_match (RSeq a b) s u"
| match_left: "rx_match a s t \<Longrightarrow> rx_match (RAlt a b) s t"
| match_right: "rx_match b s t \<Longrightarrow> rx_match (RAlt a b) s t"
| match_star_done: "rx_match (RStar a) s s"
| match_star_more: "rx_match a s t \<Longrightarrow> rx_match (RStar a) t u \<Longrightarrow> rx_match (RStar a) s u"
| match_lazy_done: "rx_match (RLazy a) s s"
| match_lazy_more: "rx_match a s t \<Longrightarrow> rx_match (RLazy a) t u \<Longrightarrow> rx_match (RLazy a) s u"
| match_rep_done: "rx_match (RRep a 0 n) s s"
| match_rep_more: "rx_match a s t \<Longrightarrow> rx_match (RRep a (m - 1) n) t u \<Longrightarrow> rx_match (RRep a m (Suc n)) s u"
| match_end: "rx_match REnd [] []"

lemma rx_match_suffix: "rx_match r s t \<Longrightarrow> suffix t s"
  by (induction rule: rx_match.induct) (auto intro: suffix_order.trans suffix_ConsI)

lemma rx_rest_sound: "t \<in> set (rx_rest r s) \<Longrightarrow> rx_match r s t"
proof (induction r s arbitrary: t rule: rx_rest.induct)
  case (5 a s)
  then show ?case by (subst (asm) rx_rest.simps(5)) (auto intro: match_star_done match_star_more)
next
  case (6 a s)
  then show ?case by (subst (asm) rx_rest.simps(6)) (auto intro: match_lazy_done match_lazy_more)
next
  case (7 a m n s)
  then show ?case by (cases n) (auto intro: match_rep_done match_rep_more [unfolded One_nat_def] split: if_splits)
qed (auto intro: rx_match.intros split: list.splits if_splits)

lemma match_progress: "rx_match r s t \<Longrightarrow> t \<noteq> s \<Longrightarrow> length t < length s"
  using rx_match_suffix [of r s t] by (auto simp: suffix_def)

lemma rx_rest_complete: "rx_match r s t \<Longrightarrow> t \<in> set (rx_rest r s)"
proof (induction rule: rx_match.induct)
  case (match_star_done a s)
  then show ?case by (subst rx_rest.simps(5)) simp
next
  case (match_star_more a s t u)
  show ?case
  proof (cases "t = s")
    case False
    with match_progress match_star_more show ?thesis by (subst rx_rest.simps(5)) auto
  qed (use match_star_more.IH(2) in simp)
next
  case (match_lazy_done a s)
  then show ?case by (subst rx_rest.simps(6)) simp
next
  case (match_lazy_more a s t u)
  show ?case
  proof (cases "t = s")
    case False
    with match_progress match_lazy_more show ?thesis by (subst rx_rest.simps(6)) auto
  qed (use match_lazy_more.IH(2) in simp)
next
  case (match_rep_done a n s)
  then show ?case by (cases n) simp_all
qed auto

theorem rx_rest_iff: "t \<in> set (rx_rest r s) \<longleftrightarrow> rx_match r s t"
  using rx_rest_sound rx_rest_complete by blast

lemma rx_full_iff: "rx_full r s \<longleftrightarrow> rx_match r s []"
  by (simp add: rx_full_def rx_rest_iff)

lemma rx_prefix_iff: "rx_prefix r s \<longleftrightarrow> (\<exists>t. rx_match r s t)"
  unfolding rx_prefix_def rx_rest_iff [symmetric] by (metis ex_in_conv set_empty)

lemma rx_test_iff: "rx_test r s \<longleftrightarrow> (\<exists>t u. suffix t s \<and> rx_match r t u)"
  by (induction s) (auto simp: rx_prefix_iff suffix_Cons)

section \<open>Matches of the building blocks\<close>

lemma match_lit: "rx_match (lit p) (p @ s) s"
  by (induction p) (auto simp: lit_def ch_def intro: rx_match.intros)

lemma match_rep_chars:
  "list_all P w \<Longrightarrow> m \<le> length w \<Longrightarrow> length w \<le> n \<Longrightarrow> rx_match (RRep (RSym P) m n) (w @ s) s"
proof (induction w arbitrary: m n)
  case Nil
  then show ?case by (simp add: match_rep_done)
next
  case (Cons c w)
  then obtain k where n: "n = Suc k" by (cases n) auto
  have "rx_match (RRep (RSym P) (m - 1) k) (w @ s) s" using Cons n by auto
  with Cons.prems(1) show ?case unfolding n by (auto intro: match_rep_more match_sym)
qed

lemma match_seqs_Nil: "rx_match (seqs []) s s"
  by (simp add: seqs_def match_eps)

lemma match_seqs_Cons: "rx_match r s t \<Longrightarrow> rx_match (seqs rs) t u \<Longrightarrow> rx_match (seqs (r # rs)) s u"
  by (simp add: seqs_def match_seq)

lemma rx_prefix_iff_search: "rx_prefix r s \<Longrightarrow> rx_test r s"
  by (cases s) simp_all

end
