(* ===== verification/OB_Url.thy ===== *)
theory OB_Url
  imports OB_Prelude
begin

text \<open>
  The \<open>URL\<close> and \<open>URLSearchParams\<close> objects of the WHATWG standard, as far as the service uses
  them: the parsed components, the getters and setters, the serialiser, and the
  \<open>application/x-www-form-urlencoded\<close> codec behind \<open>searchParams\<close>. The parser itself
  (\<open>new URL(text)\<close>, with its host and percent-encoding rules) is a parameter of every definition
  that needs it. Text is ASCII here, as a serialised URL is.
\<close>

record url =
  u_protocol :: string
  u_username :: string
  u_password :: string
  u_hostname :: string
  u_port :: string
  u_pathname :: string
  u_query :: "string option"
  u_fragment :: "string option"

type_synonym url_parser = "string \<Rightarrow> url option"

definition url_search :: "url \<Rightarrow> string" where
  "url_search u = (case u_query u of None \<Rightarrow> [] | Some [] \<Rightarrow> [] | Some q \<Rightarrow> CHR ''?'' # q)"

definition url_hash :: "url \<Rightarrow> string" where
  "url_hash u = (case u_fragment u of None \<Rightarrow> [] | Some [] \<Rightarrow> [] | Some f \<Rightarrow> CHR ''#'' # f)"

definition url_host :: "url \<Rightarrow> string" where
  "url_host u = u_hostname u @ (if u_port u = [] then [] else CHR '':'' # u_port u)"

definition url_origin :: "url \<Rightarrow> string" where
  "url_origin u = u_protocol u @ ''//'' @ url_host u"

definition url_credentials :: "url \<Rightarrow> string" where
  "url_credentials u =
     (if u_username u = [] \<and> u_password u = [] then []
      else u_username u @ (if u_password u = [] then [] else CHR '':'' # u_password u) @ ''@'')"

definition url_href :: "url \<Rightarrow> string" where
  "url_href u =
     u_protocol u @ ''//'' @ url_credentials u @ url_host u @ u_pathname u
     @ (case u_query u of None \<Rightarrow> [] | Some q \<Rightarrow> CHR ''?'' # q)
     @ (case u_fragment u of None \<Rightarrow> [] | Some f \<Rightarrow> CHR ''#'' # f)"

section \<open>The query string codec\<close>

definition hex_val :: "char \<Rightarrow> nat option" where
  "hex_val c = (let n = of_char c :: nat in
     if 48 \<le> n \<and> n \<le> 57 then Some (n - 48)
     else if 65 \<le> n \<and> n \<le> 70 then Some (n - 55)
     else if 97 \<le> n \<and> n \<le> 102 then Some (n - 87) else None)"

definition hex_digit :: "nat \<Rightarrow> char" where
  "hex_digit n = (if n < 10 then char_of (48 + n) else char_of (55 + n))"

fun form_decode :: "string \<Rightarrow> string" where
  "form_decode [] = []"
| "form_decode (c # s) =
     (if c = CHR ''+'' then CHR '' '' # form_decode s
      else if c = CHR ''%'' then
        (case s of
           h # l # r \<Rightarrow>
             (case (hex_val h, hex_val l) of
                (Some a, Some b) \<Rightarrow> char_of (16 * a + b) # form_decode r
              | _ \<Rightarrow> c # form_decode s)
         | _ \<Rightarrow> c # form_decode s)
      else c # form_decode s)"

definition form_safe :: "char \<Rightarrow> bool" where
  "form_safe c = (let n = of_char c :: nat in
     (48 \<le> n \<and> n \<le> 57) \<or> (65 \<le> n \<and> n \<le> 90) \<or> (97 \<le> n \<and> n \<le> 122)
     \<or> n \<in> {42, 45, 46, 95})"

definition form_encode_char :: "char \<Rightarrow> string" where
  "form_encode_char c =
     (if form_safe c then [c]
      else if c = CHR '' '' then ''+''
      else (let n = of_char c :: nat in [CHR ''%'', hex_digit (n div 16), hex_digit (n mod 16)]))"

definition form_encode :: "string \<Rightarrow> string" where
  "form_encode s = concat (map form_encode_char s)"

definition split_pair :: "string \<Rightarrow> string \<times> string" where
  "split_pair w = (takeWhile (\<lambda>c. c \<noteq> CHR ''='') w, drop 1 (dropWhile (\<lambda>c. c \<noteq> CHR ''='') w))"

definition search_params :: "url \<Rightarrow> (string \<times> string) list" where
  "search_params u =
     (case u_query u of None \<Rightarrow> []
      | Some q \<Rightarrow> map (\<lambda>w. map_prod form_decode form_decode (split_pair w))
                   (filter (\<lambda>w. w \<noteq> []) (split_on (CHR ''&'') q)))"

fun join_with :: "string \<Rightarrow> string list \<Rightarrow> string" where
  "join_with s [] = []"
| "join_with s [w] = w"
| "join_with s (w # ws) = w @ s @ join_with s ws"

definition form_serialize :: "(string \<times> string) list \<Rightarrow> string" where
  "form_serialize ps = join_with ''&'' (map (\<lambda>(k, v). form_encode k @ ''='' @ form_encode v) ps)"

text \<open>The URL standard's update step: an empty list of parameters removes the query.\<close>

definition set_search_params :: "(string \<times> string) list \<Rightarrow> url \<Rightarrow> url" where
  "set_search_params ps u =
     u\<lparr>u_query := (let q = form_serialize ps in if q = [] then None else Some q)\<rparr>"

definition params_delete :: "string \<Rightarrow> url \<Rightarrow> url" where
  "params_delete k u = set_search_params (filter (\<lambda>p. fst p \<noteq> k) (search_params u)) u"

text \<open>
  \<open>searchParams.set\<close>: the first pair of that name takes the value, the others of the name go;
  without one the pair is appended.
\<close>

definition params_set :: "string \<Rightarrow> string \<Rightarrow> url \<Rightarrow> url" where
  "params_set k v u =
     (let ps = search_params u in
      set_search_params
        (case dropWhile (\<lambda>p. fst p \<noteq> k) ps of
           [] \<Rightarrow> ps @ [(k, v)]
         | _ # rest \<Rightarrow> takeWhile (\<lambda>p. fst p \<noteq> k) ps @ (k, v) # filter (\<lambda>p. fst p \<noteq> k) rest) u)"

section \<open>The codec is a round trip\<close>

lemma hex_val_hex_digit [simp]: "n < 16 \<Longrightarrow> hex_val (hex_digit n) = Some n"
  by (auto simp: hex_val_def hex_digit_def Let_def)

lemma form_safe_not_special: "form_safe c \<Longrightarrow> c \<noteq> CHR ''+'' \<and> c \<noteq> CHR ''%''"
  by (auto simp: form_safe_def Let_def)

lemma form_decode_encode_char: "form_decode (form_encode_char c @ s) = c # form_decode s"
proof (cases "form_safe c \<or> c = CHR '' ''")
  case True
  then show ?thesis
    using form_safe_not_special [of c] by (auto simp: form_encode_char_def)
next
  case False
  have "(of_char c :: nat) div 16 < 16" by (simp add: less_mult_imp_div_less)
  with False show ?thesis
    by (simp add: form_encode_char_def Let_def)
qed

lemma form_decode_encode [simp]: "form_decode (form_encode s) = s"
  by (induction s) (simp_all add: form_encode_def form_decode_encode_char [unfolded form_encode_def])

lemma hex_digit_safe: "n < 16 \<Longrightarrow> form_safe (hex_digit n)"
  by (auto simp: hex_digit_def form_safe_def Let_def)

lemma form_encode_no_separator: "c \<in> set (form_encode s) \<Longrightarrow> c \<noteq> CHR ''&'' \<and> c \<noteq> CHR ''=''"
proof (induction s)
  case (Cons x s)
  have hex: "(of_char x :: nat) div 16 < 16" by (simp add: less_mult_imp_div_less)
  have safe: "form_safe d \<Longrightarrow> d \<noteq> CHR ''&'' \<and> d \<noteq> CHR ''=''" for d
    by (auto simp: form_safe_def Let_def)
  have "c \<in> set (form_encode_char x) \<or> c \<in> set (form_encode s)"
    using Cons.prems by (simp add: form_encode_def)
  then show ?case
  proof
    assume "c \<in> set (form_encode_char x)"
    then consider "c = x" "form_safe x" | "c = CHR ''+''" | "c = CHR ''%''"
      | "c = hex_digit (of_char x div 16)" | "c = hex_digit (of_char x mod 16)"
      by (auto simp: form_encode_char_def Let_def split: if_splits)
    then show ?thesis
      using safe hex_digit_safe [OF hex] hex_digit_safe [of "of_char x mod 16"] by cases auto
  qed (rule Cons.IH)
qed (simp add: form_encode_def)

lemma split_pair_encode:
  "split_pair (form_encode k @ ''='' @ form_encode v) = (form_encode k, form_encode v)"
proof -
  have "\<forall>c \<in> set (form_encode k). c \<noteq> CHR ''=''" using form_encode_no_separator by blast
  then show ?thesis by (simp add: split_pair_def takeWhile_append2 dropWhile_append2)
qed

lemma split_on_join:
  "ws \<noteq> [] \<Longrightarrow> \<forall>w \<in> set ws. c \<notin> set w \<Longrightarrow> split_on c (join_with [c] ws) = ws"
  by (induction "[c]" ws rule: join_with.induct) (auto simp: split_on_id split_on_append)

lemma search_params_set [simp]: "search_params (set_search_params ps u) = ps"
proof (cases ps)
  case Nil
  then show ?thesis by (simp add: set_search_params_def search_params_def form_serialize_def)
next
  case (Cons p qs)
  let ?enc = "\<lambda>(k, v). form_encode k @ ''='' @ form_encode v"
  have sep: "\<forall>w \<in> set (map ?enc ps). CHR ''&'' \<notin> set w"
    using form_encode_no_separator by fastforce
  have split: "split_on (CHR ''&'') (form_serialize ps) = map ?enc ps"
    unfolding form_serialize_def using sep Cons by (intro split_on_join) auto
  have "form_serialize ps \<noteq> []"
  proof
    assume "form_serialize ps = []"
    with split have "map ?enc ps = [[]]" by simp
    with Cons show False by (auto split: prod.splits)
  qed
  moreover have "filter (\<lambda>w. w \<noteq> []) (map ?enc ps) = map ?enc ps"
    by (auto simp: filter_id_conv)
  moreover have "map (\<lambda>w. map_prod form_decode form_decode (split_pair w)) (map ?enc ps) = ps"
    by (induction ps) (auto simp: split_pair_encode [simplified])
  ultimately show ?thesis
    by (simp add: set_search_params_def search_params_def Let_def split)
qed

lemma set_search_params_frame [simp]:
  "u_protocol (set_search_params ps u) = u_protocol u"
  "u_hostname (set_search_params ps u) = u_hostname u"
  "u_port (set_search_params ps u) = u_port u"
  "u_username (set_search_params ps u) = u_username u"
  "u_password (set_search_params ps u) = u_password u"
  "u_pathname (set_search_params ps u) = u_pathname u"
  "u_fragment (set_search_params ps u) = u_fragment u"
  by (simp_all add: set_search_params_def)

lemma search_params_delete [simp]:
  "search_params (params_delete k u) = filter (\<lambda>p. fst p \<noteq> k) (search_params u)"
  by (simp add: params_delete_def)

lemma params_set_lookup: "map_of (search_params (params_set k v u)) k = Some v"
proof -
  have skip: "map_of (takeWhile (\<lambda>p. fst p \<noteq> k) ps) k = None" for ps :: "(string \<times> string) list"
    by (induction ps) auto
  have none: "map_of ps k = None" if "dropWhile (\<lambda>p. fst p \<noteq> k) ps = []" for ps :: "(string \<times> string) list"
    using that by (induction ps) (auto split: if_splits)
  show ?thesis
    by (auto simp: params_set_def Let_def map_add_def skip none split: list.splits option.splits)
qed

end
