(* ===== verification/OB_Dom.thy ===== *)
theory OB_Dom
  imports OB_Regex OB_Url
begin

text \<open>
  Parsed documents as the extraction code sees them: trees of elements and text. Parsing HTML and
  printing it again is cheerio's work and stays a parameter; the queries the code makes are functions on
  the trees.
\<close>

section \<open>Trees\<close>

datatype dom =
    Text string
  | Comment
  | Elem string "(string \<times> string) list" "dom list"

fun dom_text :: "dom \<Rightarrow> string" where
  "dom_text (Text s) = s"
| "dom_text Comment = []"
| "dom_text (Elem n a cs) = concat (map dom_text cs)"

fun dom_name :: "dom \<Rightarrow> string" where
  "dom_name (Elem n a cs) = to_lower n"
| "dom_name _ = []"

fun dom_attr :: "string \<Rightarrow> dom \<Rightarrow> string option" where
  "dom_attr k (Elem n a cs) = map_of a k"
| "dom_attr k _ = None"

definition attr_or_empty :: "string \<Rightarrow> dom \<Rightarrow> string" where
  "attr_or_empty k d = (case dom_attr k d of Some v \<Rightarrow> v | None \<Rightarrow> [])"

fun contents :: "dom \<Rightarrow> dom list" where
  "contents (Elem n a cs) = cs"
| "contents _ = []"

fun is_element :: "dom \<Rightarrow> bool" where
  "is_element (Elem n a cs) = True"
| "is_element _ = False"

fun is_text :: "dom \<Rightarrow> bool" where
  "is_text (Text s) = True"
| "is_text _ = False"

text \<open>An element and the elements below it, in document order; \<open>find\<close> leaves out the element itself.\<close>

fun elements :: "dom \<Rightarrow> dom list" where
  "elements (Elem n a cs) = Elem n a cs # concat (map elements cs)"
| "elements _ = []"

definition descendants :: "dom \<Rightarrow> dom list" where
  "descendants d = concat (map elements (contents d))"

definition find_all :: "(dom \<Rightarrow> bool) \<Rightarrow> dom \<Rightarrow> dom list" where
  "find_all P d = filter P (descendants d)"

abbreviation named :: "string \<Rightarrow> dom \<Rightarrow> bool" where
  "named n d \<equiv> dom_name d = n"

definition select :: "(dom \<Rightarrow> bool) \<Rightarrow> dom list \<Rightarrow> dom list" where
  "select P doc = filter P (concat (map elements doc))"

definition child_elements :: "dom \<Rightarrow> dom list" where
  "child_elements d = filter is_element (contents d)"

text \<open>Remove the elements that satisfy \<open>P\<close>, which is asked of the tree as it was.\<close>

fun prune :: "(dom \<Rightarrow> bool) \<Rightarrow> dom \<Rightarrow> dom" where
  "prune P (Elem n a cs) = Elem n a (map (prune P) (filter (\<lambda>c. \<not> (is_element c \<and> P c)) cs))"
| "prune P d = d"

definition prune_document :: "(dom \<Rightarrow> bool) \<Rightarrow> dom list \<Rightarrow> dom list" where
  "prune_document P doc = map (prune P) (filter (\<lambda>c. \<not> (is_element c \<and> P c)) doc)"

section \<open>Facts about the queries\<close>

lemma elements_are: "e \<in> set (elements d) \<Longrightarrow> is_element e"
  by (induction d rule: elements.induct) auto

lemma prune_header [simp]:
  "dom_name (prune P d) = dom_name d" "dom_attr k (prune P d) = dom_attr k d" "is_element (prune P d) = is_element d"
  by (cases d; simp)+

lemma elements_eq: "elements d = (if is_element d then d # descendants d else [])"
  by (cases d) (simp_all add: descendants_def)

lemma elements_of_element: "is_element c \<Longrightarrow> elements c = c # descendants c"
  using elements_eq [of c] by argo

lemma elements_of_other: "\<not> is_element c \<Longrightarrow> elements c = []"
  by (cases c) simp_all

lemma in_elements_iff: "e \<in> set (elements c) \<longleftrightarrow> is_element c \<and> (e = c \<or> e \<in> set (descendants c))"
proof (cases "is_element c")
  case True
  then show ?thesis unfolding elements_of_element [OF True] by (simp only: list.set insert_iff simp_thms)
qed (simp add: elements_of_other)

lemma descendants_Elem:
  "e \<in> set (descendants (Elem n a cs)) \<longleftrightarrow> (\<exists>c \<in> set cs. is_element c \<and> (e = c \<or> e \<in> set (descendants c)))"
  by (simp only: descendants_def [of "Elem n a cs"] contents.simps set_concat set_map UN_iff image_image bex_simps in_elements_iff)

lemma descendants_leaf [simp]: "descendants Comment = []" "descendants (Text s) = []"
  by (simp_all add: descendants_def)

text \<open>A property of elements that pruning does not lend them is gone below the root after it was pruned.\<close>

lemma prune_removes:
  assumes local: "\<And>d. is_element d \<Longrightarrow> Q (prune P d) \<Longrightarrow> P d"
  shows "e \<in> set (descendants (prune P d)) \<Longrightarrow> \<not> Q e"
proof (induction d)
  case (Elem n a cs)
  then obtain c where c: "c \<in> set cs" "\<not> (is_element c \<and> P c)" "e \<in> set (elements (prune P c))"
    by (auto simp: descendants_def)
  from c(3) have "is_element c \<and> (e = prune P c \<or> e \<in> set (descendants (prune P c)))"
    unfolding elements_eq [of "prune P c"] by (simp split: if_splits)
  then consider "e = prune P c" "is_element c" | "e \<in> set (descendants (prune P c))" by blast
  then show ?case
  proof cases
    case 1
    with c(2) local [of c] show ?thesis by blast
  next
    case 2
    from Elem.IH [OF c(1) this] show ?thesis .
  qed
qed (simp_all add: descendants_def)

end
