(* ===== verification/OB_Markdown.thy ===== *)
theory OB_Markdown
  imports OB_Dom
begin

text \<open>
  The readable region of a page and its Markdown, \<open>src/src/execution/markdown.ts\<close>, on parsed trees. Scores are
  exact fractions where the source computes with floating-point numbers.
\<close>

section \<open>Text\<close>

definition nbsp :: char where
  "nbsp = CHR 0xA0"

definition newline :: char where
  "newline = CHR 0x0A"

definition blank :: "char \<Rightarrow> bool" where
  "blank c \<longleftrightarrow> c = CHR '' '' \<or> c = CHR 0x09"

definition three_newlines :: rx where
  "three_newlines = seqs [ch newline, ch newline, plus (ch newline)]"

definition clean :: "string \<Rightarrow> string" where
  "clean s =
     trim (rx_replace_all three_newlines (\<lambda>_. [newline, newline])
       (rx_replace_all (plus (RSym blank)) (\<lambda>_. '' '')
         (rx_replace_all (ch nbsp) (\<lambda>_. '' '') s)))"

definition replace_char :: "char \<Rightarrow> string \<Rightarrow> string \<Rightarrow> string" where
  "replace_char c t s = concat (map (\<lambda>d. if d = c then t else [d]) s)"

section \<open>Signals\<close>

definition ignored :: "string list" where
  "ignored = [''script'', ''style'', ''noscript'', ''template'', ''svg'', ''canvas'', ''iframe'', ''form'']"

definition has_class :: "string \<Rightarrow> dom \<Rightarrow> bool" where
  "has_class c d \<longleftrightarrow> c \<in> set (split_on (CHR '' '') (map (\<lambda>x. if is_space x then CHR '' '' else x) (attr_or_empty ''class'' d)))"

definition class_contains :: "string \<Rightarrow> dom \<Rightarrow> bool" where
  "class_contains c d \<longleftrightarrow> str_includes (attr_or_empty ''class'' d) c"

definition articleCandidates :: "dom \<Rightarrow> bool" where
  "articleCandidates d \<longleftrightarrow>
     named ''article'' d \<or> named ''main'' d \<or> dom_attr ''role'' d = Some ''main'' \<or>
     dom_attr ''itemprop'' d = Some ''articleBody'' \<or> str_includes (attr_or_empty ''itemtype'' d) ''Article'' \<or>
     has_class ''article'' d \<or> has_class ''post'' d \<or> has_class ''entry-content'' d \<or>
     class_contains ''article'' d \<or> class_contains ''post'' d \<or> class_contains ''entry-content'' d \<or> class_contains ''story'' d"

definition articleSignals :: "string list" where
  "articleSignals = [''article'', ''articlebody'', ''newsarticle'', ''post'', ''entry-content'', ''story'']"

definition noiseSignals :: "string list" where
  "noiseSignals = [''audio'', ''advert'', ''aside'', ''breadcrumb'', ''comment'', ''footer'', ''menu'', ''most-read'',
     ''navigation'', ''newsletter'', ''player'', ''recommend'', ''related'', ''share'', ''sidebar'', ''social'']"

definition noiseTextPatterns :: "rx list" where
  "noiseTextPatterns =
     [seqs [lit_i ''google'', opt (RSym (\<lambda>c. c = CHR ''-'' \<or> is_space c)), alts [lit_i ''quelle'', lit_i ''source'']],
      seqs [alts [lit_i ''mehr'', lit_i ''more''], plus space, RRep (none_of [newline]) 0 48, plus space,
            alts [lit_i ''artikel'', lit_i ''articles'']]]"

definition paywallPattern :: rx where
  "paywallPattern = alts
     [seqs [lit_i ''weiterlesen'', plus space, lit_i ''mit'', plus space, opt (seqs [lit_i ''ihrem'', plus space]),
            lit_i ''digitalen'', plus space, lit_i ''zugang''],
      lit_i ''paywall'',
      seqs [lit_i ''subscribe'', plus space, lit_i ''to'', plus space, lit_i ''continue''],
      seqs [lit_i ''sign'', plus space, lit_i ''in'', plus space, lit_i ''to'', plus space, lit_i ''continue'']]"

definition blocks :: "string list" where
  "blocks = [''article'', ''aside'', ''blockquote'', ''div'', ''figure'', ''figcaption'', ''footer'', ''header'', ''h1'', ''h2'',
     ''h3'', ''h4'', ''h5'', ''h6'', ''main'', ''ol'', ''p'', ''pre'', ''section'', ''table'', ''ul'']"

definition elementMetadata :: "dom \<Rightarrow> string" where
  "elementMetadata d = to_lower (join_with '' ''
     [dom_name d, attr_or_empty ''id'' d, attr_or_empty ''class'' d, attr_or_empty ''role'' d, attr_or_empty ''itemprop'' d,
      attr_or_empty ''itemtype'' d])"

definition hasAny :: "string \<Rightarrow> string list \<Rightarrow> bool" where
  "hasAny v signals \<longleftrightarrow> list_ex (\<lambda>s. str_includes v s) signals"

definition isNoiseElement :: "dom \<Rightarrow> bool" where
  "isNoiseElement d \<longleftrightarrow>
     dom_name d \<in> {''nav'', ''footer'', ''aside''} \<or>
     (named ''header'' d \<and> find_all (named ''h1'') d = []) \<or>
     hasAny (elementMetadata d) noiseSignals \<or>
     (length (clean (dom_text d)) \<le> 320 \<and> list_ex (\<lambda>r. rx_test r (clean (dom_text d))) noiseTextPatterns)"

section \<open>The main region\<close>

definition clean_length :: "dom \<Rightarrow> nat" where
  "clean_length d = length (clean (dom_text d))"

definition total_length :: "dom list \<Rightarrow> nat" where
  "total_length ds = sum_list (map clean_length ds)"

definition bonus :: "bool \<Rightarrow> rat \<Rightarrow> rat" where
  "bonus b n = (if b then n else 0)"

text \<open>\<open>None\<close> is minus infinity.\<close>

definition candidateScore :: "dom \<Rightarrow> rat option" where
  "candidateScore d =
     (let len = clean_length d; metadata = elementMetadata d in
      if len < 120 then None
      else
        (let paragraphs = find_all (named ''p'') d;
             linkDensity = of_nat (total_length (find_all (named ''a'') d)) / of_nat (max 1 len);
             semanticBonus = bonus (named ''article'' d) 2000 + bonus (str_includes metadata ''articlebody'') 2400
               + bonus (hasAny metadata articleSignals) 1200 + bonus (find_all (named ''h1'') d \<noteq> []) 1600
               + bonus (find_all (named ''h2'') d \<noteq> []) 120;
             descendantPenalty = sum_list (map (\<lambda>c. min 600 (clean_length c)) (filter isNoiseElement (descendants d)))
         in Some (of_nat (min 9000 len) * (1/4) + of_nat (min 6000 (total_length paragraphs)) * (9/10)
                  + of_nat (length paragraphs) * 140 + semanticBonus - linkDensity * of_nat len * (14/10)
                  - bonus (hasAny metadata noiseSignals) 3000 - of_nat descendantPenalty)))"

text \<open>For every \<open>h1\<close> its ancestors, nearest first.\<close>

fun heading_ancestors :: "dom list \<Rightarrow> dom \<Rightarrow> dom list list" where
  "heading_ancestors up (Elem n a cs) =
     (if to_lower n = ''h1'' then [up] else []) @ concat (map (heading_ancestors (Elem n a cs # up)) cs)"
| "heading_ancestors up d = []"

definition candidates :: "dom list \<Rightarrow> dom list" where
  "candidates doc =
     select articleCandidates doc
     @ concat (map (\<lambda>up. filter (\<lambda>d. \<not> named ''body'' d \<and> \<not> named ''html'' d) (take 6 up))
         (concat (map (heading_ancestors []) doc)))"

text \<open>The first candidate with the highest score.\<close>

fun best_candidate :: "(dom \<times> rat) list \<Rightarrow> (dom \<times> rat) option" where
  "best_candidate [] = None"
| "best_candidate ((d, q) # rest) =
     (case best_candidate rest of
        None \<Rightarrow> Some (d, q)
      | Some (e, r) \<Rightarrow> if r \<le> q then Some (d, q) else Some (e, r))"

definition scored :: "dom list \<Rightarrow> (dom \<times> rat) list" where
  "scored ds = concat (map (\<lambda>d. case candidateScore d of Some q \<Rightarrow> [(d, q)] | None \<Rightarrow> []) ds)"

definition first_body :: "dom list \<Rightarrow> dom option" where
  "first_body doc = (case select (named ''body'') doc of [] \<Rightarrow> None | d # _ \<Rightarrow> Some d)"

definition mainContent :: "dom list \<Rightarrow> dom option" where
  "mainContent doc =
     (case best_candidate (scored (candidates doc)) of Some (d, _) \<Rightarrow> Some d | None \<Rightarrow> first_body doc)"

definition removeNoise :: "dom \<Rightarrow> dom" where
  "removeNoise = prune isNoiseElement"

section \<open>The end of the readable part\<close>

text \<open>Positions of the elements below a root, in document order.\<close>

fun element_paths :: "dom \<Rightarrow> nat list list" and paths_from :: "nat \<Rightarrow> dom list \<Rightarrow> nat list list" where
  "element_paths (Elem n a cs) = paths_from 0 cs"
| "element_paths d = []"
| "paths_from i [] = []"
| "paths_from i (c # cs) =
     (if is_element c then [i] # map ((#) i) (element_paths c) else []) @ paths_from (Suc i) cs"

fun at_path :: "nat list \<Rightarrow> dom \<Rightarrow> dom option" where
  "at_path [] d = Some d"
| "at_path (i # p) d = (if i < length (contents d) then at_path p (contents d ! i) else None)"

fun edit_at :: "nat list \<Rightarrow> (dom list \<Rightarrow> dom list) \<Rightarrow> dom \<Rightarrow> dom" where
  "edit_at [] f (Elem n a cs) = Elem n a (f cs)"
| "edit_at (i # p) f (Elem n a cs) = (if i < length cs then Elem n a (cs[i := edit_at p f (cs ! i)]) else Elem n a cs)"
| "edit_at p f d = d"

definition length_at :: "dom \<Rightarrow> nat list \<Rightarrow> nat" where
  "length_at d p = (case at_path p d of Some e \<Rightarrow> clean_length e | None \<Rightarrow> 0)"

definition paywalled :: "dom \<Rightarrow> nat list \<Rightarrow> bool" where
  "paywalled d p \<longleftrightarrow> (case at_path p d of Some e \<Rightarrow> rx_test paywallPattern (clean (dom_text e)) | None \<Rightarrow> False)"

text \<open>The first of the shortest.\<close>

fun first_shortest :: "('a \<Rightarrow> nat) \<Rightarrow> 'a list \<Rightarrow> 'a option" where
  "first_shortest f [] = None"
| "first_shortest f (x # xs) =
     (case first_shortest f xs of None \<Rightarrow> Some x | Some y \<Rightarrow> if f x \<le> f y then Some x else Some y)"

definition paywall_marker :: "dom \<Rightarrow> nat list option" where
  "paywall_marker d = first_shortest (length_at d) (filter (paywalled d) (element_paths d))"

text \<open>The boundary climbs while it is the only element of its parent, but never to the root.\<close>

function climb :: "dom \<Rightarrow> nat list \<Rightarrow> nat list" where
  "climb d p =
     (if length p \<le> 1 then p
      else (case at_path (butlast p) d of
          Some parent \<Rightarrow> if length (child_elements parent) = 1 then climb d (butlast p) else p
        | None \<Rightarrow> p))"
  by pat_completeness auto

termination
  by (relation "measure (\<lambda>(d, p). length p)") auto

declare climb.simps [simp del]

text \<open>\<open>nextAll\<close> is the elements that follow; text that follows stays.\<close>

definition cut_from :: "nat \<Rightarrow> dom list \<Rightarrow> dom list" where
  "cut_from i cs = take i cs @ filter (\<lambda>c. \<not> is_element c) (drop (Suc i) cs)"

definition trimAtPaywall :: "dom \<Rightarrow> dom \<times> bool" where
  "trimAtPaywall d =
     (case paywall_marker d of
        None \<Rightarrow> (d, False)
      | Some marker \<Rightarrow>
          (let boundary = climb d marker in (edit_at (butlast boundary) (cut_from (last boundary)) d, True)))"

text \<open>cheerio: \<open>load\<close> and the printer.\<close>

record cheerio =
  html_load :: "string \<Rightarrow> dom list"
  html_print :: "dom \<Rightarrow> string"

definition readable_region :: "dom list \<Rightarrow> (dom \<times> bool) option" where
  "readable_region doc =
     map_option (\<lambda>root. trimAtPaywall (removeNoise root)) (mainContent (prune_document (\<lambda>d. dom_name d \<in> set ignored) doc))"

definition readableContentHtml :: "cheerio \<Rightarrow> string \<Rightarrow> string \<times> bool" where
  "readableContentHtml K html =
     (case readable_region (html_load K html) of
        None \<Rightarrow> ([], False)
      | Some (d, paywall) \<Rightarrow> (html_print K d, paywall))"

section \<open>Markdown\<close>

text \<open>\<open>resolve value base\<close> is \<open>new URL(value, base)\<close>.\<close>

definition absoluteUrl :: "(string \<Rightarrow> string \<Rightarrow> url option) \<Rightarrow> string \<Rightarrow> string \<Rightarrow> string option" where
  "absoluteUrl resolve baseUrl v =
     (case resolve v baseUrl of
        Some u \<Rightarrow> if u_protocol u = ''http:'' \<or> u_protocol u = ''https:'' then Some (url_href u) else None
      | None \<Rightarrow> None)"

definition backtick :: string where
  "backtick = [CHR 0x60]"

fun inline :: "(string \<Rightarrow> string option) \<Rightarrow> dom \<Rightarrow> string" where
  "inline L (Text s) = s"
| "inline L Comment = []"
| "inline L (Elem n a cs) =
     (let name = to_lower n; children = concat (map (inline L) cs); t = clean children;
          attr = (\<lambda>k. case map_of a k of Some v \<Rightarrow> v | None \<Rightarrow> [])
      in if t = [] \<and> name \<noteq> ''img'' then []
         else if name = ''a'' then
           (case L (attr ''href'') of
              Some href \<Rightarrow> ''['' @ (if t \<noteq> [] then t else href) @ ''](''  @ href @ '')''
            | None \<Rightarrow> t)
         else if name = ''img'' then
           (case L (attr ''src'') of
              Some src \<Rightarrow> ''!['' @ clean (attr ''alt'') @ '']('' @ src @ '')''
            | None \<Rightarrow> clean (attr ''alt''))
         else if name = ''code'' then backtick @ replace_char (CHR 0x60) (CHR 0x5C # backtick) t @ backtick
         else if name = ''strong'' \<or> name = ''b'' then (if t \<noteq> [] then ''**'' @ t @ ''**'' else [])
         else if name = ''em'' \<or> name = ''i'' then (if t \<noteq> [] then ''*'' @ t @ ''*'' else [])
         else if name = ''br'' then [newline]
         else children)"

definition is_list :: "dom \<Rightarrow> bool" where
  "is_list d \<longleftrightarrow> dom_name d = ''ul'' \<or> dom_name d = ''ol''"

definition item_line :: "(string \<Rightarrow> string option) \<Rightarrow> bool \<Rightarrow> nat \<Rightarrow> nat \<Rightarrow> dom list \<Rightarrow> string list \<Rightarrow> string" where
  "item_line L ordered depth i ks inner =
     (let body = concat (map (inline L) (filter (\<lambda>k. \<not> is_list k) ks));
          nested = join_with [newline] inner;
          marker = (if ordered then show_nat (i + 1) @ ''.'' else ''-'')
      in concat (replicate depth ''  '') @ marker @ '' '' @ clean body @ (if nested \<noteq> [] then newline # nested else []))"

fun md_list :: "(string \<Rightarrow> string option) \<Rightarrow> nat \<Rightarrow> dom \<Rightarrow> string"
  and md_items :: "(string \<Rightarrow> string option) \<Rightarrow> bool \<Rightarrow> nat \<Rightarrow> nat \<Rightarrow> dom list \<Rightarrow> string list"
  and md_nested :: "(string \<Rightarrow> string option) \<Rightarrow> nat \<Rightarrow> dom list \<Rightarrow> string list" where
  "md_list L depth (Elem n a cs) = join_with [newline] (md_items L (to_lower n = ''ol'') depth 0 cs)"
| "md_list L depth d = []"
| "md_items L ordered depth i [] = []"
| "md_items L ordered depth i (Elem n a ks # cs) =
     (if to_lower n = ''li''
      then item_line L ordered depth i ks (md_nested L depth ks) # md_items L ordered depth (Suc i) cs
      else md_items L ordered depth i cs)"
| "md_items L ordered depth i (d # cs) = md_items L ordered depth i cs"
| "md_nested L depth [] = []"
| "md_nested L depth (k # ks) = (if is_list k then [md_list L (Suc depth) k] else []) @ md_nested L depth ks"

definition table_row :: "string list \<Rightarrow> string" where
  "table_row cells = ''| '' @ join_with '' | '' cells @ '' |''"

definition md_table :: "(string \<Rightarrow> string option) \<Rightarrow> dom \<Rightarrow> string" where
  "md_table L d =
     (case map (\<lambda>row. map (\<lambda>cell. replace_char (CHR ''|'') [CHR 0x5C, CHR ''|''] (clean (inline L cell)))
                     (filter (\<lambda>c. dom_name c = ''th'' \<or> dom_name c = ''td'') (contents row)))
             (find_all (named ''tr'') d) of
        [] \<Rightarrow> []
      | header # body \<Rightarrow>
          if header = [] then []
          else join_with [newline] (table_row header # table_row (map (\<lambda>_. ''---'') header) # map table_row body))"

text \<open>\<open>/language-([\w-]+)/\<close>: the first group of the first match.\<close>

fun language_of :: "string \<Rightarrow> string" where
  "language_of [] = []"
| "language_of (c # s) =
     (let w = takeWhile (\<lambda>x. word_char x \<or> x = CHR ''-'') (drop 8 s) in
      if starts_with (c # s) ''language-'' \<and> w \<noteq> [] then w else language_of s)"

definition code_language :: "dom \<Rightarrow> string" where
  "code_language d = (case find_all (named ''code'') d of [] \<Rightarrow> [] | c # _ \<Rightarrow> language_of (attr_or_empty ''class'' c))"

definition fence :: string where
  "fence = concat (replicate 3 backtick)"

definition heading_level :: "string \<Rightarrow> nat option" where
  "heading_level name =
     (if name = ''h1'' then Some 1 else if name = ''h2'' then Some 2 else if name = ''h3'' then Some 3
      else if name = ''h4'' then Some 4 else if name = ''h5'' then Some 5 else if name = ''h6'' then Some 6 else None)"

fun md_block :: "(string \<Rightarrow> string option) \<Rightarrow> dom \<Rightarrow> string" where
  "md_block L (Elem n a cs) =
     (let name = to_lower n; d = Elem n a cs in
      case heading_level name of
        Some k \<Rightarrow> replicate k (CHR ''#'') @ '' '' @ clean (inline L d)
      | None \<Rightarrow>
          if name = ''pre'' then fence @ code_language d @ [newline] @ trim (dom_text d) @ [newline] @ fence
          else if name = ''blockquote'' then
            join_with [newline] (map (\<lambda>line. ''> '' @ trim line) (filter (\<lambda>line. line \<noteq> []) (split_on newline (clean (dom_text d)))))
          else if name = ''ul'' \<or> name = ''ol'' then md_list L 0 d
          else if name = ''table'' then md_table L d
          else if name = ''hr'' then ''---''
          else if name = ''img'' then inline L d
          else clean (join_with (if name = ''p'' then [] else [newline])
                 (map (\<lambda>c. if dom_name c \<in> set blocks then md_block L c else inline L c) cs)))"
| "md_block L (Text s) = s"
| "md_block L Comment = []"

definition paywall_notice :: string where
  "paywall_notice = ''> Paywall notice: Further article text requires access.''"

definition htmlToMarkdown :: "cheerio \<Rightarrow> (string \<Rightarrow> string \<Rightarrow> url option) \<Rightarrow> string \<Rightarrow> string \<Rightarrow> string" where
  "htmlToMarkdown K resolve html baseUrl =
     (case readableContentHtml K html of
        (readable, paywall) \<Rightarrow>
          if readable = [] then []
          else (case first_body (html_load K readable) of
              None \<Rightarrow> []
            | Some body \<Rightarrow>
                (let parts = map (md_block (absoluteUrl resolve baseUrl)) (contents body);
                     markdown = clean (join_with [newline, newline] (filter (\<lambda>p. p \<noteq> []) parts))
                 in if paywall then clean (markdown @ [newline, newline] @ paywall_notice) else markdown)))"

end
