(* ===== verification/OB_Types.thy ===== *)
theory OB_Types
  imports OB_Prelude
begin

text \<open>
  The data of \<open>src/src/execution/types.ts\<close> and \<open>src/src/storage/types.ts\<close>: every literal
  union of the TypeScript source is a datatype, every interface a record whose optional fields
  are options. Record fields carry a short prefix where two interfaces share a field name.
\<close>

section \<open>Browser backends\<close>

datatype backend = Playwright | Patchright | CloakBrowser | Camoufox | Clearcote

definition browserBackendIds :: "backend list" where
  "browserBackendIds = [Playwright, Patchright, CloakBrowser, Camoufox, Clearcote]"

fun backend_id :: "backend \<Rightarrow> string" where
  "backend_id Playwright = ''playwright-chromium''"
| "backend_id Patchright = ''patchright-chromium''"
| "backend_id CloakBrowser = ''cloakbrowser-chromium''"
| "backend_id Camoufox = ''camoufox-firefox''"
| "backend_id Clearcote = ''clearcote-chromium''"

definition backend_of_id :: "string \<Rightarrow> backend option" where
  "backend_of_id s = find (\<lambda>b. backend_id b = s) browserBackendIds"

lemma backend_of_id_backend_id [simp]: "backend_of_id (backend_id b) = Some b"
  by (cases b) (simp_all add: backend_of_id_def browserBackendIds_def)

lemma backend_of_id_Some: "backend_of_id s = Some b \<Longrightarrow> s = backend_id b"
  by (auto simp: backend_of_id_def find_Some_iff)

lemma browserBackendIds_all [simp]: "b \<in> set browserBackendIds"
  by (cases b) (simp_all add: browserBackendIds_def)

text \<open>The declaration order of the identifiers, for the library's sorted containers.\<close>

fun backend_rank :: "backend \<Rightarrow> nat" where
  "backend_rank Playwright = 0"
| "backend_rank Patchright = 1"
| "backend_rank CloakBrowser = 2"
| "backend_rank Camoufox = 3"
| "backend_rank Clearcote = 4"

lemma backend_rank_inject: "backend_rank a = backend_rank b \<longleftrightarrow> a = b"
  by (cases a; cases b) simp_all

instantiation backend :: linorder
begin

definition less_eq_backend :: "backend \<Rightarrow> backend \<Rightarrow> bool" where
  "less_eq_backend a b \<longleftrightarrow> backend_rank a \<le> backend_rank b"

definition less_backend :: "backend \<Rightarrow> backend \<Rightarrow> bool" where
  "less_backend a b \<longleftrightarrow> backend_rank a < backend_rank b"

instance
  by standard (auto simp: less_eq_backend_def less_backend_def backend_rank_inject)

end

lemma finite_backends: "finite (UNIV :: backend set)"
  by (rule finite_subset [of _ "set browserBackendIds"]) auto

section \<open>Requests\<close>

datatype strategy = Auto | HttpOnly | BrowserOnly

datatype output_kind = OutHtml | OutText | OutMarkdown | OutLinks | OutMetadata | OutArticle | OutProvenance

datatype humanization_value = HNum rat | HBool bool | HRange rat rat

datatype camoufox_os = OsWindows | OsMacos | OsLinux

datatype locale_option = OneLocale string | ManyLocales "string list"

datatype camoufox_humanize = CHBool bool | CHNum rat

record camoufox_options =
  cam_os :: "camoufox_os option"
  cam_locale :: "locale_option option"
  cam_humanize :: "camoufox_humanize option"
  cam_blockImages :: "bool option"
  cam_blockWebrtc :: "bool option"
  cam_enableCache :: "bool option"

datatype human_preset = PresetDefault | PresetCareful

record backend_options =
  fingerprintArgs :: "string list option"
  humanize :: "bool option"
  humanPreset :: "human_preset option"
  humanConfig :: "(string \<times> humanization_value) list option"
  camoufox :: "camoufox_options option"

datatype navigation_wait = WaitLoad | WaitDomContentLoaded | WaitNetworkIdle

datatype element_state = Attached | Visible

datatype browser_wait =
    BwDomContentLoaded
  | BwLoad
  | BwNetworkIdle "millis option"
  | BwSelector string "element_state option"
  | BwDelay millis
  | BwStability "millis option" "millis option"

record viewport =
  vp_width :: int
  vp_height :: int
  vp_deviceScaleFactor :: "rat option"

section \<open>Stored records\<close>

record artifact =
  art_id :: string
  art_ownerKeyHash :: string
  art_path :: string
  art_contentType :: string
  art_bytes :: nat
  art_createdAt :: millis
  art_expiresAt :: millis

record stored_session =
  ses_id :: string
  ses_ownerKeyHash :: "string option"
  ses_persistent :: bool
  ses_createdAt :: millis
  ses_expiresAt :: millis
  ses_viewport :: "int \<times> int"
  ses_proxyId :: "string option"
  ses_storageState :: "string option"
  ses_liveViewer :: bool

record stored_proxy =
  pxy_id :: string
  pxy_ownerKeyHash :: string
  pxy_name :: string
  pxy_url :: string
  pxy_allowedDomains :: "string list"

record stored_profile =
  prf_id :: string
  prf_ownerKeyHash :: string
  prf_name :: string
  prf_storageState :: string
  prf_createdAt :: millis
  prf_updatedAt :: millis

datatype job_status = Queued | Running | Complete | Failed

record stored_job =
  job_id :: string
  job_ownerKeyHash :: string
  job_operation :: string
  job_request :: string
  job_status :: job_status
  job_artifactId :: "string option"
  job_result :: "string option"
  job_error :: "string option"
  job_expiresAt :: millis

record stored_replay =
  rpl_id :: string
  rpl_ownerKeyHash :: string
  rpl_sessionId :: string
  rpl_artifactId :: string
  rpl_createdAt :: millis
  rpl_expiresAt :: millis

record stored_webhook =
  whk_id :: string
  whk_ownerKeyHash :: string
  whk_url :: string
  whk_events :: "string list"
  whk_secret :: string

record usage_summary =
  use_day :: string
  use_requests :: nat
  use_successful :: nat
  use_failed :: nat

section \<open>Plans, analyses and results\<close>

record fetch_input =
  in_url :: string
  in_strategy :: "strategy option"
  in_timeoutMs :: "millis option"
  in_headers :: "(string \<times> string) list option"
  in_waitUntil :: "navigation_wait option"
  in_wait :: "browser_wait option"
  in_browserBackend :: "backend option"
  in_browserOptions :: "backend_options option"
  in_viewport :: "viewport option"
  in_proxy :: "stored_proxy option"

datatype stage = StageHttp | StageBrowser

datatype planned_strategy = PlanHttp | PlanHttpThenBrowser | PlanBrowser | PlanPersistentSession

datatype planner_reason =
    ExplicitHttp
  | ExplicitBrowser
  | AutoHttpFirst
  | ClientRenderedShell
  | HttpContentSufficient
  | HttpStatusTerminal
  | NonHtmlResponse
  | PersistentSession
  | BrowserCapacityUnavailable

fun planner_reason_id :: "planner_reason \<Rightarrow> string" where
  "planner_reason_id ExplicitHttp = ''explicit-http''"
| "planner_reason_id ExplicitBrowser = ''explicit-browser''"
| "planner_reason_id AutoHttpFirst = ''auto-http-first''"
| "planner_reason_id ClientRenderedShell = ''client-rendered-shell''"
| "planner_reason_id HttpContentSufficient = ''http-content-sufficient''"
| "planner_reason_id HttpStatusTerminal = ''http-status-terminal''"
| "planner_reason_id NonHtmlResponse = ''non-html-response''"
| "planner_reason_id PersistentSession = ''persistent-session''"
| "planner_reason_id BrowserCapacityUnavailable = ''browser-capacity-unavailable''"

datatype requested_strategy = Requested strategy | RequestedSession

datatype cost_basis = BasisHttp | BasisBrowser

datatype cache_reason = PublicRequest | PrivateRequestHeaders | CallerDisabled | ChallengeResponse

record execution_plan =
  plan_strategy :: planned_strategy
  plan_requestedStrategy :: requested_strategy
  plan_stages :: "stage list"
  plan_browserBackend :: "backend option"
  plan_reason :: planner_reason
  plan_attemptBudget :: nat
  plan_estimatedMemoryMb :: nat
  plan_costUnits :: nat
  plan_costBasis :: cost_basis
  plan_cacheEligible :: bool
  plan_cacheEligibility :: "bool \<times> cache_reason"
  plan_browserRequired :: bool
  plan_signals :: "string list"

text \<open>
  The four reasons of a \<open>ClientRenderAnalysis\<close> are planner reasons; the source's narrower
  union is the predicate \<open>analysis_reason\<close>.
\<close>

record client_render_analysis =
  an_browserRecommended :: bool
  an_reason :: planner_reason
  an_signals :: "string list"
  an_textChars :: nat
  an_htmlChars :: nat
  an_scriptChars :: nat
  an_scriptCount :: nat
  an_meaningfulTextDensity :: rat

definition analysis_reason :: "planner_reason \<Rightarrow> bool" where
  "analysis_reason r \<longleftrightarrow>
     r \<in> {ClientRenderedShell, HttpContentSufficient, HttpStatusTerminal, NonHtmlResponse}"

record execution_timings =
  t_httpMs :: millis
  t_browserAcquireMs :: millis
  t_navigationMs :: millis
  t_settleMs :: millis
  t_extractionMs :: millis
  t_browserMs :: millis

datatype timeline_event =
    EvAccepted
  | EvHttpStarted
  | EvHttpCompleted
  | EvContentAnalyzed
  | EvBrowserRequired
  | EvBackendSelected
  | EvBrowserAcquired
  | EvDomContentLoaded
  | EvDomSettled
  | EvExtractionComplete

record timeline_entry =
  tl_atMs :: millis
  tl_event :: timeline_event
  tl_detail :: "string option"

datatype decision_reason = RequestedSupportedBackend | DefaultCompatibleBackend | ChallengeFallback

text \<open>What was resolved for a backend that has options of its own.\<close>

record resolved_camoufox =
  rc_os :: camoufox_os
  rc_locale :: "locale_option option"
  rc_humanize :: camoufox_humanize
  rc_blockImages :: bool
  rc_blockWebrtc :: bool
  rc_enableCache :: bool

record backend_configuration =
  bc_fingerprintArgs :: "string list option"
  bc_humanize :: "bool option"
  bc_humanPreset :: "human_preset option"
  bc_humanConfigKeys :: "string list option"
  bc_camoufox :: "resolved_camoufox option"

record execution_report =
  ex_plan :: execution_plan
  ex_escalationReason :: "planner_reason option"
  ex_backendAttempts :: "backend list"
  ex_selectedBackend :: "backend option"
  ex_backendDecisionReason :: "decision_reason option"
  ex_backendConfiguration :: "backend_configuration option"
  ex_challengeDetected :: "bool option"
  ex_challengeRemaining :: "bool option"
  ex_timings :: execution_timings
  ex_strategyRequested :: strategy
  ex_strategyUsed :: stage
  ex_escalated :: bool
  ex_analysis :: "client_render_analysis option"
  ex_timeline :: "timeline_entry list"

record fetch_result =
  fr_sourceUrl :: string
  fr_status :: int
  fr_finalUrl :: string
  fr_strategy :: stage
  fr_attempted :: "stage list"
  fr_contentType :: string
  fr_html :: "string option"
  fr_fetchMs :: millis
  fr_browserMs :: millis
  fr_networkBytes :: nat
  fr_execution :: execution_report

end
