(* ===== verification/OB_Analysis.thy ===== *)
theory OB_Analysis
  imports OB_Regex OB_Types
begin

text \<open>
  The text analysis of \<open>src/src/execution/shared.ts\<close>: whether a page is the shell of a client-rendered
  application and whether it shows an access challenge. The HTML parser is a parameter that gives the
  facts the analysis asks it for.
\<close>

section \<open>Access challenges\<close>

definition quote_chars :: string where
  "quote_chars = [CHR 0x22, CHR 0x27]"

definition challenge_title :: rx where
  "challenge_title = seqs [lit_i ''<title'', RStar (none_of ''>''), ch (CHR ''>''), RStar space, lit_i ''just a moment'',
     opt (lit ''...''), RStar space, lit_i ''</title>'']"

definition challenge_attribute :: rx where
  "challenge_attribute = seqs [alts [lit_i ''id'', lit_i ''class'', lit_i ''src''], ch (CHR ''=''), one_of quote_chars,
     RStar (none_of quote_chars), alts [lit_i ''captcha'', lit_i ''recaptcha'', lit_i ''hcaptcha'', lit_i ''cf-chl-''],
     RStar (none_of quote_chars), one_of quote_chars]"

definition challenge_widget :: rx where
  "challenge_widget = alts [lit_i ''data-sitekey'', lit_i ''challenges.cloudflare.com/turnstile'']"

definition hasAccessChallenge :: "string \<Rightarrow> bool" where
  "hasAccessChallenge html \<longleftrightarrow>
     rx_test challenge_title html \<or> rx_test challenge_attribute html \<or> rx_test challenge_widget html"

section \<open>Client rendering\<close>

text \<open>
  What the analysis reads from the parsed document: the scripts with their inner HTML and source, the
  number of module scripts, the text of the document without its scripts, styles and templates, and for a
  selector the text and the number of children of the first node it finds in that document.
\<close>

record page_facts =
  pf_scripts :: "(string option \<times> string option) list"
  pf_moduleScripts :: nat
  pf_text :: string
  pf_first :: "string \<Rightarrow> (string \<times> nat) option"

type_synonym html_parser = "string \<Rightarrow> page_facts"

definition collapse_spaces :: "string \<Rightarrow> string" where
  "collapse_spaces s = trim (rx_replace_all (plus space) (\<lambda>_. '' '') s)"

definition app_roots :: "string list" where
  "app_roots = [''#root'', ''#app'', ''#__next'', ''#svelte'']"

definition emptyRoots :: "page_facts \<Rightarrow> string list" where
  "emptyRoots d =
     filter (\<lambda>selector. case pf_first d selector of
               None \<Rightarrow> False
             | Some (t, children) \<Rightarrow> length (trim t) < 40 \<and> children < 3) app_roots"

definition word_or_dash :: rx where
  "word_or_dash = RSym (\<lambda>c. word_char c \<or> c = CHR ''-'')"

definition hex_i :: rx where
  "hex_i = RSym (\<lambda>c. is_digit c \<or> lower_char c \<in> set ''abcdef'')"

definition frameworkMarkers :: "(string \<times> rx) list" where
  "frameworkMarkers =
     [(''react'', alts [seqs [lit_i ''react'', opt (lit_i ''dom'')], lit_i ''data-reactroot'',
                        lit_i ''__REACT_DEVTOOLS_GLOBAL_HOOK__'']),
      (''vite'', alts [lit_i ''/@vite'', seqs [lit_i ''vite'', opt (lit_i ''/client'')],
                       seqs [lit_i ''assets/index-'', plus word_or_dash, lit_i ''.js'']]),
      (''next'', alts [lit_i ''__NEXT_DATA__'', lit_i ''/_next/'']),
      (''vue'', alts [seqs [lit_i ''data-v-'', plus hex_i], lit_i ''__VUE__'', seqs [lit_i ''vue'', opt (lit_i ''.runtime'')]]),
      (''angular'', alts [lit_i ''ng-version'', lit_i ''<app-root'', lit_i ''zone.js'']),
      (''svelte'', alts [seqs [lit_i ''svelte-'', plus word_or_dash], lit_i ''__svelte''])]"

definition module_script_tag :: rx where
  "module_script_tag = seqs [lit_i ''<script'', plus (none_of ''>''), lit_i ''type='', one_of quote_chars, lit_i ''module'',
     one_of quote_chars]"

definition loading_placeholder :: rx where
  "loading_placeholder = seqs [ch (CHR ''<''), alts [lit_i ''div'', lit_i ''section''], plus (none_of ''>''),
     alts [lit_i ''skeleton'', lit_i ''loading'', lit_i ''spinner'', lit_i ''shimmer'']]"

fun join_commas :: "string list \<Rightarrow> string" where
  "join_commas [] = []"
| "join_commas [s] = s"
| "join_commas (s # t # ss) = s @ '','' @ join_commas (t # ss)"

definition framework_signals :: "string \<Rightarrow> string list" where
  "framework_signals html = map (\<lambda>(name, _). ''framework:'' @ name) (filter (\<lambda>(_, r). rx_test r html) frameworkMarkers)"

definition render_signals :: "string \<Rightarrow> page_facts \<Rightarrow> nat \<Rightarrow> rat \<Rightarrow> string list" where
  "render_signals html d textChars density =
     (if emptyRoots d \<noteq> [] then [''empty-app-root:'' @ join_commas (emptyRoots d)] else [])
     @ (if pf_moduleScripts d > 0 \<or> rx_test module_script_tag html then [''module-script''] else [])
     @ framework_signals html
     @ (if rx_test loading_placeholder html then [''loading-placeholder''] else [])
     @ (if length (pf_scripts d) \<ge> 6 \<and> density < 3 / 100 then [''script-heavy-low-text''] else [])
     @ (if textChars < 200 then [''minimal-visible-text''] else [])"

definition no_browser_needed :: "planner_reason \<Rightarrow> string \<Rightarrow> nat \<Rightarrow> client_render_analysis" where
  "no_browser_needed reason signal htmlChars =
     \<lparr>an_browserRecommended = False, an_reason = reason, an_signals = [signal], an_textChars = 0,
      an_htmlChars = htmlChars, an_scriptChars = 0, an_scriptCount = 0, an_meaningfulTextDensity = 0\<rparr>"

definition script_length :: "string option \<times> string option \<Rightarrow> nat" where
  "script_length s = (case s of (inner, src) \<Rightarrow>
     (case inner of Some t \<Rightarrow> length t | None \<Rightarrow> 0) + (case src of Some t \<Rightarrow> length t | None \<Rightarrow> 0))"

definition structural_shell :: "page_facts \<Rightarrow> string list \<Rightarrow> bool" where
  "structural_shell d signals \<longleftrightarrow>
     emptyRoots d \<noteq> [] \<and> list_ex (\<lambda>v. starts_with v ''framework:'' \<or> v = ''module-script'') signals"

definition recommends_browser :: "page_facts \<Rightarrow> string list \<Rightarrow> nat \<Rightarrow> bool" where
  "recommends_browser d signals textChars \<longleftrightarrow>
     structural_shell d signals \<or>
     (''script-heavy-low-text'' \<in> set signals \<and> textChars < 500) \<or>
     (''loading-placeholder'' \<in> set signals \<and> textChars < 300)"

definition analyzeClientRendering :: "html_parser \<Rightarrow> string option \<Rightarrow> int \<Rightarrow> string \<Rightarrow> client_render_analysis" where
  "analyzeClientRendering load html0 status contentType =
     (let html = (case html0 of Some h \<Rightarrow> h | None \<Rightarrow> []) in
      if \<not> str_includes (to_lower contentType) ''html''
      then no_browser_needed NonHtmlResponse ''content-type-not-html'' (length html)
      else if status = 401 \<or> status = 403 \<or> status = 404 \<or> status \<ge> 500
      then no_browser_needed HttpStatusTerminal (''terminal-http-status:'' @ show_int status) (length html)
      else
        (let d = load html;
             textChars = length (collapse_spaces (pf_text d));
             density = to_fixed 4 (of_nat textChars / of_nat (max 1 (length html)));
             signals = render_signals html d textChars density;
             recommended = recommends_browser d signals textChars
         in \<lparr>an_browserRecommended = recommended,
             an_reason = (if recommended then ClientRenderedShell else HttpContentSufficient),
             an_signals = signals, an_textChars = textChars, an_htmlChars = length html,
             an_scriptChars = sum_list (map script_length (pf_scripts d)),
             an_scriptCount = length (pf_scripts d), an_meaningfulTextDensity = density\<rparr>))"

definition appearsClientRendered :: "html_parser \<Rightarrow> string \<Rightarrow> bool" where
  "appearsClientRendered load html = an_browserRecommended (analyzeClientRendering load (Some html) 200 ''text/html'')"

section \<open>A challenge is seen wherever it stands\<close>

text \<open>An expression without the end anchor matches whatever follows.\<close>

fun unanchored :: "rx \<Rightarrow> bool" where
  "unanchored (RSym P) = True"
| "unanchored REps = True"
| "unanchored (RSeq a b) = (unanchored a \<and> unanchored b)"
| "unanchored (RAlt a b) = (unanchored a \<and> unanchored b)"
| "unanchored (RStar a) = unanchored a"
| "unanchored (RLazy a) = unanchored a"
| "unanchored (RRep a m n) = unanchored a"
| "unanchored REnd = False"

lemma match_append: "rx_match r s t \<Longrightarrow> unanchored r \<Longrightarrow> rx_match r (s @ w) (t @ w)"
  by (induction rule: rx_match.induct) (auto intro: rx_match.intros)

lemma test_append: "unanchored r \<Longrightarrow> rx_test r s \<Longrightarrow> rx_test r (s @ w)"
  unfolding rx_test_iff using match_append by (metis suffix_def append.assoc)

lemma test_prepend: "rx_test r s \<Longrightarrow> rx_test r (v @ s)"
  unfolding rx_test_iff using suffix_appendI by blast

lemma unanchored_lit [simp]: "unanchored (lit s)" "unanchored (lit_i s)"
  by (induction s) (simp_all add: lit_def lit_i_def ch_def)

lemma unanchored_build [simp]:
  "unanchored (ch c)" "unanchored (one_of cs)" "unanchored (none_of cs)" "unanchored space"
  "unanchored (opt r) = unanchored r" "unanchored (plus r) = unanchored r"
  "unanchored (seqs rs) = list_all unanchored rs"
  by (simp_all add: ch_def one_of_def none_of_def space_def opt_def plus_def seqs_def)
     (induction rs; simp)

lemma unanchored_challenge:
  "unanchored challenge_title" "unanchored challenge_attribute" "unanchored challenge_widget"
  by (simp_all add: challenge_title_def challenge_attribute_def challenge_widget_def alts_def)

lemma match_lit_i: "rx_match (lit_i p) (p @ s) s"
  by (induction p) (auto simp: lit_i_def intro: rx_match.intros)

lemma challenge_embedded: "hasAccessChallenge h \<Longrightarrow> hasAccessChallenge (v @ h @ w)"
  using test_append [OF unanchored_challenge(1), of h w] test_append [OF unanchored_challenge(2), of h w]
    test_append [OF unanchored_challenge(3), of h w]
  by (auto simp: hasAccessChallenge_def intro: test_prepend)

lemma widget_challenge:
  assumes "rx_match challenge_widget (s @ []) []" shows "hasAccessChallenge s"
  using assms unfolding hasAccessChallenge_def rx_test_iff by (metis append_Nil2 suffix_order.refl)

lemma site_key_challenge: "hasAccessChallenge ''data-sitekey''"
  by (rule widget_challenge, unfold challenge_widget_def alts_def list.case foldl.simps) (rule match_left, rule match_lit_i)

lemma turnstile_challenge: "hasAccessChallenge ''challenges.cloudflare.com/turnstile''"
  by (rule widget_challenge, unfold challenge_widget_def alts_def list.case foldl.simps) (rule match_right, rule match_lit_i)

text \<open>An access challenge is recognised wherever it stands in the page: text before or after it never hides
  it; a site key or the address of the turnstile script is always one.\<close>

theorem challenge_anywhere:
  "(hasAccessChallenge html \<longrightarrow> hasAccessChallenge (before @ html @ after)) \<and>
   hasAccessChallenge (before @ ''data-sitekey'' @ after) \<and>
   hasAccessChallenge (before @ ''challenges.cloudflare.com/turnstile'' @ after)"
  using challenge_embedded challenge_embedded [OF site_key_challenge] challenge_embedded [OF turnstile_challenge] by blast

theorem challenge_anywhere_witness:
  "hasAccessChallenge (''<p>'' @ ''data-sitekey'' @ ''</p>'')"
  using challenge_anywhere [of "''data-sitekey''" "''<p>''" "''</p>''"] by blast

section \<open>The recommendation is explained\<close>

definition explained :: "client_render_analysis \<Rightarrow> bool" where
  "explained a \<longleftrightarrow>
     ((\<exists>v \<in> set (an_signals a). starts_with v ''empty-app-root:'') \<and>
      (\<exists>v \<in> set (an_signals a). starts_with v ''framework:'' \<or> v = ''module-script'')) \<or>
     (''script-heavy-low-text'' \<in> set (an_signals a) \<and> an_textChars a < 500) \<or>
     (''loading-placeholder'' \<in> set (an_signals a) \<and> an_textChars a < 300)"

lemma starts_with_append [simp]: "starts_with (p @ s) p"
  by (simp add: starts_with_def)

lemma empty_root_signal:
  "(\<exists>v \<in> set (render_signals html d n q). starts_with v ''empty-app-root:'') \<longleftrightarrow> emptyRoots d \<noteq> []"
  by (auto simp: render_signals_def framework_signals_def starts_with_def split: if_splits)

text \<open>The recommendation to use a browser is given exactly when the reported signals and text size justify it, it is
  the reason that is reported, and it is never given for a response that is not HTML or whose status ends
  the request; a page with six scripts and hardly any text is recommended whatever its framework.\<close>

theorem render_analysis_explained:
  fixes load html status contentType
  defines "a \<equiv> analyzeClientRendering load html status contentType"
  shows "analysis_reason (an_reason a) \<and> (an_browserRecommended a \<longleftrightarrow> an_reason a = ClientRenderedShell) \<and>
    (an_browserRecommended a \<longleftrightarrow> explained a) \<and>
    (an_browserRecommended a \<longrightarrow> str_includes (to_lower contentType) ''html'' \<and> status < 500 \<and> status \<notin> {401, 403, 404}) \<and>
    0 \<le> an_meaningfulTextDensity a"
proof -
  have not_shell: "\<not> explained (no_browser_needed r s n)"
    if "\<not> starts_with s ''empty-app-root:''" "s \<noteq> ''script-heavy-low-text''" "s \<noteq> ''loading-placeholder''" for r s n
    using that by (simp add: explained_def no_browser_needed_def)
  have shell: "recommends_browser d (render_signals h d n q) n \<longleftrightarrow>
      ((\<exists>v \<in> set (render_signals h d n q). starts_with v ''empty-app-root:'') \<and>
       (\<exists>v \<in> set (render_signals h d n q). starts_with v ''framework:'' \<or> v = ''module-script'')) \<or>
      (''script-heavy-low-text'' \<in> set (render_signals h d n q) \<and> n < 500) \<or>
      (''loading-placeholder'' \<in> set (render_signals h d n q) \<and> n < 300)" for d h n q
    unfolding recommends_browser_def structural_shell_def empty_root_signal list_ex_iff by simp
  show ?thesis
    using not_shell
    by (auto simp: a_def analyzeClientRendering_def Let_def analysis_reason_def no_browser_needed_def explained_def shell
        starts_with_def to_fixed_nonneg)
qed

text \<open>A shell with an empty root and a framework, and what the analysis says of it.\<close>

definition shell_facts :: page_facts where
  "shell_facts = \<lparr>pf_scripts = [(None, Some ''/main.js'')], pf_moduleScripts = 1, pf_text = [],
     pf_first = (\<lambda>q. if q = ''#root'' then Some ([], 0) else None)\<rparr>"

theorem render_analysis_explained_witness:
  "explained (analyzeClientRendering (\<lambda>_. shell_facts) None 200 ''text/html'')"
proof -
  have "an_browserRecommended (analyzeClientRendering (\<lambda>_. shell_facts) None 200 ''text/html'')" by code_simp
  with render_analysis_explained [of "\<lambda>_. shell_facts" None 200 "''text/html''"] show ?thesis by blast
qed

end
