(* ===== verification/OB_Article.thy ===== *)
theory OB_Article
  imports OB_Markdown OB_Analysis OB_Types
begin

text \<open>
  The article of a page, \<open>src/src/execution/article.ts\<close>: metadata from JSON-LD and meta tags, the text of the
  readable region, the classification of its access and the evidence for each claim. \<open>JSON.parse\<close> is a
  parameter that fails on invalid text.
\<close>

section \<open>Access markers\<close>

definition quoted :: "string \<Rightarrow> rx" where
  "quoted s = seqs [ch (CHR 0x22), lit_i s, ch (CHR 0x22)]"

definition restrictedPatterns :: "(string \<times> rx) list" where
  "restrictedPatterns =
     [(''schema-paywall'', seqs [quoted ''isAccessibleForFree'', RStar space, ch (CHR '':''), RStar space,
         alts [lit_i ''false'', quoted ''false'']]),
      (''subscription-required'', alts
         [seqs [lit_i ''subscribe'', plus space, lit_i ''to'', plus space, alts [lit_i ''continue'', lit_i ''read'']],
          seqs [lit_i ''subscription'', plus space, lit_i ''required'']]),
      (''sign-in-required'', seqs [lit_i ''sign'', plus space, lit_i ''in'', plus space, lit_i ''to'', plus space, lit_i ''continue'']),
      (''paywall-marker'', alts [lit_i ''paywall'', lit_i ''meteredContent'', lit_i ''premium-content'']),
      (''german-access-marker'', seqs [lit_i ''weiterlesen'', plus space, lit_i ''mit'', plus space,
         opt (seqs [lit_i ''ihrem'', plus space]), lit_i ''digitalen'', plus space, lit_i ''zugang''])]"

section \<open>Values\<close>

definition clean_text :: "string option \<Rightarrow> string option" where
  "clean_text v =
     (case v of
        None \<Rightarrow> None
      | Some s \<Rightarrow> (let t = collapse_spaces s in if t = [] then None else Some t))"

definition absolute :: "(string \<Rightarrow> string \<Rightarrow> url option) \<Rightarrow> string option \<Rightarrow> string \<Rightarrow> string option" where
  "absolute resolve v base =
     (case v of
        None \<Rightarrow> None
      | Some s \<Rightarrow>
          if s = [] then None
          else (case resolve s base of
              Some u \<Rightarrow> if u_protocol u = ''http:'' \<or> u_protocol u = ''https:'' then Some (url_href u) else None
            | None \<Rightarrow> None))"

definition member :: "string \<Rightarrow> (string \<times> jsval) list \<Rightarrow> jsval" where
  "member k fs = (case map_of fs k of Some v \<Rightarrow> v | None \<Rightarrow> JUndefined)"

text \<open>The values in order: a text counts when something is left of it, a list and an object are searched.\<close>

function firstString :: "jsval list \<Rightarrow> string option" where
  "firstString [] = None"
| "firstString (v # vs) =
     (case (case v of
          JStr s \<Rightarrow> clean_text (Some s)
        | JArr xs \<Rightarrow> firstString xs
        | JObj fs \<Rightarrow> firstString [member ''name'' fs, member ''url'' fs]
        | _ \<Rightarrow> None) of
        Some t \<Rightarrow> Some t
      | None \<Rightarrow> firstString vs)"
  by pat_completeness auto

text \<open>The nesting of a value bounds the recursion.\<close>

fun js_depth :: "jsval \<Rightarrow> nat" where
  "js_depth (JArr xs) = Suc (foldr (\<lambda>v. max (js_depth v)) xs 0)"
| "js_depth (JObj fs) = Suc (foldr (\<lambda>(k, v). max (js_depth v)) fs 0)"
| "js_depth v = 0"

definition js_depths :: "jsval list \<Rightarrow> nat" where
  "js_depths vs = foldr (\<lambda>v. max (js_depth v)) vs 0"

lemma js_depths_simps [simp]: "js_depths [] = 0" "js_depths (v # vs) = max (js_depth v) (js_depths vs)"
  by (simp_all add: js_depths_def)

lemma js_depth_member: "js_depth (member k fs) < js_depth (JObj fs)"
  by (induction fs) (auto simp: member_def less_Suc_eq_le le_max_iff_disj split: option.splits)

termination firstString
proof (relation "measures [js_depths, length]")
  show "([member ''name'' fs, member ''url'' fs], v # vs) \<in> measures [js_depths, length]"
    if "v = JObj fs" for v :: jsval and vs fs
    using js_depth_member [of "''name''" fs] js_depth_member [of "''url''" fs] that by (simp only: in_measures js_depths_simps) linarith
  show "(xs, v # vs) \<in> measures [js_depths, length]" if "v = JArr xs" for v :: jsval and vs xs
    using that by (simp add: js_depths_def [symmetric] less_max_iff_disj less_Suc_eq_le)
qed auto

declare firstString.simps [simp del]

section \<open>JSON-LD\<close>

definition article_type :: rx where
  "article_type = alts [seqs [opt (lit_i ''News''), lit_i ''Article''], lit_i ''BlogPosting'', lit_i ''Reportage'']"

definition is_article :: "jsval \<Rightarrow> bool" where
  "is_article candidate =
     (case candidate of
        JObj fs \<Rightarrow>
          list_ex (\<lambda>v. case v of JStr s \<Rightarrow> rx_test article_type s | _ \<Rightarrow> False)
            (case member ''@type'' fs of JArr xs \<Rightarrow> xs | v \<Rightarrow> [v])
      | _ \<Rightarrow> False)"

definition ld_candidates :: "jsval \<Rightarrow> jsval list" where
  "ld_candidates parsed =
     (case parsed of
        JArr xs \<Rightarrow> xs
      | JObj fs \<Rightarrow> (case member ''@graph'' fs of JArr xs \<Rightarrow> xs | _ \<Rightarrow> [parsed])
      | _ \<Rightarrow> [parsed])"

definition ld_script :: "dom \<Rightarrow> bool" where
  "ld_script d \<longleftrightarrow> named ''script'' d \<and> dom_attr ''type'' d = Some ''application/ld+json''"

fun first_article :: "(string \<Rightarrow> jsval option) \<Rightarrow> dom list \<Rightarrow> (string \<times> jsval) list option" where
  "first_article parse [] = None"
| "first_article parse (d # ds) =
     (case Option.bind (parse (dom_text d)) (\<lambda>parsed. find is_article (ld_candidates parsed)) of
        Some (JObj fs) \<Rightarrow> Some fs
      | _ \<Rightarrow> first_article parse ds)"

definition articleJsonLd :: "(string \<Rightarrow> jsval option) \<Rightarrow> dom list \<Rightarrow> (string \<times> jsval) list option" where
  "articleJsonLd parse doc = first_article parse (select ld_script doc)"

section \<open>The article\<close>

record article_metadata =
  md_title :: "string option"
  md_description :: "string option"
  md_author :: "string option"
  md_publishedAt :: "string option"
  md_modifiedAt :: "string option"
  md_language :: "string option"
  md_canonicalUrl :: "string option"
  md_image :: "string option"
  md_siteName :: "string option"

datatype access_status = AccessOpen | AccessPartial | AccessRestricted | AccessUnknown

datatype access_type = TypePaywall | TypeAuthentication | TypeAccessChallenge

datatype content_scope = ScopeFull | ScopePublicTeaser | ScopeUnknown

record article_access =
  aa_status :: access_status
  aa_restricted :: bool
  aa_type :: "access_type option"
  aa_contentScope :: content_scope
  aa_paywallDetected :: bool
  aa_signals :: "string list"

datatype evidence_kind = EvidenceDirect | EvidenceMetadata | EvidenceInferred

datatype source_view = ViewMetadata | ViewMainContent | ViewDocument

record evidence_source =
  es_method :: stage
  es_backend :: "backend option"
  es_url :: string
  es_view :: source_view
  es_selector :: string

record evidence_record =
  er_claim :: string
  er_source :: evidence_source
  er_evidence :: evidence_kind

record provenance =
  pv_sourceUrl :: string
  pv_finalUrl :: string
  pv_extractedAt :: string
  pv_strategy :: stage
  pv_browserBackend :: "backend option"

record article_result =
  ar_text :: string
  ar_markdown :: string
  ar_wordCount :: nat
  ar_metadata :: article_metadata
  ar_access :: article_access
  ar_provenance :: provenance
  ar_evidence :: "evidence_record list"

definition first_attr :: "string \<Rightarrow> dom list \<Rightarrow> string option" where
  "first_attr k ds = (case ds of [] \<Rightarrow> None | d # _ \<Rightarrow> dom_attr k d)"

definition meta :: "dom list \<Rightarrow> string \<Rightarrow> string option" where
  "meta doc name =
     clean_text (first_attr ''content''
       (select (\<lambda>d. named ''meta'' d \<and> (dom_attr ''property'' d = Some name \<or> dom_attr ''name'' d = Some name)) doc))"

definition opt_value :: "string option \<Rightarrow> jsval" where
  "opt_value v = (case v of Some s \<Rightarrow> JStr s | None \<Rightarrow> JUndefined)"

definition ld_field :: "string \<Rightarrow> (string \<times> jsval) list option \<Rightarrow> jsval" where
  "ld_field k jsonLd = (case jsonLd of Some fs \<Rightarrow> member k fs | None \<Rightarrow> JUndefined)"

definition first_h1 :: "dom list \<Rightarrow> string" where
  "first_h1 doc = (case select (named ''h1'') doc of [] \<Rightarrow> [] | d # _ \<Rightarrow> dom_text d)"

definition page_title :: "dom list \<Rightarrow> (string \<times> jsval) list option \<Rightarrow> string option" where
  "page_title doc jsonLd = firstString
     [ld_field ''headline'' jsonLd, opt_value (meta doc ''og:title''), JStr (first_h1 doc),
      JStr (concat (map dom_text (select (named ''title'') doc)))]"

definition canonical_url :: "(string \<Rightarrow> string \<Rightarrow> url option) \<Rightarrow> dom list \<Rightarrow> string \<Rightarrow> string option" where
  "canonical_url resolve doc finalUrl =
     absolute resolve
       (case first_attr ''href'' (select (\<lambda>d. named ''link'' d \<and> dom_attr ''rel'' d = Some ''canonical'') doc) of
          Some v \<Rightarrow> Some v
        | None \<Rightarrow> meta doc ''og:url'') finalUrl"

definition extract_metadata ::
  "(string \<Rightarrow> string \<Rightarrow> url option) \<Rightarrow> dom list \<Rightarrow> (string \<times> jsval) list option \<Rightarrow> string \<Rightarrow> article_metadata" where
  "extract_metadata resolve doc jsonLd finalUrl =
     (let ld = (\<lambda>k. ld_field k jsonLd); tag = (\<lambda>name. opt_value (meta doc name)) in
      \<lparr>md_title = page_title doc jsonLd,
       md_description = firstString [ld ''description'', tag ''description'', tag ''og:description''],
       md_author = firstString [ld ''author'', tag ''author'', tag ''article:author''],
       md_publishedAt = firstString [ld ''datePublished'', tag ''article:published_time''],
       md_modifiedAt = firstString [ld ''dateModified'', tag ''article:modified_time''],
       md_language = clean_text (first_attr ''lang'' (select (named ''html'') doc)),
       md_canonicalUrl = canonical_url resolve doc finalUrl,
       md_image = absolute resolve (firstString [ld ''image'', tag ''og:image'']) finalUrl,
       md_siteName = firstString [ld ''publisher'', tag ''og:site_name'']\<rparr>)"

text \<open>\<open>text.split(/\s+/u).length\<close>.\<close>

definition count_words :: "string \<Rightarrow> nat" where
  "count_words t =
     (if t = [] then 0 else length (split_on (CHR '' '') (rx_replace_all (plus space) (\<lambda>_. '' '') t)))"

definition access_signals :: "string \<Rightarrow> bool \<Rightarrow> string list" where
  "access_signals html truncated =
     (let found = map fst (filter (\<lambda>(_, r). rx_test r html) restrictedPatterns) in
      if truncated \<and> ''content-truncated'' \<notin> set found then found @ [''content-truncated''] else found)"

definition classify_access :: "string list \<Rightarrow> bool \<Rightarrow> nat \<Rightarrow> article_access" where
  "classify_access signals truncated wordCount =
     (let paywallDetected = (truncated \<or> signals \<noteq> []) in
      \<lparr>aa_status = (if paywallDetected then (if wordCount > 40 then AccessPartial else AccessRestricted) else AccessOpen),
       aa_restricted = paywallDetected, aa_type = (if paywallDetected then Some TypePaywall else None),
       aa_contentScope = (if paywallDetected then ScopePublicTeaser else ScopeFull),
       aa_paywallDetected = paywallDetected, aa_signals = signals\<rparr>)"

definition js_truthy :: "jsval \<Rightarrow> bool" where
  "js_truthy v =
     (case v of
        JUndefined \<Rightarrow> False | JNull \<Rightarrow> False | JBool b \<Rightarrow> b | JNum n \<Rightarrow> n \<noteq> 0 | JStr s \<Rightarrow> s \<noteq> []
      | JArr _ \<Rightarrow> True | JObj _ \<Rightarrow> True)"

definition article_evidence ::
  "article_metadata \<Rightarrow> jsval \<Rightarrow> string \<Rightarrow> nat \<Rightarrow> article_access \<Rightarrow> (source_view \<Rightarrow> string \<Rightarrow> evidence_source) \<Rightarrow> evidence_record list" where
  "article_evidence metadata headline t wordCount access source =
     (case md_title metadata of
        Some title \<Rightarrow> [\<lparr>er_claim = ''title:'' @ title, er_source = source ViewMetadata ''JSON-LD headline, og:title, h1, title'',
                       er_evidence = (if js_truthy headline then EvidenceMetadata else EvidenceDirect)\<rparr>]
      | None \<Rightarrow> [])
     @ (case md_author metadata of
          Some author \<Rightarrow> [\<lparr>er_claim = ''author:'' @ author, er_source = source ViewMetadata ''JSON-LD author, meta author'',
                          er_evidence = EvidenceMetadata\<rparr>]
        | None \<Rightarrow> [])
     @ (if t \<noteq> []
        then [\<lparr>er_claim = ''primary-content:'' @ show_nat wordCount @ ''-words'',
               er_source = source ViewMainContent ''scored semantic content region'', er_evidence = EvidenceDirect\<rparr>]
        else [])
     @ (if aa_paywallDetected access
        then [\<lparr>er_claim = ''access:paywall'', er_source = source ViewDocument (join_with '','' (aa_signals access)),
               er_evidence = (if ''schema-paywall'' \<in> set (aa_signals access) then EvidenceMetadata else EvidenceDirect)\<rparr>]
        else [])"

text \<open>What the extraction is given: cheerio, \<open>new URL\<close> with a base, and \<open>JSON.parse\<close>.\<close>

record extractors =
  xt_cheerio :: cheerio
  xt_resolve :: "string \<Rightarrow> string \<Rightarrow> url option"
  xt_parse :: "string \<Rightarrow> jsval option"

definition extractArticle ::
  "extractors \<Rightarrow> string \<Rightarrow> string \<Rightarrow> string \<Rightarrow> string \<Rightarrow> stage \<Rightarrow> backend option \<Rightarrow> article_result" where
  "extractArticle X extractedAt html sourceUrl finalUrl strategy backend =
     (let K = xt_cheerio X; doc = html_load K html; jsonLd = articleJsonLd (xt_parse X) doc;
          metadata = extract_metadata (xt_resolve X) doc jsonLd finalUrl;
          readable = readableContentHtml K html;
          t = collapse_spaces (concat (map dom_text (html_load K (fst readable))));
          signals = access_signals html (snd readable);
          wordCount = count_words t;
          access = classify_access signals (snd readable) wordCount;
          source = (\<lambda>view selector. \<lparr>es_method = strategy, es_backend = backend, es_url = finalUrl, es_view = view,
                                      es_selector = selector\<rparr>)
      in \<lparr>ar_text = t, ar_markdown = htmlToMarkdown K (xt_resolve X) html finalUrl, ar_wordCount = wordCount,
          ar_metadata = metadata, ar_access = access,
          ar_provenance = \<lparr>pv_sourceUrl = sourceUrl, pv_finalUrl = finalUrl, pv_extractedAt = extractedAt,
                           pv_strategy = strategy, pv_browserBackend = backend\<rparr>,
          ar_evidence = article_evidence metadata (ld_field ''headline'' jsonLd) t wordCount access source\<rparr>)"

end
