(* ===== verification/OB_System.thy ===== *)
theory OB_System
  imports OB_Prelude
begin

text \<open>
  The contract shared by the stateful components: a step relation and an invariant that every
  step keeps. \<open>reach\<close> is reachability by finitely many steps; a component interprets
  \<open>invariant_system\<close> on its own steps and obtains its invariant in every state reached from one
  that has it, and that a monotone measure never goes down along a run.
\<close>

inductive reach :: "('s \<Rightarrow> 's \<Rightarrow> bool) \<Rightarrow> 's \<Rightarrow> 's \<Rightarrow> bool" for step s0 where
  reach_start: "reach step s0 s0"
| reach_step: "reach step s0 s \<Longrightarrow> step s t \<Longrightarrow> reach step s0 t"

lemma reach_trans: "reach step s t \<Longrightarrow> reach step s0 s \<Longrightarrow> reach step s0 t"
  by (induction rule: reach.induct) (auto intro: reach.intros)

lemma reach_one: "step s t \<Longrightarrow> reach step s t"
  by (auto intro: reach.intros)

lemma reach_head: "step s t \<Longrightarrow> reach step t u \<Longrightarrow> reach step s u"
  by (rule reach_trans [OF _ reach_one])

locale invariant_system =
  fixes step :: "'s \<Rightarrow> 's \<Rightarrow> bool"
    and inv :: "'s \<Rightarrow> bool"
  assumes step_inv: "inv s \<Longrightarrow> step s t \<Longrightarrow> inv t"
begin

lemma reach_inv: "reach step s t \<Longrightarrow> inv s \<Longrightarrow> inv t"
  by (induction rule: reach.induct) (auto intro: step_inv)

lemma reach_mono:
  assumes "reach step s t" and "inv s"
    and mono: "\<And>u v. inv u \<Longrightarrow> step u v \<Longrightarrow> f u \<le> f v"
  shows "f s \<le> (f t :: 'b::preorder)"
  using assms(1)
proof induction
  case (reach_step u v)
  from reach_step.hyps(1) assms(2) have "inv u" by (rule reach_inv)
  from mono [OF this reach_step.hyps(2)] reach_step.IH show ?case by (rule order_trans [rotated])
qed simp

end

text \<open>Machines whose steps are events applied by a function.\<close>

definition event_step :: "('e \<Rightarrow> 's \<Rightarrow> 's) \<Rightarrow> 's \<Rightarrow> 's \<Rightarrow> bool" where
  "event_step apply_event s t \<longleftrightarrow> (\<exists>e. t = apply_event e s)"

definition run_events :: "('e \<Rightarrow> 's \<Rightarrow> 's) \<Rightarrow> 'e list \<Rightarrow> 's \<Rightarrow> 's" where
  "run_events apply_event es s = fold apply_event es s"

lemma event_stepI: "event_step f s (f e s)"
  by (auto simp: event_step_def)

lemma reach_run_events: "reach (event_step f) s (run_events f es s)"
proof (induction es arbitrary: s)
  case (Cons e es)
  have "reach (event_step f) s (f e s)" by (rule reach_one) (rule event_stepI)
  with Cons.IH [of "f e s"] show ?case by (simp add: run_events_def reach_trans)
qed (simp add: run_events_def reach_start)

locale event_system =
  fixes apply_event :: "'e \<Rightarrow> 's \<Rightarrow> 's"
    and inv :: "'s \<Rightarrow> bool"
  assumes event_inv: "inv s \<Longrightarrow> inv (apply_event e s)"

sublocale event_system \<subseteq> invariant_system "event_step apply_event" inv
  by unfold_locales (auto simp: event_step_def intro: event_inv)

context event_system
begin

lemma run_inv: "inv s \<Longrightarrow> inv (run_events apply_event es s)"
  by (rule reach_inv [OF reach_run_events])

end

end
