(* ===== verification/OB_Readiness.thy ===== *)
theory OB_Readiness
  imports OB_System OB_Types
begin

text \<open>
  The readiness wait that runs inside the page, \<open>waitForBrowserReadiness\<close> of
  \<open>src/src/execution/content.ts\<close>: three timers and a mutation observer decide when a page is stable.
  The promise is a state that the events of the page change; a timer that is set is its due time.
\<close>

section \<open>The state and its events\<close>

record dom_node =
  dn_nodeType :: nat
  dn_textContent :: "string option"

record mutation_record =
  mr_type :: string
  mr_addedNodes :: "dom_node list"
  mr_removedNodes :: "dom_node list"

definition meaningful_node :: "dom_node \<Rightarrow> bool" where
  "meaningful_node n \<longleftrightarrow>
     dn_nodeType n = 1 \<or> (case dn_textContent n of Some t \<Rightarrow> length (trim t) \<ge> 80 | None \<Rightarrow> False)"

definition meaningful :: "mutation_record list \<Rightarrow> bool" where
  "meaningful records \<longleftrightarrow>
     list_ex (\<lambda>r. mr_type r = ''childList'' \<and> list_ex meaningful_node (mr_addedNodes r @ mr_removedNodes r)) records"

text \<open>The parameters of the wait, after the defaults: \<open>quietMs\<close>, \<open>timeoutMs\<close> and \<open>minimumObservationMs\<close>.\<close>

record stability_settings =
  ss_quiet :: millis
  ss_maximum :: millis
  ss_observation :: millis

definition stability_settings :: "millis option \<Rightarrow> millis option \<Rightarrow> millis option \<Rightarrow> stability_settings" where
  "stability_settings quietMs timeoutMs minimumObservationMs =
     (let quiet = (case quietMs of Some q \<Rightarrow> q | None \<Rightarrow> 600);
          maximum = max quiet (case timeoutMs of Some t \<Rightarrow> t | None \<Rightarrow> 4000)
      in \<lparr>ss_quiet = quiet, ss_maximum = maximum,
          ss_observation = min (case minimumObservationMs of Some m \<Rightarrow> m | None \<Rightarrow> 0) maximum\<rparr>)"

record stability =
  st_now :: millis
  st_complete :: bool
  st_observed :: bool
  st_quiet :: "millis option"
  st_maximum :: "millis option"
  st_observation :: "millis option"
  st_reset :: millis

text \<open>\<open>st_reset\<close> is the time of the last call of \<open>resetQuietTimer\<close>; the program does not keep it.\<close>

definition finish :: "stability \<Rightarrow> stability" where
  "finish S =
     (if st_complete S then S
      else S\<lparr>st_complete := True, st_quiet := None, st_maximum := None, st_observation := None\<rparr>)"

definition resetQuietTimer :: "stability_settings \<Rightarrow> stability \<Rightarrow> stability" where
  "resetQuietTimer P S = S\<lparr>st_quiet := Some (st_now S + ss_quiet P), st_reset := st_now S\<rparr>"

definition quiet_fires :: "stability \<Rightarrow> stability" where
  "quiet_fires S = (let S1 = S\<lparr>st_quiet := None\<rparr> in if st_observed S1 then finish S1 else S1)"

definition maximum_fires :: "stability \<Rightarrow> stability" where
  "maximum_fires S = finish (S\<lparr>st_maximum := None\<rparr>)"

definition observation_fires :: "stability_settings \<Rightarrow> stability \<Rightarrow> stability" where
  "observation_fires P S = resetQuietTimer P (S\<lparr>st_observation := None, st_observed := True\<rparr>)"

text \<open>The observer is disconnected by \<open>finish\<close>, so nothing is delivered after it.\<close>

definition mutated :: "stability_settings \<Rightarrow> mutation_record list \<Rightarrow> stability \<Rightarrow> stability" where
  "mutated P records S = (if \<not> st_complete S \<and> meaningful records then resetQuietTimer P S else S)"

definition stability_start :: "stability_settings \<Rightarrow> millis \<Rightarrow> stability" where
  "stability_start P t0 =
     resetQuietTimer P
       \<lparr>st_now = t0, st_complete = False, st_observed = (ss_observation P = 0), st_quiet = None,
        st_maximum = Some (t0 + ss_maximum P),
        st_observation = (if ss_observation P = 0 then None else Some (t0 + ss_observation P)), st_reset = t0\<rparr>"

text \<open>
  A timer fires at its due time or later, and time does not pass a due timer: the event loop runs it
  before it lets the page sleep on.
\<close>

definition due :: "millis option \<Rightarrow> stability \<Rightarrow> bool" where
  "due timer S \<longleftrightarrow> (case timer of Some t \<Rightarrow> t \<le> st_now S | None \<Rightarrow> False)"

definition may_pass :: "nat \<Rightarrow> stability \<Rightarrow> bool" where
  "may_pass d S \<longleftrightarrow>
     (\<forall>t \<in> set_option (st_quiet S) \<union> set_option (st_maximum S) \<union> set_option (st_observation S). st_now S + int d \<le> t)"

inductive stability_step :: "stability_settings \<Rightarrow> stability \<Rightarrow> stability \<Rightarrow> bool" for P where
  step_mutation: "stability_step P S (mutated P records S)"
| step_quiet: "due (st_quiet S) S \<Longrightarrow> stability_step P S (quiet_fires S)"
| step_maximum: "due (st_maximum S) S \<Longrightarrow> stability_step P S (maximum_fires S)"
| step_observation: "due (st_observation S) S \<Longrightarrow> stability_step P S (observation_fires P S)"
| step_wait: "may_pass d S \<Longrightarrow> stability_step P S (S\<lparr>st_now := st_now S + int d\<rparr>)"

inductive_cases stability_stepE: "stability_step P S S'"

section \<open>When it ends\<close>

definition waiting_ok :: "stability_settings \<Rightarrow> millis \<Rightarrow> stability \<Rightarrow> bool" where
  "waiting_ok P t0 S \<longleftrightarrow>
     t0 \<le> st_now S \<and> st_now S \<le> t0 + ss_maximum P \<and> t0 \<le> st_reset S \<and> st_reset S \<le> st_now S \<and>
     st_maximum S = Some (t0 + ss_maximum P) \<and>
     (if st_observed S then
        st_observation S = None \<and> st_quiet S = Some (st_reset S + ss_quiet P) \<and> t0 + ss_observation P \<le> st_reset S
      else st_observation S = Some (t0 + ss_observation P) \<and> st_now S \<le> t0 + ss_observation P \<and>
        (\<forall>t. st_quiet S = Some t \<longrightarrow> t = st_reset S + ss_quiet P))"

text \<open>Once complete, the state keeps the reason in its time: the maximum, or a quiet period after the observation.\<close>

definition finished_ok :: "stability_settings \<Rightarrow> millis \<Rightarrow> stability \<Rightarrow> bool" where
  "finished_ok P t0 S \<longleftrightarrow>
     st_quiet S = None \<and> st_maximum S = None \<and> st_observation S = None \<and>
     (\<exists>t \<le> st_now S. t \<le> t0 + ss_maximum P \<and>
        (t = t0 + ss_maximum P \<or> (t = st_reset S + ss_quiet P \<and> t0 + ss_observation P \<le> st_reset S)))"

definition stability_ok :: "stability_settings \<Rightarrow> millis \<Rightarrow> stability \<Rightarrow> bool" where
  "stability_ok P t0 S \<longleftrightarrow> (if st_complete S then finished_ok P t0 S else waiting_ok P t0 S)"

definition settings_ok :: "stability_settings \<Rightarrow> bool" where
  "settings_ok P \<longleftrightarrow> 0 \<le> ss_quiet P \<and> 0 \<le> ss_observation P \<and> ss_observation P \<le> ss_maximum P \<and> ss_quiet P \<le> ss_maximum P"

lemmas stability_defs = stability_ok_def waiting_ok_def finished_ok_def

lemma stability_settings_ok:
  assumes "\<And>q. quiet = Some q \<Longrightarrow> 0 \<le> q" and "\<And>m. observation = Some m \<Longrightarrow> 0 \<le> m"
  shows "settings_ok (stability_settings quiet maximum observation)"
  using assms by (auto simp: settings_ok_def stability_settings_def Let_def split: option.splits)

lemma finished_ok_later: "finished_ok P t0 S \<Longrightarrow> finished_ok P t0 (S\<lparr>st_now := st_now S + int d\<rparr>)"
  unfolding finished_ok_def by (elim conjE exE, rename_tac t) (simp, rule_tac x = t in exI, simp)

lemma finished_at:
  assumes "t \<le> st_now S" "t \<le> t0 + ss_maximum P"
    "t = t0 + ss_maximum P \<or> (t = st_reset S + ss_quiet P \<and> t0 + ss_observation P \<le> st_reset S)"
    "\<not> st_complete S"
  shows "stability_ok P t0 (finish S)"
proof -
  have "finished_ok P t0 (finish S)"
    unfolding finished_ok_def using assms by (simp add: finish_def) (rule exI [of _ t], simp)
  then show ?thesis using assms(4) by (simp add: stability_ok_def finish_def)
qed

lemma ok_quiet: "settings_ok P \<Longrightarrow> stability_ok P t0 S \<Longrightarrow> due (st_quiet S) S \<Longrightarrow> stability_ok P t0 (quiet_fires S)"
proof (cases "st_complete S")
  case False
  assume S: "settings_ok P" "stability_ok P t0 S" "due (st_quiet S) S"
  then have w: "waiting_ok P t0 S" using False by (simp add: stability_ok_def)
  show ?thesis
  proof (cases "st_observed S")
    case True
    then have "stability_ok P t0 (finish (S\<lparr>st_quiet := None\<rparr>))"
      using w S(3) False by (intro finished_at [of "st_reset S + ss_quiet P"]) (auto simp: waiting_ok_def due_def)
    then show ?thesis using True by (simp add: quiet_fires_def)
  next
    case False
    with w \<open>\<not> st_complete S\<close> show ?thesis by (simp add: quiet_fires_def stability_ok_def waiting_ok_def)
  qed
qed (simp add: stability_ok_def finished_ok_def due_def)

lemma ok_maximum: "stability_ok P t0 S \<Longrightarrow> due (st_maximum S) S \<Longrightarrow> stability_ok P t0 (maximum_fires S)"
  unfolding maximum_fires_def
  by (cases "st_complete S")
     (simp add: stability_ok_def finished_ok_def due_def,
      intro finished_at [of "t0 + ss_maximum P"], auto simp: stability_ok_def waiting_ok_def due_def)

lemma ok_observation:
  "settings_ok P \<Longrightarrow> stability_ok P t0 S \<Longrightarrow> due (st_observation S) S \<Longrightarrow> stability_ok P t0 (observation_fires P S)"
  by (cases "st_complete S")
     (simp add: stability_ok_def finished_ok_def due_def,
      auto simp: stability_ok_def waiting_ok_def observation_fires_def resetQuietTimer_def due_def settings_ok_def
        split: option.splits if_splits)

lemma ok_mutated: "settings_ok P \<Longrightarrow> stability_ok P t0 S \<Longrightarrow> stability_ok P t0 (mutated P records S)"
  by (cases "st_complete S") (auto simp: stability_ok_def waiting_ok_def mutated_def resetQuietTimer_def)

lemma ok_wait: "stability_ok P t0 S \<Longrightarrow> may_pass d S \<Longrightarrow> stability_ok P t0 (S\<lparr>st_now := st_now S + int d\<rparr>)"
  by (cases "st_complete S") (simp add: stability_ok_def finished_ok_later, auto simp: stability_ok_def waiting_ok_def may_pass_def)

lemma stability_ok_step:
  assumes "settings_ok P" and "stability_ok P t0 S" and "stability_step P S S'"
  shows "stability_ok P t0 S'"
  using assms(3)
  by (cases rule: stability_step.cases)
     (simp_all add: assms(1,2) ok_mutated ok_quiet ok_maximum ok_observation ok_wait)

interpretation stability_system: invariant_system "stability_step P" "\<lambda>S. settings_ok P \<and> stability_ok P t0 S" for P t0
  by unfold_locales (auto intro: stability_ok_step)

lemma stability_ok_start: "settings_ok P \<Longrightarrow> stability_ok P t0 (stability_start P t0)"
  by (auto simp: stability_defs stability_start_def resetQuietTimer_def settings_ok_def)

text \<open>C21. The stability wait always ends, and for a reason: as long as the page has not settled, the maximum timer is
  set and has not passed, and when it fires the wait is over; the wait is over earlier only when the
  observation period has passed and the DOM then had no meaningful change for the quiet period.
  After the end no timer is left and nothing starts it again.\<close>

theorem page_settles:
  assumes "settings_ok P" and "reach (stability_step P) (stability_start P t0) S"
  shows "if st_complete S
    then st_quiet S = None \<and> st_maximum S = None \<and> st_observation S = None \<and>
      (\<exists>t \<le> st_now S. t = t0 + ss_maximum P \<or>
         (t = st_reset S + ss_quiet P \<and> t0 + ss_observation P \<le> st_reset S \<and> t \<le> t0 + ss_maximum P))
    else st_maximum S = Some (t0 + ss_maximum P) \<and> st_now S \<le> t0 + ss_maximum P \<and>
      st_reset S \<le> st_now S \<and> st_complete (maximum_fires S)"
proof -
  have "settings_ok P \<and> stability_ok P t0 S"
    by (rule stability_system.reach_inv [OF assms(2)]) (simp add: assms(1) stability_ok_start)
  then show ?thesis
    by (auto simp: stability_ok_def waiting_ok_def finished_ok_def maximum_fires_def finish_def)
qed

text \<open>A page that never changes settles after the observation and one quiet period.\<close>

definition quick_wait :: stability_settings where
  "quick_wait = stability_settings (Some 600) (Some 4000) (Some 1500)"

definition settled_page :: stability where
  "settled_page =
     (let S1 = quiet_fires ((stability_start quick_wait 0)\<lparr>st_now := 600\<rparr>);
          S2 = observation_fires quick_wait (S1\<lparr>st_now := 1500\<rparr>)
      in quiet_fires (S2\<lparr>st_now := 2100\<rparr>))"

lemma settled_page_reachable: "reach (stability_step quick_wait) (stability_start quick_wait 0) settled_page"
proof -
  let ?S0 = "stability_start quick_wait 0"
  let ?S1 = "?S0\<lparr>st_now := 600\<rparr>"
  let ?S2 = "quiet_fires ?S1"
  let ?S3 = "?S2\<lparr>st_now := 1500\<rparr>"
  let ?S4 = "observation_fires quick_wait ?S3"
  let ?S5 = "?S4\<lparr>st_now := 2100\<rparr>"
  have "reach (stability_step quick_wait) ?S0 ?S1"
    by (rule reach_step [OF reach_start]) (use step_wait [of 600 ?S0 quick_wait] in \<open>simp add: may_pass_def stability_start_def resetQuietTimer_def quick_wait_def stability_settings_def Let_def\<close>)
  then have "reach (stability_step quick_wait) ?S0 ?S2"
    by (rule reach_step) (rule step_quiet, code_simp)
  then have "reach (stability_step quick_wait) ?S0 ?S3"
    by (rule reach_step) (use step_wait [of 900 ?S2 quick_wait] in \<open>simp add: may_pass_def quiet_fires_def stability_start_def resetQuietTimer_def quick_wait_def stability_settings_def Let_def\<close>)
  then have "reach (stability_step quick_wait) ?S0 ?S4"
    by (rule reach_step) (rule step_observation, code_simp)
  then have "reach (stability_step quick_wait) ?S0 ?S5"
    by (rule reach_step) (use step_wait [of 600 ?S4 quick_wait] in \<open>simp add: may_pass_def observation_fires_def quiet_fires_def stability_start_def resetQuietTimer_def quick_wait_def stability_settings_def Let_def\<close>)
  then have "reach (stability_step quick_wait) ?S0 (quiet_fires ?S5)"
    by (rule reach_step) (rule step_quiet, code_simp)
  then show ?thesis by (simp add: settled_page_def Let_def)
qed

theorem page_settles_witness: "st_complete settled_page \<and> st_maximum settled_page = None"
proof -
  have ok: "settings_ok quick_wait" by code_simp
  have c: "st_complete settled_page" by code_simp
  from page_settles [OF ok settled_page_reachable] c show ?thesis by simp
qed

end
