(* ===== verification/OB_ProcessMemory.thy ===== *)
theory OB_ProcessMemory
  imports OB_Url
begin

text \<open>
  Memory accounting of \<open>src/src/process-memory.ts\<close>: the value admission uses, the candidate cgroup
  files for both hierarchy versions, the scoped limit, and the walk over the process table that
  collects a browser root and all its descendants, with the readers of \<open>/proc\<close>. Directories and file contents are
  parameters; \<open>posix.normalize\<close>, \<open>posix.join\<close> and \<open>Number\<close> are written out. Megabytes are
  rationals.
\<close>

section \<open>The admission value\<close>

datatype memory_authority = AuthCgroup | AuthProcessTree | AuthNode

record admission_memory =
  authority :: memory_authority
  rssMb :: rat
  processTreeRssMb :: rat

definition mb :: "rat \<Rightarrow> rat" where
  "mb bytes = bytes / 1024 / 1024"

definition admissionMemory :: "rat \<Rightarrow> rat \<Rightarrow> rat option \<Rightarrow> bool \<Rightarrow> admission_memory" where
  "admissionMemory nodeRssMb browserTreeRssMb containerRssMb processTreesSupported =
     (let tree = nodeRssMb + browserTreeRssMb in
      case containerRssMb of
        Some c \<Rightarrow> \<lparr>authority = AuthCgroup, rssMb = c, processTreeRssMb = tree\<rparr>
      | None \<Rightarrow>
          \<lparr>authority = (if processTreesSupported then AuthProcessTree else AuthNode),
           rssMb = (if processTreesSupported then tree else nodeRssMb),
           processTreeRssMb = tree\<rparr>)"

section \<open>Numbers in files\<close>

definition radix_digits :: "nat \<Rightarrow> string \<Rightarrow> rat option" where
  "radix_digits b s =
     (if s \<noteq> [] \<and> list_all (\<lambda>c. case hex_val c of Some d \<Rightarrow> d < b | None \<Rightarrow> False) s
      then Some (of_nat (foldl (\<lambda>acc c. b * acc + the (hex_val c)) 0 s)) else None)"

definition exponent_value :: "string \<Rightarrow> int option" where
  "exponent_value s =
     (case s of
        [] \<Rightarrow> Some 0
      | e # r \<Rightarrow>
          if e \<noteq> CHR ''e'' \<and> e \<noteq> CHR ''E'' then None
          else (let neg = (r \<noteq> [] \<and> hd r = CHR ''-'');
                    d = (if r \<noteq> [] \<and> (hd r = CHR ''-'' \<or> hd r = CHR ''+'') then tl r else r)
                in if d \<noteq> [] \<and> list_all is_digit d
                   then Some (if neg then - int (digits_val d) else int (digits_val d)) else None))"

definition decimal_literal :: "string \<Rightarrow> rat option" where
  "decimal_literal s =
     (let whole = takeWhile is_digit s; r = dropWhile is_digit s;
          pt = (r \<noteq> [] \<and> hd r = CHR ''.'');
          frac = (if pt then takeWhile is_digit (tl r) else []);
          e = (if pt then dropWhile is_digit (tl r) else r)
      in if whole = [] \<and> frac = [] then None
         else map_option
                (\<lambda>x. (of_nat (digits_val whole) + of_nat (digits_val frac) / 10 ^ length frac) * 10 powi x)
                (exponent_value e))"

text \<open>\<open>Number(text)\<close>, \<open>None\<close> where the result is not finite; values are not rounded to doubles.\<close>

definition js_number :: "string \<Rightarrow> rat option" where
  "js_number text =
     (let s = trim text in
      if s = [] then Some 0
      else if starts_with (to_lower s) ''0x'' then radix_digits 16 (drop 2 s)
      else if starts_with (to_lower s) ''0o'' then radix_digits 8 (drop 2 s)
      else if starts_with (to_lower s) ''0b'' then radix_digits 2 (drop 2 s)
      else if hd s = CHR ''-'' then map_option uminus (decimal_literal (tl s))
      else if hd s = CHR ''+'' then decimal_literal (tl s)
      else decimal_literal s)"

section \<open>Paths\<close>

fun normal_segments :: "bool \<Rightarrow> string list \<Rightarrow> string list \<Rightarrow> string list" where
  "normal_segments up stack [] = rev stack"
| "normal_segments up stack (w # ws) =
     (if w = [] \<or> w = ''.'' then normal_segments up stack ws
      else if w = ''..'' then
        (case stack of
           [] \<Rightarrow> normal_segments up (if up then [''..''] else []) ws
         | seg # rest \<Rightarrow>
             if seg = ''..'' then normal_segments up (if up then ''..'' # stack else stack) ws
             else normal_segments up rest ws)
      else normal_segments up (w # stack) ws)"

definition posix_normalize :: "string \<Rightarrow> string" where
  "posix_normalize p =
     (if p = [] then ''.''
      else let abs = hd p = CHR ''/''; trailing = last p = CHR ''/'';
               body = join_with ''/'' (normal_segments (\<not> abs) [] (split_on (CHR ''/'') p))
           in if body = [] then (if abs then ''/'' else if trailing then ''./'' else ''.'')
              else (if abs then ''/'' else []) @ body @ (if trailing then ''/'' else []))"

definition posix_join :: "string list \<Rightarrow> string" where
  "posix_join parts =
     (let ps = filter (\<lambda>p. p \<noteq> []) parts
      in if ps = [] then ''.'' else posix_normalize (join_with ''/'' ps))"

definition cgroupPathWithinMount :: "string \<Rightarrow> string \<Rightarrow> string option" where
  "cgroupPathWithinMount mroot path =
     (let r = posix_normalize mroot; p = posix_normalize path in
      if r \<noteq> ''/'' \<and> p \<noteq> r \<and> \<not> starts_with p (r @ ''/'') then None
      else if r = ''/'' then Some (drop 1 p)
      else (let rest = drop (length r) p
            in Some (if rest \<noteq> [] \<and> hd rest = CHR ''/'' then tl rest else rest)))"

section \<open>Candidate accounting files\<close>

datatype cgroup_version = V1 | V2

record cgroup_mount =
  cm_root :: string
  cm_mountPoint :: string
  cm_version :: cgroup_version
  cm_memory :: bool

record cgroup_group =
  cg_controllers :: "string list"
  cg_path :: string

text \<open>\<open>line.split(" - ", 2)\<close>: the text before the first separator and the text up to the second.\<close>

fun split_dash :: "string \<Rightarrow> string \<times> string option" where
  "split_dash (a # b # c # s) =
     (if [a, b, c] = '' - '' then ([], Some s)
      else (case split_dash (b # c # s) of (l, r) \<Rightarrow> (a # l, r)))"
| "split_dash s = (s, None)"

definition parse_group :: "string \<Rightarrow> cgroup_group option" where
  "parse_group line =
     (case split_on (CHR '':'') (trim line) of
        _ # controllers # path # _ \<Rightarrow>
          Some \<lparr>cg_controllers = split_on (CHR '','') controllers, cg_path = path\<rparr>
      | _ \<Rightarrow> None)"

definition parse_mount :: "string \<Rightarrow> cgroup_mount option" where
  "parse_mount line =
     (case split_dash line of
        (before, Some rest) \<Rightarrow>
          (let after = fst (split_dash rest);
               fields = split_on (CHR '' '') before;
               filesystem = hd (split_on (CHR '' '') after)
           in if before = [] \<or> after = [] then None
              else if length fields \<le> 4 \<or> fields ! 3 = [] \<or> fields ! 4 = [] then None
              else if filesystem = ''cgroup2'' then
                Some \<lparr>cm_root = fields ! 3, cm_mountPoint = fields ! 4, cm_version = V2, cm_memory = True\<rparr>
              else if filesystem \<noteq> ''cgroup'' then None
              else Some \<lparr>cm_root = fields ! 3, cm_mountPoint = fields ! 4, cm_version = V1,
                         cm_memory = (''memory'' \<in> set (split_on (CHR '','') (before @ '' '' @ after)))\<rparr>)
      | _ \<Rightarrow> None)"

text \<open>\<open>Set.add\<close> keeps the first occurrence.\<close>

definition set_add :: "'a \<Rightarrow> 'a list \<Rightarrow> 'a list" where
  "set_add x xs = (if x \<in> set xs then xs else xs @ [x])"

lemma set_set_add [simp]: "set (set_add x xs) = insert x (set xs)"
  by (auto simp: set_add_def)

lemma distinct_set_add [simp]: "distinct xs \<Longrightarrow> distinct (set_add x xs)"
  by (simp add: set_add_def)

definition group_version :: "cgroup_group \<Rightarrow> cgroup_version" where
  "group_version g = (if cg_controllers g = [[]] then V2 else V1)"

definition usage_file :: "cgroup_version \<Rightarrow> string" where
  "usage_file v = (case v of V2 \<Rightarrow> ''memory.current'' | V1 \<Rightarrow> ''memory.usage_in_bytes'')"

definition mount_path :: "cgroup_group \<Rightarrow> cgroup_mount \<Rightarrow> string option" where
  "mount_path g m =
     (let v = group_version g in
      if cm_version m \<noteq> v \<or> (v = V1 \<and> \<not> cm_memory m) then None
      else map_option (\<lambda>relative. posix_join [cm_mountPoint m, relative, usage_file v])
             (cgroupPathWithinMount (cm_root m) (cg_path g)))"

definition cgroupMemoryPaths :: "string \<Rightarrow> string \<Rightarrow> string list" where
  "cgroupMemoryPaths cgroup mountInfo =
     (let groups = List.map_filter parse_group (split_on (CHR ''\<newline>'') cgroup);
          mounts = List.map_filter parse_mount (split_on (CHR ''\<newline>'') mountInfo);
          found = concat (map (\<lambda>g. List.map_filter (mount_path g) mounts) groups)
      in foldl (\<lambda>ps p. set_add p ps) []
           (found @ [''/sys/fs/cgroup/memory.current'', ''/sys/fs/cgroup/memory/memory.usage_in_bytes'']))"

definition maximumScopedCgroupLimitMb :: rat where
  "maximumScopedCgroupLimitMb = 1024 * 1024"

definition limit_path :: "string \<Rightarrow> string" where
  "limit_path path =
     (if ends_with path ''memory.current''
      then take (length path - length ''memory.current'') path @ ''memory.max''
      else take (length path - length ''memory.usage_in_bytes'') path @ ''memory.limit_in_bytes'')"

text \<open>One candidate: \<open>None\<close> is the \<open>continue\<close> or the caught read error of the loop.\<close>

definition read_candidate :: "(string \<Rightarrow> string option) \<Rightarrow> string \<Rightarrow> (rat \<times> rat) option" where
  "read_candidate read path =
     (case Option.bind (read path) js_number of
        None \<Rightarrow> None
      | Some value \<Rightarrow>
          (case Option.bind (read (limit_path path)) js_number of
             None \<Rightarrow> None
           | Some limit \<Rightarrow>
               if mb limit \<le> 0 \<or> mb limit \<ge> maximumScopedCgroupLimitMb then None
               else Some (mb value, mb limit)))"

fun first_some :: "('a \<Rightarrow> 'b option) \<Rightarrow> 'a list \<Rightarrow> 'b option" where
  "first_some f [] = None"
| "first_some f (x # xs) = (case f x of Some y \<Rightarrow> Some y | None \<Rightarrow> first_some f xs)"

definition cgroupRssMb :: "(string \<Rightarrow> string option) \<Rightarrow> (rat \<times> rat) option" where
  "cgroupRssMb read =
     (let paths = (case (read ''/proc/self/cgroup'', read ''/proc/self/mountinfo'') of
                     (Some cgroup, Some mountInfo) \<Rightarrow> cgroupMemoryPaths cgroup mountInfo
                   | _ \<Rightarrow> cgroupMemoryPaths [] [])
      in first_some (read_candidate read) paths)"

section \<open>Process trees\<close>

type_synonym process_row = "int \<times> int"

record process_tree =
  pt_rootPid :: int
  pt_rssMb :: rat
  pt_processes :: nat

record measurement =
  me_supported :: bool
  me_trees :: "(int, process_tree) jsmap"
  me_container :: "(rat \<times> rat) option"

definition children_of :: "process_row list \<Rightarrow> int \<Rightarrow> int list" where
  "children_of rows parent = map fst (filter (\<lambda>(pid, ppid). ppid = parent) rows)"

text \<open>The inner loop: children not seen yet join the set and the stack.\<close>

fun visit_children :: "int list \<Rightarrow> int list \<times> int list \<Rightarrow> int list \<times> int list" where
  "visit_children [] s = s"
| "visit_children (c # cs) (seen, pending) =
     visit_children cs (if c \<in> set seen then (seen, pending) else (seen @ [c], pending @ [c]))"

definition unseen :: "process_row list \<Rightarrow> int list \<Rightarrow> nat" where
  "unseen rows seen = card (fst ` set rows - set seen)"

lemma visit_measure:
  "set cs \<subseteq> fst ` set rows \<Longrightarrow> visit_children cs (seen, pending) = (seen', pending') \<Longrightarrow>
     2 * unseen rows seen' + length pending' \<le> 2 * unseen rows seen + length pending"
proof (induction cs arbitrary: seen pending)
  case (Cons c cs)
  show ?case
  proof (cases "c \<in> set seen")
    case False
    have "Suc (card (fst ` set rows - set seen - {c})) = card (fst ` set rows - set seen)"
      by (rule card_Suc_Diff1) (use False Cons.prems(1) in auto)
    moreover have "fst ` set rows - set (seen @ [c]) = fst ` set rows - set seen - {c}" by auto
    ultimately have "Suc (unseen rows (seen @ [c])) = unseen rows seen" by (simp only: unseen_def)
    with Cons.IH [of "seen @ [c]" "pending @ [c]"] False Cons.prems show ?thesis by simp
  qed (use Cons in simp)
qed simp

lemma children_in_rows: "set (children_of rows p) \<subseteq> fst ` set rows"
  by (auto simp: children_of_def)

text \<open>The outer loop: \<open>pop\<close> takes the last element of the stack.\<close>

function descend :: "process_row list \<Rightarrow> int list \<Rightarrow> int list \<Rightarrow> int list" where
  "descend rows seen pending =
     (if pending = [] then seen
      else case visit_children (children_of rows (last pending)) (seen, butlast pending) of
             (seen', pending') \<Rightarrow> descend rows seen' pending')"
  by pat_completeness auto
termination
proof (relation "measure (\<lambda>(rows, seen, pending). 2 * unseen rows seen + length pending)", goal_cases)
  case (2 rows seen pending seen' pending')
  from visit_measure [OF children_in_rows 2(2) [symmetric]] 2(1)
  show ?case by (cases pending rule: rev_cases) auto
qed simp

declare descend.simps [simp del]

definition measureBrowserProcessTrees ::
  "bool \<Rightarrow> (string \<Rightarrow> string option) \<Rightarrow> process_row list \<Rightarrow> (int \<Rightarrow> rat) \<Rightarrow> int list \<Rightarrow> measurement" where
  "measureBrowserProcessTrees linux read rows linuxRssMb rootPids =
     (if \<not> linux then \<lparr>me_supported = False, me_trees = [], me_container = None\<rparr>
      else
        (let roots = foldl (\<lambda>ps p. set_add p ps) [] (filter (\<lambda>pid. pid > 0) rootPids);
             tree = (\<lambda>rootPid.
               let descendants = descend rows [rootPid] [rootPid]
               in \<lparr>pt_rootPid = rootPid, pt_rssMb = sum_list (map linuxRssMb descendants),
                   pt_processes = length descendants\<rparr>)
         in \<lparr>me_supported = True, me_trees = map (\<lambda>r. (r, tree r)) roots,
             me_container = cgroupRssMb read\<rparr>))"

section \<open>The walk collects exactly the descendants\<close>

definition child_relation :: "process_row list \<Rightarrow> (int \<times> int) set" where
  "child_relation rows = {(parent, child). (child, parent) \<in> set rows}"

lemma children_of_set: "set (children_of rows p) = child_relation rows `` {p}"
  by (force simp: children_of_def child_relation_def)

lemma visit_seen: "visit_children cs (seen, pending) = (seen', pending') \<Longrightarrow>
    set seen' = set seen \<union> set cs \<and> set pending \<subseteq> set pending' \<and> set pending' - set pending \<subseteq> set cs
    \<and> set cs - set seen \<subseteq> set pending'"
  by (induction cs "(seen, pending)" arbitrary: seen pending rule: visit_children.induct)
     (auto split: if_splits; blast)+

lemma visit_distinct: "visit_children cs (seen, pending) = (seen', pending') \<Longrightarrow> distinct seen \<Longrightarrow> distinct seen'"
  by (induction cs "(seen, pending)" arbitrary: seen pending rule: visit_children.induct)
     (auto split: if_splits)

text \<open>Loop invariant: the stack is part of the set, and what is off the stack is closed under children.\<close>

definition walk_inv :: "process_row list \<Rightarrow> int \<Rightarrow> int list \<Rightarrow> int list \<Rightarrow> bool" where
  "walk_inv rows r0 seen pending \<longleftrightarrow>
     r0 \<in> set seen \<and> distinct seen \<and> set pending \<subseteq> set seen \<and>
     set seen \<subseteq> (child_relation rows)\<^sup>* `` {r0} \<and>
     child_relation rows `` (set seen - set pending) \<subseteq> set seen"

lemma walk_inv_step:
  assumes inv: "walk_inv rows r0 seen pending" and ne: "pending \<noteq> []"
    and v: "visit_children (children_of rows (last pending)) (seen, butlast pending) = (seen', pending')"
  shows "walk_inv rows r0 seen' pending'"
proof -
  obtain ps p where ps: "pending = ps @ [p]" using ne by (cases pending rule: rev_cases) auto
  note s = visit_seen [OF v, unfolded children_of_set ps, simplified]
  have p: "p \<in> (child_relation rows)\<^sup>* `` {r0}" using inv by (auto simp: walk_inv_def ps)
  then have "child_relation rows `` {p} \<subseteq> (child_relation rows)\<^sup>* `` {r0}"
    by (auto intro: rtrancl_into_rtrancl)
  moreover have "child_relation rows `` (set seen' - set pending') \<subseteq> set seen'"
  proof
    fix q assume "q \<in> child_relation rows `` (set seen' - set pending')"
    then obtain x where x: "(x, q) \<in> child_relation rows" "x \<in> set seen'" "x \<notin> set pending'" by auto
    show "q \<in> set seen'"
    proof (cases "x = p")
      case True
      with x s show ?thesis by auto
    next
      case False
      with x s have "x \<in> set seen - set pending" by (auto simp: ps)
      with x inv have "q \<in> set seen" by (auto simp: walk_inv_def)
      with s show ?thesis by auto
    qed
  qed
  ultimately show ?thesis
    using inv s visit_distinct [OF v] by (auto simp: walk_inv_def ps)
qed

lemma walk_inv_descend: "walk_inv rows r0 seen pending \<Longrightarrow> walk_inv rows r0 (descend rows seen pending) []"
proof (induction rows seen pending rule: descend.induct)
  case (1 rows seen pending)
  show ?case
  proof (cases "pending = []")
    case True
    with "1.prems" show ?thesis by (simp add: descend.simps)
  next
    case False
    obtain seen' pending' where v:
      "visit_children (children_of rows (last pending)) (seen, butlast pending) = (seen', pending')"
      by (cases "visit_children (children_of rows (last pending)) (seen, butlast pending)")
    from walk_inv_step [OF "1.prems" False v] "1.IH" [OF False v [symmetric]]
    have "walk_inv rows r0 (descend rows seen' pending') []" by simp
    with False v show ?thesis by (subst descend.simps) simp
  qed
qed

text \<open>C17. The walk over the process table ends and collects the root and exactly its
  descendants, each once, so no process is counted twice and none is missed, even when the table
  read from \<open>/proc\<close> is inconsistent and contains a cycle.\<close>

theorem descend_descendants:
  "set (descend rows [r0] [r0]) = (child_relation rows)\<^sup>* `` {r0} \<and> distinct (descend rows [r0] [r0])"
proof -
  have inv: "walk_inv rows r0 (descend rows [r0] [r0]) []"
    by (rule walk_inv_descend) (auto simp: walk_inv_def)
  then have closed: "child_relation rows `` set (descend rows [r0] [r0]) \<subseteq> set (descend rows [r0] [r0])"
    by (simp add: walk_inv_def)
  have "q \<in> set (descend rows [r0] [r0])" if "(r0, q) \<in> (child_relation rows)\<^sup>*" for q
    using that by induction (use inv closed in \<open>auto simp: walk_inv_def\<close>)
  with inv show ?thesis by (auto simp: walk_inv_def)
qed

section \<open>The table of processes\<close>

record dir_entry =
  de_name :: string
  de_isDirectory :: bool

text \<open>\<open>stat.slice(stat.lastIndexOf(")") + 2)\<close>; the index is -1 when there is no bracket.\<close>

definition after_comm :: "string \<Rightarrow> string" where
  "after_comm stat =
     (let tail = takeWhile (\<lambda>c. c \<noteq> CHR '')'') (rev stat)
      in if CHR '')'' \<in> set stat then drop (length stat - length tail + 1) stat else drop 1 stat)"

text \<open>\<open>split(/\s+/)\<close> of a text without blanks at its ends.\<close>

fun split_blanks :: "string \<Rightarrow> string list" where
  "split_blanks [] = [[]]"
| "split_blanks (c # s) =
     (if is_space c
      then (case s of
              [] \<Rightarrow> [[], []]
            | d # _ \<Rightarrow> if is_space d then split_blanks s else [] # split_blanks s)
      else (case split_blanks s of w # ws \<Rightarrow> (c # w) # ws | [] \<Rightarrow> [[c]]))"

text \<open>\<open>Number\<close> followed by \<open>Number.isInteger\<close>.\<close>

definition js_integer :: "string \<Rightarrow> int option" where
  "js_integer s = Option.bind (js_number s) (\<lambda>q. if snd (quotient_of q) = 1 then Some (fst (quotient_of q)) else None)"

definition pid_name :: "dir_entry \<Rightarrow> bool" where
  "pid_name d \<longleftrightarrow> de_isDirectory d \<and> de_name d \<noteq> [] \<and> list_all is_digit (de_name d)"

definition process_row_of :: "(string \<Rightarrow> string option) \<Rightarrow> string \<Rightarrow> process_row option" where
  "process_row_of read pid =
     Option.bind (read (''/proc/'' @ pid @ ''/stat'')) (\<lambda>stat.
       case split_blanks (trim (after_comm stat)) of
         _ # ppid # _ \<Rightarrow>
           (case (js_integer pid, js_integer ppid) of
              (Some p, Some q) \<Rightarrow> Some (p, q)
            | _ \<Rightarrow> None)
       | _ \<Rightarrow> None)"

definition linuxProcesses :: "dir_entry list outcome \<Rightarrow> (string \<Rightarrow> string option) \<Rightarrow> process_row list outcome" where
  "linuxProcesses listing read =
     res_bind listing (\<lambda>entries. Inr (List.map_filter (process_row_of read) (map de_name (filter pid_name entries))))"

section \<open>The resident set\<close>

text \<open>The match of \<open>VmRSS:\s+(\d+)\s+kB$\<close> at the start of a text; no class overlaps the next one, so the runs are maximal.\<close>

definition vm_rss_here :: "string \<Rightarrow> string option" where
  "vm_rss_here s =
     (if \<not> starts_with s ''VmRSS:'' then None
      else let a = drop 6 s; b = dropWhile is_space a; ds = takeWhile is_digit b; e = dropWhile is_digit b; f = dropWhile is_space e
           in if a = b \<or> ds = [] \<or> e = f \<or> \<not> starts_with f ''kB'' then None
              else if drop 2 f = [] \<or> hd (drop 2 f) \<in> {CHR 0x0A, CHR 0x0D} then Some ds else None)"

text \<open>With the flag \<open>m\<close> the match may start after any line terminator; the flag of the function says whether the text is at such a
  place.\<close>

fun vm_rss :: "bool \<Rightarrow> string \<Rightarrow> string option" where
  "vm_rss fresh [] = None"
| "vm_rss fresh (c # s) =
     (case (if fresh then vm_rss_here (c # s) else None) of
        Some ds \<Rightarrow> Some ds
      | None \<Rightarrow> vm_rss (c \<in> {CHR 0x0A, CHR 0x0D}) s)"

definition linuxRssMb :: "(string \<Rightarrow> string option) \<Rightarrow> int \<Rightarrow> rat" where
  "linuxRssMb read pid =
     (case Option.bind (read (''/proc/'' @ show_int pid @ ''/status'')) (vm_rss True) of
        Some ds \<Rightarrow> of_nat (digits_val ds) / 1024
      | None \<Rightarrow> 0)"

text \<open>The measurement over the file system; a \<open>/proc\<close> that cannot be listed rejects it.\<close>

definition measured_trees ::
  "bool \<Rightarrow> dir_entry list outcome \<Rightarrow> (string \<Rightarrow> string option) \<Rightarrow> int list \<Rightarrow> measurement outcome" where
  "measured_trees linux listing read rootPids =
     (if \<not> linux then Inr (measureBrowserProcessTrees False read [] (linuxRssMb read) rootPids)
      else res_bind (linuxProcesses listing read) (\<lambda>rows. Inr (measureBrowserProcessTrees True read rows (linuxRssMb read) rootPids)))"

section \<open>What the readers find\<close>

text \<open>The line the kernel writes: number, name in brackets, state, parent, and the rest.\<close>

definition stat_line :: "nat \<Rightarrow> string \<Rightarrow> char \<Rightarrow> nat \<Rightarrow> string \<Rightarrow> string" where
  "stat_line pid comm state ppid rest =
     show_nat pid @ '' ('' @ comm @ '') '' @ [state] @ '' '' @ show_nat ppid @ '' '' @ rest"

lemma after_comm_last: "CHR '')'' \<notin> set s \<Longrightarrow> after_comm (p @ CHR '')'' # c # s) = (if c = CHR '')'' then drop 1 s else s)"
proof -
  assume s: "CHR '')'' \<notin> set s"
  then have t: "takeWhile (\<lambda>d. d \<noteq> CHR '')'') (rev s @ ys) = rev s @ takeWhile (\<lambda>d. d \<noteq> CHR '')'') ys" for ys
    by (intro takeWhile_append2) auto
  show ?thesis by (cases "c = CHR '')''") (simp_all add: after_comm_def Let_def t)
qed

lemma digit_no_space: "is_digit c \<Longrightarrow> \<not> is_space c"
  by (auto simp: is_digit_def is_space_def Let_def)

lemma split_blanks_blank: "y = [] \<or> is_space (hd y) \<Longrightarrow> \<exists>ws. split_blanks y = [] # ws"
proof (induction y)
  case (Cons c y)
  then show ?case by (cases y) auto
qed simp

lemma split_blanks_word:
  "list_all (\<lambda>c. \<not> is_space c) w \<Longrightarrow> y = [] \<or> is_space (hd y) \<Longrightarrow> \<exists>ws. split_blanks (w @ y) = w # ws"
proof (induction w)
  case Nil
  with split_blanks_blank show ?case by simp
next
  case (Cons c w)
  then obtain ws where "split_blanks (w @ y) = w # ws" by auto
  with Cons.prems show ?case by simp
qed

lemma trim_tail:
  assumes "xs \<noteq> []" "\<not> is_space (hd xs)" "\<not> is_space (last xs)"
  shows "\<exists>zs. prefix zs ys \<and> trim (xs @ ys) = xs @ zs"
proof -
  let ?zs = "rev (dropWhile is_space (rev ys))"
  have front: "dropWhile is_space (xs @ ys) = xs @ ys" using assms by (cases xs) simp_all
  have drop_some: "dropWhile is_space (as @ bs) = (if dropWhile is_space as = [] then dropWhile is_space bs else dropWhile is_space as @ bs)"
    for as bs by (induction as) simp_all
  have rear: "dropWhile is_space (rev xs) = rev xs" using assms by (cases xs rule: rev_cases) simp_all
  have "trim (xs @ ys) = xs @ ?zs"
    unfolding trim_def front rev_append
    by (cases "dropWhile is_space (rev ys)") (simp_all only: drop_some rear if_True if_False list.distinct rev_append rev_rev_ident rev.simps append_Nil append_Nil2 simp_thms)
  moreover have "prefix ?zs ys" using suffix_dropWhile [of is_space "rev ys"] by (simp add: suffix_to_prefix)
  ultimately show ?thesis by blast
qed

lemma digits_only: "list_all is_digit w \<Longrightarrow> takeWhile is_digit w = w \<and> dropWhile is_digit w = []"
  by (induction w) simp_all

lemma digit_head: "is_digit c \<Longrightarrow> c \<noteq> CHR ''-'' \<and> c \<noteq> CHR ''+'' \<and> c \<noteq> CHR ''x'' \<and> c \<noteq> CHR ''o'' \<and> c \<noteq> CHR ''b''"
  by (auto simp: is_digit_def Let_def)

lemma digits_val_Nil: "digits_val [] = 0"
  by (simp add: digits_val_def)

lemma js_number_show_nat: "js_number (show_nat n) = Some (of_nat n)"
proof -
  obtain c cs where w: "show_nat n = c # cs" by (cases "show_nat n") auto
  have d: "list_all is_digit (c # cs)" using show_nat_digits [of n] w by simp
  then have c: "is_digit c" by simp
  have plain: "\<not> is_space c" using c by (rule digit_no_space)
  have ends: "\<not> is_space (last (c # cs))" using d by (intro digit_no_space) (metis last_in_set list.distinct(1) list_all_iff)
  from trim_tail [of "c # cs" "[]"] plain ends have t: "trim (c # cs) = c # cs" by auto
  have second: "\<not> starts_with (to_lower (c # cs)) [CHR ''0'', l]" if "l \<in> {CHR ''x'', CHR ''o'', CHR ''b''}" for l
    using d that by (cases cs) (auto simp: starts_with_def to_lower_def lower_char_def is_digit_def Let_def)
  have "decimal_literal (c # cs) = Some (of_nat n)"
    using digits_only [OF d] digits_val_show_nat [of n] w by (simp add: decimal_literal_def exponent_value_def Let_def digits_val_Nil)
  with t second digit_head [OF c] show ?thesis by (simp add: js_number_def w Let_def)
qed

lemma js_integer_show_nat: "js_integer (show_nat n) = Some (int n)"
  by (simp add: js_integer_def js_number_show_nat quotient_of_int [of "int n", simplified])

text \<open>The parent in the table is the one the kernel wrote, whatever the process calls itself, brackets and blanks included.\<close>

theorem stat_parent_found:
  assumes "read (''/proc/'' @ show_nat pid @ ''/stat'') = Some (stat_line pid comm state ppid rest)"
    and rest: "CHR '')'' \<notin> set rest" and state: "\<not> is_space state" "state \<noteq> CHR '')''"
  shows "process_row_of read (show_nat pid) = Some (int pid, int ppid)"
proof -
  let ?s = "state # CHR '' '' # show_nat ppid @ '' '' @ rest"
  have digits: "list_all (\<lambda>c. \<not> is_space c) (show_nat ppid)" "CHR '')'' \<notin> set (show_nat ppid)"
    using show_nat_digits [of ppid] digit_no_space by (auto simp: list_all_iff is_digit_def Let_def)
  have sp: "is_space (CHR '' '')" by (simp add: is_space_def)
  have tail: "after_comm (stat_line pid comm state ppid rest) = ?s"
    using after_comm_last [of ?s "show_nat pid @ '' ('' @ comm" "CHR '' ''"] rest state digits(2) by (simp add: stat_line_def)
  have "\<not> is_space (last (state # CHR '' '' # show_nat ppid))"
    using digits(1) by (simp add: list_all_iff)
  from trim_tail [of "state # CHR '' '' # show_nat ppid" "'' '' @ rest"] this state(1)
  obtain zs where zs: "prefix zs ('' '' @ rest)" "trim ?s = state # CHR '' '' # show_nat ppid @ zs" by auto
  from zs(1) sp have "zs = [] \<or> is_space (hd zs)" by (cases zs) auto
  from split_blanks_word [OF digits(1) this] obtain ws where ws: "split_blanks (show_nat ppid @ zs) = show_nat ppid # ws" by blast
  obtain d ds where dd: "show_nat ppid = d # ds" by (cases "show_nat ppid") auto
  with digits(1) have "\<not> is_space d" by simp
  with ws zs(2) dd sp state(1) have "split_blanks (trim ?s) = [state] # show_nat ppid # ws" by simp
  with assms(1) tail show ?thesis by (simp add: process_row_of_def js_integer_show_nat)
qed

theorem stat_parent_found_witness:
  "process_row_of (\<lambda>_. Some (stat_line 42 ''a) b (c'' (CHR ''S'') 7 (''0 -1'' @ [CHR 0x0A]))) (show_nat 42) = Some (42, 7)"
  using stat_parent_found [of "\<lambda>_. Some (stat_line 42 ''a) b (c'' (CHR ''S'') 7 (''0 -1'' @ [CHR 0x0A]))" 42 "''a) b (c''" "CHR ''S''" 7
      "''0 -1'' @ [CHR 0x0A]"] by (simp add: is_space_def)

text \<open>The resident set is read from its own line, wherever it stands.\<close>

lemma prefix_before: "c \<notin> set p \<Longrightarrow> prefix p (l @ c # s) \<Longrightarrow> prefix p l"
proof (induction l arbitrary: p)
  case Nil
  then show ?case by (cases p) auto
next
  case (Cons d l)
  then show ?case by (cases p) auto
qed

lemma vm_rss_quiet: "CHR 0x0A \<notin> set l \<Longrightarrow> CHR 0x0D \<notin> set l \<Longrightarrow> vm_rss False (l @ CHR 0x0A # s) = vm_rss True s"
  by (induction l) auto

lemma vm_rss_skip:
  assumes "CHR 0x0A \<notin> set l" "CHR 0x0D \<notin> set l" "\<not> starts_with l ''VmRSS:''"
  shows "vm_rss True (l @ CHR 0x0A # s) = vm_rss True s"
proof -
  have none: "vm_rss_here (l @ CHR 0x0A # s) = None"
    using assms(3) prefix_before [of "CHR 0x0A" "''VmRSS:''" l s] by (auto simp: vm_rss_here_def starts_with_def)
  show ?thesis
  proof (cases l)
    case Nil
    with none show ?thesis by simp
  next
    case (Cons c cs)
    with none assms vm_rss_quiet [of cs s] show ?thesis by auto
  qed
qed

lemma vm_rss_line: "vm_rss True (''VmRSS:'' @ CHR 0x09 # show_nat n @ '' kB'' @ CHR 0x0A # s) = Some (show_nat n)"
proof -
  obtain c cs where w: "show_nat n = c # cs" by (cases "show_nat n") auto
  have d: "list_all is_digit (c # cs)" using show_nat_digits [of n] w by simp
  then have c: "is_digit c" "\<not> is_space c" by (simp_all add: digit_no_space)
  have t: "takeWhile is_digit (c # cs @ CHR '' '' # y) = c # cs \<and> dropWhile is_digit (c # cs @ CHR '' '' # y) = CHR '' '' # y" for y
    using d by (simp add: list_all_iff takeWhile_append2 dropWhile_append2) (simp add: is_digit_def)
  have sp: "is_space (CHR 0x09)" "is_space (CHR '' '')" "\<not> is_space (CHR ''k'')" by (simp_all add: is_space_def)
  have "vm_rss_here (''VmRSS:'' @ CHR 0x09 # show_nat n @ '' kB'' @ CHR 0x0A # s) = Some (show_nat n)"
    using t c sp by (simp add: vm_rss_here_def w starts_with_def Let_def)
  then show ?thesis by (simp add: w)
qed

definition file_lines :: "string list \<Rightarrow> string" where
  "file_lines ls = concat (map (\<lambda>l. l @ [CHR 0x0A]) ls)"

lemma vm_rss_lines:
  "\<forall>l \<in> set ls. CHR 0x0A \<notin> set l \<and> CHR 0x0D \<notin> set l \<and> \<not> starts_with l ''VmRSS:'' \<Longrightarrow>
    vm_rss True (file_lines ls @ s) = vm_rss True s"
  by (induction ls) (simp_all add: file_lines_def vm_rss_skip)

theorem resident_set_read:
  assumes "read (''/proc/'' @ show_int pid @ ''/status'') = Some (file_lines (before @ (''VmRSS:'' @ CHR 0x09 # show_nat n @ '' kB'') # rest))"
    and "\<forall>l \<in> set before. CHR 0x0A \<notin> set l \<and> CHR 0x0D \<notin> set l \<and> \<not> starts_with l ''VmRSS:''"
  shows "linuxRssMb read pid = of_nat n / 1024"
  using assms(1) vm_rss_lines [OF assms(2)] vm_rss_line [of n "file_lines rest"]
  by (simp add: linuxRssMb_def file_lines_def)

theorem resident_set_read_witness:
  "linuxRssMb (\<lambda>_. Some (file_lines [''Name:a'', ''VmRSS:'' @ CHR 0x09 # show_nat 2048 @ '' kB'', ''Threads:1''])) 5 = 2"
  using resident_set_read [of "\<lambda>_. Some (file_lines [''Name:a'', ''VmRSS:'' @ CHR 0x09 # show_nat 2048 @ '' kB'', ''Threads:1''])" 5
      "[''Name:a'']" 2048 "[''Threads:1'']"] by (simp add: starts_with_def)

text \<open>When the directory cannot be listed, the measurement rejects instead of reporting no trees.\<close>

lemma unlisted_proc_rejects: "measured_trees True (Inl e) read rootPids = Inl e"
  by (simp add: measured_trees_def linuxProcesses_def)

end
