(* ===== verification/OB_Config.thy ===== *)
theory OB_Config
  imports OB_Types OB_Url
begin

text \<open>
  Start-up configuration: \<open>src/src/config/environment.ts\<close> (typed environment variables),
  \<open>src/src/config/policies.ts\<close> (API-key policies) and \<open>src/src/config.ts\<close> (the configuration
  object and its cross-field checks). The surroundings of the process (environment, URL and JSON
  parser, path resolution, file system, SHA-256) are the fields of a \<open>platform\<close>.
\<close>

record platform =
  env :: "string \<Rightarrow> string option"
  parse_url :: url_parser
  parse_json :: "string \<Rightarrow> jsval option"
  resolve_path :: "string \<Rightarrow> string"
  is_directory :: "string \<Rightarrow> bool"
  path_delimiter :: char
  sha256_hex :: "string \<Rightarrow> string"

section \<open>Typed environment variables\<close>

definition throw_error :: "string \<Rightarrow> 'a outcome" where
  "throw_error m = Inl (JsError m)"

lemma throw_error_neq [simp]: "throw_error m \<noteq> Inr x"
  by (simp add: throw_error_def)

text \<open>\<open>Number.parseInt(raw, 10)\<close>; \<open>None\<close> is \<open>NaN\<close>.\<close>

definition parse_int :: "string \<Rightarrow> int option" where
  "parse_int s =
     (let t = dropWhile is_space s;
          neg = (t \<noteq> [] \<and> hd t = CHR ''-'');
          u = (if t \<noteq> [] \<and> (hd t = CHR ''-'' \<or> hd t = CHR ''+'') then tl t else t);
          ds = takeWhile is_digit u
      in if ds = [] then None
         else Some (if neg then - int (digits_val ds) else int (digits_val ds)))"

definition is_safe_integer :: "int \<Rightarrow> bool" where
  "is_safe_integer i \<longleftrightarrow> \<bar>i\<bar> \<le> 2 ^ 53 - 1"

definition env_int :: "platform \<Rightarrow> string \<Rightarrow> int \<Rightarrow> int \<Rightarrow> int \<Rightarrow> int outcome" where
  "env_int p name fallback lo hi =
     (case env p name of
        None \<Rightarrow> Inr fallback
      | Some raw \<Rightarrow>
          if raw = [] then Inr fallback
          else (case parse_int raw of
                  Some v \<Rightarrow>
                    if \<not> is_safe_integer v \<or> v < lo \<or> v > hi
                    then throw_error (name @ '' must be an integer from '' @ show_int lo @ '' to '' @ show_int hi)
                    else Inr v
                | None \<Rightarrow>
                    throw_error (name @ '' must be an integer from '' @ show_int lo @ '' to '' @ show_int hi)))"

definition env_bool :: "platform \<Rightarrow> string \<Rightarrow> bool \<Rightarrow> bool outcome" where
  "env_bool p name fallback =
     (case env p name of
        None \<Rightarrow> Inr fallback
      | Some raw \<Rightarrow>
          if raw = [] then Inr fallback
          else if raw = ''true'' \<or> raw = ''1'' then Inr True
          else if raw = ''false'' \<or> raw = ''0'' then Inr False
          else throw_error (name @ '' must be true, false, 1, or 0''))"

definition env_or :: "platform \<Rightarrow> string \<Rightarrow> string \<Rightarrow> string" where
  "env_or p name d = (case env p name of None \<Rightarrow> d | Some v \<Rightarrow> v)"

definition csv :: "char \<Rightarrow> string \<Rightarrow> string list" where
  "csv sep raw = filter (\<lambda>w. w \<noteq> []) (map trim (split_on sep raw))"

definition http_protocol :: "string \<Rightarrow> bool" where
  "http_protocol s \<longleftrightarrow> s = ''http:'' \<or> s = ''https:''"

definition strip_trailing_slash :: "string \<Rightarrow> string" where
  "strip_trailing_slash s = (if s \<noteq> [] \<and> last s = CHR ''/'' then butlast s else s)"

definition externalAddress :: "platform \<Rightarrow> string outcome" where
  "externalAddress p =
     (let raw = trim (env_or p ''OPENBROWSE_EXTERNAL_URL'' '''') in
      if raw = [] then Inr []
      else (case parse_url p raw of
              None \<Rightarrow> throw_error ''OPENBROWSE_EXTERNAL_URL must be an absolute http(s) URL''
            | Some u \<Rightarrow>
                if \<not> http_protocol (u_protocol u) \<or> u_username u \<noteq> [] \<or> u_password u \<noteq> []
                   \<or> url_search u \<noteq> [] \<or> url_hash u \<noteq> []
                then throw_error ''OPENBROWSE_EXTERNAL_URL must be an http(s) origin with no credentials, query, or fragment''
                else Inr (strip_trailing_slash (url_href u))))"

fun check_origins :: "platform \<Rightarrow> string list \<Rightarrow> unit outcome" where
  "check_origins p [] = Inr ()"
| "check_origins p (o' # os) =
     (if o' = ''*'' then check_origins p os
      else (case parse_url p o' of
              None \<Rightarrow> throw_error ''OPENBROWSE_CORS_ALLOWED_ORIGINS must contain absolute origins''
            | Some u \<Rightarrow>
                if \<not> http_protocol (u_protocol u) \<or> url_origin u \<noteq> o' \<or> u_username u \<noteq> [] \<or> u_password u \<noteq> []
                then throw_error ''OPENBROWSE_CORS_ALLOWED_ORIGINS must contain normalized http(s) origins only''
                else check_origins p os))"

definition corsOrigins :: "platform \<Rightarrow> string list outcome" where
  "corsOrigins p =
     (let raw = env_or p ''OPENBROWSE_CORS_ALLOWED_ORIGINS'' '''' in
      if trim raw = [] then Inr []
      else (let origins = csv (CHR '','') raw in
        if ''*'' \<in> set origins \<and> length origins > 1
        then throw_error ''OPENBROWSE_CORS_ALLOWED_ORIGINS may use * only by itself''
        else res_bind (check_origins p origins) (\<lambda>_. Inr (js_set origins))))"

fun check_dirs :: "platform \<Rightarrow> string list \<Rightarrow> string list outcome" where
  "check_dirs p [] = Inr []"
| "check_dirs p (v # vs) =
     (let directory = resolve_path p v in
      if \<not> is_directory p directory
      then throw_error (''OPENBROWSE_CHROMIUM_EXTENSION_DIRS contains a missing directory: '' @ directory)
      else res_bind (check_dirs p vs) (\<lambda>ds. Inr (directory # ds)))"

definition extensionDirs :: "platform \<Rightarrow> string list outcome" where
  "extensionDirs p =
     (let raw = env_or p ''OPENBROWSE_CHROMIUM_EXTENSION_DIRS'' '''' in
      if trim raw = [] then Inr [] else check_dirs p (csv (path_delimiter p) raw))"

section \<open>API-key policies\<close>

record api_key_policy =
  pol_name :: string
  pol_allowedRoutes :: "string list"
  pol_rateLimitPerMinute :: "int option"
  pol_dailyRequestLimit :: "int option"

definition obj_get :: "(string \<times> jsval) list \<Rightarrow> string \<Rightarrow> jsval" where
  "obj_get fs k = map_get_or JUndefined fs k"

definition route_char :: "char \<Rightarrow> bool" where
  "route_char c \<longleftrightarrow> (let n = of_char c :: nat in
     (48 \<le> n \<and> n \<le> 57) \<or> (65 \<le> n \<and> n \<le> 90) \<or> (97 \<le> n \<and> n \<le> 122)) \<or> c \<in> set ''_./-''"

text \<open>\<open>/^\\/[A-Za-z0-9_.\\/-]*\\*?$/\<close>.\<close>

definition route_pattern :: "string \<Rightarrow> bool" where
  "route_pattern s \<longleftrightarrow>
     (case s of [] \<Rightarrow> False
      | c # r \<Rightarrow> c = CHR ''/'' \<and>
          list_all route_char (if r \<noteq> [] \<and> last r = CHR ''*'' then butlast r else r))"

definition policy_label :: "nat \<Rightarrow> string \<Rightarrow> string" where
  "policy_label i rest = ''OPENBROWSE_API_KEY_POLICIES['' @ show_nat i @ '']'' @ rest"

fun js_routes :: "jsval list \<Rightarrow> string list option" where
  "js_routes [] = Some []"
| "js_routes (JStr r # rs) = (if route_pattern r then map_option ((#) r) (js_routes rs) else None)"
| "js_routes _ = None"

definition policy_routes :: "nat \<Rightarrow> jsval \<Rightarrow> string list outcome" where
  "policy_routes i v =
     (let bad = throw_error (policy_label i ''.allowedRoutes must contain absolute routes, optionally ending in /*'')
      in case v of
           JUndefined \<Rightarrow> Inr []
         | JNull \<Rightarrow> Inr []
         | JArr vs \<Rightarrow>
             if length vs > 100 then bad
             else (case js_routes vs of
                     None \<Rightarrow> bad
                   | Some routes \<Rightarrow>
                       if list_ex (\<lambda>r. CHR ''*'' \<in> set r \<and> \<not> ends_with r ''/*'') routes
                       then throw_error (policy_label i ''.allowedRoutes wildcards may only appear as a final /*'')
                       else Inr routes)
         | _ \<Rightarrow> bad)"

definition policy_number :: "nat \<Rightarrow> string \<Rightarrow> int \<Rightarrow> int \<Rightarrow> jsval \<Rightarrow> int option outcome" where
  "policy_number i field lo hi v =
     (case v of
        JUndefined \<Rightarrow> Inr None
      | JNum q \<Rightarrow>
          if q = of_int \<lfloor>q\<rfloor> \<and> is_safe_integer \<lfloor>q\<rfloor> \<and> lo \<le> \<lfloor>q\<rfloor> \<and> \<lfloor>q\<rfloor> \<le> hi then Inr (Some \<lfloor>q\<rfloor>)
          else throw_error (policy_label i (''.'' @ field @ '' must be an integer from '' @ show_int lo @ '' to '' @ show_int hi))
      | _ \<Rightarrow> throw_error (policy_label i (''.'' @ field @ '' must be an integer from '' @ show_int lo @ '' to '' @ show_int hi)))"

definition policy_key :: "nat \<Rightarrow> jsval \<Rightarrow> string outcome" where
  "policy_key i v =
     (case v of
        JStr k \<Rightarrow>
          if trim k = [] \<or> length k > 512
          then throw_error (policy_label i ''.key must be a non-empty string up to 512 characters'')
          else Inr k
      | _ \<Rightarrow> throw_error (policy_label i ''.key must be a non-empty string up to 512 characters''))"

definition policy_name :: "nat \<Rightarrow> jsval \<Rightarrow> string" where
  "policy_name i v =
     (case v of
        JStr s \<Rightarrow> if trim s \<noteq> [] then take 128 (trim s) else ''key-'' @ show_nat (i + 1)
      | _ \<Rightarrow> ''key-'' @ show_nat (i + 1))"

definition policy_entry ::
  "platform \<Rightarrow> nat \<Rightarrow> (string, api_key_policy) jsmap \<Rightarrow> jsval \<Rightarrow> (string \<times> string \<times> api_key_policy) outcome" where
  "policy_entry p i policies value =
     (case value of
        JObj item \<Rightarrow>
          res_bind (policy_key i (obj_get item ''key'')) (\<lambda>key.
          res_bind (policy_routes i (obj_get item ''allowedRoutes'')) (\<lambda>routes.
          res_bind (ensure (map_of policies (sha256_hex p key) = None)
                      (JsError ''OPENBROWSE_API_KEY_POLICIES contains duplicate keys'')) (\<lambda>_.
          res_bind (policy_number i ''rateLimitPerMinute'' 1 100000 (obj_get item ''rateLimitPerMinute'')) (\<lambda>rate.
          res_bind (policy_number i ''dailyRequestLimit'' 0 100000000 (obj_get item ''dailyRequestLimit'')) (\<lambda>daily.
          Inr (key, sha256_hex p key,
               \<lparr>pol_name = policy_name i (obj_get item ''name''), pol_allowedRoutes = routes,
                pol_rateLimitPerMinute = rate, pol_dailyRequestLimit = daily\<rparr>))))))
      | _ \<Rightarrow> throw_error (policy_label i '' must be an object''))"

fun policy_entries ::
  "platform \<Rightarrow> nat \<Rightarrow> string list \<Rightarrow> (string, api_key_policy) jsmap \<Rightarrow> jsval list
     \<Rightarrow> (string list \<times> (string, api_key_policy) jsmap) outcome" where
  "policy_entries p i keys policies [] = Inr (keys, policies)"
| "policy_entries p i keys policies (v # vs) =
     res_bind (policy_entry p i policies v) (\<lambda>(key, hash, pol).
       policy_entries p (Suc i) (keys @ [key]) (map_set hash pol policies) vs)"

definition apiKeyPolicies :: "platform \<Rightarrow> (string list \<times> (string, api_key_policy) jsmap) outcome" where
  "apiKeyPolicies p =
     (let raw = env_or p ''OPENBROWSE_API_KEY_POLICIES'' '''' in
      if trim raw = [] then Inr ([], [])
      else (case parse_json p raw of
              None \<Rightarrow> throw_error ''OPENBROWSE_API_KEY_POLICIES must be valid JSON''
            | Some (JArr vs) \<Rightarrow>
                if length vs > 100
                then throw_error ''OPENBROWSE_API_KEY_POLICIES must be an array of at most 100 policies''
                else policy_entries p 0 [] [] vs
            | Some _ \<Rightarrow> throw_error ''OPENBROWSE_API_KEY_POLICIES must be an array of at most 100 policies''))"

section \<open>The configuration object\<close>

record config =
  host :: string
  port :: int
  externalUrl :: string
  corsAllowedOrigins :: "string list"
  apiKeys :: "string list"
  apiKeyPolicyMap :: "(string, api_key_policy) jsmap"
  dataDir :: string
  maxConcurrency :: int
  browserPoolMin :: int
  browserPoolMax :: int
  browserContextsPerWorker :: int
  browserWorkerFailureLimit :: int
  browserLaunchBackoffMs :: int
  browserLaunchTimeoutMs :: int
  browserHeadless :: bool
  memorySoftMb :: int
  memoryHardMb :: int
  memoryReserveMb :: int
  browserMaxJobs :: int
  browserMaxAgeMs :: int
  browserRecycleRssMb :: int
  queueMax :: int
  jobTimeoutMs :: int
  pageMax :: int
  cacheMemoryBytes :: int
  cacheDiskBytes :: int
  maxResponseBytes :: int
  encryptionKey :: string
  searchEndpoint :: string
  queueAlertUrl :: string
  rejectAlertUrl :: string
  timeoutAlertUrl :: string
  errorAlertUrl :: string
  failedHealthUrl :: string
  dailyRequestLimit :: int
  maxSessionTtlSeconds :: int
  allowClientLaunchOptions :: bool
  chromiumSandbox :: bool
  lighthouseEnabled :: bool
  rawBrowserProtocolBridges :: bool
  cachePurgeEnabled :: bool
  egressProxyUrl :: string
  chromiumExtensionDirs :: "string list"
  vncBridgeUrl :: string
  enabledBrowserBackends :: "backend list"
  defaultBrowserBackend :: backend
  cloakBrowserLicenseAccepted :: bool
  clearcoteExecutablePath :: string

fun known_backends :: "string list \<Rightarrow> backend list outcome" where
  "known_backends [] = Inr []"
| "known_backends (v # vs) =
     (case backend_of_id v of
        None \<Rightarrow> throw_error (''OPENBROWSE_BROWSER_BACKENDS contains unsupported backend '' @ [CHR 0x27] @ v @ [CHR 0x27])
      | Some b \<Rightarrow> res_bind (known_backends vs) (\<lambda>bs. Inr (b # bs)))"

definition configuredBrowserBackends :: "platform \<Rightarrow> backend list outcome" where
  "configuredBrowserBackends p =
     (let values = csv (CHR '','') (env_or p ''OPENBROWSE_BROWSER_BACKENDS'' ''playwright-chromium,patchright-chromium'')
      in res_bind (known_backends values) (\<lambda>bs.
         if values = [] then throw_error ''OPENBROWSE_BROWSER_BACKENDS must enable at least one backend''
         else Inr (js_set bs)))"

definition load_fields ::
  "platform \<Rightarrow> string list \<times> (string, api_key_policy) jsmap \<Rightarrow> backend list \<Rightarrow> backend \<Rightarrow> config outcome" where
  "load_fields p configuredPolicies enabled dflt =
     res_bind (env_int p ''OPENBROWSE_PORT'' 3000 1 65535) (\<lambda>v_port.
     res_bind (externalAddress p) (\<lambda>v_externalUrl.
     res_bind (corsOrigins p) (\<lambda>v_cors.
     res_bind (env_int p ''OPENBROWSE_MAX_CONCURRENCY'' 4 1 100) (\<lambda>v_maxConcurrency.
     res_bind (env_int p ''OPENBROWSE_BROWSER_POOL_MIN'' 0 0 20) (\<lambda>v_poolMin.
     res_bind (env_int p ''OPENBROWSE_BROWSER_POOL_MAX'' 2 1 20) (\<lambda>v_poolMax.
     res_bind (env_int p ''OPENBROWSE_BROWSER_CONTEXTS_PER_WORKER'' 4 1 20) (\<lambda>v_contexts.
     res_bind (env_int p ''OPENBROWSE_BROWSER_WORKER_FAILURE_LIMIT'' 3 1 100) (\<lambda>v_failureLimit.
     res_bind (env_int p ''OPENBROWSE_BROWSER_LAUNCH_BACKOFF_MS'' 1000 100 60000) (\<lambda>v_backoff.
     res_bind (env_int p ''OPENBROWSE_BROWSER_LAUNCH_TIMEOUT_MS'' 60000 1000 300000) (\<lambda>v_launchTimeout.
     res_bind (env_bool p ''OPENBROWSE_BROWSER_HEADLESS'' True) (\<lambda>v_headless.
     res_bind (env_int p ''OPENBROWSE_MEMORY_SOFT_MB'' 1536 64 1048576) (\<lambda>v_soft.
     res_bind (env_int p ''OPENBROWSE_MEMORY_HARD_MB'' 1900 64 1048576) (\<lambda>v_hard.
     res_bind (env_int p ''OPENBROWSE_MEMORY_RESERVE_MB'' 256 0 1048576) (\<lambda>v_reserve.
     res_bind (env_int p ''OPENBROWSE_BROWSER_MAX_JOBS'' 200 1 100000) (\<lambda>v_maxJobs.
     res_bind (env_int p ''OPENBROWSE_BROWSER_MAX_AGE_MS'' 1800000 1000 86400000) (\<lambda>v_maxAge.
     res_bind (env_int p ''OPENBROWSE_BROWSER_RECYCLE_RSS_MB'' 900 64 1048576) (\<lambda>v_recycleRss.
     res_bind (env_int p ''OPENBROWSE_QUEUE_MAX'' 100 0 100000) (\<lambda>v_queueMax.
     res_bind (env_int p ''OPENBROWSE_JOB_TIMEOUT_MS'' 30000 100 300000) (\<lambda>v_jobTimeout.
     res_bind (env_int p ''OPENBROWSE_PAGE_MAX'' 4 1 20) (\<lambda>v_pageMax.
     res_bind (env_int p ''OPENBROWSE_CACHE_MEMORY_MB'' 64 1 4096) (\<lambda>v_cacheMemory.
     res_bind (env_int p ''OPENBROWSE_CACHE_DISK_MB'' 2048 1 1048576) (\<lambda>v_cacheDisk.
     res_bind (env_int p ''OPENBROWSE_MAX_RESPONSE_BYTES'' 10485760 1024 1073741824) (\<lambda>v_maxResponse.
     res_bind (env_int p ''OPENBROWSE_DAILY_REQUEST_LIMIT'' 0 0 100000000) (\<lambda>v_daily.
     res_bind (env_int p ''OPENBROWSE_MAX_SESSION_TTL_SECONDS'' 86400 60 7776000) (\<lambda>v_ttl.
     res_bind (env_bool p ''OPENBROWSE_ALLOW_CLIENT_LAUNCH_OPTIONS'' False) (\<lambda>v_clientLaunch.
     res_bind (env_bool p ''OPENBROWSE_CHROMIUM_SANDBOX'' True) (\<lambda>v_sandbox.
     res_bind (env_bool p ''OPENBROWSE_LIGHTHOUSE_ENABLED'' False) (\<lambda>v_lighthouse.
     res_bind (env_bool p ''OPENBROWSE_RAW_BROWSER_PROTOCOL_BRIDGES'' False) (\<lambda>v_bridges.
     res_bind (env_bool p ''OPENBROWSE_CACHE_PURGE_ENABLED'' False) (\<lambda>v_purge.
     res_bind (extensionDirs p) (\<lambda>v_extensions.
     res_bind (env_bool p ''OPENBROWSE_CLOAKBROWSER_LICENSE_ACCEPTED'' False) (\<lambda>v_license.
     Inr \<lparr>host = env_or p ''OPENBROWSE_HOST'' ''0.0.0.0'', port = v_port, externalUrl = v_externalUrl,
          corsAllowedOrigins = v_cors,
          apiKeys = js_set (csv (CHR '','') (env_or p ''OPENBROWSE_API_KEYS'' '''') @ fst configuredPolicies),
          apiKeyPolicyMap = snd configuredPolicies,
          dataDir = resolve_path p (env_or p ''OPENBROWSE_DATA_DIR'' ''./data''),
          maxConcurrency = v_maxConcurrency, browserPoolMin = v_poolMin, browserPoolMax = v_poolMax,
          browserContextsPerWorker = v_contexts, browserWorkerFailureLimit = v_failureLimit,
          browserLaunchBackoffMs = v_backoff, browserLaunchTimeoutMs = v_launchTimeout,
          browserHeadless = v_headless, memorySoftMb = v_soft, memoryHardMb = v_hard,
          memoryReserveMb = v_reserve, browserMaxJobs = v_maxJobs, browserMaxAgeMs = v_maxAge,
          browserRecycleRssMb = v_recycleRss, queueMax = v_queueMax, jobTimeoutMs = v_jobTimeout,
          pageMax = v_pageMax, cacheMemoryBytes = v_cacheMemory * 1024 * 1024,
          cacheDiskBytes = v_cacheDisk * 1024 * 1024, maxResponseBytes = v_maxResponse,
          encryptionKey = env_or p ''OPENBROWSE_ENCRYPTION_KEY'' '''',
          searchEndpoint = env_or p ''OPENBROWSE_SEARCH_ENDPOINT'' '''',
          queueAlertUrl = env_or p ''OPENBROWSE_QUEUE_ALERT_URL'' '''',
          rejectAlertUrl = env_or p ''OPENBROWSE_REJECT_ALERT_URL'' '''',
          timeoutAlertUrl = env_or p ''OPENBROWSE_TIMEOUT_ALERT_URL'' '''',
          errorAlertUrl = env_or p ''OPENBROWSE_ERROR_ALERT_URL'' '''',
          failedHealthUrl = env_or p ''OPENBROWSE_FAILED_HEALTH_URL'' '''',
          dailyRequestLimit = v_daily, maxSessionTtlSeconds = v_ttl,
          allowClientLaunchOptions = v_clientLaunch, chromiumSandbox = v_sandbox,
          lighthouseEnabled = v_lighthouse, rawBrowserProtocolBridges = v_bridges,
          cachePurgeEnabled = v_purge, egressProxyUrl = env_or p ''OPENBROWSE_EGRESS_PROXY_URL'' '''',
          chromiumExtensionDirs = v_extensions, vncBridgeUrl = env_or p ''OPENBROWSE_VNC_BRIDGE_URL'' '''',
          enabledBrowserBackends = enabled, defaultBrowserBackend = dflt,
          cloakBrowserLicenseAccepted = v_license,
          clearcoteExecutablePath = trim (env_or p ''OPENBROWSE_CLEARCOTE_EXECUTABLE_PATH'' '''')\<rparr>))))))))))))))))))))))))))))))))"

text \<open>
  The checks after the object. The default backend is an unchecked cast in the source until the
  third check; \<open>None\<close> stands for a string that names no backend.
\<close>

definition check_config :: "platform \<Rightarrow> config \<Rightarrow> backend option \<Rightarrow> unit outcome" where
  "check_config p c dflt =
     res_bind (ensure (memoryReserveMb c < memoryHardMb c)
       (JsError ''OPENBROWSE_MEMORY_HARD_MB must exceed OPENBROWSE_MEMORY_RESERVE_MB'')) (\<lambda>_.
     res_bind (ensure (browserPoolMin c \<le> browserPoolMax c)
       (JsError ''OPENBROWSE_BROWSER_POOL_MIN must not exceed OPENBROWSE_BROWSER_POOL_MAX'')) (\<lambda>_.
     res_bind (ensure (dflt \<noteq> None)
       (JsError ''OPENBROWSE_DEFAULT_BROWSER_BACKEND must name a supported backend'')) (\<lambda>_.
     res_bind (ensure (the dflt \<in> set (enabledBrowserBackends c))
       (JsError ''OPENBROWSE_DEFAULT_BROWSER_BACKEND must also be enabled by OPENBROWSE_BROWSER_BACKENDS'')) (\<lambda>_.
     res_bind (ensure (CloakBrowser \<in> set (enabledBrowserBackends c) \<longrightarrow> cloakBrowserLicenseAccepted c)
       (JsError ''OPENBROWSE_CLOAKBROWSER_LICENSE_ACCEPTED=true is required before enabling CloakBrowser; operators are responsible for the applicable binary and OEM/SaaS license'')) (\<lambda>_.
     res_bind (ensure (apiKeys c \<noteq> [])
       (JsError ''OPENBROWSE_API_KEYS or OPENBROWSE_API_KEY_POLICIES must define at least one API key'')) (\<lambda>_.
     res_bind (ensure (32 \<le> length (encryptionKey c))
       (JsError ''OPENBROWSE_ENCRYPTION_KEY must be at least 32 characters'')) (\<lambda>_.
     if egressProxyUrl c = [] then Inr ()
     else (case parse_url p (egressProxyUrl c) of
             None \<Rightarrow> throw_error ''Invalid URL''
           | Some u \<Rightarrow> ensure (http_protocol (u_protocol u))
                        (JsError ''OPENBROWSE_EGRESS_PROXY_URL must use http or https'')))))))))"

definition load_config :: "platform \<Rightarrow> config outcome" where
  "load_config p =
     res_bind (apiKeyPolicies p) (\<lambda>policies.
     res_bind (configuredBrowserBackends p) (\<lambda>enabled.
     (let dflt = backend_of_id (env_or p ''OPENBROWSE_DEFAULT_BROWSER_BACKEND'' ''playwright-chromium'') in
      res_bind (load_fields p policies enabled (case dflt of None \<Rightarrow> Playwright | Some b \<Rightarrow> b)) (\<lambda>c.
      res_bind (check_config p c dflt) (\<lambda>_. Inr c)))))"

definition chromiumExtensionArgs :: "config \<Rightarrow> string list" where
  "chromiumExtensionArgs c =
     (if chromiumExtensionDirs c = [] then []
      else [''--disable-extensions-except='' @ join_with '','' (chromiumExtensionDirs c),
            ''--load-extension='' @ join_with '','' (chromiumExtensionDirs c)])"

section \<open>What a loaded configuration satisfies\<close>

text \<open>Every bound the components rely on; the theories of the components take it as a premise.\<close>

definition config_ok :: "config \<Rightarrow> bool" where
  "config_ok c \<longleftrightarrow>
     1 \<le> port c \<and> port c \<le> 65535 \<and>
     1 \<le> maxConcurrency c \<and> maxConcurrency c \<le> 100 \<and>
     0 \<le> browserPoolMin c \<and> browserPoolMin c \<le> browserPoolMax c \<and>
     1 \<le> browserPoolMax c \<and> browserPoolMax c \<le> 20 \<and>
     1 \<le> browserContextsPerWorker c \<and> 1 \<le> browserWorkerFailureLimit c \<and>
     100 \<le> browserLaunchBackoffMs c \<and> browserLaunchBackoffMs c \<le> 60000 \<and>
     64 \<le> memorySoftMb c \<and> 0 \<le> memoryReserveMb c \<and> memoryReserveMb c < memoryHardMb c \<and>
     1 \<le> browserMaxJobs c \<and> 0 \<le> queueMax c \<and>
     100 \<le> jobTimeoutMs c \<and> jobTimeoutMs c \<le> 300000 \<and>
     1024 * 1024 \<le> cacheMemoryBytes c \<and> 1024 * 1024 \<le> cacheDiskBytes c \<and>
     1024 \<le> maxResponseBytes c \<and> 0 \<le> dailyRequestLimit c \<and> 60 \<le> maxSessionTtlSeconds c \<and>
     apiKeys c \<noteq> [] \<and> 32 \<le> length (encryptionKey c) \<and>
     defaultBrowserBackend c \<in> set (enabledBrowserBackends c) \<and>
     (CloakBrowser \<in> set (enabledBrowserBackends c) \<longrightarrow> cloakBrowserLicenseAccepted c)"

lemma env_int_bounds:
  "env_int p n d lo hi = Inr v \<Longrightarrow> lo \<le> d \<Longrightarrow> d \<le> hi \<Longrightarrow> lo \<le> v \<and> v \<le> hi"
  by (auto simp: env_int_def split: option.splits if_splits)

lemmas env_int_lower = env_int_bounds [THEN conjunct1]
lemmas env_int_upper = env_int_bounds [THEN conjunct2]

end
