(* ===== verification/OB_Config_Facts.thy ===== *)
theory OB_Config_Facts
  imports OB_Config
begin

text \<open>
  What start-up establishes: a configuration that loads satisfies \<open>config_ok\<close>, which the component
  theories assume, and API-key policies are stored under the hash of their key, once each, with
  limits inside the documented ranges.
\<close>

lemma load_fields_bounds:
  assumes "load_fields p pol en d = Inr c"
  shows "1 \<le> port c \<and> port c \<le> 65535 \<and> 1 \<le> maxConcurrency c \<and> maxConcurrency c \<le> 100 \<and>
     0 \<le> browserPoolMin c \<and> 1 \<le> browserPoolMax c \<and> browserPoolMax c \<le> 20 \<and>
     1 \<le> browserContextsPerWorker c \<and> 1 \<le> browserWorkerFailureLimit c \<and>
     100 \<le> browserLaunchBackoffMs c \<and> browserLaunchBackoffMs c \<le> 60000 \<and>
     64 \<le> memorySoftMb c \<and> 0 \<le> memoryReserveMb c \<and>
     1 \<le> browserMaxJobs c \<and> 0 \<le> queueMax c \<and>
     100 \<le> jobTimeoutMs c \<and> jobTimeoutMs c \<le> 300000 \<and>
     1024 * 1024 \<le> cacheMemoryBytes c \<and> 1024 * 1024 \<le> cacheDiskBytes c \<and>
     1024 \<le> maxResponseBytes c \<and> 0 \<le> dailyRequestLimit c \<and> 60 \<le> maxSessionTtlSeconds c \<and>
     enabledBrowserBackends c = en \<and> defaultBrowserBackend c = d"
  using assms unfolding load_fields_def
  apply (elim res_bind_InrE)
  apply (drule env_int_bounds, simp (no_asm), simp (no_asm))+
  apply (drule sum.inject(2) [THEN iffD1])
  apply hypsubst
  apply (simp only: config.select_convs)
  apply (simp (no_asm_simp))
  done

lemma check_config_facts:
  assumes "check_config p c dflt = Inr ()"
  shows "memoryReserveMb c < memoryHardMb c" and "browserPoolMin c \<le> browserPoolMax c"
    and "dflt \<noteq> None" and "the dflt \<in> set (enabledBrowserBackends c)"
    and "CloakBrowser \<in> set (enabledBrowserBackends c) \<Longrightarrow> cloakBrowserLicenseAccepted c"
    and "apiKeys c \<noteq> []" and "32 \<le> length (encryptionKey c)"
  using assms unfolding check_config_def by (auto simp: res_bind_Inr_iff)


definition sample_platform :: platform where
  "sample_platform =
     \<lparr>env = map_of [(''OPENBROWSE_API_KEYS'', ''alpha, beta''),
                    (''OPENBROWSE_ENCRYPTION_KEY'', replicate 32 (CHR ''k'')),
                    (''OPENBROWSE_MAX_CONCURRENCY'', ''8'')],
      parse_url = (\<lambda>_. None), parse_json = (\<lambda>_. None), resolve_path = id,
      is_directory = (\<lambda>_. False), path_delimiter = CHR '':'', sha256_hex = id\<rparr>"

definition sample_config :: config where
  "sample_config = projr (load_config sample_platform)"

lemma sample_platform_loads: "\<not> isl (load_config sample_platform)"
  by code_simp


lemma sample_config_fields:
  "maxConcurrency sample_config = 8" "queueMax sample_config = 100"
  "memoryHardMb sample_config = 1900" "memoryReserveMb sample_config = 256"
  "browserPoolMin sample_config = 0" "browserPoolMax sample_config = 2"
  "cacheMemoryBytes sample_config = 67108864"
  by code_simp+


lemma sample_config_ok: "config_ok sample_config"
  by code_simp

section \<open>API-key policies\<close>

definition policy_ok :: "api_key_policy \<Rightarrow> bool" where
  "policy_ok pol \<longleftrightarrow>
     list_all route_pattern (pol_allowedRoutes pol) \<and> length (pol_allowedRoutes pol) \<le> 100 \<and>
     (\<forall>r \<in> set (pol_allowedRoutes pol). CHR ''*'' \<in> set r \<longrightarrow> ends_with r ''/*'') \<and>
     (case pol_rateLimitPerMinute pol of None \<Rightarrow> True | Some n \<Rightarrow> 1 \<le> n \<and> n \<le> 100000) \<and>
     (case pol_dailyRequestLimit pol of None \<Rightarrow> True | Some n \<Rightarrow> 0 \<le> n \<and> n \<le> 100000000)"

lemma js_routes_Some: "js_routes vs = Some rs \<Longrightarrow> list_all route_pattern rs \<and> length rs = length vs"
  by (induction vs arbitrary: rs rule: js_routes.induct) (auto split: if_splits)

lemma policy_routes_ok:
  assumes "policy_routes i v = Inr rs"
  shows "list_all route_pattern rs" and "length rs \<le> 100"
    and "\<forall>r \<in> set rs. CHR ''*'' \<in> set r \<longrightarrow> ends_with r ''/*''"
  using assms js_routes_Some
  by (auto simp: policy_routes_def Let_def list_ex_iff throw_error_def
      split: jsval.splits if_splits option.splits)

lemma policy_number_ok:
  "policy_number i f lo hi v = Inr n \<Longrightarrow> (case n of None \<Rightarrow> True | Some k \<Rightarrow> lo \<le> k \<and> k \<le> hi)"
  by (auto simp: policy_number_def throw_error_def split: jsval.splits if_splits)

lemma policy_entry_ok:
  assumes "policy_entry p i policies v = Inr (key, hash, pol)"
  shows "hash = sha256_hex p key" and "map_of policies hash = None" and "policy_ok pol"
    and "trim key \<noteq> []" and "length key \<le> 512"
  using assms policy_routes_ok policy_number_ok
  by (auto simp: policy_entry_def policy_ok_def res_bind_Inr_iff policy_key_def throw_error_def
      split: jsval.splits if_splits)

definition policies_ok :: "platform \<Rightarrow> string list \<Rightarrow> (string, api_key_policy) jsmap \<Rightarrow> bool" where
  "policies_ok p keys policies \<longleftrightarrow>
     map fst policies = map (sha256_hex p) keys \<and> map_keys_ok policies \<and>
     (\<forall>pol \<in> snd ` set policies. policy_ok pol)"

lemma policies_ok_step:
  assumes "policies_ok p keys policies" and "policy_entry p i policies v = Inr (key, hash, pol)"
  shows "policies_ok p (keys @ [key]) (map_set hash pol policies)"
proof -
  note e = policy_entry_ok [OF assms(2)]
  have keys: "map fst policies = map (sha256_hex p) keys"
    using assms(1) by (simp add: policies_ok_def)
  then have "fst ` set policies = sha256_hex p ` set keys"
    by (metis image_set)
  with e(1,2) have "sha256_hex p key \<notin> sha256_hex p ` set keys"
    by (simp add: map_of_eq_None_iff)
  with assms(1) e keys show ?thesis
    by (auto simp: policies_ok_def map_set_append_fresh map_keys_ok_def)
qed

lemma policy_entries_ok:
  "policies_ok p keys policies \<Longrightarrow> policy_entries p i keys policies vs = Inr (keys', policies')
     \<Longrightarrow> policies_ok p keys' policies'"
proof (induction vs arbitrary: i keys policies)
  case (Cons v vs)
  then show ?case
    by (auto simp: res_bind_Inr_iff dest: policies_ok_step)
qed auto

text \<open>The policies a process starts with are stored under the SHA-256 hash of their own key, in
  order and without duplicates, and each carries only well-formed routes (a wildcard is a final
  slash-star) and limits inside the documented ranges.\<close>

theorem apiKeyPolicies_ok:
  assumes "apiKeyPolicies p = Inr (keys, policies)"
  shows "policies_ok p keys policies"
proof -
  have base: "policies_ok p [] []" by (simp add: policies_ok_def)
  show ?thesis
  proof (cases "trim (env_or p ''OPENBROWSE_API_KEY_POLICIES'' '''') = []")
    case True
    with assms base show ?thesis by (simp add: apiKeyPolicies_def)
  next
    case False
    with assms obtain vs where "policy_entries p 0 [] [] vs = Inr (keys, policies)"
      by (cases "parse_json p (env_or p ''OPENBROWSE_API_KEY_POLICIES'' '''')" rule: option.exhaust;
          cases "the (parse_json p (env_or p ''OPENBROWSE_API_KEY_POLICIES'' ''''))")
        (simp_all add: apiKeyPolicies_def Let_def split: if_splits)
    with base show ?thesis by (rule policy_entries_ok)
  qed
qed

definition policy_platform :: platform where
  "policy_platform = sample_platform
     \<lparr>env := map_of [(''OPENBROWSE_API_KEY_POLICIES'', ''json'')],
      parse_json := (\<lambda>_. Some (JArr
        [JObj [(''key'', JStr ''reader''), (''allowedRoutes'', JArr [JStr ''/v1/*'']),
               (''rateLimitPerMinute'', JNum 30)],
         JObj [(''key'', JStr ''writer'')]]))\<rparr>"

lemma policy_platform_loads:
  "apiKeyPolicies policy_platform =
     Inr ([''reader'', ''writer''],
          [(''reader'', \<lparr>pol_name = ''key-1'', pol_allowedRoutes = [''/v1/*''],
                         pol_rateLimitPerMinute = Some 30, pol_dailyRequestLimit = None\<rparr>),
           (''writer'', \<lparr>pol_name = ''key-2'', pol_allowedRoutes = [],
                         pol_rateLimitPerMinute = None, pol_dailyRequestLimit = None\<rparr>)])"
  by code_simp

theorem apiKeyPolicies_ok_witness:
  "policies_ok policy_platform [''reader'', ''writer'']
     (snd (projr (apiKeyPolicies policy_platform)))"
  using apiKeyPolicies_ok [OF policy_platform_loads] by (simp add: policy_platform_loads)

end
