(* ===== verification/OB_Pool.thy ===== *)
theory OB_Pool
  imports OB_ProcessMemory OB_Config_Facts OB_System OB_Types
begin

text \<open>
  The browser worker pool of \<open>src/src/execution/pool.ts\<close>. The methods are asynchronous; each part
  between two suspension points is one function on the pool, and \<open>OB_Pool_System\<close> composes them
  into a step system. A worker object lives on after it left \<open>this.workers\<close>, so all objects are
  kept in \<open>pl_objects\<close> under their identity and \<open>pl_workers\<close> is the list of identities in the
  pool. Launching a browser, the profile key and the process measurement are inputs.
\<close>

section \<open>State\<close>

datatype worker_state = Healthy | Draining | Dead

record worker =
  w_id :: nat
  w_backend :: backend
  w_profileKey :: string
  w_connected :: bool
  w_pid :: int
  w_jobs :: int
  w_createdAt :: millis
  w_active :: int
  w_failures :: int
  w_state :: worker_state
  w_rssMb :: rat

record memory_snapshot =
  ms_nodeRssMb :: rat
  ms_browserRssMb :: rat
  ms_processTreeRssMb :: rat
  ms_container :: "(rat \<times> rat) option"
  ms_authority :: memory_authority
  ms_totalRssMb :: rat
  ms_supported :: bool
  ms_sampledAt :: millis

record pool =
  pl_objects :: "worker list"
  pl_workers :: "nat list"
  pl_launching :: int
  pl_launchingBy :: "(backend, int) jsmap"
  pl_launchFailures :: int
  pl_launchFailuresBy :: "(backend, int) jsmap"
  pl_consecutiveBy :: "(backend, int) jsmap"
  pl_nextLaunchAtBy :: "(backend, millis) jsmap"
  pl_closed :: bool
  pl_launches :: int
  pl_launchesBy :: "(backend, int) jsmap"
  pl_crashes :: int
  pl_crashesBy :: "(backend, int) jsmap"
  pl_recycled :: int
  pl_recycledBy :: "(backend, int) jsmap"
  pl_replacements :: int
  pl_replacementsBy :: "(backend, int) jsmap"
  pl_memory :: memory_snapshot

definition new_pool :: "bool \<Rightarrow> rat \<Rightarrow> millis \<Rightarrow> pool" where
  "new_pool linux nodeRss now =
     \<lparr>pl_objects = [], pl_workers = [], pl_launching = 0, pl_launchingBy = [], pl_launchFailures = 0,
      pl_launchFailuresBy = [], pl_consecutiveBy = [], pl_nextLaunchAtBy = [], pl_closed = False,
      pl_launches = 0, pl_launchesBy = [], pl_crashes = 0, pl_crashesBy = [], pl_recycled = 0,
      pl_recycledBy = [], pl_replacements = 0, pl_replacementsBy = [],
      pl_memory = \<lparr>ms_nodeRssMb = nodeRss, ms_browserRssMb = 0, ms_processTreeRssMb = nodeRss, ms_container = None,
                   ms_authority = (if linux then AuthProcessTree else AuthNode), ms_totalRssMb = nodeRss,
                   ms_supported = linux, ms_sampledAt = now\<rparr>\<rparr>"

section \<open>Access to workers and counters\<close>

definition worker_of :: "pool \<Rightarrow> nat \<Rightarrow> worker option" where
  "worker_of p i = find (\<lambda>w. w_id w = i) (pl_objects p)"

text \<open>The entries of \<open>this.workers\<close>, in order.\<close>

definition workers :: "pool \<Rightarrow> worker list" where
  "workers p = List.map_filter (worker_of p) (pl_workers p)"

definition update_worker :: "nat \<Rightarrow> (worker \<Rightarrow> worker) \<Rightarrow> pool \<Rightarrow> pool" where
  "update_worker i f p = p\<lparr>pl_objects := update_by w_id i f (pl_objects p)\<rparr>"

text \<open>\<open>map.set(key, (map.get(key) ?? 0) + n)\<close>.\<close>

definition bump :: "'k \<Rightarrow> int \<Rightarrow> ('k, int) jsmap \<Rightarrow> ('k, int) jsmap" where
  "bump k n m = map_set k (map_get_or 0 m k + n) m"

definition remove_worker :: "nat \<Rightarrow> pool \<Rightarrow> pool" where
  "remove_worker i p = p\<lparr>pl_workers := remove1 i (pl_workers p)\<rparr>"

section \<open>Launching\<close>

text \<open>The part of \<open>launch\<close> before its first suspension.\<close>

definition launch_begin :: "millis \<Rightarrow> backend \<Rightarrow> pool \<Rightarrow> pool outcome" where
  "launch_begin now b p =
     (let delay = map_get_or 0 (pl_nextLaunchAtBy p) b - now in
      if delay > 0
      then Inl (ob_err ''NO_BROWSER_CAPACITY''
             (''Browser worker restart is backing off for '' @ show_int delay @ ''ms'') 503 True)
      else Inr (p\<lparr>pl_launching := pl_launching p + 1, pl_launchingBy := bump b 1 (pl_launchingBy p)\<rparr>))"

text \<open>\<open>launchBrowserWorker\<close> succeeded: the new worker joins the pool.\<close>

definition launch_ready :: "nat \<Rightarrow> string \<Rightarrow> int \<Rightarrow> millis \<Rightarrow> backend \<Rightarrow> pool \<Rightarrow> pool" where
  "launch_ready newId profileKey pid now b p =
     (let w = \<lparr>w_id = newId, w_backend = b, w_profileKey = profileKey, w_connected = True, w_pid = pid,
               w_jobs = 0, w_createdAt = now, w_active = 0, w_failures = 0, w_state = Healthy, w_rssMb = 0\<rparr>
      in p\<lparr>pl_objects := pl_objects p @ [w], pl_workers := pl_workers p @ [newId],
           pl_launches := pl_launches p + 1, pl_launchesBy := bump b 1 (pl_launchesBy p),
           pl_consecutiveBy := map_set b 0 (pl_consecutiveBy p),
           pl_nextLaunchAtBy := map_set b 0 (pl_nextLaunchAtBy p)\<rparr>)"

text \<open>The \<open>finally\<close> block.\<close>

definition launch_finally :: "backend \<Rightarrow> pool \<Rightarrow> pool" where
  "launch_finally b p =
     p\<lparr>pl_launching := pl_launching p - 1,
       pl_launchingBy := map_set b (max 0 (map_get_or 1 (pl_launchingBy p) b - 1)) (pl_launchingBy p)\<rparr>"

definition backoff_delay :: "config \<Rightarrow> int \<Rightarrow> int" where
  "backoff_delay cfg failures = min 60000 (browserLaunchBackoffMs cfg * 2 ^ nat (failures - 1))"

text \<open>The \<open>catch\<close> block, then \<open>finally\<close>.\<close>

definition launch_failed :: "config \<Rightarrow> millis \<Rightarrow> backend \<Rightarrow> pool \<Rightarrow> pool" where
  "launch_failed cfg now b p =
     (let failures = map_get_or 0 (pl_consecutiveBy p) b + 1 in
      launch_finally b
        (p\<lparr>pl_launchFailures := pl_launchFailures p + 1,
           pl_launchFailuresBy := bump b 1 (pl_launchFailuresBy p),
           pl_consecutiveBy := map_set b failures (pl_consecutiveBy p),
           pl_nextLaunchAtBy := map_set b (now + backoff_delay cfg failures) (pl_nextLaunchAtBy p)\<rparr>))"

definition replenish_blocked :: "config \<Rightarrow> millis \<Rightarrow> backend \<Rightarrow> pool \<Rightarrow> bool" where
  "replenish_blocked cfg now b p \<longleftrightarrow>
     pl_closed p \<or>
     int (length (filter (\<lambda>w. w_backend w = b) (workers p))) + map_get_or 0 (pl_launchingBy p) b
       \<ge> (if b = defaultBrowserBackend cfg then browserPoolMin cfg else 0) \<or>
     now < map_get_or 0 (pl_nextLaunchAtBy p) b"

text \<open>\<open>replenish\<close> up to the suspension of its launch; \<open>True\<close> when a launch began.\<close>

definition replenish_begin :: "config \<Rightarrow> millis \<Rightarrow> backend \<Rightarrow> pool \<Rightarrow> pool \<times> bool" where
  "replenish_begin cfg now b p =
     (if replenish_blocked cfg now b p then (p, False)
      else (case launch_begin now b p of Inl _ \<Rightarrow> (p, False) | Inr p' \<Rightarrow> (p', True)))"

definition replenish_done :: "backend \<Rightarrow> pool \<Rightarrow> pool" where
  "replenish_done b p =
     p\<lparr>pl_replacements := pl_replacements p + 1, pl_replacementsBy := bump b 1 (pl_replacementsBy p)\<rparr>"

section \<open>The end of a worker\<close>

definition markDead :: "config \<Rightarrow> millis \<Rightarrow> nat \<Rightarrow> pool \<Rightarrow> pool \<times> backend list" where
  "markDead cfg now i p =
     (case worker_of p i of
        None \<Rightarrow> (p, [])
      | Some w \<Rightarrow>
          if w_state w = Dead then (p, [])
          else
            (let p1 = p\<lparr>pl_crashes := pl_crashes p + 1, pl_crashesBy := bump (w_backend w) 1 (pl_crashesBy p)\<rparr>;
                 p2 = remove_worker i (update_worker i (\<lambda>w. w\<lparr>w_state := Dead\<rparr>) p1)
             in case replenish_begin cfg now (w_backend w) p2 of
                  (p3, began) \<Rightarrow> (p3, if began then [w_backend w] else [])))"

definition recordFailure :: "config \<Rightarrow> nat \<Rightarrow> pool \<Rightarrow> pool" where
  "recordFailure cfg i p =
     update_worker i
       (\<lambda>w. let failures = w_failures w + 1
            in w\<lparr>w_failures := failures,
                 w_state := (if failures \<ge> browserWorkerFailureLimit cfg then Draining else w_state w)\<rparr>) p"

text \<open>The \<open>disconnected\<close> handler.\<close>

definition on_disconnected :: "nat \<Rightarrow> pool \<Rightarrow> pool" where
  "on_disconnected i p =
     update_worker i (\<lambda>w. w\<lparr>w_connected := False, w_state := (if w_state w = Healthy then Draining else w_state w)\<rparr>) p"

definition retire :: "nat \<Rightarrow> pool \<Rightarrow> pool" where
  "retire i p = remove_worker i (update_worker i (\<lambda>w. w\<lparr>w_state := Dead\<rparr>) p)"

definition wants_recycling :: "config \<Rightarrow> millis \<Rightarrow> worker \<Rightarrow> bool" where
  "wants_recycling cfg now w \<longleftrightarrow>
     w_jobs w \<ge> browserMaxJobs cfg \<or> now - w_createdAt w \<ge> browserMaxAgeMs cfg
     \<or> w_rssMb w \<ge> of_int (browserRecycleRssMb cfg)"

text \<open>\<open>recycle\<close> up to \<open>server.close()\<close>; the backend is the one to replenish afterwards.\<close>

definition recycle :: "config \<Rightarrow> millis \<Rightarrow> nat \<Rightarrow> pool \<Rightarrow> pool \<times> backend option" where
  "recycle cfg now i p =
     (case worker_of p i of
        None \<Rightarrow> (p, None)
      | Some w \<Rightarrow>
          (let w1 = (if wants_recycling cfg now w then w\<lparr>w_state := Draining\<rparr> else w);
               p1 = update_worker i (\<lambda>_. w1) p
           in if w_active w1 > 0 \<or> w_state w1 = Healthy then (p1, None)
              else (let p2 = retire i p1
                    in (p2\<lparr>pl_recycled := pl_recycled p2 + 1,
                           pl_recycledBy := bump (w_backend w1) 1 (pl_recycledBy p2)\<rparr>,
                        Some (w_backend w1)))))"

section \<open>Acquiring a worker\<close>

fun mark_disconnected :: "config \<Rightarrow> millis \<Rightarrow> nat list \<Rightarrow> pool \<Rightarrow> pool \<times> backend list" where
  "mark_disconnected cfg now [] p = (p, [])"
| "mark_disconnected cfg now (i # is) p =
     (case worker_of p i of
        Some w \<Rightarrow>
          if w_state w = Healthy \<and> \<not> w_connected w
          then (case markDead cfg now i p of
                  (p1, bs) \<Rightarrow> (case mark_disconnected cfg now is p1 of (p2, cs) \<Rightarrow> (p2, bs @ cs)))
          else mark_disconnected cfg now is p
      | None \<Rightarrow> mark_disconnected cfg now is p)"

definition usable :: "backend \<Rightarrow> string \<Rightarrow> worker \<Rightarrow> bool" where
  "usable b key w \<longleftrightarrow> w_state w = Healthy \<and> w_connected w \<and> w_backend w = b \<and> w_profileKey w = key"

definition available :: "config \<Rightarrow> backend \<Rightarrow> string \<Rightarrow> pool \<Rightarrow> worker list" where
  "available cfg b key p =
     sort_key w_active
       (filter (\<lambda>w. usable b key w \<and> w_active w < browserContextsPerWorker cfg) (workers p))"

datatype acquired = Chosen nat | LaunchBegun

definition acquire_closed_error :: js_error where
  "acquire_closed_error = ob_err ''NO_BROWSER_CAPACITY'' ''Browser pool is closed'' 503 True"

text \<open>The check before \<open>refreshMemory\<close>.\<close>

definition acquire_open :: "pool \<Rightarrow> unit outcome" where
  "acquire_open p = ensure (\<not> pl_closed p) acquire_closed_error"

text \<open>\<open>acquire\<close> after \<open>refreshMemory\<close>, with the launches its \<open>markDead\<close> calls began.\<close>

definition acquire :: "config \<Rightarrow> millis \<Rightarrow> backend \<Rightarrow> string \<Rightarrow> pool \<Rightarrow> acquired outcome \<times> pool \<times> backend list" where
  "acquire cfg now b key p =
     (case mark_disconnected cfg now (pl_workers p) p of
        (p1, began) \<Rightarrow>
          (case available cfg b key p1 of
             w # _ \<Rightarrow> (Inr (Chosen (w_id w)), p1, began)
           | [] \<Rightarrow>
               if ms_totalRssMb (pl_memory p1) \<ge> of_int (memorySoftMb cfg)
               then (Inl (ob_err ''MEMORY_PRESSURE''
                       ''Soft memory limit reached; a new browser worker will not be launched'' 503 True), p1, began)
               else if int (length (pl_workers p1)) + pl_launching p1 \<ge> browserPoolMax cfg
               then (Inl (ob_err ''NO_BROWSER_CAPACITY''
                       ''No healthy browser worker has context capacity'' 503 True), p1, began)
               else (case launch_begin now b p1 of
                       Inl e \<Rightarrow> (Inl e, p1, began)
                     | Inr p2 \<Rightarrow> (Inr LaunchBegun, p2, began))))"

definition lease_start :: "nat \<Rightarrow> pool \<Rightarrow> pool" where
  "lease_start i p = update_worker i (\<lambda>w. w\<lparr>w_active := w_active w + 1\<rparr>) p"

definition lease_end :: "nat \<Rightarrow> pool \<Rightarrow> pool" where
  "lease_end i p = update_worker i (\<lambda>w. w\<lparr>w_active := w_active w - 1, w_jobs := w_jobs w + 1\<rparr>) p"

definition pool_close :: "pool \<Rightarrow> pool" where
  "pool_close p =
     p\<lparr>pl_closed := True, pl_workers := [],
       pl_objects := map (\<lambda>w. if w_id w \<in> set (pl_workers p) then w\<lparr>w_state := Dead\<rparr> else w) (pl_objects p)\<rparr>"

section \<open>Memory and reports\<close>

definition memory_roots :: "pool \<Rightarrow> int list" where
  "memory_roots p = List.map_filter (\<lambda>w. if w_pid w \<noteq> 0 then Some (w_pid w) else None)
                      (filter (\<lambda>w. w_state w \<noteq> Dead) (workers p))"

definition tree_rss :: "measurement \<Rightarrow> worker \<Rightarrow> rat" where
  "tree_rss m w =
     (if w_pid w \<noteq> 0 then (case map_of (me_trees m) (w_pid w) of Some t \<Rightarrow> pt_rssMb t | None \<Rightarrow> 0) else 0)"

definition refresh_applied :: "measurement \<Rightarrow> rat \<Rightarrow> millis \<Rightarrow> pool \<Rightarrow> pool" where
  "refresh_applied m nodeRss now p =
     (let browserRss = sum_list (map (tree_rss m) (workers p));
          a = admissionMemory nodeRss browserRss (map_option fst (me_container m)) (me_supported m)
      in p\<lparr>pl_objects := map (\<lambda>w. if w_id w \<in> set (pl_workers p) then w\<lparr>w_rssMb := tree_rss m w\<rparr> else w) (pl_objects p),
           pl_memory := \<lparr>ms_nodeRssMb = nodeRss, ms_browserRssMb = browserRss,
                         ms_processTreeRssMb = processTreeRssMb a, ms_container = me_container m,
                         ms_authority = authority a, ms_totalRssMb = rssMb a, ms_supported = me_supported m,
                         ms_sampledAt = now\<rparr>\<rparr>)"

definition refresh_due :: "bool \<Rightarrow> millis \<Rightarrow> pool \<Rightarrow> bool" where
  "refresh_due force now p \<longleftrightarrow> force \<or> now - ms_sampledAt (pl_memory p) \<ge> 1000"

datatype admission_reason = WarmCapacity | LaunchCapacity | MemoryPressure | SoftPressureNoLaunch

record admission_decision =
  ad_allowed :: bool
  ad_reason :: admission_reason
  ad_currentRssMb :: rat
  ad_estimatedMemoryMb :: rat
  ad_warmCapacity :: int

definition browserAdmission :: "config \<Rightarrow> rat \<Rightarrow> backend \<Rightarrow> string \<Rightarrow> pool \<Rightarrow> admission_decision" where
  "browserAdmission cfg est b key p =
     (let healthy = filter (usable b key) (workers p);
          warm = sum_list (map (\<lambda>w. max 0 (browserContextsPerWorker cfg - w_active w)) healthy);
          current = ms_totalRssMb (pl_memory p);
          decide = (\<lambda>ok r. \<lparr>ad_allowed = ok, ad_reason = r, ad_currentRssMb = current,
                            ad_estimatedMemoryMb = est, ad_warmCapacity = warm\<rparr>)
      in if current + est > of_int (memoryHardMb cfg - memoryReserveMb cfg) then decide False MemoryPressure
         else if warm = 0 \<and> current \<ge> of_int (memorySoftMb cfg) then decide False SoftPressureNoLaunch
         else decide True (if warm > 0 then WarmCapacity else LaunchCapacity))"

record pool_stats =
  ps_ready :: int
  ps_busy :: int
  ps_processes :: int
  ps_healthy :: int
  ps_draining :: int
  ps_starting :: int
  ps_dead :: int
  ps_browserRssMb :: rat
  ps_contextCapacity :: int
  ps_launches :: int
  ps_launchFailures :: int
  ps_crashes :: int
  ps_recycled :: int
  ps_replacements :: int

definition count_workers :: "(worker \<Rightarrow> bool) \<Rightarrow> worker list \<Rightarrow> int" where
  "count_workers P ws = int (length (filter P ws))"

definition pool_stats :: "config \<Rightarrow> backend option \<Rightarrow> pool \<Rightarrow> pool_stats" where
  "pool_stats cfg backend p =
     (let ws = (case backend of Some b \<Rightarrow> filter (\<lambda>w. w_backend w = b) (workers p) | None \<Rightarrow> workers p);
          healthy = filter (\<lambda>w. w_state w = Healthy) ws;
          counter = (\<lambda>total by. case backend of Some b \<Rightarrow> map_get_or 0 by b | None \<Rightarrow> total)
      in \<lparr>ps_ready = count_workers (\<lambda>w. w_active w = 0) healthy,
          ps_busy = sum_list (map w_active healthy), ps_processes = int (length ws),
          ps_healthy = int (length healthy), ps_draining = count_workers (\<lambda>w. w_state w = Draining) ws,
          ps_starting = counter (pl_launching p) (pl_launchingBy p),
          ps_dead = count_workers (\<lambda>w. w_state w = Dead) ws,
          ps_browserRssMb = to_fixed 1 (case backend of Some _ \<Rightarrow> sum_list (map w_rssMb ws)
                                        | None \<Rightarrow> ms_browserRssMb (pl_memory p)),
          ps_contextCapacity = int (length healthy) * browserContextsPerWorker cfg,
          ps_launches = counter (pl_launches p) (pl_launchesBy p),
          ps_launchFailures = counter (pl_launchFailures p) (pl_launchFailuresBy p),
          ps_crashes = counter (pl_crashes p) (pl_crashesBy p),
          ps_recycled = counter (pl_recycled p) (pl_recycledBy p),
          ps_replacements = counter (pl_replacements p) (pl_replacementsBy p)\<rparr>)"

record worker_snapshot =
  wn_id :: nat
  wn_backend :: backend
  wn_state :: worker_state
  wn_pid :: int
  wn_rssMb :: rat
  wn_contexts :: int
  wn_capacity :: int
  wn_jobs :: int
  wn_ageMs :: int
  wn_failures :: int

definition workerSnapshots :: "config \<Rightarrow> millis \<Rightarrow> pool \<Rightarrow> worker_snapshot list" where
  "workerSnapshots cfg now p =
     map (\<lambda>w. \<lparr>wn_id = w_id w, wn_backend = w_backend w, wn_state = w_state w, wn_pid = w_pid w,
               wn_rssMb = to_fixed 1 (w_rssMb w), wn_contexts = w_active w,
               wn_capacity = browserContextsPerWorker cfg, wn_jobs = w_jobs w,
               wn_ageMs = max 0 (now - w_createdAt w), wn_failures = w_failures w\<rparr>) (workers p)"

end
