(* ===== verification/OB_Backends.thy ===== *)
theory OB_Backends
  imports OB_Pool
begin

text \<open>
  The browser backends: the capability table and the selection of \<open>src/src/execution/backends.ts\<close>,
  the launch checks and options of \<open>src/src/execution/browser-launchers.ts\<close>, and the challenge
  fallback of \<open>src/src/execution/challenge-fallback.ts\<close>. JSON rendering of a value, HMAC and the
  dynamic imports are parameters.
\<close>

section \<open>Capabilities\<close>

datatype browser_engine = ChromiumEngine | FirefoxEngine

datatype host_platform = OnLinux | OnWindows | OnMacos

datatype backend_license = Apache2 | Bsd3 | Mpl2 | MitWrapperProprietary

record backend_capabilities =
  cap_id :: backend
  cap_engine :: browser_engine
  cap_playwright :: bool
  cap_cdp :: bool
  cap_persistentContexts :: bool
  cap_profiles :: bool
  cap_cookiesAndStorage :: bool
  cap_supportsProxy :: bool
  cap_downloads :: bool
  cap_screenshots :: bool
  cap_recordings :: bool
  cap_pdf :: bool
  cap_supportsPersistentPool :: bool
  cap_supportsExtensions :: bool
  cap_processPidVisibility :: bool
  cap_processTreeMemoryAccounting :: bool
  cap_chromiumSandboxCompatible :: bool
  cap_headless :: bool
  cap_headed :: bool
  cap_platforms :: "host_platform list"
  cap_license :: backend_license
  cap_stealthPatched :: bool
  cap_acceptsFingerprintOptions :: bool
  cap_acceptsHumanizationOptions :: bool
  cap_operatorLicenseRequired :: bool

definition playwrightChromiumCapabilities :: backend_capabilities where
  "playwrightChromiumCapabilities =
     \<lparr>cap_id = Playwright, cap_engine = ChromiumEngine, cap_playwright = True, cap_cdp = True,
      cap_persistentContexts = True, cap_profiles = True, cap_cookiesAndStorage = True,
      cap_supportsProxy = True, cap_downloads = True, cap_screenshots = True, cap_recordings = True,
      cap_pdf = True, cap_supportsPersistentPool = True, cap_supportsExtensions = True,
      cap_processPidVisibility = True, cap_processTreeMemoryAccounting = True,
      cap_chromiumSandboxCompatible = True, cap_headless = True, cap_headed = True,
      cap_platforms = [OnLinux, OnWindows, OnMacos], cap_license = Apache2, cap_stealthPatched = False,
      cap_acceptsFingerprintOptions = False, cap_acceptsHumanizationOptions = False,
      cap_operatorLicenseRequired = False\<rparr>"

definition patchrightChromiumCapabilities :: backend_capabilities where
  "patchrightChromiumCapabilities =
     playwrightChromiumCapabilities\<lparr>cap_id := Patchright, cap_stealthPatched := True\<rparr>"

definition cloakBrowserChromiumCapabilities :: backend_capabilities where
  "cloakBrowserChromiumCapabilities =
     playwrightChromiumCapabilities\<lparr>cap_id := CloakBrowser, cap_license := MitWrapperProprietary,
       cap_stealthPatched := True, cap_acceptsFingerprintOptions := True,
       cap_acceptsHumanizationOptions := True, cap_operatorLicenseRequired := True\<rparr>"

definition camoufoxFirefoxCapabilities :: backend_capabilities where
  "camoufoxFirefoxCapabilities =
     playwrightChromiumCapabilities\<lparr>cap_id := Camoufox, cap_engine := FirefoxEngine, cap_cdp := False,
       cap_profiles := False, cap_pdf := False, cap_supportsExtensions := False,
       cap_chromiumSandboxCompatible := False, cap_license := Mpl2, cap_stealthPatched := True,
       cap_acceptsFingerprintOptions := True, cap_acceptsHumanizationOptions := True,
       cap_operatorLicenseRequired := False\<rparr>"

definition clearcoteChromiumCapabilities :: backend_capabilities where
  "clearcoteChromiumCapabilities =
     playwrightChromiumCapabilities\<lparr>cap_id := Clearcote, cap_license := Bsd3, cap_stealthPatched := True,
       cap_acceptsFingerprintOptions := True, cap_acceptsHumanizationOptions := False,
       cap_operatorLicenseRequired := False\<rparr>"

definition browserBackendCapabilities :: "backend_capabilities list" where
  "browserBackendCapabilities =
     [playwrightChromiumCapabilities, patchrightChromiumCapabilities, cloakBrowserChromiumCapabilities,
      camoufoxFirefoxCapabilities, clearcoteChromiumCapabilities]"

definition estimatedBrowserMemoryMb :: "backend \<Rightarrow> nat" where
  "estimatedBrowserMemoryMb b =
     (if b = Camoufox then 384 else if b = CloakBrowser \<or> b = Clearcote then 320 else 256)"

definition browserBackendCapability :: "backend \<Rightarrow> backend_capabilities outcome" where
  "browserBackendCapability b =
     (case find (\<lambda>e. cap_id e = b) browserBackendCapabilities of
        Some e \<Rightarrow> Inr e
      | None \<Rightarrow> Inl (JsError (''Unknown browser backend '' @ [CHR 0x27] @ backend_id b @ [CHR 0x27])))"

definition browserBackendCatalog :: "config \<Rightarrow> (backend_capabilities \<times> bool \<times> bool) list" where
  "browserBackendCatalog cfg =
     map (\<lambda>e. (e, cap_id e \<in> set (enabledBrowserBackends cfg), cap_id e = defaultBrowserBackend cfg))
       browserBackendCapabilities"

section \<open>Launch checks and options\<close>

definition assertBrowserBackendEnabled :: "config \<Rightarrow> backend \<Rightarrow> unit outcome" where
  "assertBrowserBackendEnabled cfg b =
     (if b \<notin> set (enabledBrowserBackends cfg)
      then Inl (OpenBrowseError \<lparr>code = ''BROWSER_BACKEND_DISABLED'',
             message = ''Browser backend '' @ [CHR 0x27] @ backend_id b @ [CHR 0x27] @ '' is disabled by the operator'',
             statusCode = 409, retryable = False,
             details = [(''enabledBackends'', JArr (map (\<lambda>x. JStr (backend_id x)) (enabledBrowserBackends cfg)))]\<rparr>)
      else if b = CloakBrowser \<and> \<not> cloakBrowserLicenseAccepted cfg
      then Inl (ob_err ''BROWSER_BACKEND_LICENSE_REQUIRED''
             ''CloakBrowser requires explicit operator license acceptance'' 409 False)
      else Inr ())"

record backend_decision =
  bd_preferred :: backend
  bd_selected :: backend
  bd_fallbackCandidates :: "backend list"
  bd_reason :: decision_reason
  bd_estimatedMemoryMb :: nat

definition selectBrowserBackend :: "config \<Rightarrow> fetch_input \<Rightarrow> backend_decision outcome" where
  "selectBrowserBackend cfg inp =
     (let selected = (case in_browserBackend inp of Some b \<Rightarrow> b | None \<Rightarrow> defaultBrowserBackend cfg) in
      res_bind (assertBrowserBackendEnabled cfg selected) (\<lambda>_.
        Inr \<lparr>bd_preferred = defaultBrowserBackend cfg, bd_selected = selected, bd_fallbackCandidates = [],
             bd_reason = (if in_browserBackend inp \<noteq> None then RequestedSupportedBackend else DefaultCompatibleBackend),
             bd_estimatedMemoryMb = estimatedBrowserMemoryMb selected\<rparr>))"

definition or_default :: "'a option \<Rightarrow> 'a \<Rightarrow> 'a" where
  "or_default v d = (case v of Some x \<Rightarrow> x | None \<Rightarrow> d)"

definition hostCamoufoxOs :: "string \<Rightarrow> camoufox_os" where
  "hostCamoufoxOs platform_name =
     (if platform_name = ''win32'' then OsWindows else if platform_name = ''darwin'' then OsMacos else OsLinux)"

definition resolvedCamoufoxOptions :: "string \<Rightarrow> backend_options option \<Rightarrow> resolved_camoufox" where
  "resolvedCamoufoxOptions platform_name options =
     (let c = Option.bind options camoufox;
          field = (\<lambda>f d. or_default (Option.bind c f) d)
      in \<lparr>rc_os = or_default (Option.bind c cam_os) (hostCamoufoxOs platform_name),
          rc_locale = Option.bind c cam_locale,
          rc_humanize = or_default (Option.bind c cam_humanize) (CHBool True),
          rc_blockImages = field cam_blockImages False, rc_blockWebrtc = field cam_blockWebrtc False,
          rc_enableCache = field cam_enableCache False\<rparr>)"

fun os_json :: "camoufox_os \<Rightarrow> jsval" where
  "os_json OsWindows = JStr ''windows''"
| "os_json OsMacos = JStr ''macos''"
| "os_json OsLinux = JStr ''linux''"

fun locale_json :: "locale_option \<Rightarrow> jsval" where
  "locale_json (OneLocale l) = JStr l"
| "locale_json (ManyLocales ls) = JArr (map JStr ls)"

fun camoufox_humanize_json :: "camoufox_humanize \<Rightarrow> jsval" where
  "camoufox_humanize_json (CHBool b) = JBool b"
| "camoufox_humanize_json (CHNum n) = JNum n"

fun humanization_json :: "humanization_value \<Rightarrow> jsval" where
  "humanization_json (HNum n) = JNum n"
| "humanization_json (HBool b) = JBool b"
| "humanization_json (HRange a b) = JArr [JNum a, JNum b]"

fun preset_json :: "human_preset \<Rightarrow> jsval" where
  "preset_json PresetDefault = JStr ''default''"
| "preset_json PresetCareful = JStr ''careful''"

text \<open>The object that \<open>browserProfileKey\<close> renders with \<open>JSON.stringify\<close>, or the plain identifier.\<close>

definition profile_object :: "(string \<Rightarrow> string \<Rightarrow> bool) \<Rightarrow> string \<Rightarrow> backend \<Rightarrow> backend_options option \<Rightarrow> (string \<times> jsval) list option" where
  "profile_object localeLe platform_name b options =
     (let args = JArr (map JStr (or_default (Option.bind options fingerprintArgs) []));
          id = (''backend'', JStr (backend_id b))
      in if b = Clearcote then Some [id, (''fingerprintArgs'', args)]
         else if b = Camoufox then
           (let r = resolvedCamoufoxOptions platform_name options in
            Some ([id, (''os'', os_json (rc_os r))]
              @ (case rc_locale r of None \<Rightarrow> [] | Some l \<Rightarrow> [(''locale'', locale_json l)])
              @ [(''humanize'', camoufox_humanize_json (rc_humanize r)), (''blockImages'', JBool (rc_blockImages r)),
                 (''blockWebrtc'', JBool (rc_blockWebrtc r)), (''enableCache'', JBool (rc_enableCache r))]))
         else if b \<noteq> CloakBrowser then None
         else Some [id, (''fingerprintArgs'', args), (''humanize'', JBool (or_default (Option.bind options humanize) True)),
           (''humanPreset'', preset_json (or_default (Option.bind options humanPreset) PresetDefault)),
           (''humanConfig'', JObj (map (\<lambda>(k, v). (k, humanization_json v))
              (sort_le (\<lambda>l r. localeLe (fst l) (fst r)) (or_default (Option.bind options humanConfig) []))))])"

definition browserProfileKey ::
  "(jsval \<Rightarrow> string) \<Rightarrow> (string \<Rightarrow> string \<Rightarrow> bool) \<Rightarrow> string \<Rightarrow> backend \<Rightarrow> backend_options option \<Rightarrow> string" where
  "browserProfileKey stringify localeLe platform_name b options =
     (case profile_object localeLe platform_name b options of None \<Rightarrow> backend_id b | Some o' \<Rightarrow> stringify (JObj o'))"

text \<open>A plain request, for concrete runs.\<close>

definition sample_request :: fetch_input where
  "sample_request = \<lparr>in_url = ''https://example.test/'', in_strategy = None, in_timeoutMs = None, in_headers = None,
     in_waitUntil = None, in_wait = None, in_browserBackend = None, in_browserOptions = None, in_viewport = None, in_proxy = None\<rparr>"

end
