(* ===== verification/OB_Challenge.thy ===== *)
theory OB_Challenge
  imports OB_Backends
begin

text \<open>
  The challenge fallback of \<open>src/src/execution/challenge-fallback.ts\<close>: a request whose page shows an
  access challenge is tried on the other enabled backends. The admission check of the pool and the
  attempt are functions on a state \<open>'s\<close>, since both await and change it.
\<close>

section \<open>The order of the backends\<close>

definition challengeFallbackBackends :: "config \<Rightarrow> backend \<Rightarrow> backend list" where
  "challengeFallbackBackends cfg preferred =
     (let all = [preferred, Patchright, Clearcote, Camoufox, CloakBrowser] in
      map fst (filter (\<lambda>(b, i). b \<in> set (enabledBrowserBackends cfg) \<and> b \<notin> set (take i all))
                 (zip all [0..<length all])))"

datatype required_capability = NeedScreenshots | NeedRecordings | NeedPdf | NeedDownloads

fun has_capability :: "required_capability \<Rightarrow> backend_capabilities \<Rightarrow> bool" where
  "has_capability NeedScreenshots c = cap_screenshots c"
| "has_capability NeedRecordings c = cap_recordings c"
| "has_capability NeedPdf c = cap_pdf c"
| "has_capability NeedDownloads c = cap_downloads c"

definition capability_present :: "required_capability option \<Rightarrow> backend \<Rightarrow> bool outcome" where
  "capability_present need b =
     (case need of
        None \<Rightarrow> Inr True
      | Some r \<Rightarrow> res_bind (browserBackendCapability b) (\<lambda>c. Inr (has_capability r c)))"

text \<open>Backend options reach the backends that understand them only.\<close>

definition fallback_options :: "fetch_input \<Rightarrow> backend \<Rightarrow> backend_options option" where
  "fallback_options inp b =
     (if b = CloakBrowser \<or> b = Camoufox \<or> b = Clearcote then in_browserOptions inp else None)"

fun admission_reason_id :: "admission_reason \<Rightarrow> string" where
  "admission_reason_id WarmCapacity = ''warm-capacity''"
| "admission_reason_id LaunchCapacity = ''launch-capacity''"
| "admission_reason_id MemoryPressure = ''memory-pressure''"
| "admission_reason_id SoftPressureNoLaunch = ''soft-pressure-no-launch''"

definition admission_json :: "admission_decision \<Rightarrow> jsval" where
  "admission_json a =
     JObj [(''allowed'', JBool (ad_allowed a)), (''reason'', JStr (admission_reason_id (ad_reason a))),
           (''currentRssMb'', JNum (ad_currentRssMb a)), (''estimatedMemoryMb'', JNum (ad_estimatedMemoryMb a)),
           (''warmCapacity'', JNum (of_int (ad_warmCapacity a)))]"

definition pressure_error :: "admission_decision \<Rightarrow> backend \<Rightarrow> js_error" where
  "pressure_error a b =
     OpenBrowseError \<lparr>code = ''MEMORY_PRESSURE'',
       message = (if ad_reason a = SoftPressureNoLaunch
         then ''Browser execution requires a new worker while the service is under memory pressure''
         else ''Browser execution cannot fit within the configured memory reserve''),
       statusCode = 503, retryable = True,
       details = [(''admission'', admission_json a), (''backend'', JStr (backend_id b))]\<rparr>"

section \<open>The loop\<close>

record 'v fallback_result =
  fb_value :: 'v
  fb_backendAttempts :: "backend list"
  fb_selectedBackend :: backend
  fb_challengeRemaining :: bool

record 'v fallback_state =
  fs_attempts :: "backend list"
  fs_lastChallenge :: "('v \<times> backend) option"
  fs_lastUnavailable :: "js_error option"

type_synonym ('v, 's) attempt = "backend \<Rightarrow> backend_options option \<Rightarrow> 's \<Rightarrow> ('v \<times> bool) outcome \<times> 's"

type_synonym 's admission_check = "backend \<Rightarrow> backend_options option \<Rightarrow> 's \<Rightarrow> admission_decision \<times> 's"

text \<open>After the last backend: the last challenged page, or the reason there is none.\<close>

definition fallback_end :: "'v fallback_state \<Rightarrow> 'v fallback_result outcome" where
  "fallback_end st =
     (case fs_lastChallenge st of
        Some (v, b) \<Rightarrow> Inr \<lparr>fb_value = v, fb_backendAttempts = fs_attempts st, fb_selectedBackend = b,
                            fb_challengeRemaining = True\<rparr>
      | None \<Rightarrow> Inl (or_default (fs_lastUnavailable st)
                  (ob_err ''BROWSER_BACKEND_DISABLED'' ''No configured browser backend is available'' 409 False)))"

fun fallback_loop ::
  "'s admission_check \<Rightarrow> ('v, 's) attempt \<Rightarrow> fetch_input \<Rightarrow> required_capability option \<Rightarrow>
   backend list \<Rightarrow> 'v fallback_state \<Rightarrow> 's \<Rightarrow> 'v fallback_result outcome \<times> 's" where
  "fallback_loop admit attempt inp need [] st s = (fallback_end st, s)"
| "fallback_loop admit attempt inp need (b # bs) st s =
     (case capability_present need b of
        Inl e \<Rightarrow> (Inl e, s)
      | Inr False \<Rightarrow> fallback_loop admit attempt inp need bs st s
      | Inr True \<Rightarrow>
          (let options = fallback_options inp b in
           case admit b options s of
             (a, s1) \<Rightarrow>
               if \<not> ad_allowed a
               then fallback_loop admit attempt inp need bs (st\<lparr>fs_lastUnavailable := Some (pressure_error a b)\<rparr>) s1
               else
                 (let st1 = st\<lparr>fs_attempts := fs_attempts st @ [b]\<rparr> in
                  case attempt b options s1 of
                    (Inr (v, challenged), s2) \<Rightarrow>
                      if \<not> challenged
                      then (Inr \<lparr>fb_value = v, fb_backendAttempts = fs_attempts st1, fb_selectedBackend = b,
                                 fb_challengeRemaining = False\<rparr>, s2)
                      else fallback_loop admit attempt inp need bs (st1\<lparr>fs_lastChallenge := Some (v, b)\<rparr>) s2
                  | (Inl e, s2) \<Rightarrow>
                      if isOpenBrowseError e \<and> error_code e = ''BROWSER_BACKEND_UNAVAILABLE''
                      then fallback_loop admit attempt inp need bs (st1\<lparr>fs_lastUnavailable := Some e\<rparr>) s2
                      else (Inl e, s2))))"

definition runChallengeFallback ::
  "config \<Rightarrow> 's admission_check \<Rightarrow> ('v, 's) attempt \<Rightarrow> fetch_input \<Rightarrow> backend \<Rightarrow>
   required_capability option \<Rightarrow> 's \<Rightarrow> 'v fallback_result outcome \<times> 's" where
  "runChallengeFallback cfg admit attempt inp preferred need s =
     fallback_loop admit attempt inp need (challengeFallbackBackends cfg preferred)
       \<lparr>fs_attempts = [], fs_lastChallenge = None, fs_lastUnavailable = None\<rparr> s"

section \<open>What it promises\<close>

lemma challengeFallbackBackends_eq:
  "challengeFallbackBackends cfg preferred =
     filter (\<lambda>b. b \<in> set (enabledBrowserBackends cfg))
       (preferred # filter (\<lambda>b. b \<noteq> preferred) [Patchright, Clearcote, Camoufox, CloakBrowser])"
  by (cases preferred) (simp_all add: challengeFallbackBackends_def Let_def)

lemma challengeFallbackBackends_ok:
  "distinct (challengeFallbackBackends cfg preferred)"
  "set (challengeFallbackBackends cfg preferred) \<subseteq> set (enabledBrowserBackends cfg)"
  "preferred \<in> set (enabledBrowserBackends cfg) \<Longrightarrow> hd (challengeFallbackBackends cfg preferred) = preferred"
  by (auto simp: challengeFallbackBackends_eq)

text \<open>A page the loop remembers or returns was produced by an attempt on that backend.\<close>

definition produced :: "('v, 's) attempt \<Rightarrow> fetch_input \<Rightarrow> backend \<Rightarrow> 'v \<Rightarrow> bool \<Rightarrow> bool" where
  "produced attempt inp b v challenged \<longleftrightarrow> (\<exists>s. fst (attempt b (fallback_options inp b) s) = Inr (v, challenged))"

definition refused :: "'s admission_check \<Rightarrow> fetch_input \<Rightarrow> backend \<Rightarrow> bool" where
  "refused admit inp b \<longleftrightarrow> (\<exists>s. \<not> ad_allowed (fst (admit b (fallback_options inp b) s)))"

definition remembered :: "('v, 's) attempt \<Rightarrow> fetch_input \<Rightarrow> 'v fallback_state \<Rightarrow> bool" where
  "remembered attempt inp st \<longleftrightarrow>
     (\<forall>v b. fs_lastChallenge st = Some (v, b) \<longrightarrow> b \<in> set (fs_attempts st) \<and> produced attempt inp b v True)"

definition fallback_ok ::
  "'s admission_check \<Rightarrow> ('v, 's) attempt \<Rightarrow> fetch_input \<Rightarrow> required_capability option \<Rightarrow> backend list \<Rightarrow>
   backend list \<Rightarrow> 'v fallback_result \<Rightarrow> bool" where
  "fallback_ok admit attempt inp need bs tried r \<longleftrightarrow>
     subseq tried bs \<and> (\<forall>b \<in> set tried. capability_present need b = Inr True) \<and>
     fb_selectedBackend r \<in> set (fb_backendAttempts r) \<and>
     produced attempt inp (fb_selectedBackend r) (fb_value r) (fb_challengeRemaining r) \<and>
     (\<not> fb_challengeRemaining r \<longrightarrow> tried \<noteq> [] \<and> last tried = fb_selectedBackend r) \<and>
     (fb_challengeRemaining r \<longrightarrow>
        (\<forall>b \<in> set bs. capability_present need b = Inr True \<longrightarrow> b \<in> set tried \<or> refused admit inp b))"

lemma fallback_ok_skip:
  "fallback_ok admit attempt inp need bs tried r \<Longrightarrow> capability_present need b \<noteq> Inr True \<or> refused admit inp b \<Longrightarrow>
     fallback_ok admit attempt inp need (b # bs) tried r"
  by (auto simp: fallback_ok_def)

lemma fallback_ok_try:
  "fallback_ok admit attempt inp need bs tried r \<Longrightarrow> capability_present need b = Inr True \<Longrightarrow>
     fallback_ok admit attempt inp need (b # bs) (b # tried) r"
  by (auto simp: fallback_ok_def)

lemma fallback_loop_ok:
  assumes "fallback_loop admit attempt inp need bs st s = (Inr r, s')" and "remembered attempt inp st"
  shows "\<exists>tried. fb_backendAttempts r = fs_attempts st @ tried \<and> fallback_ok admit attempt inp need bs tried r"
  using assms
proof (induction bs arbitrary: st s)
  case Nil
  then show ?case
    by (auto simp: fallback_end_def fallback_ok_def remembered_def split: option.splits)
next
  case (Cons b bs)
  obtain a s1 where a: "admit b (fallback_options inp b) s = (a, s1)" by fastforce
  obtain o' s2 where t: "attempt b (fallback_options inp b) s1 = (o', s2)" by fastforce
  show ?case
  proof (cases "capability_present need b = Inr True \<and> ad_allowed a")
    case False
    then consider (incapable) "capability_present need b = Inr False" | (denied) "capability_present need b = Inr True" "\<not> ad_allowed a"
      using Cons.prems(1) by (cases "capability_present need b") (auto simp: a split: bool.splits)
    then obtain st1 s1' where r: "fallback_loop admit attempt inp need bs st1 s1' = (Inr r, s')"
      and st1: "remembered attempt inp st1" "fs_attempts st1 = fs_attempts st"
      and skip: "capability_present need b \<noteq> Inr True \<or> refused admit inp b"
    proof cases
      case incapable
      with Cons.prems that [of st s] show ?thesis by simp
    next
      case denied
      with a have "refused admit inp b" unfolding refused_def by (metis fst_conv)
      with denied Cons.prems that [of "st\<lparr>fs_lastUnavailable := Some (pressure_error a b)\<rparr>" s1] show ?thesis
        by (simp add: a remembered_def)
    qed
    from Cons.IH [OF r st1(1)] skip show ?thesis by (auto simp: st1(2) intro: fallback_ok_skip)
  next
    case True
    let ?st1 = "st\<lparr>fs_attempts := fs_attempts st @ [b]\<rparr>"
    have prod: "produced attempt inp b v c" if "o' = Inr (v, c)" for v c
      using t that unfolding produced_def by (metis fst_conv)
    have go: ?thesis if "fallback_loop admit attempt inp need bs st2 s2 = (Inr r, s')" "remembered attempt inp st2"
        "fs_attempts st2 = fs_attempts ?st1" for st2
      using Cons.IH [OF that(1,2)] True by (auto simp: that(3) intro: fallback_ok_try)
    show ?thesis
    proof (cases o')
      case (Inl e)
      with Cons.prems(1) True have
        "fallback_loop admit attempt inp need bs (?st1\<lparr>fs_lastUnavailable := Some e\<rparr>) s2 = (Inr r, s')"
        by (auto simp: a t Let_def split: if_splits)
      then show ?thesis by (rule go) (use Cons.prems(2) in \<open>auto simp: remembered_def\<close>)
    next
      case (Inr vc)
      obtain v c where vc: "vc = (v, c)" by fastforce
      show ?thesis
      proof (cases c)
        case False
        with Cons.prems(1) True Inr vc have r: "r = \<lparr>fb_value = v, fb_backendAttempts = fs_attempts ?st1, fb_selectedBackend = b,
            fb_challengeRemaining = False\<rparr>" by (simp add: a t Let_def)
        show ?thesis
          using True prod [of v False] Inr vc False by (intro exI [of _ "[b]"]) (simp add: r fallback_ok_def)
      next
        case c: True
        with Cons.prems(1) True Inr vc have
          "fallback_loop admit attempt inp need bs (?st1\<lparr>fs_lastChallenge := Some (v, b)\<rparr>) s2 = (Inr r, s')"
          by (simp add: a t Let_def)
        then show ?thesis by (rule go) (use prod [of v True] Inr vc c in \<open>simp_all add: remembered_def\<close>)
      qed
    qed
  qed
qed

lemma subseq_set: "subseq xs ys \<Longrightarrow> x \<in> set xs \<Longrightarrow> x \<in> set ys"
  by (induction rule: list_emb.induct) auto

lemma distinct_subseq: "subseq xs ys \<Longrightarrow> distinct ys \<Longrightarrow> distinct xs"
  by (induction rule: list_emb.induct) (auto dest: subseq_set)

lemma runChallengeFallback_ok:
  assumes "runChallengeFallback cfg admit attempt inp preferred need s = (Inr r, s')"
  shows "distinct (fb_backendAttempts r) \<and> set (fb_backendAttempts r) \<subseteq> set (enabledBrowserBackends cfg) \<and>
    fallback_ok admit attempt inp need (challengeFallbackBackends cfg preferred) (fb_backendAttempts r) r"
proof -
  from fallback_loop_ok [OF assms [unfolded runChallengeFallback_def]]
  have ok: "fallback_ok admit attempt inp need (challengeFallbackBackends cfg preferred) (fb_backendAttempts r) r"
    by (simp add: remembered_def)
  then have "subseq (fb_backendAttempts r) (challengeFallbackBackends cfg preferred)" by (simp add: fallback_ok_def)
  with ok challengeFallbackBackends_ok(1,2) [of cfg preferred] show ?thesis
    by (auto dest: distinct_subseq subseq_set)
qed


text \<open>Admission refuses nothing; the first backend shows a challenge, the second is not installed.\<close>

definition sample_attempt :: "(string, unit) attempt" where
  "sample_attempt b options s =
     ((case b of Playwright \<Rightarrow> Inr (''challenge'', True)
       | Patchright \<Rightarrow> Inl (ob_err ''BROWSER_BACKEND_UNAVAILABLE'' ''missing'' 503 True)
       | _ \<Rightarrow> Inr (''page'', False)), s)"

definition sample_admission :: "unit admission_check" where
  "sample_admission b options s =
     (\<lparr>ad_allowed = True, ad_reason = WarmCapacity, ad_currentRssMb = 0, ad_estimatedMemoryMb = 0, ad_warmCapacity = 1\<rparr>, s)"

definition all_backends_config :: config where
  "all_backends_config = sample_config\<lparr>enabledBrowserBackends := browserBackendIds\<rparr>"

lemma sample_fallback:
  "runChallengeFallback all_backends_config sample_admission sample_attempt sample_request Playwright (Some NeedPdf) ()
     = (Inr \<lparr>fb_value = ''page'', fb_backendAttempts = [Playwright, Patchright, Clearcote],
             fb_selectedBackend = Clearcote, fb_challengeRemaining = False\<rparr>, ())"
  by code_simp


end
