(* ===== verification/OB_Errors.thy ===== *)
theory OB_Errors
  imports OB_Config
begin

text \<open>
  The error handler every route ends in (\<open>src/src/errors.ts\<close>) and the byte bounds on responses
  (\<open>src/src/bounds.ts\<close>). \<open>JSON.stringify\<close> is the parameter \<open>stringify\<close>; \<open>None\<close> is the \<open>undefined\<close>
  it returns for a value without a JSON form.
\<close>

section \<open>The error handler\<close>

record framework_error =
  fe_message :: string
  fe_validation :: bool
  fe_statusCode :: "int option"

datatype handler_error = Typed ob_error | Framework framework_error

datatype log_level = LogError | LogWarn

record error_reply =
  rep_status :: int
  rep_code :: string
  rep_message :: string
  rep_requestId :: string
  rep_retryable :: bool
  rep_details :: "(string \<times> jsval) list"
  rep_log :: log_level

definition client_error :: "handler_error \<Rightarrow> bool" where
  "client_error e =
     (case e of
        Typed _ \<Rightarrow> False
      | Framework f \<Rightarrow> (case fe_statusCode f of None \<Rightarrow> False | Some s \<Rightarrow> 400 \<le> s \<and> s < 500))"

definition typed_error :: "handler_error \<Rightarrow> ob_error" where
  "typed_error e =
     (case e of
        Typed o' \<Rightarrow> o'
      | Framework f \<Rightarrow>
          (if fe_validation f \<or> client_error e
           then \<lparr>code = ''INVALID_REQUEST'', message = ''Request validation failed'',
                 statusCode = (case fe_statusCode f of None \<Rightarrow> 400 | Some s \<Rightarrow> s),
                 retryable = False, details = []\<rparr>
           else \<lparr>code = ''INTERNAL_ERROR'', message = ''Unexpected server error'',
                 statusCode = 500, retryable = False, details = []\<rparr>))"

definition handle_error :: "string \<Rightarrow> handler_error \<Rightarrow> error_reply" where
  "handle_error requestId e =
     (let t = typed_error e in
      \<lparr>rep_status = statusCode t, rep_code = code t, rep_message = message t,
       rep_requestId = requestId, rep_retryable = retryable t, rep_details = details t,
       rep_log = (if statusCode t \<ge> 500 then LogError else LogWarn)\<rparr>)"

text \<open>An error the service did not raise itself never reaches the client as it is: the reply
  carries one of two fixed codes and messages, no details and no retry hint; it is a 500 unless
  the framework reported a validation failure or a 4xx status, which is kept.\<close>

lemma handle_error_hides_internals:
  "handle_error rid (Framework f) =
     (if fe_validation f \<or> (\<exists>s. fe_statusCode f = Some s \<and> 400 \<le> s \<and> s < 500)
      then \<lparr>rep_status = (case fe_statusCode f of None \<Rightarrow> 400 | Some s \<Rightarrow> s), rep_code = ''INVALID_REQUEST'',
            rep_message = ''Request validation failed'', rep_requestId = rid, rep_retryable = False,
            rep_details = [],
            rep_log = (if (case fe_statusCode f of None \<Rightarrow> 400 | Some s \<Rightarrow> s) \<ge> 500 then LogError else LogWarn)\<rparr>
      else \<lparr>rep_status = 500, rep_code = ''INTERNAL_ERROR'', rep_message = ''Unexpected server error'',
            rep_requestId = rid, rep_retryable = False, rep_details = [], rep_log = LogError\<rparr>)"
  by (auto simp: handle_error_def typed_error_def client_error_def Let_def split: option.splits)

section \<open>Bounded output\<close>

text \<open>UTF-8 length of text whose code units are Latin-1 (\<open>Buffer.byteLength\<close>).\<close>

definition utf8_length :: "string \<Rightarrow> nat" where
  "utf8_length s = sum_list (map (\<lambda>c. if (of_char c :: nat) < 128 then 1 else 2) s)"

lemma utf8_length_bounds: "length s \<le> utf8_length s" "utf8_length s \<le> 2 * length s"
  by (induction s) (simp_all add: utf8_length_def)

definition json_text :: "('v \<Rightarrow> string option) \<Rightarrow> 'v \<Rightarrow> string" where
  "json_text stringify v = (case stringify v of None \<Rightarrow> ''null'' | Some t \<Rightarrow> t)"

definition jsonBytes :: "('v \<Rightarrow> string option) \<Rightarrow> 'v \<Rightarrow> nat" where
  "jsonBytes stringify v = utf8_length (json_text stringify v)"

definition too_large :: "string \<Rightarrow> js_error" where
  "too_large subject =
     ob_err ''PAYLOAD_TOO_LARGE'' (subject @ '' exceeds the configured byte limit'') 413 False"

definition assertBoundedJson ::
  "config \<Rightarrow> ('v \<Rightarrow> string option) \<Rightarrow> 'v \<Rightarrow> string \<Rightarrow> 'v outcome" where
  "assertBoundedJson c stringify v subject =
     (if int (jsonBytes stringify v) > maxResponseBytes c then Inl (too_large subject) else Inr v)"

definition boundedJsonText ::
  "config \<Rightarrow> ('v \<Rightarrow> string option) \<Rightarrow> 'v \<Rightarrow> string \<Rightarrow> string outcome" where
  "boundedJsonText c stringify v subject =
     (let text = json_text stringify v in
      if int (utf8_length text) > maxResponseBytes c then Inl (too_large subject) else Inr text)"

definition assertBoundedBuffer :: "config \<Rightarrow> 'b list \<Rightarrow> string \<Rightarrow> 'b list outcome" where
  "assertBoundedBuffer c b subject =
     (if int (length b) > maxResponseBytes c then Inl (too_large subject) else Inr b)"

lemma assertBoundedJson_Inr_iff [simp]:
  "assertBoundedJson c f v s = Inr w \<longleftrightarrow> w = v \<and> int (jsonBytes f v) \<le> maxResponseBytes c"
  by (auto simp: assertBoundedJson_def)

lemma boundedJsonText_Inr:
  "boundedJsonText c f v s = Inr t \<Longrightarrow> t = json_text f v \<and> int (length t) \<le> maxResponseBytes c"
  using utf8_length_bounds(1) [of "json_text f v"]
  by (auto simp: boundedJsonText_def Let_def split: if_splits)

end
