(* ===== verification/OB_Security.thy ===== *)
theory OB_Security
  imports OB_Errors "HOL-Library.Word"
begin

text \<open>
  The network boundary of \<open>src/src/security.ts\<close>: classification of IP addresses, the check every
  target URL passes before it is contacted, URL normalisation, API-key comparison and header
  redaction. The DNS resolver and the digest are parameters; \<open>net.isIP\<close> is written out.
\<close>

section \<open>IP address text\<close>

definition parse_octet :: "string \<Rightarrow> nat option" where
  "parse_octet s =
     (if s \<noteq> [] \<and> length s \<le> 3 \<and> list_all is_digit s \<and> (length s > 1 \<longrightarrow> hd s \<noteq> CHR ''0'')
         \<and> digits_val s \<le> 255
      then Some (digits_val s) else None)"

definition parse_ipv4 :: "string \<Rightarrow> (nat \<times> nat \<times> nat \<times> nat) option" where
  "parse_ipv4 s =
     (case map parse_octet (split_on (CHR ''.'') s) of
        [Some a, Some b, Some c, Some d] \<Rightarrow> Some (a, b, c, d)
      | _ \<Rightarrow> None)"

definition hex_group :: "string \<Rightarrow> bool" where
  "hex_group w \<longleftrightarrow> w \<noteq> [] \<and> length w \<le> 4 \<and> list_all (\<lambda>c. hex_val c \<noteq> None) w"

text \<open>16-bit groups in a colon-separated list; a final dotted quad counts for two.\<close>

fun count_groups :: "bool \<Rightarrow> string list \<Rightarrow> nat option" where
  "count_groups v4 [] = Some 0"
| "count_groups v4 [w] =
     (if hex_group w then Some 1 else if v4 \<and> parse_ipv4 w \<noteq> None then Some 2 else None)"
| "count_groups v4 (w # ws) = (if hex_group w then map_option Suc (count_groups v4 ws) else None)"

fun find_double_colon :: "string \<Rightarrow> (string \<times> string) option" where
  "find_double_colon (a # b # s) =
     (if a = CHR '':'' \<and> b = CHR '':'' then Some ([], s)
      else map_option (\<lambda>(l, r). (a # l, r)) (find_double_colon (b # s)))"
| "find_double_colon _ = None"

definition colon_groups :: "string \<Rightarrow> string list" where
  "colon_groups s = (if s = [] then [] else split_on (CHR '':'') s)"

definition zone_char :: "char \<Rightarrow> bool" where
  "zone_char c \<longleftrightarrow> (let n = of_char c :: nat in
     (48 \<le> n \<and> n \<le> 57) \<or> (65 \<le> n \<and> n \<le> 90) \<or> (97 \<le> n \<and> n \<le> 122)) \<or> c \<in> set ''-.:''"

definition is_ipv6 :: "string \<Rightarrow> bool" where
  "is_ipv6 s =
     (let a = takeWhile (\<lambda>c. c \<noteq> CHR ''%'') s; z = dropWhile (\<lambda>c. c \<noteq> CHR ''%'') s
      in (z = [] \<or> (tl z \<noteq> [] \<and> list_all zone_char (tl z))) \<and>
         (case find_double_colon a of
            None \<Rightarrow> count_groups True (colon_groups a) = Some 8
          | Some (l, r) \<Rightarrow>
              (case (count_groups False (colon_groups l), count_groups True (colon_groups r)) of
                 (Some m, Some n) \<Rightarrow> m + n \<le> 7
               | _ \<Rightarrow> False)))"

definition isIP :: "string \<Rightarrow> nat" where
  "isIP s = (if parse_ipv4 s \<noteq> None then 4 else if is_ipv6 s then 6 else 0)"

section \<open>Private and reserved addresses\<close>

definition private_v4 :: "nat \<times> nat \<times> nat \<times> nat \<Rightarrow> bool" where
  "private_v4 q =
     (case q of (a, b, _, _) \<Rightarrow>
        a = 0 \<or> a = 10 \<or> a = 127 \<or> (a = 169 \<and> b = 254) \<or> (a = 172 \<and> b \<ge> 16 \<and> b \<le> 31) \<or>
        (a = 192 \<and> b = 168) \<or> (a = 100 \<and> b \<ge> 64 \<and> b \<le> 127) \<or> a = 198 \<or> a \<ge> 224)"

text \<open>The recursive call on an embedded dotted quad: text of digits and dots is IPv4 or no address.\<close>

definition private_dotted :: "string \<Rightarrow> bool" where
  "private_dotted s = (case parse_ipv4 s of Some q \<Rightarrow> private_v4 q | None \<Rightarrow> True)"

definition mapped_prefix :: string where
  "mapped_prefix = ''::ffff:''"

definition dotted_digits :: "string \<Rightarrow> bool" where
  "dotted_digits s \<longleftrightarrow>
     (let ws = split_on (CHR ''.'') s in length ws = 4 \<and> list_all (\<lambda>w. w \<noteq> [] \<and> list_all is_digit w) ws)"

definition mapped_ipv4 :: "string \<Rightarrow> string option" where
  "mapped_ipv4 s =
     (if starts_with s mapped_prefix \<and> dotted_digits (drop (length mapped_prefix) s)
      then Some (drop (length mapped_prefix) s) else None)"

definition hex_word :: "string \<Rightarrow> nat" where
  "hex_word s = foldl (\<lambda>acc c. 16 * acc + (case hex_val c of Some d \<Rightarrow> d | None \<Rightarrow> 0)) 0 s"

definition mapped_hex :: "string \<Rightarrow> (nat \<times> nat) option" where
  "mapped_hex s =
     (if starts_with s mapped_prefix
      then (case split_on (CHR '':'') (drop (length mapped_prefix) s) of
              [h, l] \<Rightarrow> if hex_group h \<and> hex_group l then Some (hex_word h, hex_word l) else None
            | _ \<Rightarrow> None)
      else None)"

definition show_ipv4 :: "nat \<times> nat \<times> nat \<times> nat \<Rightarrow> string" where
  "show_ipv4 q =
     (case q of (a, b, c, d) \<Rightarrow>
        show_nat a @ ''.'' @ show_nat b @ ''.'' @ show_nat c @ ''.'' @ show_nat d)"

definition isPrivateIp :: "string \<Rightarrow> bool" where
  "isPrivateIp address =
     (case parse_ipv4 address of
        Some q \<Rightarrow> private_v4 q
      | None \<Rightarrow>
          if is_ipv6 address then
            (let normalized = to_lower address in
             case mapped_ipv4 normalized of
               Some m \<Rightarrow> private_dotted m
             | None \<Rightarrow>
                 (case mapped_hex normalized of
                    Some (high, low) \<Rightarrow>
                      private_dotted (show_ipv4 (high div 256, high mod 256, low div 256, low mod 256))
                  | None \<Rightarrow>
                      normalized = ''::'' \<or> normalized = ''::1'' \<or>
                      starts_with normalized ''fc'' \<or> starts_with normalized ''fd'' \<or>
                      starts_with normalized ''fe8'' \<or> starts_with normalized ''fe9'' \<or>
                      starts_with normalized ''fea'' \<or> starts_with normalized ''feb''))
          else True)"

section \<open>Checking a target\<close>

definition blockedHostnames :: "string list" where
  "blockedHostnames = [''localhost'', ''localhost.localdomain'', ''metadata.google.internal'']"

text \<open>\<open>.replace(/^\\[|\\]$/g, '')\<close> and \<open>.replace(/\\.$/, '')\<close>.\<close>

definition strip_brackets :: "string \<Rightarrow> string" where
  "strip_brackets s =
     (let t = (if s \<noteq> [] \<and> hd s = CHR ''['' then tl s else s)
      in if t \<noteq> [] \<and> last t = CHR '']'' then butlast t else t)"

definition strip_final_dot :: "string \<Rightarrow> string" where
  "strip_final_dot s = (if s \<noteq> [] \<and> last s = CHR ''.'' then butlast s else s)"

definition target_hostname :: "url \<Rightarrow> string" where
  "target_hostname u = strip_final_dot (strip_brackets (to_lower (u_hostname u)))"

definition domain_allowed :: "string list \<Rightarrow> string \<Rightarrow> bool" where
  "domain_allowed domains h \<longleftrightarrow> list_ex (\<lambda>d. h = d \<or> ends_with h (CHR ''.'' # d)) domains"

record safe_resolution =
  safe_url :: url
  safe_addresses :: "(string \<times> nat) list"

type_synonym resolver = "string \<Rightarrow> (string \<times> nat) list option"

definition resolveSafeUrl ::
  "url_parser \<Rightarrow> resolver \<Rightarrow> string \<Rightarrow> string list option \<Rightarrow> safe_resolution outcome" where
  "resolveSafeUrl parse resolver value allowedDomains =
     (case parse value of
        None \<Rightarrow> Inl (ob_err ''INVALID_URL'' ''URL is invalid'' 400 False)
      | Some url \<Rightarrow>
          if u_protocol url \<noteq> ''http:'' \<and> u_protocol url \<noteq> ''https:''
          then Inl (ob_err ''INVALID_URL'' ''Only http and https URLs are allowed'' 400 False)
          else if u_username url \<noteq> [] \<or> u_password url \<noteq> []
          then Inl (ob_err ''INVALID_URL'' ''Target URLs must not include credentials'' 400 False)
          else (let hostname = target_hostname url in
            if hostname \<in> set blockedHostnames \<or> ends_with hostname ''.localhost''
            then Inl (ob_err ''SSRF_BLOCKED'' ''Target resolves to a blocked host'' 403 False)
            else if (case allowedDomains of None \<Rightarrow> False
                     | Some ds \<Rightarrow> ds \<noteq> [] \<and> \<not> domain_allowed ds hostname)
            then Inl (ob_err ''DOMAIN_DENIED'' ''Target host is not allowed by the selected proxy'' 403 False)
            else if isIP hostname \<noteq> 0
            then (if isPrivateIp hostname
                  then Inl (ob_err ''SSRF_BLOCKED'' ''Private or reserved IP targets are blocked'' 403 False)
                  else Inr \<lparr>safe_url = url, safe_addresses = [(hostname, isIP hostname)]\<rparr>)
            else (case resolver hostname of
                    None \<Rightarrow> Inl (ob_err ''TARGET_NETWORK_ERROR'' ''Target hostname could not be resolved'' 502 True)
                  | Some addresses \<Rightarrow>
                      if addresses = [] \<or> list_ex (\<lambda>(address, _). isPrivateIp address) addresses
                      then Inl (ob_err ''SSRF_BLOCKED'' ''Target resolves to a private or reserved IP address'' 403 False)
                      else Inr \<lparr>safe_url = url, safe_addresses = addresses\<rparr>)))"

definition assertSafeUrl ::
  "url_parser \<Rightarrow> resolver \<Rightarrow> string \<Rightarrow> string list option \<Rightarrow> url outcome" where
  "assertSafeUrl parse resolver value allowedDomains =
     map_sum id safe_url (resolveSafeUrl parse resolver value allowedDomains)"

section \<open>Normalisation, keys and headers\<close>

text \<open>\<open>/^_?_?cf_chl_/i\<close>: the challenge parameters Cloudflare appends.\<close>

definition challenge_param :: "string \<Rightarrow> bool" where
  "challenge_param k \<longleftrightarrow>
     (let l = to_lower k in
      starts_with l ''cf_chl_'' \<or> starts_with l ''_cf_chl_'' \<or> starts_with l ''__cf_chl_'')"

fun delete_challenge_params :: "string list \<Rightarrow> url \<Rightarrow> url" where
  "delete_challenge_params [] u = u"
| "delete_challenge_params (k # ks) u =
     delete_challenge_params ks (if challenge_param k then params_delete k u else u)"

definition normalize_parts :: "url \<Rightarrow> url" where
  "normalize_parts u =
     (let u1 = u\<lparr>u_fragment := None\<rparr>;
          u2 = u1\<lparr>u_hostname := to_lower (u_hostname u1)\<rparr>;
          u3 = delete_challenge_params (map fst (search_params u2)) u2
      in if (u_protocol u3 = ''https:'' \<and> u_port u3 = ''443'') \<or> (u_protocol u3 = ''http:'' \<and> u_port u3 = ''80'')
         then u3\<lparr>u_port := []\<rparr> else u3)"

definition normalizeUrl :: "url_parser \<Rightarrow> string \<Rightarrow> string outcome" where
  "normalizeUrl parse value =
     (case parse value of
        None \<Rightarrow> Inl (JsError ''Invalid URL'')
      | Some u \<Rightarrow> Inr (url_href (normalize_parts u)))"

definition cacheKey :: "(string \<Rightarrow> string) \<Rightarrow> ('v \<Rightarrow> string) \<Rightarrow> 'v \<Rightarrow> string" where
  "cacheKey sha256 stringify parts = ''sha256:'' @ sha256 (stringify parts)"

definition constantTimeApiKeyMatch :: "(string \<Rightarrow> string) \<Rightarrow> string \<Rightarrow> string list \<Rightarrow> bool" where
  "constantTimeApiKeyMatch sha256 candidate keys \<longleftrightarrow>
     list_ex (\<lambda>key. sha256 candidate = sha256 key) keys"

definition sensitive_header :: "string \<Rightarrow> bool" where
  "sensitive_header k \<longleftrightarrow>
     str_includes (to_lower k) ''authorization'' \<or> str_includes (to_lower k) ''cookie''
     \<or> str_includes (to_lower k) ''proxy-authorization''"

definition redactHeaders :: "(string \<times> jsval) list \<Rightarrow> (string \<times> jsval) list" where
  "redactHeaders headers =
     map (\<lambda>(key, value). if sensitive_header key then (key, JStr ''[REDACTED]'') else (key, value)) headers"

end
