(* ===== verification/OB_Planner.thy ===== *)
theory OB_Planner
  imports OB_Backends OB_Security
begin

text \<open>
  The planner of \<open>src/src/execution/planner.ts\<close> and the bounded per-domain evidence of
  \<open>src/src/execution/domain-observations.ts\<close> it reports. The host of a URL comes from the URL parser.
\<close>

section \<open>Domain observations\<close>

record domain_observation =
  do_samples :: int
  do_shellRatio :: rat
  do_lastSeenAt :: millis

record mutable_observation =
  mo_shells :: int
  mo_sufficient :: int
  mo_lastSeenAt :: millis

record observation_store =
  os_entries :: "(string, mutable_observation) jsmap"
  os_maximumEntries :: nat
  os_maximumSamplesPerDomain :: int
  os_ttlMs :: millis

definition new_observation_store :: "nat \<Rightarrow> int \<Rightarrow> millis \<Rightarrow> observation_store" where
  "new_observation_store entries samples ttl =
     \<lparr>os_entries = [], os_maximumEntries = entries, os_maximumSamplesPerDomain = samples, os_ttlMs = ttl\<rparr>"

definition default_observation_store :: observation_store where
  "default_observation_store = new_observation_store 512 20 (24 * 60 * 60 * 1000)"

text \<open>\<open>new URL(value).hostname\<close> throws for a malformed URL.\<close>

definition hostname :: "url_parser \<Rightarrow> string \<Rightarrow> string outcome" where
  "hostname parse value =
     (case parse value of
        None \<Rightarrow> Inl (JsError ''Invalid URL'')
      | Some u \<Rightarrow> Inr (strip_final_dot (to_lower (u_hostname u))))"

definition observation_of :: "mutable_observation \<Rightarrow> domain_observation" where
  "observation_of e =
     (let samples = mo_shells e + mo_sufficient e in
      \<lparr>do_samples = samples, do_shellRatio = to_fixed 2 (of_int (mo_shells e) / of_int (max 1 samples)),
       do_lastSeenAt = mo_lastSeenAt e\<rparr>)"

definition observation_get ::
  "url_parser \<Rightarrow> string \<Rightarrow> millis \<Rightarrow> observation_store \<Rightarrow> (domain_observation option \<times> observation_store) outcome" where
  "observation_get parse url now st =
     res_bind (hostname parse url) (\<lambda>key. Inr
       (case map_of (os_entries st) key of
          None \<Rightarrow> (None, st)
        | Some e \<Rightarrow>
            if now - mo_lastSeenAt e > os_ttlMs st
            then (None, st\<lparr>os_entries := map_remove key (os_entries st)\<rparr>)
            else (Some (observation_of e), st)))"

text \<open>The loop that forgets samples: one of the larger class at a time.\<close>

function trim_samples :: "int \<Rightarrow> int \<Rightarrow> int \<Rightarrow> int \<times> int" where
  "trim_samples limit shells sufficient =
     (if shells + sufficient > limit
      then (if shells \<ge> sufficient then trim_samples limit (shells - 1) sufficient
            else trim_samples limit shells (sufficient - 1))
      else (shells, sufficient))"
  by pat_completeness auto

termination
  by (relation "measure (\<lambda>(limit, shells, sufficient). nat (shells + sufficient - limit))") auto

declare trim_samples.simps [simp del]

text \<open>The loop that forgets domains: the entry recorded longest ago first. An empty host name is falsy
  and ends the loop.\<close>

fun evict_oldest :: "nat \<Rightarrow> (string, mutable_observation) jsmap \<Rightarrow> (string, mutable_observation) jsmap" where
  "evict_oldest limit [] = []"
| "evict_oldest limit ((k, e) # m) =
     (if Suc (length m) > limit then (if k = [] then (k, e) # m else evict_oldest limit m) else (k, e) # m)"

definition record_observation ::
  "url_parser \<Rightarrow> string \<Rightarrow> client_render_analysis \<Rightarrow> millis \<Rightarrow> observation_store \<Rightarrow> observation_store outcome" where
  "record_observation parse url a now st =
     (if an_reason a \<noteq> ClientRenderedShell \<and> an_reason a \<noteq> HttpContentSufficient then Inr st
      else res_bind (hostname parse url) (\<lambda>key.
        (let e = or_default (map_of (os_entries st) key) \<lparr>mo_shells = 0, mo_sufficient = 0, mo_lastSeenAt = now\<rparr>;
             shell = an_reason a = ClientRenderedShell;
             (s, f) = trim_samples (os_maximumSamplesPerDomain st)
                        (mo_shells e + (if shell then 1 else 0)) (mo_sufficient e + (if shell then 0 else 1));
             e1 = \<lparr>mo_shells = s, mo_sufficient = f, mo_lastSeenAt = now\<rparr>
         in Inr (st\<lparr>os_entries := evict_oldest (os_maximumEntries st)
                      (map_set key e1 (map_remove key (os_entries st)))\<rparr>))))"

section \<open>Planning\<close>

record plan_options =
  po_cacheEligible :: "bool option"
  po_cacheReason :: "cache_reason option"
  po_browserAvailable :: "bool option"
  po_domainObservation :: "domain_observation option"

definition no_options :: plan_options where
  "no_options = \<lparr>po_cacheEligible = None, po_cacheReason = None, po_browserAvailable = None, po_domainObservation = None\<rparr>"

text \<open>\<open>domain-history:samples=...,shell-ratio=...\<close>; \<open>showNum\<close> is \<open>String(number)\<close> on the ratio.\<close>

definition history_signal :: "(rat \<Rightarrow> string) \<Rightarrow> domain_observation option \<Rightarrow> string list" where
  "history_signal showNum d =
     (case d of
        None \<Rightarrow> []
      | Some x \<Rightarrow> [''domain-history:samples='' @ show_int (do_samples x) @ '',shell-ratio='' @ showNum (do_shellRatio x)])"

definition planExecution :: "config \<Rightarrow> (rat \<Rightarrow> string) \<Rightarrow> fetch_input \<Rightarrow> plan_options \<Rightarrow> execution_plan" where
  "planExecution cfg showNum inp opts =
     (let strategy = or_default (in_strategy inp) Auto;
          cacheEligible = or_default (po_cacheEligible opts) True;
          eligibility = (cacheEligible, or_default (po_cacheReason opts)
                           (if cacheEligible then PublicRequest else PrivateRequestHeaders));
          history = history_signal showNum (po_domainObservation opts);
          backend = or_default (in_browserBackend inp) (defaultBrowserBackend cfg);
          unavailable = (po_browserAvailable opts = Some False)
      in case strategy of
        HttpOnly \<Rightarrow>
          \<lparr>plan_strategy = PlanHttp, plan_requestedStrategy = Requested strategy, plan_stages = [StageHttp],
           plan_browserBackend = None, plan_reason = ExplicitHttp, plan_attemptBudget = 1,
           plan_estimatedMemoryMb = 16, plan_costUnits = 1, plan_costBasis = BasisHttp,
           plan_cacheEligible = cacheEligible, plan_cacheEligibility = eligibility, plan_browserRequired = False,
           plan_signals = ''caller-requested-http'' # history\<rparr>
      | BrowserOnly \<Rightarrow>
          \<lparr>plan_strategy = PlanBrowser, plan_requestedStrategy = Requested strategy, plan_stages = [StageBrowser],
           plan_browserBackend = Some backend, plan_reason = ExplicitBrowser, plan_attemptBudget = 1,
           plan_estimatedMemoryMb = 256, plan_costUnits = 10, plan_costBasis = BasisBrowser,
           plan_cacheEligible = cacheEligible, plan_cacheEligibility = eligibility, plan_browserRequired = True,
           plan_signals = ''caller-requested-browser'' # history\<rparr>
      | Auto \<Rightarrow>
          \<lparr>plan_strategy = PlanHttpThenBrowser, plan_requestedStrategy = Requested strategy,
           plan_stages = (if unavailable then [StageHttp] else [StageHttp, StageBrowser]),
           plan_browserBackend = Some backend,
           plan_reason = (if unavailable then BrowserCapacityUnavailable else AutoHttpFirst),
           plan_attemptBudget = (if unavailable then 1 else 2),
           plan_estimatedMemoryMb = 16,
           plan_costUnits = (case po_domainObservation opts of
               Some x \<Rightarrow> if do_shellRatio x \<ge> 8 / 10 then 3 else 1 | None \<Rightarrow> 1),
           plan_costBasis = BasisHttp,
           plan_cacheEligible = cacheEligible, plan_cacheEligibility = eligibility, plan_browserRequired = False,
           plan_signals = ''auto-prefers-http'' # history\<rparr>)"

definition resolvedPlan :: "execution_plan \<Rightarrow> client_render_analysis \<Rightarrow> execution_plan" where
  "resolvedPlan plan a =
     (let signals = filter (\<lambda>s. starts_with s ''domain-history:'') (plan_signals plan) @ an_signals a in
      if \<not> an_browserRecommended a
      then plan\<lparr>plan_strategy := PlanHttp, plan_stages := [StageHttp], plan_reason := an_reason a,
                plan_attemptBudget := 1, plan_browserRequired := False, plan_signals := signals\<rparr>
      else plan\<lparr>plan_reason := an_reason a, plan_estimatedMemoryMb := 256, plan_costUnits := 10,
                plan_costBasis := BasisBrowser, plan_browserRequired := True, plan_signals := signals\<rparr>)"

definition planPersistentSession :: "config \<Rightarrow> bool \<Rightarrow> bool \<Rightarrow> bool \<Rightarrow> execution_plan" where
  "planPersistentSession cfg persistent profile liveViewer =
     \<lparr>plan_strategy = PlanPersistentSession, plan_requestedStrategy = RequestedSession, plan_stages = [StageBrowser],
      plan_browserBackend = Some (defaultBrowserBackend cfg), plan_reason = PersistentSession, plan_attemptBudget = 1,
      plan_estimatedMemoryMb = 256, plan_costUnits = 10, plan_costBasis = BasisBrowser, plan_cacheEligible = False,
      plan_cacheEligibility = (False, CallerDisabled), plan_browserRequired = True,
      plan_signals = [if persistent then ''storage-state-retained'' else ''ephemeral-session'']
        @ (if profile then [''profile-state-loaded''] else []) @ (if liveViewer then [''headed-live-viewer''] else [])\<rparr>"

section \<open>The observation store stays bounded\<close>

definition observation_ok :: "int \<Rightarrow> mutable_observation \<Rightarrow> bool" where
  "observation_ok limit e \<longleftrightarrow> 0 \<le> mo_shells e \<and> 0 \<le> mo_sufficient e \<and> mo_shells e + mo_sufficient e \<le> limit"

definition store_ok :: "observation_store \<Rightarrow> bool" where
  "store_ok st \<longleftrightarrow>
     map_keys_ok (os_entries st) \<and> [] \<notin> fst ` set (os_entries st) \<and>
     (0 < os_maximumEntries st \<longrightarrow> length (os_entries st) \<le> os_maximumEntries st) \<and>
     (\<forall>e \<in> snd ` set (os_entries st). observation_ok (os_maximumSamplesPerDomain st) e)"

lemma trim_samples_ok:
  "0 \<le> limit \<Longrightarrow> 0 \<le> a \<Longrightarrow> 0 \<le> b \<Longrightarrow>
     (case trim_samples limit a b of (x, y) \<Rightarrow> 0 \<le> x \<and> x \<le> a \<and> 0 \<le> y \<and> y \<le> b \<and> x + y = min (a + b) limit)"
proof (induction limit a b rule: trim_samples.induct)
  case (1 limit a b)
  show ?case
  proof (cases "a + b > limit")
    case False
    then show ?thesis using "1.prems" by (subst trim_samples.simps) (simp add: min_def)
  next
    case True
    with "1.IH" "1.prems" show ?thesis
      by (subst trim_samples.simps) (auto split: prod.splits)
  qed
qed

lemma evict_oldest_ok:
  assumes "map_keys_ok m" and "[] \<notin> fst ` set m"
  shows "map_keys_ok (evict_oldest limit m)" and "set (evict_oldest limit m) \<subseteq> set m"
    and "length (evict_oldest limit m) = min (length m) limit"
  using assms by (induction limit m rule: evict_oldest.induct) (auto simp: map_keys_ok_def)

datatype observation_event =
    ObserveGet string millis
  | ObserveRecord string client_render_analysis millis

text \<open>A call that throws leaves the store as it is.\<close>

definition observation_event :: "url_parser \<Rightarrow> observation_event \<Rightarrow> observation_store \<Rightarrow> observation_store" where
  "observation_event parse ev st =
     (case ev of
        ObserveGet url now \<Rightarrow> (case observation_get parse url now st of Inl _ \<Rightarrow> st | Inr (_, st') \<Rightarrow> st')
      | ObserveRecord url a now \<Rightarrow> (case record_observation parse url a now st of Inl _ \<Rightarrow> st | Inr st' \<Rightarrow> st'))"

text \<open>A parser that never yields a host name which is empty but for one final dot.\<close>

definition hosts_named :: "url_parser \<Rightarrow> bool" where
  "hosts_named parse \<longleftrightarrow> (\<forall>url. hostname parse url \<noteq> Inr [])"

lemma set_map_remove_subset: "set (map_remove k m) \<subseteq> set m"
  by (simp add: set_map_remove)

lemma store_ok_remove: "store_ok st \<Longrightarrow> store_ok (st\<lparr>os_entries := map_remove k (os_entries st)\<rparr>)"
  using length_delete_le [of k "os_entries st"] by (fastforce simp: store_ok_def set_map_remove)

lemma store_ok_record:
  assumes ok: "store_ok st" and hosts: "hosts_named parse" and limit: "0 \<le> os_maximumSamplesPerDomain st"
    and r: "record_observation parse url a now st = Inr st'"
  shows "store_ok st'"
proof (cases "an_reason a = ClientRenderedShell \<or> an_reason a = HttpContentSufficient")
  case False
  with r ok show ?thesis by (simp add: record_observation_def)
next
  case True
  then obtain key where key: "hostname parse url = Inr key" using r by (cases "hostname parse url") (auto simp: record_observation_def)
  define e where "e = or_default (map_of (os_entries st) key) \<lparr>mo_shells = 0, mo_sufficient = 0, mo_lastSeenAt = now\<rparr>"
  define x where "x = mo_shells e + (if an_reason a = ClientRenderedShell then 1 else 0)"
  define y where "y = mo_sufficient e + (if an_reason a = ClientRenderedShell then 0 else 1)"
  obtain s f where sf: "trim_samples (os_maximumSamplesPerDomain st) x y = (s, f)" by fastforce
  let ?e1 = "\<lparr>mo_shells = s, mo_sufficient = f, mo_lastSeenAt = now\<rparr>"
  let ?m = "map_set key ?e1 (map_remove key (os_entries st))"
  have st': "st' = st\<lparr>os_entries := evict_oldest (os_maximumEntries st) ?m\<rparr>"
    using r True sf unfolding record_observation_def key x_def y_def e_def
    by (auto simp: Let_def key split: prod.splits if_splits)
  have "0 \<le> mo_shells e \<and> 0 \<le> mo_sufficient e"
  proof (cases "map_of (os_entries st) key")
    case (Some v)
    then have "v \<in> snd ` set (os_entries st)" by (metis map_of_Some_in image_eqI snd_conv)
    with ok Some show ?thesis by (auto simp: e_def or_default_def store_ok_def observation_ok_def)
  qed (simp add: e_def or_default_def)
  then have "0 \<le> x" "0 \<le> y" by (simp_all add: x_def y_def)
  with trim_samples_ok [OF limit this] have e1: "observation_ok (os_maximumSamplesPerDomain st) ?e1"
    by (simp add: sf observation_ok_def)
  have keys: "map_keys_ok ?m" and named: "[] \<notin> fst ` set ?m"
    using ok hosts key by (auto simp: store_ok_def set_map_set set_map_remove hosts_named_def)
  have "\<forall>v \<in> snd ` set ?m. observation_ok (os_maximumSamplesPerDomain st) v"
    using ok e1 by (auto simp: store_ok_def set_map_set set_map_remove)
  with evict_oldest_ok [OF keys named, of "os_maximumEntries st"] named show ?thesis
    unfolding st' store_ok_def by auto
qed

lemma record_frame:
  "record_observation parse url a now st = Inr st' \<Longrightarrow> os_maximumSamplesPerDomain st' = os_maximumSamplesPerDomain st"
  by (auto simp: record_observation_def res_bind_Inr_iff Let_def case_prod_unfold split: if_splits)

definition bounded_store :: "url_parser \<Rightarrow> int \<Rightarrow> observation_store \<Rightarrow> bool" where
  "bounded_store parse limit st \<longleftrightarrow>
     hosts_named parse \<and> store_ok st \<and> os_maximumSamplesPerDomain st = limit \<and> 0 \<le> limit"

lemma bounded_store_event:
  assumes "bounded_store parse limit st"
  shows "bounded_store parse limit (observation_event parse ev st)"
proof (cases ev)
  case (ObserveGet url now)
  with assms show ?thesis
    by (auto simp: observation_event_def bounded_store_def observation_get_def store_ok_remove
        split: sum.splits option.splits if_splits elim!: res_bind_InrE)
next
  case (ObserveRecord url a now)
  with assms show ?thesis
    by (auto simp: observation_event_def bounded_store_def split: sum.splits intro: store_ok_record dest: record_frame)
qed

interpretation observations: event_system "observation_event parse" "bounded_store parse limit" for parse limit
  by unfold_locales (rule bounded_store_event)

lemma event_entries: "os_maximumEntries (observation_event parse ev st) = os_maximumEntries st"
  by (auto simp: observation_event_def observation_get_def record_observation_def res_bind_def Let_def case_prod_unfold
      split: observation_event.splits sum.splits option.splits if_splits)

lemma run_entries: "os_maximumEntries (run_events (observation_event parse) es st) = os_maximumEntries st"
  unfolding run_events_def by (induction es arbitrary: st) (simp_all add: event_entries)

text \<open>However many URLs are looked up and recorded, the evidence kept about domains stays bounded: at
  most as many domains as configured, each with at most as many samples as configured, neither of
  its two counters negative, and the reported ratio of shells between zero and one.\<close>

theorem observations_bounded:
  fixes parse es entries samples ttl
  assumes "hosts_named parse" and "0 \<le> samples" and "0 < entries"
  defines "st \<equiv> run_events (observation_event parse) es (new_observation_store entries samples ttl)"
  shows "length (os_entries st) \<le> entries \<and>
    (\<forall>(host, e) \<in> set (os_entries st). 0 \<le> mo_shells e \<and> 0 \<le> mo_sufficient e \<and> mo_shells e + mo_sufficient e \<le> samples \<and>
       0 \<le> do_shellRatio (observation_of e) \<and> do_shellRatio (observation_of e) \<le> 1)"
proof -
  have "bounded_store parse samples (new_observation_store entries samples ttl)"
    using assms(1,2) by (simp add: bounded_store_def store_ok_def new_observation_store_def)
  then have st: "bounded_store parse samples st" unfolding st_def by (rule observations.run_inv)
  have ratio: "0 \<le> do_shellRatio (observation_of e)" "do_shellRatio (observation_of e) \<le> 1"
    if "0 \<le> mo_shells e" "0 \<le> mo_sufficient e" for e
  proof -
    let ?n = "max 1 (mo_shells e + mo_sufficient e)"
    have "(of_int (mo_shells e) :: rat) / of_int ?n \<le> 1" using that by (auto simp: divide_le_eq_1 max_def)
    from to_fixed_mono [OF this, of 2] to_fixed_of_int [of 2 1]
    show "do_shellRatio (observation_of e) \<le> 1" by (simp add: observation_of_def Let_def)
    show "0 \<le> do_shellRatio (observation_of e)"
      using that by (auto simp: observation_of_def Let_def intro!: to_fixed_nonneg divide_nonneg_nonneg)
  qed
  have "os_maximumEntries st = entries" unfolding st_def run_entries by (simp add: new_observation_store_def)
  with st assms(3) ratio show ?thesis by (fastforce simp: bounded_store_def store_ok_def observation_ok_def)
qed

definition one_host :: url_parser where
  "one_host value =
     (if value = [] then None
      else Some \<lparr>u_protocol = ''https:'', u_username = [], u_password = [], u_hostname = CHR ''h'' # value, u_port = [],
        u_pathname = ''/'', u_query = None, u_fragment = None\<rparr>)"

definition shell_analysis :: client_render_analysis where
  "shell_analysis = \<lparr>an_browserRecommended = True, an_reason = ClientRenderedShell, an_signals = [], an_textChars = 0,
     an_htmlChars = 10, an_scriptChars = 5, an_scriptCount = 1, an_meaningfulTextDensity = 0\<rparr>"

theorem observations_bounded_witness:
  "length (os_entries (run_events (observation_event one_host)
      [ObserveRecord ''a'' shell_analysis 1, ObserveRecord ''b'' shell_analysis 2] (new_observation_store 1 20 1000))) \<le> 1"
proof -
  have "strip_final_dot (to_lower (CHR ''h'' # v)) \<noteq> []" if "v \<noteq> []" for v
    using that by (cases v rule: rev_cases) (simp_all add: strip_final_dot_def to_lower_def)
  then have "hosts_named one_host" by (simp add: hosts_named_def hostname_def one_host_def)
  from observations_bounded [OF this, of 20 1] show ?thesis by simp
qed

section \<open>Plans are consistent\<close>

text \<open>A plan runs its HTTP stage before its browser stage, has one attempt for each stage, and
  one that needs a browser has a browser stage.\<close>

definition plan_ok :: "execution_plan \<Rightarrow> bool" where
  "plan_ok p \<longleftrightarrow>
     plan_stages p \<in> {[StageHttp], [StageBrowser], [StageHttp, StageBrowser]} \<and>
     plan_attemptBudget p = length (plan_stages p) \<and>
     (plan_browserRequired p \<longrightarrow> StageBrowser \<in> set (plan_stages p)) \<and>
     (plan_costBasis p = BasisBrowser \<longleftrightarrow> plan_browserRequired p) \<and>
     (plan_cacheEligible p = fst (plan_cacheEligibility p))"

lemma plan_ok_planExecution: "plan_ok (planExecution cfg showNum inp opts)"
  by (cases "or_default (in_strategy inp) Auto") (simp_all add: planExecution_def plan_ok_def Let_def)

text \<open>Every plan of the planner is consistent, and so is the plan resolved after the HTTP stage of an
  automatic request that may use a browser: the HTTP result either ends the request, or the plan
  goes on to its browser stage at browser cost. Evidence about the domain changes the cost and the
  signals only, never the stages.\<close>

theorem plans_consistent:
  "plan_ok (planExecution cfg showNum inp opts) \<and> plan_ok (planPersistentSession cfg persistent profile viewer) \<and>
   plan_stages (planExecution cfg showNum inp (opts\<lparr>po_domainObservation := d\<rparr>)) = plan_stages (planExecution cfg showNum inp opts) \<and>
   (in_strategy inp \<in> {None, Some Auto} \<and> po_browserAvailable opts \<noteq> Some False \<longrightarrow>
      (let p = resolvedPlan (planExecution cfg showNum inp opts) a in
       StageHttp \<in> set (plan_stages p) \<and>
       (if an_browserRecommended a then plan_ok p \<and> plan_browserRequired p \<and> plan_stages p = [StageHttp, StageBrowser]
        else plan_stages p = [StageHttp] \<and> \<not> plan_browserRequired p \<and> plan_attemptBudget p = 1)))"
proof (intro conjI impI)
  show "plan_ok (planExecution cfg showNum inp opts)" by (rule plan_ok_planExecution)
  show "plan_ok (planPersistentSession cfg persistent profile viewer)"
    by (simp add: planPersistentSession_def plan_ok_def)
  show "plan_stages (planExecution cfg showNum inp (opts\<lparr>po_domainObservation := d\<rparr>)) = plan_stages (planExecution cfg showNum inp opts)"
    by (cases "or_default (in_strategy inp) Auto") (simp_all add: planExecution_def Let_def)
  assume "in_strategy inp \<in> {None, Some Auto} \<and> po_browserAvailable opts \<noteq> Some False"
  then have auto: "or_default (in_strategy inp) Auto = Auto" and avail: "po_browserAvailable opts \<noteq> Some False"
    by (auto simp: or_default_def)
  have stages: "plan_stages (planExecution cfg showNum inp opts) = [StageHttp, StageBrowser]"
    and budget: "plan_attemptBudget (planExecution cfg showNum inp opts) = 2"
    and cache: "plan_cacheEligible (planExecution cfg showNum inp opts) = fst (plan_cacheEligibility (planExecution cfg showNum inp opts))"
    using auto avail by (simp_all add: planExecution_def Let_def)
  then show "let p = resolvedPlan (planExecution cfg showNum inp opts) a in
       StageHttp \<in> set (plan_stages p) \<and>
       (if an_browserRecommended a then plan_ok p \<and> plan_browserRequired p \<and> plan_stages p = [StageHttp, StageBrowser]
        else plan_stages p = [StageHttp] \<and> \<not> plan_browserRequired p \<and> plan_attemptBudget p = 1)"
    by (simp add: resolvedPlan_def Let_def plan_ok_def)
qed

theorem plans_consistent_witness:
  "plan_stages (resolvedPlan (planExecution sample_config (\<lambda>_. []) sample_request no_options) shell_analysis) = [StageHttp, StageBrowser]"
  using plans_consistent [of sample_config "\<lambda>_. []" sample_request no_options True False False None shell_analysis]
  by (simp add: sample_request_def no_options_def shell_analysis_def Let_def)

end
