(* ===== verification/OB_Ssrf.thy ===== *)
theory OB_Ssrf
  imports OB_Security
begin

text \<open>
  Correctness of the network boundary: the octet tests of \<open>isPrivateIp\<close> are a list of CIDR
  blocks on 32-bit addresses, the embedded IPv4 forms agree with the plain one, and a target that
  \<open>resolveSafeUrl\<close> accepts has the properties the callers rely on.
\<close>

section \<open>Printing and parsing dotted quads\<close>

definition ipv4_octets :: "32 word \<Rightarrow> nat \<times> nat \<times> nat \<times> nat" where
  "ipv4_octets w =
     (unat (drop_bit 24 w), unat (drop_bit 16 w) mod 256, unat (drop_bit 8 w) mod 256, unat w mod 256)"

definition ipv4_text :: "32 word \<Rightarrow> string" where
  "ipv4_text w = show_ipv4 (ipv4_octets w)"

lemma ipv4_octets_unat:
  "ipv4_octets w = (unat w div 2 ^ 24, unat w div 2 ^ 16 mod 256, unat w div 2 ^ 8 mod 256, unat w mod 256)"
  unfolding ipv4_octets_def unat_drop_bit_eq by (simp add: drop_bit_eq_div)

lemma show_nat_length: "n < 10 ^ k \<Longrightarrow> 0 < k \<Longrightarrow> length (show_nat n) \<le> k"
proof (induction k arbitrary: n)
  case (Suc k)
  show ?case
  proof (cases "n < 10")
    case True
    then show ?thesis by (subst show_nat.simps) simp
  next
    case False
    with Suc.prems have "n div 10 < 10 ^ k" and "0 < k" by (auto intro: gr0I)
    then have "length (show_nat (n div 10)) \<le> k" by (rule Suc.IH)
    with False show ?thesis by (subst show_nat.simps) simp
  qed
qed simp

lemma digit_char_not_zero:
  fixes n :: nat
  assumes "0 < n" and "n < 10"
  shows "char_of (48 + n) \<noteq> CHR ''0''"
proof
  assume "char_of (48 + n) = CHR ''0''"
  then have "(of_char (char_of (48 + n) :: char) :: nat) = of_char (CHR ''0'')" by simp
  with assms show False by simp
qed

lemma show_nat_hd: "0 < n \<Longrightarrow> hd (show_nat n) \<noteq> CHR ''0''"
proof (induction n rule: show_nat.induct)
  case (1 n)
  show ?case
  proof (cases "n < 10")
    case True
    with \<open>0 < n\<close> show ?thesis by (subst show_nat.simps) (simp add: digit_char_not_zero)
  next
    case False
    with 1 have "hd (show_nat (n div 10)) \<noteq> CHR ''0''" by (simp add: div_greater_zero_iff)
    with False show ?thesis by (subst show_nat.simps) simp
  qed
qed

lemma parse_octet_show [simp]: "n < 256 \<Longrightarrow> parse_octet (show_nat n) = Some n"
proof -
  assume n: "n < 256"
  have "length (show_nat n) \<le> 3" using n by (intro show_nat_length) simp_all
  moreover have "hd (show_nat n) \<noteq> CHR ''0''" if "length (show_nat n) > 1"
  proof (rule show_nat_hd)
    show "0 < n" using that by (cases "n = 0") (simp_all add: show_nat.simps [of 0])
  qed
  ultimately show ?thesis
    using n show_nat_digits [of n] by (simp add: parse_octet_def)
qed

lemma digit_not_dot: "list_all is_digit s \<Longrightarrow> CHR ''.'' \<notin> set s \<and> CHR '':'' \<notin> set s \<and> CHR ''%'' \<notin> set s"
  by (auto simp: list_all_iff is_digit_def)

lemma show_nat_no_dot [simp]:
  "CHR ''.'' \<notin> set (show_nat n)" "CHR '':'' \<notin> set (show_nat n)" "CHR ''%'' \<notin> set (show_nat n)"
  using digit_not_dot [OF show_nat_digits] by auto

lemma split_show_ipv4:
  "split_on (CHR ''.'') (show_ipv4 (a, b, c, d)) = [show_nat a, show_nat b, show_nat c, show_nat d]"
  by (simp add: show_ipv4_def split_on_append split_on_id)

lemma parse_show_ipv4:
  "a < 256 \<Longrightarrow> b < 256 \<Longrightarrow> c < 256 \<Longrightarrow> d < 256 \<Longrightarrow> parse_ipv4 (show_ipv4 (a, b, c, d)) = Some (a, b, c, d)"
  by (simp add: parse_ipv4_def split_show_ipv4)

lemma unat_bound: "unat (w :: 32 word) < 2 ^ 32"
proof -
  have "unat w < 2 ^ LENGTH(32)" by (rule unsigned_less)
  then show ?thesis by simp
qed

lemma ipv4_octets_bounds:
  "ipv4_octets w = (a, b, c, d) \<Longrightarrow> a < 256 \<and> b < 256 \<and> c < 256 \<and> d < 256"
  using unat_bound [of w] by (auto simp: ipv4_octets_unat less_mult_imp_div_less)

lemma parse_ipv4_text [simp]: "parse_ipv4 (ipv4_text w) = Some (ipv4_octets w)"
  using ipv4_octets_bounds [of w] parse_show_ipv4 by (cases "ipv4_octets w") (auto simp: ipv4_text_def)

section \<open>The blocked networks as CIDR blocks\<close>

text \<open>Membership of an address in \<open>base/len\<close>: the first \<open>len\<close> bits agree.\<close>

definition in_net :: "32 word \<Rightarrow> 32 word \<times> nat \<Rightarrow> bool" where
  "in_net w net = (case net of (base, len) \<Rightarrow> drop_bit (32 - len) w = drop_bit (32 - len) base)"

definition blocked_networks :: "(32 word \<times> nat) list" where
  "blocked_networks =
     [(0, 8), (0x0A000000, 8), (0x7F000000, 8), (0xA9FE0000, 16), (0xAC100000, 12),
      (0xC0A80000, 16), (0x64400000, 10), (0xC6000000, 8), (0xE0000000, 3)]"

lemma in_net_div: "in_net w (base, len) \<longleftrightarrow> unat w div 2 ^ (32 - len) = unat base div 2 ^ (32 - len)"
  unfolding in_net_def prod.case word_unat_eq_iff unat_drop_bit_eq by (simp add: drop_bit_eq_div)

lemma div_eq_iff_range: "0 < k \<Longrightarrow> m div k = q \<longleftrightarrow> q * k \<le> m \<and> m < q * k + k" for m k q :: nat
  by (metis add.commute div_nat_eqI dividend_less_times_div less_eq_div_iff_mult_less_eq
      mult.commute mult_Suc order_refl)

lemma octet_split:
  fixes m :: nat
  obtains a b where "m = 256 * a + b" and "b < 256" and "m div 256 = a" and "m mod 256 = b"
  by (metis mod_less_divisor mult_div_mod_eq zero_less_numeral)

lemma pair_range:
  fixes a b q lo hi :: nat
  assumes "b < 256" and "hi < 256"
  shows "(256 * q + lo \<le> 256 * a + b \<and> 256 * a + b \<le> 256 * q + hi) \<longleftrightarrow> a = q \<and> lo \<le> b \<and> b \<le> hi"
proof (cases a q rule: linorder_cases)
  case less
  then have "256 * a + 256 \<le> 256 * q" by linarith
  with less assms show ?thesis by linarith
next
  case greater
  then have "256 * q + 256 \<le> 256 * a" by linarith
  with greater assms show ?thesis by linarith
qed simp

lemma octet_blocks:
  fixes m :: nat
  assumes "m < 65536"
  shows "m div 256 = 169 \<and> m mod 256 = 254 \<longleftrightarrow> m = 169 * 256 + 254"
    and "m div 256 = 172 \<and> m mod 256 \<ge> 16 \<and> m mod 256 \<le> 31 \<longleftrightarrow> m div 16 = 172 * 16 + 1"
    and "m div 256 = 192 \<and> m mod 256 = 168 \<longleftrightarrow> m = 192 * 256 + 168"
    and "m div 256 = 100 \<and> m mod 256 \<ge> 64 \<and> m mod 256 \<le> 127 \<longleftrightarrow> m div 64 = 100 * 4 + 1"
    and "m div 256 \<ge> 224 \<longleftrightarrow> m div 8192 = 7"
proof -
  obtain a b where m: "m = 256 * a + b" "b < 256" and d: "m div 256 = a" "m mod 256 = b"
    by (rule octet_split)
  show "m div 256 = 169 \<and> m mod 256 = 254 \<longleftrightarrow> m = 169 * 256 + 254" unfolding d using m by arith
  show "m div 256 = 172 \<and> m mod 256 \<ge> 16 \<and> m mod 256 \<le> 31 \<longleftrightarrow> m div 16 = 172 * 16 + 1"
    using pair_range [OF m(2), of 31 172 16 a] unfolding d unfolding div_eq_iff_range [OF zero_less_numeral] m(1)
    by (simp add: less_Suc_eq_le flip: Suc_le_eq)
  show "m div 256 = 192 \<and> m mod 256 = 168 \<longleftrightarrow> m = 192 * 256 + 168" unfolding d using m by arith
  show "m div 256 = 100 \<and> m mod 256 \<ge> 64 \<and> m mod 256 \<le> 127 \<longleftrightarrow> m div 64 = 100 * 4 + 1"
    using pair_range [OF m(2), of 127 100 64 a] unfolding d unfolding div_eq_iff_range [OF zero_less_numeral] m(1)
    by (simp add: less_Suc_eq_le flip: Suc_le_eq)
  show "m div 256 \<ge> 224 \<longleftrightarrow> m div 8192 = 7"
    using assms by (auto simp: div_eq_iff_range less_eq_div_iff_mult_less_eq)
qed

lemma private_v4_blocks:
  fixes n :: nat
  assumes "n < 2 ^ 32"
  shows "private_v4 (n div 2 ^ 24, n div 2 ^ 16 mod 256, c, d) \<longleftrightarrow>
     n div 2 ^ 24 = 0 \<or> n div 2 ^ 24 = 10 \<or> n div 2 ^ 24 = 127 \<or> n div 2 ^ 16 = 169 * 256 + 254 \<or>
     n div 2 ^ 20 = 172 * 16 + 1 \<or> n div 2 ^ 16 = 192 * 256 + 168 \<or> n div 2 ^ 22 = 100 * 4 + 1 \<or>
     n div 2 ^ 24 = 198 \<or> n div 2 ^ 29 = 7"
proof -
  define m where "m = n div 2 ^ 16"
  have parts: "n div 2 ^ 24 = m div 256" "n div 2 ^ 20 = m div 16" "n div 2 ^ 22 = m div 64"
      "n div 2 ^ 29 = m div 8192"
    by (simp_all add: m_def div_mult2_eq [symmetric])
  have "m < 65536" using assms by (simp add: m_def less_mult_imp_div_less)
  from octet_blocks [OF this] show ?thesis
    unfolding private_v4_def prod.case parts m_def [symmetric] by blast
qed

lemma private_v4_cidr: "private_v4 (ipv4_octets w) \<longleftrightarrow> list_ex (in_net w) blocked_networks"
proof -
  from private_v4_blocks [OF unat_bound] show ?thesis
    by (simp add: ipv4_octets_unat blocked_networks_def in_net_div)
qed

text \<open>C2. On every IPv4 address, printed in dotted-decimal form, \<open>isPrivateIp\<close> decides membership in
  nine CIDR blocks: this network, 10/8, loopback, link-local, 172.16/12, 192.168/16, the
  carrier-grade NAT range, all of 198/8, and multicast with the reserved range above it.\<close>

theorem isPrivateIp_cidr: "isPrivateIp (ipv4_text w) \<longleftrightarrow> list_ex (in_net w) blocked_networks"
  by (simp add: isPrivateIp_def private_v4_cidr)

section \<open>Embedded IPv4 addresses\<close>

lemma ipv4_text_chars: "c \<in> set (ipv4_text w) \<Longrightarrow> is_digit c \<or> c = CHR ''.''"
  using show_nat_digits by (auto simp: ipv4_text_def show_ipv4_def list_all_iff split: prod.splits)

lemma lower_char_digit: "is_digit c \<or> c = CHR ''.'' \<Longrightarrow> lower_char c = c"
  by (auto simp: is_digit_def lower_char_def Let_def)

lemma to_lower_ipv4 [simp]: "to_lower (ipv4_text w) = ipv4_text w"
  unfolding to_lower_def by (intro map_idI lower_char_digit ipv4_text_chars)

lemma ipv4_text_no [simp]: "CHR '':'' \<notin> set (ipv4_text w)" "CHR ''%'' \<notin> set (ipv4_text w)"
  using ipv4_text_chars by (fastforce simp: is_digit_def)+

lemma dot_in_ipv4: "CHR ''.'' \<in> set (ipv4_text w)"
  by (cases "ipv4_octets w") (simp add: ipv4_text_def show_ipv4_def)

lemma dot_not_hex: "hex_val (CHR ''.'') = None"
  by (simp add: hex_val_def)

lemma not_hex_dotted: "\<not> hex_group (ipv4_text w)"
  using dot_in_ipv4 [of w] dot_not_hex by (auto simp: hex_group_def list_all_iff)

lemma dotted_digits_ipv4: "dotted_digits (ipv4_text w)"
  by (cases "ipv4_octets w") (simp add: dotted_digits_def ipv4_text_def split_show_ipv4 show_nat_digits)

lemma parse_ipv4_colon: "parse_ipv4 (mapped_prefix @ s) = None"
proof -
  obtain w ws where "split_on (CHR ''.'') (mapped_prefix @ s) = (CHR '':'' # w) # ws"
    by (cases "split_on (CHR ''.'') (drop 1 mapped_prefix @ s)") (auto simp: mapped_prefix_def)
  moreover have "parse_octet (CHR '':'' # w) = None" by (simp add: parse_octet_def is_digit_def)
  ultimately show ?thesis by (auto simp: parse_ipv4_def split: list.splits option.splits)
qed

lemma find_double_colon_mapped: "find_double_colon (mapped_prefix @ s) = Some ([], ''ffff:'' @ s)"
  by (simp add: mapped_prefix_def)

lemma is_ipv6_mapped: 
  assumes "CHR ''%'' \<notin> set s" and "count_groups True (split_on (CHR '':'') (''ffff:'' @ s)) = Some n" "n \<le> 7"
  shows "is_ipv6 (mapped_prefix @ s)"
proof -
  have "CHR ''%'' \<notin> set (mapped_prefix @ s)" using assms(1) by (simp add: mapped_prefix_def)
  then have no_zone: "takeWhile (\<lambda>c. c \<noteq> CHR ''%'') (mapped_prefix @ s) = mapped_prefix @ s"
     "dropWhile (\<lambda>c. c \<noteq> CHR ''%'') (mapped_prefix @ s) = []"
    unfolding takeWhile_eq_all_conv dropWhile_eq_Nil_conv by metis+
  have "colon_groups (''ffff:'' @ s) = split_on (CHR '':'') (''ffff:'' @ s)" by (simp add: colon_groups_def)
  with assms(2,3) show ?thesis
    unfolding is_ipv6_def no_zone find_double_colon_mapped Let_def by (simp add: colon_groups_def)
qed

lemma split_ffff: "split_on (CHR '':'') (''ffff:'' @ s) = ''ffff'' # split_on (CHR '':'') s"
  using split_on_append [of "CHR '':''" "''ffff''" s] by simp

lemma hex_ffff: "hex_group ''ffff''" by (simp add: hex_group_def hex_val_def)

lemma to_lower_mapped: "to_lower (mapped_prefix @ s) = mapped_prefix @ to_lower s"
  by (simp add: to_lower_def mapped_prefix_def lower_char_def)

text \<open>The IPv6 spelling \<open>::ffff:a.b.c.d\<close> of an IPv4 address is classified like the address itself, so
  an embedded private address does not pass.\<close>

theorem isPrivateIp_mapped_dotted:
  "isPrivateIp (mapped_prefix @ ipv4_text w) = isPrivateIp (ipv4_text w)"
proof -
  have "is_ipv6 (mapped_prefix @ ipv4_text w)"
    by (rule is_ipv6_mapped [of _ 3]) (simp_all only: split_ffff, simp_all add: split_on_id hex_ffff not_hex_dotted)
  moreover have "mapped_ipv4 (mapped_prefix @ ipv4_text w) = Some (ipv4_text w)"
    by (simp add: mapped_ipv4_def starts_with_def dotted_digits_ipv4)
  ultimately show ?thesis
    by (simp add: isPrivateIp_def parse_ipv4_colon to_lower_mapped private_dotted_def)
qed

section \<open>What an accepted target satisfies\<close>

definition http_scheme :: "url \<Rightarrow> bool" where
  "http_scheme u \<longleftrightarrow> u_protocol u \<in> {''http:'', ''https:''}"

definition no_credentials :: "url \<Rightarrow> bool" where
  "no_credentials u \<longleftrightarrow> u_username u = [] \<and> u_password u = []"

definition reachable_host :: "string \<Rightarrow> bool" where
  "reachable_host h \<longleftrightarrow> h \<notin> set blockedHostnames \<and> \<not> ends_with h ''.localhost''"

definition permitted_by_proxy :: "string list option \<Rightarrow> string \<Rightarrow> bool" where
  "permitted_by_proxy al h \<longleftrightarrow> al = None \<or> al = Some [] \<or> domain_allowed (the al) h"

definition all_public :: "(string \<times> nat) list \<Rightarrow> bool" where
  "all_public as \<longleftrightarrow> as \<noteq> [] \<and> list_all (\<lambda>(a, _). \<not> isPrivateIp a) as"

text \<open>The addresses a host stands for: itself when it is an address, else what the resolver answers.\<close>

definition host_addresses :: "resolver \<Rightarrow> string \<Rightarrow> (string \<times> nat) list option" where
  "host_addresses resolver h = (if isIP h \<noteq> 0 then Some [(h, isIP h)] else resolver h)"

definition safe_target :: "resolver \<Rightarrow> string list option \<Rightarrow> safe_resolution \<Rightarrow> bool" where
  "safe_target resolver al r \<longleftrightarrow>
     (let u = safe_url r; h = target_hostname u in
      http_scheme u \<and> no_credentials u \<and> reachable_host h \<and> permitted_by_proxy al h \<and>
      host_addresses resolver h = Some (safe_addresses r) \<and> all_public (safe_addresses r))"

lemma any_private_iff: "list_ex (\<lambda>(a, _). isPrivateIp a) as \<longleftrightarrow> \<not> list_all (\<lambda>(a, _). \<not> isPrivateIp a) as"
  by (induction as) auto

lemma permitted_by_proxy_iff:
  "\<not> (case al of None \<Rightarrow> False | Some ds \<Rightarrow> ds \<noteq> [] \<and> \<not> domain_allowed ds h) \<longleftrightarrow> permitted_by_proxy al h"
  by (auto simp: permitted_by_proxy_def split: option.splits)

lemma resolveSafeUrl_InrD:
  assumes "resolveSafeUrl parse resolver value al = Inr r"
  shows "parse value = Some (safe_url r) \<and> safe_target resolver al r"
proof -
  from assms obtain u where u: "parse value = Some u" by (cases "parse value") (auto simp: resolveSafeUrl_def)
  have su: "safe_url r = u"
    using assms u by (auto simp: resolveSafeUrl_def Let_def split: if_splits option.splits)
  have "permitted_by_proxy al (target_hostname u)"
    using assms u permitted_by_proxy_iff
    by (auto simp: resolveSafeUrl_def Let_def split: if_splits)
  moreover have "http_scheme u" "no_credentials u" "reachable_host (target_hostname u)"
    using assms u
    by (auto simp: resolveSafeUrl_def Let_def http_scheme_def no_credentials_def reachable_host_def split: if_splits)
  moreover have "host_addresses resolver (target_hostname u) = Some (safe_addresses r)"
    and "all_public (safe_addresses r)"
    using assms u
    by (auto simp: resolveSafeUrl_def Let_def host_addresses_def all_public_def any_private_iff
        split: if_splits option.splits)
  ultimately show ?thesis by (simp add: u su safe_target_def Let_def)
qed

lemma resolveSafeUrl_InrI:
  assumes "parse value = Some (safe_url r)" and "safe_target resolver al r"
  shows "resolveSafeUrl parse resolver value al = Inr r"
proof -
  obtain u ads where r: "r = \<lparr>safe_url = u, safe_addresses = ads\<rparr>" by (cases r)
  obtain h where h: "target_hostname u = h" by blast
  have "\<not> (case al of None \<Rightarrow> False | Some ds \<Rightarrow> ds \<noteq> [] \<and> \<not> domain_allowed ds h)"
    using assms(2) by (simp add: permitted_by_proxy_iff safe_target_def Let_def h r)
  moreover have "all_public ads" and "host_addresses resolver h = Some ads"
    and "reachable_host h" and "http_scheme u" and "no_credentials u"
    using assms(2) by (simp_all add: safe_target_def Let_def h r)
  ultimately show ?thesis
    using assms(1)
    by (auto simp: resolveSafeUrl_def Let_def h r http_scheme_def no_credentials_def
          reachable_host_def host_addresses_def all_public_def any_private_iff split: if_splits)
qed

text \<open>C1. \<open>resolveSafeUrl\<close> accepts exactly the safe targets: an http(s) URL without credentials,
  whose host is not a blocked name, is within the selected proxy's domains, and stands for at
  least one address, none of them private or reserved; it returns that URL and those addresses.\<close>

theorem resolveSafeUrl_safe:
  "resolveSafeUrl parse resolver value al = Inr r
     \<longleftrightarrow> parse value = Some (safe_url r) \<and> safe_target resolver al r"
  using resolveSafeUrl_InrD resolveSafeUrl_InrI by blast

section \<open>Normal forms of URLs\<close>

lemma lower_char_idem [simp]: "lower_char (lower_char c) = lower_char c"
  by (auto simp: lower_char_def Let_def)

lemma to_lower_idem [simp]: "to_lower (to_lower s) = to_lower s"
  by (simp add: to_lower_def comp_def)

lemma delete_challenge_frame [simp]:
  "u_protocol (delete_challenge_params ks u) = u_protocol u"
  "u_hostname (delete_challenge_params ks u) = u_hostname u"
  "u_port (delete_challenge_params ks u) = u_port u"
  "u_pathname (delete_challenge_params ks u) = u_pathname u"
  "u_fragment (delete_challenge_params ks u) = u_fragment u"
  by (induction ks u rule: delete_challenge_params.induct) (auto simp: params_delete_def)

lemma search_params_delete_challenge:
  "search_params (delete_challenge_params ks u)
     = filter (\<lambda>p. \<not> (challenge_param (fst p) \<and> fst p \<in> set ks)) (search_params u)"
  by (induction ks u rule: delete_challenge_params.induct)
     (auto intro!: filter_cong)

lemma delete_challenge_none: "list_all (\<lambda>k. \<not> challenge_param k) ks \<Longrightarrow> delete_challenge_params ks u = u"
  by (induction ks) auto

lemma search_params_frame [simp]:
  "search_params (u\<lparr>u_fragment := f\<rparr>) = search_params u"
  "search_params (u\<lparr>u_hostname := h\<rparr>) = search_params u"
  "search_params (u\<lparr>u_port := p\<rparr>) = search_params u"
  by (simp_all add: search_params_def)

lemma search_params_normalize:
  "search_params (normalize_parts u) = filter (\<lambda>p. \<not> challenge_param (fst p)) (search_params u)"
  by (auto simp: normalize_parts_def Let_def search_params_delete_challenge intro!: filter_cong)

lemma normalize_parts_fields:
  "u_fragment (normalize_parts u) = None"
  "u_hostname (normalize_parts u) = to_lower (u_hostname u)"
  "u_protocol (normalize_parts u) = u_protocol u"
  "u_pathname (normalize_parts u) = u_pathname u"
  by (simp_all add: normalize_parts_def Let_def)

lemma normalize_parts_port:
  "\<not> (u_protocol u = ''https:'' \<and> u_port (normalize_parts u) = ''443'')"
  "\<not> (u_protocol u = ''http:'' \<and> u_port (normalize_parts u) = ''80'')"
  by (auto simp: normalize_parts_def Let_def)

lemma normalize_parts_fixed:
  assumes "u_fragment u = None" and "to_lower (u_hostname u) = u_hostname u"
    and "list_all (\<lambda>k. \<not> challenge_param k) (map fst (search_params u))"
    and "\<not> (u_protocol u = ''https:'' \<and> u_port u = ''443'')"
    and "\<not> (u_protocol u = ''http:'' \<and> u_port u = ''80'')"
  shows "normalize_parts u = u"
proof -
  have "u\<lparr>u_fragment := None\<rparr> = u" and "u\<lparr>u_hostname := to_lower (u_hostname u)\<rparr> = u"
    using assms(1,2) by (simp_all add: url.equality)
  then show ?thesis
    using assms by (auto simp: normalize_parts_def Let_def delete_challenge_none)
qed

lemma normalize_parts_idem: "normalize_parts (normalize_parts u) = normalize_parts u"
proof (rule normalize_parts_fixed)
  show "list_all (\<lambda>k. \<not> challenge_param k) (map fst (search_params (normalize_parts u)))"
    by (auto simp: search_params_normalize list_all_iff)
qed (use normalize_parts_port [of u] in \<open>auto simp: normalize_parts_fields\<close>)

text \<open>\<open>normalizeUrl\<close> computes a normal form: applying it again changes nothing, the
  \<open>cf_chl_\<close> challenge parameters are gone while every other parameter keeps its place, the
  fragment is dropped, the host is lower case, and scheme and path stay.\<close>

theorem normalizeUrl_canonical:
  "normalize_parts (normalize_parts u) = normalize_parts u
   \<and> search_params (normalize_parts u) = filter (\<lambda>p. \<not> challenge_param (fst p)) (search_params u)
   \<and> u_fragment (normalize_parts u) = None \<and> u_hostname (normalize_parts u) = to_lower (u_hostname u)
   \<and> u_protocol (normalize_parts u) = u_protocol u \<and> u_pathname (normalize_parts u) = u_pathname u"
  by (simp add: normalize_parts_idem search_params_normalize normalize_parts_fields)

end
