(* ===== verification/OB_Http.thy ===== *)
theory OB_Http
  imports OB_Planner OB_Ssrf OB_Errors
begin

text \<open>
  The HTTP stage of \<open>src/src/execution/http.ts\<close>, with the header filter and the proxy settings of
  \<open>src/src/execution/shared.ts\<close>. The network is a function on its own state; DNS answers may differ
  from one resolution to the next, so the resolver is indexed by the number of the resolution. The
  clock readings, the URL parsers and the UTF-8 decoder are parameters.
\<close>

type_synonym byte_list = "8 word list"

section \<open>Requests and responses\<close>

datatype dispatcher = ViaProxy string | PinnedTo "(string \<times> nat) list"

record http_request =
  rq_url :: url
  rq_headers :: "(string \<times> string) list"
  rq_dispatcher :: dispatcher
  rq_timeout :: millis

text \<open>
  \<open>rp_declared\<close> is \<open>Number(content-length ?? 0)\<close>, \<open>None\<close> for \<open>NaN\<close>. A body is the chunks the stream
  delivers and the error it may end with.
\<close>

record http_response =
  rp_status :: int
  rp_url :: string
  rp_location :: "string option"
  rp_contentType :: "string option"
  rp_declared :: "rat option"
  rp_body :: "(byte_list list \<times> js_error option) option"

datatype fetch_failure = FetchTimeout | FetchFailed

type_synonym 's network = "http_request \<Rightarrow> 's \<Rightarrow> (fetch_failure + http_response) \<times> 's"

definition timeout :: "config \<Rightarrow> millis option \<Rightarrow> millis" where
  "timeout cfg v = min (or_default v (jobTimeoutMs cfg)) (jobTimeoutMs cfg)"

definition forbidden_headers :: "string list" where
  "forbidden_headers = [''host'', ''connection'', ''content-length'', ''proxy-authorization'']"

definition safeHeaders :: "(string \<times> string) list option \<Rightarrow> (string \<times> string) list" where
  "safeHeaders inp = filter (\<lambda>(name, _). to_lower name \<notin> set forbidden_headers) (or_default inp [])"

definition proxySettings :: "url_parser \<Rightarrow> (string \<Rightarrow> string) \<Rightarrow> string \<Rightarrow> (string \<times> string option \<times> string option) outcome" where
  "proxySettings parse decodeURIComponent proxyUrl =
     (case parse proxyUrl of
        None \<Rightarrow> Inl (JsError ''Invalid URL'')
      | Some u \<Rightarrow> Inr (u_protocol u @ ''//'' @ url_host u,
          (if u_username u \<noteq> [] then Some (decodeURIComponent (u_username u)) else None),
          (if u_password u \<noteq> [] then Some (decodeURIComponent (u_password u)) else None)))"

definition defaultProxySettings ::
  "config \<Rightarrow> url_parser \<Rightarrow> (string \<Rightarrow> string) \<Rightarrow> (string \<times> string option \<times> string option) option outcome" where
  "defaultProxySettings cfg parse decodeURIComponent =
     (if egressProxyUrl cfg = [] then Inr None
      else map_sum id Some (proxySettings parse decodeURIComponent (egressProxyUrl cfg)))"

section \<open>Reading a body\<close>

definition target_too_large :: js_error where
  "target_too_large = ob_err ''PAYLOAD_TOO_LARGE'' ''Target response exceeds the configured byte limit'' 413 False"

fun read_chunks :: "int \<Rightarrow> int \<Rightarrow> byte_list list \<Rightarrow> js_error option \<Rightarrow> byte_list outcome" where
  "read_chunks limit sz [] ending = (case ending of None \<Rightarrow> Inr [] | Some e \<Rightarrow> Inl e)"
| "read_chunks limit sz (c # cs) ending =
     (if sz + int (length c) > limit then Inl target_too_large
      else res_bind (read_chunks limit (sz + int (length c)) cs ending) (\<lambda>rest. Inr (c @ rest)))"

definition readBoundedResponse :: "config \<Rightarrow> http_response \<Rightarrow> byte_list outcome" where
  "readBoundedResponse cfg r =
     (if (case rp_declared r of Some n \<Rightarrow> n > of_int (maxResponseBytes cfg) | None \<Rightarrow> False) then Inl target_too_large
      else case rp_body r of
        None \<Rightarrow> Inr []
      | Some (chunks, ending) \<Rightarrow> read_chunks (maxResponseBytes cfg) 0 chunks ending)"

section \<open>Following redirects\<close>

definition redirect_statuses :: "int list" where
  "redirect_statuses = [301, 302, 303, 307, 308]"

definition proxy_url :: "config \<Rightarrow> fetch_input \<Rightarrow> string option" where
  "proxy_url cfg inp =
     (case in_proxy inp of
        Some p \<Rightarrow> Some (pxy_url p)
      | None \<Rightarrow> if egressProxyUrl cfg \<noteq> [] then Some (egressProxyUrl cfg) else None)"

definition proxy_domains :: "fetch_input \<Rightarrow> string list option" where
  "proxy_domains inp = map_option pxy_allowedDomains (in_proxy inp)"

definition make_request :: "config \<Rightarrow> fetch_input \<Rightarrow> safe_resolution \<Rightarrow> http_request" where
  "make_request cfg inp r =
     \<lparr>rq_url = safe_url r, rq_headers = safeHeaders (in_headers inp),
      rq_dispatcher = (case proxy_url cfg inp of Some p \<Rightarrow> ViaProxy p | None \<Rightarrow> PinnedTo (safe_addresses r)),
      rq_timeout = timeout cfg (in_timeoutMs inp)\<rparr>"

record parsers =
  parse_absolute :: url_parser
  parse_relative :: "string \<Rightarrow> url \<Rightarrow> url option"

text \<open>The loop, with the number of redirects still allowed and the number of the next resolution.\<close>

fun follow ::
  "config \<Rightarrow> parsers \<Rightarrow> (nat \<Rightarrow> resolver) \<Rightarrow> 's network \<Rightarrow> fetch_input \<Rightarrow> nat \<Rightarrow> nat \<Rightarrow> safe_resolution \<Rightarrow> 's \<Rightarrow>
   (safe_resolution \<times> http_response) outcome \<times> 's" where
  "follow cfg P dns net inp left i r s =
     (case net (make_request cfg inp r) s of
        (Inl FetchTimeout, s1) \<Rightarrow>
          (Inl (ob_err ''TARGET_TIMEOUT''
             (''Target did not complete within '' @ show_int (timeout cfg (in_timeoutMs inp)) @ ''ms'') 408 True), s1)
      | (Inl FetchFailed, s1) \<Rightarrow> (Inl (ob_err ''TARGET_NETWORK_ERROR'' ''Could not fetch target'' 502 True), s1)
      | (Inr resp, s1) \<Rightarrow>
          if rp_status resp \<notin> set redirect_statuses \<or> or_default (rp_location resp) [] = [] then (Inr (r, resp), s1)
          else (case left of
              0 \<Rightarrow> (Inl (ob_err ''TARGET_NETWORK_ERROR'' ''Target exceeded the redirect limit'' 502 False), s1)
            | Suc n \<Rightarrow>
                (case parse_relative P (or_default (rp_location resp) []) (safe_url r) of
                   None \<Rightarrow> (Inl (JsError ''Invalid URL''), s1)
                 | Some u \<Rightarrow>
                     (case resolveSafeUrl (parse_absolute P) (dns i) (url_href u) (proxy_domains inp) of
                        Inl e \<Rightarrow> (Inl e, s1)
                      | Inr r1 \<Rightarrow> follow cfg P dns net inp n (Suc i) r1 s1))))"

declare follow.simps [simp del]

record http_result =
  hr_sourceUrl :: string
  hr_status :: int
  hr_finalUrl :: string
  hr_contentType :: string
  hr_html :: "string option"
  hr_fetchMs :: millis
  hr_networkBytes :: nat
  hr_execution :: execution_report

text \<open>The report of the HTTP stage; \<open>ms\<close> are the clock readings of \<open>httpMs\<close> and of the timeline.\<close>

definition http_report :: "config \<Rightarrow> (rat \<Rightarrow> string) \<Rightarrow> fetch_input \<Rightarrow> int \<Rightarrow> millis \<Rightarrow> millis \<Rightarrow> execution_report" where
  "http_report cfg showNum inp status httpMs atMs =
     \<lparr>ex_plan = planExecution cfg showNum inp no_options, ex_escalationReason = None, ex_backendAttempts = [],
      ex_selectedBackend = None, ex_backendDecisionReason = None, ex_backendConfiguration = None, ex_challengeDetected = None,
      ex_challengeRemaining = None,
      ex_timings = \<lparr>t_httpMs = httpMs, t_browserAcquireMs = 0, t_navigationMs = 0, t_settleMs = 0,
                    t_extractionMs = 0, t_browserMs = 0\<rparr>,
      ex_strategyRequested = or_default (in_strategy inp) Auto, ex_strategyUsed = StageHttp, ex_escalated = False,
      ex_analysis = None,
      ex_timeline = [\<lparr>tl_atMs = 0, tl_event = EvAccepted, tl_detail = None\<rparr>,
        \<lparr>tl_atMs = 0, tl_event = EvHttpStarted, tl_detail = None\<rparr>,
        \<lparr>tl_atMs = atMs, tl_event = EvHttpCompleted, tl_detail = Some (''status:'' @ show_int status)\<rparr>]\<rparr>"

definition httpFetch ::
  "config \<Rightarrow> parsers \<Rightarrow> (nat \<Rightarrow> resolver) \<Rightarrow> 's network \<Rightarrow> (byte_list \<Rightarrow> string) \<Rightarrow> (rat \<Rightarrow> string) \<Rightarrow>
   millis \<times> millis \<times> millis \<Rightarrow> fetch_input \<Rightarrow> 's \<Rightarrow> http_result outcome \<times> 's" where
  "httpFetch cfg P dns net utf8 showNum clock inp s =
     (case resolveSafeUrl (parse_absolute P) (dns 0) (in_url inp) (proxy_domains inp) of
        Inl e \<Rightarrow> (Inl e, s)
      | Inr r0 \<Rightarrow>
          (case follow cfg P dns net inp 5 1 r0 s of
             (Inl e, s1) \<Rightarrow> (Inl e, s1)
           | (Inr (r, resp), s1) \<Rightarrow>
               (res_bind (readBoundedResponse cfg resp) (\<lambda>body.
                  res_bind (normalizeUrl (parse_absolute P) (in_url inp)) (\<lambda>source.
                  res_bind (normalizeUrl (parse_absolute P)
                              (if rp_url resp \<noteq> [] then rp_url resp else url_href (safe_url r))) (\<lambda>final.
                  (let contentType = or_default (rp_contentType resp) ''application/octet-stream'';
                       (t1, t2, t3) = clock
                   in Inr \<lparr>hr_sourceUrl = source, hr_status = rp_status resp, hr_finalUrl = final,
                           hr_contentType = contentType,
                           hr_html = (if str_includes contentType ''html'' then Some (utf8 body) else None),
                           hr_fetchMs = t1, hr_networkBytes = length body,
                           hr_execution = http_report cfg showNum inp (rp_status resp) t2 t3\<rparr>)))), s1)))"

text \<open>The \<open>lookup\<close> a pinned agent gives the socket: no name is resolved again.\<close>

datatype lookup_answer = LookupError string | LookupAll "(string \<times> nat) list" | LookupOne string nat

definition pinned_lookup :: "(string \<times> nat) list \<Rightarrow> bool \<Rightarrow> lookup_answer" where
  "pinned_lookup addresses wantAll =
     (case addresses of
        [] \<Rightarrow> LookupError ''Validated target has no pinned address''
      | (address, family) # _ \<Rightarrow> if wantAll then LookupAll addresses else LookupOne address family)"

section \<open>Every request is checked\<close>

text \<open>A network that writes down the requests it is asked for.\<close>

definition logged :: "'s network \<Rightarrow> ('s \<times> http_request list) network" where
  "logged net rq st = (case net rq (fst st) of (r, s) \<Rightarrow> (r, (s, snd st @ [rq])))"

definition request_ok :: "config \<Rightarrow> fetch_input \<Rightarrow> resolver \<Rightarrow> http_request \<Rightarrow> bool" where
  "request_ok cfg inp res rq \<longleftrightarrow>
     (\<exists>r. safe_target res (proxy_domains inp) r \<and> rq_url rq = safe_url r \<and>
          rq_dispatcher rq = (case proxy_url cfg inp of Some p \<Rightarrow> ViaProxy p | None \<Rightarrow> PinnedTo (safe_addresses r))) \<and>
     (\<forall>(name, v) \<in> set (rq_headers rq). to_lower name \<notin> set forbidden_headers) \<and>
     rq_timeout rq \<le> jobTimeoutMs cfg"

lemma make_request_ok:
  "safe_target res (proxy_domains inp) r \<Longrightarrow> request_ok cfg inp res (make_request cfg inp r)"
  by (auto simp: request_ok_def make_request_def safeHeaders_def timeout_def)

lemma follow_requests:
  assumes "safe_target (dns (i - 1)) (proxy_domains inp) r" and "0 < i"
    and "follow cfg P dns (logged net) inp left i r st = (out, st')"
  shows "\<exists>rqs. snd st' = snd st @ rqs \<and> length rqs \<le> Suc left \<and>
           (\<forall>k < length rqs. request_ok cfg inp (dns (i - 1 + k)) (rqs ! k))"
  using assms
proof (induction left arbitrary: i r st)
  case 0
  then show ?case
    by (auto simp: follow.simps logged_def make_request_ok split: prod.splits sum.splits fetch_failure.splits if_splits)
next
  case (Suc n)
  let ?rq = "make_request cfg inp r"
  obtain ans s1 where net: "net ?rq (fst st) = (ans, s1)" by fastforce
  let ?st1 = "(s1, snd st @ [?rq])"
  have rq: "request_ok cfg inp (dns (i - 1)) ?rq" using Suc.prems(1) by (rule make_request_ok)
  have l: "logged net ?rq st = (ans, ?st1)" by (simp add: logged_def net)
  consider (stop) "st' = ?st1"
    | (redirect) r1 v where "resolveSafeUrl (parse_absolute P) (dns i) v (proxy_domains inp) = Inr r1"
        "follow cfg P dns (logged net) inp n (Suc i) r1 ?st1 = (out, st')"
    using Suc.prems(3)
    by (auto simp: follow.simps [of _ _ _ _ _ "Suc n"] l split: sum.splits fetch_failure.splits if_splits option.splits)
  then show ?case
  proof cases
    case stop
    with rq show ?thesis by (intro exI [of _ "[?rq]"]) simp
  next
    case redirect
    have "safe_target (dns (Suc i - 1)) (proxy_domains inp) r1" using resolveSafeUrl_InrD [OF redirect(1)] by simp
    from Suc.IH [OF this _ redirect(2)] obtain rqs where rqs: "snd st' = snd st @ ?rq # rqs" "length rqs \<le> Suc n"
      "\<forall>k < length rqs. request_ok cfg inp (dns (Suc i - 1 + k)) (rqs ! k)" by auto
    have "request_ok cfg inp (dns (i - 1 + k)) ((?rq # rqs) ! k)" if "k < length (?rq # rqs)" for k
      using that rq rqs(3) Suc.prems(2) by (cases k) auto
    with rqs show ?thesis by (intro exI [of _ "?rq # rqs"]) simp
  qed
qed


section \<open>Bodies are bounded\<close>

lemma read_chunks_ok:
  "read_chunks limit sz chunks ending = Inr b \<longleftrightarrow>
     ending = None \<and> b = concat chunks \<and> (chunks \<noteq> [] \<longrightarrow> sz + int (length (concat chunks)) \<le> limit)"
proof (induction chunks arbitrary: sz b)
  case (Cons c cs)
  then show ?case
    by (cases cs) (auto simp: res_bind_Inr_iff split: if_splits)
qed (auto split: option.splits)

lemma read_chunks_too_large:
  "sz \<le> limit \<Longrightarrow> limit < sz + int (length (concat chunks)) \<Longrightarrow> read_chunks limit sz chunks ending = Inl target_too_large"
  by (induction chunks arbitrary: sz) auto

text \<open>A body is read completely or not at all: the read succeeds exactly when the declared length and the
  bytes delivered stay within \<open>maxResponseBytes\<close> and the stream ends without an error, and then
  the result is the chunks in order; a body that is too large is \<open>PAYLOAD_TOO_LARGE\<close>, whatever length was
  declared.\<close>

theorem readBoundedResponse_iff:
  "(readBoundedResponse cfg r = Inr b \<longleftrightarrow>
      (\<forall>n. rp_declared r = Some n \<longrightarrow> n \<le> of_int (maxResponseBytes cfg)) \<and>
      (case rp_body r of
         None \<Rightarrow> b = []
       | Some (chunks, ending) \<Rightarrow> ending = None \<and> b = concat chunks \<and>
           (chunks \<noteq> [] \<longrightarrow> int (length b) \<le> maxResponseBytes cfg))) \<and>
   (\<forall>chunks ending. rp_body r = Some (chunks, ending) \<and> maxResponseBytes cfg < int (length (concat chunks)) \<and> 0 \<le> maxResponseBytes cfg
      \<longrightarrow> readBoundedResponse cfg r = Inl target_too_large)"
  using read_chunks_too_large [of 0 "maxResponseBytes cfg"]
  by (auto simp: readBoundedResponse_def read_chunks_ok split: option.splits)

definition sample_response :: http_response where
  "sample_response = \<lparr>rp_status = 302, rp_url = [], rp_location = Some ''/next'', rp_contentType = Some ''text/html'',
     rp_declared = Some 2, rp_body = Some ([[60], [62]], None)\<rparr>"

theorem readBoundedResponse_iff_witness:
  "readBoundedResponse sample_config sample_response = Inr [60, 62]"
proof -
  have "2 \<le> maxResponseBytes sample_config" by code_simp
  then show ?thesis
    by (simp add: readBoundedResponse_iff [THEN conjunct1] sample_response_def)
qed

text \<open>A target that redirects for ever.\<close>

definition public_url :: url where
  "public_url = \<lparr>u_protocol = ''https:'', u_username = [], u_password = [], u_hostname = ''93.184.216.34'', u_port = [],
     u_pathname = ''/'', u_query = None, u_fragment = None\<rparr>"

definition sample_parsers :: parsers where
  "sample_parsers = \<lparr>parse_absolute = (\<lambda>_. Some public_url), parse_relative = (\<lambda>_ _. Some public_url)\<rparr>"

definition redirecting :: "unit network" where
  "redirecting rq s = (Inr sample_response, s)"

lemma sample_simps:
  "parse_absolute sample_parsers = (\<lambda>_. Some public_url)" "parse_relative sample_parsers = (\<lambda>_ _. Some public_url)"
  "proxy_domains sample_request = None"
  by (simp_all add: sample_parsers_def proxy_domains_def sample_request_def)

lemma six_requests:
  "httpFetch sample_config sample_parsers (\<lambda>_ _. None) (logged redirecting) (\<lambda>_. []) (\<lambda>_. []) (0, 0, 0) sample_request ((), [])
     = (Inl (ob_err ''TARGET_NETWORK_ERROR'' ''Target exceeded the redirect limit'' 502 False), (),
        replicate 6 (make_request sample_config sample_request \<lparr>safe_url = public_url, safe_addresses = [(''93.184.216.34'', 4)]\<rparr>))"
proof -
  let ?r = "\<lparr>safe_url = public_url, safe_addresses = [(''93.184.216.34'', 4)]\<rparr>"
  have r: "resolveSafeUrl (\<lambda>_. Some public_url) (\<lambda>_. None) v None = Inr ?r" for v by code_simp
  have log: "logged redirecting rq (s, l) = (Inr sample_response, ((), l @ [rq]))" for rq s l
    by (simp add: logged_def redirecting_def)
  have resp: "rp_status sample_response \<in> set redirect_statuses" "rp_location sample_response = Some ''/next''"
    by (simp_all add: sample_response_def redirect_statuses_def)
  have "follow sample_config sample_parsers (\<lambda>_ _. None) (logged redirecting) sample_request n i ?r ((), rqs)
      = (Inl (ob_err ''TARGET_NETWORK_ERROR'' ''Target exceeded the redirect limit'' 502 False), (),
         rqs @ replicate (Suc n) (make_request sample_config sample_request ?r))" for n i rqs
  proof (induction n arbitrary: i rqs)
    case 0
    then show ?case by (subst follow.simps) (simp add: log resp or_default_def)
  next
    case (Suc n)
    then show ?case
      by (subst follow.simps)
         (simp add: log resp or_default_def sample_simps r)
  qed
  then show ?thesis by (simp add: httpFetch_def sample_simps r eval_nat_numeral)
qed


end
