(* ===== verification/OB_Content.thy ===== *)
theory OB_Content
  imports OB_Analysis OB_Readiness OB_Challenge OB_Http
begin

text \<open>
  The fetch pipeline of \<open>src/src/execution/content.ts\<close>: the browser stage on a page of the pool, the challenge
  fallback around it and the adaptive composition with the HTTP stage. A page is a driver: every operation
  changes the state \<open>'s\<close> of the browser and takes some milliseconds, so the state of the pipeline is
  a browser state with the clock.
\<close>

section \<open>The page driver\<close>

record document =
  dc_status :: int
  dc_contentType :: "string option"

type_synonym ('s, 'a) page_op = "'s \<Rightarrow> 'a outcome \<times> nat \<times> 's"

text \<open>
  \<open>pg_documents\<close> are the navigation responses of the main frame that the page has reported so far.
  The wait of \<open>pg_waitForTimeout\<close> lasts at least the time it is given, the result says how much longer.
\<close>

record 's page =
  pg_goto :: "string \<Rightarrow> navigation_wait \<Rightarrow> ('s, document option) page_op"
  pg_waitForLoadState :: "navigation_wait \<Rightarrow> millis option \<Rightarrow> ('s, unit) page_op"
  pg_waitForSelector :: "string \<Rightarrow> element_state \<Rightarrow> ('s, unit) page_op"
  pg_waitForTimeout :: "millis \<Rightarrow> ('s, unit) page_op"
  pg_stability :: "stability_settings \<Rightarrow> ('s, unit) page_op"
  pg_content :: "('s, string) page_op"
  pg_documents :: "'s \<Rightarrow> document list"
  pg_url :: "'s \<Rightarrow> string"

type_synonym 's timed = "'s \<times> millis"

definition spend :: "('s, 'a) page_op \<Rightarrow> 's timed \<Rightarrow> 'a outcome \<times> 's timed" where
  "spend op w = (case op (fst w) of (r, d, s) \<Rightarrow> (r, (s, snd w + int d)))"

definition sleep_for :: "'s page \<Rightarrow> millis \<Rightarrow> 's timed \<Rightarrow> unit outcome \<times> 's timed" where
  "sleep_for pg ms w = (case pg_waitForTimeout pg ms (fst w) of (r, d, s) \<Rightarrow> (r, (s, snd w + max 0 ms + int d)))"

text \<open>The rest of a body after an operation that may throw.\<close>

definition then_do :: "'a outcome \<times> 'w \<Rightarrow> ('a \<Rightarrow> 'w \<Rightarrow> 'b outcome \<times> 'w) \<Rightarrow> 'b outcome \<times> 'w" where
  "then_do r f = (case r of (Inl e, w) \<Rightarrow> (Inl e, w) | (Inr x, w) \<Rightarrow> f x w)"

lemma then_do_simps [simp]:
  "then_do (Inl e, w) f = (Inl e, w)" "then_do (Inr x, w) f = f x w"
  by (simp_all add: then_do_def)

lemma then_do_Inr_iff: "then_do r f = (Inr y, w') \<longleftrightarrow> (\<exists>x w. r = (Inr x, w) \<and> f x w = (Inr y, w'))"
  by (cases r; cases "fst r") auto

section \<open>Waiting out a challenge\<close>

record challenge_observation =
  co_html :: string
  co_waitedMs :: millis
  co_resolved :: bool

lemma sleep_for_clock: "sleep_for pg ms w = (r, w1) \<Longrightarrow> snd w + max 0 ms \<le> snd w1"
  by (auto simp: sleep_for_def split: prod.splits)

lemma spend_clock: "spend op w = (r, w1) \<Longrightarrow> snd w \<le> snd w1"
  by (auto simp: spend_def split: prod.splits)

function observe_loop ::
  "'s page \<Rightarrow> millis \<Rightarrow> millis \<Rightarrow> string \<Rightarrow> 's timed \<Rightarrow> challenge_observation outcome \<times> 's timed" where
  "observe_loop pg started maxWaitMs html w =
     (if \<not> snd w - started < maxWaitMs
      then (Inr \<lparr>co_html = html, co_waitedMs = snd w - started, co_resolved = False\<rparr>, w)
      else (case sleep_for pg (min 500 (maxWaitMs - (snd w - started))) w of
          (Inl e, w1) \<Rightarrow> (Inl e, w1)
        | (Inr _, w1) \<Rightarrow>
            (case spend (pg_content pg) w1 of
               (Inl e, w2) \<Rightarrow> (Inl e, w2)
             | (Inr h, w2) \<Rightarrow>
                 if \<not> hasAccessChallenge h
                 then (Inr \<lparr>co_html = h, co_waitedMs = snd w2 - started, co_resolved = True\<rparr>, w2)
                 else observe_loop pg started maxWaitMs h w2)))"
  by pat_completeness auto

termination
  by (relation "measure (\<lambda>(pg, started, maxWaitMs, html, w). nat (maxWaitMs - (snd w - started)))")
     (auto dest!: sleep_for_clock [OF sym] spend_clock [OF sym])

declare observe_loop.simps [simp del]

definition observeChallengeResolution ::
  "'s page \<Rightarrow> string \<Rightarrow> millis \<Rightarrow> 's timed \<Rightarrow> challenge_observation outcome \<times> 's timed" where
  "observeChallengeResolution pg initialHtml maxWaitMs w =
     (if \<not> hasAccessChallenge initialHtml \<or> maxWaitMs \<le> 0
      then (Inr \<lparr>co_html = initialHtml, co_waitedMs = 0, co_resolved = True\<rparr>, w)
      else observe_loop pg (snd w) maxWaitMs initialHtml w)"

text \<open>Waiting out a challenge ends after the time it was given, whatever the page does, apart from what the last
  operations take: it reports a resolved challenge exactly with a page that shows none (or when there
  was no time to wait), and an unresolved one only after the whole time had passed.\<close>

theorem challenge_waited_out:
  assumes "observeChallengeResolution pg html maxWaitMs w = (Inr c, w')" and "0 < maxWaitMs"
  shows "(co_resolved c \<longleftrightarrow> \<not> hasAccessChallenge (co_html c)) \<and>
    (\<not> co_resolved c \<longrightarrow> maxWaitMs \<le> co_waitedMs c) \<and> 0 \<le> co_waitedMs c \<and> snd w' = snd w + co_waitedMs c"
proof -
  have loop: "(co_resolved c \<longleftrightarrow> \<not> hasAccessChallenge (co_html c)) \<and> (\<not> co_resolved c \<longrightarrow> maxWaitMs \<le> co_waitedMs c) \<and>
      snd w' = started + co_waitedMs c"
    if "observe_loop pg started maxWaitMs html w = (Inr c, w')" and "hasAccessChallenge html" for started html w
    using that
  proof (induction pg started maxWaitMs html w rule: observe_loop.induct)
    case (1 pg started maxWaitMs html w)
    from 1(1,3) 1(2) [unfolded observe_loop.simps [of pg started maxWaitMs html w]] show ?case
      by (auto split: if_splits prod.splits sum.splits)
  qed
  have clock: "snd w \<le> snd w'" if "observe_loop pg started maxWaitMs html w = (r, w')" for started html w r
    using that
  proof (induction pg started maxWaitMs html w rule: observe_loop.induct)
    case (1 pg started maxWaitMs html w)
    from 1(1) 1(2) [unfolded observe_loop.simps [of pg started maxWaitMs html w]] show ?case
      by (fastforce split: if_splits prod.splits sum.splits dest: sleep_for_clock spend_clock)
  qed
  show ?thesis
  proof (cases "hasAccessChallenge html")
    case True
    with assms have l: "observe_loop pg (snd w) maxWaitMs html w = (Inr c, w')" by (simp add: observeChallengeResolution_def)
    from loop [OF l True] clock [OF l] show ?thesis by linarith
  qed (use assms in \<open>auto simp: observeChallengeResolution_def\<close>)
qed

section \<open>Waiting for the page\<close>

definition waitForBrowserReadiness ::
  "'s page \<Rightarrow> browser_wait \<Rightarrow> millis option \<Rightarrow> 's timed \<Rightarrow> unit outcome \<times> 's timed" where
  "waitForBrowserReadiness pg wait minimumObservationMs w =
     (case wait of
        BwDomContentLoaded \<Rightarrow> spend (pg_waitForLoadState pg WaitDomContentLoaded None) w
      | BwLoad \<Rightarrow> spend (pg_waitForLoadState pg WaitLoad None) w
      | BwNetworkIdle timeoutMs \<Rightarrow> spend (pg_waitForLoadState pg WaitNetworkIdle timeoutMs) w
      | BwSelector selector state \<Rightarrow> spend (pg_waitForSelector pg selector (or_default state Visible)) w
      | BwDelay ms \<Rightarrow> sleep_for pg ms w
      | BwStability quietMs timeoutMs \<Rightarrow> spend (pg_stability pg (stability_settings quietMs timeoutMs minimumObservationMs)) w)"

definition renderWait :: "config \<Rightarrow> fetch_input \<Rightarrow> bool \<Rightarrow> browser_wait option" where
  "renderWait cfg inp defaultStability =
     (case in_wait inp of
        Some wait \<Rightarrow> Some wait
      | None \<Rightarrow>
          if in_waitUntil inp \<noteq> None \<or> \<not> defaultStability then None
          else (let budget = timeout cfg (in_timeoutMs inp) in
                Some (BwStability (Some (min 600 budget)) (Some (min 4000 budget)))))"

fun wait_name :: "browser_wait \<Rightarrow> string" where
  "wait_name BwDomContentLoaded = ''domcontentloaded''"
| "wait_name BwLoad = ''load''"
| "wait_name (BwNetworkIdle t) = ''networkidle''"
| "wait_name (BwSelector s st) = ''selector''"
| "wait_name (BwDelay ms) = ''delay''"
| "wait_name (BwStability q t) = ''stability''"

section \<open>The browser stage\<close>

record browser_lease =
  bl_reusedWorker :: bool
  bl_acquireMs :: millis

text \<open>A \<open>FetchResult\<close> without its strategy, attempts and fetch time.\<close>

record rendered =
  rd_sourceUrl :: string
  rd_status :: int
  rd_finalUrl :: string
  rd_contentType :: string
  rd_html :: string
  rd_browserMs :: millis
  rd_networkBytes :: nat
  rd_execution :: execution_report

text \<open>The response listener keeps the status of the last navigation, and its content type if it has one.\<close>

definition see_documents :: "document list \<Rightarrow> int \<times> string \<Rightarrow> int \<times> string" where
  "see_documents ds st = fold (\<lambda>d (_, t). (dc_status d, or_default (dc_contentType d) t)) ds st"

fun string_le :: "string \<Rightarrow> string \<Rightarrow> bool" where
  "string_le [] t = True"
| "string_le (c # s) [] = False"
| "string_le (c # s) (d # t) =
     (if c = d then string_le s t else (of_char c :: nat) < of_char d)"

definition no_configuration :: backend_configuration where
  "no_configuration = \<lparr>bc_fingerprintArgs = None, bc_humanize = None, bc_humanPreset = None, bc_humanConfigKeys = None,
     bc_camoufox = None\<rparr>"

definition backend_configuration_of :: "string \<Rightarrow> backend \<Rightarrow> backend_options option \<Rightarrow> backend_configuration option" where
  "backend_configuration_of platform_name b options =
     (case b of
        CloakBrowser \<Rightarrow> Some (no_configuration\<lparr>
          bc_fingerprintArgs := Some (or_default (Option.bind options fingerprintArgs) []),
          bc_humanize := Some (or_default (Option.bind options humanize) True),
          bc_humanPreset := Option.bind options humanPreset,
          bc_humanConfigKeys := Some (sort_le string_le (map fst (or_default (Option.bind options humanConfig) [])))\<rparr>)
      | Camoufox \<Rightarrow> Some (no_configuration\<lparr>bc_camoufox := Some (resolvedCamoufoxOptions platform_name options)\<rparr>)
      | Clearcote \<Rightarrow> Some (no_configuration\<lparr>
          bc_fingerprintArgs := Some (or_default (Option.bind options fingerprintArgs) [])\<rparr>)
      | _ \<Rightarrow> None)"

definition settled_detail :: "challenge_observation \<Rightarrow> browser_wait option \<Rightarrow> string" where
  "settled_detail c wait =
     (if co_waitedMs c > 0
      then (if co_resolved c then ''challenge-resolved-passively'' else ''challenge-observation-expired'')
      else (case wait of Some x \<Rightarrow> wait_name x | None \<Rightarrow> ''no-post-navigation-wait''))"

text \<open>What the pipeline is given: configuration, parsers, the pool and the network.\<close>

type_synonym 's with_context =
  "viewport option \<Rightarrow> stored_proxy option \<Rightarrow> (browser_lease \<Rightarrow> 's timed \<Rightarrow> rendered outcome \<times> 's timed) \<Rightarrow>
   backend \<Rightarrow> backend_options option \<Rightarrow> 's timed \<Rightarrow> rendered outcome \<times> 's timed"

record 's fetch_env =
  fe_config :: config
  fe_parsers :: parsers
  fe_resolver :: "nat \<Rightarrow> resolver"
  fe_renderResolver :: "backend \<Rightarrow> resolver"
  fe_network :: "'s timed network"
  fe_utf8 :: "byte_list \<Rightarrow> string"
  fe_showNumber :: "rat \<Rightarrow> string"
  fe_httpClock :: "millis \<times> millis \<times> millis"
  fe_load :: html_parser
  fe_platform :: string
  fe_page :: "'s page"
  fe_withContext :: "'s with_context"
  fe_admission :: "'s timed admission_check"

definition plain_event :: "millis \<Rightarrow> timeline_event \<Rightarrow> timeline_entry" where
  "plain_event ms event = \<lparr>tl_atMs = ms, tl_event = event, tl_detail = None\<rparr>"

definition detailed_event :: "millis \<Rightarrow> timeline_event \<Rightarrow> string \<Rightarrow> timeline_entry" where
  "detailed_event ms event detail = \<lparr>tl_atMs = ms, tl_event = event, tl_detail = Some detail\<rparr>"

text \<open>The callback given to \<open>withContext\<close>.\<close>

definition render_page ::
  "'s fetch_env \<Rightarrow> fetch_input \<Rightarrow> bool \<Rightarrow> backend \<Rightarrow> millis \<Rightarrow> browser_lease \<Rightarrow> 's timed \<Rightarrow> rendered outcome \<times> 's timed" where
  "render_page E inp defaultStability b started lease w =
     (let cfg = fe_config E; pg = fe_page E; parse = parse_absolute (fe_parsers E);
          acquired = detailed_event (snd w - started) EvBrowserAcquired
                       (if bl_reusedWorker lease then ''warm-worker'' else ''new-worker'')
      in then_do (spend (pg_goto pg (in_url inp) (or_default (in_waitUntil inp) WaitDomContentLoaded)) w) (\<lambda>response w1.
        let seen = see_documents (pg_documents pg (fst w1)) (200, ''text/html'');
            first = (case response of Some d \<Rightarrow> (dc_status d, or_default (dc_contentType d) (snd seen)) | None \<Rightarrow> seen);
            navigationMs = snd w1 - snd w;
            loaded = plain_event (snd w1 - started) EvDomContentLoaded;
            wait = renderWait cfg inp defaultStability;
            observation = (if in_wait inp = None \<and> in_waitUntil inp = None \<and> defaultStability then 1500 else 0)
        in then_do (case wait of Some x \<Rightarrow> waitForBrowserReadiness pg x (Some observation) w1 | None \<Rightarrow> (Inr (), w1)) (\<lambda>_ w2.
          then_do (spend (pg_content pg) w2) (\<lambda>html0 w3.
            let budget = min 8000 (max 0 (timeout cfg (in_timeoutMs inp) - navigationMs - (snd w3 - snd w1)))
            in then_do (observeChallengeResolution pg html0 budget w3) (\<lambda>c w4.
              let html = co_html c;
                  settled = detailed_event (snd w4 - started) EvDomSettled (settled_detail c wait);
                  answer = see_documents (drop (length (pg_documents pg (fst w1))) (pg_documents pg (fst w4))) first;
                  challenged = hasAccessChallenge html
              in (res_bind (normalizeUrl parse (pg_url pg (fst w4))) (\<lambda>final.
                  res_bind (normalizeUrl parse (in_url inp)) (\<lambda>source.
                  Inr \<lparr>rd_sourceUrl = source, rd_status = fst answer, rd_finalUrl = final, rd_contentType = snd answer,
                       rd_html = html, rd_browserMs = snd w4 - started, rd_networkBytes = utf8_length html,
                       rd_execution = \<lparr>
                         ex_plan = planExecution cfg (fe_showNumber E) inp no_options, ex_escalationReason = None,
                         ex_backendAttempts = [b], ex_selectedBackend = Some b, ex_backendDecisionReason = None,
                         ex_backendConfiguration = backend_configuration_of (fe_platform E) b (in_browserOptions inp),
                         ex_challengeDetected = (if challenged then Some True else None),
                         ex_challengeRemaining = (if challenged then Some True else None),
                         ex_timings = \<lparr>t_httpMs = 0, t_browserAcquireMs = bl_acquireMs lease, t_navigationMs = navigationMs,
                                       t_settleMs = snd w4 - snd w1, t_extractionMs = 0, t_browserMs = snd w4 - started\<rparr>,
                         ex_strategyRequested = or_default (in_strategy inp) Auto, ex_strategyUsed = StageBrowser,
                         ex_escalated = False, ex_analysis = None,
                         ex_timeline = [plain_event 0 EvAccepted, acquired, loaded, settled]\<rparr>\<rparr>)), w4))))))"

definition render_error :: "config \<Rightarrow> fetch_input \<Rightarrow> js_error \<Rightarrow> js_error" where
  "render_error cfg inp e =
     (case e of
        OpenBrowseError _ \<Rightarrow> e
      | JsError m \<Rightarrow>
          if rx_test (lit_i ''Timeout'') m
          then ob_err ''TARGET_TIMEOUT'' (''Target did not complete within '' @ show_int (timeout cfg (in_timeoutMs inp)) @ ''ms'') 408 True
          else ob_err ''RENDER_FAILED'' ''Browser rendering failed'' 422 True)"

definition browserFetch :: "'s fetch_env \<Rightarrow> fetch_input \<Rightarrow> bool \<Rightarrow> 's timed \<Rightarrow> rendered outcome \<times> 's timed" where
  "browserFetch E inp defaultStability w =
     (let cfg = fe_config E; b = or_default (in_browserBackend inp) (defaultBrowserBackend cfg) in
      case assertSafeUrl (parse_absolute (fe_parsers E)) (fe_renderResolver E b) (in_url inp) (proxy_domains inp) of
        Inl e \<Rightarrow> (Inl e, w)
      | Inr _ \<Rightarrow>
          (case fe_withContext E (in_viewport inp) (in_proxy inp) (render_page E inp defaultStability b (snd w)) b
                  (in_browserOptions inp) w of
             (Inr r, w1) \<Rightarrow> (Inr r, w1)
           | (Inl e, w1) \<Rightarrow> (Inl (render_error cfg inp e), w1)))"

section \<open>The challenge fallback around it\<close>

definition browserBackend :: "backend \<Rightarrow> backend outcome" where
  "browserBackend b = res_bind (browserBackendCapability b) (\<lambda>_. Inr b)"

definition render_attempt :: "'s fetch_env \<Rightarrow> fetch_input \<Rightarrow> bool \<Rightarrow> (rendered, 's timed) attempt" where
  "render_attempt E inp defaultStability b options w =
     then_do (browserBackend b, w) (\<lambda>_ w.
       then_do (browserFetch E (inp\<lparr>in_browserBackend := Some b, in_browserOptions := fallback_options inp b\<rparr>)
                  defaultStability w) (\<lambda>r w1.
         (Inr (r, ex_challengeDetected (rd_execution r) = Some True), w1)))"

definition renderWithChallengeFallback ::
  "'s fetch_env \<Rightarrow> fetch_input \<Rightarrow> backend_decision \<Rightarrow> bool \<Rightarrow> 's timed \<Rightarrow> rendered outcome \<times> 's timed" where
  "renderWithChallengeFallback E inp decision defaultStability w =
     then_do (runChallengeFallback (fe_config E) (fe_admission E) (render_attempt E inp defaultStability) inp
                (bd_selected decision) None w) (\<lambda>fb w1.
       let r = fb_value fb in
       (Inr (r\<lparr>rd_execution := (rd_execution r)\<lparr>ex_backendAttempts := fb_backendAttempts fb,
                 ex_selectedBackend := Some (fb_selectedBackend fb),
                 ex_challengeRemaining := Some (fb_challengeRemaining fb)\<rparr>\<rparr>), w1))"

section \<open>The adaptive fetch\<close>

fun decision_reason_id :: "decision_reason \<Rightarrow> string" where
  "decision_reason_id RequestedSupportedBackend = ''requested-supported-backend''"
| "decision_reason_id DefaultCompatibleBackend = ''default-compatible-backend''"
| "decision_reason_id ChallengeFallback = ''challenge-fallback''"

definition decision_reason_for :: "rendered \<Rightarrow> backend_decision \<Rightarrow> decision_reason" where
  "decision_reason_for r decision =
     (if ex_selectedBackend (rd_execution r) = Some (bd_selected decision) then bd_reason decision else ChallengeFallback)"

definition browser_result :: "rendered \<Rightarrow> stage list \<Rightarrow> millis \<Rightarrow> execution_report \<Rightarrow> fetch_result" where
  "browser_result r attempted fetchMs report =
     \<lparr>fr_sourceUrl = rd_sourceUrl r, fr_status = rd_status r, fr_finalUrl = rd_finalUrl r, fr_strategy = StageBrowser,
      fr_attempted = attempted, fr_contentType = rd_contentType r, fr_html = Some (rd_html r), fr_fetchMs = fetchMs,
      fr_browserMs = rd_browserMs r, fr_networkBytes = rd_networkBytes r, fr_execution = report\<rparr>"

definition http_result_of :: "http_result \<Rightarrow> execution_report \<Rightarrow> fetch_result" where
  "http_result_of h report =
     \<lparr>fr_sourceUrl = hr_sourceUrl h, fr_status = hr_status h, fr_finalUrl = hr_finalUrl h, fr_strategy = StageHttp,
      fr_attempted = [StageHttp], fr_contentType = hr_contentType h, fr_html = hr_html h, fr_fetchMs = hr_fetchMs h,
      fr_browserMs = 0, fr_networkBytes = hr_networkBytes h, fr_execution = report\<rparr>"

definition html_challenged :: "string option \<Rightarrow> bool" where
  "html_challenged html \<longleftrightarrow> (case html of Some t \<Rightarrow> t \<noteq> [] \<and> hasAccessChallenge t | None \<Rightarrow> False)"

definition challenged_analysis :: "client_render_analysis \<Rightarrow> client_render_analysis" where
  "challenged_analysis a =
     a\<lparr>an_browserRecommended := True, an_reason := ClientRenderedShell, an_signals := an_signals a @ [''access-challenge'']\<rparr>"

text \<open>The strategy \<open>browser\<close>.\<close>

definition explicit_browser ::
  "'s fetch_env \<Rightarrow> fetch_input \<Rightarrow> execution_plan \<Rightarrow> 's timed \<Rightarrow> fetch_result outcome \<times> 's timed" where
  "explicit_browser E inp plan w =
     then_do (selectBrowserBackend (fe_config E) inp, w) (\<lambda>decision w.
       then_do (renderWithChallengeFallback E inp decision False w) (\<lambda>r w1.
         (Inr (browser_result r [StageBrowser] 0 ((rd_execution r)\<lparr>ex_plan := plan,
                 ex_backendDecisionReason := Some (decision_reason_for r decision),
                 ex_strategyRequested := BrowserOnly, ex_strategyUsed := StageBrowser\<rparr>)), w1)))"

text \<open>The browser stage after an HTTP stage that asks for it.\<close>

definition escalate ::
  "'s fetch_env \<Rightarrow> fetch_input \<Rightarrow> http_result \<Rightarrow> client_render_analysis \<Rightarrow> execution_plan \<Rightarrow> timeline_entry list \<Rightarrow>
   's timed \<Rightarrow> fetch_result outcome \<times> 's timed" where
  "escalate E inp http a resolved httpTimeline w =
     then_do (selectBrowserBackend (fe_config E) inp, w) (\<lambda>decision w.
       let timeline = httpTimeline
             @ [detailed_event (hr_fetchMs http) EvBrowserRequired (planner_reason_id (an_reason a)),
                detailed_event (hr_fetchMs http) EvBackendSelected
                  (backend_id (bd_selected decision) @ '':'' @ decision_reason_id (bd_reason decision))]
       in then_do (renderWithChallengeFallback E inp decision True w) (\<lambda>r w1.
         let report = rd_execution r in
         (Inr (browser_result r [StageHttp, StageBrowser] (hr_fetchMs http)
            (report\<lparr>ex_plan := resolved, ex_escalationReason := Some ClientRenderedShell,
               ex_backendDecisionReason := Some (decision_reason_for r decision),
               ex_timings := (ex_timings report)\<lparr>t_httpMs := hr_fetchMs http\<rparr>,
               ex_strategyRequested := or_default (in_strategy inp) Auto, ex_strategyUsed := StageBrowser,
               ex_escalated := True, ex_analysis := Some a,
               ex_timeline := timeline
                 @ map (\<lambda>e. e\<lparr>tl_atMs := tl_atMs e + hr_fetchMs http\<rparr>)
                     (filter (\<lambda>e. tl_event e \<noteq> EvAccepted) (ex_timeline report))\<rparr>)), w1)))"

definition page_analysis :: "'s fetch_env \<Rightarrow> http_result \<Rightarrow> client_render_analysis" where
  "page_analysis E http =
     (let initial = analyzeClientRendering (fe_load E) (hr_html http) (hr_status http) (hr_contentType http) in
      if html_challenged (hr_html http) then challenged_analysis initial else initial)"

definition http_timeline :: "http_result \<Rightarrow> client_render_analysis \<Rightarrow> timeline_entry list" where
  "http_timeline http a =
     [plain_event 0 EvAccepted, plain_event 0 EvHttpStarted,
      detailed_event (hr_fetchMs http) EvHttpCompleted (''status:'' @ show_int (hr_status http)),
      detailed_event (hr_fetchMs http) EvContentAnalyzed (planner_reason_id (an_reason a))]"

text \<open>The HTTP stage is the answer.\<close>

definition http_answer :: "http_result \<Rightarrow> strategy \<Rightarrow> client_render_analysis \<Rightarrow> execution_plan \<Rightarrow> fetch_result" where
  "http_answer http strategy a resolved =
     (let report = (hr_execution http)\<lparr>ex_plan := resolved, ex_strategyRequested := strategy, ex_strategyUsed := StageHttp,
                      ex_escalated := False, ex_analysis := Some a, ex_timeline := http_timeline http a\<rparr>
      in http_result_of http
           (if html_challenged (hr_html http)
            then report\<lparr>ex_challengeDetected := Some True, ex_challengeRemaining := Some True\<rparr> else report))"

text \<open>The part after the HTTP stage.\<close>

definition after_http ::
  "'s fetch_env \<Rightarrow> fetch_input \<Rightarrow> execution_plan \<Rightarrow> http_result \<Rightarrow> observation_store \<Rightarrow> 's timed \<Rightarrow>
   fetch_result outcome \<times> observation_store \<times> 's timed" where
  "after_http E inp plan http obs w =
     (let strategy = or_default (in_strategy inp) Auto; a = page_analysis E http in
      case record_observation (parse_absolute (fe_parsers E)) (in_url inp) a (snd w) obs of
        Inl e \<Rightarrow> (Inl e, obs, w)
      | Inr obs1 \<Rightarrow>
          (let resolved = (if strategy = HttpOnly then plan else resolvedPlan plan a) in
           if strategy = HttpOnly \<or> (\<not> an_browserRecommended a \<and> \<not> html_challenged (hr_html http))
           then (Inr (http_answer http strategy a resolved), obs1, w)
           else (case escalate E inp http a resolved (http_timeline http a) w of (r, w1) \<Rightarrow> (r, obs1, w1))))"

definition adaptiveFetch ::
  "'s fetch_env \<Rightarrow> fetch_input \<Rightarrow> observation_store \<Rightarrow> 's timed \<Rightarrow>
   fetch_result outcome \<times> observation_store \<times> 's timed" where
  "adaptiveFetch E inp obs w =
     (case observation_get (parse_absolute (fe_parsers E)) (in_url inp) (snd w) obs of
        Inl e \<Rightarrow> (Inl e, obs, w)
      | Inr (seen, obs1) \<Rightarrow>
          (let plan = planExecution (fe_config E) (fe_showNumber E) inp (no_options\<lparr>po_domainObservation := seen\<rparr>) in
           if or_default (in_strategy inp) Auto = BrowserOnly
           then (case explicit_browser E inp plan w of (r, w1) \<Rightarrow> (r, obs1, w1))
           else (case httpFetch (fe_config E) (fe_parsers E) (fe_resolver E) (fe_network E) (fe_utf8 E) (fe_showNumber E)
                        (fe_httpClock E) inp w of
                   (Inl e, w1) \<Rightarrow> (Inl e, obs1, w1)
                 | (Inr http, w1) \<Rightarrow> after_http E inp plan http obs1 w1)))"

end
