(* ===== verification/OB_Extract.thy ===== *)
theory OB_Extract
  imports OB_Article OB_Content OB_Pool
begin

text \<open>
  The outputs of a fetch, the selector extraction and the health of the backends, from
  \<open>src/src/execution/content.ts\<close>.
\<close>

section \<open>Outputs\<close>

record transformed =
  tf_html :: "string option"
  tf_text :: "string option"
  tf_markdown :: "string option"
  tf_links :: "string list option"
  tf_metadata :: "article_metadata option"
  tf_article :: "article_result option"
  tf_provenance :: "evidence_record list option"

definition no_outputs :: transformed where
  "no_outputs = \<lparr>tf_html = None, tf_text = None, tf_markdown = None, tf_links = None, tf_metadata = None,
     tf_article = None, tf_provenance = None\<rparr>"

definition needs_article :: "output_kind list \<Rightarrow> bool" where
  "needs_article outputs \<longleftrightarrow>
     list_ex (\<lambda>out. out \<in> {OutText, OutMarkdown, OutMetadata, OutArticle, OutProvenance}) outputs"

definition page_links :: "(string \<Rightarrow> string \<Rightarrow> url option) \<Rightarrow> string \<Rightarrow> dom list \<Rightarrow> string list" where
  "page_links resolve finalUrl doc =
     concat (map (\<lambda>d. case resolve (attr_or_empty ''href'' d) finalUrl of Some u \<Rightarrow> [url_href u] | None \<Rightarrow> [])
       (select (\<lambda>d. named ''a'' d \<and> dom_attr ''href'' d \<noteq> None) doc))"

definition last_event_at :: "timeline_entry list \<Rightarrow> millis" where
  "last_event_at events = (if events = [] then 0 else tl_atMs (last events))"

definition record_extraction :: "millis \<Rightarrow> fetch_result \<Rightarrow> fetch_result" where
  "record_extraction elapsed r =
     (let report = fr_execution r in
      r\<lparr>fr_execution := report
          \<lparr>ex_timings := (ex_timings report)\<lparr>t_extractionMs := elapsed\<rparr>,
           ex_timeline := ex_timeline report
             @ [plain_event (last_event_at (ex_timeline report) + elapsed) EvExtractionComplete]\<rparr>\<rparr>)"

text \<open>\<open>elapsed\<close> is the time the extraction takes. A result without a page yields no output and no event.\<close>

definition transform ::
  "extractors \<Rightarrow> string \<Rightarrow> millis \<Rightarrow> fetch_result \<Rightarrow> output_kind list \<Rightarrow> transformed \<times> fetch_result" where
  "transform X extractedAt elapsed r outputs =
     (case fr_html r of
        None \<Rightarrow> (no_outputs, r)
      | Some [] \<Rightarrow> (no_outputs, r)
      | Some html \<Rightarrow>
          (let wants = (\<lambda>out. out \<in> set outputs);
               article = (if needs_article outputs
                          then Some (extractArticle X extractedAt html (fr_sourceUrl r) (fr_finalUrl r) (fr_strategy r)
                                       (ex_selectedBackend (fr_execution r)))
                          else None);
               readable = (if wants OutMarkdown \<or> wants OutLinks
                           then fst (readableContentHtml (xt_cheerio X) html) else [])
           in (no_outputs
                 \<lparr>tf_html := (if wants OutHtml then Some html else None),
                  tf_text := (if wants OutText then Some (case article of Some a \<Rightarrow> ar_text a | None \<Rightarrow> []) else None),
                  tf_markdown := (if wants OutMarkdown then Some (case article of Some a \<Rightarrow> ar_markdown a | None \<Rightarrow> []) else None),
                  tf_metadata := (if wants OutMetadata then map_option ar_metadata article else None),
                  tf_article := (if wants OutArticle then article else None),
                  tf_provenance := (if wants OutProvenance
                                    then Some (case article of Some a \<Rightarrow> ar_evidence a | None \<Rightarrow> []) else None),
                  tf_links := (if wants OutLinks
                               then Some (page_links (xt_resolve X) (fr_finalUrl r) (html_load (xt_cheerio X) readable))
                               else None)\<rparr>,
               record_extraction elapsed r)))"

text \<open>Every output that was asked for is there, no other one is, and the timeline ends with the extraction.\<close>

lemma wants_needs:
  "out \<in> set outputs \<Longrightarrow> out \<in> {OutText, OutMarkdown, OutMetadata, OutArticle, OutProvenance} \<Longrightarrow> needs_article outputs"
  by (auto simp: needs_article_def list_ex_iff)

lemma transform_outputs:
  assumes "transform X extractedAt elapsed r outputs = (t, r')" and "fr_html r = Some html" and "html \<noteq> []"
  shows "(tf_html t = (if OutHtml \<in> set outputs then Some html else None)) \<and>
    (tf_text t \<noteq> None \<longleftrightarrow> OutText \<in> set outputs) \<and> (tf_markdown t \<noteq> None \<longleftrightarrow> OutMarkdown \<in> set outputs) \<and>
    (tf_links t \<noteq> None \<longleftrightarrow> OutLinks \<in> set outputs) \<and> (tf_metadata t \<noteq> None \<longleftrightarrow> OutMetadata \<in> set outputs) \<and>
    (tf_article t \<noteq> None \<longleftrightarrow> OutArticle \<in> set outputs) \<and> (tf_provenance t \<noteq> None \<longleftrightarrow> OutProvenance \<in> set outputs) \<and>
    r' = record_extraction elapsed r"
proof -
  have needs: "OutMetadata \<in> set outputs \<Longrightarrow> needs_article outputs" "OutArticle \<in> set outputs \<Longrightarrow> needs_article outputs"
    by (auto intro: wants_needs)
  have "t = fst (transform X extractedAt elapsed r outputs)" "r' = snd (transform X extractedAt elapsed r outputs)"
    using assms(1) by simp_all
  with needs assms(2,3) show ?thesis
    by (cases html) (simp_all add: transform_def Let_def no_outputs_def split del: if_split, simp split: if_splits)
qed

section \<open>Selectors\<close>

datatype rule_kind = RuleText | RuleHtml | RuleAttribute

record extract_rule =
  xr_selector :: string
  xr_kind :: rule_kind
  xr_attribute :: "string option"
  xr_all :: bool

text \<open>\<open>query\<close> evaluates a CSS selector, and fails on one that is no selector; \<open>inner\<close> is \<open>.html()\<close>.\<close>

definition rule_value ::
  "(dom \<Rightarrow> string) \<Rightarrow> (string \<Rightarrow> string \<Rightarrow> url option) \<Rightarrow> string \<Rightarrow> extract_rule \<Rightarrow> dom \<Rightarrow> string" where
  "rule_value inner resolve finalUrl rule d =
     (let v = (case xr_kind rule of
                 RuleText \<Rightarrow> trim (dom_text d)
               | RuleHtml \<Rightarrow> inner d
               | RuleAttribute \<Rightarrow> attr_or_empty (or_default (xr_attribute rule) []) d)
      in if xr_kind rule = RuleAttribute \<and> xr_attribute rule = Some ''href''
         then (case resolve v finalUrl of Some u \<Rightarrow> url_href u | None \<Rightarrow> v)
         else v)"

definition rule_result :: "bool \<Rightarrow> string list \<Rightarrow> jsval" where
  "rule_result every answers =
     (if every then JArr (map JStr answers) else (case answers of [] \<Rightarrow> JNull | v # _ \<Rightarrow> JStr v))"

definition invalid_selector :: "string \<Rightarrow> js_error" where
  "invalid_selector name = ob_err ''INVALID_REQUEST'' (''Invalid selector for '' @ [CHR 0x27] @ name @ [CHR 0x27]) 400 False"

fun extract_rules ::
  "(string \<Rightarrow> dom list option) \<Rightarrow> (dom \<Rightarrow> string) \<Rightarrow> (string \<Rightarrow> string \<Rightarrow> url option) \<Rightarrow> string \<Rightarrow>
   (string \<times> extract_rule) list \<Rightarrow> (string \<times> jsval) list outcome" where
  "extract_rules query inner resolve finalUrl [] = Inr []"
| "extract_rules query inner resolve finalUrl ((name, rule) # rest) =
     (case query (xr_selector rule) of
        None \<Rightarrow> Inl (invalid_selector name)
      | Some nodes \<Rightarrow>
          res_bind (extract_rules query inner resolve finalUrl rest) (\<lambda>answers.
            Inr ((name, rule_result (xr_all rule) (map (rule_value inner resolve finalUrl rule) nodes)) # answers)))"

definition extract_data ::
  "cheerio \<Rightarrow> (dom list \<Rightarrow> string \<Rightarrow> dom list option) \<Rightarrow> (dom \<Rightarrow> string) \<Rightarrow> (string \<Rightarrow> string \<Rightarrow> url option) \<Rightarrow>
   string \<Rightarrow> string \<Rightarrow> (string \<times> extract_rule) list \<Rightarrow> (string \<times> jsval) list outcome" where
  "extract_data K query inner resolve html finalUrl selectors =
     extract_rules (query (html_load K html)) inner resolve finalUrl selectors"

text \<open>Either every selector is evaluated, or the first one that fails is named.\<close>

definition rule_answer ::
  "(string \<Rightarrow> dom list option) \<Rightarrow> (dom \<Rightarrow> string) \<Rightarrow> (string \<Rightarrow> string \<Rightarrow> url option) \<Rightarrow> string \<Rightarrow> extract_rule \<Rightarrow> jsval" where
  "rule_answer query inner resolve finalUrl rule =
     rule_result (xr_all rule) (map (rule_value inner resolve finalUrl rule) (or_default (query (xr_selector rule)) []))"

lemma extract_rules_eq:
  "extract_rules query inner resolve finalUrl rules =
     (case find (\<lambda>(_, rule). query (xr_selector rule) = None) rules of
        Some (name, _) \<Rightarrow> Inl (invalid_selector name)
      | None \<Rightarrow> Inr (map (\<lambda>(name, rule). (name, rule_answer query inner resolve finalUrl rule)) rules))"
proof (induction rules)
  case (Cons r rules)
  obtain name rule where r: "r = (name, rule)" by (cases r)
  from Cons show ?case
    by (cases "query (xr_selector rule)") (auto simp: r rule_answer_def or_default_def split: option.splits)
qed simp

text \<open>Selector extraction fails with INVALID_REQUEST for the first name whose selector is invalid; otherwise the
  answer has the requested names in their order, each with the list of all values, or with the first value
  or null.\<close>

theorem extract_data_complete:
  "extract_data K query inner resolve html finalUrl selectors =
     (case find (\<lambda>(_, rule). query (html_load K html) (xr_selector rule) = None) selectors of
        Some (name, _) \<Rightarrow> Inl (invalid_selector name)
      | None \<Rightarrow> Inr (map (\<lambda>(name, rule).
          (name, rule_answer (query (html_load K html)) inner resolve finalUrl rule)) selectors))"
  by (simp add: extract_data_def extract_rules_eq)

section \<open>Health\<close>

datatype health_state = HealthHealthy | HealthDegraded | HealthUnavailable

record backend_health =
  hl_id :: backend
  hl_state :: health_state
  hl_processes :: int
  hl_capacity :: int
  hl_failures :: int
  hl_crashes :: int

definition backendHealth :: "config \<Rightarrow> pool \<Rightarrow> backend \<Rightarrow> backend_health" where
  "backendHealth cfg p b =
     (let stats = pool_stats cfg (Some b) p in
      \<lparr>hl_id = b,
       hl_state = (if ps_healthy stats > 0 \<or> ps_processes stats = 0 then HealthHealthy
                   else if ps_starting stats > 0 then HealthDegraded else HealthUnavailable),
       hl_processes = ps_processes stats, hl_capacity = ps_contextCapacity stats,
       hl_failures = ps_launchFailures stats, hl_crashes = ps_crashes stats\<rparr>)"

text \<open>A backend is reported as unavailable exactly when it has workers, none of which is healthy, and starts none.\<close>

lemma unavailable_iff:
  "hl_state (backendHealth cfg p b) = HealthUnavailable \<longleftrightarrow>
     (\<exists>w \<in> set (workers p). w_backend w = b) \<and>
     (\<forall>w \<in> set (workers p). w_backend w = b \<longrightarrow> w_state w \<noteq> Healthy) \<and> map_get_or 0 (pl_launchingBy p) b \<le> 0"
  by (auto simp: backendHealth_def pool_stats_def Let_def filter_empty_conv length_greater_0_conv)

end
