(* ===== verification/OB_Secrets.thy ===== *)
theory OB_Secrets
  imports OB_Url
begin

text \<open>
  The secret box of \<open>src/src/storage/crypto.ts\<close>: the textual envelope around AES-256-GCM. The
  cipher under the configured key, the random initialisation vector and the base64 codec are
  parameters: \<open>box_seal\<close> maps a vector and a text to the encoded tag and ciphertext, \<open>box_open\<close>
  is the authenticated decryption of encoded parts, \<open>None\<close> where it throws.
\<close>

record secret_box =
  box_seal :: "string \<Rightarrow> string \<Rightarrow> string \<times> string"
  box_open :: "string \<Rightarrow> string \<Rightarrow> string \<Rightarrow> string option"

definition encrypt :: "secret_box \<Rightarrow> string \<Rightarrow> string \<Rightarrow> string" where
  "encrypt B iv v = (case box_seal B iv v of (tag, ct) \<Rightarrow> ''v1:'' @ iv @ ''.'' @ tag @ ''.'' @ ct)"

definition malformed_secret :: js_error where
  "malformed_secret = ob_err ''INTERNAL_ERROR'' ''Stored encrypted secret is malformed'' 500 False"

definition decrypt :: "secret_box \<Rightarrow> string \<Rightarrow> string outcome" where
  "decrypt B s =
     (case split_on (CHR ''.'') (if starts_with s ''v1:'' then drop 3 s else s) of
        iv # tag # ct # _ \<Rightarrow>
          if iv = [] \<or> tag = [] \<or> ct = [] then Inl malformed_secret
          else (case box_open B iv tag ct of
                  Some v \<Rightarrow> Inr v
                | None \<Rightarrow> Inl (JsError ''Unsupported state or unable to authenticate data''))
      | _ \<Rightarrow> Inl malformed_secret)"

text \<open>
  Documented behaviour of the cipher and of base64: the parts contain no dot, the tag is not
  empty, the ciphertext is as long as the text, and opening the parts gives the text back.
\<close>

definition box_ok :: "secret_box \<Rightarrow> bool" where
  "box_ok B \<longleftrightarrow>
     (\<forall>iv v. case box_seal B iv v of (tag, ct) \<Rightarrow>
        CHR ''.'' \<notin> set tag \<and> CHR ''.'' \<notin> set ct \<and> tag \<noteq> [] \<and> (ct = [] \<longleftrightarrow> v = []) \<and>
        box_open B iv tag ct = Some v)"

definition iv_ok :: "string \<Rightarrow> bool" where
  "iv_ok iv \<longleftrightarrow> iv \<noteq> [] \<and> CHR ''.'' \<notin> set iv"

lemma decrypt_encrypt:
  assumes "box_ok B" and "iv_ok iv"
  shows "decrypt B (encrypt B iv v) = (if v = [] then Inl malformed_secret else Inr v)"
proof -
  obtain tag ct where s: "box_seal B iv v = (tag, ct)" by fastforce
  have ok: "CHR ''.'' \<notin> set tag" "CHR ''.'' \<notin> set ct" "tag \<noteq> []" "ct = [] \<longleftrightarrow> v = []"
    "box_open B iv tag ct = Some v"
    using assms(1) [unfolded box_ok_def, THEN spec, THEN spec, of v iv] by (simp_all add: s)
  have "split_on (CHR ''.'') (iv @ CHR ''.'' # tag @ CHR ''.'' # ct) = [iv, tag, ct]"
    using assms(2) ok(1,2) by (simp add: iv_ok_def split_on_append split_on_id)
  then show ?thesis
    using assms(2) ok by (simp add: decrypt_def encrypt_def s starts_with_def iv_ok_def)
qed

text \<open>C18. A stored secret is read back exactly, for every text but the empty one: the empty text has
  an empty ciphertext, which \<open>decrypt\<close> reports as malformed.\<close>

theorem secret_roundtrip:
  assumes "box_ok B" and "iv_ok iv"
  shows "(decrypt B (encrypt B iv v) = Inr v \<longleftrightarrow> v \<noteq> []) \<and> decrypt B (encrypt B iv []) = Inl malformed_secret"
  using decrypt_encrypt [OF assms] by simp_all

text \<open>A concrete box: the ciphertext is the hexadecimal form of the text.\<close>

definition hex_text :: "string \<Rightarrow> string" where
  "hex_text s = concat (map (\<lambda>c. [hex_digit (of_char c div 16), hex_digit (of_char c mod 16)]) s)"

fun unhex_text :: "string \<Rightarrow> string" where
  "unhex_text (a # b # s) = char_of (16 * the (hex_val a) + the (hex_val b)) # unhex_text s"
| "unhex_text _ = []"

definition hex_box :: secret_box where
  "hex_box = \<lparr>box_seal = (\<lambda>iv v. (''tag'', hex_text v)), box_open = (\<lambda>iv tag ct. Some (unhex_text ct))\<rparr>"

lemma unhex_hex [simp]: "unhex_text (hex_text s) = s"
proof (induction s)
  case (Cons c s)
  have "(of_char c :: nat) div 16 < 16" by (simp add: less_mult_imp_div_less)
  then have "hex_val (hex_digit (of_char c div 16)) = Some (of_char c div 16)"
    and "hex_val (hex_digit (of_char c mod 16)) = Some (of_char c mod 16)" by simp_all
  with Cons show ?case by (simp add: hex_text_def)
qed (simp add: hex_text_def)

lemma hex_text_no_dot: "CHR ''.'' \<notin> set (hex_text s)"
proof -
  have "hex_digit n \<noteq> CHR ''.''" if "n < 16" for n
  proof
    assume "hex_digit n = CHR ''.''"
    with hex_val_hex_digit [OF that] show False by (simp add: hex_val_def)
  qed
  from this [symmetric] show ?thesis by (auto simp: hex_text_def less_mult_imp_div_less)
qed

lemma hex_box_ok: "box_ok hex_box"
  by (simp add: box_ok_def hex_box_def hex_text_no_dot) (simp add: hex_text_def)

theorem secret_roundtrip_witness: "decrypt hex_box (encrypt hex_box ''iv'' ''http://proxy'') = Inr ''http://proxy''"
  using secret_roundtrip [OF hex_box_ok, of "''iv''" "''http://proxy''"] by (simp add: iv_ok_def)

end
