(* ===== verification/OB_Isolation.thy ===== *)
theory OB_Isolation
  imports OB_System
begin

text \<open>
  Owner isolation as noninterference. Every store scopes its rows by the hash of the API key; the
  locale \<open>owner_isolation\<close> states what that means for one operation (it reads and changes only
  its owner's view) and proves once that the answers an owner gets from any interleaving are the
  answers of its own operations alone. Random identifiers are inputs of the operations; \<open>used\<close>
  collects the identifiers present, and a run draws each identifier once.
\<close>

fun run_ops :: "('op \<Rightarrow> string \<Rightarrow> 's \<Rightarrow> 'res \<times> 's) \<Rightarrow> ('op \<times> string) list \<Rightarrow> 's \<Rightarrow> (string \<times> 'res) list \<times> 's" where
  "run_ops exec [] s = ([], s)"
| "run_ops exec ((op, owner) # ops) s =
     (case exec op owner s of
        (r, t) \<Rightarrow> (case run_ops exec ops t of (rs, u) \<Rightarrow> ((owner, r) # rs, u)))"

definition answers_to :: "string \<Rightarrow> (string \<times> 'res) list \<Rightarrow> 'res list" where
  "answers_to owner rs = map snd (filter (\<lambda>(o', _). o' = owner) rs)"

definition ops_of :: "string \<Rightarrow> ('op \<times> string) list \<Rightarrow> ('op \<times> string) list" where
  "ops_of owner ops = filter (\<lambda>(_, o'). o' = owner) ops"

definition fresh_ids :: "('op \<Rightarrow> string list) \<Rightarrow> string set \<Rightarrow> ('op \<times> string) list \<Rightarrow> bool" where
  "fresh_ids ids used ops \<longleftrightarrow>
     distinct (concat (map (ids \<circ> fst) ops)) \<and> set (concat (map (ids \<circ> fst) ops)) \<inter> used = {}"

lemma fresh_ids_Cons:
  "fresh_ids ids used ((op, owner) # ops) \<longleftrightarrow>
     set (ids op) \<inter> used = {} \<and> distinct (ids op) \<and> fresh_ids ids (used \<union> set (ids op)) ops"
  by (auto simp: fresh_ids_def)

lemma fresh_ids_mono: "fresh_ids ids used ops \<Longrightarrow> used' \<subseteq> used \<Longrightarrow> fresh_ids ids used' ops"
  by (auto simp: fresh_ids_def)

lemma fresh_ids_filter: "fresh_ids ids used ops \<Longrightarrow> fresh_ids ids used (filter P ops)"
proof (induction ops arbitrary: used)
  case (Cons p ops)
  obtain op owner where p: "p = (op, owner)" by (cases p)
  from Cons.prems have f: "fresh_ids ids (used \<union> set (ids op)) ops" by (simp add: p fresh_ids_Cons)
  from Cons.IH [OF f] have "fresh_ids ids used (filter P ops)" by (rule fresh_ids_mono) simp
  with Cons.IH [OF f] Cons.prems show ?case by (simp add: p fresh_ids_Cons)
qed (simp add: fresh_ids_def)

locale owner_isolation =
  fixes exec :: "'op \<Rightarrow> string \<Rightarrow> 's \<Rightarrow> 'res \<times> 's"
    and view :: "string \<Rightarrow> 's \<Rightarrow> 'v"
    and ids :: "'op \<Rightarrow> string list"
    and used :: "'s \<Rightarrow> string set"
  assumes used_exec: "used (snd (exec op owner s)) \<subseteq> used s \<union> set (ids op)"
    and exec_local: "view owner s = view owner t \<Longrightarrow> set (ids op) \<inter> used s = {} \<Longrightarrow> set (ids op) \<inter> used t = {} \<Longrightarrow>
          fst (exec op owner s) = fst (exec op owner t) \<and>
          view owner (snd (exec op owner s)) = view owner (snd (exec op owner t))"
    and exec_frame: "other \<noteq> owner \<Longrightarrow> set (ids op) \<inter> used s = {} \<Longrightarrow>
          view other (snd (exec op owner s)) = view other s"
begin

lemma fresh_after:
  "fresh_ids ids (used s) ((op, owner) # ops) \<Longrightarrow> fresh_ids ids (used (snd (exec op owner s))) ops"
  using used_exec [of op owner s] by (auto simp: fresh_ids_Cons intro: fresh_ids_mono)

lemma isolated_run:
  assumes "view owner s = view owner t" and "fresh_ids ids (used s) ops" and "fresh_ids ids (used t) (ops_of owner ops)"
  shows "answers_to owner (fst (run_ops exec ops s)) = map snd (fst (run_ops exec (ops_of owner ops) t))"
  using assms
proof (induction ops arbitrary: s t)
  case Nil
  then show ?case by (simp add: answers_to_def ops_of_def)
next
  case (Cons p ops)
  obtain op who where p: "p = (op, who)" by (cases p)
  obtain r s' where e: "exec op who s = (r, s')" by fastforce
  obtain rs u where rest: "run_ops exec ops s' = (rs, u)" by fastforce
  have fs: "fresh_ids ids (used s') ops" using fresh_after [of s op who ops] Cons.prems(2) by (simp add: p e)
  have new: "set (ids op) \<inter> used s = {}" using Cons.prems(2) by (simp add: p fresh_ids_Cons)
  show ?case
  proof (cases "who = owner")
    case True
    have tail: "ops_of owner (p # ops) = (op, owner) # ops_of owner ops" by (simp add: ops_of_def p True)
    obtain r' t' where e': "exec op owner t = (r', t')" by fastforce
    obtain rs' u' where rest': "run_ops exec (ops_of owner ops) t' = (rs', u')" by fastforce
    have new': "set (ids op) \<inter> used t = {}" using Cons.prems(3) by (simp add: tail fresh_ids_Cons)
    note o = p [unfolded True] and eo = e [unfolded True]
    have same: "r = r'" "view owner s' = view owner t'"
      using exec_local [OF Cons.prems(1) new new'] by (simp_all add: eo e')
    have ft: "fresh_ids ids (used t') (ops_of owner ops)"
      using fresh_after [of t op owner "ops_of owner ops"] Cons.prems(3) by (simp add: tail e')
    from Cons.IH [OF same(2) fs ft] same(1) show ?thesis
      by (simp add: tail) (simp add: o eo rest e' rest' answers_to_def)
  next
    case False
    have tail: "ops_of owner (p # ops) = ops_of owner ops" by (simp add: ops_of_def p False)
    have "view owner s' = view owner t"
      using exec_frame [of owner who op s] False new Cons.prems(1) by (simp add: e)
    from Cons.IH [OF this fs Cons.prems(3) [unfolded tail]] show ?thesis
      using False by (simp add: tail) (simp add: p e rest answers_to_def)
  qed
qed

lemma noninterference:
  assumes "fresh_ids ids (used s) ops"
  shows "answers_to owner (fst (run_ops exec ops s)) = map snd (fst (run_ops exec (ops_of owner ops) s))"
proof (rule isolated_run [OF refl assms])
  show "fresh_ids ids (used s) (ops_of owner ops)"
    unfolding ops_of_def by (rule fresh_ids_filter [OF assms])
qed

end

end
