(* ===== verification/OB_Stores.thy ===== *)
theory OB_Stores
  imports OB_Secrets OB_Types OB_Isolation OB_Config
begin

text \<open>
  The stores whose rows belong to an API-key owner: artifacts, jobs and replays, browser profiles,
  webhooks and proxies (\<open>src/src/storage/artifacts.ts\<close>, \<open>jobs.ts\<close>, \<open>sessions.ts\<close>,
  \<open>operations.ts\<close>, \<open>proxies.ts\<close>). A table is the list of its rows in order of insertion; an
  \<open>INSERT\<close> that violates a key throws SQLite's error. Identifiers, secrets, initialisation vectors
  and the clock are inputs; columns that hold JSON of string lists hold the lists. Each store is
  an interpretation of \<open>owner_isolation\<close>, except the proxies, whose names are unique across owners.
\<close>

definition unique_failed :: "string \<Rightarrow> js_error" where
  "unique_failed col = JsError (''UNIQUE constraint failed: '' @ col)"

text \<open>\<open>row.column ? { ... } : {}\<close> on a nullable text column.\<close>

definition truthy :: "string option \<Rightarrow> string option" where
  "truthy v = (case v of Some [] \<Rightarrow> None | _ \<Rightarrow> v)"

section \<open>Jobs and replays\<close>

record job_tables =
  jt_jobs :: "stored_job list"
  jt_replays :: "stored_replay list"

record job_patch =
  jp_status :: "job_status option"
  jp_artifactId :: "string option"
  jp_result :: "string option"
  jp_error :: "string option"

definition job_create ::
  "string \<Rightarrow> millis \<Rightarrow> string \<Rightarrow> string \<Rightarrow> int \<Rightarrow> string \<Rightarrow> job_tables \<Rightarrow> stored_job outcome \<times> job_tables" where
  "job_create newId now operation request ttl owner T =
     (let job = \<lparr>job_id = newId, job_ownerKeyHash = owner, job_operation = operation, job_request = request,
                 job_status = Queued, job_artifactId = None, job_result = None, job_error = None,
                 job_expiresAt = now + ttl * 1000\<rparr>
      in if newId \<in> job_id ` set (jt_jobs T) then (Inl (unique_failed ''jobs.id''), T)
         else (Inr job, T\<lparr>jt_jobs := jt_jobs T @ [job]\<rparr>))"

definition job_get :: "string \<Rightarrow> string \<Rightarrow> job_tables \<Rightarrow> stored_job option" where
  "job_get jid owner T =
     map_option (\<lambda>r. r\<lparr>job_artifactId := truthy (job_artifactId r), job_result := truthy (job_result r),
                       job_error := truthy (job_error r)\<rparr>)
       (find (\<lambda>r. job_id r = jid \<and> job_ownerKeyHash r = owner) (jt_jobs T))"

definition patch_job :: "job_status \<Rightarrow> job_patch \<Rightarrow> stored_job \<Rightarrow> stored_job" where
  "patch_job status patch r =
     r\<lparr>job_status := status, job_artifactId := jp_artifactId patch, job_result := jp_result patch,
       job_error := jp_error patch\<rparr>"

definition job_update :: "string \<Rightarrow> string \<Rightarrow> job_patch \<Rightarrow> job_tables \<Rightarrow> job_tables" where
  "job_update jid owner patch T =
     (let status = (case jp_status patch of Some s \<Rightarrow> s
                    | None \<Rightarrow> (case job_get jid owner T of Some j \<Rightarrow> job_status j | None \<Rightarrow> Failed))
      in T\<lparr>jt_jobs := map (\<lambda>r. if job_id r = jid \<and> job_ownerKeyHash r = owner
             then patch_job status patch r else r) (jt_jobs T)\<rparr>)"

lemma patch_job_fields [simp]:
  "job_id (patch_job st p r) = job_id r" "job_ownerKeyHash (patch_job st p r) = job_ownerKeyHash r"
  "job_request (patch_job st p r) = job_request r" "job_expiresAt (patch_job st p r) = job_expiresAt r"
  "job_status (patch_job st p r) = st" "job_artifactId (patch_job st p r) = jp_artifactId p"
  "job_result (patch_job st p r) = jp_result p" "job_error (patch_job st p r) = jp_error p"
  by (simp_all add: patch_job_def)

definition createReplay ::
  "string \<Rightarrow> millis \<Rightarrow> string \<Rightarrow> string \<Rightarrow> int \<Rightarrow> string \<Rightarrow> job_tables \<Rightarrow> stored_replay outcome \<times> job_tables" where
  "createReplay newId now sessionId artifactId ttl owner T =
     (let replay = \<lparr>rpl_id = newId, rpl_ownerKeyHash = owner, rpl_sessionId = sessionId,
                    rpl_artifactId = artifactId, rpl_createdAt = now, rpl_expiresAt = now + ttl * 1000\<rparr>
      in if newId \<in> rpl_id ` set (jt_replays T) then (Inl (unique_failed ''replays.id''), T)
         else (Inr replay, T\<lparr>jt_replays := jt_replays T @ [replay]\<rparr>))"

definition getReplay :: "string \<Rightarrow> millis \<Rightarrow> string \<Rightarrow> job_tables \<Rightarrow> stored_replay option" where
  "getReplay rid now owner T =
     (case find (\<lambda>r. rpl_id r = rid \<and> rpl_ownerKeyHash r = owner) (jt_replays T) of
        Some r \<Rightarrow> if rpl_expiresAt r \<ge> now then Some r else None
      | None \<Rightarrow> None)"

datatype job_op =
    JobCreate string millis string string int
  | JobGet string
  | JobUpdate string job_patch
  | ReplayCreate string millis string string int
  | ReplayGet string millis

datatype job_answer =
    JaJob "stored_job outcome"
  | JaFound "stored_job option"
  | JaDone
  | JaReplay "stored_replay outcome"
  | JaReplayFound "stored_replay option"

fun job_exec :: "job_op \<Rightarrow> string \<Rightarrow> job_tables \<Rightarrow> job_answer \<times> job_tables" where
  "job_exec (JobCreate i now opn req ttl) owner T = apfst JaJob (job_create i now opn req ttl owner T)"
| "job_exec (JobGet i) owner T = (JaFound (job_get i owner T), T)"
| "job_exec (JobUpdate i patch) owner T = (JaDone, job_update i owner patch T)"
| "job_exec (ReplayCreate i now ses art ttl) owner T = apfst JaReplay (createReplay i now ses art ttl owner T)"
| "job_exec (ReplayGet i now) owner T = (JaReplayFound (getReplay i now owner T), T)"

fun job_op_ids :: "job_op \<Rightarrow> string list" where
  "job_op_ids (JobCreate i _ _ _ _) = [i]"
| "job_op_ids (ReplayCreate i _ _ _ _) = [i]"
| "job_op_ids _ = []"

definition rows_of :: "('r \<Rightarrow> string) \<Rightarrow> string \<Rightarrow> 'r list \<Rightarrow> 'r list" where
  "rows_of owner_of owner rows = filter (\<lambda>r. owner_of r = owner) rows"

definition job_view :: "string \<Rightarrow> job_tables \<Rightarrow> stored_job list \<times> stored_replay list" where
  "job_view owner T = (rows_of job_ownerKeyHash owner (jt_jobs T), rows_of rpl_ownerKeyHash owner (jt_replays T))"

definition job_used :: "job_tables \<Rightarrow> string set" where
  "job_used T = job_id ` set (jt_jobs T) \<union> rpl_id ` set (jt_replays T)"

section \<open>Rows of one owner\<close>

lemma rows_of_append [simp]:
  "rows_of f owner (rows @ [r]) = rows_of f owner rows @ (if f r = owner then [r] else [])"
  by (simp add: rows_of_def)

lemma find_rows_of: "find (\<lambda>r. P r \<and> f r = owner) rows = find P (rows_of f owner rows)"
  by (induction rows) (auto simp: rows_of_def)

lemma filter_rows_of: "filter (\<lambda>r. f r = owner) rows = rows_of f owner rows"
  by (simp add: rows_of_def)

lemma rows_of_map_same:
  "(\<And>r. f (g r) = f r) \<Longrightarrow> rows_of f owner (map (\<lambda>r. if P r \<and> f r = owner then g r else r) rows)
     = map (\<lambda>r. if P r then g r else r) (rows_of f owner rows)"
  by (induction rows) (auto simp: rows_of_def)

lemma rows_of_map_other:
  "(\<And>r. f (g r) = f r) \<Longrightarrow> other \<noteq> owner \<Longrightarrow>
     rows_of f other (map (\<lambda>r. if P r \<and> f r = owner then g r else r) rows) = rows_of f other rows"
  by (induction rows) (auto simp: rows_of_def)

lemma rows_of_delete_same:
  "rows_of f owner (filter (\<lambda>r. P r \<longrightarrow> f r \<noteq> owner) rows) = filter (\<lambda>r. \<not> P r) (rows_of f owner rows)"
  by (induction rows) (auto simp: rows_of_def)

lemma rows_of_delete_other:
  "other \<noteq> owner \<Longrightarrow> rows_of f other (filter (\<lambda>r. P r \<longrightarrow> f r \<noteq> owner) rows) = rows_of f other rows"
  by (induction rows) (auto simp: rows_of_def)

lemma in_rows_of: "r \<in> set (rows_of f owner rows) \<longleftrightarrow> r \<in> set rows \<and> f r = owner"
  by (auto simp: rows_of_def)

lemmas rows_simps = rows_of_map_same rows_of_map_other rows_of_delete_same rows_of_delete_other

interpretation jobs: owner_isolation job_exec job_view job_op_ids job_used
proof (unfold_locales, goal_cases)
  case (1 op owner s)
  show ?case
    by (cases op) (auto simp: job_used_def job_create_def createReplay_def job_update_def Let_def)
next
  case (2 owner s t op)
  then have get: "job_get i owner s = job_get i owner t" "getReplay i now owner s = getReplay i now owner t" for i now
    by (simp_all add: job_get_def getReplay_def find_rows_of job_view_def)
  show ?case
    using 2 get
    by (cases op)
       (auto simp: job_used_def job_create_def createReplay_def job_update_def Let_def job_view_def rows_simps
          cong: option.case_cong)
next
  case (3 other owner op s)
  then show ?case
    by (cases op)
       (auto simp: job_used_def job_create_def createReplay_def job_update_def Let_def job_view_def rows_simps)
qed

text \<open>Jobs and replays are isolated by owner: whatever operations other keys run in between, the
  answers one key receives are those of its own operations run alone.\<close>

theorem job_store_isolated:
  assumes "fresh_ids job_op_ids (job_used T) ops"
  shows "answers_to owner (fst (run_ops job_exec ops T)) = map snd (fst (run_ops job_exec (ops_of owner ops) T))"
  by (rule jobs.noninterference [OF assms])

definition empty_jobs :: job_tables where
  "empty_jobs = \<lparr>jt_jobs = [], jt_replays = []\<rparr>"

theorem job_store_isolated_witness:
  "answers_to ''bob'' (fst (run_ops job_exec
     [(JobCreate ''j1'' 0 ''screenshot'' ''{}'' 60, ''ann''), (JobGet ''j1'', ''bob'')] empty_jobs)) = [JaFound None]"
  by (subst job_store_isolated)
     (simp_all add: fresh_ids_def empty_jobs_def job_used_def ops_of_def job_get_def)

text \<open>An update writes the whole outcome: fields that the patch leaves out are erased, not kept,
  and the row of every other job, also of the same owner, is untouched.\<close>

theorem job_update_overwrites:
  assumes "job_get jid owner T = Some j"
  shows "\<exists>j'. job_get jid owner (job_update jid owner patch T) = Some j'
      \<and> job_status j' = (case jp_status patch of Some s \<Rightarrow> s | None \<Rightarrow> job_status j)
      \<and> job_artifactId j' = truthy (jp_artifactId patch) \<and> job_result j' = truthy (jp_result patch)
      \<and> job_error j' = truthy (jp_error patch) \<and> job_request j' = job_request j \<and> job_expiresAt j' = job_expiresAt j
      \<and> (\<forall>i o'. (i, o') \<noteq> (jid, owner) \<longrightarrow> job_get i o' (job_update jid owner patch T) = job_get i o' T)"
proof -
  let ?st = "case jp_status patch of Some s \<Rightarrow> s | None \<Rightarrow> job_status j"
  let ?g = "patch_job ?st patch"
  have upd: "jt_jobs (job_update jid owner patch T)
      = map (\<lambda>r. if job_id r = jid \<and> job_ownerKeyHash r = owner then ?g r else r) (jt_jobs T)"
    using assms by (simp add: job_update_def Let_def cong: option.case_cong)
  have same: "find (\<lambda>r. job_id r = jid \<and> job_ownerKeyHash r = owner)
        (map (\<lambda>r. if job_id r = jid \<and> job_ownerKeyHash r = owner then ?g r else r) rows)
      = map_option ?g (find (\<lambda>r. job_id r = jid \<and> job_ownerKeyHash r = owner) rows)" for rows
    by (induction rows) auto
  have other: "find (\<lambda>r. job_id r = i \<and> job_ownerKeyHash r = o')
        (map (\<lambda>r. if job_id r = jid \<and> job_ownerKeyHash r = owner then ?g r else r) rows)
      = find (\<lambda>r. job_id r = i \<and> job_ownerKeyHash r = o') rows" if "(i, o') \<noteq> (jid, owner)" for i o' rows
    using that by (induction rows) auto
  have o: "\<forall>i o'. (i, o') \<noteq> (jid, owner) \<longrightarrow> job_get i o' (job_update jid owner patch T) = job_get i o' T"
    using other by (auto simp: job_get_def upd)
  from assms obtain r where r: "find (\<lambda>r. job_id r = jid \<and> job_ownerKeyHash r = owner) (jt_jobs T) = Some r"
    and j: "job_request j = job_request r" "job_expiresAt j = job_expiresAt r"
    by (auto simp: job_get_def)
  have "job_get jid owner (job_update jid owner patch T)
      = Some ((?g r)\<lparr>job_artifactId := truthy (jp_artifactId patch),
                job_result := truthy (jp_result patch), job_error := truthy (jp_error patch)\<rparr>)"
    using r by (simp add: job_get_def upd same)
  with o j show ?thesis by (simp split: option.split)
qed

theorem job_update_overwrites_witness:
  "\<exists>j'. job_get ''j1'' ''ann'' (job_update ''j1'' ''ann'' \<lparr>jp_status = Some Complete, jp_artifactId = None,
        jp_result = None, jp_error = None\<rparr>
      (snd (job_create ''j1'' 0 ''pdf'' ''{}'' 60 ''ann'' empty_jobs))) = Some j' \<and> job_status j' = Complete"
proof -
  have "job_get ''j1'' ''ann'' (snd (job_create ''j1'' 0 ''pdf'' ''{}'' 60 ''ann'' empty_jobs))
      = Some (projr (fst (job_create ''j1'' 0 ''pdf'' ''{}'' 60 ''ann'' empty_jobs)))"
    by code_simp
  from job_update_overwrites [OF this, of "\<lparr>jp_status = Some Complete, jp_artifactId = None,
        jp_result = None, jp_error = None\<rparr>"] show ?thesis by auto
qed

section \<open>Artifacts\<close>

record artifact_tables =
  at_rows :: "artifact list"
  at_files :: "(string, string) jsmap"

text \<open>
  The file of an artifact lies under the identifier in the artifacts directory, and the bodies are
  texts here; \<open>writeFile\<close> with the flag \<open>wx\<close> refuses an existing file.
\<close>

definition artifact_create ::
  "string \<Rightarrow> string \<Rightarrow> millis \<Rightarrow> string \<Rightarrow> string \<Rightarrow> int \<Rightarrow> string \<Rightarrow> artifact_tables
     \<Rightarrow> artifact outcome \<times> artifact_tables" where
  "artifact_create dir newId now body contentType ttl owner T =
     (let path = dir @ ''/'' @ newId;
          a = \<lparr>art_id = newId, art_ownerKeyHash = owner, art_path = path, art_contentType = contentType,
               art_bytes = length body, art_createdAt = now, art_expiresAt = now + ttl * 1000\<rparr>
      in if map_of (at_files T) path \<noteq> None then (Inl (JsError ''EEXIST: file already exists''), T)
         else (let T1 = T\<lparr>at_files := map_set path body (at_files T)\<rparr>
               in if newId \<in> art_id ` set (at_rows T) then (Inl (unique_failed ''artifacts.id''), T1)
                  else (Inr a, T1\<lparr>at_rows := at_rows T @ [a]\<rparr>)))"

definition artifact_get :: "string \<Rightarrow> millis \<Rightarrow> string \<Rightarrow> artifact_tables \<Rightarrow> (artifact \<times> string) option" where
  "artifact_get aid now owner T =
     (case find (\<lambda>r. art_id r = aid \<and> art_ownerKeyHash r = owner) (at_rows T) of
        None \<Rightarrow> None
      | Some r \<Rightarrow>
          if art_expiresAt r < now then None
          else map_option (\<lambda>body. (r, body)) (map_of (at_files T) (art_path r)))"

datatype artifact_op =
    ArtifactCreate string millis string string int
  | ArtifactGet string millis

datatype artifact_answer = AaCreated "artifact outcome" | AaFound "(artifact \<times> string) option"

fun artifact_exec :: "string \<Rightarrow> artifact_op \<Rightarrow> string \<Rightarrow> artifact_tables \<Rightarrow> artifact_answer \<times> artifact_tables" where
  "artifact_exec dir (ArtifactCreate i now body ct ttl) owner T =
     apfst AaCreated (artifact_create dir i now body ct ttl owner T)"
| "artifact_exec dir (ArtifactGet i now) owner T = (AaFound (artifact_get i now owner T), T)"

fun artifact_op_ids :: "artifact_op \<Rightarrow> string list" where
  "artifact_op_ids (ArtifactCreate i _ _ _ _) = [i]"
| "artifact_op_ids (ArtifactGet _ _) = []"

text \<open>An owner's view: its rows with the contents of their files.\<close>

definition artifact_view :: "string \<Rightarrow> artifact_tables \<Rightarrow> (artifact \<times> string option) list" where
  "artifact_view owner T =
     map (\<lambda>r. (r, map_of (at_files T) (art_path r))) (rows_of art_ownerKeyHash owner (at_rows T))"

definition artifact_used :: "string \<Rightarrow> artifact_tables \<Rightarrow> string set" where
  "artifact_used dir T = art_id ` set (at_rows T)
     \<union> {i. dir @ ''/'' @ i \<in> fst ` set (at_files T) \<union> art_path ` set (at_rows T)}"

lemma artifact_get_view:
  "artifact_get aid now owner T =
     (case find (\<lambda>p. art_id (fst p) = aid) (artifact_view owner T) of
        None \<Rightarrow> None
      | Some (r, body) \<Rightarrow> if art_expiresAt r < now then None else map_option (\<lambda>b. (r, b)) body)"
proof -
  have "find (\<lambda>p. art_id (fst p) = aid) (map (\<lambda>r. (r, g r)) rows)
      = map_option (\<lambda>r. (r, g r)) (find (\<lambda>r. art_id r = aid) rows)" for g :: "artifact \<Rightarrow> string option" and rows
    by (induction rows) auto
  then show ?thesis
    by (simp add: artifact_get_def artifact_view_def find_rows_of split: option.splits)
qed

lemma artifact_view_file:
  "path \<notin> art_path ` set (at_rows T) \<Longrightarrow>
     artifact_view owner (T\<lparr>at_files := map_set path body (at_files T)\<rparr>) = artifact_view owner T"
  by (auto simp: artifact_view_def in_rows_of)

lemma artifact_create_fresh:
  assumes "{i} \<inter> artifact_used dir T = {}"
  shows "artifact_create dir i now body ct ttl owner T =
     (let a = \<lparr>art_id = i, art_ownerKeyHash = owner, art_path = dir @ ''/'' @ i, art_contentType = ct,
               art_bytes = length body, art_createdAt = now, art_expiresAt = now + ttl * 1000\<rparr>
      in (Inr a, \<lparr>at_rows = at_rows T @ [a], at_files = map_set (dir @ ''/'' @ i) body (at_files T)\<rparr>))"
  using assms by (auto simp: artifact_create_def artifact_used_def Let_def map_of_eq_None_iff)

lemma artifact_create_fst:
  assumes "{i} \<inter> artifact_used dir T = {}"
  shows "fst (artifact_create dir i now body ct ttl owner T) =
     Inr \<lparr>art_id = i, art_ownerKeyHash = owner, art_path = dir @ ''/'' @ i, art_contentType = ct,
          art_bytes = length body, art_createdAt = now, art_expiresAt = now + ttl * 1000\<rparr>"
  by (simp add: artifact_create_fresh [OF assms] Let_def)

lemma artifact_create_view:
  assumes "{i} \<inter> artifact_used dir T = {}"
  shows "artifact_view who (snd (artifact_create dir i now body ct ttl owner T)) = artifact_view who T @
     (if owner = who then [(\<lparr>art_id = i, art_ownerKeyHash = owner, art_path = dir @ ''/'' @ i, art_contentType = ct,
               art_bytes = length body, art_createdAt = now, art_expiresAt = now + ttl * 1000\<rparr>, Some body)] else [])"
  using assms
  by (auto simp: artifact_create_fresh Let_def artifact_view_def artifact_used_def in_rows_of
      dest: rev_image_eqI [of _ _ _ art_path])

interpretation artifacts: owner_isolation "artifact_exec dir" artifact_view artifact_op_ids "artifact_used dir"
proof (unfold_locales, goal_cases)
  case (1 op owner s)
  show ?case
    by (cases op) (auto simp: artifact_used_def artifact_create_def Let_def map_of_eq_None_iff dom_update)
next
  case (2 owner s t op)
  then show ?case
    by (cases op) (simp_all add: artifact_create_view artifact_create_fst artifact_get_view)
next
  case (3 other owner op s)
  then show ?case by (cases op) (simp_all add: artifact_create_view)
qed

text \<open>Artifacts are isolated by owner: the answers a key receives, bodies included, are those of
  its own operations run alone.\<close>

theorem artifact_store_isolated:
  assumes "fresh_ids artifact_op_ids (artifact_used dir T) ops"
  shows "answers_to owner (fst (run_ops (artifact_exec dir) ops T))
       = map snd (fst (run_ops (artifact_exec dir) (ops_of owner ops) T))"
  by (rule artifacts.noninterference [OF assms])

theorem artifact_store_isolated_witness:
  "answers_to ''bob'' (fst (run_ops (artifact_exec ''d'')
     [(ArtifactCreate ''a1'' 0 ''body'' ''text/plain'' 60, ''ann''), (ArtifactGet ''a1'' 1, ''bob'')]
     \<lparr>at_rows = [], at_files = []\<rparr>)) = [AaFound None]"
  by (subst artifact_store_isolated)
     (simp_all add: fresh_ids_def artifact_used_def ops_of_def artifact_get_def)

end
