(* ===== verification/OB_SecretStores.thy ===== *)
theory OB_SecretStores
  imports OB_Stores OB_Config_Facts
begin

text \<open>
  The stores that keep encrypted columns: browser profiles (\<open>src/src/storage/sessions.ts\<close>), webhooks
  (\<open>operations.ts\<close>) and proxies (\<open>proxies.ts\<close>). Profiles and webhooks are isolated by owner.
  Proxy names are unique over all owners, and the last section shows what that reveals.
\<close>

definition encryption_required :: "string \<Rightarrow> js_error" where
  "encryption_required what =
     ob_err ''INVALID_REQUEST'' (''OPENBROWSE_ENCRYPTION_KEY is required to persist '' @ what) 400 False"

section \<open>Browser profiles\<close>

text \<open>A row is the record with its \<open>storage_state\<close> column encrypted.\<close>

definition profile_of_row :: "secret_box \<Rightarrow> stored_profile \<Rightarrow> stored_profile outcome" where
  "profile_of_row B r = map_sum id (\<lambda>s. r\<lparr>prf_storageState := s\<rparr>) (decrypt B (prf_storageState r))"

definition createProfile ::
  "config \<Rightarrow> secret_box \<Rightarrow> string \<Rightarrow> string \<Rightarrow> millis \<Rightarrow> string \<Rightarrow> string \<Rightarrow> string \<Rightarrow> stored_profile list
     \<Rightarrow> stored_profile outcome \<times> stored_profile list" where
  "createProfile cfg B newId iv now name state owner rows =
     (if encryptionKey cfg = [] then (Inl (encryption_required ''authenticated browser profiles''), rows)
      else
        (let p = \<lparr>prf_id = newId, prf_ownerKeyHash = owner, prf_name = name, prf_storageState = state,
                  prf_createdAt = now, prf_updatedAt = now\<rparr>
         in if newId \<in> prf_id ` set rows then (Inl (unique_failed ''browser_profiles.id''), rows)
            else if list_ex (\<lambda>r. prf_name r = name \<and> prf_ownerKeyHash r = owner) rows
            then (Inl (unique_failed ''browser_profiles.owner_key_hash, browser_profiles.name''), rows)
            else (Inr p, rows @ [p\<lparr>prf_storageState := encrypt B iv state\<rparr>])))"

definition getProfile :: "secret_box \<Rightarrow> string \<Rightarrow> string \<Rightarrow> stored_profile list \<Rightarrow> stored_profile option outcome" where
  "getProfile B pid owner rows =
     (case find (\<lambda>r. prf_id r = pid \<and> prf_ownerKeyHash r = owner) rows of
        None \<Rightarrow> Inr None
      | Some r \<Rightarrow> map_sum id Some (profile_of_row B r))"

definition getProfileByName ::
  "secret_box \<Rightarrow> string \<Rightarrow> string \<Rightarrow> stored_profile list \<Rightarrow> stored_profile option outcome" where
  "getProfileByName B name owner rows =
     (case find (\<lambda>r. prf_name r = name \<and> prf_ownerKeyHash r = owner) rows of
        None \<Rightarrow> Inr None
      | Some r \<Rightarrow> map_sum id Some (profile_of_row B r))"

text \<open>The listing leaves the state out; newest first.\<close>

definition listProfiles :: "string \<Rightarrow> stored_profile list \<Rightarrow> stored_profile list" where
  "listProfiles owner rows =
     map (\<lambda>r. r\<lparr>prf_storageState := []\<rparr>)
       (sort_key (\<lambda>r. - prf_updatedAt r) (filter (\<lambda>r. prf_ownerKeyHash r = owner) rows))"

definition deleteProfile :: "string \<Rightarrow> string \<Rightarrow> stored_profile list \<Rightarrow> bool \<times> stored_profile list" where
  "deleteProfile pid owner rows =
     (list_ex (\<lambda>r. prf_id r = pid \<and> prf_ownerKeyHash r = owner) rows,
      filter (\<lambda>r. \<not> (prf_id r = pid \<and> prf_ownerKeyHash r = owner)) rows)"

datatype profile_op =
    ProfileCreate string string millis string string
  | ProfileGet string
  | ProfileByName string
  | ProfileList
  | ProfileDelete string

datatype profile_answer =
    PaCreated "stored_profile outcome"
  | PaFound "stored_profile option outcome"
  | PaList "stored_profile list"
  | PaDeleted bool

fun profile_exec ::
  "config \<Rightarrow> secret_box \<Rightarrow> profile_op \<Rightarrow> string \<Rightarrow> stored_profile list \<Rightarrow> profile_answer \<times> stored_profile list" where
  "profile_exec cfg B (ProfileCreate i iv now name st) owner rows =
     apfst PaCreated (createProfile cfg B i iv now name st owner rows)"
| "profile_exec cfg B (ProfileGet i) owner rows = (PaFound (getProfile B i owner rows), rows)"
| "profile_exec cfg B (ProfileByName n) owner rows = (PaFound (getProfileByName B n owner rows), rows)"
| "profile_exec cfg B ProfileList owner rows = (PaList (listProfiles owner rows), rows)"
| "profile_exec cfg B (ProfileDelete i) owner rows = apfst PaDeleted (deleteProfile i owner rows)"

fun profile_op_ids :: "profile_op \<Rightarrow> string list" where
  "profile_op_ids (ProfileCreate i _ _ _ _) = [i]"
| "profile_op_ids _ = []"

lemma list_ex_rows_of: "list_ex (\<lambda>r. P r \<and> f r = owner) rows = list_ex P (rows_of f owner rows)"
  by (induction rows) (auto simp: rows_of_def)

interpretation profiles: owner_isolation "profile_exec cfg B" "rows_of prf_ownerKeyHash" profile_op_ids
    "\<lambda>rows. prf_id ` set rows"
proof (unfold_locales, goal_cases)
  case (1 op owner s)
  show ?case by (cases op) (auto simp: createProfile_def deleteProfile_def Let_def)
next
  case (2 owner s t op)
  then show ?case
    by (cases op)
       (auto simp: createProfile_def getProfile_def getProfileByName_def listProfiles_def deleteProfile_def Let_def
          list_ex_rows_of find_rows_of filter_rows_of rows_simps)
next
  case (3 other owner op s)
  then show ?case
    by (cases op) (auto simp: createProfile_def deleteProfile_def Let_def rows_simps)
qed

text \<open>Browser profiles are isolated by owner: the answers a key receives, decrypted states and
  name conflicts included, are those of its own operations run alone.\<close>

theorem profile_store_isolated:
  assumes "fresh_ids profile_op_ids (prf_id ` set rows) ops"
  shows "answers_to owner (fst (run_ops (profile_exec cfg B) ops rows))
       = map snd (fst (run_ops (profile_exec cfg B) (ops_of owner ops) rows))"
  by (rule profiles.noninterference [OF assms])

theorem profile_store_isolated_witness:
  "answers_to ''bob'' (fst (run_ops (profile_exec sample_config hex_box)
     [(ProfileCreate ''p1'' ''iv'' 0 ''work'' ''{}'', ''ann''), (ProfileByName ''work'', ''bob'')] [])) = [PaFound (Inr None)]"
  by (subst profile_store_isolated)
     (simp_all add: fresh_ids_def ops_of_def getProfileByName_def)

section \<open>Webhooks\<close>

definition createWebhook ::
  "secret_box \<Rightarrow> string \<Rightarrow> string \<Rightarrow> string \<Rightarrow> string \<Rightarrow> string \<Rightarrow> string list \<Rightarrow> string \<Rightarrow> stored_webhook list
     \<Rightarrow> stored_webhook outcome \<times> stored_webhook list" where
  "createWebhook B newId iv1 iv2 secret url events owner rows =
     (let w = \<lparr>whk_id = newId, whk_ownerKeyHash = owner, whk_url = url, whk_events = events, whk_secret = secret\<rparr>
      in if newId \<in> whk_id ` set rows then (Inl (unique_failed ''webhooks.id''), rows)
         else (Inr w, rows @ [w\<lparr>whk_url := encrypt B iv1 url, whk_secret := encrypt B iv2 secret\<rparr>]))"

definition webhook_of_row :: "secret_box \<Rightarrow> stored_webhook \<Rightarrow> stored_webhook outcome" where
  "webhook_of_row B r =
     res_bind (decrypt B (whk_url r)) (\<lambda>url.
     res_bind (decrypt B (whk_secret r)) (\<lambda>secret. Inr (r\<lparr>whk_url := url, whk_secret := secret\<rparr>)))"

fun map_outcome :: "('a \<Rightarrow> 'b outcome) \<Rightarrow> 'a list \<Rightarrow> 'b list outcome" where
  "map_outcome f [] = Inr []"
| "map_outcome f (x # xs) = res_bind (f x) (\<lambda>y. res_bind (map_outcome f xs) (\<lambda>ys. Inr (y # ys)))"

definition listWebhooks :: "secret_box \<Rightarrow> string \<Rightarrow> stored_webhook list \<Rightarrow> stored_webhook list outcome" where
  "listWebhooks B owner rows = map_outcome (webhook_of_row B) (filter (\<lambda>r. whk_ownerKeyHash r = owner) rows)"

definition deleteWebhook :: "string \<Rightarrow> string \<Rightarrow> stored_webhook list \<Rightarrow> bool \<times> stored_webhook list" where
  "deleteWebhook wid owner rows =
     (list_ex (\<lambda>r. whk_id r = wid \<and> whk_ownerKeyHash r = owner) rows,
      filter (\<lambda>r. \<not> (whk_id r = wid \<and> whk_ownerKeyHash r = owner)) rows)"

datatype webhook_op =
    WebhookCreate string string string string string "string list"
  | WebhookList
  | WebhookDelete string

datatype webhook_answer =
    WaCreated "stored_webhook outcome"
  | WaList "stored_webhook list outcome"
  | WaDeleted bool

fun webhook_exec ::
  "secret_box \<Rightarrow> webhook_op \<Rightarrow> string \<Rightarrow> stored_webhook list \<Rightarrow> webhook_answer \<times> stored_webhook list" where
  "webhook_exec B (WebhookCreate i iv1 iv2 secret url events) owner rows =
     apfst WaCreated (createWebhook B i iv1 iv2 secret url events owner rows)"
| "webhook_exec B WebhookList owner rows = (WaList (listWebhooks B owner rows), rows)"
| "webhook_exec B (WebhookDelete i) owner rows = apfst WaDeleted (deleteWebhook i owner rows)"

fun webhook_op_ids :: "webhook_op \<Rightarrow> string list" where
  "webhook_op_ids (WebhookCreate i _ _ _ _ _) = [i]"
| "webhook_op_ids _ = []"

interpretation webhooks: owner_isolation "webhook_exec B" "rows_of whk_ownerKeyHash" webhook_op_ids
    "\<lambda>rows. whk_id ` set rows"
proof (unfold_locales, goal_cases)
  case (1 op owner s)
  show ?case by (cases op) (auto simp: createWebhook_def deleteWebhook_def Let_def)
next
  case (2 owner s t op)
  then show ?case
    by (cases op)
       (auto simp: createWebhook_def listWebhooks_def deleteWebhook_def Let_def list_ex_rows_of filter_rows_of
          rows_simps)
next
  case (3 other owner op s)
  then show ?case by (cases op) (auto simp: createWebhook_def deleteWebhook_def Let_def rows_simps)
qed

text \<open>Webhooks are isolated by owner, and the target and secret an owner lists are the ones it
  registered: no other key's operation shows in its answers.\<close>

theorem webhook_store_isolated:
  assumes "fresh_ids webhook_op_ids (whk_id ` set rows) ops"
  shows "answers_to owner (fst (run_ops (webhook_exec B) ops rows))
       = map snd (fst (run_ops (webhook_exec B) (ops_of owner ops) rows))"
  by (rule webhooks.noninterference [OF assms])

theorem webhook_store_isolated_witness:
  "answers_to ''bob'' (fst (run_ops (webhook_exec hex_box)
     [(WebhookCreate ''w1'' ''i'' ''j'' ''s'' ''https://a'' [''*''], ''ann''), (WebhookList, ''bob'')] [])) = [WaList (Inr [])]"
  by (subst webhook_store_isolated)
     (simp_all add: fresh_ids_def ops_of_def listWebhooks_def)

section \<open>Proxies\<close>

record proxy_created =
  pc_id :: string
  pc_ownerKeyHash :: string
  pc_name :: string
  pc_allowedDomains :: "string list"
  pc_host :: string
  pc_port :: int

definition proxy_create ::
  "config \<Rightarrow> url_parser \<Rightarrow> secret_box \<Rightarrow> string \<Rightarrow> string \<Rightarrow> string \<Rightarrow> string \<Rightarrow> string list \<Rightarrow> string
     \<Rightarrow> stored_proxy list \<Rightarrow> proxy_created outcome \<times> stored_proxy list" where
  "proxy_create cfg parse B newId iv name url domains owner rows =
     (if encryptionKey cfg = [] then (Inl (encryption_required ''proxy credentials''), rows)
      else (case parse url of
              None \<Rightarrow> (Inl (JsError ''Invalid URL''), rows)
            | Some parsed \<Rightarrow>
                if newId \<in> pxy_id ` set rows then (Inl (unique_failed ''proxies.id''), rows)
                else if name \<in> pxy_name ` set rows then (Inl (unique_failed ''proxies.name''), rows)
                else (Inr \<lparr>pc_id = newId, pc_ownerKeyHash = owner, pc_name = name, pc_allowedDomains = [],
                           pc_host = u_hostname parsed,
                           pc_port = (if u_port parsed \<noteq> [] then int (digits_val (u_port parsed))
                                      else if u_protocol parsed = ''https:'' then 443 else 80)\<rparr>,
                      rows @ [\<lparr>pxy_id = newId, pxy_ownerKeyHash = owner, pxy_name = name,
                               pxy_url = encrypt B iv url, pxy_allowedDomains = map to_lower domains\<rparr>])))"

definition proxy_get :: "secret_box \<Rightarrow> string \<Rightarrow> string \<Rightarrow> stored_proxy list \<Rightarrow> stored_proxy option outcome" where
  "proxy_get B pid owner rows =
     (case find (\<lambda>r. pxy_id r = pid \<and> pxy_ownerKeyHash r = owner) rows of
        None \<Rightarrow> Inr None
      | Some r \<Rightarrow> map_sum id (\<lambda>u. Some (r\<lparr>pxy_url := u\<rparr>)) (decrypt B (pxy_url r)))"

definition proxy_delete :: "string \<Rightarrow> string \<Rightarrow> stored_proxy list \<Rightarrow> bool \<times> stored_proxy list" where
  "proxy_delete pid owner rows =
     (list_ex (\<lambda>r. pxy_id r = pid \<and> pxy_ownerKeyHash r = owner) rows,
      filter (\<lambda>r. \<not> (pxy_id r = pid \<and> pxy_ownerKeyHash r = owner)) rows)"

text \<open>A proxy that was created can be read back by its owner with its URL and lower-case domains,
  and by no other owner; after its deletion nobody reads it.\<close>

theorem proxy_create_get:
  assumes "box_ok B" and "iv_ok iv" and "url \<noteq> []"
    and "proxy_create cfg parse B newId iv name url domains owner rows = (Inr created, rows')"
  shows "proxy_get B newId owner rows' = Inr (Some \<lparr>pxy_id = newId, pxy_ownerKeyHash = owner, pxy_name = name,
           pxy_url = url, pxy_allowedDomains = map to_lower domains\<rparr>)
    \<and> (other = owner \<or> proxy_get B newId other rows' = Inr None)
    \<and> proxy_get B newId who (snd (proxy_delete newId owner rows')) = Inr None"
proof -
  have fresh: "newId \<notin> pxy_id ` set rows" and rows': "rows' = rows @ [\<lparr>pxy_id = newId, pxy_ownerKeyHash = owner,
      pxy_name = name, pxy_url = encrypt B iv url, pxy_allowedDomains = map to_lower domains\<rparr>]"
    using assms(4) by (auto simp: proxy_create_def split: if_splits option.splits)
  have none: "find (\<lambda>r. pxy_id r = newId \<and> pxy_ownerKeyHash r = o') rows = None" for o'
    using fresh by (auto simp: find_None_iff)
  have app: "find P (rows @ [r]) = (case find P rows of Some x \<Rightarrow> Some x | None \<Rightarrow> if P r then Some r else None)"
    for P :: "stored_proxy \<Rightarrow> bool" and r
    by (induction rows) auto
  have gone: "find (\<lambda>r. pxy_id r = newId \<and> pxy_ownerKeyHash r = who) (snd (proxy_delete newId owner rows')) = None"
    using fresh by (auto simp: find_None_iff proxy_delete_def rows')
  show ?thesis
    using gone by (simp add: proxy_get_def rows' app none decrypt_encrypt [OF assms(1,2)] assms(3))
qed

definition sample_target :: url where
  "sample_target = \<lparr>u_protocol = ''http:'', u_username = [], u_password = [], u_hostname = ''proxy'', u_port = [],
                    u_pathname = ''/'', u_query = None, u_fragment = None\<rparr>"

definition sample_proxy_create :: "string \<Rightarrow> string \<Rightarrow> stored_proxy list \<Rightarrow> proxy_created outcome \<times> stored_proxy list" where
  "sample_proxy_create newId owner rows =
     proxy_create sample_config (\<lambda>_. Some sample_target) hex_box newId ''iv'' ''office'' ''http://proxy''
       [''Example.com''] owner rows"

lemma sample_key_present: "encryptionKey sample_config \<noteq> []"
  using sample_config_ok by (auto simp: config_ok_def)

theorem proxy_create_get_witness:
  "proxy_get hex_box ''x1'' ''ann'' (snd (sample_proxy_create ''x1'' ''ann'' [])) =
     Inr (Some \<lparr>pxy_id = ''x1'', pxy_ownerKeyHash = ''ann'', pxy_name = ''office'', pxy_url = ''http://proxy'',
                pxy_allowedDomains = [''example.com'']\<rparr>)"
proof -
  have "sample_proxy_create ''x1'' ''ann'' []
      = (Inr (projr (fst (sample_proxy_create ''x1'' ''ann'' []))), snd (sample_proxy_create ''x1'' ''ann'' []))"
    by (simp add: sample_proxy_create_def proxy_create_def sample_key_present)
  moreover have "to_lower ''Example.com'' = ''example.com''" by code_simp
  ultimately show ?thesis
    using proxy_create_get [OF hex_box_ok, of "''iv''" "''http://proxy''" sample_config "\<lambda>_. Some sample_target" "''x1''"
        "''office''" "[''Example.com'']" "''ann''" "[]"]
    by (simp add: sample_proxy_create_def iv_ok_def)
qed

text \<open>Proxies are not isolated by owner: the answer to a creation depends on whether another key
  already uses the name, so one key can probe, or block, the names of another.\<close>

theorem proxy_names_shared:
  "\<exists>created. fst (sample_proxy_create ''x2'' ''bob'' []) = Inr created
     \<and> fst (sample_proxy_create ''x2'' ''bob'' (snd (sample_proxy_create ''x1'' ''ann'' [])))
         = Inl (unique_failed ''proxies.name'')"
  by (simp add: sample_proxy_create_def proxy_create_def sample_key_present)

end
