(* ===== verification/OB_Cache.thy ===== *)
theory OB_Cache
  imports OB_Config_Facts OB_System "HOL-Library.Word" "HOL-Library.Product_Lexorder"
begin

text \<open>
  The response cache: the in-memory least-recently-used layer of \<open>src/src/cache.ts\<close> over the disk
  layer of \<open>src/src/storage/cache-store.ts\<close>. \<open>Cache\<close> receives its storage in the constructor; here
  it is a record of operations, and the laws the cache needs from it are the locale
  \<open>cache_backing\<close>, interpreted on the disk store. A \<open>Buffer\<close> is a list of bytes, a path the list
  of the parts given to \<open>join\<close>, and the JSON codec of the metadata column a pair of functions.
  Operations are atomic here: in the code they suspend only in file-system calls.
\<close>

type_synonym buffer = "8 word list"
type_synonym metadata = "(string \<times> jsval) list"

section \<open>The storage interface\<close>

record 's cache_storage =
  getCache :: "millis \<Rightarrow> string \<Rightarrow> 's \<Rightarrow> (buffer \<times> metadata) option \<times> 's"
  putCache :: "millis \<Rightarrow> string \<Rightarrow> buffer \<Rightarrow> int \<Rightarrow> metadata \<Rightarrow> 's \<Rightarrow> 's"
  deleteCache :: "string \<Rightarrow> 's \<Rightarrow> 's"
  purgeCache :: "string option \<Rightarrow> 's \<Rightarrow> nat \<times> 's"

section \<open>The memory layer\<close>

record cache_entry =
  en_body :: buffer
  en_metadata :: metadata
  en_expiresAt :: millis

record 's cache =
  ca_memory :: "(string, cache_entry) jsmap"
  ca_memoryBytes :: int
  ca_storage :: 's

datatype cache_layer = LayerMemory | LayerDisk

definition removeMemory :: "string \<Rightarrow> cache_entry \<Rightarrow> 's cache \<Rightarrow> 's cache" where
  "removeMemory key e c =
     c\<lparr>ca_memory := map_remove key (ca_memory c),
       ca_memoryBytes := ca_memoryBytes c - int (length (en_body e))\<rparr>"

text \<open>The \<open>while\<close> loop of \<open>putMemory\<close>: drop the oldest entry until the total fits.\<close>

fun evict_memory :: "int \<Rightarrow> (string, cache_entry) jsmap \<Rightarrow> int \<Rightarrow> (string, cache_entry) jsmap \<times> int" where
  "evict_memory budget [] bytes = ([], bytes)"
| "evict_memory budget ((k, e) # rest) bytes =
     (if bytes > budget then evict_memory budget rest (bytes - int (length (en_body e)))
      else ((k, e) # rest, bytes))"

definition putMemory :: "config \<Rightarrow> string \<Rightarrow> cache_entry \<Rightarrow> 's cache \<Rightarrow> 's cache" where
  "putMemory cfg key e c =
     (let c1 = (case map_of (ca_memory c) key of Some previous \<Rightarrow> removeMemory key previous c | None \<Rightarrow> c)
      in case evict_memory (cacheMemoryBytes cfg) (map_set key e (ca_memory c1))
                (ca_memoryBytes c1 + int (length (en_body e))) of
           (m, bytes) \<Rightarrow> c1\<lparr>ca_memory := m, ca_memoryBytes := bytes\<rparr>)"

definition cache_get_disk ::
  "config \<Rightarrow> 's cache_storage \<Rightarrow> millis \<Rightarrow> string \<Rightarrow> 's cache
     \<Rightarrow> (buffer \<times> metadata \<times> cache_layer) option \<times> 's cache" where
  "cache_get_disk cfg S now key c =
     (case getCache S now key (ca_storage c) of
        (None, st) \<Rightarrow> (None, c\<lparr>ca_storage := st\<rparr>)
      | (Some (body, meta), st) \<Rightarrow>
          (Some (body, meta, LayerDisk),
           putMemory cfg key \<lparr>en_body = body, en_metadata = meta, en_expiresAt = now + 60000\<rparr>
             (c\<lparr>ca_storage := st\<rparr>)))"

definition cache_get ::
  "config \<Rightarrow> 's cache_storage \<Rightarrow> millis \<Rightarrow> string \<Rightarrow> 's cache
     \<Rightarrow> (buffer \<times> metadata \<times> cache_layer) option \<times> 's cache" where
  "cache_get cfg S now key c =
     (case map_of (ca_memory c) key of
        Some e \<Rightarrow>
          if en_expiresAt e \<ge> now
          then (Some (en_body e, en_metadata e, LayerMemory),
                c\<lparr>ca_memory := map_set key e (map_remove key (ca_memory c))\<rparr>)
          else cache_get_disk cfg S now key (removeMemory key e c)
      | None \<Rightarrow> cache_get_disk cfg S now key c)"

definition cache_put ::
  "config \<Rightarrow> 's cache_storage \<Rightarrow> millis \<Rightarrow> string \<Rightarrow> buffer \<Rightarrow> int \<Rightarrow> metadata \<Rightarrow> 's cache \<Rightarrow> 's cache" where
  "cache_put cfg S now key body ttl meta c =
     putMemory cfg key \<lparr>en_body = body, en_metadata = meta, en_expiresAt = now + ttl * 1000\<rparr>
       (c\<lparr>ca_storage := putCache S now key body ttl meta (ca_storage c)\<rparr>)"

definition cache_delete :: "'s cache_storage \<Rightarrow> string \<Rightarrow> 's cache \<Rightarrow> 's cache" where
  "cache_delete S key c =
     (let c1 = (case map_of (ca_memory c) key of Some e \<Rightarrow> removeMemory key e c | None \<Rightarrow> c)
      in c1\<lparr>ca_storage := deleteCache S key (ca_storage c1)\<rparr>)"

definition cache_purge :: "'s cache_storage \<Rightarrow> string option \<Rightarrow> 's cache \<Rightarrow> nat \<times> 's cache" where
  "cache_purge S v c =
     (case purgeCache S v (ca_storage c) of
        (n, st) \<Rightarrow> (n, c\<lparr>ca_memory := [], ca_memoryBytes := 0, ca_storage := st\<rparr>))"

definition cache_stats :: "('s \<Rightarrow> nat \<times> int) \<Rightarrow> 's cache \<Rightarrow> (nat \<times> int) \<times> (nat \<times> int)" where
  "cache_stats disk_stats c = ((length (ca_memory c), ca_memoryBytes c), disk_stats (ca_storage c))"

text \<open>
  \<open>coalesce\<close>: a promise is an identifier; \<open>True\<close> says that the factory was called. The \<open>finally\<close>
  handler is \<open>coalesce_settled\<close>.
\<close>

definition coalesce :: "string \<Rightarrow> 'p \<Rightarrow> (string, 'p) jsmap \<Rightarrow> ('p \<times> bool) \<times> (string, 'p) jsmap" where
  "coalesce key fresh inflight =
     (case map_of inflight key of
        Some existing \<Rightarrow> ((existing, False), inflight)
      | None \<Rightarrow> ((fresh, True), map_set key fresh inflight))"

definition coalesce_settled :: "string \<Rightarrow> (string, 'p) jsmap \<Rightarrow> (string, 'p) jsmap" where
  "coalesce_settled key inflight = map_remove key inflight"

section \<open>The memory budget\<close>

definition entry_bytes :: "cache_entry \<Rightarrow> int" where
  "entry_bytes e = int (length (en_body e))"

definition cache_inv :: "config \<Rightarrow> 's cache \<Rightarrow> bool" where
  "cache_inv cfg c \<longleftrightarrow>
     map_keys_ok (ca_memory c) \<and> ca_memoryBytes c = map_total entry_bytes (ca_memory c) \<and>
     ca_memoryBytes c \<le> cacheMemoryBytes cfg"

definition counted :: "'s cache \<Rightarrow> bool" where
  "counted c \<longleftrightarrow> map_keys_ok (ca_memory c) \<and> ca_memoryBytes c = map_total entry_bytes (ca_memory c)"

lemma entry_bytes_fold: "int (length (en_body e)) = entry_bytes e"
  by (simp add: entry_bytes_def)

lemma entry_bytes_nonneg: "0 \<le> entry_bytes e"
  by (simp add: entry_bytes_def)

lemma evict_memory_spec:
  "evict_memory budget m (map_total entry_bytes m) = (m', bytes) \<Longrightarrow>
     suffix m' m \<and> bytes = map_total entry_bytes m' \<and> (bytes \<le> budget \<or> m' = [])"
proof (induction m)
  case (Cons p m)
  obtain k e where p: "p = (k, e)" by (cases p)
  show ?case
  proof (cases "map_total entry_bytes (p # m) > budget")
    case True
    with Cons.prems have "evict_memory budget m (map_total entry_bytes m) = (m', bytes)"
      by (simp add: p entry_bytes_fold)
    with Cons.IH show ?thesis by (auto intro: suffix_ConsI)
  next
    case False
    with Cons.prems show ?thesis by (auto simp: p)
  qed
qed simp

text \<open>The entries that stay form the longest suffix that fits.\<close>

lemma evict_memory_keeps_last:
  "entry_bytes e \<le> budget \<Longrightarrow> \<exists>m'. evict_memory budget (m @ [(k, e)]) (map_total entry_bytes m + entry_bytes e)
     = (m' @ [(k, e)], map_total entry_bytes m' + entry_bytes e)"
proof (induction m)
  case Nil
  then show ?case by (intro exI [of _ "[]"]) simp
next
  case (Cons p m)
  obtain j d where p: "p = (j, d)" by (cases p)
  show ?case
  proof (cases "map_total entry_bytes (p # m) + entry_bytes e > budget")
    case True
    then show ?thesis using Cons by (simp add: p entry_bytes_fold add.commute)
  next
    case False
    then show ?thesis by (intro exI [of _ "p # m"]) (simp add: p)
  qed
qed

lemma counted_remove:
  "counted c \<Longrightarrow> map_of (ca_memory c) key = Some e \<Longrightarrow> counted (removeMemory key e c)"
  by (simp add: counted_def removeMemory_def map_total_remove entry_bytes_def)

lemma map_keys_ok_suffix: "suffix m' m \<Longrightarrow> map_keys_ok m \<Longrightarrow> map_keys_ok m'"
  by (auto simp: suffix_def map_keys_ok_def)

lemma putMemory_shape:
  assumes "counted c"
  obtains m0 m' where "m0 = map_remove key (ca_memory c)"
    and "putMemory cfg key e c = c\<lparr>ca_memory := m', ca_memoryBytes := map_total entry_bytes m'\<rparr>"
    and "suffix m' (m0 @ [(key, e)])"
    and "map_total entry_bytes m' \<le> cacheMemoryBytes cfg \<or> m' = []"
    and "entry_bytes e \<le> cacheMemoryBytes cfg \<Longrightarrow> map_of m' key = Some e"
    and "map_keys_ok m'"
proof -
  let ?c1 = "case map_of (ca_memory c) key of Some previous \<Rightarrow> removeMemory key previous c | None \<Rightarrow> c"
  let ?m0 = "map_remove key (ca_memory c)"
  have c1: "counted ?c1" using assms counted_remove by (auto split: option.splits)
  have m1: "ca_memory ?c1 = ?m0"
    by (simp add: removeMemory_def map_remove_fresh split: option.splits)
  obtain m' b where ev: "evict_memory (cacheMemoryBytes cfg) (?m0 @ [(key, e)])
      (map_total entry_bytes (?m0 @ [(key, e)])) = (m', b)"
    by (cases "evict_memory (cacheMemoryBytes cfg) (?m0 @ [(key, e)]) (map_total entry_bytes (?m0 @ [(key, e)]))")
  have set1: "map_set key e (ca_memory ?c1) = ?m0 @ [(key, e)]"
    unfolding m1 by (rule map_move_to_end)
  have bytes1: "ca_memoryBytes ?c1 = map_total entry_bytes ?m0" using c1 by (simp add: counted_def m1)
  note spec = evict_memory_spec [OF ev]
  have put: "putMemory cfg key e c = ?c1\<lparr>ca_memory := m', ca_memoryBytes := b\<rparr>"
    unfolding putMemory_def Let_def set1 using ev bytes1 by (simp add: entry_bytes_def)
  have "?c1\<lparr>ca_memory := m', ca_memoryBytes := b\<rparr> = c\<lparr>ca_memory := m', ca_memoryBytes := b\<rparr>"
    by (simp add: removeMemory_def split: option.splits)
  with put spec have "putMemory cfg key e c = c\<lparr>ca_memory := m', ca_memoryBytes := map_total entry_bytes m'\<rparr>"
    by simp
  moreover have keys: "map_keys_ok m'"
  proof (rule map_keys_ok_suffix)
    show "suffix m' (?m0 @ [(key, e)])" using spec by simp
    show "map_keys_ok (?m0 @ [(key, e)])"
      using assms by (simp add: map_move_to_end [symmetric] counted_def)
  qed
  moreover have "map_of m' key = Some e" if fits: "entry_bytes e \<le> cacheMemoryBytes cfg"
  proof -
    obtain m'' where "m' = m'' @ [(key, e)]" using evict_memory_keeps_last [OF fits, of ?m0 key] ev by auto
    with keys show ?thesis by (intro map_keys_ok_map_of) auto
  qed
  ultimately show ?thesis using that spec by blast
qed

lemma putMemory_inv: "counted c \<Longrightarrow> 0 \<le> cacheMemoryBytes cfg \<Longrightarrow> cache_inv cfg (putMemory cfg key e c)"
  by (rule putMemory_shape [of c key cfg e]) (auto simp: cache_inv_def)

lemma putMemory_stores:
  "counted c \<Longrightarrow> entry_bytes e \<le> cacheMemoryBytes cfg \<Longrightarrow> map_of (ca_memory (putMemory cfg key e c)) key = Some e"
  by (rule putMemory_shape [of c key cfg e]) auto

lemma cache_inv_counted: "cache_inv cfg c \<Longrightarrow> counted c"
  by (simp add: cache_inv_def counted_def)

lemma cache_inv_storage [simp]:
  "cache_inv cfg (c\<lparr>ca_storage := s\<rparr>) = cache_inv cfg c" "counted (c\<lparr>ca_storage := s\<rparr>) = counted c"
  by (simp_all add: cache_inv_def counted_def)

lemma removeMemory_inv:
  "cache_inv cfg c \<Longrightarrow> map_of (ca_memory c) key = Some e \<Longrightarrow> cache_inv cfg (removeMemory key e c)"
  using counted_remove [of c key e] entry_bytes_nonneg [of e]
  by (auto simp: cache_inv_def counted_def removeMemory_def entry_bytes_def)

lemma cache_get_disk_inv:
  "cache_inv cfg c \<Longrightarrow> 0 \<le> cacheMemoryBytes cfg \<Longrightarrow> cache_inv cfg (snd (cache_get_disk cfg S now key c))"
  by (auto simp: cache_get_disk_def putMemory_inv cache_inv_counted split: prod.splits option.splits)

lemma cache_get_inv:
  assumes "cache_inv cfg c" and "0 \<le> cacheMemoryBytes cfg"
  shows "cache_inv cfg (snd (cache_get cfg S now key c))"
proof (cases "map_of (ca_memory c) key")
  case (Some e)
  have "map_total entry_bytes (map_set key e (map_remove key (ca_memory c))) = map_total entry_bytes (ca_memory c)"
    using assms(1) Some by (simp add: map_move_to_end map_total_remove cache_inv_def)
  then show ?thesis
    using assms Some by (auto simp: cache_get_def cache_get_disk_inv removeMemory_inv) (simp add: cache_inv_def)
qed (use assms in \<open>simp add: cache_get_def cache_get_disk_inv\<close>)

datatype cache_event =
    CacheGet millis string
  | CachePut millis string buffer int metadata
  | CacheDelete string
  | CachePurge "string option"

fun cache_apply :: "config \<Rightarrow> 's cache_storage \<Rightarrow> cache_event \<Rightarrow> 's cache \<Rightarrow> 's cache" where
  "cache_apply cfg S (CacheGet now k) c = snd (cache_get cfg S now k c)"
| "cache_apply cfg S (CachePut now k b ttl m) c = cache_put cfg S now k b ttl m c"
| "cache_apply cfg S (CacheDelete k) c = cache_delete S k c"
| "cache_apply cfg S (CachePurge v) c = snd (cache_purge S v c)"

lemma cache_apply_inv:
  "cache_inv cfg c \<Longrightarrow> 0 \<le> cacheMemoryBytes cfg \<Longrightarrow> cache_inv cfg (cache_apply cfg S e c)"
proof (cases e)
  case (CachePurge v)
  assume "0 \<le> cacheMemoryBytes cfg"
  with CachePurge show ?thesis by (simp add: cache_purge_def cache_inv_def split: prod.splits)
qed (auto simp: cache_get_inv cache_put_def putMemory_inv cache_inv_counted cache_delete_def Let_def
       removeMemory_inv split: option.splits)

definition cache_start :: "'s \<Rightarrow> 's cache" where
  "cache_start s = \<lparr>ca_memory = [], ca_memoryBytes = 0, ca_storage = s\<rparr>"

interpretation cache_system: event_system "cache_apply cfg S"
    "\<lambda>c. 0 \<le> cacheMemoryBytes cfg \<and> cache_inv cfg c"
  by unfold_locales (auto intro: cache_apply_inv)

text \<open>Whatever sequence of gets, puts, deletes and purges runs, on whatever storage, the byte
  counter of the memory layer is the sum of the sizes of the bodies it holds, no key is held
  twice, and the sum never exceeds \<open>cacheMemoryBytes\<close>.\<close>

theorem cache_memory_bounded:
  assumes "config_ok cfg"
  shows "let c = run_events (cache_apply cfg S) es (cache_start s) in
     ca_memoryBytes c = map_total entry_bytes (ca_memory c) \<and> ca_memoryBytes c \<le> cacheMemoryBytes cfg
     \<and> map_keys_ok (ca_memory c)"
proof -
  have "0 \<le> cacheMemoryBytes cfg \<and> cache_inv cfg (run_events (cache_apply cfg S) es (cache_start s))"
    by (rule cache_system.run_inv) (use assms in \<open>simp add: config_ok_def cache_start_def cache_inv_def\<close>)
  then show ?thesis by (simp add: cache_inv_def Let_def)
qed

text \<open>A body that fits the budget is there right after it was put, and the next read serves it
  from memory until its time to live is over, whatever was cached before.\<close>

theorem cache_put_get:
  assumes "config_ok cfg" and "int (length body) \<le> cacheMemoryBytes cfg" and "later \<le> now + ttl * 1000"
  shows "fst (cache_get cfg S later key (cache_put cfg S now key body ttl meta
           (run_events (cache_apply cfg S) es (cache_start s)))) = Some (body, meta, LayerMemory)"
proof -
  let ?c = "run_events (cache_apply cfg S) es (cache_start s)"
  let ?e = "\<lparr>en_body = body, en_metadata = meta, en_expiresAt = now + ttl * 1000\<rparr>"
  have "0 \<le> cacheMemoryBytes cfg \<and> cache_inv cfg ?c"
    by (rule cache_system.run_inv) (use assms(1) in \<open>simp add: config_ok_def cache_start_def cache_inv_def\<close>)
  then have "counted (?c\<lparr>ca_storage := putCache S now key body ttl meta (ca_storage ?c)\<rparr>)"
    by (auto dest: cache_inv_counted)
  moreover have "entry_bytes ?e \<le> cacheMemoryBytes cfg" using assms(2) by (simp add: entry_bytes_def)
  ultimately have "map_of (ca_memory (cache_put cfg S now key body ttl meta ?c)) key = Some ?e"
    unfolding cache_put_def by (rule putMemory_stores)
  with assms(3) show ?thesis by (simp add: cache_get_def)
qed

section \<open>What the cache needs from its storage\<close>

text \<open>
  \<open>holds s k x\<close> says that a read of \<open>k\<close> could return \<open>x\<close>. No operation makes a read return
  anything but the last value put under that key, and a deletion ends it.
\<close>

locale cache_backing =
  fixes S :: "'s cache_storage"
    and ok :: "'s \<Rightarrow> bool"
    and key_ok :: "string \<Rightarrow> bool"
    and holds :: "'s \<Rightarrow> string \<Rightarrow> buffer \<times> metadata \<Rightarrow> bool"
  assumes get_ok: "ok s \<Longrightarrow> ok (snd (getCache S now k s))"
    and put_ok: "ok s \<Longrightarrow> key_ok k \<Longrightarrow> ok (putCache S now k b ttl m s)"
    and delete_ok: "ok s \<Longrightarrow> ok (deleteCache S k s)"
    and purge_ok: "ok s \<Longrightarrow> ok (snd (purgeCache S v s))"
    and get_holds: "ok s \<Longrightarrow> fst (getCache S now k s) = Some x \<Longrightarrow> holds s k x"
    and holds_get: "ok s \<Longrightarrow> holds (snd (getCache S now j s)) k x \<Longrightarrow> holds s k x"
    and holds_put: "ok s \<Longrightarrow> key_ok j \<Longrightarrow> holds (putCache S now j b ttl m s) k x \<Longrightarrow>
                      (if k = j then x = (b, m) else holds s k x)"
    and holds_delete: "ok s \<Longrightarrow> holds (deleteCache S j s) k x \<Longrightarrow> k \<noteq> j \<and> holds s k x"
    and holds_purge: "ok s \<Longrightarrow> holds (snd (purgeCache S v s)) k x \<Longrightarrow> v \<noteq> None \<and> holds s k x"
begin

text \<open>The specification of a cache: a map from keys to the last value put, which it may forget.\<close>

definition coherent :: "(string \<rightharpoonup> buffer \<times> metadata) \<Rightarrow> 's cache \<Rightarrow> bool" where
  "coherent spec c \<longleftrightarrow>
     ok (ca_storage c) \<and> counted c \<and>
     (\<forall>k e. map_of (ca_memory c) k = Some e \<longrightarrow> spec k = Some (en_body e, en_metadata e)) \<and>
     (\<forall>k x. holds (ca_storage c) k x \<longrightarrow> spec k = Some x)"

lemma coherentD:
  assumes "coherent spec c"
  shows "ok (ca_storage c)" and "counted c"
    and "map_of (ca_memory c) k = Some e \<Longrightarrow> spec k = Some (en_body e, en_metadata e)"
    and "holds (ca_storage c) k x \<Longrightarrow> spec k = Some x"
  using assms unfolding coherent_def by blast+

lemma coherent_remove:
  "coherent spec c \<Longrightarrow> map_of (ca_memory c) key = Some e \<Longrightarrow> coherent spec (removeMemory key e c)"
  using counted_remove [of c key e] by (auto simp: coherent_def removeMemory_def)

lemma coherent_putMemory:
  assumes ok: "ok (ca_storage c)" and cnt: "counted c" and new: "spec key = Some (en_body e, en_metadata e)"
    and mem: "\<And>k d. k \<noteq> key \<Longrightarrow> map_of (ca_memory c) k = Some d \<Longrightarrow> spec k = Some (en_body d, en_metadata d)"
    and disk: "\<And>k x. holds (ca_storage c) k x \<Longrightarrow> spec k = Some x"
  shows "coherent spec (putMemory cfg key e c)"
proof -
  from cnt obtain m0 m' where m0: "m0 = map_remove key (ca_memory c)"
    and put: "putMemory cfg key e c = c\<lparr>ca_memory := m', ca_memoryBytes := map_total entry_bytes m'\<rparr>"
    and suf: "suffix m' (m0 @ [(key, e)])" and keys: "map_keys_ok m'" by (rule putMemory_shape)
  have "spec k = Some (en_body d, en_metadata d)" if "map_of m' k = Some d" for k d
  proof -
    have "(k, d) \<in> set (m0 @ [(key, e)])"
      using map_of_SomeD [OF that] set_mono_suffix [OF suf] by blast
    then show ?thesis
    proof (cases "k = key")
      case False
      with \<open>(k, d) \<in> set (m0 @ [(key, e)])\<close> have "(k, d) \<in> set (ca_memory c)" by (simp add: m0 set_map_remove)
      then have "map_of (ca_memory c) k = Some d"
        using cnt by (intro map_keys_ok_map_of) (simp_all add: counted_def)
      with False show ?thesis by (rule mem)
    next
      case True
      with \<open>(k, d) \<in> set (m0 @ [(key, e)])\<close> have "d = e" by (simp add: m0 set_map_remove)
      with True new show ?thesis by simp
    qed
  qed
  with ok keys disk show ?thesis by (auto simp: put coherent_def counted_def)
qed

lemma coherent_get_disk:
  assumes "coherent spec c"
  shows "coherent spec (snd (cache_get_disk cfg S now key c))"
    and "fst (cache_get_disk cfg S now key c) = Some (b, m, l) \<Longrightarrow> spec key = Some (b, m)"
proof -
  note d = coherentD [OF assms]
  have found: "spec key = Some x" if "fst (getCache S now key (ca_storage c)) = Some x" for x
    using d(4) get_holds [OF d(1) that] by simp
  show "fst (cache_get_disk cfg S now key c) = Some (b, m, l) \<Longrightarrow> spec key = Some (b, m)"
    using found by (auto simp: cache_get_disk_def split: prod.splits option.splits)
  have ok': "ok (snd (getCache S now key (ca_storage c)))" by (rule get_ok [OF d(1)])
  have disk': "spec k = Some x" if "holds (snd (getCache S now key (ca_storage c))) k x" for k x
    using d(4) holds_get [OF d(1) that] by simp
  obtain r st where g: "getCache S now key (ca_storage c) = (r, st)" by fastforce
  show "coherent spec (snd (cache_get_disk cfg S now key c))"
  proof (cases r)
    case None
    with g ok' disk' d show ?thesis by (auto simp: cache_get_disk_def coherent_def)
  next
    case (Some x)
    with g ok' disk' d found show ?thesis
      by (cases x) (auto simp: cache_get_disk_def intro!: coherent_putMemory)
  qed
qed

lemma coherent_get:
  assumes "coherent spec c"
  shows "coherent spec (snd (cache_get cfg S now key c))"
    and "fst (cache_get cfg S now key c) = Some (b, m, l) \<Longrightarrow> spec key = Some (b, m)"
proof -
  note d = coherentD [OF assms]
  have moved: "coherent spec (c\<lparr>ca_memory := map_set key e (map_remove key (ca_memory c))\<rparr>)"
    if e: "map_of (ca_memory c) key = Some e" for e
  proof -
    have "map_of (map_set key e (map_remove key (ca_memory c))) = map_of (ca_memory c)"
      using e by (intro ext) simp
    moreover have "map_total entry_bytes (map_set key e (map_remove key (ca_memory c)))
        = map_total entry_bytes (ca_memory c)"
      using e d(2) by (simp add: map_move_to_end map_total_remove counted_def)
    ultimately show ?thesis using assms d(2) by (simp add: coherent_def counted_def)
  qed
  show "coherent spec (snd (cache_get cfg S now key c))"
    using assms by (auto simp: cache_get_def coherent_get_disk coherent_remove moved split: option.splits)
  assume r: "fst (cache_get cfg S now key c) = Some (b, m, l)"
  show "spec key = Some (b, m)"
  proof (cases "map_of (ca_memory c) key")
    case None
    with r coherent_get_disk(2) [OF assms] show ?thesis by (simp add: cache_get_def)
  next
    case (Some e)
    show ?thesis
    proof (cases "en_expiresAt e \<ge> now")
      case False
      with r Some have "fst (cache_get_disk cfg S now key (removeMemory key e c)) = Some (b, m, l)"
        by (simp add: cache_get_def)
      with coherent_remove [OF assms Some] show ?thesis by (rule coherent_get_disk(2))
    qed (use r Some d(3) [OF Some] in \<open>simp add: cache_get_def\<close>)
  qed
qed

lemma coherent_put:
  assumes "coherent spec c" and "key_ok key"
  shows "coherent (spec(key \<mapsto> (b, m))) (cache_put cfg S now key b ttl m c)"
proof -
  note d = coherentD [OF assms(1)]
  show ?thesis
    unfolding cache_put_def
    by (rule coherent_putMemory)
       (use d holds_put [OF d(1) assms(2)] put_ok [OF d(1) assms(2)] in \<open>auto split: if_splits\<close>)
qed

lemma coherent_storage:
  assumes "counted c" and "ok (ca_storage c)"
    and "\<And>k e. map_of (ca_memory c) k = Some e \<Longrightarrow> spec k = Some (en_body e, en_metadata e)"
    and "\<And>k x. holds (ca_storage c) k x \<Longrightarrow> spec k = Some x"
  shows "coherent spec c"
  using assms unfolding coherent_def by blast

lemma coherent_delete:
  assumes "coherent spec c"
  shows "coherent (spec(key := None)) (cache_delete S key c)"
proof -
  note d = coherentD [OF assms]
  define c1 where "c1 = (case map_of (ca_memory c) key of Some e \<Rightarrow> removeMemory key e c | None \<Rightarrow> c)"
  have m: "map_of (ca_memory c1) = (map_of (ca_memory c))(key := None)"
    by (rule ext) (simp add: c1_def removeMemory_def split: option.splits)
  have st: "ca_storage c1 = ca_storage c" and cnt: "counted c1"
    using d(2) counted_remove [of c key] by (simp_all add: c1_def removeMemory_def split: option.splits)
  have "cache_delete S key c = c1\<lparr>ca_storage := deleteCache S key (ca_storage c)\<rparr>"
    by (simp add: cache_delete_def Let_def c1_def [symmetric] st)
  moreover have "spec k = Some x \<and> k \<noteq> key" if "holds (deleteCache S key (ca_storage c)) k x" for k x
    using holds_delete [OF d(1) that] d(4) by blast
  ultimately show ?thesis
    using cnt delete_ok [OF d(1)] d(3) m by (intro coherent_storage) (auto split: if_splits)
qed

lemma coherent_purge:
  assumes "coherent spec c"
  shows "coherent (if v = None then Map.empty else spec) (snd (cache_purge S v c))"
proof -
  note d = coherentD [OF assms]
  have s: "v \<noteq> None \<and> spec k = Some x" if "holds (snd (purgeCache S v (ca_storage c))) k x" for k x
    using holds_purge [OF d(1) that] d(4) by blast
  have "snd (cache_purge S v c)
      = c\<lparr>ca_memory := [], ca_memoryBytes := 0, ca_storage := snd (purgeCache S v (ca_storage c))\<rparr>"
    by (simp add: cache_purge_def split: prod.splits)
  with s purge_ok [OF d(1)] show ?thesis
    by (intro coherent_storage) (auto simp: counted_def)
qed

end

text \<open>The last value put under each key by a sequence of operations.\<close>

fun spec_apply :: "cache_event \<Rightarrow> (string \<rightharpoonup> buffer \<times> metadata) \<Rightarrow> (string \<rightharpoonup> buffer \<times> metadata)" where
  "spec_apply (CacheGet now k) spec = spec"
| "spec_apply (CachePut now k b ttl m) spec = spec(k \<mapsto> (b, m))"
| "spec_apply (CacheDelete k) spec = spec(k := None)"
| "spec_apply (CachePurge v) spec = (if v = None then Map.empty else spec)"

fun event_key_ok :: "(string \<Rightarrow> bool) \<Rightarrow> cache_event \<Rightarrow> bool" where
  "event_key_ok ok (CachePut now k b ttl m) = ok k"
| "event_key_ok ok _ = True"

context cache_backing
begin

lemma coherent_apply:
  "coherent spec c \<Longrightarrow> event_key_ok key_ok e \<Longrightarrow> coherent (spec_apply e spec) (cache_apply cfg S e c)"
  by (cases e) (simp_all only: spec_apply.simps cache_apply.simps event_key_ok.simps
      coherent_get coherent_put coherent_delete coherent_purge)

lemma coherent_run:
  "coherent spec c \<Longrightarrow> list_all (event_key_ok key_ok) es \<Longrightarrow>
     coherent (run_events spec_apply es spec) (run_events (cache_apply cfg S) es c)"
proof (induction es arbitrary: spec c)
  case (Cons e es)
  from Cons.prems have "coherent (spec_apply e spec) (cache_apply cfg S e c)" by (simp add: coherent_apply)
  with Cons show ?case by (simp add: run_events_def)
qed (simp add: run_events_def)

end

section \<open>One factory call per key\<close>

text \<open>The calls of the factory that are outstanding, beside the map \<open>inflight\<close>.\<close>

datatype coalesce_event = Coalesce string int | Settled string

fun coalesce_apply ::
  "coalesce_event \<Rightarrow> (string, int) jsmap \<times> (string \<times> int) list \<Rightarrow> (string, int) jsmap \<times> (string \<times> int) list" where
  "coalesce_apply (Coalesce key fresh) (m, calls) =
     (case coalesce key fresh m of ((p, called), m') \<Rightarrow> (m', if called then calls @ [(key, p)] else calls))"
| "coalesce_apply (Settled key) (m, calls) =
     (if key \<in> fst ` set calls
      then (coalesce_settled key m, map_remove key calls) else (m, calls))"

definition coalesce_inv :: "(string, int) jsmap \<times> (string \<times> int) list \<Rightarrow> bool" where
  "coalesce_inv s \<longleftrightarrow> map_keys_ok (snd s) \<and> fst s = snd s"

lemma coalesce_apply_inv: "coalesce_inv s \<Longrightarrow> coalesce_inv (coalesce_apply e s)"
  by (cases s; cases e)
     (auto simp: coalesce_inv_def coalesce_def coalesce_settled_def map_set_append_fresh
        map_keys_ok_def map_of_eq_None_iff distinct_delete split: option.splits)

interpretation coalescer: event_system coalesce_apply coalesce_inv
  by unfold_locales (rule coalesce_apply_inv)

text \<open>\<open>coalesce\<close> runs at most one factory per key at a time: after any sequence of calls and
  settlements the outstanding factory calls have distinct keys, and they are exactly the promises
  the map shares with later callers.\<close>

theorem coalesce_single:
  "let (inflight, calls) = run_events coalesce_apply es ([], []) in
     distinct (map fst calls) \<and> inflight = calls"
  using coalescer.run_inv [of "([], [])" es] by (auto simp: coalesce_inv_def map_keys_ok_def split: prod.splits)

end
