(* ===== verification/OB_CacheStore.thy ===== *)
theory OB_CacheStore
  imports OB_Cache "HOL-Library.Countable"
begin

text \<open>
  The disk layer of the cache, \<open>src/src/storage/cache-store.ts\<close>: the table \<open>cache_entries\<close> keyed by
  \<open>key\<close>, the body files, expiry, purge by \<open>LIKE\<close> and the eviction that runs after every put. The
  interpretation of \<open>cache_backing\<close> shows that it gives the memory layer what it needs. Rows that
  tie in \<open>ORDER BY\<close> keep the order of insertion.
\<close>

record cache_row =
  cr_path :: "string list"
  cr_bytes :: int
  cr_expiresAt :: millis
  cr_lastAccess :: millis
  cr_metadata :: string

record cache_disk =
  cd_rows :: "(string, cache_row) jsmap"
  cd_files :: "(string list, buffer) jsmap"

text \<open>The JSON codec of the metadata column.\<close>

record json_codec =
  js_stringify :: "metadata \<Rightarrow> string"
  js_parse :: "string \<Rightarrow> metadata option"

definition codec_ok :: "json_codec \<Rightarrow> bool" where
  "codec_ok J \<longleftrightarrow> (\<forall>m. js_parse J (js_stringify J m) = Some m)"

section \<open>Operations\<close>

fun replace_first :: "string \<Rightarrow> string \<Rightarrow> string" where
  "replace_first p [] = (if p = [] then [] else [])"
| "replace_first p (c # s) = (if prefix p (c # s) then drop (length p) (c # s) else c # replace_first p s)"

definition cache_path :: "string \<Rightarrow> string \<Rightarrow> string list" where
  "cache_path cacheDir key =
     (let hash = replace_first ''sha256:'' key
      in [cacheDir, take 2 hash, take 2 (drop 2 hash), hash])"

definition disk_total :: "cache_disk \<Rightarrow> int" where
  "disk_total d = map_total cr_bytes (cd_rows d)"

definition disk_delete :: "string \<Rightarrow> string list \<Rightarrow> cache_disk \<Rightarrow> cache_disk" where
  "disk_delete key path d = d\<lparr>cd_rows := map_remove key (cd_rows d), cd_files := map_remove path (cd_files d)\<rparr>"

definition disk_get ::
  "json_codec \<Rightarrow> millis \<Rightarrow> string \<Rightarrow> cache_disk \<Rightarrow> (buffer \<times> metadata) option \<times> cache_disk" where
  "disk_get J now key d =
     (case map_of (cd_rows d) key of
        None \<Rightarrow> (None, d)
      | Some row \<Rightarrow>
          if cr_expiresAt row < now then (None, disk_delete key (cr_path row) d)
          else (case map_of (cd_files d) (cr_path row) of
                  None \<Rightarrow> (None, disk_delete key (cr_path row) d)
                | Some body \<Rightarrow>
                    (let d' = d\<lparr>cd_rows := map_set key (row\<lparr>cr_lastAccess := now\<rparr>) (cd_rows d)\<rparr>
                     in case js_parse J (cr_metadata row) of
                          Some meta \<Rightarrow> (Some (body, meta), d')
                        | None \<Rightarrow> (None, disk_delete key (cr_path row) d'))))"

fun evict_rows :: "int \<Rightarrow> (string \<times> cache_row) list \<Rightarrow> cache_disk \<Rightarrow> cache_disk" where
  "evict_rows target [] d = d"
| "evict_rows target ((key, row) # rest) d =
     (let d' = disk_delete key (cr_path row) d
      in if disk_total d' \<le> target then d' else evict_rows target rest d')"

definition eviction_order :: "cache_disk \<Rightarrow> (string \<times> cache_row) list" where
  "eviction_order d = sort_key (\<lambda>(_, row). (cr_expiresAt row, cr_lastAccess row)) (cd_rows d)"

definition disk_evict :: "config \<Rightarrow> cache_disk \<Rightarrow> cache_disk" where
  "disk_evict cfg d =
     (if disk_total d \<le> cacheDiskBytes cfg then d
      else evict_rows \<lfloor>rat_of_int (cacheDiskBytes cfg) * (3 / 4)\<rfloor> (eviction_order d) d)"

definition disk_put ::
  "config \<Rightarrow> string \<Rightarrow> json_codec \<Rightarrow> millis \<Rightarrow> string \<Rightarrow> buffer \<Rightarrow> int \<Rightarrow> metadata \<Rightarrow> cache_disk \<Rightarrow> cache_disk" where
  "disk_put cfg cacheDir J now key body ttl meta d =
     (let path = cache_path cacheDir key;
          row = \<lparr>cr_path = path, cr_bytes = int (length body), cr_expiresAt = now + ttl * 1000,
                 cr_lastAccess = now, cr_metadata = js_stringify J meta\<rparr>
      in disk_evict cfg
           \<lparr>cd_rows = map_set key row (map_remove key (cd_rows d)),
            cd_files = map_set path body (cd_files d)\<rparr>)"

definition disk_remove :: "string \<Rightarrow> cache_disk \<Rightarrow> cache_disk" where
  "disk_remove key d =
     (case map_of (cd_rows d) key of Some row \<Rightarrow> disk_delete key (cr_path row) d | None \<Rightarrow> d)"

text \<open>SQL \<open>LIKE\<close>: \<open>%\<close> is any text, \<open>_\<close> any character, letters match without regard to case.\<close>

fun sql_like :: "string \<Rightarrow> string \<Rightarrow> bool" where
  "sql_like [] s \<longleftrightarrow> s = []"
| "sql_like (p # ps) [] \<longleftrightarrow> p = CHR ''%'' \<and> sql_like ps []"
| "sql_like (p # ps) (c # s) \<longleftrightarrow>
     (if p = CHR ''%'' then sql_like ps (c # s) \<or> sql_like (p # ps) s
      else (p = CHR ''_'' \<or> lower_char p = lower_char c) \<and> sql_like ps s)"

definition purge_rows :: "string option \<Rightarrow> cache_disk \<Rightarrow> (string \<times> cache_row) list" where
  "purge_rows v d =
     (case v of
        None \<Rightarrow> cd_rows d
      | Some t \<Rightarrow> if t = [] then cd_rows d
                 else filter (\<lambda>(_, row). sql_like (''%'' @ t @ ''%'') (cr_metadata row)) (cd_rows d))"

definition disk_purge :: "string option \<Rightarrow> cache_disk \<Rightarrow> nat \<times> cache_disk" where
  "disk_purge v d =
     (let rows = purge_rows v d
      in (length rows, fold (\<lambda>(key, row). disk_delete key (cr_path row)) rows d))"

definition disk_stats :: "cache_disk \<Rightarrow> nat \<times> int" where
  "disk_stats d = (length (cd_rows d), disk_total d)"

definition disk_storage :: "config \<Rightarrow> string \<Rightarrow> json_codec \<Rightarrow> cache_disk cache_storage" where
  "disk_storage cfg cacheDir J =
     \<lparr>getCache = disk_get J, putCache = disk_put cfg cacheDir J, deleteCache = disk_remove,
      purgeCache = disk_purge\<rparr>"

section \<open>Eviction\<close>

text \<open>
  The table is well formed: one row per key, every key a digest key, every row at the path of its
  key, so no two rows share a file.
\<close>

definition digest_key :: "string \<Rightarrow> bool" where
  "digest_key key \<longleftrightarrow> starts_with key ''sha256:''"

definition disk_ok :: "string \<Rightarrow> cache_disk \<Rightarrow> bool" where
  "disk_ok cacheDir d \<longleftrightarrow>
     map_keys_ok (cd_rows d) \<and>
     (\<forall>(key, row) \<in> set (cd_rows d). digest_key key \<and> cr_path row = cache_path cacheDir key \<and> 0 \<le> cr_bytes row)"

lemma cache_path_inject: "digest_key j \<Longrightarrow> digest_key k \<Longrightarrow> cache_path dir j = cache_path dir k \<longleftrightarrow> j = k"
  by (auto simp: digest_key_def starts_with_def cache_path_def Let_def prefix_def)

lemma disk_okD:
  assumes "disk_ok dir d" and "map_of (cd_rows d) k = Some row"
  shows "digest_key k" and "cr_path row = cache_path dir k" and "0 \<le> cr_bytes row"
  using assms by (auto simp: disk_ok_def dest!: map_of_SomeD)

lemma disk_delete_rows [simp]:
  "cd_rows (disk_delete key path d) = map_remove key (cd_rows d)"
  "cd_files (disk_delete key path d) = map_remove path (cd_files d)"
  by (simp_all add: disk_delete_def)

lemma disk_ok_delete: "disk_ok dir d \<Longrightarrow> disk_ok dir (disk_delete key path d)"
  by (auto simp: disk_ok_def set_map_remove)

lemma disk_total_nonneg: "disk_ok dir d \<Longrightarrow> 0 \<le> disk_total d"
  unfolding disk_total_def map_total_def by (rule sum_list_map_nonneg) (auto simp: disk_ok_def)

lemma evict_rows_ok: "disk_ok dir d \<Longrightarrow> disk_ok dir (evict_rows target rows d)"
  by (induction rows arbitrary: d) (auto simp: Let_def disk_ok_delete)

lemma evict_rows_total:
  "fst ` set (cd_rows d) \<subseteq> fst ` set rows \<Longrightarrow> 0 \<le> target \<Longrightarrow> disk_total (evict_rows target rows d) \<le> target"
proof (induction rows arbitrary: d)
  case Nil
  then show ?case by (simp add: disk_total_def)
next
  case (Cons p rows)
  obtain k row where p: "p = (k, row)" by (cases p)
  have "fst ` set (cd_rows (disk_delete k (cr_path row) d)) \<subseteq> fst ` set rows"
    using Cons.prems(1) by (auto simp: p set_map_remove)
  with Cons show ?case by (simp add: p Let_def)
qed

lemma disk_evict_total:
  assumes "0 \<le> cacheDiskBytes cfg"
  shows "disk_total (disk_evict cfg d) \<le> cacheDiskBytes cfg"
proof (cases "disk_total d \<le> cacheDiskBytes cfg")
  case False
  let ?t = "\<lfloor>rat_of_int (cacheDiskBytes cfg) * (3 / 4)\<rfloor>"
  have "disk_total (evict_rows ?t (eviction_order d) d) \<le> ?t"
    by (rule evict_rows_total) (use assms in \<open>simp_all add: eviction_order_def\<close>)
  also have "?t \<le> cacheDiskBytes cfg"
  proof -
    have "rat_of_int (cacheDiskBytes cfg) * (3 / 4) \<le> rat_of_int (cacheDiskBytes cfg)" using assms by simp
    then show ?thesis by linarith
  qed
  finally show ?thesis using False by (simp add: disk_evict_def)
qed (simp add: disk_evict_def)

lemma disk_evict_ok: "disk_ok dir d \<Longrightarrow> disk_ok dir (disk_evict cfg d)"
  by (simp add: disk_evict_def evict_rows_ok)

text \<open>Eviction removes a prefix of its order: no entry goes while one that expires sooner stays.\<close>

lemma evict_rows_drop:
  assumes "map_keys_ok (cd_rows d)" and "set (cd_rows d) = set rows" and "distinct (map fst rows)"
  shows "\<exists>n. set (cd_rows (evict_rows target rows d)) = set (drop n rows)"
  using assms
proof (induction rows arbitrary: d)
  case Nil
  then show ?case by (intro exI [of _ 0]) simp
next
  case (Cons p rows)
  obtain k row where p: "p = (k, row)" by (cases p)
  let ?d = "disk_delete k (cr_path row) d"
  have s: "set (cd_rows ?d) = set rows"
    using Cons.prems(2,3) by (auto simp: p set_map_remove image_iff)
  show ?case
  proof (cases "disk_total ?d \<le> target")
    case True
    with s show ?thesis by (intro exI [of _ 1]) (simp add: p Let_def)
  next
    case False
    from Cons.IH [of ?d] Cons.prems s obtain n where
      "set (cd_rows (evict_rows target rows ?d)) = set (drop n rows)" by auto
    with False show ?thesis by (intro exI [of _ "Suc n"]) (simp add: p Let_def)
  qed
qed

lemma sorted_drop_le:
  assumes "sorted (map f xs)" and "x \<in> set (take n xs)" and "y \<in> set (drop n xs)"
  shows "f x \<le> (f y :: 'b::linorder)"
proof -
  have "sorted (map f (take n xs) @ map f (drop n xs))" using assms(1) by (simp flip: map_append)
  with assms(2,3) show ?thesis by (auto simp: sorted_append)
qed

lemma disk_evict_order:
  assumes ok: "disk_ok dir d" and p: "p \<in> set (cd_rows d) - set (cd_rows (disk_evict cfg d))"
    and q: "q \<in> set (cd_rows (disk_evict cfg d))"
  shows "(cr_expiresAt (snd p), cr_lastAccess (snd p)) \<le> (cr_expiresAt (snd q), cr_lastAccess (snd q))"
proof -
  let ?f = "\<lambda>(_ :: string, row). (cr_expiresAt row, cr_lastAccess row)"
  from p have big: "\<not> disk_total d \<le> cacheDiskBytes cfg" by (auto simp: disk_evict_def split: if_splits)
  have "distinct (map fst (eviction_order d))"
    using ok by (simp add: eviction_order_def disk_ok_def map_keys_ok_def distinct_map distinct_sort)
  moreover have "map_keys_ok (cd_rows d)" and "set (cd_rows d) = set (eviction_order d)"
    using ok by (simp_all add: disk_ok_def eviction_order_def)
  ultimately obtain n where n: "set (cd_rows (disk_evict cfg d)) = set (drop n (eviction_order d))"
    using evict_rows_drop [of d "eviction_order d" "\<lfloor>rat_of_int (cacheDiskBytes cfg) * (3 / 4)\<rfloor>"] big
    unfolding disk_evict_def by auto
  have "p \<in> set (take n (eviction_order d))"
  proof -
    have "p \<in> set (take n (eviction_order d)) \<union> set (drop n (eviction_order d))"
      using p by (simp only: set_append [symmetric] append_take_drop_id) (simp add: eviction_order_def)
    then show ?thesis using p n by auto
  qed
  moreover have "sorted (map ?f (eviction_order d))" by (simp add: eviction_order_def)
  ultimately have "?f p \<le> ?f q" using q n by (intro sorted_drop_le) auto
  then show ?thesis by (simp add: case_prod_unfold)
qed

lemma disk_put_inserted_ok:
  assumes "disk_ok dir d" and "digest_key key" and "0 \<le> cr_bytes row" and "cr_path row = cache_path dir key"
  shows "disk_ok dir \<lparr>cd_rows = map_set key row (map_remove key (cd_rows d)), cd_files = fs\<rparr>"
  using assms by (auto simp: disk_ok_def map_move_to_end set_map_remove)
     (metis map_keys_ok_remove map_keys_ok_set map_move_to_end)

lemma disk_put_ok: "disk_ok dir d \<Longrightarrow> digest_key key \<Longrightarrow> disk_ok dir (disk_put cfg dir J now key b ttl m d)"
  by (simp add: disk_put_def Let_def disk_evict_ok disk_put_inserted_ok)

text \<open>After every put the table holds at most \<open>cacheDiskBytes\<close>, and what the eviction removed
  expires no later than anything it kept: entries go in the order of expiry, then of last use.\<close>

theorem disk_put_evicts:
  assumes "config_ok cfg" and "disk_ok dir d" and "digest_key key"
  shows "disk_total (disk_put cfg dir J now key body ttl meta d) \<le> cacheDiskBytes cfg
    \<and> (let new = \<lparr>cr_path = cache_path dir key, cr_bytes = int (length body), cr_expiresAt = now + ttl * 1000,
                  cr_lastAccess = now, cr_metadata = js_stringify J meta\<rparr>;
           before = insert (key, new) {p \<in> set (cd_rows d). fst p \<noteq> key};
           after = set (cd_rows (disk_put cfg dir J now key body ttl meta d))
       in \<forall>p \<in> before - after. \<forall>q \<in> after.
            (cr_expiresAt (snd p), cr_lastAccess (snd p)) \<le> (cr_expiresAt (snd q), cr_lastAccess (snd q)))"
proof -
  define new where "new = \<lparr>cr_path = cache_path dir key, cr_bytes = int (length body), cr_expiresAt = now + ttl * 1000,
                  cr_lastAccess = now, cr_metadata = js_stringify J meta\<rparr>"
  define d' where "d' = \<lparr>cd_rows = map_set key new (map_remove key (cd_rows d)),
                         cd_files = map_set (cache_path dir key) body (cd_files d)\<rparr>"
  have ok: "disk_ok dir d'"
    unfolding d'_def by (rule disk_put_inserted_ok) (use assms in \<open>simp_all add: new_def\<close>)
  have put: "disk_put cfg dir J now key body ttl meta d = disk_evict cfg d'"
    by (simp add: disk_put_def d'_def new_def Let_def)
  have rows: "set (cd_rows d') = insert (key, new) {p \<in> set (cd_rows d). fst p \<noteq> key}"
    by (auto simp: d'_def map_move_to_end set_map_remove)
  have "0 \<le> cacheDiskBytes cfg" using assms(1) by (simp add: config_ok_def)
  from disk_evict_total [OF this] disk_evict_order [OF ok] rows show ?thesis
    unfolding put Let_def new_def [symmetric] by blast
qed

section \<open>The disk store as the backing of the cache\<close>

definition disk_holds :: "json_codec \<Rightarrow> cache_disk \<Rightarrow> string \<Rightarrow> buffer \<times> metadata \<Rightarrow> bool" where
  "disk_holds J d key x \<longleftrightarrow>
     (\<exists>row. map_of (cd_rows d) key = Some row \<and> map_of (cd_files d) (cr_path row) = Some (fst x)
        \<and> js_parse J (cr_metadata row) = Some (snd x))"

lemma disk_holds_delete: "disk_holds J (disk_delete j path d) k x \<Longrightarrow> k \<noteq> j \<and> disk_holds J d k x"
  by (auto simp: disk_holds_def split: if_splits)

lemma disk_holds_evict: "disk_holds J (evict_rows target rows d) k x \<Longrightarrow> disk_holds J d k x"
proof (induction rows arbitrary: d)
  case (Cons p rows)
  obtain key row where p: "p = (key, row)" by (cases p)
  let ?d = "disk_delete key (cr_path row) d"
  have "disk_holds J ?d k x"
    using Cons.prems Cons.IH [of ?d] by (cases "disk_total ?d \<le> target") (simp_all add: p Let_def)
  then show ?case by (simp add: disk_holds_delete)
qed simp

lemma disk_holds_touch:
  "map_of (cd_rows d) key = Some row \<Longrightarrow>
     disk_holds J (d\<lparr>cd_rows := map_set key (row\<lparr>cr_lastAccess := t\<rparr>) (cd_rows d)\<rparr>) k x \<Longrightarrow> disk_holds J d k x"
  by (auto simp: disk_holds_def split: if_splits)

lemma disk_ok_touch:
  "disk_ok dir d \<Longrightarrow> map_of (cd_rows d) key = Some row \<Longrightarrow>
     disk_ok dir (d\<lparr>cd_rows := map_set key (row\<lparr>cr_lastAccess := t\<rparr>) (cd_rows d)\<rparr>)"
  using disk_okD [of dir d key row] by (auto simp: disk_ok_def set_map_set)

lemma disk_get_cases:
  obtains (miss) "disk_get J now key d = (None, d)"
    | (gone) path where "disk_get J now key d = (None, disk_delete key path d)"
    | (broken) path row where "map_of (cd_rows d) key = Some row"
        "disk_get J now key d
           = (None, disk_delete key path (d\<lparr>cd_rows := map_set key (row\<lparr>cr_lastAccess := now\<rparr>) (cd_rows d)\<rparr>))"
    | (hit) row body meta where "map_of (cd_rows d) key = Some row" "now \<le> cr_expiresAt row"
        "map_of (cd_files d) (cr_path row) = Some body" "js_parse J (cr_metadata row) = Some meta"
        "disk_get J now key d
           = (Some (body, meta), d\<lparr>cd_rows := map_set key (row\<lparr>cr_lastAccess := now\<rparr>) (cd_rows d)\<rparr>)"
proof (cases "map_of (cd_rows d) key")
  case None
  then show ?thesis by (intro miss) (simp add: disk_get_def)
next
  case (Some row)
  show ?thesis
  proof (cases "cr_expiresAt row < now \<or> map_of (cd_files d) (cr_path row) = None")
    case True
    with Some show ?thesis by (intro gone [of "cr_path row"]) (auto simp: disk_get_def split: option.splits)
  next
    case False
    then obtain body where b: "map_of (cd_files d) (cr_path row) = Some body" "now \<le> cr_expiresAt row" by auto
    show ?thesis
    proof (cases "js_parse J (cr_metadata row)")
      case None
      with Some b show ?thesis by (intro broken [of row "cr_path row"]) (simp_all add: disk_get_def Let_def)
    next
      case (Some meta)
      with \<open>map_of (cd_rows d) key = Some row\<close> b show ?thesis
        by (intro hit [of row body meta]) (simp_all add: disk_get_def Let_def)
    qed
  qed
qed

lemma disk_purge_fold_ok:
  "disk_ok dir d \<Longrightarrow> disk_ok dir (fold (\<lambda>(key, row). disk_delete key (cr_path row)) rows d)"
  by (induction rows arbitrary: d) (auto simp: disk_ok_delete)

lemma disk_purge_fold_rows:
  "set (cd_rows (fold (\<lambda>(key, row). disk_delete key (cr_path row)) rows d))
     = {p \<in> set (cd_rows d). fst p \<notin> fst ` set rows}"
  by (induction rows arbitrary: d) (auto simp: set_map_remove)

lemma disk_purge_holds:
  "disk_holds J (fold (\<lambda>(key, row). disk_delete key (cr_path row)) rows d) k x \<Longrightarrow> disk_holds J d k x"
proof (induction rows arbitrary: d)
  case (Cons p rows)
  obtain key row where p: "p = (key, row)" by (cases p)
  from Cons.prems have "disk_holds J (fold (\<lambda>(key, row). disk_delete key (cr_path row)) rows
      (disk_delete key (cr_path row) d)) k x" by (simp add: p)
  then have "disk_holds J (disk_delete key (cr_path row) d) k x" by (rule Cons.IH)
  then show ?case by (simp add: disk_holds_delete)
qed simp

lemma disk_purge_all:
  "cd_rows (fold (\<lambda>(key, row). disk_delete key (cr_path row)) (cd_rows d) d) = []"
proof -
  have "set (cd_rows (fold (\<lambda>(key, row). disk_delete key (cr_path row)) (cd_rows d) d)) = {}"
    by (auto simp: disk_purge_fold_rows)
  then show ?thesis by simp
qed

lemma disk_holds_put:
  assumes J: "codec_ok J" and ok: "disk_ok dir d" and j: "digest_key j"
    and h: "disk_holds J (disk_put cfg dir J now j b ttl m d) k x"
  shows "if k = j then x = (b, m) else disk_holds J d k x"
proof -
  define new where "new = \<lparr>cr_path = cache_path dir j, cr_bytes = int (length b), cr_expiresAt = now + ttl * 1000,
                  cr_lastAccess = now, cr_metadata = js_stringify J m\<rparr>"
  define d' where "d' = \<lparr>cd_rows = map_set j new (map_remove j (cd_rows d)),
                         cd_files = map_set (cache_path dir j) b (cd_files d)\<rparr>"
  have ok': "disk_ok dir d'"
    unfolding d'_def by (rule disk_put_inserted_ok) (use ok j in \<open>simp_all add: new_def\<close>)
  have "disk_put cfg dir J now j b ttl m d = disk_evict cfg d'"
    by (simp add: disk_put_def d'_def new_def Let_def)
  with h have "disk_holds J d' k x" using disk_holds_evict [of J _ _ d'] by (auto simp: disk_evict_def split: if_splits)
  then obtain row where r: "map_of (cd_rows d') k = Some row" "map_of (cd_files d') (cr_path row) = Some (fst x)"
    "js_parse J (cr_metadata row) = Some (snd x)" by (auto simp: disk_holds_def)
  show ?thesis
  proof (cases "k = j")
    case True
    with r(1) have "row = new" by (simp add: d'_def)
    with r(2,3) J True show ?thesis by (cases x) (simp add: d'_def new_def codec_ok_def)
  next
    case False
    with r(1) have old: "map_of (cd_rows d) k = Some row" by (simp add: d'_def)
    from disk_okD [OF ok old] False j have "cr_path row \<noteq> cache_path dir j" by (simp add: cache_path_inject)
    with r(2) have "map_of (cd_files d) (cr_path row) = Some (fst x)" by (simp add: d'_def)
    with old r(3) False show ?thesis by (auto simp: disk_holds_def)
  qed
qed

interpretation disk_cache: cache_backing "disk_storage cfg dir J" "\<lambda>d. codec_ok J \<and> disk_ok dir d" digest_key
    "disk_holds J"
proof (unfold_locales, unfold disk_storage_def cache_storage.simps, goal_cases)
  case (1 s now k)
  then show ?case by (cases rule: disk_get_cases [of J now k s]) (auto simp: disk_ok_delete disk_ok_touch)
next
  case (2 s k now b ttl m)
  then show ?case by (simp add: disk_put_ok)
next
  case (3 s k)
  then show ?case by (simp add: disk_remove_def disk_ok_delete split: option.splits)
next
  case (4 s v)
  then show ?case by (simp add: disk_purge_def Let_def disk_purge_fold_ok)
next
  case (5 s now k x)
  then show ?case by (cases rule: disk_get_cases [of J now k s]) (auto simp: disk_holds_def)
next
  case (6 s now j k x)
  then show ?case
    by (cases rule: disk_get_cases [of J now j s])
       (auto dest: disk_holds_delete disk_holds_touch simp: disk_ok_touch)
next
  case (7 s j now b ttl m k x)
  then show ?case using disk_holds_put [of J dir s j cfg now b ttl m k x] by blast
next
  case (8 s j k x)
  then show ?case by (auto simp: disk_remove_def disk_holds_def split: option.splits if_splits)
next
  case (9 s v k x)
  then have "disk_holds J s k x" by (auto simp: disk_purge_def Let_def dest: disk_purge_holds)
  moreover have "v \<noteq> None"
  proof
    assume "v = None"
    then have "cd_rows (snd (disk_purge v s)) = []" by (simp add: disk_purge_def purge_rows_def Let_def disk_purge_all)
    with 9(2) show False by (simp add: disk_holds_def)
  qed
  ultimately show ?case by simp
qed

definition empty_disk :: cache_disk where
  "empty_disk = \<lparr>cd_rows = [], cd_files = []\<rparr>"


section \<open>A disk hit extends the life of an entry\<close>

text \<open>A hit in the disk layer is kept in memory for sixty more seconds whatever the entry's own
  expiry, so the cache can serve a response up to a minute after its time to live.\<close>

theorem disk_hit_outlives_expiry:
  assumes "counted c" and "map_of (ca_memory c) key = None" and "int (length body) \<le> cacheMemoryBytes cfg"
    and "map_of (cd_rows (ca_storage c)) key = Some row" and "now \<le> cr_expiresAt row"
    and "map_of (cd_files (ca_storage c)) (cr_path row) = Some body"
    and "js_parse J (cr_metadata row) = Some meta" and "later \<le> now + 60000"
  shows "fst (cache_get cfg (disk_storage cfg dir J) later key
           (snd (cache_get cfg (disk_storage cfg dir J) now key c))) = Some (body, meta, LayerMemory)"
proof -
  let ?e = "\<lparr>en_body = body, en_metadata = meta, en_expiresAt = now + 60000\<rparr>"
  have hit: "disk_get J now key (ca_storage c)
      = (Some (body, meta), ca_storage c\<lparr>cd_rows := map_set key (row\<lparr>cr_lastAccess := now\<rparr>) (cd_rows (ca_storage c))\<rparr>)"
    using assms(4-7) by (simp add: disk_get_def Let_def not_less)
  have "map_of (ca_memory (snd (cache_get cfg (disk_storage cfg dir J) now key c))) key = Some ?e"
    using assms(1-3) hit
    by (simp add: cache_get_def cache_get_disk_def disk_storage_def putMemory_stores entry_bytes_def)
  with assms(8) show ?thesis by (simp add: cache_get_def)
qed

section \<open>Concrete runs\<close>

definition unit_codec :: json_codec where
  "unit_codec = \<lparr>js_stringify = (\<lambda>m. ''{}''), js_parse = (\<lambda>s. Some [])\<rparr>"

text \<open>A codec that loses nothing: the decimal number of a fixed enumeration of all metadata.\<close>

instance jsval :: countable
  by countable_datatype

definition enum_codec :: json_codec where
  "enum_codec = \<lparr>js_stringify = (\<lambda>m. show_nat (to_nat m)), js_parse = (\<lambda>s. Some (from_nat (digits_val s)))\<rparr>"

lemma enum_codec_ok: "codec_ok enum_codec"
  by (simp add: codec_ok_def enum_codec_def)

definition sample_key :: string where
  "sample_key = ''sha256:0123abcd''"

definition sample_disk :: cache_disk where
  "sample_disk = disk_put sample_config ''cache'' unit_codec 0 sample_key [7, 7] 1 [] empty_disk"

lemma sample_disk_eval:
  "sample_disk = \<lparr>cd_rows = [(sample_key, \<lparr>cr_path = [''cache'', ''01'', ''23'', ''0123abcd''], cr_bytes = 2,
       cr_expiresAt = 1000, cr_lastAccess = 0, cr_metadata = ''{}''\<rparr>)],
     cd_files = [([''cache'', ''01'', ''23'', ''0123abcd''], [7, 7])]\<rparr>"
  by code_simp

text \<open>Two seconds of life on disk, yet served from memory a minute later.\<close>

theorem disk_hit_outlives_expiry_witness:
  "fst (cache_get sample_config (disk_storage sample_config ''cache'' unit_codec) 60900 sample_key
     (snd (cache_get sample_config (disk_storage sample_config ''cache'' unit_codec) 900 sample_key
        (cache_start sample_disk)))) = Some ([7, 7], [], LayerMemory)"
  by (rule disk_hit_outlives_expiry [where row = "\<lparr>cr_path = [''cache'', ''01'', ''23'', ''0123abcd''], cr_bytes = 2,
       cr_expiresAt = 1000, cr_lastAccess = 0, cr_metadata = ''{}''\<rparr>"])
     (simp_all add: cache_start_def counted_def sample_disk_eval unit_codec_def sample_config_fields)

lemma sample_key_digest: "digest_key sample_key"
  by (simp add: digest_key_def sample_key_def starts_with_def)

theorem disk_put_evicts_witness:
  "disk_total (disk_put sample_config ''cache'' unit_codec 0 sample_key [7, 7] 1 [] empty_disk)
     \<le> cacheDiskBytes sample_config"
  using disk_put_evicts [OF sample_config_ok _ sample_key_digest, of "''cache''" empty_disk]
  by (simp add: disk_ok_def empty_disk_def)

theorem cache_memory_bounded_witness:
  "ca_memoryBytes (run_events (cache_apply sample_config (disk_storage sample_config ''cache'' unit_codec))
       [CachePut 0 sample_key [7, 7] 1 []] (cache_start empty_disk)) \<le> cacheMemoryBytes sample_config"
  using cache_memory_bounded [OF sample_config_ok, of "disk_storage sample_config ''cache'' unit_codec"
      "[CachePut 0 sample_key [7, 7] 1 []]" empty_disk] unfolding Let_def by blast

theorem cache_put_get_witness:
  "fst (cache_get sample_config (disk_storage sample_config ''cache'' unit_codec) 1000 sample_key
     (cache_put sample_config (disk_storage sample_config ''cache'' unit_codec) 0 sample_key [7, 7] 1 []
        (run_events (cache_apply sample_config (disk_storage sample_config ''cache'' unit_codec)) []
           (cache_start empty_disk)))) = Some ([7, 7], [], LayerMemory)"
  by (rule cache_put_get [OF sample_config_ok]) (simp_all add: sample_config_fields)


end
