(* ===== verification/OB_Storage.thy ===== *)
theory OB_Storage
  imports OB_SecretStores OB_CacheStore
begin

text \<open>
  The rest of the persistence layer and its facade: sessions (\<open>src/src/storage/sessions.ts\<close>),
  one-time handoff tokens (\<open>handoffs.ts\<close>), usage counters and the request audit
  (\<open>operations.ts\<close>), and \<open>Storage\<close> (\<open>src/src/storage.ts\<close>), a record of the tables whose operations
  delegate to the stores. The digest of tokens and the UTC day of the clock are parameters.
\<close>

section \<open>Sessions\<close>

definition session_create ::
  "secret_box \<Rightarrow> string \<Rightarrow> string \<Rightarrow> millis \<Rightarrow> stored_session \<Rightarrow> stored_session list
     \<Rightarrow> stored_session outcome \<times> stored_session list" where
  "session_create B newId iv now inp rows =
     (let s = inp\<lparr>ses_id := newId, ses_createdAt := now\<rparr>
      in if newId \<in> ses_id ` set rows then (Inl (unique_failed ''sessions.id''), rows)
         else (Inr s, rows @ [s\<lparr>ses_storageState := map_option (encrypt B iv) (truthy (ses_storageState s))\<rparr>]))"

definition session_of_row :: "secret_box \<Rightarrow> stored_session \<Rightarrow> stored_session outcome" where
  "session_of_row B r =
     (let s = r\<lparr>ses_ownerKeyHash := truthy (ses_ownerKeyHash r), ses_proxyId := truthy (ses_proxyId r)\<rparr>
      in case truthy (ses_storageState r) of
           None \<Rightarrow> Inr (s\<lparr>ses_storageState := None\<rparr>)
         | Some ct \<Rightarrow> map_sum id (\<lambda>st. s\<lparr>ses_storageState := Some st\<rparr>) (decrypt B ct))"

definition session_get :: "secret_box \<Rightarrow> string \<Rightarrow> millis \<Rightarrow> stored_session list \<Rightarrow> stored_session option outcome" where
  "session_get B sid now rows =
     (case find (\<lambda>r. ses_id r = sid) rows of
        None \<Rightarrow> Inr None
      | Some r \<Rightarrow> if ses_expiresAt r < now then Inr None else map_sum id Some (session_of_row B r))"

definition session_list :: "secret_box \<Rightarrow> string \<Rightarrow> millis \<Rightarrow> stored_session list \<Rightarrow> stored_session list outcome" where
  "session_list B owner now rows =
     map_outcome (session_of_row B)
       (sort_key (\<lambda>r. - ses_createdAt r)
          (filter (\<lambda>r. ses_ownerKeyHash r = Some owner \<and> ses_expiresAt r \<ge> now) rows))"

definition session_updateState :: "secret_box \<Rightarrow> string \<Rightarrow> string \<Rightarrow> string \<Rightarrow> stored_session list \<Rightarrow> stored_session list" where
  "session_updateState B iv sid st rows =
     map (\<lambda>r. if ses_id r = sid then r\<lparr>ses_storageState := Some (encrypt B iv st)\<rparr> else r) rows"

definition session_transferOwner :: "string \<Rightarrow> string \<Rightarrow> millis \<Rightarrow> stored_session list \<Rightarrow> bool \<times> stored_session list" where
  "session_transferOwner sid owner now rows =
     (list_ex (\<lambda>r. ses_id r = sid \<and> ses_expiresAt r \<ge> now) rows,
      map (\<lambda>r. if ses_id r = sid \<and> ses_expiresAt r \<ge> now then r\<lparr>ses_ownerKeyHash := Some owner\<rparr> else r) rows)"

text \<open>\<open>delete\<close> decrypts the row first; a state that does not decrypt makes it throw and keep the row.\<close>

definition session_delete :: "secret_box \<Rightarrow> string \<Rightarrow> millis \<Rightarrow> stored_session list \<Rightarrow> bool outcome \<times> stored_session list" where
  "session_delete B sid now rows =
     (case session_get B sid now rows of
        Inl e \<Rightarrow> (Inl e, rows)
      | Inr found \<Rightarrow> (Inr (found \<noteq> None), filter (\<lambda>r. ses_id r \<noteq> sid) rows))"

definition migrateLegacySessionState :: "secret_box \<Rightarrow> string \<Rightarrow> stored_session list \<Rightarrow> stored_session list" where
  "migrateLegacySessionState B iv rows =
     map (\<lambda>r. case ses_storageState r of
            None \<Rightarrow> r
          | Some st \<Rightarrow> if starts_with st ''v1:'' then r else r\<lparr>ses_storageState := Some (encrypt B iv st)\<rparr>) rows"

section \<open>Handoff tokens\<close>

record handoff_row =
  ho_id :: string
  ho_sessionId :: string
  ho_tokenHash :: string
  ho_expiresAt :: millis
  ho_redeemedAt :: "millis option"

record handoff =
  hf_id :: string
  hf_sessionId :: string
  hf_expiresAt :: millis

definition handoff_create ::
  "(string \<Rightarrow> string) \<Rightarrow> string \<Rightarrow> string \<Rightarrow> string \<Rightarrow> int \<Rightarrow> millis \<Rightarrow> handoff_row list
     \<Rightarrow> (handoff \<times> string) outcome \<times> handoff_row list" where
  "handoff_create sha newId token sessionId ttl now rows =
     (let e = now + ttl * 1000
      in if newId \<in> ho_id ` set rows then (Inl (unique_failed ''session_handoffs.id''), rows)
         else if sha token \<in> ho_tokenHash ` set rows then (Inl (unique_failed ''session_handoffs.token_hash''), rows)
         else (Inr (\<lparr>hf_id = newId, hf_sessionId = sessionId, hf_expiresAt = e\<rparr>, token),
               rows @ [\<lparr>ho_id = newId, ho_sessionId = sessionId, ho_tokenHash = sha token,
                        ho_expiresAt = e, ho_redeemedAt = None\<rparr>]))"

definition handoff_redeem ::
  "(string \<Rightarrow> string) \<Rightarrow> string \<Rightarrow> millis \<Rightarrow> handoff_row list \<Rightarrow> handoff option \<times> handoff_row list" where
  "handoff_redeem sha token now rows =
     (case find (\<lambda>r. ho_tokenHash r = sha token \<and> ho_redeemedAt r = None \<and> ho_expiresAt r \<ge> now) rows of
        None \<Rightarrow> (None, rows)
      | Some row \<Rightarrow>
          (if list_ex (\<lambda>r. ho_id r = ho_id row \<and> ho_redeemedAt r = None) rows
           then Some \<lparr>hf_id = ho_id row, hf_sessionId = ho_sessionId row, hf_expiresAt = ho_expiresAt row\<rparr>
           else None,
           map (\<lambda>r. if ho_id r = ho_id row \<and> ho_redeemedAt r = None then r\<lparr>ho_redeemedAt := Some now\<rparr> else r) rows))"

definition handoff_revokeForSession :: "string \<Rightarrow> handoff_row list \<Rightarrow> handoff_row list" where
  "handoff_revokeForSession sid rows = filter (\<lambda>r. ho_sessionId r \<noteq> sid) rows"

datatype handoff_event =
    HandoffCreate string string string int millis
  | HandoffRedeem string millis
  | HandoffRevoke string

fun handoff_apply :: "(string \<Rightarrow> string) \<Rightarrow> handoff_event \<Rightarrow> handoff_row list \<Rightarrow> handoff_row list" where
  "handoff_apply sha (HandoffCreate i token sid ttl now) rows = snd (handoff_create sha i token sid ttl now rows)"
| "handoff_apply sha (HandoffRedeem token now) rows = snd (handoff_redeem sha token now rows)"
| "handoff_apply sha (HandoffRevoke sid) rows = handoff_revokeForSession sid rows"

text \<open>Keys of the table: identifiers and token digests are unique.\<close>

definition handoffs_ok :: "handoff_row list \<Rightarrow> bool" where
  "handoffs_ok rows \<longleftrightarrow> distinct (map ho_id rows) \<and> distinct (map ho_tokenHash rows)"

lemma redeem_map_keys:
  "map ho_id (map (\<lambda>r. if P r then r\<lparr>ho_redeemedAt := t\<rparr> else r) rows) = map ho_id rows"
  "map ho_tokenHash (map (\<lambda>r. if P r then r\<lparr>ho_redeemedAt := t\<rparr> else r) rows) = map ho_tokenHash rows"
  by (induction rows) auto

lemma handoff_apply_ok: "handoffs_ok rows \<Longrightarrow> handoffs_ok (handoff_apply sha e rows)"
proof (cases e)
  case (HandoffRedeem token now)
  assume "handoffs_ok rows"
  with HandoffRedeem show ?thesis
    by (auto simp: handoffs_ok_def handoff_redeem_def redeem_map_keys simp del: map_map split: option.splits)
qed (auto simp: handoffs_ok_def handoff_create_def handoff_revokeForSession_def Let_def
       distinct_map_filter)

interpretation handoffs: event_system "handoff_apply sha" handoffs_ok
  by unfold_locales (rule handoff_apply_ok)

definition spent :: "string \<Rightarrow> handoff_row list \<Rightarrow> bool" where
  "spent h rows \<longleftrightarrow> list_all (\<lambda>r. ho_tokenHash r = h \<longrightarrow> ho_redeemedAt r \<noteq> None) rows"

definition not_reissued :: "(string \<Rightarrow> string) \<Rightarrow> string \<Rightarrow> handoff_event \<Rightarrow> bool" where
  "not_reissued sha token e = (case e of HandoffCreate _ t _ _ _ \<Rightarrow> sha t \<noteq> sha token | _ \<Rightarrow> True)"

lemma spent_apply: "spent (sha token) rows \<Longrightarrow> not_reissued sha token e \<Longrightarrow> spent (sha token) (handoff_apply sha e rows)"
  by (cases e)
     (auto simp: spent_def not_reissued_def handoff_create_def handoff_redeem_def handoff_revokeForSession_def
        Let_def list_all_iff split: option.splits)

lemma spent_run:
  "spent (sha token) rows \<Longrightarrow> list_all (not_reissued sha token) es \<Longrightarrow>
     spent (sha token) (run_events (handoff_apply sha) es rows)"
  by (induction es arbitrary: rows) (simp_all add: run_events_def spent_apply)

lemma spent_redeem: "spent (sha token) rows \<Longrightarrow> fst (handoff_redeem sha token now rows) = None"
proof -
  assume "spent (sha token) rows"
  then have "find (\<lambda>r. ho_tokenHash r = sha token \<and> ho_redeemedAt r = None \<and> ho_expiresAt r \<ge> now) rows = None"
    by (auto simp: find_None_iff spent_def list_all_iff)
  then show ?thesis by (simp add: handoff_redeem_def)
qed

lemma redeem_spends:
  assumes "handoffs_ok rows" and "fst (handoff_redeem sha token now rows) = Some h"
  shows "spent (sha token) (snd (handoff_redeem sha token now rows))"
proof -
  obtain row where row: "find (\<lambda>r. ho_tokenHash r = sha token \<and> ho_redeemedAt r = None \<and> ho_expiresAt r \<ge> now) rows = Some row"
    using assms(2) by (auto simp: handoff_redeem_def split: option.splits)
  then have r: "row \<in> set rows" "ho_tokenHash row = sha token" by (auto simp: find_Some_iff)
  have one: "r = row" if "r \<in> set rows" "ho_tokenHash r = sha token" for r
    using assms(1) that r by (auto simp: handoffs_ok_def distinct_map inj_on_def)
  show ?thesis using one by (auto simp: handoff_redeem_def row spent_def list_all_iff)
qed

text \<open>C15. A handoff token is redeemed at most once: after a redemption, whatever creations,
  redemptions and revocations follow, short of issuing the same random token again, every later
  redemption of it fails.\<close>

theorem handoff_redeemed_once:
  assumes "fst (handoff_redeem sha token now (run_events (handoff_apply sha) es [])) = Some h"
    and "list_all (not_reissued sha token) es'"
  shows "fst (handoff_redeem sha token later (run_events (handoff_apply sha) es'
           (snd (handoff_redeem sha token now (run_events (handoff_apply sha) es []))))) = None"
proof (rule spent_redeem, rule spent_run [OF _ assms(2)], rule redeem_spends [OF _ assms(1)])
  show "handoffs_ok (run_events (handoff_apply sha) es [])"
    by (rule handoffs.run_inv) (simp add: handoffs_ok_def)
qed

theorem handoff_redeemed_once_witness:
  "fst (handoff_redeem id ''t'' 9 (run_events (handoff_apply id) [HandoffRevoke ''other'']
      (snd (handoff_redeem id ''t'' 5 (run_events (handoff_apply id) [HandoffCreate ''h1'' ''t'' ''s1'' 60 0] []))))) = None"
  by (rule handoff_redeemed_once)
     (simp_all add: run_events_def handoff_create_def handoff_redeem_def not_reissued_def Let_def)

section \<open>Usage counters\<close>

type_synonym usage_table = "(string \<times> string, nat \<times> nat \<times> nat) jsmap"

definition getUsage :: "string \<Rightarrow> string \<Rightarrow> usage_table \<Rightarrow> usage_summary" where
  "getUsage keyHash day U =
     (case map_get_or (0, 0, 0) U (keyHash, day) of
        (r, s, f) \<Rightarrow> \<lparr>use_day = day, use_requests = r, use_successful = s, use_failed = f\<rparr>)"

definition reserveUsage :: "string \<Rightarrow> nat \<Rightarrow> string \<Rightarrow> usage_table \<Rightarrow> usage_summary option \<times> usage_table" where
  "reserveUsage keyHash dailyLimit day U =
     (let current = getUsage keyHash day U
      in if dailyLimit > 0 \<and> use_requests current \<ge> dailyLimit then (None, U)
         else (let U' = (case map_of U (keyHash, day) of
                           None \<Rightarrow> map_set (keyHash, day) (1, 0, 0) U
                         | Some (r, s, f) \<Rightarrow> map_set (keyHash, day) (r + 1, s, f) U)
               in (Some (getUsage keyHash day U'), U')))"

definition recordUsageOutcome :: "string \<Rightarrow> int \<Rightarrow> string \<Rightarrow> usage_table \<Rightarrow> usage_table" where
  "recordUsageOutcome keyHash status day U =
     (case map_of U (keyHash, day) of
        None \<Rightarrow> U
      | Some (r, s, f) \<Rightarrow>
          map_set (keyHash, day)
            (r, s + (if status < 400 then 1 else 0), f + (if status \<ge> 400 then 1 else 0)) U)"

datatype usage_event = Reserve string string | Outcome string int string

fun usage_apply :: "(string \<Rightarrow> nat) \<Rightarrow> usage_event \<Rightarrow> usage_table \<times> (string \<times> string) list
     \<Rightarrow> usage_table \<times> (string \<times> string) list" where
  "usage_apply limit (Reserve k day) (U, granted) =
     (case reserveUsage k (limit k) day U of
        (None, U') \<Rightarrow> (U', granted)
      | (Some _, U') \<Rightarrow> (U', granted @ [(k, day)]))"
| "usage_apply limit (Outcome k status day) (U, granted) = (recordUsageOutcome k status day U, granted)"

definition usage_inv :: "(string \<Rightarrow> nat) \<Rightarrow> usage_table \<times> (string \<times> string) list \<Rightarrow> bool" where
  "usage_inv limit s \<longleftrightarrow>
     (\<forall>k day. use_requests (getUsage k day (fst s)) = count_list (snd s) (k, day)
        \<and> (limit k > 0 \<longrightarrow> count_list (snd s) (k, day) \<le> limit k))"

lemma use_requests_getUsage: "use_requests (getUsage k day U) = fst (map_get_or (0, 0, 0) U (k, day))"
  by (simp add: getUsage_def split: prod.splits)

lemma reserve_requests:
  "reserveUsage k l day U = (r, U') \<Longrightarrow> use_requests (getUsage j d U')
     = use_requests (getUsage j d U) + (if r \<noteq> None \<and> (j, d) = (k, day) then 1 else 0)"
  by (auto simp: reserveUsage_def use_requests_getUsage map_get_or_def Let_def split: if_splits option.splits)

lemma reserve_refused: "reserveUsage k l day U = (r, U') \<Longrightarrow> r = None \<longleftrightarrow> l > 0 \<and> use_requests (getUsage k day U) \<ge> l"
  by (auto simp: reserveUsage_def Let_def split: if_splits)

lemma outcome_requests: "use_requests (getUsage j d (recordUsageOutcome k st day U)) = use_requests (getUsage j d U)"
  by (auto simp: recordUsageOutcome_def use_requests_getUsage map_get_or_def split: option.splits)

lemma usage_apply_inv: "usage_inv limit s \<Longrightarrow> usage_inv limit (usage_apply limit e s)"
proof (cases e)
  case (Reserve k day)
  assume inv: "usage_inv limit s"
  obtain U granted where s: "s = (U, granted)" by (cases s)
  obtain r U' where r: "reserveUsage k (limit k) day U = (r, U')" by fastforce
  have u: "use_requests (getUsage j d U) = count_list granted (j, d)"
    and l: "limit j > 0 \<Longrightarrow> count_list granted (j, d) \<le> limit j" for j d
    using inv by (auto simp: usage_inv_def s)
  show ?thesis
  proof (cases r)
    case None
    with inv reserve_requests [OF r] show ?thesis by (simp add: Reserve s r usage_inv_def)
  next
    case (Some x)
    with reserve_refused [OF r] u have "limit k > 0 \<Longrightarrow> count_list granted (k, day) < limit k"
      by (auto simp: not_le)
    with l u Some reserve_requests [OF r] show ?thesis
      by (auto simp: Reserve s r usage_inv_def Suc_le_eq)
  qed
next
  case (Outcome k st day)
  assume "usage_inv limit s"
  then show ?thesis by (cases s) (simp add: Outcome usage_inv_def outcome_requests)
qed

interpretation usage: event_system "usage_apply limit" "usage_inv limit"
  by unfold_locales (rule usage_apply_inv)

text \<open>The daily quota holds: whatever reservations and outcomes are recorded, the request count of
  a key on a day is the number of reservations granted, and with a limit it never exceeds it.\<close>

theorem usage_within_limit:
  "case run_events (usage_apply limit) es ([], []) of (U, granted) \<Rightarrow>
     use_requests (getUsage k day U) = count_list granted (k, day)
     \<and> (limit k = 0 \<or> use_requests (getUsage k day U) \<le> limit k)"
proof -
  have "usage_inv limit (run_events (usage_apply limit) es ([], []))"
    by (rule usage.run_inv) (simp add: usage_inv_def use_requests_getUsage map_get_or_def)
  then show ?thesis by (cases "limit k = 0") (auto simp: usage_inv_def split: prod.splits)
qed

section \<open>The facade\<close>

record audit_row =
  au_id :: string
  au_operation :: string
  au_statusCode :: int
  au_createdAt :: millis

text \<open>\<open>INSERT OR REPLACE\<close> by identifier.\<close>

definition audit_insert :: "string \<Rightarrow> string \<Rightarrow> int \<Rightarrow> millis \<Rightarrow> audit_row list \<Rightarrow> audit_row list" where
  "audit_insert aid operation status now rows =
     filter (\<lambda>r. au_id r \<noteq> aid) rows
       @ [\<lparr>au_id = aid, au_operation = operation, au_statusCode = status, au_createdAt = now\<rparr>]"

text \<open>
  What the facade is constructed with: the loaded configuration, the secret box, the directories
  and the codecs that the stores use.
\<close>

record storage_env =
  se_config :: config
  se_box :: secret_box
  se_sha256 :: "string \<Rightarrow> string"
  se_parseUrl :: url_parser
  se_cacheDir :: string
  se_artifactsDir :: string
  se_codec :: json_codec

record storage =
  sg_cache :: cache_disk
  sg_artifacts :: artifact_tables
  sg_sessions :: "stored_session list"
  sg_profiles :: "stored_profile list"
  sg_proxies :: "stored_proxy list"
  sg_jobs :: job_tables
  sg_handoffs :: "handoff_row list"
  sg_webhooks :: "stored_webhook list"
  sg_audit :: "audit_row list"
  sg_usage :: usage_table
  sg_closed :: bool

definition storage_close :: "storage \<Rightarrow> storage" where
  "storage_close S = (if sg_closed S then S else S\<lparr>sg_closed := True\<rparr>)"

definition storage_cache :: "storage_env \<Rightarrow> storage cache_storage" where
  "storage_cache E =
     \<lparr>getCache = (\<lambda>now key S. map_prod id (\<lambda>d. S\<lparr>sg_cache := d\<rparr>) (disk_get (se_codec E) now key (sg_cache S))),
      putCache = (\<lambda>now key body ttl meta S.
        S\<lparr>sg_cache := disk_put (se_config E) (se_cacheDir E) (se_codec E) now key body ttl meta (sg_cache S)\<rparr>),
      deleteCache = (\<lambda>key S. S\<lparr>sg_cache := disk_remove key (sg_cache S)\<rparr>),
      purgeCache = (\<lambda>v S. map_prod id (\<lambda>d. S\<lparr>sg_cache := d\<rparr>) (disk_purge v (sg_cache S)))\<rparr>"

definition createArtifact ::
  "storage_env \<Rightarrow> string \<Rightarrow> millis \<Rightarrow> string \<Rightarrow> string \<Rightarrow> string \<Rightarrow> int option \<Rightarrow> storage \<Rightarrow> artifact outcome \<times> storage" where
  "createArtifact E newId now body contentType owner ttl S =
     map_prod id (\<lambda>t. S\<lparr>sg_artifacts := t\<rparr>)
       (artifact_create (se_artifactsDir E) newId now body contentType (case ttl of Some t \<Rightarrow> t | None \<Rightarrow> 3600) owner
          (sg_artifacts S))"

definition getArtifact :: "string \<Rightarrow> millis \<Rightarrow> string \<Rightarrow> storage \<Rightarrow> (artifact \<times> string) option" where
  "getArtifact aid now owner S = artifact_get aid now owner (sg_artifacts S)"

definition createSession ::
  "storage_env \<Rightarrow> string \<Rightarrow> string \<Rightarrow> millis \<Rightarrow> stored_session \<Rightarrow> storage \<Rightarrow> stored_session outcome \<times> storage" where
  "createSession E newId iv now inp S =
     map_prod id (\<lambda>t. S\<lparr>sg_sessions := t\<rparr>) (session_create (se_box E) newId iv now inp (sg_sessions S))"

definition getSession :: "storage_env \<Rightarrow> string \<Rightarrow> millis \<Rightarrow> storage \<Rightarrow> stored_session option outcome" where
  "getSession E sid now S = session_get (se_box E) sid now (sg_sessions S)"

definition listSessions :: "storage_env \<Rightarrow> string \<Rightarrow> millis \<Rightarrow> storage \<Rightarrow> stored_session list outcome" where
  "listSessions E owner now S = session_list (se_box E) owner now (sg_sessions S)"

definition updateSessionState :: "storage_env \<Rightarrow> string \<Rightarrow> string \<Rightarrow> string \<Rightarrow> storage \<Rightarrow> storage" where
  "updateSessionState E iv sid st S =
     S\<lparr>sg_sessions := session_updateState (se_box E) iv sid st (sg_sessions S)\<rparr>"

definition deleteSession :: "storage_env \<Rightarrow> string \<Rightarrow> millis \<Rightarrow> storage \<Rightarrow> bool outcome \<times> storage" where
  "deleteSession E sid now S =
     (let S1 = S\<lparr>sg_handoffs := handoff_revokeForSession sid (sg_handoffs S)\<rparr>
      in map_prod id (\<lambda>t. S1\<lparr>sg_sessions := t\<rparr>) (session_delete (se_box E) sid now (sg_sessions S1)))"

definition createSessionHandoff ::
  "storage_env \<Rightarrow> string \<Rightarrow> string \<Rightarrow> string \<Rightarrow> int \<Rightarrow> millis \<Rightarrow> storage \<Rightarrow> (handoff \<times> string) outcome \<times> storage" where
  "createSessionHandoff E newId token sid ttl now S =
     map_prod id (\<lambda>t. S\<lparr>sg_handoffs := t\<rparr>) (handoff_create (se_sha256 E) newId token sid ttl now (sg_handoffs S))"

definition redeemSessionHandoff ::
  "storage_env \<Rightarrow> string \<Rightarrow> string \<Rightarrow> millis \<Rightarrow> storage \<Rightarrow> stored_session option outcome \<times> storage" where
  "redeemSessionHandoff E token owner now S =
     (case handoff_redeem (se_sha256 E) token now (sg_handoffs S) of
        (None, hs) \<Rightarrow> (Inr None, S\<lparr>sg_handoffs := hs\<rparr>)
      | (Some h, hs) \<Rightarrow>
          (let S1 = S\<lparr>sg_handoffs := hs\<rparr> in
           case session_transferOwner (hf_sessionId h) owner now (sg_sessions S1) of
             (False, rows) \<Rightarrow> (Inr None, S1\<lparr>sg_sessions := rows\<rparr>)
           | (True, rows) \<Rightarrow>
               (session_get (se_box E) (hf_sessionId h) now rows, S1\<lparr>sg_sessions := rows\<rparr>)))"

definition createProxy ::
  "storage_env \<Rightarrow> string \<Rightarrow> string \<Rightarrow> string \<Rightarrow> string \<Rightarrow> string list \<Rightarrow> string \<Rightarrow> storage
     \<Rightarrow> proxy_created outcome \<times> storage" where
  "createProxy E newId iv name url domains owner S =
     map_prod id (\<lambda>t. S\<lparr>sg_proxies := t\<rparr>)
       (proxy_create (se_config E) (se_parseUrl E) (se_box E) newId iv name url domains owner (sg_proxies S))"

definition getProxy :: "storage_env \<Rightarrow> string \<Rightarrow> string \<Rightarrow> storage \<Rightarrow> stored_proxy option outcome" where
  "getProxy E pid owner S = proxy_get (se_box E) pid owner (sg_proxies S)"

definition deleteProxy :: "string \<Rightarrow> string \<Rightarrow> storage \<Rightarrow> bool \<times> storage" where
  "deleteProxy pid owner S = map_prod id (\<lambda>t. S\<lparr>sg_proxies := t\<rparr>) (proxy_delete pid owner (sg_proxies S))"

text \<open>The operations on jobs, profiles and webhooks run the stores of \<open>OB_Stores\<close> on their table.\<close>

definition storage_jobs :: "job_op \<Rightarrow> string \<Rightarrow> storage \<Rightarrow> job_answer \<times> storage" where
  "storage_jobs op owner S = map_prod id (\<lambda>t. S\<lparr>sg_jobs := t\<rparr>) (job_exec op owner (sg_jobs S))"

definition storage_profiles :: "storage_env \<Rightarrow> profile_op \<Rightarrow> string \<Rightarrow> storage \<Rightarrow> profile_answer \<times> storage" where
  "storage_profiles E op owner S =
     map_prod id (\<lambda>t. S\<lparr>sg_profiles := t\<rparr>) (profile_exec (se_config E) (se_box E) op owner (sg_profiles S))"

definition storage_webhooks :: "storage_env \<Rightarrow> webhook_op \<Rightarrow> string \<Rightarrow> storage \<Rightarrow> webhook_answer \<times> storage" where
  "storage_webhooks E op owner S =
     map_prod id (\<lambda>t. S\<lparr>sg_webhooks := t\<rparr>) (webhook_exec (se_box E) op owner (sg_webhooks S))"

definition storage_audit :: "string \<Rightarrow> string \<Rightarrow> int \<Rightarrow> millis \<Rightarrow> storage \<Rightarrow> storage" where
  "storage_audit aid operation status now S = S\<lparr>sg_audit := audit_insert aid operation status now (sg_audit S)\<rparr>"

definition storage_reserveUsage :: "string \<Rightarrow> nat \<Rightarrow> string \<Rightarrow> storage \<Rightarrow> usage_summary option \<times> storage" where
  "storage_reserveUsage keyHash limit day S =
     map_prod id (\<lambda>t. S\<lparr>sg_usage := t\<rparr>) (reserveUsage keyHash limit day (sg_usage S))"

definition storage_recordUsageOutcome :: "string \<Rightarrow> int \<Rightarrow> string \<Rightarrow> storage \<Rightarrow> storage" where
  "storage_recordUsageOutcome keyHash status day S =
     S\<lparr>sg_usage := recordUsageOutcome keyHash status day (sg_usage S)\<rparr>"

lemma session_of_row_owner:
  "session_of_row B r = Inr s \<Longrightarrow> ses_ownerKeyHash s = truthy (ses_ownerKeyHash r) \<and> ses_id s = ses_id r"
  by (cases "truthy (ses_storageState r)"; cases "decrypt B (the (truthy (ses_storageState r)))")
     (auto simp: session_of_row_def Let_def)

lemma map_sum_Inr_iff: "map_sum f g r = Inr y \<longleftrightarrow> (\<exists>x. r = Inr x \<and> g x = y)"
  by (cases r) auto

lemma find_map_key:
  assumes "\<And>r. k (g r) = k r"
  shows "find (\<lambda>r. k r = i) (map g rows) = map_option g (find (\<lambda>r. k r = i) rows)"
  using assms by (induction rows) auto

text \<open>Redeeming a handoff answers a session only for a token that was issued, is unspent and
  unexpired; the session then belongs to the redeeming key and every other session keeps its
  owner, and deleting the session revokes the tokens that are still out.\<close>

theorem redeem_transfers:
  assumes "redeemSessionHandoff E token owner now S = (Inr (Some ses), S')" and "owner \<noteq> []"
  shows "ses_ownerKeyHash ses = Some owner
    \<and> (\<exists>row \<in> set (sg_handoffs S). ho_tokenHash row = se_sha256 E token \<and> ho_redeemedAt row = None
         \<and> now \<le> ho_expiresAt row \<and> ho_sessionId row = ses_id ses)
    \<and> filter (\<lambda>r. ses_id r \<noteq> ses_id ses) (sg_sessions S') = filter (\<lambda>r. ses_id r \<noteq> ses_id ses) (sg_sessions S)
    \<and> fst (handoff_redeem (se_sha256 E) t later (sg_handoffs (snd (deleteSession E (ses_id ses) now S')))) \<noteq>
        Some \<lparr>hf_id = i, hf_sessionId = ses_id ses, hf_expiresAt = e\<rparr>"
proof -
  obtain h hs where h: "handoff_redeem (se_sha256 E) token now (sg_handoffs S) = (Some h, hs)"
    using assms(1) by (auto simp: redeemSessionHandoff_def split: prod.splits option.splits)
  let ?sid = "hf_sessionId h"
  let ?g = "\<lambda>r. if ses_id r = ?sid \<and> ses_expiresAt r \<ge> now then r\<lparr>ses_ownerKeyHash := Some owner\<rparr> else r"
  have S': "S' = S\<lparr>sg_handoffs := hs, sg_sessions := map ?g (sg_sessions S)\<rparr>"
    and get: "session_get (se_box E) ?sid now (map ?g (sg_sessions S)) = Inr (Some ses)"
    using assms(1) by (auto simp: redeemSessionHandoff_def h Let_def session_transferOwner_def split: if_splits bool.splits)
  obtain r where r: "find (\<lambda>r. ses_id r = ?sid) (sg_sessions S) = Some r"
    and live: "\<not> ses_expiresAt (?g r) < now" and row: "session_of_row (se_box E) (?g r) = Inr ses"
    using get by (auto simp: session_get_def find_map_key [of ses_id ?g] map_sum_Inr_iff split: option.splits if_splits)
  have id: "ses_id r = ?sid" using r by (auto simp: find_Some_iff)
  with live have upd: "?g r = r\<lparr>ses_ownerKeyHash := Some owner\<rparr>" by (auto split: if_splits)
  have own: "ses_ownerKeyHash ses = Some owner" "ses_id ses = ?sid"
    using session_of_row_owner [OF row] upd id assms(2) by (cases owner; simp add: truthy_def)+
  have tok: "\<exists>row \<in> set (sg_handoffs S). ho_tokenHash row = se_sha256 E token \<and> ho_redeemedAt row = None
         \<and> now \<le> ho_expiresAt row \<and> ho_sessionId row = ?sid"
    using h by (auto simp: handoff_redeem_def find_Some_iff split: option.splits if_splits intro!: bexI [OF _ nth_mem])
  have rest: "filter (\<lambda>r. ses_id r \<noteq> ?sid) (map ?g rows) = filter (\<lambda>r. ses_id r \<noteq> ?sid) rows" for rows
    by (induction rows) auto
  have revoked: "fst (handoff_redeem sha t later (handoff_revokeForSession ?sid rows)) \<noteq>
      Some \<lparr>hf_id = i, hf_sessionId = ?sid, hf_expiresAt = e\<rparr>" for sha rows
    by (auto simp: handoff_redeem_def handoff_revokeForSession_def find_Some_iff split: option.splits if_splits
        dest: nth_mem)
  show ?thesis
    using own tok rest revoked by (simp add: S' deleteSession_def Let_def)
qed

definition sample_env :: storage_env where
  "sample_env = \<lparr>se_config = sample_config, se_box = hex_box, se_sha256 = id, se_parseUrl = (\<lambda>_. None),
                 se_cacheDir = ''cache'', se_artifactsDir = ''artifacts'', se_codec = enum_codec\<rparr>"

definition sample_session :: stored_session where
  "sample_session = \<lparr>ses_id = ''s1'', ses_ownerKeyHash = Some ''ann'', ses_persistent = False, ses_createdAt = 0,
     ses_expiresAt = 100, ses_viewport = (800, 600), ses_proxyId = None, ses_storageState = None, ses_liveViewer = False\<rparr>"

definition sample_storage :: storage where
  "sample_storage = \<lparr>sg_cache = empty_disk, sg_artifacts = \<lparr>at_rows = [], at_files = []\<rparr>,
     sg_sessions = [sample_session], sg_profiles = [], sg_proxies = [], sg_jobs = empty_jobs,
     sg_handoffs = [\<lparr>ho_id = ''h1'', ho_sessionId = ''s1'', ho_tokenHash = ''t'', ho_expiresAt = 60, ho_redeemedAt = None\<rparr>],
     sg_webhooks = [], sg_audit = [], sg_usage = [], sg_closed = False\<rparr>"

lemma sample_redeem:
  "fst (redeemSessionHandoff sample_env ''t'' ''bob'' 5 sample_storage)
     = Inr (Some (sample_session\<lparr>ses_ownerKeyHash := Some ''bob''\<rparr>))"
  by (simp add: redeemSessionHandoff_def handoff_redeem_def session_transferOwner_def session_get_def
      session_of_row_def truthy_def sample_env_def sample_storage_def sample_session_def)

theorem redeem_transfers_witness:
  "ses_ownerKeyHash (sample_session\<lparr>ses_ownerKeyHash := Some ''bob''\<rparr>) = Some ''bob''"
  using redeem_transfers [of sample_env "''t''" "''bob''" 5 sample_storage
      "sample_session\<lparr>ses_ownerKeyHash := Some ''bob''\<rparr>"
      "snd (redeemSessionHandoff sample_env ''t'' ''bob'' 5 sample_storage)"]
    prod_eqI [OF sample_redeem [THEN trans, OF fst_conv [symmetric]], of "snd (redeemSessionHandoff sample_env ''t'' ''bob'' 5 sample_storage)"]
  by simp

end
