(* ===== verification/OB_Gate.thy ===== *)
theory OB_Gate
  imports OB_Storage OB_Security
begin

text \<open>
  The request policies of \<open>src/src/server/lifecycle.ts\<close>: the \<open>onRequest\<close> hook (CORS preflight,
  authentication, route policy, rate limit, daily quota), the session check of the \<open>preHandler\<close>
  hook, and the accounting of the \<open>onResponse\<close> hook. The router is not part of the code: the raw
  URL, the matched route pattern and the parsed query of a request are its fields.
\<close>

section \<open>Requests and state\<close>

record gate_request =
  gr_method :: string
  gr_url :: string
  gr_route :: "string option"
  gr_origin :: "string option"
  gr_authorization :: "string option"
  gr_queryToken :: "string option"
  gr_sessionParam :: "string option"
  gr_id :: string

record rate_counter =
  rt_startedAt :: millis
  rt_count :: int

record gate =
  ga_counters :: "(string, rate_counter) jsmap"
  ga_usage :: usage_table

datatype gate_answer =
    Preflight string
  | Ungated
  | Admitted string "api_key_policy option"

definition queryTokenCompatiblePaths :: "string list" where
  "queryTokenCompatiblePaths =
     [''/'', ''/chromium'', ''/chrome'', ''/content'', ''/scrape'', ''/screenshot'', ''/pdf'', ''/smart-scrape'', ''/map'',
      ''/crawl'', ''/search'', ''/export'', ''/performance'', ''/unblock'', ''/function'', ''/download'', ''/mcp'',
      ''/chromium/bql'', ''/chrome/bql'', ''/chromium/playwright'', ''/firefox/playwright'', ''/webkit/playwright'']"

text \<open>\<open>/^\\/v1\\/sessions\\/[^/]+\\/vnc$/\<close>: exactly four segments.\<close>

definition vnc_path :: "string \<Rightarrow> bool" where
  "vnc_path p \<longleftrightarrow>
     (case split_on (CHR ''/'') p of
        [a, b, c, d, e] \<Rightarrow> a = [] \<and> b = ''v1'' \<and> c = ''sessions'' \<and> d \<noteq> [] \<and> e = ''vnc''
      | _ \<Rightarrow> False)"

definition acceptsQueryToken :: "string \<Rightarrow> bool" where
  "acceptsQueryToken pathname \<longleftrightarrow> pathname \<in> set queryTokenCompatiblePaths \<or> vnc_path pathname"

definition pathname_of :: "gate_request \<Rightarrow> string" where
  "pathname_of rq = hd (split_on (CHR ''?'') (gr_url rq))"

definition cors_allowed :: "config \<Rightarrow> gate_request \<Rightarrow> bool" where
  "cors_allowed cfg rq \<longleftrightarrow>
     (case gr_origin rq of
        None \<Rightarrow> False
      | Some origin \<Rightarrow> ''*'' \<in> set (corsAllowedOrigins cfg) \<or> origin \<in> set (corsAllowedOrigins cfg))"

definition cors_origin :: "config \<Rightarrow> gate_request \<Rightarrow> string" where
  "cors_origin cfg rq = (if ''*'' \<in> set (corsAllowedOrigins cfg) then ''*'' else (case gr_origin rq of Some o' \<Rightarrow> o' | None \<Rightarrow> []))"

text \<open>\<open>.replace(/^Bearer\\s+/i, "")\<close>.\<close>

definition strip_bearer :: "string \<Rightarrow> string" where
  "strip_bearer s =
     (if to_lower (take 6 s) = ''bearer'' \<and> drop 6 s \<noteq> [] \<and> is_space (hd (drop 6 s))
      then dropWhile is_space (drop 6 s) else s)"

section \<open>The onRequest hook\<close>

definition unauthorized :: js_error where
  "unauthorized = ob_err ''UNAUTHORIZED'' ''A valid bearer API key is required'' 401 False"

definition gate_token :: "gate_request \<Rightarrow> string option" where
  "gate_token rq =
     (case gr_authorization rq of
        Some a \<Rightarrow> Some (strip_bearer a)
      | None \<Rightarrow> if acceptsQueryToken (pathname_of rq) then gr_queryToken rq else None)"

definition authenticate :: "config \<Rightarrow> (string \<Rightarrow> string) \<Rightarrow> gate_request \<Rightarrow> string outcome" where
  "authenticate cfg sha rq =
     (case gate_token rq of
        None \<Rightarrow> Inl unauthorized
      | Some t \<Rightarrow> if t = [] \<or> \<not> constantTimeApiKeyMatch sha t (apiKeys cfg) then Inl unauthorized else Inr (sha t))"

definition isAllowedRoute :: "string \<Rightarrow> string \<Rightarrow> bool" where
  "isAllowedRoute route allowed \<longleftrightarrow>
     (if ends_with allowed ''/*'' then starts_with route (butlast allowed) else route = allowed)"

definition route_of :: "gate_request \<Rightarrow> string" where
  "route_of rq = (case gr_route rq of Some r \<Rightarrow> r | None \<Rightarrow> pathname_of rq)"

definition route_permitted :: "api_key_policy option \<Rightarrow> string \<Rightarrow> bool" where
  "route_permitted policy route \<longleftrightarrow>
     (case policy of
        None \<Rightarrow> True
      | Some p \<Rightarrow> pol_allowedRoutes p = [] \<or> list_ex (isAllowedRoute route) (pol_allowedRoutes p))"

text \<open>The counter of the key's current one-minute window.\<close>

definition next_counter :: "millis \<Rightarrow> rate_counter option \<Rightarrow> rate_counter" where
  "next_counter now state =
     (case state of
        None \<Rightarrow> \<lparr>rt_startedAt = now, rt_count = 1\<rparr>
      | Some c \<Rightarrow> if now - rt_startedAt c \<ge> 60000 then \<lparr>rt_startedAt = now, rt_count = 1\<rparr>
                  else c\<lparr>rt_count := rt_count c + 1\<rparr>)"

definition rate_limit :: "api_key_policy option \<Rightarrow> int" where
  "rate_limit policy = (case Option.bind policy pol_rateLimitPerMinute of Some n \<Rightarrow> n | None \<Rightarrow> 600)"

definition daily_limit :: "config \<Rightarrow> api_key_policy option \<Rightarrow> int" where
  "daily_limit cfg policy = (case Option.bind policy pol_dailyRequestLimit of Some n \<Rightarrow> n | None \<Rightarrow> dailyRequestLimit cfg)"

definition rate_limited :: js_error where
  "rate_limited = ob_err ''RATE_LIMITED'' ''API key rate limit exceeded'' 429 True"

definition quota_exceeded :: js_error where
  "quota_exceeded = ob_err ''RATE_LIMITED'' ''API key daily request quota exceeded'' 429 True"

text \<open>Counting: the window counter moves even when the request is rejected.\<close>

definition meter ::
  "config \<Rightarrow> millis \<Rightarrow> string \<Rightarrow> string \<Rightarrow> api_key_policy option \<Rightarrow> gate \<Rightarrow> unit outcome \<times> gate" where
  "meter cfg now day key policy G =
     (let updated = next_counter now (map_of (ga_counters G) key);
          G1 = G\<lparr>ga_counters := map_set key updated (ga_counters G)\<rparr>
      in if rt_count updated > rate_limit policy then (Inl rate_limited, G1)
         else (case reserveUsage key (nat (daily_limit cfg policy)) day (ga_usage G1) of
                 (None, U) \<Rightarrow> (Inl quota_exceeded, G1\<lparr>ga_usage := U\<rparr>)
               | (Some _, U) \<Rightarrow> (Inr (), G1\<lparr>ga_usage := U\<rparr>)))"

definition on_request ::
  "config \<Rightarrow> (string \<Rightarrow> string) \<Rightarrow> millis \<Rightarrow> string \<Rightarrow> gate_request \<Rightarrow> gate \<Rightarrow> gate_answer outcome \<times> gate" where
  "on_request cfg sha now day rq G =
     (if gr_method rq = ''OPTIONS'' \<and> cors_allowed cfg rq then (Inr (Preflight (cors_origin cfg rq)), G)
      else if \<not> starts_with (pathname_of rq) ''/v1/'' \<and> pathname_of rq \<notin> set queryTokenCompatiblePaths then (Inr Ungated, G)
      else (case authenticate cfg sha rq of
          Inl e \<Rightarrow> (Inl e, G)
        | Inr key \<Rightarrow>
            (let policy = map_of (apiKeyPolicyMap cfg) key in
             if \<not> route_permitted policy (route_of rq)
             then (Inl (ob_err ''FORBIDDEN'' ''API key is not authorized for this route'' 403 False), G)
             else (case meter cfg now day key policy G of
                 (Inl e, G1) \<Rightarrow> (Inl e, G1)
               | (Inr _, G1) \<Rightarrow> (Inr (Admitted key policy), G1)))))"

section \<open>Ownership and the other hooks\<close>

definition requestKeyHash :: "gate_answer \<Rightarrow> string outcome" where
  "requestKeyHash a = (case a of Admitted key _ \<Rightarrow> if key = [] then Inl unauthorized else Inr key | _ \<Rightarrow> Inl unauthorized)"

definition session_not_found :: js_error where
  "session_not_found = ob_err ''SESSION_NOT_FOUND'' ''Session does not exist or has expired'' 404 False"

definition assertSessionOwner :: "gate_answer \<Rightarrow> stored_session \<Rightarrow> unit outcome" where
  "assertSessionOwner a session =
     (case ses_ownerKeyHash session of
        None \<Rightarrow> Inl session_not_found
      | Some owner \<Rightarrow>
          if owner = [] then Inl session_not_found
          else res_bind (requestKeyHash a) (\<lambda>h. if owner \<noteq> h then Inl session_not_found else Inr ()))"

definition pre_handler ::
  "storage_env \<Rightarrow> millis \<Rightarrow> storage \<Rightarrow> gate_answer \<Rightarrow> gate_request \<Rightarrow> unit outcome" where
  "pre_handler E now S a rq =
     (if \<not> (case gr_route rq of Some r \<Rightarrow> starts_with r ''/v1/sessions/:id'' | None \<Rightarrow> False) then Inr ()
      else (case gr_sessionParam rq of
          None \<Rightarrow> Inr ()
        | Some sid \<Rightarrow> res_bind (getSession E sid now S) (\<lambda>s.
            case s of None \<Rightarrow> Inl session_not_found | Some session \<Rightarrow> assertSessionOwner a session)))"

datatype operational_alert = AlertQueue | AlertRejection | AlertTimeout | AlertError | AlertHealthFailure

definition alert_for_status :: "int \<Rightarrow> operational_alert option" where
  "alert_for_status status =
     (if status = 408 then Some AlertTimeout else if status = 429 then Some AlertRejection
      else if status \<ge> 500 then Some AlertError else None)"

text \<open>The \<open>onSend\<close> headers and the \<open>onResponse\<close> accounting.\<close>

definition on_send :: "config \<Rightarrow> gate_request \<Rightarrow> (string \<times> string) list" where
  "on_send cfg rq =
     (if cors_allowed cfg rq then [(''Access-Control-Allow-Origin'', cors_origin cfg rq), (''Vary'', ''Origin'')] else [])"

definition on_response ::
  "millis \<Rightarrow> string \<Rightarrow> gate_answer \<Rightarrow> gate_request \<Rightarrow> int \<Rightarrow> usage_table \<times> audit_row list
     \<Rightarrow> (usage_table \<times> audit_row list) \<times> operational_alert option" where
  "on_response now day a rq status st =
     (case st of (U, rows) \<Rightarrow>
       ((case a of Admitted key _ \<Rightarrow> if key \<noteq> [] then recordUsageOutcome key status day U else U | _ \<Rightarrow> U,
         if starts_with (gr_url rq) ''/v1/''
         then audit_insert (gr_id rq) (case gr_route rq of Some r \<Rightarrow> r | None \<Rightarrow> gr_url rq) status now rows else rows),
        alert_for_status status))"

section \<open>What an admitted request has passed\<close>

lemma authenticate_Inr:
  "authenticate cfg sha rq = Inr key \<longleftrightarrow>
     (\<exists>t. gate_token rq = Some t \<and> t \<noteq> [] \<and> key = sha t \<and> key \<in> sha ` set (apiKeys cfg))"
  by (auto simp: authenticate_def constantTimeApiKeyMatch_def list_ex_iff split: option.splits)

lemma meter_Inr:
  assumes "meter cfg now day key policy G = (Inr u, G')"
  shows "\<exists>c. map_of (ga_counters G') key = Some c \<and> rt_count c \<le> rate_limit policy \<and> c = next_counter now (map_of (ga_counters G) key)"
    and "ga_usage G' = snd (reserveUsage key (nat (daily_limit cfg policy)) day (ga_usage G))"
    and "fst (reserveUsage key (nat (daily_limit cfg policy)) day (ga_usage G)) \<noteq> None"
  using assms by (auto simp: meter_def Let_def split: if_splits option.splits prod.splits)

text \<open>C7. A request that the gate admits presented a non-empty token whose hash is the hash of a configured key; the
  key's policy permits the matched route; and both meters had room: the key's window counter is within
  its limit and its daily quota was not used up. A request that is refused before the meters leaves them
  as they were.\<close>

theorem gate_admits:
  "(fst (on_request cfg sha now day rq G) = Inr (Admitted key policy) \<longrightarrow>
     (\<exists>t. gate_token rq = Some t \<and> t \<noteq> [] \<and> key = sha t) \<and> key \<in> sha ` set (apiKeys cfg) \<and>
     policy = map_of (apiKeyPolicyMap cfg) key \<and> route_permitted policy (route_of rq) \<and>
     rt_count (next_counter now (map_of (ga_counters G) key)) \<le> rate_limit policy \<and>
     (0 < daily_limit cfg policy \<longrightarrow> int (use_requests (getUsage key day (ga_usage G))) < daily_limit cfg policy)) \<and>
   (\<forall>e. fst (on_request cfg sha now day rq G) = Inl e \<and> error_code e \<noteq> ''RATE_LIMITED'' \<longrightarrow> snd (on_request cfg sha now day rq G) = G)"
proof (intro conjI impI allI)
  assume adm: "fst (on_request cfg sha now day rq G) = Inr (Admitted key policy)"
  then obtain k G1 where k: "authenticate cfg sha rq = Inr k" "key = k" "policy = map_of (apiKeyPolicyMap cfg) k"
    and p: "route_permitted policy (route_of rq)" and m: "meter cfg now day k policy G = (Inr (), G1)"
    by (auto simp: on_request_def Let_def split: if_splits sum.splits prod.splits)
  note m' = meter_Inr [OF m]
  from k show "\<exists>t. gate_token rq = Some t \<and> t \<noteq> [] \<and> key = sha t" "key \<in> sha ` set (apiKeys cfg)"
    "policy = map_of (apiKeyPolicyMap cfg) key" by (auto simp: authenticate_Inr)
  show "route_permitted policy (route_of rq)" by (rule p)
  show "rt_count (next_counter now (map_of (ga_counters G) key)) \<le> rate_limit policy" using m'(1) k(2) by auto
  show "int (use_requests (getUsage key day (ga_usage G))) < daily_limit cfg policy" if "0 < daily_limit cfg policy"
    using m'(3) that k(2) by (auto simp: reserveUsage_def Let_def split: if_splits)
next
  fix e
  assume e: "fst (on_request cfg sha now day rq G) = Inl e \<and> error_code e \<noteq> ''RATE_LIMITED''"
  have "error_code e' = ''RATE_LIMITED''" if "meter cfg now day k pol G = (Inl e', G1)" for k pol e' G1
    using that by (auto simp: meter_def Let_def rate_limited_def quota_exceeded_def split: if_splits option.splits prod.splits)
  with e show "snd (on_request cfg sha now day rq G) = G"
    by (auto simp: on_request_def Let_def split: if_splits sum.splits prod.splits)
qed

section \<open>The rate limit over time\<close>

text \<open>A run of requests; each comes some milliseconds after the one before. The log lists the admitted ones.\<close>

type_synonym gate_run = "gate \<times> millis \<times> (string \<times> millis) list"

definition gate_apply :: "config \<Rightarrow> (string \<Rightarrow> string) \<Rightarrow> nat \<times> string \<times> gate_request \<Rightarrow> gate_run \<Rightarrow> gate_run" where
  "gate_apply cfg sha ev st =
     (case ev of (dt, day, rq) \<Rightarrow> case st of (G, clock, hist) \<Rightarrow>
        (let now = clock + int dt in
         case on_request cfg sha now day rq G of
           (Inr (Admitted key _), G') \<Rightarrow> (G', now, hist @ [(key, now)])
         | (_, G') \<Rightarrow> (G', now, hist)))"

definition admitted_at :: "string \<Rightarrow> (string \<times> millis) list \<Rightarrow> millis list" where
  "admitted_at key hist = map snd (filter (\<lambda>x. fst x = key) hist)"

definition in_span :: "millis \<Rightarrow> millis \<Rightarrow> millis list \<Rightarrow> int" where
  "in_span a b ts = int (length (filter (\<lambda>t. a \<le> t \<and> t < b) ts))"

definition key_limit :: "config \<Rightarrow> string \<Rightarrow> int" where
  "key_limit cfg key = rate_limit (map_of (apiKeyPolicyMap cfg) key)"

lemma in_span_snoc: "in_span a b (ts @ [t]) = in_span a b ts + (if a \<le> t \<and> t < b then 1 else 0)"
  by (simp add: in_span_def)

lemma in_span_mono: "a' \<le> a \<Longrightarrow> b \<le> b' \<Longrightarrow> in_span a b ts \<le> in_span a' b' ts"
  unfolding in_span_def by (induction ts) auto

lemma in_span_split: "a \<le> m \<Longrightarrow> m \<le> b \<Longrightarrow> in_span a b ts = in_span a m ts + in_span m b ts"
  by (induction ts) (auto simp: in_span_def)

lemma in_span_empty: "(\<And>t. t \<in> set ts \<Longrightarrow> t < a) \<Longrightarrow> in_span a b ts = 0"
  by (auto simp: in_span_def filter_empty_conv not_le)

text \<open>One more request of a key, at a time not before any other.\<close>

lemma rate_step_same_window:
  assumes "\<forall>a. in_span a (a + 60000) ts \<le> 2 * max 0 L" and "\<forall>t \<in> set ts. t \<le> now"
    and "s \<le> now" and "now < s + 60000" and "in_span s (s + 60000) ts \<le> n" and "n + 1 \<le> L" and "0 \<le> n"
    and "in_span (s - 60000) s ts \<le> max 0 L"
  shows "\<forall>a. in_span a (a + 60000) (ts @ [now]) \<le> 2 * max 0 L" and "in_span s (s + 60000) (ts @ [now]) \<le> min (n + 1) (max 0 L)"
    and "in_span (s - 60000) s (ts @ [now]) \<le> max 0 L"
proof -
  show "in_span s (s + 60000) (ts @ [now]) \<le> min (n + 1) (max 0 L)" "in_span (s - 60000) s (ts @ [now]) \<le> max 0 L"
    using assms by (simp_all add: in_span_snoc)
  show "\<forall>a. in_span a (a + 60000) (ts @ [now]) \<le> 2 * max 0 L"
  proof
    fix a
    show "in_span a (a + 60000) (ts @ [now]) \<le> 2 * max 0 L"
    proof (cases "a \<le> now \<and> now < a + 60000")
      case False
      then show ?thesis using assms(1) by (auto simp: in_span_snoc)
    next
      case True
      have "in_span a (a + 60000) ts \<le> in_span (min a s) (s + 60000) ts"
      proof (cases "a \<le> s")
        case True
        then show ?thesis by (simp add: in_span_mono)
      next
        case False
        have "in_span a (a + 60000) ts = in_span a (s + 60000) ts + in_span (s + 60000) (a + 60000) ts"
          using False assms True by (intro in_span_split) auto
        also have "in_span (s + 60000) (a + 60000) ts = 0"
          by (rule in_span_empty) (use assms in force)
        finally show ?thesis using False in_span_mono [of s a "s + 60000" "s + 60000" ts] by simp
      qed
      also have "\<dots> = in_span (min a s) s ts + in_span s (s + 60000) ts" by (rule in_span_split) auto
      also have "in_span (min a s) s ts \<le> in_span (s - 60000) s ts" using True assms(3) by (intro in_span_mono) auto
      finally show ?thesis using True assms by (simp add: in_span_snoc)
    qed
  qed
qed

lemma in_span_nonneg: "0 \<le> in_span a b ts"
  by (simp add: in_span_def)

lemma rate_step_new_window:
  assumes old: "\<forall>a. in_span a (a + 60000) ts \<le> 2 * max 0 L" and past: "\<forall>t \<in> set ts. t < now"
    and recent: "in_span (now - 60000) now ts \<le> max 0 L" and L: "1 \<le> L"
  shows "\<forall>a. in_span a (a + 60000) (ts @ [now]) \<le> 2 * max 0 L" and "in_span now (now + 60000) (ts @ [now]) \<le> min 1 (max 0 L)"
    and "in_span (now - 60000) now (ts @ [now]) \<le> max 0 L"
proof -
  have none: "in_span now b ts = 0" for b by (rule in_span_empty) (use past in auto)
  then show "in_span now (now + 60000) (ts @ [now]) \<le> min 1 (max 0 L)" "in_span (now - 60000) now (ts @ [now]) \<le> max 0 L"
    using recent L by (simp_all add: in_span_snoc)
  show "\<forall>a. in_span a (a + 60000) (ts @ [now]) \<le> 2 * max 0 L"
  proof
    fix a
    show "in_span a (a + 60000) (ts @ [now]) \<le> 2 * max 0 L"
    proof (cases "a \<le> now \<and> now < a + 60000")
      case False
      then show ?thesis using old by (auto simp: in_span_snoc)
    next
      case True
      then have "in_span a (a + 60000) ts = in_span a now ts + in_span now (a + 60000) ts" by (intro in_span_split) auto
      also have "in_span a now ts \<le> in_span (now - 60000) now ts" using True by (intro in_span_mono) auto
      finally show ?thesis using True none recent L by (simp add: in_span_snoc)
    qed
  qed
qed

text \<open>What is recent when a window starts belongs to the window before.\<close>

lemma recent_of_old_window:
  assumes "s + 60000 \<le> now" and "\<forall>t \<in> set ts. t < s + 60000"
  shows "in_span (now - 60000) now ts \<le> in_span s (s + 60000) ts"
proof -
  have "in_span (now - 60000) now ts \<le> in_span s now ts" using assms by (intro in_span_mono) auto
  also have "\<dots> = in_span s (s + 60000) ts + in_span (s + 60000) now ts" using assms by (intro in_span_split) auto
  also have "in_span (s + 60000) now ts = 0" by (rule in_span_empty) (use assms in auto)
  finally show ?thesis by simp
qed

definition key_inv :: "int \<Rightarrow> millis \<Rightarrow> rate_counter option \<Rightarrow> millis list \<Rightarrow> bool" where
  "key_inv L clock counter ts \<longleftrightarrow>
     (\<forall>t \<in> set ts. t \<le> clock) \<and> (\<forall>a. in_span a (a + 60000) ts \<le> 2 * max 0 L) \<and>
     (case counter of
        None \<Rightarrow> ts = []
      | Some c \<Rightarrow>
          rt_startedAt c \<le> clock \<and> 0 \<le> rt_count c \<and> (\<forall>t \<in> set ts. t < rt_startedAt c + 60000) \<and>
          in_span (rt_startedAt c) (rt_startedAt c + 60000) ts \<le> min (rt_count c) (max 0 L) \<and>
          in_span (rt_startedAt c - 60000) (rt_startedAt c) ts \<le> max 0 L)"

lemma key_inv_later: "key_inv L clock counter ts \<Longrightarrow> clock \<le> now \<Longrightarrow> key_inv L now counter ts"
  by (force simp: key_inv_def split: option.splits)

lemma in_span_Nil [simp]: "in_span a b [] = 0"
  by (simp add: in_span_def)

lemma key_inv_counted:
  assumes inv: "key_inv L clock counter ts" and now: "clock \<le> now"
  shows "key_inv L now (Some (next_counter now counter)) ts"
proof (cases "\<exists>c. counter = Some c \<and> now - rt_startedAt c < 60000")
  case True
  then show ?thesis using inv now by (force simp: key_inv_def next_counter_def)
next
  case False
  have new: "next_counter now counter = \<lparr>rt_startedAt = now, rt_count = 1\<rparr>"
    using False by (auto simp: next_counter_def split: option.splits)
  have "\<forall>t \<in> set ts. t < now \<and> t \<le> clock" and "in_span (now - 60000) now ts \<le> max 0 L"
  proof -
    show "\<forall>t \<in> set ts. t < now \<and> t \<le> clock" using inv False now by (force simp: key_inv_def split: option.splits)
    show "in_span (now - 60000) now ts \<le> max 0 L"
    proof (cases counter)
      case None
      with inv show ?thesis by (simp add: key_inv_def)
    next
      case (Some c)
      with False inv recent_of_old_window [of "rt_startedAt c" now ts] show ?thesis by (auto simp: key_inv_def)
    qed
  qed
  moreover from this have "in_span now (now + 60000) ts = 0" by (intro in_span_empty) auto
  ultimately show ?thesis using inv now unfolding new by (force simp: key_inv_def)
qed

lemma key_inv_admitted:
  assumes inv: "key_inv L clock counter ts" and now: "clock \<le> now" and room: "rt_count (next_counter now counter) \<le> L"
  shows "key_inv L now (Some (next_counter now counter)) (ts @ [now])"
proof (cases "\<exists>c. counter = Some c \<and> now - rt_startedAt c < 60000")
  case True
  then obtain c where c: "counter = Some c" "now < rt_startedAt c + 60000" by auto
  then have nxt: "next_counter now counter = c\<lparr>rt_count := rt_count c + 1\<rparr>" by (simp add: next_counter_def)
  note k = rate_step_same_window [of ts L now "rt_startedAt c" "rt_count c"]
  show ?thesis using inv now room c k unfolding nxt by (force simp: key_inv_def)
next
  case False
  have new: "next_counter now counter = \<lparr>rt_startedAt = now, rt_count = 1\<rparr>"
    using False by (auto simp: next_counter_def split: option.splits)
  have past: "\<forall>t \<in> set ts. t < now" using inv False now by (force simp: key_inv_def split: option.splits)
  have "in_span (now - 60000) now ts \<le> max 0 L"
    using key_inv_counted [OF inv now] unfolding new by (simp add: key_inv_def)
  note k = rate_step_new_window [OF _ past this]
  show ?thesis using inv now room past k unfolding new by (force simp: key_inv_def)
qed

definition rate_inv :: "config \<Rightarrow> gate_run \<Rightarrow> bool" where
  "rate_inv cfg st \<longleftrightarrow>
     (case st of (G, clock, hist) \<Rightarrow>
        \<forall>key. key_inv (key_limit cfg key) clock (map_of (ga_counters G) key) (admitted_at key hist))"

lemma meter_counters:
  "ga_counters (snd (meter cfg now day key policy G)) = map_set key (next_counter now (map_of (ga_counters G) key)) (ga_counters G)"
  by (auto simp: meter_def Let_def split: option.splits prod.splits)

lemma on_request_cases:
  assumes "on_request cfg sha now day rq G = (r, G')"
  obtains (same) "G' = G" and "\<And>k p. r \<noteq> Inr (Admitted k p)"
  | (counted) k where "ga_counters G' = map_set k (next_counter now (map_of (ga_counters G) k)) (ga_counters G)"
      and "\<And>k' p. r = Inr (Admitted k' p) \<Longrightarrow> k' = k \<and> rt_count (next_counter now (map_of (ga_counters G) k)) \<le> key_limit cfg k"
proof (cases "\<exists>k policy u. authenticate cfg sha rq = Inr k \<and> policy = map_of (apiKeyPolicyMap cfg) k \<and>
      route_permitted policy (route_of rq) \<and> \<not> (gr_method rq = ''OPTIONS'' \<and> cors_allowed cfg rq) \<and>
      (starts_with (pathname_of rq) ''/v1/'' \<or> pathname_of rq \<in> set queryTokenCompatiblePaths)")
  case False
  then show thesis using assms by (intro same) (auto simp: on_request_def Let_def split: if_splits sum.splits)
next
  case True
  then obtain k where k: "authenticate cfg sha rq = Inr k" "route_permitted (map_of (apiKeyPolicyMap cfg) k) (route_of rq)"
    "\<not> (gr_method rq = ''OPTIONS'' \<and> cors_allowed cfg rq)"
    "starts_with (pathname_of rq) ''/v1/'' \<or> pathname_of rq \<in> set queryTokenCompatiblePaths" by blast
  obtain m G1 where m: "meter cfg now day k (map_of (apiKeyPolicyMap cfg) k) G = (m, G1)" by (rule prod.exhaust)
  have r: "G' = G1" "r = (case m of Inl e \<Rightarrow> Inl e | Inr _ \<Rightarrow> Inr (Admitted k (map_of (apiKeyPolicyMap cfg) k)))"
    using assms k m by (auto simp: on_request_def Let_def split: sum.splits)
  have c: "ga_counters G' = map_set k (next_counter now (map_of (ga_counters G) k)) (ga_counters G)"
    using meter_counters [of cfg now day k "map_of (apiKeyPolicyMap cfg) k" G] m r by simp
  have "k' = k \<and> rt_count (next_counter now (map_of (ga_counters G) k)) \<le> key_limit cfg k" if "r = Inr (Admitted k' p)" for k' p
    using that r m meter_Inr(1) [of cfg now day k "map_of (apiKeyPolicyMap cfg) k" G "()" G1]
    by (auto simp: key_limit_def split: sum.splits)
  with c show thesis by (rule counted)
qed

lemma rate_inv_apply:
  assumes "rate_inv cfg st" shows "rate_inv cfg (gate_apply cfg sha ev st)"
proof -
  obtain dt day rq G clock hist where ev: "ev = (dt, day, rq)" and st: "st = (G, clock, hist)" by (cases ev, cases st) blast
  let ?now = "clock + int dt"
  have inv: "key_inv (key_limit cfg key) clock (map_of (ga_counters G) key) (admitted_at key hist)" for key
    using assms by (simp add: rate_inv_def st)
  have later: "clock \<le> ?now" by simp
  obtain r G' where r: "on_request cfg sha ?now day rq G = (r, G')" by (rule prod.exhaust)
  show ?thesis
  proof (cases "\<exists>k p. r = Inr (Admitted k p)")
    case False
    then have ap: "gate_apply cfg sha ev st = (G', ?now, hist)"
      by (auto simp: gate_apply_def ev st Let_def r split: sum.splits gate_answer.splits)
    from r show ?thesis unfolding ap
    proof (cases rule: on_request_cases)
      case same
      then show "rate_inv cfg (G', ?now, hist)" using key_inv_later [OF inv later] by (simp add: rate_inv_def)
    next
      case (counted k)
      then show "rate_inv cfg (G', ?now, hist)"
        using key_inv_later [OF inv later] key_inv_counted [OF inv later] by (simp add: rate_inv_def)
    qed
  next
    case True
    then obtain k p where adm: "r = Inr (Admitted k p)" by blast
    then have ap: "gate_apply cfg sha ev st = (G', ?now, hist @ [(k, ?now)])"
      by (simp add: gate_apply_def ev st Let_def r)
    from r show ?thesis unfolding ap
    proof (cases rule: on_request_cases)
      case same
      with adm show "rate_inv cfg (G', ?now, hist @ [(k, ?now)])" by simp
    next
      case (counted k0)
      with adm have k0: "k0 = k" "rt_count (next_counter ?now (map_of (ga_counters G) k)) \<le> key_limit cfg k" by auto
      have "admitted_at key (hist @ [(k, ?now)]) = admitted_at key hist @ (if key = k then [?now] else [])" for key
        by (simp add: admitted_at_def)
      with counted(1) k0 key_inv_later [OF inv later] key_inv_admitted [OF inv later k0(2)]
      show "rate_inv cfg (G', ?now, hist @ [(k, ?now)])" by (simp add: rate_inv_def)
    qed
  qed
qed

interpretation gate_limiter: event_system "gate_apply cfg sha" "rate_inv cfg" for cfg sha
  by unfold_locales (rule rate_inv_apply)

definition open_gate :: gate where
  "open_gate = \<lparr>ga_counters = [], ga_usage = []\<rparr>"

text \<open>C8. The rate limit holds over any minute, not only over the minutes the counters are aligned to: whatever
  requests arrive at whatever times, in every span of sixty seconds at most twice the key's limit of
  requests are admitted for a key, and none for a key whose limit is not positive.\<close>

theorem rate_limit_any_minute:
  "in_span a (a + 60000) (admitted_at key (snd (snd (run_events (gate_apply cfg sha) es (open_gate, clock, []))))) \<le> 2 * max 0 (key_limit cfg key)"
proof -
  have "rate_inv cfg (open_gate, clock, [])"
    by (simp add: rate_inv_def key_inv_def open_gate_def admitted_at_def)
  then have "rate_inv cfg (run_events (gate_apply cfg sha) es (open_gate, clock, []))" by (rule gate_limiter.run_inv)
  then show ?thesis by (auto simp: rate_inv_def key_inv_def split: prod.splits)
qed

section \<open>Sessions belong to their owner\<close>


section \<open>Concrete requests\<close>

definition fetch_request :: gate_request where
  "fetch_request = \<lparr>gr_method = ''POST'', gr_url = ''/v1/fetch?x=1'', gr_route = Some ''/v1/fetch'', gr_origin = None,
     gr_authorization = Some ''Bearer alpha'', gr_queryToken = None, gr_sessionParam = None, gr_id = ''r1''\<rparr>"

definition session_request :: gate_request where
  "session_request = fetch_request\<lparr>gr_url := ''/v1/sessions/s1'', gr_route := Some ''/v1/sessions/:id'', gr_sessionParam := Some ''s1''\<rparr>"

lemma fetch_request_admitted: "fst (on_request sample_config id 0 ''day'' fetch_request open_gate) = Inr (Admitted ''alpha'' None)"
  by code_simp

theorem gate_admits_witness:
  "''alpha'' \<in> set (apiKeys sample_config) \<and> gate_token fetch_request = Some ''alpha''"
  using gate_admits [of sample_config id 0 "''day''" fetch_request open_gate "''alpha''" None] fetch_request_admitted
  by auto

lemma session_request_passes: "pre_handler sample_env 50 sample_storage (Admitted ''ann'' None) session_request = Inr ()"
  by code_simp


text \<open>Whether a request is authenticated depends on the text of its URL alone, not on the route it is
  matched to: a request for a \<open>/v1/\<close> route whose raw path spells the prefix differently, percent-encoded for
  instance, passes the hook without a key and without being counted, and only a handler that asks for the
  key's hash refuses it.\<close>

theorem encoded_path_ungated:
  assumes "gr_method rq \<noteq> ''OPTIONS''" and "gr_url rq = ''/%761/'' @ rest"
  shows "on_request cfg sha now day rq G = (Inr Ungated, G) \<and> requestKeyHash Ungated = Inl unauthorized"
proof -
  obtain w ws where "split_on (CHR ''?'') rest = w # ws" by (cases "split_on (CHR ''?'') rest") simp_all
  then have path: "pathname_of rq = ''/%761/'' @ w"
    using assms(2) by (simp add: pathname_of_def)
  then have "\<not> starts_with (pathname_of rq) ''/v1/''" "pathname_of rq \<notin> set queryTokenCompatiblePaths"
    by (simp_all add: starts_with_def queryTokenCompatiblePaths_def)
  with assms(1) show ?thesis by (simp add: on_request_def requestKeyHash_def)
qed

theorem encoded_path_ungated_witness:
  "fst (on_request sample_config id 0 ''day''
     (fetch_request\<lparr>gr_url := ''/%761/fetch'', gr_authorization := None\<rparr>) open_gate) = Inr Ungated"
  by (subst encoded_path_ungated [of _ "''fetch''"]) (simp_all add: fetch_request_def)

end
