(* ===== verification/OB_Alerts.thy ===== *)
theory OB_Alerts
  imports OB_Http OB_Gate
begin

text \<open>
  Operator alerts, \<open>src/src/alerts.ts\<close>, and the process metrics of \<open>src/src/telemetry.ts\<close>.
\<close>

section \<open>Alerts\<close>

fun alert_id :: "operational_alert \<Rightarrow> string" where
  "alert_id AlertQueue = ''queue''"
| "alert_id AlertRejection = ''rejection''"
| "alert_id AlertTimeout = ''timeout''"
| "alert_id AlertError = ''error''"
| "alert_id AlertHealthFailure = ''health-failure''"

fun endpointFor :: "config \<Rightarrow> operational_alert \<Rightarrow> string" where
  "endpointFor cfg AlertQueue = queueAlertUrl cfg"
| "endpointFor cfg AlertRejection = rejectAlertUrl cfg"
| "endpointFor cfg AlertTimeout = timeoutAlertUrl cfg"
| "endpointFor cfg AlertError = errorAlertUrl cfg"
| "endpointFor cfg AlertHealthFailure = failedHealthUrl cfg"

record alert_request =
  ar_url :: url
  ar_dispatcher :: dispatcher

text \<open>The details are rendered; an undefined one is \<open>None\<close>.\<close>

fun set_details :: "(string \<times> string option) list \<Rightarrow> url \<Rightarrow> url" where
  "set_details [] u = u"
| "set_details ((k, v) # ds) u = set_details ds (case v of Some t \<Rightarrow> params_set k (take 512 t) u | None \<Rightarrow> u)"

type_synonym alert_log = "(operational_alert, millis) jsmap"

definition alert_due :: "config \<Rightarrow> operational_alert \<Rightarrow> millis \<Rightarrow> alert_log \<Rightarrow> bool" where
  "alert_due cfg event now lastSent \<longleftrightarrow>
     endpointFor cfg event \<noteq> [] \<and> \<not> now - map_get_or 0 lastSent event < 60000"

text \<open>The request that is sent, if any; every failure is swallowed.\<close>

definition notifyOperationalAlert ::
  "config \<Rightarrow> url_parser \<Rightarrow> resolver \<Rightarrow> millis \<Rightarrow> operational_alert \<Rightarrow> (string \<times> string option) list \<Rightarrow> alert_log
     \<Rightarrow> alert_request option \<times> alert_log" where
  "notifyOperationalAlert cfg parse resolver now event info lastSent =
     (if \<not> alert_due cfg event now lastSent then (None, lastSent)
      else (case resolveSafeUrl parse resolver (endpointFor cfg event) None of
          Inl _ \<Rightarrow> (None, map_set event now lastSent)
        | Inr checked \<Rightarrow>
            (Some \<lparr>ar_url = set_details info (params_set ''event'' (alert_id event) (safe_url checked)),
                   ar_dispatcher = (if egressProxyUrl cfg \<noteq> [] then ViaProxy (egressProxyUrl cfg)
                                    else PinnedTo (safe_addresses checked))\<rparr>,
             map_set event now lastSent)))"

lemma set_details_frame [simp]:
  "u_protocol (set_details ds u) = u_protocol u" "u_hostname (set_details ds u) = u_hostname u"
  "u_port (set_details ds u) = u_port u" "u_pathname (set_details ds u) = u_pathname u"
  by (induction ds u rule: set_details.induct) (auto simp: params_set_def set_search_params_def Let_def split: option.splits)

text \<open>A run of alerts, each some milliseconds after the one before; the history lists those that were due.\<close>

definition alert_apply ::
  "config \<Rightarrow> url_parser \<Rightarrow> (nat \<Rightarrow> resolver) \<Rightarrow> nat \<times> operational_alert \<times> (string \<times> string option) list \<Rightarrow>
   alert_log \<times> millis \<times> (operational_alert \<times> millis) list \<Rightarrow> alert_log \<times> millis \<times> (operational_alert \<times> millis) list" where
  "alert_apply cfg parse dns ev st =
     (case ev of (dt, event, info) \<Rightarrow> case st of (sent, clock, hist) \<Rightarrow>
        (let now = clock + int dt in
         case notifyOperationalAlert cfg parse (dns (length hist)) now event info sent of
           (Some rq, sent') \<Rightarrow> (sent', now, hist @ [(event, now)])
         | (None, sent') \<Rightarrow> (sent', now, hist)))"

definition alerts_inv :: "alert_log \<times> millis \<times> (operational_alert \<times> millis) list \<Rightarrow> bool" where
  "alerts_inv st \<longleftrightarrow>
     (case st of (sent, clock, hist) \<Rightarrow>
        (\<forall>e t. (e, t) \<in> set hist \<longrightarrow> t \<le> map_get_or 0 sent e) \<and>
        sorted_wrt (\<lambda>x y. fst x = fst y \<longrightarrow> snd x + 60000 \<le> snd y) hist)"

lemma alerts_inv_apply: "alerts_inv st \<Longrightarrow> alerts_inv (alert_apply cfg parse dns ev st)"
  by (cases ev; cases st)
     (fastforce simp: alerts_inv_def alert_apply_def Let_def notifyOperationalAlert_def alert_due_def sorted_wrt_append
        split: sum.splits if_splits)

interpretation alert_system: event_system "alert_apply cfg parse dns" alerts_inv for cfg parse dns
  by unfold_locales (rule alerts_inv_apply)

text \<open>However often something goes wrong, the operator's endpoint for one kind of event is called at most once
  a minute: two calls for the same kind are at least sixty seconds apart. A call goes to the configured
  host after the safety check, and pinned to the checked addresses when there is no egress proxy.\<close>

theorem alerts_rate:
  "sorted_wrt (\<lambda>x y. fst x = fst y \<longrightarrow> snd x + 60000 \<le> snd y)
     (snd (snd (run_events (alert_apply cfg parse dns) es ([], clock, [])))) \<and>
   (\<forall>rq. fst (notifyOperationalAlert cfg parse resolver now event info sent) = Some rq \<longrightarrow>
     (\<exists>r. safe_target resolver None r \<and> parse (endpointFor cfg event) = Some (safe_url r) \<and>
        u_hostname (ar_url rq) = u_hostname (safe_url r) \<and> u_protocol (ar_url rq) = u_protocol (safe_url r) \<and>
        (egressProxyUrl cfg = [] \<longrightarrow> ar_dispatcher rq = PinnedTo (safe_addresses r))))"
proof (intro conjI allI impI)
  have "alerts_inv ([], clock, [])" by (simp add: alerts_inv_def)
  then have "alerts_inv (run_events (alert_apply cfg parse dns) es ([], clock, []))" by (rule alert_system.run_inv)
  then show "sorted_wrt (\<lambda>x y. fst x = fst y \<longrightarrow> snd x + 60000 \<le> snd y)
      (snd (snd (run_events (alert_apply cfg parse dns) es ([], clock, []))))" by (auto simp: alerts_inv_def split: prod.splits)
next
  fix rq assume "fst (notifyOperationalAlert cfg parse resolver now event info sent) = Some rq"
  then obtain r where r: "resolveSafeUrl parse resolver (endpointFor cfg event) None = Inr r"
    and rq: "rq = \<lparr>ar_url = set_details info (params_set ''event'' (alert_id event) (safe_url r)),
       ar_dispatcher = (if egressProxyUrl cfg \<noteq> [] then ViaProxy (egressProxyUrl cfg) else PinnedTo (safe_addresses r))\<rparr>"
    by (auto simp: notifyOperationalAlert_def split: if_splits sum.splits)
  from resolveSafeUrl_InrD [OF r]
  show "\<exists>r. safe_target resolver None r \<and> parse (endpointFor cfg event) = Some (safe_url r) \<and>
        u_hostname (ar_url rq) = u_hostname (safe_url r) \<and> u_protocol (ar_url rq) = u_protocol (safe_url r) \<and>
        (egressProxyUrl cfg = [] \<longrightarrow> ar_dispatcher rq = PinnedTo (safe_addresses r))"
    by (intro exI [of _ r]) (simp add: rq params_set_def set_search_params_def Let_def)
qed

definition alerting_config :: config where
  "alerting_config = sample_config\<lparr>queueAlertUrl := ''https://ops.example/hook''\<rparr>"

theorem alerts_rate_witness:
  "\<exists>rq. fst (notifyOperationalAlert alerting_config (\<lambda>_. Some public_url) (\<lambda>_. None) 60000 AlertQueue [] []) = Some rq \<and>
     u_hostname (ar_url rq) = ''93.184.216.34''"
proof -
  have r: "resolveSafeUrl (\<lambda>_. Some public_url) (\<lambda>_. None) v None
      = Inr \<lparr>safe_url = public_url, safe_addresses = [(''93.184.216.34'', 4)]\<rparr>" for v by code_simp
  obtain rq where rq: "fst (notifyOperationalAlert alerting_config (\<lambda>_. Some public_url) (\<lambda>_. None) 60000 AlertQueue [] []) = Some rq"
    by (simp add: notifyOperationalAlert_def alert_due_def alerting_config_def map_get_or_def r)
  have h: "u_hostname public_url = ''93.184.216.34''" by (simp add: public_url_def)
  from alerts_rate [of "alerting_config" "\<lambda>_. Some public_url" "\<lambda>_ _. None" "[]" 0 "\<lambda>_. None" 60000 AlertQueue "[]" "[]"] rq
  show ?thesis by (metis h option.inject)
qed

section \<open>Metrics\<close>

record fetch_observation =
  fo_cacheHit :: bool
  fo_strategy :: stage
  fo_plannerReason :: planner_reason
  fo_backend :: "backend option"

fun stage_id :: "stage \<Rightarrow> string" where
  "stage_id StageHttp = ''http''"
| "stage_id StageBrowser = ''browser''"

type_synonym metrics = "(string, int) jsmap"

definition increment :: "string \<Rightarrow> metrics \<Rightarrow> metrics" where
  "increment key m = map_set key (map_get_or 0 m key + 1) m"

definition recordFetchObservation :: "fetch_observation \<Rightarrow> metrics \<Rightarrow> metrics" where
  "recordFetchObservation ob m =
     (let m1 = increment (''cache:'' @ (if fo_cacheHit ob then ''hit'' else ''miss'')) m;
          m2 = increment (''strategy:'' @ stage_id (fo_strategy ob)) m1;
          m3 = increment (''planner:'' @ planner_reason_id (fo_plannerReason ob)) m2
      in case fo_backend ob of Some b \<Rightarrow> increment (''backend:'' @ backend_id b) m3 | None \<Rightarrow> m3)"

definition metric_line :: "string \<Rightarrow> string \<Rightarrow> string \<Rightarrow> int \<Rightarrow> string" where
  "metric_line family label v n =
     ''openbrowse_'' @ family @ ''_total{'' @ label @ ''='' @ [CHR 0x22] @ v @ [CHR 0x22] @ ''} '' @ show_int n"

definition executionMetrics :: "metrics \<Rightarrow> string" where
  "executionMetrics m =
     (let count = (\<lambda>prefix v. map_get_or 0 m (prefix @ v)) in
      join_with [CHR 0x0A]
        (map (\<lambda>v. metric_line ''fetch_cache'' ''outcome'' v (count ''cache:'' v)) [''hit'', ''miss'']
         @ map (\<lambda>v. metric_line ''fetch_strategy'' ''strategy'' v (count ''strategy:'' v)) [''http'', ''browser'']
         @ map (\<lambda>v. metric_line ''execution_plan'' ''reason'' v (count ''planner:'' v))
             (map planner_reason_id [ExplicitHttp, ExplicitBrowser, AutoHttpFirst, ClientRenderedShell, HttpContentSufficient,
                HttpStatusTerminal, NonHtmlResponse, PersistentSession, BrowserCapacityUnavailable])
         @ map (\<lambda>b. metric_line ''browser_backend'' ''backend'' (backend_id b) (count ''backend:'' (backend_id b))) browserBackendIds)
      @ [CHR 0x0A])"

lemma observations_counted:
  "map_get_or 0 (fold recordFetchObservation obs m) ''cache:hit'' + map_get_or 0 (fold recordFetchObservation obs m) ''cache:miss''
     = map_get_or 0 m ''cache:hit'' + map_get_or 0 m ''cache:miss'' + int (length obs)"
  by (induction obs arbitrary: m) (auto simp: recordFetchObservation_def increment_def Let_def split: option.splits)

end
