(* ===== verification/OB_Fetch.thy ===== *)
theory OB_Fetch
  imports OB_Extract OB_Storage OB_Alerts
begin

text \<open>
  The fetch service, \<open>src/src/server/core/fetch.ts\<close>: a request is resolved to a fetch input, answered from the
  response cache or computed by the fetch pipeline under admission control, and stored when it may be. It composes
  the cache, the stores, the URL guard, the pipeline and the counters of the other theories.
\<close>

section \<open>Requests and responses\<close>

datatype cache_mode = CacheDefault | CacheNoStore | CacheReload

record api_fetch =
  af_url :: string
  af_strategy :: strategy
  af_timeoutMs :: "millis option"
  af_headers :: "(string \<times> string) list option"
  af_waitUntil :: "navigation_wait option"
  af_wait :: "browser_wait option"
  af_output :: "output_kind list"
  af_browserBackend :: "backend option"
  af_browserOptions :: "backend_options option"
  af_cacheMode :: cache_mode
  af_ttlSeconds :: int
  af_proxyId :: "string option"
  af_viewport :: "viewport option"
  af_ownerKeyHash :: "string option"

record response_timings =
  tg_queueMs :: millis
  tg_fetchMs :: millis
  tg_httpMs :: millis
  tg_browserAcquireMs :: millis
  tg_navigationMs :: millis
  tg_settleMs :: millis
  tg_extractionMs :: millis
  tg_browserMs :: millis
  tg_totalMs :: millis

record resource_usage =
  ru_strategy :: stage
  ru_browserMs :: millis
  ru_networkBytes :: nat
  ru_artifactBytes :: nat
  ru_estimatedComputeUnits :: int

record cache_report =
  cp_hit :: bool
  cp_key :: string
  cp_layer :: "cache_layer option"

record fetch_response =
  fp_requestId :: string
  fp_status :: int
  fp_finalUrl :: string
  fp_strategy :: stage
  fp_attempted :: "stage list"
  fp_contentType :: string
  fp_outputs :: transformed
  fp_timings :: response_timings
  fp_execution :: execution_report
  fp_cache :: cache_report
  fp_resourceUsage :: resource_usage

text \<open>The object that is hashed into the cache key.\<close>

record key_parts =
  kp_url :: string
  kp_strategy :: strategy
  kp_output :: "output_kind list"
  kp_viewport :: "viewport option"
  kp_headers :: "(string \<times> string) list"
  kp_waitUntil :: "navigation_wait option"
  kp_wait :: "browser_wait option"
  kp_browserBackend :: "backend option"
  kp_browserOptions :: "backend_options option"

section \<open>The environment\<close>

text \<open>
  \<open>sv_admit\<close> is what \<open>queue.run\<close> does before the job starts: it rejects, or grants a slot after a wait.
  \<open>sv_settled\<close> gives the slot back. \<open>sv_elapsed\<close> is the time an extraction takes. \<open>sv_encode\<close> and
  \<open>sv_decode\<close> are the JSON codec of responses, \<open>sv_stringify\<close> that of the key.
\<close>

type_synonym 's pipeline_state = "observation_store \<times> 's timed"

record 's fetch_service =
  sv_env :: "'s fetch_env"
  sv_extractors :: extractors
  sv_storage :: storage_env
  sv_guard :: resolver
  sv_admit :: "bool \<Rightarrow> 's pipeline_state \<Rightarrow> millis outcome \<times> 's pipeline_state"
  sv_settled :: "bool \<Rightarrow> 's pipeline_state \<Rightarrow> 's pipeline_state"
  sv_elapsed :: "fetch_result \<Rightarrow> nat"
  sv_iso :: "millis \<Rightarrow> string"
  sv_stringify :: "key_parts \<Rightarrow> string"
  sv_encode :: "fetch_response \<Rightarrow> buffer"
  sv_decode :: "buffer \<Rightarrow> fetch_response outcome"

record 's service_state =
  ss_pipeline :: "'s pipeline_state"
  ss_cache :: "cache_disk cache"
  ss_storage :: storage
  ss_metrics :: metrics

definition service_now :: "'s service_state \<Rightarrow> millis" where
  "service_now w = snd (snd (ss_pipeline w))"

abbreviation response_store :: "'s fetch_service \<Rightarrow> cache_disk cache_storage" where
  "response_store V \<equiv> disk_storage (se_config (sv_storage V)) (se_cacheDir (sv_storage V)) (se_codec (sv_storage V))"

abbreviation service_parse :: "'s fetch_service \<Rightarrow> url_parser" where
  "service_parse V \<equiv> parse_absolute (fe_parsers (sv_env V))"

section \<open>Resolving a request\<close>

definition resolveProxy ::
  "storage_env \<Rightarrow> storage \<Rightarrow> string option \<Rightarrow> string option \<Rightarrow> stored_proxy option outcome" where
  "resolveProxy E S pid owner =
     (if or_default pid [] = [] then Inr None
      else if or_default owner [] = []
      then Inl (ob_err ''INVALID_REQUEST'' ''A proxy requires an authenticated owner'' 400 False)
      else res_bind (getProxy E (or_default pid []) (or_default owner []) S) (\<lambda>found.
        case found of
          None \<Rightarrow> Inl (ob_err ''INVALID_REQUEST'' ''Selected proxy does not exist'' 400 False)
        | Some p \<Rightarrow> Inr (Some p)))"

definition input_of :: "api_fetch \<Rightarrow> stored_proxy option \<Rightarrow> fetch_input" where
  "input_of b proxy =
     \<lparr>in_url = af_url b, in_strategy = Some (af_strategy b),
      in_timeoutMs = (if af_timeoutMs b = Some 0 then None else af_timeoutMs b), in_headers = af_headers b,
      in_waitUntil = af_waitUntil b, in_wait = af_wait b, in_browserBackend = af_browserBackend b,
      in_browserOptions = af_browserOptions b, in_viewport = af_viewport b, in_proxy = proxy\<rparr>"

definition parts_of :: "api_fetch \<Rightarrow> string \<Rightarrow> key_parts" where
  "parts_of b normalized =
     \<lparr>kp_url = normalized, kp_strategy = af_strategy b, kp_output = af_output b, kp_viewport = af_viewport b,
      kp_headers = or_default (af_headers b) [], kp_waitUntil = af_waitUntil b, kp_wait = af_wait b,
      kp_browserBackend = af_browserBackend b, kp_browserOptions = af_browserOptions b\<rparr>"

definition private_header :: "string \<Rightarrow> bool" where
  "private_header k \<longleftrightarrow> str_includes (to_lower k) ''authorization'' \<or> str_includes (to_lower k) ''cookie''"

definition cacheable :: "api_fetch \<Rightarrow> bool" where
  "cacheable b \<longleftrightarrow> af_cacheMode b = CacheDefault \<and> \<not> list_ex (\<lambda>(k, _). private_header k) (or_default (af_headers b) [])"

definition fetch_key :: "'s fetch_service \<Rightarrow> api_fetch \<Rightarrow> string \<Rightarrow> string" where
  "fetch_key V b normalized = cacheKey (se_sha256 (sv_storage V)) (sv_stringify V) (parts_of b normalized)"

section \<open>A response from the cache\<close>

definition challenge_remains :: "execution_report \<Rightarrow> bool" where
  "challenge_remains r \<longleftrightarrow> ex_challengeRemaining r = Some True"

definition observation_of :: "bool \<Rightarrow> stage \<Rightarrow> execution_report \<Rightarrow> fetch_observation" where
  "observation_of hit strategy r =
     \<lparr>fo_cacheHit = hit, fo_strategy = strategy, fo_plannerReason = plan_reason (ex_plan r), fo_backend = ex_selectedBackend r\<rparr>"

definition cached_response ::
  "'s fetch_service \<Rightarrow> string \<Rightarrow> 's service_state \<Rightarrow> fetch_response option outcome \<times> 's service_state" where
  "cached_response V key w =
     (case cache_get (se_config (sv_storage V)) (response_store V) (service_now w) key (ss_cache w) of
        (None, c) \<Rightarrow> (Inr None, w\<lparr>ss_cache := c\<rparr>)
      | (Some (body, _, layer), c) \<Rightarrow>
          then_do (sv_decode V body, w\<lparr>ss_cache := c\<rparr>) (\<lambda>r w1.
            if challenge_remains (fp_execution r)
            then (Inr None, w1\<lparr>ss_cache := cache_delete (response_store V) key (ss_cache w1)\<rparr>)
            else (Inr (Some (r\<lparr>fp_cache := \<lparr>cp_hit = True, cp_key = key, cp_layer = Some layer\<rparr>\<rparr>)),
                  w1\<lparr>ss_metrics := recordFetchObservation (observation_of True (fp_strategy r) (fp_execution r)) (ss_metrics w1)\<rparr>)))"

section \<open>Computing a response\<close>

definition mark_cacheable :: "api_fetch \<Rightarrow> fetch_result \<Rightarrow> fetch_result" where
  "mark_cacheable b r =
     (let report = fr_execution r; remains = challenge_remains report; eligible = (cacheable b \<and> \<not> remains) in
      r\<lparr>fr_execution := report\<lparr>ex_plan := (ex_plan report)
          \<lparr>plan_cacheEligible := eligible,
           plan_cacheEligibility := (eligible,
             if remains then ChallengeResponse else if cacheable b then PublicRequest
             else if af_cacheMode b \<noteq> CacheDefault then CallerDisabled else PrivateRequestHeaders)\<rparr>\<rparr>\<rparr>)"

definition response_of :: "string \<Rightarrow> transformed \<Rightarrow> fetch_result \<Rightarrow> millis \<Rightarrow> millis \<Rightarrow> fetch_response" where
  "response_of key outputs r queueMs totalMs =
     (let t = ex_timings (fr_execution r) in
      \<lparr>fp_requestId = [], fp_status = fr_status r, fp_finalUrl = fr_finalUrl r, fp_strategy = fr_strategy r,
       fp_attempted = fr_attempted r, fp_contentType = fr_contentType r, fp_outputs = outputs,
       fp_timings = \<lparr>tg_queueMs = queueMs, tg_fetchMs = fr_fetchMs r, tg_httpMs = t_httpMs t,
                     tg_browserAcquireMs = t_browserAcquireMs t, tg_navigationMs = t_navigationMs t, tg_settleMs = t_settleMs t,
                     tg_extractionMs = t_extractionMs t, tg_browserMs = t_browserMs t, tg_totalMs = totalMs\<rparr>,
       fp_execution = fr_execution r, fp_cache = \<lparr>cp_hit = False, cp_key = key, cp_layer = None\<rparr>,
       fp_resourceUsage = \<lparr>ru_strategy = fr_strategy r, ru_browserMs = fr_browserMs r, ru_networkBytes = fr_networkBytes r,
                           ru_artifactBytes = 0,
                           ru_estimatedComputeUnits = max 1 \<lceil>of_int (fr_browserMs r + fr_fetchMs r) / (100 :: rat)\<rceil>\<rparr>\<rparr>)"

definition scheduled_fetch ::
  "'s fetch_service \<Rightarrow> fetch_input \<Rightarrow> 's pipeline_state \<Rightarrow> (fetch_result \<times> millis) outcome \<times> 's pipeline_state" where
  "scheduled_fetch V inp p =
     (let browser = (in_strategy inp = Some BrowserOnly) in
      then_do (sv_admit V browser p) (\<lambda>queueMs p1.
        case adaptiveFetch (sv_env V) inp (fst p1) (snd p1) of
          (r, obs, t) \<Rightarrow> (map_sum id (\<lambda>x. (x, queueMs)) r, sv_settled V browser (obs, t))))"

definition compute_response ::
  "'s fetch_service \<Rightarrow> api_fetch \<Rightarrow> fetch_input \<Rightarrow> string \<Rightarrow> string \<Rightarrow> 's service_state \<Rightarrow>
   fetch_response outcome \<times> 's service_state" where
  "compute_response V b inp normalized key w =
     (case scheduled_fetch V inp (ss_pipeline w) of
        (Inl e, p) \<Rightarrow> (Inl e, w\<lparr>ss_pipeline := p\<rparr>)
      | (Inr (result, queueMs), (obs, s, now)) \<Rightarrow>
          (let marked = mark_cacheable b result;
               elapsed = int (sv_elapsed V marked);
               done = now + elapsed;
               out = transform (sv_extractors V) (sv_iso V now) elapsed marked (af_output b);
               r = response_of key (fst out) (snd out) queueMs (done - service_now w);
               metrics = recordFetchObservation (observation_of False (fr_strategy result) (fr_execution marked)) (ss_metrics w);
               stored = (if cacheable b \<and> \<not> challenge_remains (fr_execution result)
                         then cache_put (se_config (sv_storage V)) (response_store V) done key (sv_encode V r) (af_ttlSeconds b)
                                [(''url'', JStr normalized)] (ss_cache w)
                         else ss_cache w)
           in (Inr r, w\<lparr>ss_pipeline := (obs, s, done), ss_cache := stored, ss_metrics := metrics\<rparr>)))"

section \<open>The service\<close>

text \<open>
  What a request does first. With an identical computation in flight a cacheable request joins it; \<open>fresh\<close> names
  the promise of a new one.
\<close>

datatype fetch_start =
    CacheHit fetch_response
  | Join nat
  | Compute fetch_input string string

definition startFetch ::
  "'s fetch_service \<Rightarrow> (string, nat) jsmap \<Rightarrow> nat \<Rightarrow> api_fetch \<Rightarrow> 's service_state \<Rightarrow>
   fetch_start outcome \<times> 's service_state \<times> (string, nat) jsmap" where
  "startFetch V inflight fresh b w =
     (case res_bind (resolveProxy (sv_storage V) (ss_storage w) (af_proxyId b) (af_ownerKeyHash b)) (\<lambda>proxy.
           res_bind (assertSafeUrl (service_parse V) (sv_guard V) (af_url b) (map_option pxy_allowedDomains proxy)) (\<lambda>_.
           res_bind (normalizeUrl (service_parse V) (af_url b)) (\<lambda>normalized. Inr (proxy, normalized)))) of
        Inl e \<Rightarrow> (Inl e, w, inflight)
      | Inr (proxy, normalized) \<Rightarrow>
          (let key = fetch_key V b normalized; inp = input_of b proxy in
           if \<not> cacheable b then (Inr (Compute inp normalized key), w, inflight)
           else (case cached_response V key w of
               (Inl e, w1) \<Rightarrow> (Inl e, w1, inflight)
             | (Inr (Some r), w1) \<Rightarrow> (Inr (CacheHit r), w1, inflight)
             | (Inr None, w1) \<Rightarrow>
                 (case coalesce key fresh inflight of
                    ((p, True), m) \<Rightarrow> (Inr (Compute inp normalized key), w1, m)
                  | ((p, False), m) \<Rightarrow> (Inr (Join p), w1, m)))))"

text \<open>A request with no other one in flight.\<close>

definition runFetch ::
  "'s fetch_service \<Rightarrow> api_fetch \<Rightarrow> 's service_state \<Rightarrow> fetch_response outcome \<times> 's service_state" where
  "runFetch V b w =
     (case startFetch V [] 0 b w of
        (Inr (CacheHit r), w1, _) \<Rightarrow> (Inr r, w1)
      | (Inr (Compute inp normalized key), w1, _) \<Rightarrow> compute_response V b inp normalized key w1
      | (Inr (Join p), w1, _) \<Rightarrow> (Inl (JsError []), w1)
      | (Inl e, w1, _) \<Rightarrow> (Inl e, w1))"

end
