(* ===== verification/OB_Agent.thy ===== *)
theory OB_Agent
  imports OB_Dom OB_Fetch
begin

text \<open>
  The agent commands of a live session, \<open>src/src/server/core/agent.ts\<close>, with the page snapshot of
  \<open>src/src/server/browserql.ts\<close> that runs in the page. The live page is a driver with a state; the commands are
  the validated ones of \<open>src/src/server/input/agent.ts\<close>.
\<close>

section \<open>Snapshots\<close>

record snapshot_element =
  sn_ref :: string
  sn_selector :: string
  sn_tag :: string
  sn_role :: "string option"
  sn_type :: "string option"
  sn_text :: string
  sn_href :: "string option"

definition snapshot_tags :: "string list" where
  "snapshot_tags = [''a'', ''button'', ''input'', ''select'', ''textarea'', ''h1'', ''h2'', ''h3'', ''h4'', ''h5'', ''h6'']"

definition snapshot_candidate :: "dom \<Rightarrow> bool" where
  "snapshot_candidate d \<longleftrightarrow>
     dom_name d \<in> set snapshot_tags \<or> dom_attr ''role'' d = Some ''button'' \<or> dom_attr ''role'' d = Some ''link'' \<or>
     (named ''img'' d \<and> dom_attr ''alt'' d \<noteq> None)"

definition quote_mark :: char where
  "quote_mark = CHR 0x22"

definition backslash :: char where
  "backslash = CHR 0x5C"

definition escaped :: "string \<Rightarrow> string" where
  "escaped v = concat (map (\<lambda>c. if c = quote_mark then [backslash, quote_mark] else [c])
     (concat (map (\<lambda>c. if c = backslash then [backslash, backslash] else [c]) v)))"

definition attribute_selector :: "string \<Rightarrow> string \<Rightarrow> string" where
  "attribute_selector k v = ''['' @ k @ ''='' @ [quote_mark] @ escaped v @ [quote_mark] @ '']''"

definition present :: "string option \<Rightarrow> bool" where
  "present v \<longleftrightarrow> (case v of Some (_ # _) \<Rightarrow> True | _ \<Rightarrow> False)"

definition snapshot_selector :: "dom \<Rightarrow> string" where
  "snapshot_selector d =
     (let tag = dom_name d; testId = dom_attr ''data-testid'' d; ident = dom_attr ''id'' d; name = dom_attr ''name'' d in
      if present testId then attribute_selector ''data-testid'' (the testId)
      else if present ident then attribute_selector ''id'' (the ident)
      else if present name then tag @ attribute_selector ''name'' (the name)
      else tag)"

text \<open>\<open>textContent\<close> is null for documents only, never for an element.\<close>

fun text_content :: "dom \<Rightarrow> string option" where
  "text_content d = Some (dom_text d)"

definition snapshot_text :: "dom \<Rightarrow> string" where
  "snapshot_text d =
     (let t = (case text_content d of Some t \<Rightarrow> t
               | None \<Rightarrow> (case dom_attr ''aria-label'' d of Some l \<Rightarrow> l
                         | None \<Rightarrow> attr_or_empty ''alt'' d))
      in take 300 (rx_replace_all (plus space) (\<lambda>_. '' '') (trim t)))"

definition snapshot_of :: "nat \<Rightarrow> dom \<Rightarrow> snapshot_element" where
  "snapshot_of i d =
     \<lparr>sn_ref = ''@e'' @ show_nat (i + 1), sn_selector = snapshot_selector d, sn_tag = dom_name d,
      sn_role = dom_attr ''role'' d, sn_type = dom_attr ''type'' d, sn_text = snapshot_text d, sn_href = dom_attr ''href'' d\<rparr>"

definition agentSnapshot :: "dom list \<Rightarrow> nat \<Rightarrow> snapshot_element list" where
  "agentSnapshot doc limit =
     (let chosen = take limit (select snapshot_candidate doc) in map2 snapshot_of [0..<length chosen] chosen)"

section \<open>Commands\<close>

datatype scroll_direction = ScrollUp | ScrollDown | ScrollLeft | ScrollRight

datatype agent_command =
    CmdGoto string "navigation_wait option"
  | CmdBack "navigation_wait option"
  | CmdForward "navigation_wait option"
  | CmdReload "navigation_wait option"
  | CmdSnapshot nat
  | CmdText string
  | CmdHtml "string option"
  | CmdEvaluate string
  | CmdClick string
  | CmdType string string
  | CmdSelect string string
  | CmdCheckbox string bool
  | CmdHover string
  | CmdScroll "string option" scroll_direction
  | CmdWaitForSelector string "millis option"
  | CmdWaitForNavigation "millis option"
  | CmdWaitForTimeout millis
  | CmdWaitForRequest "string option" "string option" "millis option"
  | CmdWaitForResponse "string option" "int list option" "millis option"
  | CmdLiveUrl
  | CmdClose

type_synonym ('s, 'a) live_op = "'s \<Rightarrow> 'a outcome \<times> 's"

datatype history_move = GoBack | GoForward | Reload

record 's live_page =
  lp_get :: "stored_session \<Rightarrow> stored_proxy option \<Rightarrow> ('s, unit) live_op"
  lp_goto :: "string \<Rightarrow> navigation_wait \<Rightarrow> millis \<Rightarrow> ('s, int option) live_op"
  lp_move :: "history_move \<Rightarrow> navigation_wait \<Rightarrow> millis \<Rightarrow> ('s, int option) live_op"
  lp_url :: "'s \<Rightarrow> string"
  lp_title :: "('s, string) live_op"
  lp_document :: "('s, dom list) live_op"
  lp_textContent :: "string \<Rightarrow> millis \<Rightarrow> ('s, string option) live_op"
  lp_innerHTML :: "string \<Rightarrow> millis \<Rightarrow> ('s, string) live_op"
  lp_content :: "('s, string) live_op"
  lp_evaluate :: "string \<Rightarrow> ('s, jsval) live_op"
  lp_click :: "string \<Rightarrow> millis \<Rightarrow> ('s, unit) live_op"
  lp_fill :: "string \<Rightarrow> string \<Rightarrow> millis \<Rightarrow> ('s, unit) live_op"
  lp_selectOption :: "string \<Rightarrow> string \<Rightarrow> millis \<Rightarrow> ('s, string list) live_op"
  lp_setChecked :: "string \<Rightarrow> bool \<Rightarrow> millis \<Rightarrow> ('s, unit) live_op"
  lp_hover :: "string \<Rightarrow> millis \<Rightarrow> ('s, unit) live_op"
  lp_scrollBy :: "string option \<Rightarrow> int \<Rightarrow> int \<Rightarrow> ('s, unit) live_op"
  lp_waitVisible :: "string \<Rightarrow> millis \<Rightarrow> ('s, unit) live_op"
  lp_waitForNavigation :: "navigation_wait \<Rightarrow> millis \<Rightarrow> ('s, unit) live_op"
  lp_waitForTimeout :: "millis \<Rightarrow> ('s, unit) live_op"
  lp_waitForRequest :: "(string \<times> string \<Rightarrow> bool) \<Rightarrow> millis \<Rightarrow> ('s, string \<times> string) live_op"
  lp_waitForResponse :: "(string \<times> int \<Rightarrow> bool) \<Rightarrow> millis \<Rightarrow> ('s, string \<times> int) live_op"
  lp_close :: "string \<Rightarrow> ('s, unit) live_op"

record 's agent_env =
  ae_page :: "'s live_page"
  ae_storage :: storage_env
  ae_parse :: url_parser
  ae_guard :: "'s \<Rightarrow> resolver"
  ae_now :: "'s \<Rightarrow> millis"
  ae_stringify :: "jsval \<Rightarrow> string option"

definition to_upper :: "string \<Rightarrow> string" where
  "to_upper s = map (\<lambda>c. let n = of_char c :: nat in if 97 \<le> n \<and> n \<le> 122 then char_of (n - 32) else c) s"

definition wanted_request :: "string option \<Rightarrow> string option \<Rightarrow> string \<times> string \<Rightarrow> bool" where
  "wanted_request u meth r \<longleftrightarrow>
     (present u \<longrightarrow> str_includes (fst r) (the u)) \<and> (present meth \<longrightarrow> snd r = to_upper (the meth))"

definition wanted_response :: "string option \<Rightarrow> int list option \<Rightarrow> string \<times> int \<Rightarrow> bool" where
  "wanted_response u statuses r \<longleftrightarrow>
     (present u \<longrightarrow> str_includes (fst r) (the u)) \<and> (case statuses of Some xs \<Rightarrow> snd r \<in> set xs | None \<Rightarrow> True)"

definition selector_not_found :: js_error where
  "selector_not_found = ob_err ''SELECTOR_NOT_FOUND'' ''Selector did not match an element'' 404 True"

definition opt_field :: "string \<Rightarrow> string option \<Rightarrow> (string \<times> jsval) list" where
  "opt_field k v = (case v of Some s \<Rightarrow> [(k, JStr s)] | None \<Rightarrow> [])"

definition snapshot_json :: "snapshot_element \<Rightarrow> jsval" where
  "snapshot_json e = JObj ([(''ref'', JStr (sn_ref e)), (''selector'', JStr (sn_selector e)), (''tag'', JStr (sn_tag e))]
     @ opt_field ''role'' (sn_role e) @ opt_field ''type'' (sn_type e) @ [(''text'', JStr (sn_text e))] @ opt_field ''href'' (sn_href e))"

fun scroll_delta :: "scroll_direction \<Rightarrow> int \<times> int" where
  "scroll_delta ScrollUp = (0, -700)"
| "scroll_delta ScrollDown = (0, 700)"
| "scroll_delta ScrollLeft = (-700, 0)"
| "scroll_delta ScrollRight = (700, 0)"

fun command_timeout :: "agent_command \<Rightarrow> millis option" where
  "command_timeout (CmdWaitForSelector _ t) = t"
| "command_timeout (CmdWaitForNavigation t) = t"
| "command_timeout (CmdWaitForRequest _ _ t) = t"
| "command_timeout (CmdWaitForResponse _ _ t) = t"
| "command_timeout _ = None"

definition timeout_of :: "config \<Rightarrow> agent_command \<Rightarrow> millis" where
  "timeout_of cfg c = (case command_timeout c of Some t \<Rightarrow> if t \<noteq> 0 then t else jobTimeoutMs cfg | None \<Rightarrow> jobTimeoutMs cfg)"

text \<open>The reply to a navigation: the status and the address the page has then.\<close>

definition navigated :: "'s agent_env \<Rightarrow> int option outcome \<times> 's \<Rightarrow> jsval outcome \<times> 's" where
  "navigated A r =
     then_do r (\<lambda>status s.
       (res_bind (normalizeUrl (ae_parse A) (lp_url (ae_page A) s)) (\<lambda>u.
          Inr (JObj [(''status'', JNum (of_int (or_default status 200))), (''url'', JStr u)])), s))"

definition bounded :: "'s agent_env \<Rightarrow> jsval \<Rightarrow> jsval outcome" where
  "bounded A v = assertBoundedJson (se_config (ae_storage A)) (ae_stringify A) v ''Agent command output''"

text \<open>The commands on a page that is there.\<close>

definition page_command :: "'s agent_env \<Rightarrow> stored_session \<Rightarrow> agent_command \<Rightarrow> ('s, jsval) live_op" where
  "page_command A session c s =
     (let P = ae_page A; t = timeout_of (se_config (ae_storage A)) c; landed = (\<lambda>w. or_default w WaitDomContentLoaded);
          flag = (\<lambda>k (_ :: unit) s. (Inr (JObj [(k, JBool True)]), s))
      in case c of
        CmdGoto url wait \<Rightarrow>
          (case assertSafeUrl (ae_parse A) (ae_guard A s) url None of
             Inl e \<Rightarrow> (Inl e, s)
           | Inr _ \<Rightarrow> navigated A (lp_goto P url (landed wait) t s))
      | CmdBack wait \<Rightarrow> navigated A (lp_move P GoBack (landed wait) t s)
      | CmdForward wait \<Rightarrow> navigated A (lp_move P GoForward (landed wait) t s)
      | CmdReload wait \<Rightarrow> navigated A (lp_move P Reload (landed wait) t s)
      | CmdSnapshot limit \<Rightarrow>
          (case normalizeUrl (ae_parse A) (lp_url P s) of
             Inl e \<Rightarrow> (Inl e, s)
           | Inr u \<Rightarrow>
               then_do (lp_title P s) (\<lambda>title s1. then_do (lp_document P s1) (\<lambda>doc s2.
                 (Inr (JObj [(''url'', JStr u), (''title'', JStr title),
                             (''elements'', JArr (map snapshot_json (agentSnapshot doc limit)))]), s2))))
      | CmdText sel \<Rightarrow>
          then_do (lp_textContent P sel t s) (\<lambda>v s1.
            (case v of None \<Rightarrow> Inl selector_not_found | Some x \<Rightarrow> bounded A (JObj [(''text'', JStr (trim x))]), s1))
      | CmdHtml sel \<Rightarrow>
          then_do (if present sel then lp_innerHTML P (the sel) t s else lp_content P s) (\<lambda>html s1.
            (bounded A (JObj [(''html'', JStr html)]), s1))
      | CmdEvaluate script \<Rightarrow> then_do (lp_evaluate P script s) (\<lambda>v s1. (bounded A (JObj [(''value'', v)]), s1))
      | CmdClick sel \<Rightarrow> then_do (lp_click P sel t s) (flag ''clicked'')
      | CmdType sel txt \<Rightarrow>
          then_do (lp_fill P sel txt t s) (\<lambda>_ s1. (Inr (JObj [(''typed'', JNum (of_nat (length txt)))]), s1))
      | CmdSelect sel v \<Rightarrow>
          then_do (lp_selectOption P sel v t s) (\<lambda>xs s1. (Inr (JObj [(''selected'', JArr (map JStr xs))]), s1))
      | CmdCheckbox sel on \<Rightarrow> then_do (lp_setChecked P sel on t s) (\<lambda>_ s1. (Inr (JObj [(''checked'', JBool on)]), s1))
      | CmdHover sel \<Rightarrow> then_do (lp_hover P sel t s) (flag ''hovered'')
      | CmdScroll sel dir \<Rightarrow>
          then_do (lp_scrollBy P (if present sel then sel else None) (fst (scroll_delta dir)) (snd (scroll_delta dir)) s)
            (flag ''scrolled'')
      | CmdWaitForSelector sel _ \<Rightarrow> then_do (lp_waitVisible P sel t s) (flag ''found'')
      | CmdWaitForNavigation _ \<Rightarrow>
          then_do (lp_waitForNavigation P WaitDomContentLoaded t s) (\<lambda>_ s1.
            (res_bind (normalizeUrl (ae_parse A) (lp_url P s1)) (\<lambda>u.
               Inr (JObj [(''navigated'', JBool True), (''url'', JStr u)])), s1))
      | CmdWaitForTimeout ms \<Rightarrow>
          then_do (lp_waitForTimeout P ms s) (\<lambda>_ s1. (Inr (JObj [(''waitedMs'', JNum (of_int ms))]), s1))
      | CmdWaitForRequest u meth _ \<Rightarrow>
          then_do (lp_waitForRequest P (wanted_request u meth) t s) (\<lambda>(url, m) s1.
            (Inr (JObj [(''url'', JStr url), (''method'', JStr m)]), s1))
      | CmdWaitForResponse u statuses _ \<Rightarrow>
          then_do (lp_waitForResponse P (wanted_response u statuses) t s) (\<lambda>(url, n) s1.
            (Inr (JObj [(''url'', JStr url), (''status'', JNum (of_int n))]), s1))
      | CmdLiveUrl \<Rightarrow>
          (Inr (JObj [(''inspector'', JStr (''/v1/sessions/'' @ ses_id session @ ''/inspect'')),
                      (''screenshot'', JStr (''/v1/sessions/'' @ ses_id session @ ''/inspect/screenshot'')),
                      (''policy'', JStr ''OpenBrowse provides authenticated read-only inspection, not a public live-control URL.'')]), s)
      | CmdClose \<Rightarrow> then_do (lp_close P (ses_id session) s) (flag ''closed''))"

definition executeAgentCommand ::
  "'s agent_env \<Rightarrow> stored_session \<Rightarrow> agent_command \<Rightarrow> storage \<times> 's \<Rightarrow> jsval outcome \<times> storage \<times> 's" where
  "executeAgentCommand A session c w =
     (case resolveProxy (ae_storage A) (fst w) (ses_proxyId session) (ses_ownerKeyHash session) of
        Inl e \<Rightarrow> (Inl e, w)
      | Inr proxy \<Rightarrow>
          (case lp_get (ae_page A) session proxy (snd w) of
             (Inl e, s1) \<Rightarrow> (Inl e, fst w, s1)
           | (Inr _, s1) \<Rightarrow>
               (case page_command A session c s1 of
                  (Inr v, s2) \<Rightarrow>
                    if c = CmdClose
                    then (case deleteSession (ae_storage A) (ses_id session) (ae_now A s2) (fst w) of
                            (Inl e, S1) \<Rightarrow> (Inl e, S1, s2)
                          | (Inr _, S1) \<Rightarrow> (Inr v, S1, s2))
                    else (Inr v, fst w, s2)
                | (Inl e, s2) \<Rightarrow> (Inl e, fst w, s2))))"

end
