(* ===== verification/OB_Schemas.thy ===== *)
theory OB_Schemas
  imports OB_Agent
begin

text \<open>
  The request schemas of \<open>src/src/server/input/schemas.ts\<close> and \<open>src/src/server/input/agent.ts\<close> and the wrapper of
  \<open>src/src/server/input/validation.ts\<close>. A schema is data, as in the source; the parser that interprets it is the
  package zod and a parameter, of which only its documented promise is used: what it returns accepts to the
  schema.
\<close>

section \<open>Schemas\<close>

text \<open>\<open>SRefine\<close> is \<open>superRefine\<close>: the function yields the messages it adds. \<open>SMatch\<close> is a regular expression on a
  text and \<open>STrim\<close> removes the blanks around it.\<close>

datatype schema =
    SString nat "nat option"
  | SUrl nat
  | STrim schema
  | SMatch "string \<Rightarrow> bool" schema
  | SNumber bool "rat option" "rat option"
  | SBool
  | SEnum "string list"
  | SArray nat "nat option" schema
  | SPair schema schema
  | SObject bool "(string \<times> schema) list"
  | SRecord schema schema
  | SOptional schema
  | SDefault schema jsval
  | SUnion "schema list"
  | SRefine "jsval \<Rightarrow> string list" schema
  | SUnknown

abbreviation SLiteral :: "string \<Rightarrow> schema" where
  "SLiteral s \<equiv> SEnum [s]"

definition within_size :: "nat \<Rightarrow> nat option \<Rightarrow> nat \<Rightarrow> bool" where
  "within_size lo hi n \<longleftrightarrow> lo \<le> n \<and> (case hi of Some h \<Rightarrow> n \<le> h | None \<Rightarrow> True)"

definition within_range :: "bool \<Rightarrow> rat option \<Rightarrow> rat option \<Rightarrow> rat \<Rightarrow> bool" where
  "within_range integral lo hi q \<longleftrightarrow>
     (integral \<longrightarrow> of_int \<lfloor>q\<rfloor> = q) \<and> (case lo of Some l \<Rightarrow> l \<le> q | None \<Rightarrow> True) \<and> (case hi of Some h \<Rightarrow> q \<le> h | None \<Rightarrow> True)"

definition object_value :: "(string \<times> jsval) list \<Rightarrow> string \<Rightarrow> jsval" where
  "object_value fs k = (case map_of fs k of Some v \<Rightarrow> v | None \<Rightarrow> JUndefined)"

fun accepts :: "(string \<Rightarrow> bool) \<Rightarrow> schema \<Rightarrow> jsval \<Rightarrow> bool" where
  "accepts U (SString lo hi) v = (case v of JStr s \<Rightarrow> within_size lo hi (length s) | _ \<Rightarrow> False)"
| "accepts U (SUrl hi) v = (case v of JStr s \<Rightarrow> U s \<and> length s \<le> hi | _ \<Rightarrow> False)"
| "accepts U (STrim sch) v = accepts U sch v"
| "accepts U (SMatch P sch) v = (accepts U sch v \<and> (case v of JStr s \<Rightarrow> P s | _ \<Rightarrow> False))"
| "accepts U (SNumber integral lo hi) v = (case v of JNum q \<Rightarrow> within_range integral lo hi q | _ \<Rightarrow> False)"
| "accepts U SBool v = (case v of JBool _ \<Rightarrow> True | _ \<Rightarrow> False)"
| "accepts U (SEnum xs) v = (case v of JStr s \<Rightarrow> s \<in> set xs | _ \<Rightarrow> False)"
| "accepts U (SArray lo hi sch) v = (case v of JArr xs \<Rightarrow> within_size lo hi (length xs) \<and> list_all (accepts U sch) xs | _ \<Rightarrow> False)"
| "accepts U (SPair a b) v = (case v of JArr [x, y] \<Rightarrow> accepts U a x \<and> accepts U b y | _ \<Rightarrow> False)"
| "accepts U (SObject strict shape) v =
     (case v of
        JObj fs \<Rightarrow> list_all (\<lambda>(k, _). k \<in> fst ` set shape) fs \<and> list_all (\<lambda>(k, sch). accepts U sch (object_value fs k)) shape
      | _ \<Rightarrow> False)"
| "accepts U (SRecord keys sch) v =
     (case v of JObj fs \<Rightarrow> list_all (\<lambda>(k, x). accepts U keys (JStr k) \<and> accepts U sch x) fs | _ \<Rightarrow> False)"
| "accepts U (SOptional sch) v = (v = JUndefined \<or> accepts U sch v)"
| "accepts U (SDefault sch d) v = accepts U sch v"
| "accepts U (SUnion schs) v = list_ex (\<lambda>sch. accepts U sch v) schs"
| "accepts U (SRefine issues sch) v = (accepts U sch v \<and> issues v = [])"
| "accepts U SUnknown v = True"

text \<open>What parsing makes of a value: defaults are filled in, keys that the shape does not have are dropped.\<close>

fun yields :: "schema \<Rightarrow> jsval \<Rightarrow> jsval \<Rightarrow> bool" where
  "yields (STrim sch) v r = (case v of JStr s \<Rightarrow> yields sch (JStr (trim s)) r | _ \<Rightarrow> False)"
| "yields (SMatch P sch) v r = yields sch v r"
| "yields (SArray lo hi sch) v r =
     (case (v, r) of (JArr xs, JArr ys) \<Rightarrow> length xs = length ys \<and> list_all (\<lambda>(x, y). yields sch x y) (zip xs ys) | _ \<Rightarrow> False)"
| "yields (SObject strict shape) v r =
     (case (v, r) of
        (JObj xs, JObj ys) \<Rightarrow> list_all (\<lambda>(k, sch). yields sch (object_value xs k) (object_value ys k)) shape
      | _ \<Rightarrow> False)"
| "yields (SOptional sch) v r = (if v = JUndefined then r = JUndefined else yields sch v r)"
| "yields (SDefault sch d) v r = (if v = JUndefined then r = d else yields sch v r)"
| "yields (SUnion schs) v r = list_ex (\<lambda>sch. yields sch v r) schs"
| "yields (SRefine issues sch) v r = yields sch v r"
| "yields _ v r = (r = v)"

text \<open>The parser answers with the issues, each a path and a message, or with the value.\<close>

type_synonym zod = "schema \<Rightarrow> jsval \<Rightarrow> (string list \<times> string) list + jsval"

definition zod_ok :: "(string \<Rightarrow> bool) \<Rightarrow> zod \<Rightarrow> bool" where
  "zod_ok U zod \<longleftrightarrow> (\<forall>sch v r. zod sch v = Inr r \<longrightarrow> accepts U sch r \<and> yields sch v r)"

definition validation_failed :: "(string list \<times> string) list \<Rightarrow> js_error" where
  "validation_failed issues =
     OpenBrowseError \<lparr>code = ''INVALID_REQUEST'', message = ''Request validation failed'', statusCode = 400, retryable = False,
       details = [(''issues'', JArr (map (\<lambda>(path, m).
         JObj [(''path'', JStr (join_with ''.'' path)), (''message'', JStr m)]) issues))]\<rparr>"

definition parse_request :: "zod \<Rightarrow> schema \<Rightarrow> jsval \<Rightarrow> jsval outcome" where
  "parse_request zod sch v = (case zod sch v of Inl issues \<Rightarrow> Inl (validation_failed issues) | Inr r \<Rightarrow> Inr r)"

lemma parse_request_ok: "zod_ok U zod \<Longrightarrow> parse_request zod sch v = Inr r \<Longrightarrow> accepts U sch r \<and> yields sch v r"
  by (auto simp: parse_request_def zod_ok_def split: sum.splits)

section \<open>The schemas of the requests\<close>

definition whole :: "int option \<Rightarrow> int option \<Rightarrow> schema" where
  "whole lo hi = SNumber True (map_option of_int lo) (map_option of_int hi)"

definition url_schema :: schema where
  "url_schema = SUrl 4096"

definition strategy_schema :: schema where
  "strategy_schema = SDefault (SEnum [''auto'', ''http'', ''browser'']) (JStr ''auto'')"

definition viewport_schema :: schema where
  "viewport_schema = SObject False
     [(''width'', whole (Some 64) (Some 4096)), (''height'', whole (Some 64) (Some 4096)),
      (''deviceScaleFactor'', SOptional (SNumber False (Some (1 / 2)) (Some 3)))]"

definition wait_kind :: "string \<Rightarrow> (string \<times> schema) list \<Rightarrow> schema" where
  "wait_kind k shape = SObject False ((''type'', SLiteral k) # shape)"

definition browser_wait_schema :: "config \<Rightarrow> schema" where
  "browser_wait_schema cfg = SUnion
     [wait_kind ''domcontentloaded'' [], wait_kind ''load'' [],
      wait_kind ''networkidle'' [(''timeoutMs'', SOptional (whole (Some 100) (Some (jobTimeoutMs cfg))))],
      wait_kind ''selector'' [(''selector'', SString 1 (Some 512)), (''state'', SOptional (SEnum [''attached'', ''visible'']))],
      wait_kind ''delay'' [(''ms'', whole (Some 1) (Some (jobTimeoutMs cfg)))],
      wait_kind ''stability'' [(''quietMs'', SOptional (whole (Some 100) (Some 2000))),
        (''timeoutMs'', SOptional (whole (Some 250) (Some (jobTimeoutMs cfg))))]]"

definition not_control :: rx where
  "not_control = RSym (\<lambda>c. let n = of_char c :: nat in 32 \<le> n \<and> n \<noteq> 127)"

definition fingerprint_argument :: "string \<Rightarrow> bool" where
  "fingerprint_argument = rx_full (seqs [lit_i ''--fingerprint'', opt (seqs [ch (CHR ''-''), plus (alnum_or ''-'')]),
     opt (seqs [ch (CHR ''=''), RStar not_control])])"

definition probability_key :: "string \<Rightarrow> bool" where
  "probability_key = rx_test (RSeq (alts [lit ''chance'', lit ''variance'', lit ''_x_range'', lit ''target_zone'']) REnd)"

definition humanizationConfigKeys :: "string list" where
  "humanizationConfigKeys =
   [''typing_delay'', ''typing_delay_spread'', ''typing_pause_chance'', ''typing_pause_range'',
    ''shift_down_delay'', ''shift_up_delay'', ''key_hold'', ''field_switch_delay'', ''mistype_chance'',
    ''mistype_delay_notice'', ''mistype_delay_correct'', ''mouse_steps_divisor'', ''mouse_min_steps'',
    ''mouse_max_steps'', ''mouse_wobble_max'', ''mouse_overshoot_chance'', ''mouse_overshoot_px'',
    ''mouse_burst_size'', ''mouse_burst_pause'', ''click_aim_delay_input'', ''click_aim_delay_button'',
    ''click_hold_input'', ''click_hold_button'', ''click_input_x_range'', ''idle_drift_px'', ''idle_pause_range'',
    ''scroll_delta_base'', ''scroll_delta_variance'', ''scroll_pause_fast'', ''scroll_pause_slow'',
    ''scroll_accel_steps'', ''scroll_decel_steps'', ''scroll_overshoot_chance'', ''scroll_overshoot_px'',
    ''scroll_settle_delay'', ''scroll_target_zone'', ''scroll_pre_move_delay'', ''initial_cursor_x'',
    ''initial_cursor_y'', ''idle_between_actions'', ''idle_between_duration'']"

text \<open>The two checks of a humanisation setting.\<close>

definition humanization_issues :: "jsval \<Rightarrow> string list" where
  "humanization_issues v =
     (case v of
        JObj fs \<Rightarrow>
          (case object_value fs ''humanConfig'' of
             JObj settings \<Rightarrow> concat (map (\<lambda>(k, x).
               (case x of
                  JArr [JNum a, JNum b] \<Rightarrow> if a > b then [''Humanization ranges must be ordered [minimum, maximum]''] else []
                | _ \<Rightarrow> []) @
               (case x of
                  JNum q \<Rightarrow> if probability_key k \<and> q > 1 then [''Probability humanization settings must be between 0 and 1''] else []
                | _ \<Rightarrow> [])) settings)
           | _ \<Rightarrow> [])
      | _ \<Rightarrow> [])"

definition camoufox_schema :: schema where
  "camoufox_schema = SObject True
     [(''os'', SOptional (SEnum [''windows'', ''macos'', ''linux''])),
      (''locale'', SOptional (SUnion [SString 2 (Some 35), SArray 1 (Some 8) (SString 2 (Some 35))])),
      (''humanize'', SOptional (SUnion [SBool, SNumber False (Some 0) (Some 10)])),
      (''blockImages'', SOptional SBool), (''blockWebrtc'', SOptional SBool), (''enableCache'', SOptional SBool)]"

definition human_number :: schema where
  "human_number = SNumber False (Some 0) (Some 10000)"

definition browser_options_schema :: schema where
  "browser_options_schema = SRefine humanization_issues (SObject True
     [(''fingerprintArgs'', SOptional (SArray 0 (Some 32) (SMatch fingerprint_argument (SString 1 (Some 256))))),
      (''humanize'', SOptional SBool), (''humanPreset'', SOptional (SEnum [''default'', ''careful''])),
      (''humanConfig'', SOptional (SRecord (SEnum humanizationConfigKeys) (SUnion [human_number, SBool, SPair human_number human_number]))),
      (''camoufox'', SOptional camoufox_schema)])"

definition identifier_rx :: "string \<Rightarrow> string \<Rightarrow> bool" where
  "identifier_rx pre = rx_full (RSeq (lit pre) (plus (RSym (\<lambda>c. is_lower_letter c \<or> is_digit c))))"

definition wait_issues :: "jsval \<Rightarrow> string list" where
  "wait_issues v =
     (case v of JObj fs \<Rightarrow> if object_value fs ''wait'' \<noteq> JUndefined \<and> object_value fs ''waitUntil'' \<noteq> JUndefined
        then [''wait and waitUntil cannot be used together''] else [] | _ \<Rightarrow> [])"

definition page_load_states :: "string list" where
  "page_load_states = [''load'', ''domcontentloaded'', ''networkidle'']"

definition fetch_schema :: "config \<Rightarrow> schema" where
  "fetch_schema cfg = SRefine wait_issues (SObject False
     [(''url'', url_schema), (''strategy'', strategy_schema),
      (''timeoutMs'', SOptional (whole (Some 100) (Some (jobTimeoutMs cfg)))),
      (''headers'', SOptional (SRecord (SString 0 None) (SString 0 None))),
      (''waitUntil'', SOptional (SEnum page_load_states)), (''wait'', SOptional (browser_wait_schema cfg)),
      (''output'', SDefault (SArray 0 (Some 7) (SEnum [''html'', ''text'', ''markdown'', ''links'', ''metadata'', ''article'', ''provenance'']))
         (JArr [JStr ''html''])),
      (''browserBackend'', SOptional (SEnum (map backend_id browserBackendIds))),
      (''browserOptions'', SOptional browser_options_schema),
      (''cache'', SDefault (SObject False [(''mode'', SDefault (SEnum [''default'', ''no-store'', ''reload'']) (JStr ''default'')),
         (''ttlSeconds'', SDefault (whole (Some 1) (Some 86400)) (JNum 300))])
         (JObj [(''mode'', JStr ''default''), (''ttlSeconds'', JNum 300)])),
      (''proxyId'', SOptional (SMatch (identifier_rx ''pxy_'') (SString 0 None))), (''viewport'', SOptional viewport_schema)])"

definition attribute_issues :: "jsval \<Rightarrow> string list" where
  "attribute_issues v =
     (case v of JObj fs \<Rightarrow> if object_value fs ''type'' = JStr ''attribute'' \<and> object_value fs ''attribute'' \<in> {JUndefined, JStr []}
        then [''attribute is required for attribute extraction''] else [] | _ \<Rightarrow> [])"

definition selector_schema :: schema where
  "selector_schema = SRefine attribute_issues (SObject False
     [(''selector'', SString 1 (Some 512)), (''type'', SEnum [''text'', ''html'', ''attribute'']),
      (''attribute'', SOptional (SString 0 (Some 128))), (''all'', SOptional SBool)])"

section \<open>Agent commands\<close>

definition a_selector :: schema where
  "a_selector = SString 1 (Some 512)"

definition a_timeout :: "config \<Rightarrow> schema" where
  "a_timeout cfg = SOptional (whole (Some 100) (Some (jobTimeoutMs cfg)))"

definition command_shape :: "string list \<Rightarrow> schema \<Rightarrow> schema" where
  "command_shape ms params = SObject False [(''method'', SEnum ms), (''params'', params)]"

definition no_params :: jsval where
  "no_params = JObj []"

definition agent_command_table :: "config \<Rightarrow> (string list \<times> schema) list" where
  "agent_command_table cfg =
     [([''goto''], SObject False [(''url'', url_schema), (''waitUntil'', SOptional (SEnum page_load_states))]),
      ([''back'', ''forward'', ''reload''],
        SDefault (SObject False [(''waitUntil'', SOptional (SEnum page_load_states))]) no_params),
      ([''snapshot''], SDefault (SObject False [(''maxElements'', SDefault (whole (Some 1) (Some 500)) (JNum 100))])
        (JObj [(''maxElements'', JNum 100)])),
      ([''text''], SObject False [(''selector'', a_selector)]),
      ([''html''], SDefault (SObject False [(''selector'', SOptional a_selector)]) no_params),
      ([''evaluate''], SObject False [(''content'', SString 1 (Some 10000))]),
      ([''click''], SObject False [(''selector'', a_selector)]),
      ([''type''], SObject False [(''selector'', a_selector), (''text'', SString 0 (Some 10000))]),
      ([''select''], SObject False [(''selector'', a_selector), (''value'', SString 0 (Some 2048))]),
      ([''checkbox''], SObject False [(''selector'', a_selector), (''checked'', SDefault SBool (JBool True))]),
      ([''hover''], SObject False [(''selector'', a_selector)]),
      ([''scroll''], SDefault (SObject False [(''selector'', SOptional a_selector),
        (''direction'', SDefault (SEnum [''up'', ''down'', ''left'', ''right'']) (JStr ''down''))]) (JObj [(''direction'', JStr ''down'')])),
      ([''waitForSelector''], SObject False [(''selector'', a_selector), (''timeout'', a_timeout cfg)]),
      ([''waitForNavigation''], SDefault (SObject False [(''timeout'', a_timeout cfg)]) no_params),
      ([''waitForTimeout''], SObject False [(''time'', whole (Some 0) (Some (jobTimeoutMs cfg)))]),
      ([''waitForRequest''], SDefault (SObject False [(''url'', SOptional a_selector),
        (''method'', SOptional (SString 1 (Some 16))), (''timeout'', a_timeout cfg)]) no_params),
      ([''waitForResponse''], SDefault (SObject False [(''url'', SOptional a_selector),
        (''statuses'', SOptional (SArray 0 (Some 50) (whole (Some 100) (Some 599)))), (''timeout'', a_timeout cfg)]) no_params),
      ([''liveURL''], SDefault (SObject False []) no_params),
      ([''close''], SDefault (SObject False []) no_params)]"

definition agent_command_schema :: "config \<Rightarrow> schema" where
  "agent_command_schema cfg = SUnion (map (\<lambda>(ms, params). command_shape ms params) (agent_command_table cfg))"

end
