(* ===== verification/OB_Sessions.thy ===== *)
theory OB_Sessions
  imports OB_Backends OB_System
begin

text \<open>
  The live browser sessions of \<open>src/src/execution/sessions.ts\<close>. \<open>create\<close> and \<open>startTrace\<close> are cut at
  their suspension points; the browsers that were launched are kept as handles, so that a browser
  nobody can close any more is visible. Launching, contexts and the tracer are inputs of the steps.
\<close>

section \<open>Timers\<close>

text \<open>\<open>setTimeout\<close> of Node: a delay outside 1 to 2147483647 milliseconds is replaced by one millisecond.\<close>

definition timer_delay :: "millis \<Rightarrow> millis" where
  "timer_delay ms = (if 1 \<le> ms \<and> ms \<le> 2147483647 then ms else 1)"

section \<open>The manager\<close>

record live_session =
  lv_session :: stored_session
  lv_handle :: nat
  lv_backend :: backend

record session_manager =
  sm_active :: "(string, live_session) jsmap"
  sm_tracing :: "string list"
  sm_timers :: "(string, nat) jsmap"

definition new_manager :: session_manager where
  "new_manager = \<lparr>sm_active = [], sm_tracing = [], sm_timers = []\<rparr>"

text \<open>\<open>close\<close> up to its first suspension: the manager, the timer it clears and the browser it closes.\<close>

definition session_close :: "string \<Rightarrow> session_manager \<Rightarrow> session_manager \<times> nat option \<times> nat option" where
  "session_close sid M =
     (M\<lparr>sm_timers := map_remove sid (sm_timers M), sm_active := map_remove sid (sm_active M),
        sm_tracing := removeAll sid (sm_tracing M)\<rparr>,
      map_of (sm_timers M) sid, map_option lv_handle (map_of (sm_active M) sid))"

definition viewer_busy :: js_error where
  "viewer_busy = ob_err ''VIEWER_BUSY'' ''Only one live VNC session may run per OpenBrowse instance'' 409 True"

text \<open>The check of \<open>create\<close> after \<open>closeExpired\<close>.\<close>

definition viewer_free :: "stored_session \<Rightarrow> session_manager \<Rightarrow> unit outcome" where
  "viewer_free session M =
     (if ses_liveViewer session \<and> list_ex (\<lambda>(_, l). ses_liveViewer (lv_session l)) (sm_active M)
      then Inl viewer_busy else Inr ())"

definition expired_ids :: "millis \<Rightarrow> session_manager \<Rightarrow> string list" where
  "expired_ids now M =
     map (\<lambda>(_, l). ses_id (lv_session l)) (filter (\<lambda>(_, l). ses_expiresAt (lv_session l) \<le> now) (sm_active M))"

record safe_launch_options =
  sl_args :: "string list option"
  sl_headless :: "bool option"
  sl_slowMo :: "int option"
  sl_acceptInsecureCerts :: "bool option"

text \<open>The options given to Playwright.\<close>

record launch_settings =
  ls_headless :: bool
  ls_chromiumSandbox :: bool
  ls_slowMo :: "int option"
  ls_ignoreHTTPSErrors :: "bool option"
  ls_args :: "string list"

definition launch_settings :: "config \<Rightarrow> string list \<Rightarrow> stored_session \<Rightarrow> safe_launch_options \<Rightarrow> launch_settings" where
  "launch_settings cfg extensionArgs session opts =
     \<lparr>ls_headless = or_default (sl_headless opts) (\<not> ses_liveViewer session),
      ls_chromiumSandbox = chromiumSandbox cfg, ls_slowMo = sl_slowMo opts,
      ls_ignoreHTTPSErrors = sl_acceptInsecureCerts opts,
      ls_args = extensionArgs @ or_default (sl_args opts) []\<rparr>"

text \<open>The last part of \<open>create\<close>: the session is active and its expiry timer \<open>t\<close> is set.\<close>

definition session_created :: "stored_session \<Rightarrow> nat \<Rightarrow> backend \<Rightarrow> nat \<Rightarrow> session_manager \<Rightarrow> session_manager" where
  "session_created session handle b t M =
     M\<lparr>sm_active := map_set (ses_id session) \<lparr>lv_session = session, lv_handle = handle, lv_backend = b\<rparr> (sm_active M),
       sm_timers := map_set (ses_id session) t (sm_timers M)\<rparr>"

definition expiry_delay :: "millis \<Rightarrow> stored_session \<Rightarrow> millis" where
  "expiry_delay now session = timer_delay (max 0 (ses_expiresAt session - now))"

definition trace_started :: "string \<Rightarrow> session_manager \<Rightarrow> session_manager" where
  "trace_started sid M = (if sid \<in> set (sm_tracing M) then M else M\<lparr>sm_tracing := sm_tracing M @ [sid]\<rparr>)"

text \<open>\<open>stopTrace\<close> up to the tracer: whether there is a trace to stop.\<close>

definition trace_stop :: "string \<Rightarrow> session_manager \<Rightarrow> bool \<times> session_manager" where
  "trace_stop sid M =
     (if map_of (sm_active M) sid = None \<or> sid \<notin> set (sm_tracing M) then (False, M)
      else (True, M\<lparr>sm_tracing := removeAll sid (sm_tracing M)\<rparr>))"

definition trace_artifact :: "config \<Rightarrow> 'b list \<Rightarrow> 'b list outcome" where
  "trace_artifact cfg trace =
     (if int (length trace) > maxResponseBytes cfg
      then Inl (ob_err ''PAYLOAD_TOO_LARGE'' ''Trace exceeds the configured artifact byte limit'' 413 False) else Inr trace)"

definition isTracing :: "string \<Rightarrow> session_manager \<Rightarrow> bool" where
  "isTracing sid M = (sid \<in> set (sm_tracing M))"

definition isActive :: "string \<Rightarrow> session_manager \<Rightarrow> bool" where
  "isActive sid M = (map_of (sm_active M) sid \<noteq> None)"

definition redactCookies :: "(string \<times> (string \<times> jsval) list) list \<Rightarrow> (string \<times> (string \<times> jsval) list) list" where
  "redactCookies cookies = map (\<lambda>(v, rest). (''***'', rest)) cookies"

section \<open>The world of a manager\<close>

text \<open>
  Timers run on a clock of their own; \<open>sw_timers\<close> are the timers that are still set, with the time
  they fire and the session they close. \<open>sw_open\<close> are the browsers that run.
\<close>

record session_world =
  sw_manager :: session_manager
  sw_now :: millis
  sw_pending :: "stored_session list"
  sw_open :: "nat list"
  sw_timers :: "(nat, millis \<times> string) jsmap"
  sw_next :: nat

definition close_one :: "string \<Rightarrow> session_world \<Rightarrow> session_world" where
  "close_one sid W =
     (case session_close sid (sw_manager W) of
        (M, timer, handle) \<Rightarrow>
          W\<lparr>sw_manager := M,
            sw_timers := (case timer of Some t \<Rightarrow> map_remove t (sw_timers W) | None \<Rightarrow> sw_timers W),
            sw_open := (case handle of Some h \<Rightarrow> removeAll h (sw_open W) | None \<Rightarrow> sw_open W)\<rparr>)"

definition close_expired :: "session_world \<Rightarrow> session_world" where
  "close_expired W = fold close_one (expired_ids (sw_now W) (sw_manager W)) W"

definition close_all :: "session_world \<Rightarrow> session_world" where
  "close_all W = fold close_one (map fst (sm_active (sw_manager W))) W"

definition create_begin :: "stored_session \<Rightarrow> session_world \<Rightarrow> session_world" where
  "create_begin session W =
     (let W1 = close_expired W in
      case viewer_free session (sw_manager W1) of
        Inl _ \<Rightarrow> W1
      | Inr _ \<Rightarrow> W1\<lparr>sw_pending := sw_pending W1 @ [session]\<rparr>)"

definition create_done :: "stored_session \<Rightarrow> backend \<Rightarrow> session_world \<Rightarrow> session_world" where
  "create_done session b W =
     W\<lparr>sw_manager := session_created session (sw_next W) b (sw_next W) (sw_manager W),
       sw_pending := remove1 session (sw_pending W), sw_open := sw_open W @ [sw_next W],
       sw_timers := map_set (sw_next W) (sw_now W + expiry_delay (sw_now W) session, ses_id session) (sw_timers W),
       sw_next := Suc (sw_next W)\<rparr>"

definition session_get :: "stored_session \<Rightarrow> session_world \<Rightarrow> session_world" where
  "session_get session W = (if isActive (ses_id session) (sw_manager W) then W else create_begin session W)"

definition fire_timer :: "nat \<Rightarrow> session_world \<Rightarrow> session_world" where
  "fire_timer t W =
     (case map_of (sw_timers W) t of
        Some (due, sid) \<Rightarrow> if due \<le> sw_now W then close_one sid (W\<lparr>sw_timers := map_remove t (sw_timers W)\<rparr>) else W
      | None \<Rightarrow> W)"

inductive session_step :: "session_world \<Rightarrow> session_world \<Rightarrow> bool" where
  step_create: "session_step W (create_begin session W)"
| step_get: "session_step W (session_get session W)"
| step_created: "session \<in> set (sw_pending W) \<Longrightarrow> session_step W (create_done session b W)"
| step_create_failed: "session \<in> set (sw_pending W) \<Longrightarrow>
     session_step W (W\<lparr>sw_pending := remove1 session (sw_pending W)\<rparr>)"
| step_create_failed_late: "session \<in> set (sw_pending W) \<Longrightarrow>
     session_step W (W\<lparr>sw_pending := remove1 session (sw_pending W), sw_open := sw_open W @ [sw_next W], sw_next := Suc (sw_next W)\<rparr>)"
| step_close: "session_step W (close_one sid W)"
| step_close_all: "session_step W (close_all W)"
| step_timer: "session_step W (fire_timer t W)"
| step_time: "session_step W (W\<lparr>sw_now := sw_now W + int d\<rparr>)"
| step_trace: "session_step W (W\<lparr>sw_manager := trace_started sid (sw_manager W)\<rparr>)"
| step_trace_stop: "session_step W (W\<lparr>sw_manager := snd (trace_stop sid (sw_manager W))\<rparr>)"

inductive_cases session_stepE: "session_step W W'"

definition session_start :: session_world where
  "session_start = \<lparr>sw_manager = new_manager, sw_now = 0, sw_pending = [], sw_open = [], sw_timers = [], sw_next = 0\<rparr>"

section \<open>The invariant\<close>

definition has_timer :: "session_world \<Rightarrow> string \<Rightarrow> live_session \<Rightarrow> bool" where
  "has_timer W sid l \<longleftrightarrow>
     (\<exists>t due. map_of (sm_timers (sw_manager W)) sid = Some t \<and> map_of (sw_timers W) t = Some (due, sid) \<and>
              due \<le> max (ses_expiresAt (lv_session l)) (sw_now W + 1))"

definition timers_ok :: "session_world \<Rightarrow> bool" where
  "timers_ok W \<longleftrightarrow>
     (\<forall>t e. map_of (sw_timers W) t = Some e \<longrightarrow> t < sw_next W) \<and>
     (\<forall>sid t. map_of (sm_timers (sw_manager W)) sid = Some t \<longrightarrow> t < sw_next W \<and>
        (\<forall>due sid'. map_of (sw_timers W) t = Some (due, sid') \<longrightarrow> sid' = sid))"

definition active_ok :: "session_world \<Rightarrow> bool" where
  "active_ok W \<longleftrightarrow>
     (\<forall>h \<in> set (sw_open W). h < sw_next W) \<and>
     (\<forall>sid l. map_of (sm_active (sw_manager W)) sid = Some l \<longrightarrow>
        ses_id (lv_session l) = sid \<and> lv_handle l \<in> set (sw_open W) \<and> has_timer W sid l) \<and>
     (\<forall>sid l sid' l'. map_of (sm_active (sw_manager W)) sid = Some l \<and> map_of (sm_active (sw_manager W)) sid' = Some l' \<and>
        lv_handle l = lv_handle l' \<longrightarrow> sid = sid')"

definition sessions_ok :: "session_world \<Rightarrow> bool" where
  "sessions_ok W \<longleftrightarrow> timers_ok W \<and> active_ok W"

lemmas session_defs = sessions_ok_def timers_ok_def active_ok_def has_timer_def

lemma close_one_fields:
  "sm_active (sw_manager (close_one sid W)) = map_remove sid (sm_active (sw_manager W))"
  "sm_timers (sw_manager (close_one sid W)) = map_remove sid (sm_timers (sw_manager W))"
  "sw_timers (close_one sid W) = (case map_of (sm_timers (sw_manager W)) sid of Some t \<Rightarrow> map_remove t (sw_timers W) | None \<Rightarrow> sw_timers W)"
  "sw_open (close_one sid W) = (case map_of (sm_active (sw_manager W)) sid of Some l \<Rightarrow> removeAll (lv_handle l) (sw_open W) | None \<Rightarrow> sw_open W)"
  "sw_now (close_one sid W) = sw_now W" "sw_next (close_one sid W) = sw_next W" "sw_pending (close_one sid W) = sw_pending W"
  by (simp_all add: close_one_def session_close_def split: option.splits)

lemma close_one_keeps:
  assumes "timers_ok W" and "has_timer W sid' l" and "sid' \<noteq> sid"
  shows "has_timer (close_one sid W) sid' l"
proof -
  obtain t due where t: "map_of (sm_timers (sw_manager W)) sid' = Some t" "map_of (sw_timers W) t = Some (due, sid')"
    "due \<le> max (ses_expiresAt (lv_session l)) (sw_now W + 1)" using assms(2) by (auto simp: has_timer_def)
  have "map_of (sm_timers (sw_manager W)) sid \<noteq> Some t" using assms(1,3) t(2) by (auto simp: timers_ok_def)
  with t assms(3) show ?thesis
    unfolding has_timer_def by (intro exI [of _ t] exI [of _ due]) (auto simp: close_one_fields split: option.splits)
qed

lemma close_one_timers: "timers_ok W \<Longrightarrow> timers_ok (close_one sid W)"
  by (auto simp: timers_ok_def close_one_fields split: option.splits if_splits)

lemma close_one_ok: "sessions_ok W \<Longrightarrow> sessions_ok (close_one sid W)"
proof -
  assume ok: "sessions_ok W"
  then have "active_ok (close_one sid W)"
    using close_one_keeps [of W]
    by (auto simp: sessions_ok_def active_ok_def close_one_fields split: option.splits if_splits)
  with ok close_one_timers show ?thesis by (simp add: sessions_ok_def)
qed

lemma close_many_ok: "sessions_ok W \<Longrightarrow> sessions_ok (fold close_one ids W)"
  by (induction ids arbitrary: W) (simp_all add: close_one_ok)

lemma sessions_ok_frame:
  assumes "sessions_ok W" and "sm_active (sw_manager W') = sm_active (sw_manager W)" "sm_timers (sw_manager W') = sm_timers (sw_manager W)"
    "sw_timers W' = sw_timers W" "set (sw_open W') \<subseteq> insert (sw_next W) (set (sw_open W))" "set (sw_open W) \<subseteq> set (sw_open W')"
    "sw_now W \<le> sw_now W'" "sw_next W \<le> sw_next W'" "sw_next W \<in> set (sw_open W') \<Longrightarrow> sw_next W < sw_next W'"
  shows "sessions_ok W'"
proof -
  have "has_timer W' sid l" if "has_timer W sid l" for sid l
    using that assms by (force simp: has_timer_def)
  moreover have "timers_ok W'" using assms unfolding sessions_ok_def timers_ok_def by (metis order_less_le_trans)
  moreover have "\<forall>h \<in> set (sw_open W'). h < sw_next W'"
    using assms unfolding sessions_ok_def active_ok_def by (metis insertE order_less_le_trans subset_iff)
  ultimately show ?thesis using assms unfolding sessions_ok_def active_ok_def by (metis subset_iff)
qed

lemma timer_delay_bound: "now + expiry_delay now session \<le> max (ses_expiresAt session) (now + 1)"
  by (auto simp: expiry_delay_def timer_delay_def)

lemma handles_fresh: "sessions_ok W \<Longrightarrow> sw_next W \<notin> set (sw_open W)"
  by (auto simp: sessions_ok_def active_ok_def)

lemma create_done_ok:
  assumes ok: "sessions_ok W" shows "sessions_ok (create_done session b W)"
proof -
  let ?W = "create_done session b W" and ?sid = "ses_id session" and ?n = "sw_next W"
  have f: "sm_active (sw_manager ?W) = map_set ?sid \<lparr>lv_session = session, lv_handle = ?n, lv_backend = b\<rparr> (sm_active (sw_manager W))"
    "sm_timers (sw_manager ?W) = map_set ?sid ?n (sm_timers (sw_manager W))"
    "sw_timers ?W = map_set ?n (sw_now W + expiry_delay (sw_now W) session, ?sid) (sw_timers W)"
    "sw_open ?W = sw_open W @ [?n]" "sw_next ?W = Suc ?n" "sw_now ?W = sw_now W"
    by (simp_all add: create_done_def session_created_def)
  have t: "timers_ok ?W"
    using ok unfolding timers_ok_def f sessions_ok_def by (auto simp: less_Suc_eq)
  have new: "has_timer ?W ?sid \<lparr>lv_session = session, lv_handle = ?n, lv_backend = b\<rparr>"
    using timer_delay_bound [of "sw_now W" session] by (simp add: has_timer_def f)
  have keep: "has_timer ?W sid l" if "has_timer W sid l" "sid \<noteq> ?sid" for sid l
  proof -
    from that(1) obtain t due where td: "map_of (sm_timers (sw_manager W)) sid = Some t" "map_of (sw_timers W) t = Some (due, sid)"
      "due \<le> max (ses_expiresAt (lv_session l)) (sw_now W + 1)" by (auto simp: has_timer_def)
    then have "t \<noteq> ?n" using ok by (auto simp: sessions_ok_def timers_ok_def)
    with td that(2) show ?thesis by (auto simp: has_timer_def f)
  qed
  have old: "ses_id (lv_session l) = sid \<and> lv_handle l \<in> set (sw_open W) \<and> has_timer W sid l"
    if "map_of (sm_active (sw_manager W)) sid = Some l" for sid l
    using ok that by (simp add: sessions_ok_def active_ok_def)
  have fresh: "lv_handle l \<noteq> ?n" if "map_of (sm_active (sw_manager W)) sid = Some l" for sid l
    using old [OF that] handles_fresh [OF ok] by auto
  have uniq: "sid = sid'" if "map_of (sm_active (sw_manager W)) sid = Some l" "map_of (sm_active (sw_manager W)) sid' = Some l'"
      "lv_handle l = lv_handle l'" for sid l sid' l'
  proof -
    from ok have "\<forall>sid l sid' l'. map_of (sm_active (sw_manager W)) sid = Some l \<and> map_of (sm_active (sw_manager W)) sid' = Some l' \<and>
        lv_handle l = lv_handle l' \<longrightarrow> sid = sid'" unfolding sessions_ok_def active_ok_def by (elim conjE)
    with that show ?thesis by metis
  qed
  have "active_ok ?W"
    unfolding active_ok_def
  proof (intro conjI allI impI)
    show "\<forall>h \<in> set (sw_open ?W). h < sw_next ?W" using ok by (auto simp: f sessions_ok_def active_ok_def)
    fix sid l assume l: "map_of (sm_active (sw_manager ?W)) sid = Some l"
    show "ses_id (lv_session l) = sid" "lv_handle l \<in> set (sw_open ?W)" "has_timer ?W sid l"
      using l old [of sid l] new keep [of sid l] by (auto simp: f split: if_splits)
  next
    fix sid l sid' l'
    assume l: "map_of (sm_active (sw_manager ?W)) sid = Some l \<and> map_of (sm_active (sw_manager ?W)) sid' = Some l' \<and> lv_handle l = lv_handle l'"
    show "sid = sid'"
      using l fresh [of sid l] fresh [of sid' l'] uniq [of sid l sid' l'] by (auto simp: f split: if_splits)
  qed
  with t show ?thesis by (simp add: sessions_ok_def)
qed

lemma fire_timer_ok:
  assumes ok: "sessions_ok W" shows "sessions_ok (fire_timer t W)"
proof (cases "\<exists>due sid. map_of (sw_timers W) t = Some (due, sid) \<and> due \<le> sw_now W")
  case False
  with ok show ?thesis by (auto simp: fire_timer_def split: option.splits)
next
  case True
  then obtain due sid where t: "map_of (sw_timers W) t = Some (due, sid)" "due \<le> sw_now W" by blast
  let ?W1 = "W\<lparr>sw_timers := map_remove t (sw_timers W)\<rparr>"
  have fire: "fire_timer t W = close_one sid ?W1" using t by (simp add: fire_timer_def)
  have t1: "timers_ok ?W1" using ok by (auto simp: sessions_ok_def timers_ok_def)
  have keep: "has_timer (close_one sid ?W1) sid' l" if "has_timer W sid' l" "sid' \<noteq> sid" for sid' l
  proof (rule close_one_keeps [OF t1 _ that(2)])
    show "has_timer ?W1 sid' l" using that t(1) by (force simp: has_timer_def)
  qed
  then have "active_ok (close_one sid ?W1)"
    using ok by (auto simp: sessions_ok_def active_ok_def close_one_fields split: option.splits if_splits)
  with t1 close_one_timers show ?thesis unfolding fire by (simp add: sessions_ok_def)
qed

lemma create_begin_ok: "sessions_ok W \<Longrightarrow> sessions_ok (create_begin session W)"
proof -
  assume "sessions_ok W"
  then have ok: "sessions_ok (close_expired W)" unfolding close_expired_def by (rule close_many_ok)
  have "sessions_ok (close_expired W\<lparr>sw_pending := ps\<rparr>)" for ps
    by (rule sessions_ok_frame [OF ok]) (use handles_fresh [OF ok] in auto)
  with ok show ?thesis by (simp add: create_begin_def Let_def split: sum.splits)
qed

lemma sessions_ok_step: "sessions_ok W \<Longrightarrow> session_step W W' \<Longrightarrow> sessions_ok W'"
proof (erule session_stepE)
  assume ok: "sessions_ok W"
  note frame = sessions_ok_frame [OF ok, of W']
  note handles = handles_fresh [OF ok]
  show "sessions_ok W'" if "W' = create_begin session W" for session using ok that by (simp add: create_begin_ok)
  show "sessions_ok W'" if "W' = session_get session W" for session using ok that by (simp add: session_get_def create_begin_ok)
  show "sessions_ok W'" if "W' = create_done session b W" for session b using ok that by (simp add: create_done_ok)
  show "sessions_ok W'" if "W' = W\<lparr>sw_pending := remove1 session (sw_pending W)\<rparr>" for session
    using handles by (rule_tac frame) (auto simp: that)
  show "sessions_ok W'"
    if "W' = W\<lparr>sw_pending := remove1 session (sw_pending W), sw_open := sw_open W @ [sw_next W], sw_next := Suc (sw_next W)\<rparr>" for session
    by (rule frame) (auto simp: that)
  show "sessions_ok W'" if "W' = close_one sid W" for sid using ok that by (simp add: close_one_ok)
  show "sessions_ok W'" if "W' = close_all W" using ok that by (simp add: close_all_def close_many_ok)
  show "sessions_ok W'" if "W' = fire_timer t W" for t using ok that by (simp add: fire_timer_ok)
  show "sessions_ok W'" if "W' = W\<lparr>sw_now := sw_now W + int d\<rparr>" for d using handles by (rule_tac frame) (auto simp: that)
  show "sessions_ok W'" if "W' = W\<lparr>sw_manager := trace_started sid (sw_manager W)\<rparr>" for sid
    using handles by (rule_tac frame) (auto simp: that trace_started_def)
  show "sessions_ok W'" if "W' = W\<lparr>sw_manager := snd (trace_stop sid (sw_manager W))\<rparr>" for sid
    using handles by (rule_tac frame) (auto simp: that trace_stop_def)
qed

interpretation session_system: invariant_system session_step sessions_ok
  by unfold_locales (rule sessions_ok_step)

text \<open>C11. In every state the manager reaches, however creations, closings and timers interleave, each active session
  is listed under its own id, has a running browser of its own, and has a timer set that fires no later
  than its expiry (or at once); when that timer fires the session is gone and its browser closed.\<close>

theorem sessions_expire:
  assumes "reach session_step session_start W" and "map_of (sm_active (sw_manager W)) sid = Some l"
  shows "ses_id (lv_session l) = sid \<and> lv_handle l \<in> set (sw_open W) \<and>
    (\<exists>t due. map_of (sw_timers W) t = Some (due, sid) \<and> due \<le> max (ses_expiresAt (lv_session l)) (sw_now W + 1) \<and>
       (\<forall>d. due \<le> sw_now W + int d \<longrightarrow>
          (let W' = fire_timer t (W\<lparr>sw_now := sw_now W + int d\<rparr>) in
           \<not> isActive sid (sw_manager W') \<and> lv_handle l \<notin> set (sw_open W'))))"
proof -
  have "sessions_ok session_start" by (simp add: session_defs session_start_def new_manager_def)
  with assms(1) have "sessions_ok W" by (rule session_system.reach_inv)
  then have a: "ses_id (lv_session l) = sid" "lv_handle l \<in> set (sw_open W)" "has_timer W sid l"
    using assms(2) by (auto simp: sessions_ok_def active_ok_def)
  then obtain t due where t: "map_of (sw_timers W) t = Some (due, sid)" "due \<le> max (ses_expiresAt (lv_session l)) (sw_now W + 1)"
    by (auto simp: has_timer_def)
  have "let W' = fire_timer t (W\<lparr>sw_now := sw_now W + int d\<rparr>) in
      \<not> isActive sid (sw_manager W') \<and> lv_handle l \<notin> set (sw_open W')" if "due \<le> sw_now W + int d" for d
    using t(1) that assms(2) by (simp add: fire_timer_def isActive_def close_one_fields Let_def)
  with a t show ?thesis by blast
qed

section \<open>Concrete runs\<close>

definition viewer_session :: "string \<Rightarrow> millis \<Rightarrow> stored_session" where
  "viewer_session sid expires = \<lparr>ses_id = sid, ses_ownerKeyHash = Some ''ann'', ses_persistent = False, ses_createdAt = 0,
     ses_expiresAt = expires, ses_viewport = (800, 600), ses_proxyId = None, ses_storageState = None, ses_liveViewer = True\<rparr>"

definition two_created :: "stored_session \<Rightarrow> stored_session \<Rightarrow> session_world" where
  "two_created s1 s2 = create_done s2 Playwright (create_done s1 Playwright (create_begin s2 (create_begin s1 session_start)))"

lemma reach_create:
  assumes "reach session_step session_start W" shows "reach session_step session_start (create_begin session W)"
  using assms step_create by (rule reach_step)

lemma reach_created:
  assumes "reach session_step session_start W" and "session \<in> set (sw_pending W)"
  shows "reach session_step session_start (create_done session b W)"
  using assms(1) step_created [OF assms(2)] by (rule reach_step)

lemma two_created_reachable:
  assumes "s1 \<in> set (sw_pending (create_begin s2 (create_begin s1 session_start)))"
    and "s2 \<in> set (sw_pending (create_done s1 Playwright (create_begin s2 (create_begin s1 session_start))))"
  shows "reach session_step session_start (two_created s1 s2)"
  unfolding two_created_def using assms by (intro reach_created reach_create reach_start)

lemma created_reachable:
  assumes "s1 \<in> set (sw_pending (create_begin s1 session_start))"
  shows "reach session_step session_start (create_done s1 Playwright (create_begin s1 session_start))"
  using assms by (intro reach_created reach_create reach_start)

theorem sessions_expire_witness:
  "\<exists>(W :: session_world) l. map_of (sm_active (sw_manager W)) ''s'' = Some l \<and> lv_handle l \<in> set (sw_open W) \<and>
     (\<exists>t due. map_of (sw_timers W) t = Some (due, ''s'') \<and> due \<le> 100)"
proof -
  let ?s = "viewer_session ''s'' 100"
  let ?W = "create_done ?s Playwright (create_begin ?s session_start)"
  have r: "reach session_step session_start ?W" by (rule created_reachable) code_simp
  have l: "map_of (sm_active (sw_manager ?W)) ''s'' = Some \<lparr>lv_session = ?s, lv_handle = 0, lv_backend = Playwright\<rparr>"
    and n: "sw_now ?W = 0" by code_simp+
  from sessions_expire [OF r l] l n show ?thesis by (fastforce simp: viewer_session_def)
qed

text \<open>Two creations that overlap defeat both guards of the manager: two live viewers can run at once, since
  the check is made before the launch and the session is listed after it; and two overlapping \<open>get\<close>
  calls for one session launch two browsers of which the first is never closed.\<close>

theorem session_create_races:
  "(\<exists>W. reach session_step session_start W \<and> length (filter (\<lambda>(_, l). ses_liveViewer (lv_session l)) (sm_active (sw_manager W))) = 2) \<and>
   (\<exists>W h. reach session_step session_start W \<and> sw_pending W = [] \<and> h \<in> set (sw_open W) \<and>
          h \<notin> (lv_handle \<circ> snd) ` set (sm_active (sw_manager W)))"
proof -
  let ?a = "viewer_session ''a'' 100" and ?b = "viewer_session ''b'' 100"
  have "reach session_step session_start (two_created ?a ?b)" by (rule two_created_reachable; code_simp)
  moreover have "length (filter (\<lambda>(_, l). ses_liveViewer (lv_session l)) (sm_active (sw_manager (two_created ?a ?b)))) = 2"
    by code_simp
  moreover have "reach session_step session_start (two_created ?a ?a)" by (rule two_created_reachable; code_simp)
  moreover have "sw_pending (two_created ?a ?a) = [] \<and> 0 \<in> set (sw_open (two_created ?a ?a)) \<and>
      0 \<notin> (lv_handle \<circ> snd) ` set (sm_active (sw_manager (two_created ?a ?a)))" by code_simp
  ultimately show ?thesis by blast
qed

text \<open>A session whose remaining life exceeds 2147483647 milliseconds (24.8 days, the configuration allows 90)
  is closed one millisecond after it was created: the delay does not fit the timer.\<close>

theorem long_session_closed_at_once:
  fixes session b W
  assumes "2147483647 < ses_expiresAt session - sw_now W"
  defines "W1 \<equiv> create_done session b W"
  defines "W2 \<equiv> fire_timer (sw_next W) (W1\<lparr>sw_now := sw_now W1 + 1\<rparr>)"
  shows "isActive (ses_id session) (sw_manager W1) \<and> \<not> isActive (ses_id session) (sw_manager W2) \<and> sw_now W2 < ses_expiresAt session"
proof -
  have d: "expiry_delay (sw_now W) session = 1" using assms(1) by (simp add: expiry_delay_def timer_delay_def)
  have "map_of (sw_timers (W1\<lparr>sw_now := sw_now W1 + 1\<rparr>)) (sw_next W) = Some (sw_now W + 1, ses_id session)"
    by (simp add: W1_def create_done_def d)
  then have W2: "W2 = close_one (ses_id session) (W1\<lparr>sw_now := sw_now W1 + 1, sw_timers := map_remove (sw_next W) (sw_timers W1)\<rparr>)"
    unfolding W2_def by (simp add: fire_timer_def W1_def create_done_def)
  show ?thesis using assms(1) unfolding W2
    by (simp add: isActive_def close_one_fields W1_def create_done_def session_created_def)
qed

theorem long_session_closed_at_once_witness:
  "\<not> isActive ''long'' (sw_manager (fire_timer 0 ((create_done (viewer_session ''long'' 2592000000) Playwright session_start)
     \<lparr>sw_now := sw_now (create_done (viewer_session ''long'' 2592000000) Playwright session_start) + 1\<rparr>)))"
  using long_session_closed_at_once [of "viewer_session ''long'' 2592000000" session_start Playwright]
  by (simp add: viewer_session_def session_start_def)

end
