(* ===== verification/OB_SessionRoutes.thy ===== *)
theory OB_SessionRoutes
  imports OB_Agent OB_Gate OB_Sessions
begin

text \<open>
  The routes of live sessions, \<open>src/src/server/routes/sessions/lifecycle.ts\<close> and \<open>interaction.ts\<close>, after the
  validation of their input and behind the ownership check of \<open>src/src/server/lifecycle.ts\<close>. The world is the storage and the live
  browsers; a route runs alone on it.
\<close>

section \<open>The environment\<close>

type_synonym cookie = "string \<times> (string \<times> jsval) list"

type_synonym ('s, 'a) route_op = "storage \<times> 's \<Rightarrow> 'a outcome \<times> storage \<times> 's"

record 's route_env =
  rt_agent :: "'s agent_env"
  rt_newId :: "'s \<Rightarrow> string"
  rt_token :: "'s \<Rightarrow> string"
  rt_iv :: "'s \<Rightarrow> string"
  rt_iso :: "millis \<Rightarrow> string"
  rt_sleep :: "millis \<Rightarrow> 's \<Rightarrow> 's"
  rt_cookies :: "string option \<Rightarrow> ('s, cookie list) live_op"
  rt_addCookies :: "cookie list \<Rightarrow> ('s, unit) live_op"
  rt_storageState :: "string \<Rightarrow> ('s, string option) live_op"
  rt_startTrace :: "stored_session \<Rightarrow> stored_proxy option \<Rightarrow> ('s, unit) live_op"
  rt_stopTrace :: "string \<Rightarrow> ('s, string option) live_op"

abbreviation rt_store :: "'s route_env \<Rightarrow> storage_env" where
  "rt_store R \<equiv> ae_storage (rt_agent R)"

abbreviation rt_page :: "'s route_env \<Rightarrow> 's live_page" where
  "rt_page R \<equiv> ae_page (rt_agent R)"

abbreviation rt_now :: "'s route_env \<Rightarrow> 's \<Rightarrow> millis" where
  "rt_now R \<equiv> ae_now (rt_agent R)"

definition on_live :: "('s, 'a) live_op \<Rightarrow> ('s, 'a) route_op" where
  "on_live f w = (case f (snd w) of (r, s) \<Rightarrow> (r, fst w, s))"

definition settled :: "'a outcome \<Rightarrow> ('s, 'a) route_op" where
  "settled r w = (r, w)"

definition on_store :: "(storage \<Rightarrow> 'a outcome \<times> storage) \<Rightarrow> ('s, 'a) route_op" where
  "on_store f w = (case f (fst w) of (r, S) \<Rightarrow> (r, S, snd w))"

text \<open>\<open>.catch(() => v)\<close>.\<close>

definition or_else :: "'a \<Rightarrow> 'a outcome \<times> 'w \<Rightarrow> 'a outcome \<times> 'w" where
  "or_else v r = (case r of (Inl _, w) \<Rightarrow> (Inr v, w) | _ \<Rightarrow> r)"

definition require_session_or :: "'s route_env \<Rightarrow> js_error \<Rightarrow> string \<Rightarrow> ('s, stored_session) route_op" where
  "require_session_or R gone sid w =
     (case getSession (rt_store R) sid (rt_now R (snd w)) (fst w) of
        Inl e \<Rightarrow> (Inl e, w)
      | Inr None \<Rightarrow> (Inl gone, w)
      | Inr (Some s) \<Rightarrow> (Inr s, w))"

abbreviation require_session :: "'s route_env \<Rightarrow> string \<Rightarrow> ('s, stored_session) route_op" where
  "require_session R \<equiv> require_session_or R session_not_found"

text \<open>\<open>sessions.get(session, await resolveProxy(session.proxyId, ownerKeyHash))\<close>.\<close>

definition live_session :: "'s route_env \<Rightarrow> stored_session \<Rightarrow> string \<Rightarrow> ('s, unit) route_op" where
  "live_session R session owner w =
     then_do (settled (resolveProxy (rt_store R) (fst w) (ses_proxyId session) (Some owner)) w)
       (\<lambda>proxy. on_live (lp_get (rt_page R) session proxy))"

definition save_state :: "'s route_env \<Rightarrow> stored_session \<Rightarrow> ('s, unit) route_op" where
  "save_state R session w =
     (if \<not> ses_persistent session then (Inr (), w)
      else then_do (on_live (rt_storageState R (ses_id session)) w) (\<lambda>st w1.
        (Inr (), (if or_default st [] = [] then fst w1
                  else updateSessionState (rt_store R) (rt_iv R (snd w1)) (ses_id session) (or_default st []) (fst w1)), snd w1)))"

section \<open>Challenges\<close>

record challenge_state =
  cs_sessionId :: string
  cs_challengeRemaining :: bool
  cs_clearanceCookiePresent :: bool
  cs_finalUrl :: string
  cs_title :: string
  cs_viewer :: bool

definition cookie_name :: "cookie \<Rightarrow> jsval option" where
  "cookie_name c = map_of (snd c) ''name''"

definition challengeState :: "'s route_env \<Rightarrow> stored_session \<Rightarrow> string \<Rightarrow> ('s, challenge_state) route_op" where
  "challengeState R session owner w =
     then_do (live_session R session owner w) (\<lambda>_ w1.
     then_do (on_live (lp_content (rt_page R)) w1) (\<lambda>html w2.
     then_do (or_else [] (on_live (rt_cookies R (Some (lp_url (rt_page R) (snd w2)))) w2)) (\<lambda>cookies w3.
     then_do (settled (normalizeUrl (ae_parse (rt_agent R)) (lp_url (rt_page R) (snd w3))) w3) (\<lambda>u w4.
     then_do (or_else [] (on_live (lp_title (rt_page R)) w4)) (\<lambda>title.
     settled (Inr \<lparr>cs_sessionId = ses_id session, cs_challengeRemaining = hasAccessChallenge html,
                   cs_clearanceCookiePresent = list_ex (\<lambda>c. cookie_name c = Some (JStr ''cf_clearance'')) cookies,
                   cs_finalUrl = u, cs_title = title, cs_viewer = ses_liveViewer session\<rparr>))))))"

text \<open>The polling loop; \<open>None\<close> is a loop that never ends.\<close>

partial_function (option) poll_challenge ::
  "'s route_env \<Rightarrow> stored_session \<Rightarrow> string \<Rightarrow> millis \<Rightarrow> millis \<Rightarrow> millis \<Rightarrow> challenge_state \<Rightarrow> storage \<times> 's \<Rightarrow>
   (challenge_state outcome \<times> storage \<times> 's) option" where
  "poll_challenge R session owner timeoutMs interval startedAt state w =
     (if \<not> (cs_challengeRemaining state \<and> rt_now R (snd w) - startedAt < timeoutMs) then Some (Inr state, w)
      else (case challengeState R session owner
                   (fst w, rt_sleep R (min interval (timeoutMs - (rt_now R (snd w) - startedAt))) (snd w)) of
              (Inl e, w1) \<Rightarrow> Some (Inl e, w1)
            | (Inr st, w1) \<Rightarrow> poll_challenge R session owner timeoutMs interval startedAt st w1))"

record challenge_wait_reply =
  cx_state :: challenge_state
  cx_waitedMs :: millis
  cx_timedOut :: bool

definition challenge_wait_route ::
  "'s route_env \<Rightarrow> string \<Rightarrow> string \<Rightarrow> millis \<Rightarrow> millis \<Rightarrow> storage \<times> 's \<Rightarrow> (challenge_wait_reply outcome \<times> storage \<times> 's) option" where
  "challenge_wait_route R sid owner timeoutMs interval w =
     (case require_session R sid w of
        (Inl e, w1) \<Rightarrow> Some (Inl e, w1)
      | (Inr session, w1) \<Rightarrow>
          (case challengeState R session owner w1 of
             (Inl e, w2) \<Rightarrow> Some (Inl e, w2)
           | (Inr first, w2) \<Rightarrow>
               (case poll_challenge R session owner timeoutMs interval (rt_now R (snd w1)) first w2 of
                  None \<Rightarrow> None
                | Some (Inl e, w3) \<Rightarrow> Some (Inl e, w3)
                | Some (Inr st, w3) \<Rightarrow>
                    Some (then_do (if cs_challengeRemaining st then (Inr (), w3) else save_state R session w3) (\<lambda>_ w4.
                      (Inr \<lparr>cx_state = st, cx_waitedMs = rt_now R (snd w4) - rt_now R (snd w1),
                            cx_timedOut = cs_challengeRemaining st\<rparr>, w4))))))"

section \<open>Navigation and cookies\<close>

definition navigate_route ::
  "'s route_env \<Rightarrow> string \<Rightarrow> string \<Rightarrow> string \<Rightarrow> navigation_wait \<Rightarrow> millis \<Rightarrow> ('s, int \<times> string) route_op" where
  "navigate_route R sid owner u wait timeoutMs w =
     then_do (require_session R sid w) (\<lambda>session w1.
     then_do (settled (resolveProxy (rt_store R) (fst w1) (ses_proxyId session) (Some owner)) w1) (\<lambda>proxy w2.
     then_do (settled (assertSafeUrl (ae_parse (rt_agent R)) (ae_guard (rt_agent R) (snd w2)) u (map_option pxy_allowedDomains proxy)) w2) (\<lambda>_ w3.
     then_do (on_live (lp_get (rt_page R) session proxy) w3) (\<lambda>_ w4.
     then_do (on_live (lp_goto (rt_page R) u wait timeoutMs) w4) (\<lambda>status w5.
     then_do (save_state R session w5) (\<lambda>_ w6.
     settled (res_bind (normalizeUrl (ae_parse (rt_agent R)) (lp_url (rt_page R) (snd w6))) (\<lambda>final.
       Inr (or_default status 200, final))) w6))))))"

definition cookies_route :: "'s route_env \<Rightarrow> string \<Rightarrow> string \<Rightarrow> ('s, cookie list) route_op" where
  "cookies_route R sid owner w =
     then_do (require_session R sid w) (\<lambda>session w1.
     then_do (live_session R session owner w1) (\<lambda>_ w2.
     then_do (on_live (rt_cookies R None) w2) (\<lambda>cookies. settled (Inr (redactCookies cookies)))))"

definition set_cookies_route :: "'s route_env \<Rightarrow> string \<Rightarrow> string \<Rightarrow> cookie list \<Rightarrow> ('s, nat) route_op" where
  "set_cookies_route R sid owner cookies w =
     then_do (require_session R sid w) (\<lambda>session w1.
     then_do (live_session R session owner w1) (\<lambda>_ w2.
     then_do (on_live (rt_addCookies R cookies) w2) (\<lambda>_ w3.
     then_do (save_state R session w3) (\<lambda>_. settled (Inr (length cookies))))))"

section \<open>Handoffs\<close>

definition handoff_route :: "'s route_env \<Rightarrow> string \<Rightarrow> int \<Rightarrow> ('s, handoff \<times> string) route_op" where
  "handoff_route R sid ttlSeconds w =
     then_do (require_session R sid w) (\<lambda>session w1.
       let remaining = (ses_expiresAt session - rt_now R (snd w1)) div 1000 in
       on_store (createSessionHandoff (rt_store R) (rt_newId R (snd w1)) (rt_token R (snd w1)) (ses_id session)
         (max 1 (min ttlSeconds remaining)) (rt_now R (snd w1))) w1)"

definition handoff_not_found :: js_error where
  "handoff_not_found = ob_err ''HANDOFF_NOT_FOUND'' ''Session handoff is invalid, expired, or already redeemed'' 404 False"

definition redeem_route :: "'s route_env \<Rightarrow> string \<Rightarrow> string \<Rightarrow> ('s, stored_session) route_op" where
  "redeem_route R token owner w =
     then_do (on_store (redeemSessionHandoff (rt_store R) token owner (rt_now R (snd w))) w) (\<lambda>found.
       settled (case found of None \<Rightarrow> Inl handoff_not_found | Some s \<Rightarrow> Inr s))"

section \<open>Traces and replays\<close>

definition replay_ttl :: "stored_session \<Rightarrow> millis \<Rightarrow> int" where
  "replay_ttl session now = max 60 (- ((now - ses_expiresAt session) div 1000))"

text \<open>The trace becomes an artifact, and a replay that refers to it.\<close>

definition store_replay :: "'s route_env \<Rightarrow> stored_session \<Rightarrow> string \<Rightarrow> string \<Rightarrow> ('s, stored_replay) route_op" where
  "store_replay R session owner trace w =
     (let now = rt_now R (snd w); ttl = replay_ttl session now in
      then_do (on_store (createArtifact (rt_store R) (rt_newId R (snd w)) now trace ''application/zip'' owner (Some ttl)) w) (\<lambda>a.
      on_store (\<lambda>S. map_prod id (\<lambda>t. S\<lparr>sg_jobs := t\<rparr>)
        (createReplay (''rpl_'' @ rt_newId R (snd w)) now (ses_id session) (art_id a) ttl owner (sg_jobs S)))))"

definition start_replay_route :: "'s route_env \<Rightarrow> string \<Rightarrow> string \<Rightarrow> ('s, unit) route_op" where
  "start_replay_route R sid owner w =
     then_do (require_session R sid w) (\<lambda>session w1.
     then_do (settled (resolveProxy (rt_store R) (fst w1) (ses_proxyId session) (Some owner)) w1) (\<lambda>proxy.
     on_live (rt_startTrace R session proxy)))"

definition no_trace :: js_error where
  "no_trace = ob_err ''INVALID_REQUEST'' ''No active trace exists for this session'' 400 False"

definition stop_replay_route :: "'s route_env \<Rightarrow> string \<Rightarrow> string \<Rightarrow> ('s, stored_replay) route_op" where
  "stop_replay_route R sid owner w =
     then_do (require_session R sid w) (\<lambda>session w1.
     then_do (on_live (rt_stopTrace R sid) w1) (\<lambda>trace w2.
     case trace of
       None \<Rightarrow> (Inl no_trace, w2)
     | Some t \<Rightarrow> store_replay R session owner t w2))"

definition replay_gone :: "string \<Rightarrow> js_error" where
  "replay_gone what = ob_err ''ARTIFACT_NOT_FOUND'' (what @ '' does not exist or has expired'') 404 False"

definition replay_download_route :: "'s route_env \<Rightarrow> string \<Rightarrow> string \<Rightarrow> ('s, string \<times> string) route_op" where
  "replay_download_route R rid owner w =
     (case getReplay rid (rt_now R (snd w)) owner (sg_jobs (fst w)) of
        None \<Rightarrow> (Inl (replay_gone ''Replay''), w)
      | Some r \<Rightarrow>
          (case getArtifact (rpl_artifactId r) (rt_now R (snd w)) owner (fst w) of
             None \<Rightarrow> (Inl (replay_gone ''Replay artifact''), w)
           | Some (a, body) \<Rightarrow> (Inr (art_contentType a, body), w)))"

text \<open>Deleting a session keeps its trace, if one was running.\<close>

definition delete_session_route :: "'s route_env \<Rightarrow> string \<Rightarrow> string \<Rightarrow> ('s, bool \<times> stored_replay option) route_op" where
  "delete_session_route R sid owner w =
     then_do (settled (getSession (rt_store R) sid (rt_now R (snd w)) (fst w)) w) (\<lambda>session w1.
     then_do (on_live (rt_stopTrace R sid) w1) (\<lambda>trace w2.
     then_do (case (trace, session) of
         (Some t, Some s) \<Rightarrow> then_do (store_replay R s owner t w2) (\<lambda>r. settled (Inr (Some r)))
       | _ \<Rightarrow> (Inr None, w2)) (\<lambda>replay w3.
     then_do (on_live (lp_close (rt_page R) sid) w3) (\<lambda>_ w4.
     then_do (on_store (deleteSession (rt_store R) sid (rt_now R (snd w4))) w4) (\<lambda>deleted.
     settled (Inr (deleted, replay)))))))"

section \<open>Creating a session\<close>

record session_request =
  sq_persistent :: bool
  sq_ttlSeconds :: int
  sq_viewport :: "int \<times> int"
  sq_proxyId :: "string option"
  sq_profileId :: "string option"
  sq_profileName :: "string option"
  sq_recordTrace :: bool
  sq_liveViewer :: bool
  sq_startUrl :: "string option"
  sq_waitUntil :: navigation_wait

record session_reply =
  sr_session :: stored_session
  sr_plan :: execution_plan
  sr_recording :: bool
  sr_navigation :: "(int \<times> string \<times> bool) option"

definition viewer_disabled :: js_error where
  "viewer_disabled = ob_err ''FEATURE_DISABLED'' ''Live VNC viewer is not enabled on this host'' 503 True"

text \<open>A profile is named by its identifier or by its name.\<close>

definition chosen_profile ::
  "storage_env \<Rightarrow> string option \<Rightarrow> string option \<Rightarrow> string \<Rightarrow> storage \<Rightarrow> stored_profile option outcome" where
  "chosen_profile E pid name owner S =
     (let p = or_default pid []; n = or_default name [] in
      if p \<noteq> [] \<and> n \<noteq> [] then Inl (ob_err ''INVALID_REQUEST'' ''Provide profileId or profileName, not both'' 400 False)
      else if p = [] \<and> n = [] then Inr None
      else res_bind (if p \<noteq> [] then getProfile (se_box E) p owner (sg_profiles S) else getProfileByName (se_box E) n owner (sg_profiles S))
        (\<lambda>found. case found of
           None \<Rightarrow> Inl (ob_err ''PROFILE_NOT_FOUND'' ''Browser profile does not exist'' 404 False)
         | Some x \<Rightarrow> Inr (Some x)))"

definition requested_session :: "session_request \<Rightarrow> string \<Rightarrow> stored_profile option \<Rightarrow> millis \<Rightarrow> stored_session" where
  "requested_session q owner profile now =
     \<lparr>ses_id = [], ses_ownerKeyHash = Some owner, ses_persistent = sq_persistent q, ses_createdAt = 0,
      ses_expiresAt = now + sq_ttlSeconds q * 1000, ses_viewport = sq_viewport q,
      ses_proxyId = (if or_default (sq_proxyId q) [] = [] then None else sq_proxyId q),
      ses_storageState = map_option prf_storageState profile, ses_liveViewer = sq_liveViewer q\<rparr>"

text \<open>The part under \<open>try\<close>: the trace and the first navigation.\<close>

definition open_session ::
  "'s route_env \<Rightarrow> session_request \<Rightarrow> stored_session \<Rightarrow> stored_proxy option \<Rightarrow> ('s, (int \<times> string \<times> bool) option) route_op" where
  "open_session R q session proxy w =
     then_do (if sq_recordTrace q then on_live (rt_startTrace R session proxy) w else (Inr (), w)) (\<lambda>_ w1.
     if or_default (sq_startUrl q) [] = [] then (Inr None, w1)
     else then_do (on_live (lp_get (rt_page R) session proxy) w1) (\<lambda>_ w2.
       then_do (on_live (lp_goto (rt_page R) (or_default (sq_startUrl q) []) (sq_waitUntil q) (jobTimeoutMs (se_config (rt_store R)))) w2) (\<lambda>status w3.
       then_do (settled (normalizeUrl (ae_parse (rt_agent R)) (lp_url (rt_page R) (snd w3))) w3) (\<lambda>final w4.
       then_do (on_live (lp_content (rt_page R)) w4) (\<lambda>html w5.
       then_do (save_state R session w5) (\<lambda>_.
       settled (Inr (Some (or_default status 200, final, hasAccessChallenge html)))))))))"

text \<open>An error of the first navigation closes the session, deletes its row and is thrown again.\<close>

definition abandon_session :: "'s route_env \<Rightarrow> string \<Rightarrow> js_error \<Rightarrow> storage \<times> 's \<Rightarrow> js_error \<times> storage \<times> 's" where
  "abandon_session R sid e w =
     (case on_live (lp_close (rt_page R) sid) w of
        (Inl e', w1) \<Rightarrow> (e', w1)
      | (Inr _, w1) \<Rightarrow>
          (case on_store (deleteSession (rt_store R) sid (rt_now R (snd w1))) w1 of
             (Inl e', w2) \<Rightarrow> (e', w2)
           | (Inr _, w2) \<Rightarrow> (e, w2)))"

definition check_session_request ::
  "'s route_env \<Rightarrow> session_request \<Rightarrow> string \<Rightarrow> storage \<times> 's \<Rightarrow> (stored_proxy option \<times> stored_profile option) outcome" where
  "check_session_request R q owner w =
     res_bind (resolveProxy (rt_store R) (fst w) (sq_proxyId q) (Some owner)) (\<lambda>proxy.
     res_bind (if or_default (sq_startUrl q) [] = [] then Inr ()
               else map_sum id (\<lambda>_. ()) (assertSafeUrl (ae_parse (rt_agent R)) (ae_guard (rt_agent R) (snd w))
                      (or_default (sq_startUrl q) []) (map_option pxy_allowedDomains proxy))) (\<lambda>_.
     res_bind (ensure (\<not> (sq_liveViewer q \<and> vncBridgeUrl (se_config (rt_store R)) = [])) viewer_disabled) (\<lambda>_.
     res_bind (chosen_profile (rt_store R) (sq_profileId q) (sq_profileName q) owner (fst w)) (\<lambda>profile.
     Inr (proxy, profile)))))"

definition create_session_route :: "'s route_env \<Rightarrow> session_request \<Rightarrow> string \<Rightarrow> ('s, session_reply) route_op" where
  "create_session_route R q owner w =
     then_do (settled (check_session_request R q owner w) w) (\<lambda>(proxy, profile) w1.
     then_do (on_store (createSession (rt_store R) (rt_newId R (snd w1)) (rt_iv R (snd w1)) (rt_now R (snd w1))
                (requested_session q owner profile (rt_now R (snd w1)))) w1) (\<lambda>session w2.
     case open_session R q session proxy w2 of
       (Inl e, w3) \<Rightarrow> (case abandon_session R (ses_id session) e w3 of (e', w4) \<Rightarrow> (Inl e', w4))
     | (Inr navigation, w3) \<Rightarrow>
         (Inr \<lparr>sr_session = session,
               sr_plan = planPersistentSession (se_config (rt_store R)) (sq_persistent q) (profile \<noteq> None) (sq_liveViewer q),
               sr_recording = sq_recordTrace q, sr_navigation = navigation\<rparr>, w3)))"

section \<open>Profiles\<close>

definition source_not_found :: js_error where
  "source_not_found = ob_err ''SESSION_NOT_FOUND'' ''Source session does not exist or has expired'' 404 False"

definition create_profile_route :: "'s route_env \<Rightarrow> string \<Rightarrow> string \<Rightarrow> string \<Rightarrow> ('s, stored_profile) route_op" where
  "create_profile_route R name sid owner w =
     then_do (require_session_or R source_not_found sid w) (\<lambda>session w1.
     then_do (settled (ensure (owner \<noteq> [] \<and> ses_ownerKeyHash session = Some owner) session_not_found) w1) (\<lambda>_ w2.
     if list_ex (\<lambda>p. prf_name p = name) (listProfiles owner (sg_profiles (fst w2)))
     then (Inl (ob_err ''INVALID_REQUEST'' ''A browser profile with this name already exists'' 409 False), w2)
     else
       then_do (live_session R session owner w2) (\<lambda>_ w4.
       then_do (on_live (rt_storageState R (ses_id session)) w4) (\<lambda>st w5.
       if or_default st [] = []
       then (Inl (ob_err ''INTERNAL_ERROR'' ''Browser profile state could not be captured'' 500 False), w5)
       else on_store (\<lambda>S. map_prod id (\<lambda>t. S\<lparr>sg_profiles := t\<rparr>)
         (createProfile (se_config (rt_store R)) (se_box (rt_store R)) (rt_newId R (snd w5)) (rt_iv R (snd w5)) (rt_now R (snd w5))
            name (or_default st []) owner (sg_profiles S))) w5))))"

definition list_profiles_route :: "string \<Rightarrow> storage \<Rightarrow> stored_profile list" where
  "list_profiles_route owner S = listProfiles owner (sg_profiles S)"

definition delete_profile_route :: "string \<Rightarrow> string \<Rightarrow> storage \<Rightarrow> unit outcome \<times> storage" where
  "delete_profile_route pid owner S =
     (case deleteProfile pid owner (sg_profiles S) of
        (found, rows) \<Rightarrow> (ensure found (ob_err ''PROFILE_NOT_FOUND'' ''Browser profile does not exist'' 404 False), S\<lparr>sg_profiles := rows\<rparr>))"

section \<open>Reading routes\<close>

definition challenge_route :: "'s route_env \<Rightarrow> string \<Rightarrow> string \<Rightarrow> ('s, challenge_state) route_op" where
  "challenge_route R sid owner w = then_do (require_session R sid w) (\<lambda>session. challengeState R session owner)"

definition replay_route :: "'s route_env \<Rightarrow> string \<Rightarrow> string \<Rightarrow> ('s, stored_replay) route_op" where
  "replay_route R rid owner w =
     (case getReplay rid (rt_now R (snd w)) owner (sg_jobs (fst w)) of
        None \<Rightarrow> (Inl (replay_gone ''Replay''), w)
      | Some r \<Rightarrow> (Inr r, w))"

end
