(* ===== verification/OB_Bql.thy ===== *)
theory OB_Bql
  imports OB_Prelude
begin

text \<open>
  BrowserQL, \<open>src/src/server/browserql.ts\<close>: a GraphQL mutation is read as a list of actions with evaluated arguments,
  and the answer of an action is cut down to what its selection asks for. The GraphQL parser is a
  parameter that gives the syntax tree of the package \<open>graphql\<close>.
\<close>

section \<open>The syntax tree\<close>

datatype value_node =
    VariableNode string
  | StringNode string
  | EnumNode string
  | IntNode string
  | FloatNode string
  | BooleanNode bool
  | NullNode
  | ListNode "value_node list"
  | ObjectNode "(string \<times> value_node) list"

datatype field_node = FieldNode "string option" string "(string \<times> value_node) list" "selection_node list option"
  and selection_node = FieldSelection field_node | FragmentSelection

datatype operation_type = OpQuery | OpMutation | OpSubscription

datatype definition_node = OperationDefinition operation_type "selection_node list" | OtherDefinition

fun node_name :: "field_node \<Rightarrow> string" where
  "node_name (FieldNode alias n args sel) = n"

fun node_key :: "field_node \<Rightarrow> string" where
  "node_key (FieldNode alias n args sel) = (case alias of Some a \<Rightarrow> a | None \<Rightarrow> n)"

fun field_of :: "selection_node \<Rightarrow> field_node list" where
  "field_of (FieldSelection f) = [f]"
| "field_of FragmentSelection = []"

fun child_fields :: "field_node \<Rightarrow> field_node list" where
  "child_fields (FieldNode alias n args None) = []"
| "child_fields (FieldNode alias n args (Some sel)) = concat (map field_of sel)"

section \<open>Values\<close>

text \<open>
  A lookup in a plain object finds its own properties first and then what the object inherits: \<open>inherited\<close> is
  \<open>Object.prototype\<close>, so names such as \<open>constructor\<close> are always there.
\<close>

type_synonym inherited = "string \<Rightarrow> jsval option"

definition js_lookup :: "inherited \<Rightarrow> (string \<times> jsval) list \<Rightarrow> string \<Rightarrow> jsval option" where
  "js_lookup inherited fs k = (case map_of fs k of Some v \<Rightarrow> Some v | None \<Rightarrow> inherited k)"

text \<open>\<open>Object.fromEntries\<close>: a key that comes again overwrites.\<close>

definition from_entries :: "(string \<times> 'v) list \<Rightarrow> (string, 'v) jsmap" where
  "from_entries ps = fold (\<lambda>(k, v). map_set k v) ps []"

definition missing_variable :: "string \<Rightarrow> js_error" where
  "missing_variable n = ob_err ''INVALID_REQUEST'' (''Missing BrowserQL variable: '' @ n) 400 False"

fun bqlValue :: "inherited \<Rightarrow> (string \<Rightarrow> rat) \<Rightarrow> (string \<times> jsval) list \<Rightarrow> value_node \<Rightarrow> jsval outcome"
  and bqlValues :: "inherited \<Rightarrow> (string \<Rightarrow> rat) \<Rightarrow> (string \<times> jsval) list \<Rightarrow> value_node list \<Rightarrow> jsval list outcome"
  and bqlFields :: "inherited \<Rightarrow> (string \<Rightarrow> rat) \<Rightarrow> (string \<times> jsval) list \<Rightarrow> (string \<times> value_node) list \<Rightarrow>
    (string \<times> jsval) list outcome" where
  "bqlValue inh num vars (VariableNode n) =
     (case js_lookup inh vars n of Some v \<Rightarrow> Inr v | None \<Rightarrow> Inl (missing_variable n))"
| "bqlValue inh num vars (StringNode s) = Inr (JStr s)"
| "bqlValue inh num vars (EnumNode s) = Inr (JStr s)"
| "bqlValue inh num vars (IntNode s) = Inr (JNum (num s))"
| "bqlValue inh num vars (FloatNode s) = Inr (JNum (num s))"
| "bqlValue inh num vars (BooleanNode b) = Inr (JBool b)"
| "bqlValue inh num vars NullNode = Inr JNull"
| "bqlValue inh num vars (ListNode vs) = res_bind (bqlValues inh num vars vs) (\<lambda>xs. Inr (JArr xs))"
| "bqlValue inh num vars (ObjectNode fs) = res_bind (bqlFields inh num vars fs) (\<lambda>xs. Inr (JObj (from_entries xs)))"
| "bqlValues inh num vars [] = Inr []"
| "bqlValues inh num vars (v # vs) =
     res_bind (bqlValue inh num vars v) (\<lambda>x. res_bind (bqlValues inh num vars vs) (\<lambda>xs. Inr (x # xs)))"
| "bqlFields inh num vars [] = Inr []"
| "bqlFields inh num vars ((k, v) # fs) =
     res_bind (bqlValue inh num vars v) (\<lambda>x. res_bind (bqlFields inh num vars fs) (\<lambda>xs. Inr ((k, x) # xs)))"

section \<open>Actions\<close>

record bql_field =
  bf_name :: string
  bf_key :: string
  bf_args :: "(string, jsval) jsmap"
  bf_selection :: "field_node list"

definition bql_invalid :: "string \<Rightarrow> js_error" where
  "bql_invalid m = ob_err ''INVALID_REQUEST'' m 400 False"

fun bql_children :: "selection_node list \<Rightarrow> field_node list outcome" where
  "bql_children [] = Inr []"
| "bql_children (FragmentSelection # sel) = Inl (bql_invalid ''BrowserQL fragments are not supported'')"
| "bql_children (FieldSelection f # sel) = res_bind (bql_children sel) (\<lambda>fs. Inr (f # fs))"

fun bql_action :: "inherited \<Rightarrow> (string \<Rightarrow> rat) \<Rightarrow> (string \<times> jsval) list \<Rightarrow> selection_node \<Rightarrow> bql_field outcome" where
  "bql_action inh num vars FragmentSelection = Inl (bql_invalid ''BrowserQL fragments are not supported'')"
| "bql_action inh num vars (FieldSelection (FieldNode alias n args sel)) =
     res_bind (bqlFields inh num vars args) (\<lambda>given.
     res_bind (case sel of Some s \<Rightarrow> bql_children s | None \<Rightarrow> Inr []) (\<lambda>children.
     Inr \<lparr>bf_name = n, bf_key = (case alias of Some a \<Rightarrow> a | None \<Rightarrow> n), bf_args = from_entries given, bf_selection = children\<rparr>))"

fun bql_actions :: "inherited \<Rightarrow> (string \<Rightarrow> rat) \<Rightarrow> (string \<times> jsval) list \<Rightarrow> selection_node list \<Rightarrow> bql_field list outcome" where
  "bql_actions inh num vars [] = Inr []"
| "bql_actions inh num vars (s # sel) =
     res_bind (bql_action inh num vars s) (\<lambda>f. res_bind (bql_actions inh num vars sel) (\<lambda>fs. Inr (f # fs)))"

fun is_operation :: "definition_node \<Rightarrow> bool" where
  "is_operation (OperationDefinition t sel) = True"
| "is_operation OtherDefinition = False"

definition parseBql ::
  "inherited \<Rightarrow> (string \<Rightarrow> rat) \<Rightarrow> (string \<Rightarrow> definition_node list option) \<Rightarrow> string \<Rightarrow> (string \<times> jsval) list \<Rightarrow>
   bql_field list outcome" where
  "parseBql inh num graphql query vars =
     (case graphql query of
        None \<Rightarrow> Inl (bql_invalid ''BrowserQL query is not valid GraphQL'')
      | Some definitions \<Rightarrow>
          (case find is_operation definitions of
             Some (OperationDefinition OpMutation sel) \<Rightarrow>
               if length sel > 25 then Inl (bql_invalid ''BrowserQL mutation has too many actions'')
               else bql_actions inh num vars sel
           | _ \<Rightarrow> Inl (bql_invalid ''BrowserQL requires one mutation operation'')))"

section \<open>Selections\<close>

function selectBqlResponse :: "inherited \<Rightarrow> jsval \<Rightarrow> field_node list \<Rightarrow> jsval" where
  "selectBqlResponse inh v sel =
     (if sel = [] then v
      else (case v of
          JArr xs \<Rightarrow> JArr (map (\<lambda>x. selectBqlResponse inh x sel) xs)
        | JObj fs \<Rightarrow>
            JObj (from_entries (map (\<lambda>f. (node_key f,
              selectBqlResponse inh (case js_lookup inh fs (node_name f) of Some x \<Rightarrow> x | None \<Rightarrow> JUndefined) (child_fields f))) sel))
        | _ \<Rightarrow> v))"
  by pat_completeness auto

lemma size_child_fields: "size_list size (child_fields f) < size f"
proof -
  have sub: "size_list size (concat (map field_of sel)) \<le> size_list size sel" for sel :: "selection_node list"
  proof (induction sel)
    case (Cons s sel)
    then show ?case by (cases s) simp_all
  qed simp
  show ?thesis
  proof (cases f)
    case (FieldNode other n args s)
    show ?thesis
    proof (cases s)
      case (Some sel)
      with sub [of sel] FieldNode show ?thesis by simp
    qed (simp add: FieldNode)
  qed
qed

termination selectBqlResponse
proof (relation "measures [\<lambda>(inh, v, sel). size_list size sel, \<lambda>(inh, v, sel). size v]", goal_cases)
  case (2 inh v sel xs x)
  then have "size x \<le> size_list size xs" by (intro size_list_estimation' [of x]) auto
  with 2 show ?case by simp
next
  case (3 inh v sel fs f)
  have "size f < size_list size sel" using 3(3) by (induction sel) auto
  with size_child_fields [of f] show ?case by simp
qed simp

declare selectBqlResponse.simps [simp del]

section \<open>What the parser accepts\<close>

lemma from_entries_Nil [simp]: "from_entries [] = []"
  by (simp add: from_entries_def)

lemma from_entries_snoc: "from_entries (ps @ [(k, v)]) = map_set k v (from_entries ps)"
  by (simp add: from_entries_def)

lemma from_entries_keys: "map fst (from_entries ps) = js_set (map fst ps)"
proof (induction ps rule: rev_induct)
  case (snoc p ps)
  obtain k v where p: "p = (k, v)" by (cases p)
  have "set (map fst (from_entries ps)) = set (map fst ps)" unfolding snoc.IH by simp
  then have "k \<in> fst ` set (from_entries ps) \<longleftrightarrow> k \<in> fst ` set ps" by simp
  with snoc.IH show ?case by (simp add: p from_entries_snoc update_keys js_set_def)
qed (simp add: js_set_def)

lemma from_entries_map_of: "map_of (from_entries ps) = map_of (rev ps)"
proof (induction ps rule: rev_induct)
  case (snoc p ps)
  then show ?case by (cases p) (simp add: from_entries_snoc update_conv')
qed simp

lemma bql_actions_length: "bql_actions inh num vars sel = Inr fs \<Longrightarrow> length fs = length sel"
  by (induction sel arbitrary: fs) (auto simp: res_bind_Inr_iff)

text \<open>An argument that is a value of the tree: its variables are resolved, the rest is copied.\<close>

lemma bql_actions_nth:
  "bql_actions inh num vars sel = Inr fs \<Longrightarrow> i < length fs \<Longrightarrow> bql_action inh num vars (sel ! i) = Inr (fs ! i)"
proof (induction sel arbitrary: fs i)
  case (Cons s sel)
  then show ?case by (cases i) (auto simp: res_bind_Inr_iff)
qed simp

text \<open>BrowserQL accepts exactly the documents whose first operation is a mutation of at most twenty-five actions,
  all plain fields whose arguments have values and whose selections hold plain fields; the actions come out in
  their order, one for each field.\<close>

theorem parseBql_accepts:
  "(\<exists>fields. parseBql inh num graphql query vars = Inr fields) \<longleftrightarrow>
     (\<exists>definitions sel. graphql query = Some definitions \<and>
        find is_operation definitions = Some (OperationDefinition OpMutation sel) \<and> length sel \<le> 25 \<and>
        list_all (\<lambda>s. \<exists>f. bql_action inh num vars s = Inr f) sel)"
proof -
  have "(\<exists>fs. bql_actions inh num vars sel = Inr fs) \<longleftrightarrow> list_all (\<lambda>s. \<exists>f. bql_action inh num vars s = Inr f) sel" for sel
    by (induction sel) (auto simp: res_bind_Inr_iff)
  then show ?thesis
    by (auto simp: parseBql_def not_less split: option.splits definition_node.splits operation_type.splits)
qed

section \<open>The shape of an answer\<close>

inductive conforms :: "jsval \<Rightarrow> field_node list \<Rightarrow> bool" where
  conforms_all: "conforms v []"
| conforms_scalar: "(\<And>xs. v \<noteq> JArr xs) \<Longrightarrow> (\<And>fs. v \<noteq> JObj fs) \<Longrightarrow> conforms v sel"
| conforms_list: "(\<And>x. x \<in> set xs \<Longrightarrow> conforms x sel) \<Longrightarrow> conforms (JArr xs) sel"
| conforms_object: "map fst fs = js_set (map node_key sel) \<Longrightarrow>
     (\<And>k v. map_of fs k = Some v \<Longrightarrow> \<exists>f \<in> set sel. node_key f = k \<and> conforms v (child_fields f)) \<Longrightarrow> conforms (JObj fs) sel"

text \<open>C22. What an action answers is cut to its selection at every level: each object has exactly the keys that were
  selected there, aliases included, in the order of the selection, each element of a list is cut in the same way,
  and nothing that was not selected is left.\<close>

theorem selection_conforms: "conforms (selectBqlResponse inh v sel) sel"
proof (induction inh v sel rule: selectBqlResponse.induct)
  case (1 inh v sel)
  show ?case
  proof (cases "sel = []")
    case True
    then show ?thesis by (auto intro: conforms_all)
  next
    case False
    show ?thesis
    proof (cases v)
      case (JArr xs)
      have "selectBqlResponse inh v sel = JArr (map (\<lambda>x. selectBqlResponse inh x sel) xs)"
        by (subst selectBqlResponse.simps) (simp add: False JArr)
      moreover have "conforms (JArr (map (\<lambda>x. selectBqlResponse inh x sel) xs)) sel"
        by (rule conforms_list) (use 1(1) [OF False JArr] in auto)
      ultimately show ?thesis by simp
    next
      case (JObj fs)
      let ?part = "\<lambda>f. selectBqlResponse inh (case js_lookup inh fs (node_name f) of Some x \<Rightarrow> x | None \<Rightarrow> JUndefined) (child_fields f)"
      have eq: "selectBqlResponse inh v sel = JObj (from_entries (map (\<lambda>f. (node_key f, ?part f)) sel))"
        by (subst selectBqlResponse.simps) (simp add: False JObj)
      have "conforms (JObj (from_entries (map (\<lambda>f. (node_key f, ?part f)) sel))) sel"
      proof (rule conforms_object)
        show "map fst (from_entries (map (\<lambda>f. (node_key f, ?part f)) sel)) = js_set (map node_key sel)"
          by (simp add: from_entries_keys comp_def)
        fix k w assume "map_of (from_entries (map (\<lambda>f. (node_key f, ?part f)) sel)) k = Some w"
        then have "(k, w) \<in> set (map (\<lambda>f. (node_key f, ?part f)) sel)"
          unfolding from_entries_map_of using map_of_SomeD by fastforce
        then show "\<exists>f \<in> set sel. node_key f = k \<and> conforms w (child_fields f)" using 1(2) [OF False JObj] by auto
      qed
      with eq show ?thesis by simp
    qed (subst selectBqlResponse.simps, simp add: False conforms_scalar)+
  qed
qed

end
