(* ===== verification/OB_BqlExec.thy ===== *)
theory OB_BqlExec
  imports OB_Schemas OB_SessionRoutes OB_Bql
begin

text \<open>
  The executor of one BrowserQL action, \<open>src/src/server/core/bql.ts\<close>, with the record of the page's traffic that the handler
  in \<open>src/src/server/browserql-handler.ts\<close> keeps for it. The executor of agent commands is an argument, as in the
  source; what the page does is a driver.
\<close>

section \<open>Recorded traffic\<close>

record net_response =
  nr_url :: string
  nr_status :: int
  nr_contentType :: "string option"
  nr_body :: "string option"
  nr_truncated :: "bool option"

text \<open>A pending task is the index of the response it fills in.\<close>

record bql_network =
  bn_requests :: "(string \<times> string) list"
  bn_responses :: "net_response list"
  bn_pending :: "nat list"
  bn_captureBodies :: bool

definition network_start :: "bql_field list \<Rightarrow> bql_network" where
  "network_start acts =
     \<lparr>bn_requests = [], bn_responses = [], bn_pending = [],
      bn_captureBodies = list_ex (\<lambda>f. bf_name f = ''network'' \<and> object_value (bf_args f) ''captureBodies'' = JBool True) acts\<rparr>"

definition on_page_request :: "string \<Rightarrow> string \<Rightarrow> bql_network \<Rightarrow> bql_network" where
  "on_page_request u meth n =
     (if length (bn_requests n) < 200 then n\<lparr>bn_requests := bn_requests n @ [(u, meth)]\<rparr> else n)"

definition textual_content :: "string option \<Rightarrow> bool" where
  "textual_content ct \<longleftrightarrow>
     (let s = or_default ct [] in rx_prefix (lit_i ''text/'') s \<or> rx_test (alts [lit_i ''json'', lit_i ''javascript'', lit_i ''xml'']) s)"

definition on_page_response :: "string \<Rightarrow> int \<Rightarrow> string option \<Rightarrow> bql_network \<Rightarrow> bql_network" where
  "on_page_response u status ct n =
     (if length (bn_responses n) < 200 then
        n\<lparr>bn_responses := bn_responses n @ [\<lparr>nr_url = u, nr_status = status, nr_contentType = ct, nr_body = None, nr_truncated = None\<rparr>],
          bn_pending := (if bn_captureBodies n \<and> textual_content ct \<and> length (bn_pending n) < 50
                         then bn_pending n @ [length (bn_responses n)] else bn_pending n)\<rparr>
      else n)"

definition body_limit :: "config \<Rightarrow> nat" where
  "body_limit cfg = nat (min 1048576 (maxResponseBytes cfg))"

definition on_body :: "config \<Rightarrow> (string \<Rightarrow> string) \<Rightarrow> nat \<Rightarrow> string outcome \<Rightarrow> bql_network \<Rightarrow> bql_network" where
  "on_body cfg utf8 i body n =
     (case body of
        Inl _ \<Rightarrow> n
      | Inr b \<Rightarrow>
          (if i \<in> set (bn_pending n)
           then n\<lparr>bn_responses := (bn_responses n)[i := (bn_responses n ! i)
                  \<lparr>nr_body := Some (utf8 (take (body_limit cfg) b)), nr_truncated := Some (body_limit cfg < length b)\<rparr>]\<rparr>
           else n))"

section \<open>The driver\<close>

datatype locator_state = StateAttached | StateVisible | StateHidden

record shot_options =
  sh_selector :: "string option"
  sh_type :: string
  sh_fullPage :: bool
  sh_omitBackground :: bool
  sh_quality :: "int option"

record 's bql_page =
  bp_press :: "string \<Rightarrow> string \<Rightarrow> millis \<Rightarrow> ('s, unit) live_op"
  bp_waitFor :: "string \<Rightarrow> locator_state \<Rightarrow> millis \<Rightarrow> ('s, unit) live_op"
  bp_box :: "string \<Rightarrow> ('s, (rat \<times> rat \<times> rat \<times> rat) option) live_op"
  bp_setContent :: "string \<Rightarrow> navigation_wait \<Rightarrow> millis \<Rightarrow> ('s, unit) live_op"
  bp_addCookies :: "jsval list \<Rightarrow> ('s, unit) live_op"
  bp_cookies :: "('s, jsval list) live_op"
  bp_screenshot :: "shot_options \<Rightarrow> ('s, string) live_op"
  bp_pdf :: "(string \<times> jsval) list \<Rightarrow> ('s, string) live_op"
  bp_element :: "string \<Rightarrow> ('s, dom) live_op"
  bp_elements :: "string \<Rightarrow> ('s, dom list) live_op"
  bp_innerHTML :: "dom \<Rightarrow> string"
  bp_outerHTML :: "dom \<Rightarrow> string"
  bp_backend :: "'s \<Rightarrow> string"
  bp_network :: "string \<Rightarrow> 's \<Rightarrow> bql_network option"
  bp_settle :: "string \<Rightarrow> 's \<Rightarrow> bql_network \<times> 's"

record 's bql_env =
  be_agent :: "'s agent_env"
  be_page :: "'s bql_page"
  be_zod :: zod
  be_base64 :: "string \<Rightarrow> string"

type_synonym 's agent_executor = "stored_session \<Rightarrow> agent_command \<Rightarrow> ('s, jsval) route_op"

abbreviation be_cfg :: "'s bql_env \<Rightarrow> config" where
  "be_cfg E \<equiv> se_config (ae_storage (be_agent E))"

definition bql_live :: "'s bql_env \<Rightarrow> stored_session \<Rightarrow> ('s, unit) route_op" where
  "bql_live E session w =
     then_do (settled (resolveProxy (ae_storage (be_agent E)) (fst w) (ses_proxyId session) (ses_ownerKeyHash session)) w)
       (\<lambda>proxy. on_live (lp_get (ae_page (be_agent E)) session proxy))"

section \<open>Reading validated values\<close>

definition str_field :: "string \<Rightarrow> (string \<times> jsval) list \<Rightarrow> string option" where
  "str_field k fs = (case object_value fs k of JStr s \<Rightarrow> Some s | _ \<Rightarrow> None)"

definition int_field :: "string \<Rightarrow> (string \<times> jsval) list \<Rightarrow> int option" where
  "int_field k fs = (case object_value fs k of JNum q \<Rightarrow> Some \<lfloor>q\<rfloor> | _ \<Rightarrow> None)"

definition bool_field :: "string \<Rightarrow> (string \<times> jsval) list \<Rightarrow> bool" where
  "bool_field k fs \<longleftrightarrow> object_value fs k = JBool True"

definition text_of :: "string \<Rightarrow> (string \<times> jsval) list \<Rightarrow> string" where
  "text_of k fs = or_default (str_field k fs) []"

definition entries :: "jsval \<Rightarrow> (string \<times> jsval) list" where
  "entries v = (case v of JObj fs \<Rightarrow> fs | _ \<Rightarrow> [])"

definition wait_of :: "(string \<times> jsval) list \<Rightarrow> navigation_wait option" where
  "wait_of fs =
     (case str_field ''waitUntil'' fs of
        None \<Rightarrow> None
      | Some s \<Rightarrow> map_of [(''load'', WaitLoad), (''domcontentloaded'', WaitDomContentLoaded), (''networkidle'', WaitNetworkIdle)] s)"

definition direction_of :: "string \<Rightarrow> scroll_direction" where
  "direction_of s = (if s = ''up'' then ScrollUp else if s = ''left'' then ScrollLeft else if s = ''right'' then ScrollRight else ScrollDown)"

definition statuses_of :: "(string \<times> jsval) list \<Rightarrow> int list option" where
  "statuses_of fs =
     (case object_value fs ''statuses'' of
        JArr xs \<Rightarrow> Some (map (\<lambda>x. case x of JNum q \<Rightarrow> \<lfloor>q\<rfloor> | _ \<Rightarrow> 0) xs)
      | _ \<Rightarrow> None)"

text \<open>The command a validated value stands for.\<close>

definition named_command :: "string \<Rightarrow> (string \<times> jsval) list \<Rightarrow> agent_command option" where
  "named_command m ps = map_of
     [(''goto'', CmdGoto (text_of ''url'' ps) (wait_of ps)), (''back'', CmdBack (wait_of ps)), (''forward'', CmdForward (wait_of ps)),
      (''reload'', CmdReload (wait_of ps)), (''snapshot'', CmdSnapshot (nat (or_default (int_field ''maxElements'' ps) 100))),
      (''text'', CmdText (text_of ''selector'' ps)), (''html'', CmdHtml (str_field ''selector'' ps)),
      (''evaluate'', CmdEvaluate (text_of ''content'' ps)), (''click'', CmdClick (text_of ''selector'' ps)),
      (''type'', CmdType (text_of ''selector'' ps) (text_of ''text'' ps)),
      (''select'', CmdSelect (text_of ''selector'' ps) (text_of ''value'' ps)),
      (''checkbox'', CmdCheckbox (text_of ''selector'' ps) (bool_field ''checked'' ps)), (''hover'', CmdHover (text_of ''selector'' ps)),
      (''scroll'', CmdScroll (str_field ''selector'' ps) (direction_of (text_of ''direction'' ps))),
      (''waitForSelector'', CmdWaitForSelector (text_of ''selector'' ps) (int_field ''timeout'' ps)),
      (''waitForNavigation'', CmdWaitForNavigation (int_field ''timeout'' ps)),
      (''waitForTimeout'', CmdWaitForTimeout (or_default (int_field ''time'' ps) 0)),
      (''waitForRequest'', CmdWaitForRequest (str_field ''url'' ps) (str_field ''method'' ps) (int_field ''timeout'' ps)),
      (''waitForResponse'', CmdWaitForResponse (str_field ''url'' ps) (statuses_of ps) (int_field ''timeout'' ps)),
      (''liveURL'', CmdLiveUrl), (''close'', CmdClose)] m"

definition agent_command_of :: "jsval \<Rightarrow> agent_command option" where
  "agent_command_of v = named_command (text_of ''method'' (entries v)) (entries (object_value (entries v) ''params''))"

text \<open>\<open>command(method, params)\<close>: the request goes through the schema of the agent once more.\<close>

definition bql_command :: "'s bql_env \<Rightarrow> 's agent_executor \<Rightarrow> stored_session \<Rightarrow> string \<Rightarrow> jsval \<Rightarrow> ('s, jsval) route_op" where
  "bql_command E exec session m params w =
     (case parse_request (be_zod E) (agent_command_schema (be_cfg E)) (JObj [(''method'', JStr m), (''params'', params)]) of
        Inl e \<Rightarrow> (Inl e, w)
      | Inr v \<Rightarrow> (case agent_command_of v of Some c \<Rightarrow> exec session c w | None \<Rightarrow> (Inl (JsError ''unknown command''), w)))"

text \<open>\<open>parse(schema, args)\<close> and what follows with the fields of the result.\<close>

definition with_args ::
  "'s bql_env \<Rightarrow> schema \<Rightarrow> bql_field \<Rightarrow> ((string \<times> jsval) list \<Rightarrow> ('s, jsval) route_op) \<Rightarrow> ('s, jsval) route_op" where
  "with_args E sch f k w = then_do (settled (parse_request (be_zod E) sch (JObj (bf_args f))) w) (\<lambda>v. k (entries v))"

section \<open>Actions that are agent commands\<close>

definition bql_wait_states :: schema where
  "bql_wait_states = SOptional (SEnum [''load'', ''domcontentloaded'', ''domContentLoaded'', ''networkidle'', ''networkIdle''])"

definition agent_wait :: "(string \<times> jsval) list \<Rightarrow> string option" where
  "agent_wait fs =
     (case str_field ''waitUntil'' fs of
        None \<Rightarrow> None
      | Some s \<Rightarrow> if s = ''networkIdle'' then Some ''networkidle'' else if s = ''domContentLoaded'' then Some ''domcontentloaded'' else None)"

definition bql_goto :: "'s bql_env \<Rightarrow> 's agent_executor \<Rightarrow> stored_session \<Rightarrow> bql_field \<Rightarrow> ('s, jsval) route_op" where
  "bql_goto E exec session f =
     with_args E (SObject False [(''url'', url_schema), (''waitUntil'', bql_wait_states)]) f (\<lambda>fs.
       bql_command E exec session ''goto''
         (JObj (case agent_wait fs of Some s \<Rightarrow> map_set ''waitUntil'' (JStr s) fs | None \<Rightarrow> fs)))"

definition bql_history :: "'s bql_env \<Rightarrow> 's agent_executor \<Rightarrow> stored_session \<Rightarrow> bql_field \<Rightarrow> ('s, jsval) route_op" where
  "bql_history E exec session f =
     with_args E (SObject False [(''waitUntil'', bql_wait_states)]) f (\<lambda>fs.
       bql_command E exec session (bf_name f)
         (JObj (case agent_wait fs of Some s \<Rightarrow> [(''waitUntil'', JStr s)] | None \<Rightarrow> fs)))"

text \<open>Actions that pass their validated arguments on under the same name.\<close>

definition bql_plain_schemas :: "config \<Rightarrow> (string \<times> schema) list" where
  "bql_plain_schemas cfg =
     [(''click'', SObject False [(''selector'', a_selector)]),
      (''checkbox'', SObject False [(''selector'', a_selector), (''checked'', SDefault SBool (JBool True))]),
      (''select'', SObject False [(''selector'', a_selector), (''value'', SString 0 (Some 2048))]),
      (''hover'', SObject False [(''selector'', a_selector)]),
      (''scroll'', SObject False [(''selector'', SOptional a_selector),
         (''direction'', SDefault (SEnum [''up'', ''down'', ''left'', ''right'']) (JStr ''down''))]),
      (''waitForTimeout'', SObject False [(''time'', whole (Some 0) (Some (jobTimeoutMs cfg)))]),
      (''waitForNavigation'', SObject False [(''timeout'', a_timeout cfg)]),
      (''evaluate'', SObject False [(''content'', SString 1 (Some 10000))])]"

definition bql_plain :: "'s bql_env \<Rightarrow> 's agent_executor \<Rightarrow> stored_session \<Rightarrow> schema \<Rightarrow> bql_field \<Rightarrow> ('s, jsval) route_op" where
  "bql_plain E exec session sch f = with_args E sch f (\<lambda>fs. bql_command E exec session (bf_name f) (JObj fs))"

definition bql_text :: "'s bql_env \<Rightarrow> 's agent_executor \<Rightarrow> stored_session \<Rightarrow> bql_field \<Rightarrow> ('s, jsval) route_op" where
  "bql_text E exec session f =
     with_args E (SObject False [(''selector'', SDefault a_selector (JStr ''body''))]) f (\<lambda>fs.
       bql_command E exec session ''text'' (JObj [(''selector'', JStr (text_of ''selector'' fs))]))"

definition bql_html :: "'s bql_env \<Rightarrow> 's agent_executor \<Rightarrow> stored_session \<Rightarrow> bql_field \<Rightarrow> ('s, jsval) route_op" where
  "bql_html E exec session f =
     with_args E (SObject False [(''selector'', SOptional a_selector)]) f (\<lambda>fs.
       bql_command E exec session ''html''
         (if present (str_field ''selector'' fs) then JObj [(''selector'', JStr (text_of ''selector'' fs))] else JObj []))"

text \<open>A request, or a response, that was recorded before answers the wait at once.\<close>

definition bql_waitForRequest :: "'s bql_env \<Rightarrow> 's agent_executor \<Rightarrow> stored_session \<Rightarrow> bql_field \<Rightarrow> ('s, jsval) route_op" where
  "bql_waitForRequest E exec session f =
     with_args E (SObject False [(''url'', SOptional a_selector), (''method'', SOptional (SString 1 (Some 16))),
         (''timeout'', a_timeout (be_cfg E))]) f (\<lambda>fs w.
       case Option.bind (bp_network (be_page E) (ses_id session) (snd w))
              (\<lambda>n. find (wanted_request (str_field ''url'' fs) (str_field ''method'' fs)) (bn_requests n)) of
         Some (u, m) \<Rightarrow> (Inr (JObj [(''url'', JStr u), (''method'', JStr m)]), w)
       | None \<Rightarrow> bql_command E exec session ''waitForRequest'' (JObj fs) w)"

definition response_json :: "net_response \<Rightarrow> jsval" where
  "response_json r = JObj ([(''url'', JStr (nr_url r)), (''status'', JNum (of_int (nr_status r)))]
     @ opt_field ''contentType'' (nr_contentType r) @ opt_field ''body'' (nr_body r)
     @ (case nr_truncated r of Some b \<Rightarrow> [(''bodyTruncated'', JBool b)] | None \<Rightarrow> []))"

definition bql_waitForResponse :: "'s bql_env \<Rightarrow> 's agent_executor \<Rightarrow> stored_session \<Rightarrow> bql_field \<Rightarrow> ('s, jsval) route_op" where
  "bql_waitForResponse E exec session f =
     with_args E (SObject False [(''url'', SOptional a_selector),
         (''statuses'', SOptional (SArray 0 (Some 50) (whole (Some 100) (Some 599)))), (''timeout'', a_timeout (be_cfg E))]) f (\<lambda>fs w.
       case Option.bind (bp_network (be_page E) (ses_id session) (snd w))
              (\<lambda>n. find (\<lambda>r. wanted_response (str_field ''url'' fs) (statuses_of fs) (nr_url r, nr_status r)) (bn_responses n)) of
         Some r \<Rightarrow> (Inr (response_json r), w)
       | None \<Rightarrow> bql_command E exec session ''waitForResponse'' (JObj fs) w)"

section \<open>Actions on the page\<close>

definition millis_json :: "int \<Rightarrow> jsval" where
  "millis_json n = JNum (of_int n)"

definition bql_type :: "'s bql_env \<Rightarrow> stored_session \<Rightarrow> bql_field \<Rightarrow> ('s, jsval) route_op" where
  "bql_type E session f =
     with_args E (SObject False [(''selector'', a_selector), (''text'', SString 0 (Some 10000)),
         (''delayMs'', SDefault (whole (Some 0) (Some 1000)) (JNum 0))]) f (\<lambda>fs w.
       let now = ae_now (be_agent E); sel = text_of ''selector'' fs; txt = text_of ''text'' fs in
       then_do (bql_live E session w) (\<lambda>_ w1.
       then_do (on_live (lp_click (ae_page (be_agent E)) sel (jobTimeoutMs (be_cfg E))) w1) (\<lambda>_ w2.
       then_do (on_live (bp_press (be_page E) sel txt (or_default (int_field ''delayMs'' fs) 0)) w2) (\<lambda>_ w3.
       (Inr (JObj [(''selector'', JStr sel), (''text'', JStr txt), (''typed'', JNum (of_nat (length txt))),
                   (''time'', millis_json (now (snd w3) - now (snd w1)))]), w3)))))"

definition visibility_issues :: "jsval \<Rightarrow> string list" where
  "visibility_issues v =
     (if bool_field ''visible'' (entries v) \<and> bool_field ''hidden'' (entries v) then [''visible and hidden cannot both be true''] else [])"

definition awaited_state :: "(string \<times> jsval) list \<Rightarrow> locator_state" where
  "awaited_state fs = (if bool_field ''hidden'' fs then StateHidden else if bool_field ''visible'' fs then StateVisible else StateAttached)"

definition box_json :: "(rat \<times> rat \<times> rat \<times> rat) option \<Rightarrow> (string \<times> jsval) list" where
  "box_json b =
     (case b of None \<Rightarrow> []
      | Some (x, y, w, h) \<Rightarrow> [(''x'', JNum x), (''y'', JNum y), (''width'', JNum w), (''height'', JNum h)])"

definition bql_waitForSelector :: "'s bql_env \<Rightarrow> stored_session \<Rightarrow> bql_field \<Rightarrow> ('s, jsval) route_op" where
  "bql_waitForSelector E session f =
     with_args E (SRefine visibility_issues (SObject False [(''selector'', a_selector), (''timeout'', a_timeout (be_cfg E)),
         (''visible'', SDefault SBool (JBool False)), (''hidden'', SDefault SBool (JBool False))])) f (\<lambda>fs w.
       let now = ae_now (be_agent E); sel = text_of ''selector'' fs in
       then_do (bql_live E session w) (\<lambda>_ w1.
       then_do (on_live (bp_waitFor (be_page E) sel (awaited_state fs) (or_default (int_field ''timeout'' fs) (jobTimeoutMs (be_cfg E)))) w1) (\<lambda>_ w2.
       then_do (if bool_field ''hidden'' fs then (Inr None, w2) else on_live (bp_box (be_page E) sel) w2) (\<lambda>box w3.
       (Inr (JObj ([(''selector'', JStr sel), (''time'', millis_json (now (snd w3) - now (snd w1)))] @ box_json box)), w3)))))"

definition request_json :: "string \<times> string \<Rightarrow> jsval" where
  "request_json r = JObj [(''url'', JStr (fst r)), (''method'', JStr (snd r))]"

definition bql_network_action :: "'s bql_env \<Rightarrow> stored_session \<Rightarrow> ('s, jsval) route_op" where
  "bql_network_action E session w =
     (case bp_network (be_page E) (ses_id session) (snd w) of
        None \<Rightarrow> (Inr (JObj [(''requests'', JArr []), (''responses'', JArr [])]), w)
      | Some _ \<Rightarrow>
          (case bp_settle (be_page E) (ses_id session) (snd w) of
             (n, s1) \<Rightarrow> (Inr (JObj [(''requests'', JArr (map request_json (bn_requests n))),
                                  (''responses'', JArr (map response_json (bn_responses n)))]), fst w, s1)))"

definition bql_content :: "'s bql_env \<Rightarrow> stored_session \<Rightarrow> bql_field \<Rightarrow> ('s, jsval) route_op" where
  "bql_content E session f =
     with_args E (SObject False [(''html'', SString 0 (Some (nat (maxResponseBytes (be_cfg E)))))]) f (\<lambda>fs w.
       then_do (bql_live E session w) (\<lambda>_ w1.
       then_do (on_live (bp_setContent (be_page E) (text_of ''html'' fs) WaitDomContentLoaded (jobTimeoutMs (be_cfg E))) w1) (\<lambda>_ w2.
       (res_bind (normalizeUrl (ae_parse (be_agent E)) (lp_url (ae_page (be_agent E)) (snd w2))) (\<lambda>u.
          Inr (JObj [(''status'', JNum 200), (''url'', JStr u)])), w2))))"

definition bql_title :: "'s bql_env \<Rightarrow> stored_session \<Rightarrow> ('s, jsval) route_op" where
  "bql_title E session w =
     then_do (bql_live E session w) (\<lambda>_ w1.
     then_do (on_live (lp_title (ae_page (be_agent E))) w1) (\<lambda>t. settled (Inr (JObj [(''title'', JStr t)]))))"

definition bql_url :: "'s bql_env \<Rightarrow> stored_session \<Rightarrow> ('s, jsval) route_op" where
  "bql_url E session w =
     then_do (bql_live E session w) (\<lambda>_ w1.
     (res_bind (normalizeUrl (ae_parse (be_agent E)) (lp_url (ae_page (be_agent E)) (snd w1))) (\<lambda>u. Inr (JObj [(''url'', JStr u)])), w1))"

section \<open>Cookies\<close>

definition cookie_issues :: "jsval \<Rightarrow> string list" where
  "cookie_issues v =
     (if present (str_field ''url'' (entries v)) \<or> present (str_field ''domain'' (entries v)) then [] else [''Cookie requires url or domain''])"

definition cookie_schema :: schema where
  "cookie_schema = SRefine cookie_issues (SObject False
     [(''name'', SString 1 (Some 256)), (''value'', SString 0 (Some 4096)), (''url'', SOptional url_schema),
      (''domain'', SOptional (SString 1 (Some 253))), (''path'', SDefault (SString 0 (Some 1024)) (JStr ''/'')),
      (''secure'', SOptional SBool), (''httpOnly'', SOptional SBool), (''sameSite'', SOptional (SEnum [''Strict'', ''Lax'', ''None''])),
      (''expires'', SOptional (SNumber False None None))])"

text \<open>A cookie has a URL, or a domain and a path.\<close>

definition placed_cookie :: "jsval \<Rightarrow> jsval" where
  "placed_cookie v =
     (let fs = entries v; common = filter (\<lambda>(k, _). k \<notin> {''url'', ''domain'', ''path''}) fs in
      JObj (common @ (if present (str_field ''url'' fs) then [(''url'', object_value fs ''url'')]
                      else [(''domain'', object_value fs ''domain''), (''path'', object_value fs ''path'')])))"

definition bql_cookies :: "'s bql_env \<Rightarrow> stored_session \<Rightarrow> bql_field \<Rightarrow> ('s, jsval) route_op" where
  "bql_cookies E session f =
     with_args E (SObject False [(''cookies'', SOptional (SArray 1 (Some 100) cookie_schema))]) f (\<lambda>fs w.
       let given = (case object_value fs ''cookies'' of JArr xs \<Rightarrow> Some xs | _ \<Rightarrow> None) in
       then_do (bql_live E session w) (\<lambda>_ w1.
       then_do (case given of None \<Rightarrow> (Inr (), w1) | Some xs \<Rightarrow> on_live (bp_addCookies (be_page E) (map placed_cookie xs)) w1) (\<lambda>_ w2.
       then_do (on_live (bp_cookies (be_page E)) w2) (\<lambda>cs.
       settled (Inr (JObj [(''cookies'', JArr cs), (''updated'', JNum (of_nat (length (or_default given []))))]))))))"

section \<open>Screenshots and documents\<close>

definition response_too_large :: "string \<Rightarrow> js_error" where
  "response_too_large what = ob_err ''RESPONSE_TOO_LARGE'' (''BrowserQL '' @ what @ '' exceeds the configured response limit'') 413 False"

definition shot_of :: "(string \<times> jsval) list \<Rightarrow> shot_options" where
  "shot_of fs =
     (let t = (if text_of ''type'' fs = ''jpg'' then ''jpeg'' else text_of ''type'' fs);
          q = (if t = ''jpeg'' then int_field ''quality'' fs else None) in
      if present (str_field ''selector'' fs)
      then \<lparr>sh_selector = str_field ''selector'' fs, sh_type = t, sh_fullPage = False, sh_omitBackground = False, sh_quality = q\<rparr>
      else \<lparr>sh_selector = None, sh_type = t, sh_fullPage = bool_field ''fullPage'' fs,
            sh_omitBackground = bool_field ''omitBackground'' fs, sh_quality = q\<rparr>)"

definition bql_screenshot :: "'s bql_env \<Rightarrow> stored_session \<Rightarrow> bql_field \<Rightarrow> ('s, jsval) route_op" where
  "bql_screenshot E session f =
     with_args E (SObject False [(''fullPage'', SDefault SBool (JBool False)), (''selector'', SOptional a_selector),
         (''type'', SDefault (SEnum [''png'', ''jpeg'', ''jpg'']) (JStr ''png'')), (''quality'', SOptional (whole (Some 0) (Some 100))),
         (''omitBackground'', SDefault SBool (JBool False))]) f (\<lambda>fs w.
       then_do (bql_live E session w) (\<lambda>_ w1.
       then_do (on_live (bp_screenshot (be_page E) (shot_of fs)) w1) (\<lambda>img.
       settled (if int (length img) > maxResponseBytes (be_cfg E) then Inl (response_too_large ''screenshot'')
         else Inr (JObj [(''base64'', JStr (be_base64 E img)),
           (''mimeType'', JStr (if sh_type (shot_of fs) = ''png'' then ''image/png'' else ''image/jpeg'')),
           (''format'', JStr (sh_type (shot_of fs))), (''bytes'', JNum (of_nat (length img)))])))))"

definition pdf_formats :: "string list" where
  "pdf_formats = [''Letter'', ''Legal'', ''Tabloid'', ''Ledger'', ''A0'', ''A1'', ''A2'', ''A3'', ''A4'', ''A5'', ''A6'']"

definition pdf_schema :: schema where
  "pdf_schema = SObject False
     [(''format'', SOptional (SEnum pdf_formats)), (''landscape'', SDefault SBool (JBool False)),
      (''printBackground'', SDefault SBool (JBool False)), (''scale'', SDefault (SNumber False (Some (1 / 10)) (Some 2)) (JNum 1)),
      (''pageRanges'', SOptional (SString 0 (Some 256))), (''preferCSSPageSize'', SDefault SBool (JBool False)),
      (''displayHeaderFooter'', SDefault SBool (JBool False)), (''headerTemplate'', SOptional (SString 0 (Some 4096))),
      (''footerTemplate'', SOptional (SString 0 (Some 4096))), (''marginTop'', SOptional (SString 0 (Some 32))),
      (''marginRight'', SOptional (SString 0 (Some 32))), (''marginBottom'', SOptional (SString 0 (Some 32))),
      (''marginLeft'', SOptional (SString 0 (Some 32)))]"

definition pdf_options :: "(string \<times> jsval) list \<Rightarrow> (string \<times> jsval) list" where
  "pdf_options fs =
     fs @ (if list_ex (\<lambda>k. present (str_field k fs)) [''marginTop'', ''marginRight'', ''marginBottom'', ''marginLeft'']
           then [(''margin'', JObj [(''top'', object_value fs ''marginTop''), (''right'', object_value fs ''marginRight''),
                   (''bottom'', object_value fs ''marginBottom''), (''left'', object_value fs ''marginLeft'')])]
           else [])"

definition bql_pdf :: "'s bql_env \<Rightarrow> stored_session \<Rightarrow> bql_field \<Rightarrow> ('s, jsval) route_op" where
  "bql_pdf E session f w =
     then_do (bql_live E session w) (\<lambda>_ w1.
     with_args E pdf_schema f (\<lambda>fs w2.
       then_do (on_live (bp_pdf (be_page E) (pdf_options fs)) w2) (\<lambda>doc.
       settled (if int (length doc) > maxResponseBytes (be_cfg E) then Inl (response_too_large ''PDF'')
         else Inr (JObj [(''base64'', JStr (be_base64 E doc)), (''mimeType'', JStr ''application/pdf''),
           (''bytes'', JNum (of_nat (length doc))), (''size'', JNum (of_nat (length doc)))])))) w1)"

section \<open>Elements\<close>

definition query_schema :: schema where
  "query_schema = SObject False [(''selector'', a_selector), (''visible'', SDefault SBool (JBool False))]"

definition when_visible :: "'s bql_env \<Rightarrow> (string \<times> jsval) list \<Rightarrow> ('s, unit) route_op" where
  "when_visible E fs w =
     (if bool_field ''visible'' fs
      then on_live (bp_waitFor (be_page E) (text_of ''selector'' fs) StateVisible (jobTimeoutMs (be_cfg E))) w else (Inr (), w))"

definition bql_querySelector :: "'s bql_env \<Rightarrow> stored_session \<Rightarrow> bql_field \<Rightarrow> ('s, jsval) route_op" where
  "bql_querySelector E session f =
     with_args E query_schema f (\<lambda>fs w.
       then_do (bql_live E session w) (\<lambda>_ w1.
       then_do (when_visible E fs w1) (\<lambda>_ w2.
       then_do (on_live (bp_element (be_page E) (text_of ''selector'' fs)) w2) (\<lambda>d.
       settled (Inr (JObj [(''text'', JStr (trim (dom_text d))), (''innerHTML'', JStr (bp_innerHTML (be_page E) d)),
         (''outerHTML'', JStr (bp_outerHTML (be_page E) d))]))))))"

definition element_json :: "'s bql_env \<Rightarrow> dom \<Rightarrow> jsval" where
  "element_json E d = JObj [(''id'', JStr (attr_or_empty ''id'' d)), (''className'', JStr (attr_or_empty ''class'' d)),
     (''childElementCount'', JNum (of_nat (length (child_elements d)))), (''innerHTML'', JStr (bp_innerHTML (be_page E) d)),
     (''innerText'', JStr (dom_text d)), (''localName'', JStr (dom_name d)), (''outerHTML'', JStr (bp_outerHTML (be_page E) d))]"

definition bql_querySelectorAll :: "'s bql_env \<Rightarrow> stored_session \<Rightarrow> bql_field \<Rightarrow> ('s, jsval) route_op" where
  "bql_querySelectorAll E session f =
     with_args E query_schema f (\<lambda>fs w.
       then_do (bql_live E session w) (\<lambda>_ w1.
       then_do (when_visible E fs w1) (\<lambda>_ w2.
       then_do (on_live (bp_elements (be_page E) (text_of ''selector'' fs)) w2) (\<lambda>ds.
       settled (Inr (JArr (map (element_json E) ds)))))))"

definition bql_solve :: "'s bql_env \<Rightarrow> stored_session \<Rightarrow> ('s, jsval) route_op" where
  "bql_solve E session w =
     then_do (bql_live E session w) (\<lambda>_ w1.
     then_do (on_live (lp_content (ae_page (be_agent E))) w1) (\<lambda>html w2.
     let found = hasAccessChallenge html in
     (Inr (JObj [(''found'', JBool found), (''solved'', JBool (\<not> found)), (''backend'', JStr (bp_backend (be_page E) (snd w2))),
                 (''retryRecommended'', JBool found)]), w2)))"

section \<open>Dispatch\<close>

definition unsupported_action :: "string \<Rightarrow> js_error" where
  "unsupported_action name = ob_err ''UNSUPPORTED_OPERATION'' (''BrowserQL action is not implemented: '' @ name) 404 False"

definition bql_action_table ::
  "'s bql_env \<Rightarrow> 's agent_executor \<Rightarrow> stored_session \<Rightarrow> bql_field \<Rightarrow> (string \<times> ('s, jsval) route_op) list" where
  "bql_action_table E exec session f =
     [(''goto'', bql_goto E exec session f), (''back'', bql_history E exec session f), (''forward'', bql_history E exec session f),
      (''reload'', bql_history E exec session f), (''text'', bql_text E exec session f), (''html'', bql_html E exec session f),
      (''waitForRequest'', bql_waitForRequest E exec session f), (''waitForResponse'', bql_waitForResponse E exec session f)]
     @ map (\<lambda>(name, sch). (name, bql_plain E exec session sch f)) (bql_plain_schemas (be_cfg E))
     @ [(''type'', bql_type E session f), (''waitForSelector'', bql_waitForSelector E session f), (''network'', bql_network_action E session),
        (''content'', bql_content E session f), (''title'', bql_title E session), (''url'', bql_url E session),
        (''cookies'', bql_cookies E session f), (''screenshot'', bql_screenshot E session f), (''pdf'', bql_pdf E session f),
        (''querySelector'', bql_querySelector E session f), (''querySelectorAll'', bql_querySelectorAll E session f),
        (''solve'', bql_solve E session)]"

definition executeBqlField :: "'s bql_env \<Rightarrow> 's agent_executor \<Rightarrow> stored_session \<Rightarrow> bql_field \<Rightarrow> ('s, jsval) route_op" where
  "executeBqlField E exec session f w =
     (case map_of (bql_action_table E exec session f) (bf_name f) of
        None \<Rightarrow> (Inl (unsupported_action (bf_name f)), w)
      | Some act \<Rightarrow> act w)"

end
