(* ===== verification/OB_BqlCommands.thy ===== *)
theory OB_BqlCommands
  imports OB_BqlExec
begin

text \<open>
  What the schema of the agent lets through: the commands an action of BrowserQL can ask for, and their limits.
\<close>

section \<open>Commands that an action can ask for\<close>

definition in_time :: "config \<Rightarrow> millis \<Rightarrow> millis option \<Rightarrow> bool" where
  "in_time cfg lo t \<longleftrightarrow> (case t of None \<Rightarrow> True | Some ms \<Rightarrow> lo \<le> ms \<and> ms \<le> jobTimeoutMs cfg)"

fun allowed_command :: "config \<Rightarrow> agent_command \<Rightarrow> bool" where
  "allowed_command cfg (CmdGoto u _) = (length u \<le> 4096)"
| "allowed_command cfg (CmdSnapshot _) = False"
| "allowed_command cfg CmdLiveUrl = False"
| "allowed_command cfg CmdClose = False"
| "allowed_command cfg (CmdType _ _) = False"
| "allowed_command cfg (CmdWaitForSelector _ _) = False"
| "allowed_command cfg (CmdEvaluate script) = (1 \<le> length script \<and> length script \<le> 10000)"
| "allowed_command cfg (CmdWaitForNavigation t) = in_time cfg 100 t"
| "allowed_command cfg (CmdWaitForTimeout t) = in_time cfg 0 (Some t)"
| "allowed_command cfg (CmdWaitForRequest _ _ t) = in_time cfg 100 t"
| "allowed_command cfg (CmdWaitForResponse _ _ t) = in_time cfg 100 t"
| "allowed_command cfg _ = True"

definition passed_on :: "string set" where
  "passed_on = {''goto'', ''back'', ''forward'', ''reload'', ''click'', ''checkbox'', ''select'', ''hover'', ''scroll'', ''waitForTimeout'',
     ''waitForNavigation'', ''evaluate'', ''text'', ''html'', ''waitForRequest'', ''waitForResponse''}"

lemma shape_yields:
  "yields (command_shape ms params) v r \<Longrightarrow> object_value (entries r) ''method'' = object_value (entries v) ''method''"
  by (auto simp: command_shape_def entries_def split: jsval.splits)

lemma agent_yields:
  "yields (agent_command_schema cfg) v r \<Longrightarrow> object_value (entries r) ''method'' = object_value (entries v) ''method''"
  unfolding agent_command_schema_def yields.simps by (auto simp: list_ex_iff intro: shape_yields)

lemma shape_accepts:
  assumes "accepts U (command_shape ms params) r" "object_value (entries r) ''method'' = JStr m"
  shows "m \<in> set ms \<and> accepts U params (object_value (entries r) ''params'')"
  using assms by (auto simp: command_shape_def entries_def split: jsval.splits)

lemma whole_accepts:
  assumes "accepts U (whole lo hi) v"
  shows "\<exists>n. v = JNum (of_int n) \<and> (\<forall>l. lo = Some l \<longrightarrow> l \<le> n) \<and> (\<forall>h. hi = Some h \<longrightarrow> n \<le> h)"
proof -
  from assms obtain q where v: "v = JNum q" and r: "within_range True (map_option of_int lo) (map_option of_int hi) q"
    by (cases v) (auto simp: whole_def)
  then have q: "of_int \<lfloor>q\<rfloor> = q" by (simp add: within_range_def)
  have "l \<le> \<lfloor>q\<rfloor>" if "lo = Some l" for l using r that by (simp add: within_range_def le_floor_iff)
  moreover have "\<lfloor>q\<rfloor> \<le> h" if "hi = Some h" for h
  proof -
    have "of_int \<lfloor>q\<rfloor> \<le> (of_int h :: rat)" unfolding q using r that by (simp add: within_range_def)
    then show ?thesis by (simp only: of_int_le_iff)
  qed
  ultimately show ?thesis using v q by auto
qed

lemma timeout_accepts: "accepts U (a_timeout cfg) (object_value fs k) \<Longrightarrow> in_time cfg 100 (int_field k fs)"
  by (auto simp: a_timeout_def int_field_def in_time_def dest!: whole_accepts)

lemma length_accepts: "accepts U (SString lo (Some hi)) (object_value fs k) \<Longrightarrow> lo \<le> length (text_of k fs) \<and> length (text_of k fs) \<le> hi"
  by (auto simp: text_of_def str_field_def within_size_def or_default_def split: jsval.splits)

lemma url_accepts: "accepts U (SUrl hi) (object_value fs k) \<Longrightarrow> length (text_of k fs) \<le> hi"
  by (auto simp: text_of_def str_field_def or_default_def split: jsval.splits)

text \<open>The branch of the schema that a method selects.\<close>

lemma object_accepts: "accepts U (SObject strict shape) v \<Longrightarrow> (k, sch) \<in> set shape \<Longrightarrow> accepts U sch (object_value (entries v) k)"
  by (auto simp: entries_def list_all_iff split: jsval.splits)

lemma union_branch:
  assumes "accepts U (SUnion (map (\<lambda>(ms, params). command_shape ms params) table)) r" "object_value (entries r) ''method'' = JStr m"
  shows "\<exists>(ms, params) \<in> set table. m \<in> set ms \<and> accepts U params (object_value (entries r) ''params'')"
  using assms(1) by (auto simp: list_ex_iff dest!: shape_accepts [OF _ assms(2)])

lemma object_entries: "accepts U (SObject strict shape) v \<longleftrightarrow>
    (\<exists>fs. v = JObj fs \<and> list_all (\<lambda>(k, _). k \<in> fst ` set shape) fs \<and> list_all (\<lambda>(k, sch). accepts U sch (object_value fs k)) shape)"
  by (cases v) simp_all

lemma time_accepts:
  "accepts U (whole (Some 0) (Some (jobTimeoutMs cfg))) (object_value fs k) \<Longrightarrow> in_time cfg 0 (Some (or_default (int_field k fs) 0))"
  by (auto simp: int_field_def in_time_def or_default_def dest!: whole_accepts)

lemma default_accepts: "accepts U (SDefault sch d) v = accepts U sch v"
  by simp

lemma branch_commands:
  "list_all (\<lambda>(ms, params). list_all (\<lambda>m. m \<in> passed_on \<longrightarrow> accepts U params v \<longrightarrow>
     (\<exists>c. named_command m (entries v) = Some c \<and> allowed_command cfg c)) ms) (agent_command_table cfg)"
  unfolding agent_command_table_def list.pred_inject prod.case
  by (intro conjI impI TrueI)
    (auto simp del: accepts.simps simp: object_entries default_accepts entries_def named_command_def passed_on_def url_schema_def
        dest!: timeout_accepts url_accepts length_accepts time_accepts)

lemma branch_command:
  "(ms, params) \<in> set (agent_command_table cfg) \<Longrightarrow> m \<in> set ms \<Longrightarrow> m \<in> passed_on \<Longrightarrow> accepts U params v \<Longrightarrow>
     \<exists>c. named_command m (entries v) = Some c \<and> allowed_command cfg c"
  using branch_commands [of U v cfg] by (auto simp: list_all_iff)

lemma agent_command_accepted:
  assumes "accepts U (agent_command_schema cfg) r" "object_value (entries r) ''method'' = JStr m" "m \<in> passed_on"
  shows "\<exists>c. agent_command_of r = Some c \<and> allowed_command cfg c"
proof -
  from union_branch [OF assms(1)[unfolded agent_command_schema_def] assms(2)] obtain ms params where
    b: "(ms, params) \<in> set (agent_command_table cfg)" "m \<in> set ms" "accepts U params (object_value (entries r) ''params'')" by auto
  have "text_of ''method'' (entries r) = m" by (simp add: text_of_def str_field_def assms(2) or_default_def)
  with branch_command [OF b(1,2) assms(3) b(3)] show ?thesis by (simp add: agent_command_of_def)
qed

lemma bql_command_same:
  assumes "zod_ok U (be_zod E)" "m \<in> passed_on" "\<And>c w. allowed_command (be_cfg E) c \<Longrightarrow> exec session c w = exec' session c w"
  shows "bql_command E exec session m params w = bql_command E exec' session m params w"
proof (cases "parse_request (be_zod E) (agent_command_schema (be_cfg E)) (JObj [(''method'', JStr m), (''params'', params)])")
  case (Inr v)
  from parse_request_ok [OF assms(1) this] have ok: "accepts U (agent_command_schema (be_cfg E)) v"
    "yields (agent_command_schema (be_cfg E)) (JObj [(''method'', JStr m), (''params'', params)]) v" by auto
  from agent_yields [OF ok(2)] have "object_value (entries v) ''method'' = JStr m" by (simp add: entries_def object_value_def)
  from agent_command_accepted [OF ok(1) this assms(2)] obtain c where "agent_command_of v = Some c" "allowed_command (be_cfg E) c" by blast
  with Inr assms(3) show ?thesis by (simp add: bql_command_def)
qed (simp add: bql_command_def)

end
