(* ===== verification/OB_Agent_Props.thy ===== *)
theory OB_Agent_Props
  imports OB_Agent
begin

text \<open>
  What the agent commands promise: navigation stays behind the URL guard, replies are bounded, closing removes the
  session, and what a snapshot tells about the elements of the page.
\<close>

section \<open>Selectors\<close>

text \<open>
  The string token of CSS Syntax after its opening quote, as far as the snapshot writes escapes: a line break ends the
  token as a bad string, and an escaped character stands for itself. Hexadecimal escapes are never written.
\<close>

definition css_newline :: "char \<Rightarrow> bool" where
  "css_newline c \<longleftrightarrow> of_char c \<in> {10, 12, 13 :: nat}"

fun css_string :: "string \<Rightarrow> (string \<times> string) option" where
  "css_string [] = None"
| "css_string (c # s) =
     (if c = quote_mark then Some ([], s)
      else if css_newline c then None
      else if c = backslash
      then (case s of
              [] \<Rightarrow> None
            | d # t \<Rightarrow> if d = backslash \<or> d = quote_mark then map_option (map_prod (Cons d) id) (css_string t) else None)
      else map_option (map_prod (Cons c) id) (css_string s))"

lemma escaped_Nil [simp]: "escaped [] = []"
  by (simp add: escaped_def)

lemma escaped_Cons [simp]:
  "escaped (c # v) = (if c = backslash \<or> c = quote_mark then [backslash, c] else [c]) @ escaped v"
  by (auto simp: escaped_def quote_mark_def backslash_def)

lemma marks_apart [simp]: "quote_mark \<noteq> backslash" "backslash \<noteq> quote_mark" "\<not> css_newline quote_mark" "\<not> css_newline backslash"
  by (simp_all add: quote_mark_def backslash_def css_newline_def)

lemma css_string_escaped:
  "css_string (escaped v @ quote_mark # rest) = (if list_ex css_newline v then None else Some (v, rest))"
proof (induction v)
  case (Cons c v)
  consider "c = backslash" | "c = quote_mark" | "c \<noteq> backslash" "c \<noteq> quote_mark" by blast
  then show ?case by cases (simp_all add: Cons.IH)
qed simp

section \<open>Snapshots\<close>

lemma length_agentSnapshot: "length (agentSnapshot doc limit) = min limit (length (select snapshot_candidate doc))"
  by (simp add: agentSnapshot_def Let_def)

lemma nth_agentSnapshot:
  "i < length (agentSnapshot doc limit) \<Longrightarrow>
   agentSnapshot doc limit ! i = snapshot_of i (select snapshot_candidate doc ! i)"
  by (simp add: agentSnapshot_def Let_def)

lemma show_nat_inject [simp]: "show_nat m = show_nat n \<longleftrightarrow> m = n"
  by (metis digits_val_show_nat)

lemma snapshot_refs: "map sn_ref (agentSnapshot doc limit) = map (\<lambda>i. ''@e'' @ show_nat (i + 1)) [0..<length (agentSnapshot doc limit)]"
  by (rule nth_equalityI) (simp_all add: nth_agentSnapshot snapshot_of_def)

lemma distinct_snapshot_refs: "distinct (map sn_ref (agentSnapshot doc limit))"
  unfolding snapshot_refs by (simp add: distinct_map inj_on_def)

text \<open>What the selector of an element says, by the attribute it is made of.\<close>

definition selects_by :: "dom \<Rightarrow> (string \<times> string) option" where
  "selects_by d =
     (case filter (\<lambda>k. present (dom_attr k d)) [''data-testid'', ''id'', ''name''] of
        [] \<Rightarrow> None
      | k # _ \<Rightarrow> Some (k, the (dom_attr k d)))"

lemma snapshot_selector_cases:
  "snapshot_selector d =
     (case selects_by d of
        None \<Rightarrow> dom_name d
      | Some (k, v) \<Rightarrow> (if k = ''name'' then dom_name d else []) @ attribute_selector k v)"
  by (simp add: snapshot_selector_def selects_by_def Let_def)


text \<open>The value in a snapshot selector reads back: the CSS string token of \<open>[k="..."]\<close> is exactly the
  attribute's value, quotes and backslashes included, and what is left is the closing bracket. A value with a line
  break is the exception: its selector holds a bad string, which no engine accepts.\<close>

theorem selector_reads_back:
  "css_string (drop (length k + 3) (attribute_selector k v)) = (if list_ex css_newline v then None else Some (v, '']''))"
proof -
  have "drop (length k + 3) (attribute_selector k v) = escaped v @ quote_mark # '']''"
    by (simp add: attribute_selector_def eval_nat_numeral)
  then show ?thesis by (simp only: css_string_escaped)
qed

text \<open>A snapshot lists the first candidates of the page in document order, at most as many as were asked for, under
  pairwise distinct references; every text is at most 300 characters long, and every selector is the tag alone or
  is made of the first of test id, id and name that is not empty.\<close>

theorem agent_snapshot_describes:
  "map sn_tag (agentSnapshot doc limit) = map dom_name (take limit (select snapshot_candidate doc)) \<and>
   distinct (map sn_ref (agentSnapshot doc limit)) \<and>
   list_all (\<lambda>e. length (sn_text e) \<le> 300) (agentSnapshot doc limit) \<and>
   list_all2 (\<lambda>e d. sn_selector e =
       (case selects_by d of None \<Rightarrow> dom_name d
        | Some (k, v) \<Rightarrow> (if k = ''name'' then dom_name d else []) @ attribute_selector k v))
     (agentSnapshot doc limit) (take limit (select snapshot_candidate doc))"
proof (intro conjI)
  show "map sn_tag (agentSnapshot doc limit) = map dom_name (take limit (select snapshot_candidate doc))"
    by (rule nth_equalityI) (simp_all add: length_agentSnapshot nth_agentSnapshot snapshot_of_def)
  show "list_all (\<lambda>e. length (sn_text e) \<le> 300) (agentSnapshot doc limit)"
    by (simp add: list_all_length nth_agentSnapshot snapshot_of_def snapshot_text_def Let_def)
qed (simp_all add: distinct_snapshot_refs list_all2_conv_all_nth length_agentSnapshot nth_agentSnapshot snapshot_of_def
       snapshot_selector_cases min.commute split: option.split)

text \<open>An image with an alternative text is a candidate of the snapshot, but its text is empty: the fallbacks to
  \<open>aria-label\<close> and \<open>alt\<close> are dead, since the text content of an element is never null.\<close>

theorem snapshot_drops_labels:
  "snapshot_candidate (Elem ''img'' ((''alt'', label) # attrs) []) \<and>
   snapshot_text (Elem ''img'' ((''alt'', label) # attrs) []) = [] \<and>
   snapshot_text (Elem ''button'' ((''aria-label'', label) # attrs) []) = []"
proof -
  have "rx_replace_all (plus space) (\<lambda>_. '' '') [] = []" "to_lower ''img'' = ''img''" by code_simp+
  then show ?thesis
    by (simp add: snapshot_candidate_def snapshot_text_def trim_def)
qed

section \<open>Commands\<close>

text \<open>The page with another behaviour of \<open>goto\<close> on the addresses the guard refuses.\<close>

definition behind_guard ::
  "'s agent_env \<Rightarrow> (string \<Rightarrow> ('s, int option) live_op) \<Rightarrow> 's agent_env" where
  "behind_guard A f =
     A\<lparr>ae_page := (ae_page A)\<lparr>lp_goto := (\<lambda>u w t s.
         case assertSafeUrl (ae_parse A) (ae_guard A s) u None of
           Inl e \<Rightarrow> f u s
         | Inr _ \<Rightarrow> lp_goto (ae_page A) u w t s)\<rparr>\<rparr>"

lemma bounded_page: "bounded (A\<lparr>ae_page := p\<rparr>) = bounded A"
  by (rule ext) (simp add: bounded_def)

text \<open>C24. The agent never navigates past the URL guard: whatever \<open>goto\<close> would do on a refused address, no command
  of any session ever shows it.\<close>

theorem agent_goto_guarded: "executeAgentCommand (behind_guard A f) session c w = executeAgentCommand A session c w"
proof -
  have page: "page_command (behind_guard A f) session c s = page_command A session c s" for s
    by (cases c) (simp_all add: page_command_def behind_guard_def navigated_def bounded_page Let_def cong: option.case_cong split: sum.split)
  have same: "lp_get (ae_page (behind_guard A f)) = lp_get (ae_page A)" "ae_storage (behind_guard A f) = ae_storage A"
    "ae_now (behind_guard A f) = ae_now A"
    by (simp_all add: behind_guard_def)
  show ?thesis unfolding executeAgentCommand_def same page by (rule refl)
qed

text \<open>The commands whose reply is content of the page.\<close>

fun reads_content :: "agent_command \<Rightarrow> bool" where
  "reads_content (CmdText _) = True"
| "reads_content (CmdHtml _) = True"
| "reads_content (CmdEvaluate _) = True"
| "reads_content _ = False"

lemma then_do_Inr: "then_do r f = (Inr y, w) \<longleftrightarrow> (\<exists>x w1. r = (Inr x, w1) \<and> f x w1 = (Inr y, w))"
  by (auto simp: then_do_def split: prod.splits sum.splits)

lemma page_command_bounded:
  assumes "reads_content c" "page_command A session c s = (Inr v, s')"
  shows "int (jsonBytes (ae_stringify A) v) \<le> maxResponseBytes (se_config (ae_storage A))"
  using assms by (cases c) (auto simp: page_command_def Let_def then_do_Inr bounded_def split: option.splits)

text \<open>The content a command reads from the page, by text, markup or script, is answered only within the
  configured size of a response.\<close>

theorem agent_output_bounded:
  assumes "reads_content c" "executeAgentCommand A session c w = (Inr v, w')"
  shows "int (jsonBytes (ae_stringify A) v) \<le> maxResponseBytes (se_config (ae_storage A))"
  using assms page_command_bounded [OF assms(1)]
  by (auto simp: executeAgentCommand_def split: sum.splits prod.splits if_splits)

text \<open>Only \<open>close\<close> touches the stores: it removes the session with its handoffs, after the live session was
  closed; when it fails the row stays, and at most the handoffs are revoked.\<close>

theorem agent_close_deletes:
  "case executeAgentCommand A session c (S, s) of
     (Inr v, S', s') \<Rightarrow>
       S' = (if c = CmdClose
             then S\<lparr>sg_handoffs := handoff_revokeForSession (ses_id session) (sg_handoffs S),
                    sg_sessions := filter (\<lambda>r. ses_id r \<noteq> ses_id session) (sg_sessions S)\<rparr>
             else S)
   | (Inl e, S', s') \<Rightarrow>
       S' = S \<or> c = CmdClose \<and> S' = S\<lparr>sg_handoffs := handoff_revokeForSession (ses_id session) (sg_handoffs S)\<rparr>"
  by (auto simp: executeAgentCommand_def deleteSession_def session_delete_def Let_def split: sum.splits prod.splits)

section \<open>A page with some text\<close>

definition text_page :: "string \<Rightarrow> 's live_page" where
  "text_page content =
     \<lparr>lp_get = (\<lambda>_ _ s. (Inr (), s)), lp_goto = (\<lambda>_ _ _ s. (Inr None, s)), lp_move = (\<lambda>_ _ _ s. (Inr None, s)),
      lp_url = (\<lambda>_. ''about:blank''), lp_title = (\<lambda>s. (Inr [], s)), lp_document = (\<lambda>s. (Inr [], s)),
      lp_textContent = (\<lambda>_ _ s. (Inr (Some content), s)), lp_innerHTML = (\<lambda>_ _ s. (Inr [], s)),
      lp_content = (\<lambda>s. (Inr [], s)), lp_evaluate = (\<lambda>_ s. (Inr JUndefined, s)), lp_click = (\<lambda>_ _ s. (Inr (), s)),
      lp_fill = (\<lambda>_ _ _ s. (Inr (), s)), lp_selectOption = (\<lambda>_ _ _ s. (Inr [], s)), lp_setChecked = (\<lambda>_ _ _ s. (Inr (), s)),
      lp_hover = (\<lambda>_ _ s. (Inr (), s)), lp_scrollBy = (\<lambda>_ _ _ s. (Inr (), s)), lp_waitVisible = (\<lambda>_ _ s. (Inr (), s)),
      lp_waitForNavigation = (\<lambda>_ _ s. (Inr (), s)), lp_waitForTimeout = (\<lambda>_ s. (Inr (), s)),
      lp_waitForRequest = (\<lambda>_ _ s. (Inl selector_not_found, s)), lp_waitForResponse = (\<lambda>_ _ s. (Inl selector_not_found, s)),
      lp_close = (\<lambda>_ s. (Inr (), s))\<rparr>"

definition text_env :: "string \<Rightarrow> unit agent_env" where
  "text_env content =
     \<lparr>ae_page = text_page content, ae_storage = sample_env, ae_parse = (\<lambda>_. None), ae_guard = (\<lambda>_ _. None),
      ae_now = (\<lambda>_. 0), ae_stringify = (\<lambda>_. Some ''{}'')\<rparr>"

theorem agent_output_bounded_witness:
  "executeAgentCommand (text_env ''ok'') sample_session (CmdText ''p'') (sample_storage, ()) =
     (Inr (JObj [(''text'', JStr (trim ''ok''))]), sample_storage, ()) \<and>
   int (jsonBytes (\<lambda>_. Some ''{}'') (JObj [(''text'', JStr (trim ''ok''))])) \<le> maxResponseBytes sample_config"
proof -
  have "jsonBytes (\<lambda>_. Some ''{}'') v = 2" for v :: jsval
    by (simp add: jsonBytes_def json_text_def utf8_length_def)
  moreover have "1024 \<le> maxResponseBytes sample_config" using sample_config_ok by (simp add: config_ok_def)
  ultimately have small: "int (jsonBytes (\<lambda>_. Some ''{}'') v) \<le> maxResponseBytes sample_config" for v :: jsval by simp
  have run: "executeAgentCommand (text_env ''ok'') sample_session (CmdText ''p'') (sample_storage, ()) =
     (Inr (JObj [(''text'', JStr (trim ''ok''))]), sample_storage, ())"
    by (simp add: not_less small executeAgentCommand_def resolveProxy_def sample_session_def or_default_def text_env_def text_page_def
      page_command_def Let_def bounded_def assertBoundedJson_def sample_env_def)
  from agent_output_bounded [OF _ run] run show ?thesis by (simp add: text_env_def sample_env_def)
qed

end
