(* ===== verification/OB_BqlExec_Props.thy ===== *)
theory OB_BqlExec_Props
  imports OB_BqlCommands OB_Agent_Props
begin

text \<open>
  What the executor of BrowserQL actions promises: which agent commands it can ask for, what it leaves alone, the bounds of
  what it returns, and the bounds of the traffic it remembers.
\<close>

section \<open>The agent behind the actions\<close>

lemma with_args_same:
  assumes "\<And>fs w. k fs w = k' fs w"
  shows "with_args E sch f k w = with_args E sch f k' w"
proof -
  have "k = k'" using assms by (intro ext)
  then show ?thesis by simp
qed

lemma passed_on_plain: "name \<in> fst ` set (bql_plain_schemas cfg) \<Longrightarrow> name \<in> passed_on"
  by (auto simp: bql_plain_schemas_def passed_on_def)

text \<open>The entries of the table under the name of the action.\<close>

lemma action_entries:
  assumes "zod_ok U (be_zod E)" "\<And>c w. allowed_command (be_cfg E) c \<Longrightarrow> exec session c w = exec' session c w"
  shows "bql_goto E exec session f w = bql_goto E exec' session f w"
    "bf_name f \<in> passed_on \<Longrightarrow> bql_history E exec session f w = bql_history E exec' session f w"
    "bf_name f \<in> passed_on \<Longrightarrow> bql_plain E exec session sch f w = bql_plain E exec' session sch f w"
    "bql_text E exec session f w = bql_text E exec' session f w" "bql_html E exec session f w = bql_html E exec' session f w"
    "bql_waitForRequest E exec session f w = bql_waitForRequest E exec' session f w"
    "bql_waitForResponse E exec session f w = bql_waitForResponse E exec' session f w"
  unfolding bql_goto_def bql_history_def bql_plain_def bql_text_def bql_html_def bql_waitForRequest_def bql_waitForResponse_def
  by (rule with_args_same; auto split: option.split simp: passed_on_def intro!: bql_command_same [where exec = exec and exec' = exec' and session = session, OF assms(1) _ assms(2)])+

lemma map_of_same:
  assumes "list_all2 (\<lambda>x y. fst x = fst y \<and> (fst x = k \<longrightarrow> snd x w = snd y w)) xs ys"
  shows "(case map_of xs k of None \<Rightarrow> d | Some act \<Rightarrow> act w) = (case map_of ys k of None \<Rightarrow> d | Some act \<Rightarrow> act w)"
  using assms by (induction rule: list_all2_induct) (auto simp: prod_eq_iff)

lemma executeBqlField_same:
  assumes "zod_ok U (be_zod E)" "\<And>c w. allowed_command (be_cfg E) c \<Longrightarrow> exec session c w = exec' session c w"
  shows "executeBqlField E exec session f w = executeBqlField E exec' session f w"
proof -
  note same = action_entries [where exec = exec and exec' = exec' and session = session, OF assms]
  show ?thesis
    unfolding executeBqlField_def
    by (rule map_of_same) (auto simp: bql_action_table_def bql_plain_schemas_def passed_on_def intro!: same(1,4-7) same(2,3))
qed


section \<open>The executor and the stores\<close>

lemma executed_store: "c \<noteq> CmdClose \<Longrightarrow> fst (snd (executeAgentCommand A session c w)) = fst w"
  by (auto simp: executeAgentCommand_def split: sum.splits prod.splits)

text \<open>The same executor with the stores put back.\<close>

definition storeless :: "'s agent_executor \<Rightarrow> 's agent_executor" where
  "storeless exec session c w = (case exec session c w of (r, S, s) \<Rightarrow> (r, fst w, s))"

lemma on_live_store [simp]: "fst (snd (on_live f w)) = fst w"
  by (simp add: on_live_def split: prod.split)

lemma then_do_store:
  "fst (snd r) = S \<Longrightarrow> (\<And>x w. fst w = S \<Longrightarrow> fst (snd (f x w)) = S) \<Longrightarrow> fst (snd (then_do r f)) = S"
  by (cases r; cases "fst r") auto

lemma bql_live_store: "fst (snd (bql_live E session w)) = fst w"
  by (auto simp: bql_live_def settled_def intro!: then_do_store)

lemma with_args_store: "(\<And>fs w. fst (snd (k fs w)) = fst w) \<Longrightarrow> fst (snd (with_args E sch f k w)) = fst w"
  by (auto simp: with_args_def settled_def intro!: then_do_store)

lemma bql_command_store: "(\<And>c w. fst (snd (exec session c w)) = fst w) \<Longrightarrow> fst (snd (bql_command E exec session m params w)) = fst w"
  by (simp add: bql_command_def split: sum.split option.split)

lemma settled_store [simp]: "snd (settled r w) = w"
  by (simp add: settled_def)

lemma page_actions_store:
  "fst (snd (bql_type E session f w)) = fst w" "fst (snd (bql_waitForSelector E session f w)) = fst w"
  "fst (snd (bql_network_action E session w)) = fst w" "fst (snd (bql_content E session f w)) = fst w"
  "fst (snd (bql_title E session w)) = fst w" "fst (snd (bql_url E session w)) = fst w"
  "fst (snd (bql_cookies E session f w)) = fst w" "fst (snd (bql_screenshot E session f w)) = fst w"
  "fst (snd (bql_pdf E session f w)) = fst w" "fst (snd (bql_querySelector E session f w)) = fst w"
  "fst (snd (bql_querySelectorAll E session f w)) = fst w" "fst (snd (bql_solve E session w)) = fst w"
  unfolding bql_type_def bql_waitForSelector_def bql_network_action_def bql_content_def bql_title_def bql_url_def bql_cookies_def
    bql_screenshot_def bql_pdf_def bql_querySelector_def bql_querySelectorAll_def bql_solve_def when_visible_def Let_def
  by (auto intro!: with_args_store with_args_store [THEN trans] then_do_store simp: bql_live_store split: option.split prod.split)+

lemma command_actions_store:
  assumes "\<And>c w. fst (snd (exec session c w)) = fst w"
  shows "fst (snd (bql_goto E exec session f w)) = fst w" "fst (snd (bql_history E exec session f w)) = fst w"
    "fst (snd (bql_plain E exec session sch f w)) = fst w" "fst (snd (bql_text E exec session f w)) = fst w"
    "fst (snd (bql_html E exec session f w)) = fst w" "fst (snd (bql_waitForRequest E exec session f w)) = fst w"
    "fst (snd (bql_waitForResponse E exec session f w)) = fst w"
  unfolding bql_goto_def bql_history_def bql_plain_def bql_text_def bql_html_def bql_waitForRequest_def bql_waitForResponse_def
  by (rule with_args_store; auto split: option.split intro!: bql_command_store assms)+

lemma executeBqlField_store:
  assumes "\<And>c w. fst (snd (exec session c w)) = fst w"
  shows "fst (snd (executeBqlField E exec session f w)) = fst w"
proof (cases "map_of (bql_action_table E exec session f) (bf_name f)")
  case (Some act)
  have "list_all (\<lambda>(_, act). fst (snd (act w)) = fst w) (bql_action_table E exec session f)"
    by (auto simp: bql_action_table_def list_all_iff page_actions_store
        command_actions_store [where exec = exec and session = session, OF assms])
  with map_of_SomeD [OF Some] Some show ?thesis by (auto simp: executeBqlField_def list_all_iff)
qed (simp add: executeBqlField_def)

text \<open>A BrowserQL action leaves the stores alone, whatever it does on the page and however it fails: only the handler around
  it creates and deletes the session.\<close>

theorem bql_actions_store_nothing:
  assumes "zod_ok U (be_zod E)"
  shows "fst (snd (executeBqlField E (executeAgentCommand A) session f w)) = fst w"
proof -
  have "executeBqlField E (executeAgentCommand A) session f w = executeBqlField E (storeless (executeAgentCommand A)) session f w"
  proof (rule executeBqlField_same [OF assms])
    fix c and w :: "storage \<times> 'a"
    assume "allowed_command (be_cfg E) c"
    then have "c \<noteq> CmdClose" by auto
    from executed_store [OF this, of A session w] show "executeAgentCommand A session c w = storeless (executeAgentCommand A) session c w"
      by (simp add: storeless_def prod_eq_iff split: prod.split)
  qed
  then show ?thesis using executeBqlField_store [of "storeless (executeAgentCommand A)" session E f w]
    by (simp add: storeless_def split: prod.splits)
qed

section \<open>The recorded traffic is bounded\<close>

datatype traffic =
    PageRequest string string
  | PageResponse string int "string option"
  | BodyArrived nat "string outcome"

fun on_traffic :: "config \<Rightarrow> (string \<Rightarrow> string) \<Rightarrow> traffic \<Rightarrow> bql_network \<Rightarrow> bql_network" where
  "on_traffic cfg utf8 (PageRequest u m) n = on_page_request u m n"
| "on_traffic cfg utf8 (PageResponse u st ct) n = on_page_response u st ct n"
| "on_traffic cfg utf8 (BodyArrived i b) n = on_body cfg utf8 i b n"

definition captured :: "config \<Rightarrow> (string \<Rightarrow> string) \<Rightarrow> net_response \<Rightarrow> bool" where
  "captured cfg utf8 r \<longleftrightarrow>
     textual_content (nr_contentType r) \<and> (\<exists>b. nr_body r = Some (utf8 b) \<and> length b \<le> body_limit cfg)"

definition network_ok :: "config \<Rightarrow> (string \<Rightarrow> string) \<Rightarrow> bool \<Rightarrow> bql_network \<Rightarrow> bool" where
  "network_ok cfg utf8 capture n \<longleftrightarrow>
     length (bn_requests n) \<le> 200 \<and> length (bn_responses n) \<le> 200 \<and> length (bn_pending n) \<le> 50 \<and> bn_captureBodies n = capture \<and>
     (bn_pending n \<noteq> [] \<longrightarrow> capture) \<and>
     (\<forall>i \<in> set (bn_pending n). i < length (bn_responses n) \<and> textual_content (nr_contentType (bn_responses n ! i))) \<and>
     (\<forall>i < length (bn_responses n). nr_body (bn_responses n ! i) \<noteq> None \<longrightarrow>
        i \<in> set (bn_pending n) \<and> captured cfg utf8 (bn_responses n ! i))"

lemma on_page_request_ok: "network_ok cfg utf8 capture n \<Longrightarrow> network_ok cfg utf8 capture (on_page_request u m n)"
  by (simp add: network_ok_def on_page_request_def)

lemma on_page_response_ok: "network_ok cfg utf8 capture n \<Longrightarrow> network_ok cfg utf8 capture (on_page_response u st ct n)"
  by (auto simp: network_ok_def on_page_response_def nth_append less_Suc_eq)

lemma on_body_ok: "network_ok cfg utf8 capture n \<Longrightarrow> network_ok cfg utf8 capture (on_body cfg utf8 i b n)"
  by (auto simp: network_ok_def on_body_def nth_list_update captured_def split: sum.split)

lemma on_traffic_ok: "network_ok cfg utf8 capture n \<Longrightarrow> network_ok cfg utf8 capture (on_traffic cfg utf8 t n)"
  by (cases t) (simp_all add: on_page_request_ok on_page_response_ok on_body_ok)

lemma traffic_ok: "network_ok cfg utf8 capture n \<Longrightarrow> network_ok cfg utf8 capture (fold (on_traffic cfg utf8) ts n)"
  by (induction ts arbitrary: n) (simp_all add: on_traffic_ok)

text \<open>Whatever a page loads, the record of its traffic stays small: at most 200 requests and 200 responses, at most 50 bodies,
  of textual responses only and only when the request asked for bodies, and each of them cut at the byte limit.\<close>

theorem bql_network_bounded:
  "let n = fold (on_traffic cfg utf8) ts (network_start acts) in
    length (bn_requests n) \<le> 200 \<and> length (bn_responses n) \<le> 200 \<and>
    card {i. i < length (bn_responses n) \<and> nr_body (bn_responses n ! i) \<noteq> None} \<le> 50 \<and>
    (\<forall>r \<in> set (bn_responses n). nr_body r \<noteq> None \<longrightarrow> captured cfg utf8 r \<and>
       (\<exists>f \<in> set acts. bf_name f = ''network'' \<and> object_value (bf_args f) ''captureBodies'' = JBool True))"
proof -
  let ?c = "bn_captureBodies (network_start acts)"
  define n where "n = fold (on_traffic cfg utf8) ts (network_start acts)"
  have ok: "network_ok cfg utf8 ?c n"
    unfolding n_def by (rule traffic_ok) (simp add: network_ok_def network_start_def)
  have "{i. i < length (bn_responses n) \<and> nr_body (bn_responses n ! i) \<noteq> None} \<subseteq> set (bn_pending n)"
    using ok by (auto simp: network_ok_def)
  then have "card {i. i < length (bn_responses n) \<and> nr_body (bn_responses n ! i) \<noteq> None} \<le> card (set (bn_pending n))"
    by (rule card_mono [OF finite_set])
  also have "\<dots> \<le> 50" using card_length [of "bn_pending n"] ok by (simp add: network_ok_def)
  finally have bodies: "card {i. i < length (bn_responses n) \<and> nr_body (bn_responses n ! i) \<noteq> None} \<le> 50" .
  have "captured cfg utf8 r \<and> ?c" if "r \<in> set (bn_responses n)" "nr_body r \<noteq> None" for r
  proof -
    from that(1) obtain i where "i < length (bn_responses n)" "r = bn_responses n ! i" by (auto simp: in_set_conv_nth)
    with ok that(2) show ?thesis by (auto simp: network_ok_def)
  qed
  moreover have "?c \<longleftrightarrow> (\<exists>f \<in> set acts. bf_name f = ''network'' \<and> object_value (bf_args f) ''captureBodies'' = JBool True)"
    by (simp add: network_start_def list_ex_iff)
  ultimately show ?thesis using ok bodies unfolding Let_def n_def [symmetric] by (simp add: network_ok_def)
qed

section \<open>What the actions return\<close>

lemma with_args_Inr: "with_args E sch f k w = (Inr v, w') \<longleftrightarrow>
    (\<exists>r. parse_request (be_zod E) sch (JObj (bf_args f)) = Inr r \<and> k (entries r) w = (Inr v, w'))"
  by (auto simp: with_args_def settled_def then_do_Inr)

lemma on_live_Inr: "on_live f w = (Inr x, w') \<longleftrightarrow> (\<exists>s. f (snd w) = (Inr x, s) \<and> w' = (fst w, s))"
  by (auto simp: on_live_def split: prod.split)

text \<open>A screenshot or a document that is returned is within the byte limit and its reported size is the size of what the page
  delivered; the answer to solve says that the challenge is solved exactly when the page shows none.\<close>

theorem bql_answers:
  assumes "executeBqlField E exec session f w = (Inr v, w')"
  shows "(bf_name f \<in> {''screenshot'', ''pdf''} \<longrightarrow>
     (\<exists>body fs. v = JObj fs \<and> object_value fs ''base64'' = JStr (be_base64 E body) \<and>
        object_value fs ''bytes'' = JNum (of_nat (length body)) \<and> int (length body) \<le> maxResponseBytes (be_cfg E))) \<and>
   (bf_name f = ''solve'' \<longrightarrow>
     (\<exists>html fs s1 s2. lp_content (ae_page (be_agent E)) s1 = (Inr html, s2) \<and> v = JObj fs \<and>
        object_value fs ''solved'' = JBool (\<not> hasAccessChallenge html) \<and>
        object_value fs ''retryRecommended'' = JBool (hasAccessChallenge html)))"
proof (intro conjI impI)
  have run: "case map_of (bql_action_table E exec session f) (bf_name f) of None \<Rightarrow> False | Some act \<Rightarrow> act w = (Inr v, w')"
    using assms by (auto simp: executeBqlField_def split: option.splits)
  {
    assume "bf_name f \<in> {''screenshot'', ''pdf''}"
    with run consider "bql_screenshot E session f w = (Inr v, w')" | "bql_pdf E session f w = (Inr v, w')"
      by (auto simp: bql_action_table_def bql_plain_schemas_def)
    then show "\<exists>body fs. v = JObj fs \<and> object_value fs ''base64'' = JStr (be_base64 E body) \<and>
        object_value fs ''bytes'' = JNum (of_nat (length body)) \<and> int (length body) \<le> maxResponseBytes (be_cfg E)"
      by cases (auto simp: bql_screenshot_def bql_pdf_def with_args_Inr then_do_Inr settled_def object_value_def not_less
          split: if_splits intro: exI [of _ "_ :: string"])
  }
  assume "bf_name f = ''solve''"
  with run have "bql_solve E session w = (Inr v, w')" by (simp add: bql_action_table_def bql_plain_schemas_def)
  then obtain html s1 s2 b where "lp_content (ae_page (be_agent E)) s1 = (Inr html, s2)"
    "v = JObj [(''found'', JBool (hasAccessChallenge html)), (''solved'', JBool (\<not> hasAccessChallenge html)), (''backend'', JStr b),
       (''retryRecommended'', JBool (hasAccessChallenge html))]"
    by (auto simp: bql_solve_def then_do_Inr on_live_Inr Let_def)
  then show "\<exists>html fs s1 s2. lp_content (ae_page (be_agent E)) s1 = (Inr html, s2) \<and> v = JObj fs \<and>
        object_value fs ''solved'' = JBool (\<not> hasAccessChallenge html) \<and>
        object_value fs ''retryRecommended'' = JBool (hasAccessChallenge html)"
    by (intro exI [of _ html]) (auto simp: object_value_def)
qed

section \<open>A page to run actions on\<close>

definition strict_zod :: zod where
  "strict_zod sch v = (if accepts (\<lambda>_. True) sch v \<and> yields sch v v then Inr v else Inl [([], ''Invalid input'')])"

lemma strict_zod_ok: "zod_ok (\<lambda>_. True) strict_zod"
  by (simp add: zod_ok_def strict_zod_def)

definition still_page :: "unit bql_page" where
  "still_page =
     \<lparr>bp_press = (\<lambda>_ _ _ s. (Inr (), s)), bp_waitFor = (\<lambda>_ _ _ s. (Inr (), s)), bp_box = (\<lambda>_ s. (Inr None, s)),
      bp_setContent = (\<lambda>_ _ _ s. (Inr (), s)), bp_addCookies = (\<lambda>_ s. (Inr (), s)), bp_cookies = (\<lambda>s. (Inr [], s)),
      bp_screenshot = (\<lambda>_ s. (Inr ''png'', s)), bp_pdf = (\<lambda>_ s. (Inr ''pdf'', s)), bp_element = (\<lambda>_ s. (Inr Comment, s)),
      bp_elements = (\<lambda>_ s. (Inr [], s)), bp_innerHTML = (\<lambda>_. []), bp_outerHTML = (\<lambda>_. []), bp_backend = (\<lambda>_. ''playwright-chromium''),
      bp_network = (\<lambda>_ _. None), bp_settle = (\<lambda>_ s. (network_start [], s))\<rparr>"

definition still_env :: "unit bql_env" where
  "still_env = \<lparr>be_agent = text_env ''ok'', be_page = still_page, be_zod = strict_zod, be_base64 = id\<rparr>"

definition click_field :: bql_field where
  "click_field = \<lparr>bf_name = ''click'', bf_key = ''c'', bf_args = [(''selector'', JStr ''a'')], bf_selection = []\<rparr>"

definition shot_field :: bql_field where
  "shot_field = \<lparr>bf_name = ''screenshot'', bf_key = ''s'', bf_args = [(''fullPage'', JBool True), (''type'', JStr ''png''), (''omitBackground'', JBool False)],
     bf_selection = []\<rparr>"


theorem bql_actions_store_nothing_witness:
  "fst (snd (executeBqlField still_env (executeAgentCommand (text_env ''ok'')) sample_session click_field (sample_storage, ()))) = sample_storage"
proof -
  have "zod_ok (\<lambda>_. True) (be_zod still_env)" by (simp add: still_env_def strict_zod_ok)
  from bql_actions_store_nothing [OF this, of "text_env ''ok''" sample_session click_field "(sample_storage, ())"] show ?thesis by simp
qed

theorem bql_answers_witness:
  "\<exists>v w'. executeBqlField still_env (executeAgentCommand (text_env ''ok'')) sample_session shot_field (sample_storage, ()) = (Inr v, w') \<and>
     object_value (entries v) ''bytes'' = JNum 3"
proof -
  have small: "\<not> maxResponseBytes sample_config < 3" using sample_config_ok by (simp add: config_ok_def)
  obtain v w' where run: "executeBqlField still_env (executeAgentCommand (text_env ''ok'')) sample_session shot_field (sample_storage, ()) = (Inr v, w')"
    and v: "object_value (entries v) ''bytes'' = JNum 3" "object_value (entries v) ''base64'' = JStr ''png''"
    using small
    by (simp add: executeBqlField_def bql_action_table_def bql_plain_schemas_def shot_field_def bql_screenshot_def with_args_def parse_request_def
        still_env_def strict_zod_def object_value_def within_size_def settled_def bql_live_def resolveProxy_def sample_session_def or_default_def
        on_live_def text_env_def text_page_def still_page_def sample_env_def entries_def)
  from bql_answers [OF run] run v show ?thesis by blast
qed

definition capture_field :: bql_field where
  "capture_field = \<lparr>bf_name = ''network'', bf_key = ''n'', bf_args = [(''captureBodies'', JBool True)], bf_selection = []\<rparr>"

definition small_traffic :: bql_network where
  "small_traffic = fold (on_traffic sample_config id) [PageRequest ''u'' ''GET'', PageResponse ''u'' 200 (Some ''text/html''), BodyArrived 0 (Inr ''b'')]
     (network_start [capture_field])"

theorem bql_network_bounded_witness:
  "map nr_body (bn_responses small_traffic) = [Some ''b''] \<and> list_all (captured sample_config id) (bn_responses small_traffic)"
proof -
  have "1024 \<le> maxResponseBytes sample_config" using sample_config_ok by (simp add: config_ok_def)
  then have "1 \<le> body_limit sample_config" by (simp add: body_limit_def)
  moreover have "textual_content (Some ''text/html'')" by code_simp
  ultimately have b: "map nr_body (bn_responses small_traffic) = [Some ''b'']"
    by (simp add: small_traffic_def network_start_def capture_field_def object_value_def on_page_request_def on_page_response_def on_body_def)
  with bql_network_bounded [of sample_config id "[PageRequest ''u'' ''GET'', PageResponse ''u'' 200 (Some ''text/html''), BodyArrived 0 (Inr ''b'')]"
      "[capture_field]", folded small_traffic_def] show ?thesis
    by (auto simp: Let_def list_all_iff)
qed

end
