(* ===== verification/OB_Map.thy ===== *)
theory OB_Map
  imports OB_Extract
begin

text \<open>
  The site map, \<open>src/src/automation/map.ts\<close>: a breadth-first crawl from a seed over the links and the safe controls
  of the pages, within one origin, a number of results and a depth. The fetch pipeline is a driver with a state.
\<close>

section \<open>Options and results\<close>

record map_options =
  mo_maxUrls :: "nat option"
  mo_maxDepth :: "nat option"
  mo_include :: "string list option"
  mo_exclude :: "string list option"
  mo_search :: "string option"
  mo_render :: "strategy option"

datatype map_source = Seed | Link | RenderedLink | InteractiveView

datatype control_role = RoleTab | RoleLink

record mapped_url =
  mu_url :: string
  mu_depth :: nat
  mu_source :: map_source
  mu_control :: "(control_role \<times> string option) option"

record 's map_env =
  mp_parse :: url_parser
  mp_resolve :: "string \<Rightarrow> string \<Rightarrow> url option"
  mp_guard :: "'s \<Rightarrow> resolver"
  mp_fetch :: "fetch_input \<Rightarrow> 's \<Rightarrow> fetch_result outcome \<times> 's"
  mp_load :: "string \<Rightarrow> dom list"

section \<open>Patterns\<close>

text \<open>
  \<open>/\b(?:...)\b/i\<close>: every alternative begins and ends with a word character, so the first boundary asks that no word
  character comes before and the second that none follows.
\<close>

definition unsafe_words :: rx where
  "unsafe_words = alts
     [lit_i ''buy'', lit_i ''checkout'', lit_i ''delete'', lit_i ''remove'', lit_i ''logout'',
      seqs [lit_i ''log'', RStar space, lit_i ''out''], lit_i ''pay'', lit_i ''purchase'', lit_i ''submit'', lit_i ''confirm'',
      lit_i ''unsubscribe'', seqs [lit_i ''cancel'', plus space, lit_i ''account'']]"

definition word_ahead :: "string \<Rightarrow> bool" where
  "word_ahead s = (case s of [] \<Rightarrow> False | c # _ \<Rightarrow> word_char c)"

fun word_match :: "rx \<Rightarrow> bool \<Rightarrow> string \<Rightarrow> bool" where
  "word_match r behind [] = (\<not> behind \<and> list_ex (\<lambda>t. \<not> word_ahead t) (rx_rest r []))"
| "word_match r behind (c # s) =
     (\<not> behind \<and> list_ex (\<lambda>t. \<not> word_ahead t) (rx_rest r (c # s)) \<or> word_match r (word_char c) s)"

definition unsafeAction :: "string \<Rightarrow> bool" where
  "unsafeAction label = word_match unsafe_words False label"

text \<open>The pattern with its characters quoted and every asterisk for any text within a line.\<close>

definition line_char :: rx where
  "line_char = RSym (\<lambda>c. (of_char c :: nat) \<notin> {10, 13})"

definition glob_rx :: "string \<Rightarrow> rx" where
  "glob_rx pattern = seqs (map (\<lambda>c. if c = CHR ''*'' then RStar line_char else ch c) pattern)"

definition globMatches :: "string \<Rightarrow> string \<Rightarrow> bool" where
  "globMatches url pattern = rx_full (glob_rx pattern) url"

definition pattern_matches :: "string \<Rightarrow> string list option \<Rightarrow> bool" where
  "pattern_matches url patterns = (or_default patterns [] = [] \<or> list_ex (globMatches url) (or_default patterns []))"

definition wanted_url :: "map_options \<Rightarrow> string \<Rightarrow> bool" where
  "wanted_url opts u \<longleftrightarrow> pattern_matches u (mo_include opts) \<and> \<not> list_ex (globMatches u) (or_default (mo_exclude opts) [])"

definition cleanControlLabel :: "string \<Rightarrow> string" where
  "cleanControlLabel v = take 160 (trim (rx_replace_all (plus space) (\<lambda>_. '' '') v))"

section \<open>What a page adds\<close>

text \<open>A link to the origin, without its fragment and in its normal form.\<close>

definition web_protocol :: "string \<Rightarrow> bool" where
  "web_protocol p \<longleftrightarrow> p = ''http:'' \<or> p = ''https:''"

definition entry_for ::
  "'s map_env \<Rightarrow> mapped_url \<Rightarrow> url \<Rightarrow> map_source \<Rightarrow> (control_role \<times> string option) option \<Rightarrow> mapped_url list" where
  "entry_for E current u source control =
     (case normalizeUrl (mp_parse E) (url_href u) of
        Inl _ \<Rightarrow> []
      | Inr n \<Rightarrow> [\<lparr>mu_url = n, mu_depth = mu_depth current + 1, mu_source = source, mu_control = control\<rparr>])"

definition without_fragment :: "url \<Rightarrow> url" where
  "without_fragment u = u\<lparr>u_fragment := None\<rparr>"

definition link_target :: "dom \<Rightarrow> string" where
  "link_target d = (case dom_attr ''href'' d of Some h \<Rightarrow> h | None \<Rightarrow> attr_or_empty ''data-href'' d)"

definition link_entry :: "'s map_env \<Rightarrow> string \<Rightarrow> string list \<Rightarrow> mapped_url \<Rightarrow> stage \<Rightarrow> dom \<Rightarrow> mapped_url list" where
  "link_entry E origin seen current stage d =
     (if link_target d = [] then []
      else case mp_resolve E (link_target d) (mu_url current) of
        None \<Rightarrow> []
      | Some u \<Rightarrow>
          if url_origin (without_fragment u) = origin \<and> web_protocol (u_protocol (without_fragment u)) \<and>
             url_href (without_fragment u) \<notin> set seen
          then entry_for E current (without_fragment u) (if stage = StageBrowser then RenderedLink else Link) None
          else [])"

definition page_entries :: "'s map_env \<Rightarrow> string \<Rightarrow> string list \<Rightarrow> mapped_url \<Rightarrow> stage \<Rightarrow> dom list \<Rightarrow> mapped_url list" where
  "page_entries E origin seen current stage doc =
     concat (map (link_entry E origin seen current stage)
       (select (\<lambda>d. named ''a'' d \<and> dom_attr ''href'' d \<noteq> None \<or> dom_attr ''data-href'' d \<noteq> None) doc))"

definition control_element :: "dom \<Rightarrow> bool" where
  "control_element d \<longleftrightarrow>
     dom_attr ''role'' d = Some ''tab'' \<and> dom_attr ''aria-controls'' d \<noteq> None \<or>
     dom_attr ''role'' d = Some ''link'' \<and> dom_attr ''data-href'' d \<noteq> None \<or>
     named ''button'' d \<and> dom_attr ''data-href'' d \<noteq> None"

definition control_label :: "dom \<Rightarrow> string" where
  "control_label d = cleanControlLabel (case dom_attr ''aria-label'' d of Some l \<Rightarrow> l | None \<Rightarrow> dom_text d)"

definition label_option :: "string \<Rightarrow> string option" where
  "label_option l = (if l = [] then None else Some l)"

definition control_route :: "'s map_env \<Rightarrow> string \<Rightarrow> mapped_url \<Rightarrow> dom \<Rightarrow> mapped_url list" where
  "control_route E origin current d =
     (case mp_resolve E (attr_or_empty ''data-href'' d) (mu_url current) of
        None \<Rightarrow> []
      | Some u \<Rightarrow>
          if url_origin u = origin \<and> web_protocol (u_protocol u)
          then entry_for E current u RenderedLink
                 (Some (if dom_attr ''role'' d = Some ''tab'' then RoleTab else RoleLink, label_option (control_label d)))
          else [])"

definition view_name :: "string \<Rightarrow> bool" where
  "view_name s \<longleftrightarrow> s \<noteq> [] \<and> list_all (\<lambda>c. is_letter c \<or> is_digit c \<or> c \<in> set ''-_:.'') s"

definition view_url :: "string \<Rightarrow> string \<Rightarrow> string" where
  "view_url page name = takeWhile (\<lambda>c. c \<noteq> CHR ''#'') page @ CHR ''#'' # name"

text \<open>The controls in order, with the keys that were seen, the results and the pages that are pending.\<close>

type_synonym crawl = "string list \<times> mapped_url list \<times> mapped_url list"

fun control_step :: "'s map_env \<Rightarrow> string \<Rightarrow> mapped_url \<Rightarrow> dom \<Rightarrow> crawl \<Rightarrow> crawl" where
  "control_step E origin current d (seen, results, pending) =
     (if unsafeAction (control_label d) then (seen, results, pending)
      else if attr_or_empty ''data-href'' d \<noteq> [] then (seen, results, pending @ control_route E origin current d)
      else if \<not> view_name (attr_or_empty ''aria-controls'' d) then (seen, results, pending)
      else let u = view_url (mu_url current) (attr_or_empty ''aria-controls'' d) in
        if ''view:'' @ u \<in> set seen then (seen, results, pending)
        else ((''view:'' @ u) # seen,
              results @ [\<lparr>mu_url = u, mu_depth = mu_depth current, mu_source = InteractiveView,
                          mu_control = Some (RoleTab, label_option (control_label d))\<rparr>],
              pending))"

fun map_controls :: "'s map_env \<Rightarrow> string \<Rightarrow> nat \<Rightarrow> mapped_url \<Rightarrow> dom list \<Rightarrow> crawl \<Rightarrow> crawl" where
  "map_controls E origin maximum current [] c = c"
| "map_controls E origin maximum current (d # ds) c =
     (if maximum \<le> length (fst (snd c)) then c
      else map_controls E origin maximum current ds (control_step E origin current d c))"

definition map_page :: "'s map_env \<Rightarrow> string \<Rightarrow> nat \<Rightarrow> mapped_url \<Rightarrow> stage \<Rightarrow> string \<Rightarrow> crawl \<Rightarrow> crawl" where
  "map_page E origin maximum current stage html c =
     (let doc = mp_load E html; (seen, results, pending) = c in
      map_controls E origin maximum current (select control_element doc)
        (seen, results, pending @ page_entries E origin seen current stage doc))"

section \<open>The crawl\<close>

definition map_input :: "map_options \<Rightarrow> string \<Rightarrow> fetch_input" where
  "map_input opts u =
     \<lparr>in_url = u, in_strategy = Some (or_default (mo_render opts) Auto), in_timeoutMs = Some 10000, in_headers = None,
      in_waitUntil = None, in_wait = None, in_browserBackend = None, in_browserOptions = None, in_viewport = None,
      in_proxy = None\<rparr>"

definition map_maximum :: "map_options \<Rightarrow> nat" where
  "map_maximum opts = min (or_default (mo_maxUrls opts) 100) 1000"

definition map_depth :: "map_options \<Rightarrow> nat" where
  "map_depth opts = min (or_default (mo_maxDepth opts) 2) 10"

lemma control_step_grows: "length (fst (snd c)) \<le> length (fst (snd (control_step E origin current d c)))"
  by (cases c) (simp add: Let_def)

lemma map_controls_grows: "length (fst (snd c)) \<le> length (fst (snd (map_controls E origin maximum current ds c)))"
proof (induction ds arbitrary: c)
  case (Cons d ds)
  then show ?case
    using order_trans [OF control_step_grows Cons.IH, of c E origin current d] by (simp del: control_step.simps)
qed simp

lemma map_page_grows:
  "length results \<le> length (fst (snd (map_page E origin maximum current stage html (seen, results, pending))))"
  using map_controls_grows [of "(seen, results, pending @ page_entries E origin seen current stage (mp_load E html))"]
  by (simp add: map_page_def Let_def)

lemma map_page_progress:
  "length results < maximum \<Longrightarrow>
   maximum - length (fst (snd (map_page E origin m current stage html (seen, results @ [x], pending)))) < maximum - length results"
  using map_page_grows [of "results @ [x]" E origin m current stage html seen pending] by simp

function map_loop ::
  "'s map_env \<Rightarrow> string \<Rightarrow> map_options \<Rightarrow> crawl \<Rightarrow> 's \<Rightarrow> mapped_url list outcome \<times> 's" where
  "map_loop E origin opts (seen, results, []) s = (Inr results, s)"
| "map_loop E origin opts (seen, results, current # rest) s =
     (if map_maximum opts \<le> length results then (Inr results, s)
      else if mu_url current \<in> set seen then map_loop E origin opts (seen, results, rest) s
      else
        let seen1 = mu_url current # seen; results1 = results @ [current] in
        case assertSafeUrl (mp_parse E) (mp_guard E s) (mu_url current) None of
          Inl e \<Rightarrow> (Inl e, s)
        | Inr _ \<Rightarrow>
            if \<not> wanted_url opts (mu_url current) then map_loop E origin opts (seen1, results, rest) s
            else if map_depth opts \<le> mu_depth current then map_loop E origin opts (seen1, results1, rest) s
            else case mp_fetch E (map_input opts (mu_url current)) s of
              (Inl e, s1) \<Rightarrow> (Inl e, s1)
            | (Inr r, s1) \<Rightarrow>
                if or_default (fr_html r) [] = [] then map_loop E origin opts (seen1, results1, rest) s1
                else map_loop E origin opts
                       (map_page E origin (map_maximum opts) current (fr_strategy r) (or_default (fr_html r) [])
                          (seen1, results1, rest)) s1)"
  by pat_completeness auto

termination
  by (relation "measures [\<lambda>(E, origin, opts, c, s). map_maximum opts - length (fst (snd c)), \<lambda>(E, origin, opts, c, s). length (snd (snd c))]")
    (auto simp: not_le map_page_progress)

definition mapSite ::
  "'s map_env \<Rightarrow> string \<Rightarrow> map_options \<Rightarrow> 's \<Rightarrow> mapped_url list outcome \<times> 's" where
  "mapSite E u opts s =
     (case (mp_parse E u, normalizeUrl (mp_parse E) u) of
        (Some parsed, Inr n) \<Rightarrow>
          (case map_loop E (url_origin parsed) opts ([], [], [\<lparr>mu_url = n, mu_depth = 0, mu_source = Seed, mu_control = None\<rparr>]) s of
             (Inl e, s1) \<Rightarrow> (Inl e, s1)
           | (Inr results, s1) \<Rightarrow>
               (Inr (if or_default (mo_search opts) [] = [] then results
                     else filter (\<lambda>m. str_includes (to_lower (mu_url m)) (to_lower (or_default (mo_search opts) []))) results), s1))
      | _ \<Rightarrow> (Inl (JsError ''Invalid URL''), s))"

end
