(* ===== verification/OB_Map_Props.thy ===== *)
theory OB_Map_Props
  imports OB_Map OB_Ssrf
begin

text \<open>
  What a site map promises: its size, its depth, no page twice, every page wanted, guarded and of the seed's origin, every
  view of a listed page, and the number of fetches it takes.
\<close>

section \<open>Origins\<close>

text \<open>What a parser of the URL standard gives: a lower-case host and no default port.\<close>

definition canonical_parts :: "url \<Rightarrow> bool" where
  "canonical_parts u \<longleftrightarrow>
     to_lower (u_hostname u) = u_hostname u \<and>
     \<not> (u_protocol u = ''https:'' \<and> u_port u = ''443'') \<and> \<not> (u_protocol u = ''http:'' \<and> u_port u = ''80'')"

text \<open>Parsing a serialised URL gives the origin it was serialised from.\<close>

definition standard_urls :: "url_parser \<Rightarrow> (string \<Rightarrow> string \<Rightarrow> url option) \<Rightarrow> bool" where
  "standard_urls parse resolve \<longleftrightarrow>
     (\<forall>s u. parse s = Some u \<longrightarrow> canonical_parts u) \<and>
     (\<forall>h b u v. resolve h b = Some u \<longrightarrow> parse (url_href u) = Some v \<longrightarrow> url_origin v = url_origin u) \<and>
     (\<forall>h b u v. resolve h b = Some u \<longrightarrow> parse (url_href (u\<lparr>u_fragment := None\<rparr>)) = Some v \<longrightarrow> url_origin v = url_origin u)"

lemma delete_challenge_fields [simp]:
  "u_port (delete_challenge_params ks u) = u_port u" "u_protocol (delete_challenge_params ks u) = u_protocol u"
  "u_hostname (delete_challenge_params ks u) = u_hostname u"
  by (induction ks arbitrary: u) (simp_all add: params_delete_def set_search_params_def)

lemma origin_normalize: "canonical_parts u \<Longrightarrow> url_origin (normalize_parts u) = url_origin u"
  by (auto simp: canonical_parts_def normalize_parts_def Let_def url_origin_def url_host_def)

definition on_origin :: "string \<Rightarrow> string \<Rightarrow> bool" where
  "on_origin origin s \<longleftrightarrow> (\<exists>u. s = url_href u \<and> url_origin u = origin)"

lemma normal_on_origin:
  "normalizeUrl parse s = Inr n \<Longrightarrow> \<forall>s u. parse s = Some u \<longrightarrow> canonical_parts u \<Longrightarrow>
   \<exists>u. parse s = Some u \<and> on_origin (url_origin u) n"
  by (auto simp: normalizeUrl_def on_origin_def origin_normalize split: option.splits)

section \<open>The contract\<close>

definition is_page :: "mapped_url \<Rightarrow> bool" where
  "is_page m \<longleftrightarrow> mu_source m \<noteq> InteractiveView"

definition view_of :: "mapped_url \<Rightarrow> mapped_url \<Rightarrow> bool" where
  "view_of p m \<longleftrightarrow> (\<exists>name. view_name name \<and> mu_url m = view_url (mu_url p) name \<and> mu_depth m = mu_depth p)"

definition guarded :: "'s map_env \<Rightarrow> string \<Rightarrow> bool" where
  "guarded E u \<longleftrightarrow> (\<exists>s r. assertSafeUrl (mp_parse E) (mp_guard E s) u None = Inr r)"

definition entry_ok :: "'s map_env \<Rightarrow> string \<Rightarrow> map_options \<Rightarrow> mapped_url list \<Rightarrow> mapped_url \<Rightarrow> bool" where
  "entry_ok E origin opts rs m \<longleftrightarrow>
     mu_depth m \<le> map_depth opts \<and>
     (if is_page m then wanted_url opts (mu_url m) \<and> guarded E (mu_url m) \<and> on_origin origin (mu_url m)
      else \<exists>p \<in> set rs. is_page p \<and> view_of p m)"

definition site_map_ok :: "'s map_env \<Rightarrow> string \<Rightarrow> map_options \<Rightarrow> mapped_url list \<Rightarrow> bool" where
  "site_map_ok E origin opts rs \<longleftrightarrow>
     length rs \<le> map_maximum opts \<and>
     distinct (map mu_url (filter is_page rs)) \<and> distinct (map mu_url (filter (\<lambda>m. \<not> is_page m) rs)) \<and>
     (\<forall>m \<in> set rs. entry_ok E origin opts rs m)"

text \<open>The invariant of the crawl: the keys that were seen cover the results, and what is pending is within bounds.\<close>

definition pending_ok :: "string \<Rightarrow> map_options \<Rightarrow> mapped_url \<Rightarrow> bool" where
  "pending_ok origin opts m \<longleftrightarrow> is_page m \<and> mu_depth m \<le> map_depth opts \<and> on_origin origin (mu_url m)"

fun crawl_ok :: "'s map_env \<Rightarrow> string \<Rightarrow> map_options \<Rightarrow> crawl \<Rightarrow> bool" where
  "crawl_ok E origin opts (seen, results, pending) \<longleftrightarrow>
     site_map_ok E origin opts results \<and>
     (\<forall>m \<in> set results. (if is_page m then mu_url m else ''view:'' @ mu_url m) \<in> set seen) \<and>
     (\<forall>m \<in> set pending. pending_ok origin opts m)"

lemma entry_ok_more: "entry_ok E origin opts rs m \<Longrightarrow> set rs \<subseteq> set rs' \<Longrightarrow> entry_ok E origin opts rs' m"
  by (auto simp: entry_ok_def split: if_splits)

lemma site_map_snoc:
  assumes "site_map_ok E origin opts rs" "length rs < map_maximum opts" "entry_ok E origin opts (rs @ [m]) m"
    and "\<forall>x \<in> set rs. is_page x = is_page m \<longrightarrow> mu_url x \<noteq> mu_url m"
  shows "site_map_ok E origin opts (rs @ [m])"
  using assms entry_ok_more [of E origin opts rs _ "rs @ [m]"] by (auto simp: site_map_ok_def)

section \<open>Steps\<close>

lemma origin_without_fragment [simp]: "url_origin (without_fragment u) = url_origin u"
  by (simp add: url_origin_def url_host_def without_fragment_def)

lemma entry_for_ok:
  assumes "standard_urls (mp_parse E) (mp_resolve E)" "mp_resolve E h b = Some u" "u' = u \<or> u' = without_fragment u"
    and "mu_depth current < map_depth opts" "m \<in> set (entry_for E current u' source control)" "source \<noteq> InteractiveView"
  shows "pending_ok (url_origin u) opts m"
proof -
  from assms(5) obtain n where n: "normalizeUrl (mp_parse E) (url_href u') = Inr n"
    "m = \<lparr>mu_url = n, mu_depth = mu_depth current + 1, mu_source = source, mu_control = control\<rparr>"
    by (cases "normalizeUrl (mp_parse E) (url_href u')"; force simp: entry_for_def)
  from normal_on_origin [OF n(1)] assms(1) obtain v where "mp_parse E (url_href u') = Some v" "on_origin (url_origin v) n"
    by (auto simp: standard_urls_def)
  with assms(1-3) have "on_origin (url_origin u) n" unfolding standard_urls_def without_fragment_def by metis
  with n assms(4,6) show ?thesis by (simp add: pending_ok_def is_page_def)
qed

lemma link_entry_ok:
  assumes "standard_urls (mp_parse E) (mp_resolve E)" "mu_depth current < map_depth opts"
    and "m \<in> set (link_entry E origin seen current stage d)"
  shows "pending_ok origin opts m"
  using assms(3)
  by (auto simp: link_entry_def split: if_splits option.splits dest!: sym [of "Some _"]
      elim!: entry_for_ok [OF assms(1) _ disjI2 [OF refl] assms(2)])

lemma control_route_ok:
  assumes "standard_urls (mp_parse E) (mp_resolve E)" "mu_depth current < map_depth opts"
    and "m \<in> set (control_route E origin current d)"
  shows "pending_ok origin opts m"
  using assms(3)
  by (auto simp: control_route_def split: if_splits option.splits dest!: sym [of "Some _"]
      elim!: entry_for_ok [OF assms(1) _ disjI1 [OF refl] assms(2)])

text \<open>While the controls of a page are visited the page itself stays in the results.\<close>

lemma control_step_ok:
  assumes "standard_urls (mp_parse E) (mp_resolve E)" "mu_depth current < map_depth opts" "is_page current"
    and "crawl_ok E origin opts c" "current \<in> set (fst (snd c))" "length (fst (snd c)) < map_maximum opts"
  shows "crawl_ok E origin opts (control_step E origin current d c) \<and>
    current \<in> set (fst (snd (control_step E origin current d c)))"
proof -
  obtain seen results pending where c: "c = (seen, results, pending)" by (cases c)
  let ?u = "view_url (mu_url current) (attr_or_empty ''aria-controls'' d)"
  let ?m = "\<lparr>mu_url = ?u, mu_depth = mu_depth current, mu_source = InteractiveView,
              mu_control = Some (RoleTab, label_option (control_label d))\<rparr>"
  have page: "\<not> is_page ?m" by (simp add: is_page_def)
  have view: "site_map_ok E origin opts (results @ [?m])"
    if "view_name (attr_or_empty ''aria-controls'' d)" "''view:'' @ ?u \<notin> set seen"
  proof (rule site_map_snoc)
    show "entry_ok E origin opts (results @ [?m]) ?m"
      using that(1) assms(2,3,5) page by (auto simp: entry_ok_def view_of_def c intro!: bexI [of _ current])
    show "\<forall>x \<in> set results. is_page x = is_page ?m \<longrightarrow> mu_url x \<noteq> mu_url ?m"
      using assms(4) that(2) page by (auto simp: c)
  qed (use assms(4,6) in \<open>auto simp: c\<close>)
  show ?thesis
    using assms(4,5) view page control_route_ok [OF assms(1,2)] by (auto simp: c Let_def)
qed

lemma map_controls_ok:
  assumes "standard_urls (mp_parse E) (mp_resolve E)" "mu_depth current < map_depth opts" "is_page current"
  shows "crawl_ok E origin opts c \<Longrightarrow> current \<in> set (fst (snd c)) \<Longrightarrow>
    crawl_ok E origin opts (map_controls E origin (map_maximum opts) current ds c)"
proof (induction ds arbitrary: c)
  case (Cons d ds)
  then show ?case using control_step_ok [OF assms Cons.prems, of d] by (simp del: control_step.simps crawl_ok.simps)
qed simp

lemma map_page_ok:
  assumes "standard_urls (mp_parse E) (mp_resolve E)" "mu_depth current < map_depth opts" "is_page current"
    and "crawl_ok E origin opts (seen, results, pending)" "current \<in> set results"
  shows "crawl_ok E origin opts (map_page E origin (map_maximum opts) current stage html (seen, results, pending))"
  unfolding map_page_def Let_def prod.case
  using assms(4,5) link_entry_ok [OF assms(1,2)] by (intro map_controls_ok [OF assms(1-3)]) (auto simp: page_entries_def)

lemma map_loop_ok:
  assumes "standard_urls (mp_parse E) (mp_resolve E)"
  shows "crawl_ok E origin opts c \<Longrightarrow> map_loop E origin opts c s = (Inr rs, s') \<Longrightarrow> site_map_ok E origin opts rs"
  using assms
proof (induction E origin opts c s rule: map_loop.induct)
  case (2 E origin opts seen results current rest s)
  note std = "2.prems"(3)
  from "2.prems"(1) have ok: "site_map_ok E origin opts results" "pending_ok origin opts current"
    and rest: "crawl_ok E origin opts (seen, results, rest)"
    by auto
  have skipped: "crawl_ok E origin opts (mu_url current # seen, results, rest)" using rest by auto
  show ?case
  proof (cases "map_maximum opts \<le> length results \<or> mu_url current \<in> set seen")
    case True
    then show ?thesis using "2.prems"(2) ok rest "2.IH"(1) std by (auto split: if_splits simp del: crawl_ok.simps)
  next
    case False
    then have new: "length results < map_maximum opts" "mu_url current \<notin> set seen" by auto
    with "2.prems"(2) obtain a where safe: "assertSafeUrl (mp_parse E) (mp_guard E s) (mu_url current) None = Inr a"
      by (auto simp: Let_def split: sum.splits)
    show ?thesis
    proof (cases "wanted_url opts (mu_url current)")
      case no: False
      then show ?thesis using "2.prems"(2) new safe "2.IH"(2) [OF _ _ refl refl safe] skipped std
        by (auto simp: Let_def simp del: crawl_ok.simps)
    next
      case wanted: True
      have "entry_ok E origin opts (results @ [current]) current"
        using ok(2) wanted safe by (auto simp: entry_ok_def pending_ok_def guarded_def)
      moreover have "\<forall>x \<in> set results. is_page x = is_page current \<longrightarrow> mu_url x \<noteq> mu_url current"
        using "2.prems"(1) new ok(2) by (auto simp: pending_ok_def)
      ultimately have listed: "crawl_ok E origin opts (mu_url current # seen, results @ [current], rest)"
        using site_map_snoc [OF ok(1) new(1)] rest ok(2) by (auto simp: pending_ok_def)
      show ?thesis
      proof (cases "map_depth opts \<le> mu_depth current")
        case True
        then show ?thesis using "2.prems"(2) new safe wanted listed "2.IH"(3) [OF _ _ refl refl safe] std
          by (auto simp: Let_def simp del: crawl_ok.simps)
      next
        case deep: False
        with "2.prems"(2) new safe wanted obtain r s1
          where fetched: "mp_fetch E (map_input opts (mu_url current)) s = (Inr r, s1)"
          by (auto simp: Let_def split: prod.splits sum.splits)
        note page = map_page_ok [OF std _ _ listed, of current "fr_strategy r" "or_default (fr_html r) []"]
        show ?thesis
          using "2.prems"(2) new safe wanted deep fetched listed page ok(2) std
            "2.IH"(4) [OF _ _ refl refl safe _ _ fetched [symmetric] refl] "2.IH"(5) [OF _ _ refl refl safe _ _ fetched [symmetric] refl]
          by (auto simp: Let_def pending_ok_def split: if_splits simp del: crawl_ok.simps)
      qed
    qed
  qed
qed simp



section \<open>Work\<close>

lemma map_loop_fetches:
  assumes "\<forall>i s. calls (snd (mp_fetch E i s)) = Suc (calls s)"
  shows "calls (snd (map_loop E origin opts c s)) \<le> calls s + (map_maximum opts - length (fst (snd c)))"
  using assms
proof (induction E origin opts c s rule: map_loop.induct)
  case (2 E origin opts seen results current rest s)
  note one = "2.prems"
  show ?case
  proof (cases "map_maximum opts \<le> length results \<or> mu_url current \<in> set seen")
    case True
    then show ?thesis using "2.IH"(1) one by auto
  next
    case False
    then have new: "\<not> map_maximum opts \<le> length results" "mu_url current \<notin> set seen" by auto
    show ?thesis
    proof (cases "assertSafeUrl (mp_parse E) (mp_guard E s) (mu_url current) None")
      case safe: (Inr a)
      show ?thesis
      proof (cases "wanted_url opts (mu_url current) \<and> mu_depth current < map_depth opts")
        case False
        then show ?thesis using new safe one "2.IH"(2,3) [OF new refl refl safe] by (auto simp: Let_def not_less)
      next
        case True
        obtain x s1 where fetched: "mp_fetch E (map_input opts (mu_url current)) s = (x, s1)" by fastforce
        with one have c: "calls s1 = Suc (calls s)" by (metis snd_conv)
        have grows: "calls s1 + (map_maximum opts - length (fst (snd (map_page E origin (map_maximum opts) current stage html
            (mu_url current # seen, results @ [current], rest))))) \<le> calls s + (map_maximum opts - length results)" for stage html
          using map_page_progress [of results "map_maximum opts" E origin "map_maximum opts" current stage html "mu_url current # seen" current rest] new c
          by (simp add: not_le)
        show ?thesis
        proof (cases x)
          case (Inl e)
          then show ?thesis using new safe True fetched c by (simp add: Let_def not_less)
        next
          case (Inr r)
          have go: "\<not> \<not> wanted_url opts (mu_url current)" "\<not> map_depth opts \<le> mu_depth current" using True by auto
          show ?thesis
            using new safe go fetched Inr c one grows [of "fr_strategy r" "or_default (fr_html r) []"]
              "2.IH"(4) [OF new refl refl safe go fetched [symmetric] Inr] "2.IH"(5) [OF new refl refl safe go fetched [symmetric] Inr]
            by (auto simp: Let_def intro: order_trans)
        qed
      qed
    qed (use new in \<open>simp add: Let_def\<close>)
  qed
qed simp

text \<open>Whatever the site looks like, a crawl ends, with at most as many fetches as entries were requested and never more
  than 1000, also when it fails.\<close>

theorem map_fetch_budget:
  assumes "\<forall>i s. calls (snd (mp_fetch E i s)) = Suc (calls s)"
  shows "calls (snd (mapSite E u opts s)) \<le> calls s + map_maximum opts \<and> map_maximum opts \<le> 1000"
proof -
  have loop: "calls (snd (map_loop E origin opts ([], [], p) s)) \<le> calls s + map_maximum opts" for origin p
    using map_loop_fetches [OF assms, of origin opts "([], [], p)" s] by simp
  have "calls (snd (mapSite E u opts s)) \<le> calls s + map_maximum opts"
  proof (cases "mp_parse E u")
    case (Some parsed)
    then obtain n where n: "normalizeUrl (mp_parse E) u = Inr n" by (simp add: normalizeUrl_def)
    obtain x s1 where run: "map_loop E (url_origin parsed) opts
        ([], [], [\<lparr>mu_url = n, mu_depth = 0, mu_source = Seed, mu_control = None\<rparr>]) s = (x, s1)" by fastforce
    with loop have "calls s1 \<le> calls s + map_maximum opts" by (metis snd_conv)
    then show ?thesis by (cases x) (simp_all add: mapSite_def Some n run del: map_loop.simps)
  qed (simp add: mapSite_def)
  then show ?thesis by (simp add: map_maximum_def)
qed

text \<open>The include and exclude patterns gate the crawl and not only the list: when the seed itself is not wanted, the map
  is empty whatever the site holds.\<close>

lemma map_needs_seed:
  assumes "mp_parse E u = Some parsed" "normalizeUrl (mp_parse E) u = Inr n"
    and "assertSafeUrl (mp_parse E) (mp_guard E s) n None = Inr a" "\<not> wanted_url opts n"
  shows "mapSite E u opts s = (Inr [], s)"
  using assms by (simp add: mapSite_def Let_def split: prod.split)

section \<open>A site that cannot be fetched\<close>

definition sample_map_env :: "nat map_env" where
  "sample_map_env =
     \<lparr>mp_parse = (\<lambda>_. Some public_url), mp_resolve = (\<lambda>_ _. Some public_url), mp_guard = (\<lambda>_ _. None),
      mp_fetch = (\<lambda>_ n. (Inl (JsError ''offline''), Suc n)), mp_load = (\<lambda>_. [])\<rparr>"

definition map_limits :: "nat \<Rightarrow> map_options" where
  "map_limits depth =
     \<lparr>mo_maxUrls = None, mo_maxDepth = Some depth, mo_include = None, mo_exclude = None, mo_search = None, mo_render = None\<rparr>"

lemma sample_map_guard: "assertSafeUrl (\<lambda>_. Some public_url) (\<lambda>_. None) v None = Inr public_url"
proof -
  have "resolveSafeUrl (\<lambda>_. Some public_url) (\<lambda>_. None) v None
      = Inr \<lparr>safe_url = public_url, safe_addresses = [(''93.184.216.34'', 4)]\<rparr>" by code_simp
  then show ?thesis by (simp add: assertSafeUrl_def)
qed

lemma sample_map_runs:
  "mapSite sample_map_env ''https://93.184.216.34/'' (map_limits 0) 0 =
     (Inr [\<lparr>mu_url = url_href (normalize_parts public_url), mu_depth = 0, mu_source = Seed, mu_control = None\<rparr>], 0)"
  "mapSite sample_map_env ''https://93.184.216.34/'' (map_limits 1) 0 = (Inl (JsError ''offline''), 1)"
  by (simp_all add: mapSite_def sample_map_env_def map_limits_def normalizeUrl_def or_default_def map_maximum_def map_depth_def
      wanted_url_def pattern_matches_def sample_map_guard Let_def)


theorem map_fetch_budget_witness: "snd (mapSite sample_map_env ''https://93.184.216.34/'' (map_limits 1) 0) \<le> 0 + map_maximum (map_limits 1)"
  using map_fetch_budget [of id sample_map_env "''https://93.184.216.34/''" "map_limits 1" 0] by (simp add: sample_map_env_def)

end
