(* ===== verification/OB_Jobs.thy ===== *)
theory OB_Jobs
  imports OB_Fetch OB_Map
begin

text \<open>
  Work that goes on after its request was answered: the crawl of \<open>src/src/server/routes/execution.ts\<close> and the render
  jobs of \<open>src/src/server/routes/admin.ts\<close>, with the webhooks of \<open>src/src/automation/integrations.ts\<close>. The world is the
  storage and the rest; other requests may change both while a job waits, so every driver works on the whole world.
\<close>

type_synonym 's world = "storage \<times> 's"

type_synonym ('s, 'a) world_op = "'s world \<Rightarrow> 'a outcome \<times> 's world"

fun thrown_message :: "js_error \<Rightarrow> string" where
  "thrown_message (OpenBrowseError e) = message e"
| "thrown_message (JsError m) = m"

section \<open>Render requests\<close>

record screenshot_request =
  sc_url :: string
  sc_jpeg :: bool
  sc_fullPage :: bool
  sc_quality :: "nat option"
  sc_viewport :: "viewport option"
  sc_timeoutMs :: "millis option"
  sc_waitUntil :: "navigation_wait option"

record pdf_request =
  pd_url :: string
  pd_format :: string
  pd_landscape :: bool
  pd_printBackground :: bool
  pd_margin :: "(string \<times> string) list option"
  pd_timeoutMs :: "millis option"

datatype render_request = RenderScreenshot screenshot_request | RenderPdf pdf_request

datatype render_operation = OpScreenshot | OpPdf

fun operation_id :: "render_operation \<Rightarrow> string" where
  "operation_id OpScreenshot = ''screenshot''"
| "operation_id OpPdf = ''pdf''"

section \<open>The environment\<close>

record webhook_delivery =
  wd_url :: url
  wd_event :: string
  wd_signature :: string
  wd_body :: string
  wd_dispatcher :: dispatcher

text \<open>
  \<open>je_render\<close> runs a rendering under admission control; \<open>je_request\<close> is the validation of the job's own request;
  \<open>je_post\<close> sends a delivery, whose outcome nobody looks at.
\<close>

record 's job_env =
  je_storage :: storage_env
  je_now :: "'s world \<Rightarrow> millis"
  je_newId :: "'s world \<Rightarrow> string"
  je_map :: "string \<Rightarrow> map_options \<Rightarrow> ('s, mapped_url list) world_op"
  je_fetch :: "api_fetch \<Rightarrow> ('s, fetch_response) world_op"
  je_render :: "render_request \<Rightarrow> stored_proxy option \<Rightarrow> ('s, string) world_op"
  je_request :: "render_operation \<Rightarrow> string \<Rightarrow> (render_request \<times> string option) outcome"
  je_parseUrl :: url_parser
  je_guard :: "'s world \<Rightarrow> resolver"
  je_post :: "webhook_delivery \<Rightarrow> 's world \<Rightarrow> 's world"
  je_hmac :: "string \<Rightarrow> string \<Rightarrow> string"
  je_iso :: "millis \<Rightarrow> string"
  je_stringify :: "jsval \<Rightarrow> string option"

definition update_job :: "string \<Rightarrow> string \<Rightarrow> job_patch \<Rightarrow> 's world \<Rightarrow> 's world" where
  "update_job jid owner patch w = ((fst w)\<lparr>sg_jobs := job_update jid owner patch (sg_jobs (fst w))\<rparr>, snd w)"

definition only_status :: "job_status \<Rightarrow> job_patch" where
  "only_status st = \<lparr>jp_status = Some st, jp_artifactId = None, jp_result = None, jp_error = None\<rparr>"

section \<open>Webhooks\<close>

definition webhook_payload :: "'s job_env \<Rightarrow> string \<Rightarrow> jsval \<Rightarrow> millis \<Rightarrow> string" where
  "webhook_payload J event data now =
     json_text (je_stringify J) (JObj [(''event'', JStr event), (''occurredAt'', JStr (je_iso J now)), (''data'', data)])"

definition webhook_request :: "'s job_env \<Rightarrow> stored_webhook \<Rightarrow> string \<Rightarrow> jsval \<Rightarrow> 's world \<Rightarrow> webhook_delivery option" where
  "webhook_request J hook event data w =
     (case resolveSafeUrl (je_parseUrl J) (je_guard J w) (whk_url hook) None of
        Inl _ \<Rightarrow> None
      | Inr checked \<Rightarrow>
          let payload = webhook_payload J event data (je_now J w); egress = egressProxyUrl (se_config (je_storage J)) in
          Some \<lparr>wd_url = safe_url checked, wd_event = event,
                wd_signature = ''sha256='' @ je_hmac J (whk_secret hook) payload, wd_body = payload,
                wd_dispatcher = (if egress \<noteq> [] then ViaProxy egress else PinnedTo (safe_addresses checked))\<rparr>)"

definition subscribed :: "string \<Rightarrow> stored_webhook \<Rightarrow> bool" where
  "subscribed event hook \<longleftrightarrow> event \<in> set (whk_events hook) \<or> ''*'' \<in> set (whk_events hook)"

fun deliver :: "'s job_env \<Rightarrow> string \<Rightarrow> jsval \<Rightarrow> stored_webhook list \<Rightarrow> 's world \<Rightarrow> 's world" where
  "deliver J event data [] w = w"
| "deliver J event data (h # hs) w =
     deliver J event data hs (case webhook_request J h event data w of None \<Rightarrow> w | Some d \<Rightarrow> je_post J d w)"

text \<open>Deliveries are settled whatever happens to them; only reading the list of webhooks can throw.\<close>

definition dispatchWebhooks :: "'s job_env \<Rightarrow> string \<Rightarrow> string \<Rightarrow> jsval \<Rightarrow> ('s, unit) world_op" where
  "dispatchWebhooks J owner event data w =
     (case listWebhooks (se_box (je_storage J)) owner (sg_webhooks (fst w)) of
        Inl e \<Rightarrow> (Inl e, w)
      | Inr hooks \<Rightarrow> (Inr (), deliver J event data (filter (subscribed event) hooks) w))"

section \<open>Crawls\<close>

record crawl_request =
  cw_url :: string
  cw_maxUrls :: nat
  cw_maxDepth :: nat
  cw_formats :: "output_kind list"
  cw_ttlSeconds :: int

definition crawl_map_options :: "crawl_request \<Rightarrow> map_options" where
  "crawl_map_options b =
     \<lparr>mo_maxUrls = Some (cw_maxUrls b), mo_maxDepth = Some (cw_maxDepth b), mo_include = None, mo_exclude = None,
      mo_search = None, mo_render = None\<rparr>"

text \<open>The fetch of a page by a route that sets the address, the outputs and the owner only.\<close>

definition public_fetch :: "string \<Rightarrow> strategy \<Rightarrow> millis option \<Rightarrow> output_kind list \<Rightarrow> cache_mode \<Rightarrow> int \<Rightarrow> string \<Rightarrow> api_fetch" where
  "public_fetch u how ms outputs mode ttl owner =
     \<lparr>af_url = u, af_strategy = how, af_timeoutMs = (if ms = Some 0 then None else ms), af_headers = None,
      af_waitUntil = None, af_wait = None, af_output = outputs, af_browserBackend = None, af_browserOptions = None,
      af_cacheMode = mode, af_ttlSeconds = ttl, af_proxyId = None, af_viewport = None, af_ownerKeyHash = Some owner\<rparr>"

definition optional_json :: "('a \<Rightarrow> jsval) \<Rightarrow> 'a option \<Rightarrow> jsval" where
  "optional_json f v = (case v of None \<Rightarrow> JUndefined | Some x \<Rightarrow> f x)"

fun stage_text :: "stage \<Rightarrow> string" where
  "stage_text StageHttp = ''http''"
| "stage_text StageBrowser = ''browser''"

definition crawled_page :: "string \<Rightarrow> fetch_response outcome \<Rightarrow> jsval" where
  "crawled_page u r =
     (case r of
        Inr resp \<Rightarrow>
          JObj [(''url'', JStr u), (''status'', JNum (of_int (fp_status resp))), (''strategy'', JStr (stage_text (fp_strategy resp))),
                (''markdown'', optional_json JStr (tf_markdown (fp_outputs resp))),
                (''links'', optional_json (\<lambda>ls. JArr (map JStr ls)) (tf_links (fp_outputs resp)))]
      | Inl e \<Rightarrow> JObj [(''url'', JStr u), (''error'', JStr (thrown_message e))])"

definition crawl_result :: "jsval list \<Rightarrow> bool \<Rightarrow> jsval" where
  "crawl_result pages truncated = JObj [(''pages'', JArr pages), (''truncated'', JBool truncated)]"

fun crawl_pages ::
  "'s job_env \<Rightarrow> crawl_request \<Rightarrow> string \<Rightarrow> mapped_url list \<Rightarrow> jsval list \<Rightarrow> 's world \<Rightarrow> (jsval list \<times> bool) \<times> 's world" where
  "crawl_pages J b owner [] pages w = ((pages, False), w)"
| "crawl_pages J b owner (item # rest) pages w =
     (case je_fetch J (public_fetch (mu_url item) Auto None (cw_formats b) CacheDefault 300 owner) w of
        (r, w1) \<Rightarrow>
          let page = crawled_page (mu_url item) r in
          if int (jsonBytes (je_stringify J) (crawl_result (pages @ [page]) False)) > maxResponseBytes (se_config (je_storage J))
          then ((pages, True), w1)
          else crawl_pages J b owner rest (pages @ [page]) w1)"

definition crawl_failed :: "'s job_env \<Rightarrow> stored_job \<Rightarrow> js_error \<Rightarrow> ('s, unit) world_op" where
  "crawl_failed J job e w =
     dispatchWebhooks J (job_ownerKeyHash job) ''job.failed'' (JObj [(''jobId'', JStr (job_id job)), (''operation'', JStr ''crawl'')])
       (update_job (job_id job) (job_ownerKeyHash job) ((only_status Failed)\<lparr>jp_error := Some (thrown_message e)\<rparr>) w)"

text \<open>The body of the job; an error that it lets out is an unhandled rejection.\<close>

definition crawl_job :: "'s job_env \<Rightarrow> crawl_request \<Rightarrow> stored_job \<Rightarrow> ('s, unit) world_op" where
  "crawl_job J b job w =
     (let jid = job_id job; owner = job_ownerKeyHash job in
      case je_map J (cw_url b) (crawl_map_options b) (update_job jid owner (only_status Running) w) of
        (Inl e, w1) \<Rightarrow> crawl_failed J job e w1
      | (Inr urls, w1) \<Rightarrow>
          (case crawl_pages J b owner urls [] w1 of
             ((pages, truncated), w2) \<Rightarrow>
               let w3 = update_job jid owner ((only_status Complete)\<lparr>jp_result :=
                           Some (json_text (je_stringify J) (crawl_result pages truncated))\<rparr>) w2 in
               (case dispatchWebhooks J owner ''job.complete''
                       (JObj [(''jobId'', JStr jid), (''operation'', JStr ''crawl''), (''pages'', JNum (of_nat (length pages)))]) w3 of
                  (Inr _, w4) \<Rightarrow> (Inr (), w4)
                | (Inl e, w4) \<Rightarrow> crawl_failed J job e w4)))"

text \<open>The request that queues a job: the text of its request is stored with it.\<close>

definition start_job :: "'s job_env \<Rightarrow> string \<Rightarrow> string \<Rightarrow> int \<Rightarrow> string \<Rightarrow> ('s, stored_job) world_op" where
  "start_job J operation request ttl owner w =
     (case job_create (je_newId J w) (je_now J w) operation request ttl owner (sg_jobs (fst w)) of
        (r, T) \<Rightarrow> (r, (fst w)\<lparr>sg_jobs := T\<rparr>, snd w))"

section \<open>Render jobs\<close>

definition content_type_of :: "render_request \<Rightarrow> string" where
  "content_type_of r =
     (case r of RenderScreenshot s \<Rightarrow> if sc_jpeg s then ''image/jpeg'' else ''image/png'' | RenderPdf _ \<Rightarrow> ''application/pdf'')"

definition render_failed :: "stored_job \<Rightarrow> js_error \<Rightarrow> 's world \<Rightarrow> 's world" where
  "render_failed job e w =
     update_job (job_id job) (job_ownerKeyHash job) ((only_status Failed)\<lparr>jp_error := Some (thrown_message e)\<rparr>) w"

definition render_job :: "'s job_env \<Rightarrow> render_operation \<Rightarrow> string \<Rightarrow> int \<Rightarrow> stored_job \<Rightarrow> 's world \<Rightarrow> 's world" where
  "render_job J operation request ttl job w =
     (let owner = job_ownerKeyHash job; w1 = update_job (job_id job) owner (only_status Running) w in
      case res_bind (je_request J operation request) (\<lambda>(req, proxyId).
             res_bind (resolveProxy (je_storage J) (fst w1) proxyId (Some owner)) (\<lambda>proxy. Inr (req, proxy))) of
        Inl e \<Rightarrow> render_failed job e w1
      | Inr (req, proxy) \<Rightarrow>
          (case je_render J req proxy w1 of
             (Inl e, w2) \<Rightarrow> render_failed job e w2
           | (Inr body, w2) \<Rightarrow>
               (case createArtifact (je_storage J) (je_newId J w2) (je_now J w2) body (content_type_of req) owner (Some ttl) (fst w2) of
                  (Inl e, S3) \<Rightarrow> render_failed job e (S3, snd w2)
                | (Inr artifact, S3) \<Rightarrow>
                    update_job (job_id job) owner ((only_status Complete)\<lparr>jp_artifactId := Some (art_id artifact)\<rparr>) (S3, snd w2))))"

section \<open>The state of a job\<close>

definition job_not_found :: js_error where
  "job_not_found = ob_err ''JOB_NOT_FOUND'' ''Job does not exist or has expired'' 404 False"

fun job_status_text :: "job_status \<Rightarrow> string" where
  "job_status_text Queued = ''queued''"
| "job_status_text Running = ''running''"
| "job_status_text Complete = ''complete''"
| "job_status_text Failed = ''failed''"

definition job_report :: "(string \<Rightarrow> jsval outcome) \<Rightarrow> stored_job \<Rightarrow> jsval outcome" where
  "job_report parseJson job =
     (let head = [(''id'', JStr (job_id job)), (''status'', JStr (job_status_text (job_status job)))];
          artifact = (case job_artifactId job of None \<Rightarrow> []
            | Some a \<Rightarrow> [(''artifact'', JObj [(''contentType'', JStr (if job_operation job = ''pdf'' then ''application/pdf'' else ''image/png'')),
                                             (''downloadPath'', JStr (''/v1/artifacts/'' @ a))])]);
          error = (case job_error job of None \<Rightarrow> [] | Some e \<Rightarrow> [(''error'', JStr e)])
      in case job_result job of
           None \<Rightarrow> Inr (JObj (head @ artifact @ error))
         | Some t \<Rightarrow> res_bind (parseJson t) (\<lambda>v. Inr (JObj (head @ artifact @ [(''result'', v)] @ error))))"

definition show_job :: "(string \<Rightarrow> jsval outcome) \<Rightarrow> string \<Rightarrow> string \<Rightarrow> millis \<Rightarrow> storage \<Rightarrow> jsval outcome" where
  "show_job parseJson jid owner now S =
     (case job_get jid owner (sg_jobs S) of
        None \<Rightarrow> Inl job_not_found
      | Some job \<Rightarrow> if job_expiresAt job < now then Inl job_not_found else job_report parseJson job)"

end
