(* ===== verification/OB_Jobs_Props.thy ===== *)
theory OB_Jobs_Props
  imports OB_Jobs
begin

text \<open>
  How jobs end: a crawl settles its row whatever happens, its stored result is bounded, a webhook table that cannot be
  read loses the result, and what a render job reports about its artifact.
\<close>

section \<open>The row of a job\<close>

definition job_row :: "stored_job \<Rightarrow> 's world \<Rightarrow> stored_job option" where
  "job_row job w =
     find (\<lambda>r. job_id r = job_id job \<and> job_ownerKeyHash r = job_ownerKeyHash job) (jt_jobs (sg_jobs (fst w)))"

lemma job_row_update [simp]:
  assumes "jp_status patch = Some st"
  shows "job_row job (update_job (job_id job) (job_ownerKeyHash job) patch w) = map_option (patch_job st patch) (job_row job w)"
proof -
  define P where "P r \<longleftrightarrow> job_id r = job_id job \<and> job_ownerKeyHash r = job_ownerKeyHash job" for r :: stored_job
  have "find P (map (\<lambda>r. if P r then patch_job st patch r else r) rows) = map_option (patch_job st patch) (find P rows)" for rows
    by (induction rows) (auto simp: P_def)
  then show ?thesis unfolding job_row_def update_job_def job_update_def Let_def P_def assms option.case by simp
qed

text \<open>The other parties of a job leave its row alone.\<close>

definition leaves_row :: "stored_job \<Rightarrow> ('s world \<Rightarrow> 's world) \<Rightarrow> bool" where
  "leaves_row job f \<longleftrightarrow> (\<forall>w. job_row job (f w) = job_row job w)"

definition quiet_parties :: "'s job_env \<Rightarrow> stored_job \<Rightarrow> bool" where
  "quiet_parties J job \<longleftrightarrow>
     (\<forall>u opts. leaves_row job (\<lambda>w. snd (je_map J u opts w))) \<and> (\<forall>b. leaves_row job (\<lambda>w. snd (je_fetch J b w))) \<and>
     (\<forall>r p. leaves_row job (\<lambda>w. snd (je_render J r p w))) \<and> (\<forall>d. leaves_row job (je_post J d))"

lemma quiet_steps:
  assumes "quiet_parties J job"
  shows "je_map J u opts w = (r, w1) \<Longrightarrow> job_row job w1 = job_row job w"
    and "je_fetch J b w = (r', w1) \<Longrightarrow> job_row job w1 = job_row job w"
    and "je_render J q p w = (r'', w1) \<Longrightarrow> job_row job w1 = job_row job w"
    and "job_row job (je_post J d w) = job_row job w"
  using assms unfolding quiet_parties_def leaves_row_def by (metis snd_conv)+

lemma deliver_row: "quiet_parties J job \<Longrightarrow> job_row job (deliver J event data hs w) = job_row job w"
  by (induction hs arbitrary: w) (simp_all add: quiet_steps(4) split: option.split)

lemma dispatch_row:
  "quiet_parties J job \<Longrightarrow> dispatchWebhooks J owner event data w = (r, w1) \<Longrightarrow> job_row job w1 = job_row job w"
  by (auto simp: dispatchWebhooks_def deliver_row split: sum.splits)

lemma crawl_failed_row:
  "quiet_parties J job \<Longrightarrow> crawl_failed J job e w = (out, w1) \<Longrightarrow>
   job_row job w1 = map_option (patch_job Failed ((only_status Failed)\<lparr>jp_error := Some (thrown_message e)\<rparr>)) (job_row job w)"
  by (auto simp: crawl_failed_def only_status_def dest!: dispatch_row)

section \<open>The pages of a crawl\<close>

text \<open>
  What the bound relies on of \<open>JSON.stringify\<close>: \<open>true\<close> is shorter than \<open>false\<close>, and a result without pages is
  short.
\<close>

definition json_sizes :: "'s job_env \<Rightarrow> bool" where
  "json_sizes J \<longleftrightarrow>
     (\<forall>pages. jsonBytes (je_stringify J) (crawl_result pages True) \<le> jsonBytes (je_stringify J) (crawl_result pages False)) \<and>
     int (jsonBytes (je_stringify J) (crawl_result [] False)) \<le> maxResponseBytes (se_config (je_storage J))"

abbreviation result_fits :: "'s job_env \<Rightarrow> jsval list \<Rightarrow> bool \<Rightarrow> bool" where
  "result_fits J pages truncated \<equiv>
     int (jsonBytes (je_stringify J) (crawl_result pages truncated)) \<le> maxResponseBytes (se_config (je_storage J))"

lemma crawl_pages_ok:
  assumes "crawl_pages J b owner urls pages w = ((pages', truncated), w')"
    and "result_fits J pages False" "json_sizes J" "quiet_parties J job"
  shows "result_fits J pages' truncated \<and> job_row job w' = job_row job w \<and>
    (\<exists>answers. length answers \<le> length urls \<and> (truncated \<longleftrightarrow> length answers < length urls) \<and>
       pages' = pages @ map2 (\<lambda>m r. crawled_page (mu_url m) r) urls answers)"
  using assms(1,2)
proof (induction urls arbitrary: pages w)
  case Nil
  then show ?case by auto
next
  case (Cons item rest)
  obtain r w1 where f: "je_fetch J (public_fetch (mu_url item) Auto None (cw_formats b) CacheDefault 300 owner) w = (r, w1)"
    by (rule prod.exhaust)
  note row = quiet_steps(2) [OF assms(4) f]
  show ?case
  proof (cases "result_fits J (pages @ [crawled_page (mu_url item) r]) False")
    case True
    with Cons.prems(1) have "crawl_pages J b owner rest (pages @ [crawled_page (mu_url item) r]) w1 = ((pages', truncated), w')"
      by (simp add: f Let_def)
    from Cons.IH [OF this True] obtain answers where "result_fits J pages' truncated" "job_row job w' = job_row job w1"
      "length answers \<le> length rest" "truncated \<longleftrightarrow> length answers < length rest"
      "pages' = pages @ [crawled_page (mu_url item) r] @ map2 (\<lambda>m r. crawled_page (mu_url m) r) rest answers" by auto
    then show ?thesis using row by (auto intro!: exI [of _ "r # answers"])
  next
    case False
    with Cons.prems(1) have "pages' = pages" "truncated" "w' = w1" by (simp_all add: f Let_def)
    moreover have "result_fits J pages True" using assms(3) Cons.prems(2) by (auto simp: json_sizes_def intro: order_trans [rotated])
    ultimately show ?thesis using row by (auto intro!: exI [of _ "[]"])
  qed
qed

section \<open>Crawl jobs\<close>

definition failed_row :: "stored_job \<Rightarrow> stored_job \<Rightarrow> bool" where
  "failed_row r0 r \<longleftrightarrow>
     (\<exists>e. r = r0\<lparr>job_status := Failed, job_artifactId := None, job_result := None, job_error := Some (thrown_message e)\<rparr>)"

definition crawled_row :: "'s job_env \<Rightarrow> mapped_url list \<Rightarrow> stored_job \<Rightarrow> stored_job \<Rightarrow> bool" where
  "crawled_row J urls r0 r \<longleftrightarrow>
     (\<exists>answers truncated.
        (let pages = map2 (\<lambda>m a. crawled_page (mu_url m) a) urls answers in
         length answers \<le> length urls \<and> (truncated \<longleftrightarrow> length answers < length urls) \<and> result_fits J pages truncated \<and>
         r = r0\<lparr>job_status := Complete, job_artifactId := None,
                job_result := Some (json_text (je_stringify J) (crawl_result pages truncated)), job_error := None\<rparr>))"


section \<open>A webhook table that cannot be read\<close>

lemma update_job_keeps [simp]: "sg_webhooks (fst (update_job jid owner patch w)) = sg_webhooks (fst w)"
  by (simp add: update_job_def)

text \<open>When the webhooks of the owner cannot be read, a crawl that has stored its result loses it: the row ends failed
  without a result, and the error leaves the background job unhandled.\<close>

theorem crawl_lost_to_webhooks:
  assumes "quiet_parties J job" "job_row job w = Some r0"
    and "je_map J (cw_url b) (crawl_map_options b) (update_job (job_id job) (job_ownerKeyHash job) (only_status Running) w) = (Inr urls, w1)"
    and "crawl_pages J b (job_ownerKeyHash job) urls [] w1 = ((pages, truncated), w2)" "job_row job w2 = job_row job w1"
    and "listWebhooks (se_box (je_storage J)) (job_ownerKeyHash job) (sg_webhooks (fst w2)) = Inl e"
  shows "\<exists>w'. crawl_job J b job w = (Inl e, w') \<and>
    job_row job w' = Some (r0\<lparr>job_status := Failed, job_artifactId := None, job_result := None, job_error := Some (thrown_message e)\<rparr>)"
proof -
  have "job_row job w1 = Some (patch_job Running (only_status Running) r0)"
    using quiet_steps(1) [OF assms(1,3)] assms(2) by (simp add: only_status_def)
  then show ?thesis
    using assms(3-6) unfolding crawl_job_def Let_def crawl_failed_def dispatchWebhooks_def
    by (simp add: only_status_def patch_job_def)
qed

section \<open>Render jobs\<close>

lemma createArtifact_row:
  "createArtifact E i now body ct owner ttl S = (Inr a, S') \<Longrightarrow>
   a \<in> set (at_rows (sg_artifacts S')) \<and> art_contentType a = ct \<and> sg_jobs S' = sg_jobs S"
  by (auto simp: createArtifact_def artifact_create_def Let_def split: if_splits)

text \<open>A completed screenshot job in the JPEG format reports its artifact as \<open>image/png\<close>, while the artifact is stored
  and served as \<open>image/jpeg\<close>.\<close>

theorem jpeg_job_reported_png:
  assumes "quiet_parties J job" "job_row job w = Some r0" "job_operation r0 = ''screenshot''"
    and "je_request J OpScreenshot request = Inr (RenderScreenshot sc, proxyId)" "sc_jpeg sc"
    and "job_row job (render_job J OpScreenshot request ttl job w) = Some r" "job_status r = Complete"
  shows "\<exists>a \<in> set (at_rows (sg_artifacts (fst (render_job J OpScreenshot request ttl job w)))).
    job_artifactId r = Some (art_id a) \<and> art_contentType a = ''image/jpeg'' \<and>
    job_report parseJson r = Inr (JObj [(''id'', JStr (job_id r)), (''status'', JStr ''complete''),
      (''artifact'', JObj [(''contentType'', JStr ''image/png''), (''downloadPath'', JStr (''/v1/artifacts/'' @ art_id a))])])"
proof -
  let ?w1 = "update_job (job_id job) (job_ownerKeyHash job) (only_status Running) w"
  have row1: "job_row job ?w1 = Some (patch_job Running (only_status Running) r0)" using assms(2) by (simp add: only_status_def)
  have not_failed: "job_row job (render_failed job e v) = Some r \<Longrightarrow> False" for e v
    using assms(7) by (auto simp: render_failed_def only_status_def)
  from assms(4,6) obtain proxy where p: "resolveProxy (je_storage J) (fst ?w1) proxyId (Some (job_ownerKeyHash job)) = Inr proxy"
    by (cases "resolveProxy (je_storage J) (fst ?w1) proxyId (Some (job_ownerKeyHash job))") (auto simp: render_job_def Let_def dest: not_failed)
  obtain body w2 where b: "je_render J (RenderScreenshot sc) proxy ?w1 = (body, w2)" by (rule prod.exhaust)
  with assms(4,6) p obtain image where i: "body = Inr image" by (cases body) (auto simp: render_job_def Let_def dest: not_failed)
  obtain x S3 where c: "createArtifact (je_storage J) (je_newId J w2) (je_now J w2) image ''image/jpeg'' (job_ownerKeyHash job) (Some ttl) (fst w2) = (x, S3)"
    by (rule prod.exhaust)
  have ct: "content_type_of (RenderScreenshot sc) = ''image/jpeg''" using assms(5) by (simp add: content_type_of_def)
  with assms(4,6) p b i c obtain a where a: "x = Inr a" by (cases x) (auto simp: render_job_def Let_def dest: not_failed)
  let ?patch = "(only_status Complete)\<lparr>jp_artifactId := Some (art_id a)\<rparr>"
  have w': "render_job J OpScreenshot request ttl job w = update_job (job_id job) (job_ownerKeyHash job) ?patch (S3, snd w2)"
    using assms(4) p b i c a ct by (simp add: render_job_def Let_def)
  note art = createArtifact_row [OF c [unfolded a]]
  have "job_row job (S3, snd w2) = job_row job w2" using art by (simp add: job_row_def)
  then have row3: "job_row job (S3, snd w2) = Some (patch_job Running (only_status Running) r0)"
    using quiet_steps(3) [OF assms(1) b] row1 by argo
  have "job_row job (update_job (job_id job) (job_ownerKeyHash job) ?patch (S3, snd w2)) =
      Some (patch_job Complete ?patch (patch_job Running (only_status Running) r0))"
    by (subst job_row_update [where st = Complete]) (simp_all add: row3 only_status_def)
  then have "r = patch_job Complete ?patch (patch_job Running (only_status Running) r0)" using assms(6) unfolding w' by simp
  then show ?thesis
    using art assms(3) w' by (auto simp: job_report_def Let_def patch_job_def only_status_def update_job_def)
qed

section \<open>A job of Ann's\<close>

definition sample_shot :: screenshot_request where
  "sample_shot = \<lparr>sc_url = ''https://93.184.216.34/'', sc_jpeg = True, sc_fullPage = True, sc_quality = None, sc_viewport = None,
                  sc_timeoutMs = None, sc_waitUntil = None\<rparr>"

definition sample_jobs :: "unit job_env" where
  "sample_jobs =
     \<lparr>je_storage = sample_env, je_now = (\<lambda>_. 0), je_newId = (\<lambda>_. ''a1''),
      je_map = (\<lambda>u _ w. (Inr [\<lparr>mu_url = u, mu_depth = 0, mu_source = Seed, mu_control = None\<rparr>], w)),
      je_fetch = (\<lambda>_ w. (Inl (JsError ''offline''), w)), je_render = (\<lambda>_ _ w. (Inr ''image'', w)),
      je_request = (\<lambda>_ _. Inr (RenderScreenshot sample_shot, None)), je_parseUrl = (\<lambda>_. None), je_guard = (\<lambda>_ _. None),
      je_post = (\<lambda>_ w. w), je_hmac = (\<lambda>_ _. []), je_iso = (\<lambda>_. []), je_stringify = (\<lambda>_. Some ''{}'')\<rparr>"

definition sample_job :: stored_job where
  "sample_job = \<lparr>job_id = ''j1'', job_ownerKeyHash = ''ann'', job_operation = ''screenshot'', job_request = ''{}'', job_status = Queued,
                 job_artifactId = None, job_result = None, job_error = None, job_expiresAt = 0\<rparr>"

definition sample_crawl :: crawl_request where
  "sample_crawl = \<lparr>cw_url = ''https://93.184.216.34/'', cw_maxUrls = 1, cw_maxDepth = 0, cw_formats = [OutHtml], cw_ttlSeconds = 60\<rparr>"

definition job_world :: "stored_webhook list \<Rightarrow> unit world" where
  "job_world hooks = (sample_storage\<lparr>sg_jobs := \<lparr>jt_jobs = [sample_job], jt_replays = []\<rparr>, sg_webhooks := hooks\<rparr>, ())"

lemma sample_jobs_quiet: "quiet_parties sample_jobs job"
  by (simp add: quiet_parties_def leaves_row_def sample_jobs_def)

lemma sample_jobs_sizes: "json_sizes sample_jobs"
proof -
  have "1024 \<le> maxResponseBytes sample_config" using sample_config_ok by (simp add: config_ok_def)
  then show ?thesis
    by (simp add: json_sizes_def sample_jobs_def jsonBytes_def json_text_def utf8_length_def sample_env_def)
qed

lemma sample_row: "job_row sample_job (job_world hooks) = Some sample_job"
  by (simp add: job_row_def job_world_def)


theorem crawl_lost_to_webhooks_witness:
  "\<exists>w'. crawl_job sample_jobs sample_crawl sample_job
      (job_world [\<lparr>whk_id = ''w1'', whk_ownerKeyHash = ''ann'', whk_url = ''torn'', whk_events = [''*''], whk_secret = ''torn''\<rparr>])
      = (Inl malformed_secret, w') \<and> (\<exists>r. job_row sample_job w' = Some r \<and> job_status r = Failed \<and> job_result r = None)"
proof -
  let ?w = "job_world [\<lparr>whk_id = ''w1'', whk_ownerKeyHash = ''ann'', whk_url = ''torn'', whk_events = [''*''], whk_secret = ''torn''\<rparr>]"
  let ?w0 = "update_job (job_id sample_job) (job_ownerKeyHash sample_job) (only_status Running) ?w"
  let ?urls = "[\<lparr>mu_url = cw_url sample_crawl, mu_depth = 0, mu_source = Seed, mu_control = None\<rparr>]"
  have m: "je_map sample_jobs (cw_url sample_crawl) (crawl_map_options sample_crawl) ?w0 = (Inr ?urls, ?w0)"
    by (simp add: sample_jobs_def)
  obtain pages truncated w2 where c: "crawl_pages sample_jobs sample_crawl (job_ownerKeyHash sample_job) ?urls [] ?w0 = ((pages, truncated), w2)"
    by (metis prod.collapse)
  then have w2: "w2 = ?w0" by (simp add: sample_jobs_def Let_def split: if_splits)
  have "decrypt hex_box ''torn'' = Inl malformed_secret" by code_simp
  then have l: "listWebhooks (se_box (je_storage sample_jobs)) (job_ownerKeyHash sample_job) (sg_webhooks (fst w2)) = Inl malformed_secret"
    by (simp add: w2 listWebhooks_def webhook_of_row_def sample_jobs_def sample_env_def job_world_def sample_job_def)
  have same: "job_row sample_job w2 = job_row sample_job ?w0" by (simp add: w2)
  from crawl_lost_to_webhooks [OF sample_jobs_quiet sample_row m c same l] show ?thesis by fastforce
qed

theorem jpeg_job_reported_png_witness:
  "\<exists>a \<in> set (at_rows (sg_artifacts (fst (render_job sample_jobs OpScreenshot ''{}'' 60 sample_job (job_world []))))).
     art_contentType a = ''image/jpeg''"
proof -
  obtain r where r: "job_row sample_job (render_job sample_jobs OpScreenshot ''{}'' 60 sample_job (job_world [])) = Some r" "job_status r = Complete"
    by (simp add: render_job_def Let_def sample_jobs_def resolveProxy_def or_default_def createArtifact_def artifact_create_def
        job_world_def update_job_def job_update_def job_row_def only_status_def sample_job_def sample_storage_def sample_env_def patch_job_def)
  have "je_request sample_jobs OpScreenshot ''{}'' = Inr (RenderScreenshot sample_shot, None)" "sc_jpeg sample_shot"
    "job_operation sample_job = ''screenshot''"
    by (simp_all add: sample_jobs_def sample_shot_def sample_job_def)
  from jpeg_job_reported_png [OF sample_jobs_quiet sample_row this(3,1,2) r] show ?thesis by blast
qed

end
