(* ===== verification/OB_BqlHandler.thy ===== *)
theory OB_BqlHandler
  imports OB_Bql OB_Storage OB_Backends OB_Errors
begin

text \<open>
  The BrowserQL endpoint, \<open>src/src/server/browserql-handler.ts\<close>: the backends that are tried, an attempt with a session
  of its own that is closed whatever happens, and the answer. The live browser is a driver with a state;
  the executor of one action is a parameter.
\<close>

section \<open>The driver\<close>

record 's bql_driver =
  bd_now :: "'s \<Rightarrow> millis"
  bd_newId :: "'s \<Rightarrow> string"
  bd_iv :: "'s \<Rightarrow> string"
  bd_live :: "stored_session \<Rightarrow> backend \<Rightarrow> backend_options option \<Rightarrow> 's \<Rightarrow> unit outcome \<times> 's"
  bd_field :: "stored_session \<Rightarrow> bql_field \<Rightarrow> 's \<Rightarrow> jsval outcome \<times> 's"
  bd_close :: "string \<Rightarrow> 's \<Rightarrow> unit outcome \<times> 's"

record bql_request =
  bq_query :: string
  bq_variables :: "(string \<times> jsval) list"
  bq_profileId :: "string option"
  bq_profile :: "string option"
  bq_browserBackend :: "backend option"
  bq_browserOptions :: "backend_options option"

section \<open>The actions of one attempt\<close>

definition retry_recommended :: "jsval \<Rightarrow> bool" where
  "retry_recommended r = (case r of JObj fs \<Rightarrow> map_of fs ''retryRecommended'' = Some (JBool True) | _ \<Rightarrow> False)"

definition timed_result :: "jsval \<Rightarrow> millis \<Rightarrow> jsval" where
  "timed_result r elapsed =
     (case r of
        JObj fs \<Rightarrow> if ''time'' \<in> fst ` set fs then r else JObj (fs @ [(''time'', JNum (of_int elapsed))])
      | _ \<Rightarrow> r)"

fun run_fields ::
  "'s bql_driver \<Rightarrow> inherited \<Rightarrow> stored_session \<Rightarrow> bql_field list \<Rightarrow> (string, jsval) jsmap \<Rightarrow> bool \<Rightarrow> 's \<Rightarrow>
   ((string, jsval) jsmap \<times> bool) outcome \<times> 's" where
  "run_fields D inh session [] data remaining s = (Inr (data, remaining), s)"
| "run_fields D inh session (f # fs) data remaining s =
     (case bd_field D session f s of
        (Inl e, s1) \<Rightarrow> (Inl e, s1)
      | (Inr r, s1) \<Rightarrow>
          run_fields D inh session fs
            (map_set (bf_key f) (selectBqlResponse inh (timed_result r (bd_now D s1 - bd_now D s)) (bf_selection f)) data)
            (remaining \<or> (bf_name f = ''solve'' \<and> retry_recommended r)) s1)"

section \<open>One attempt\<close>

definition takes_options :: "backend \<Rightarrow> bool" where
  "takes_options b \<longleftrightarrow> b \<in> {CloakBrowser, Camoufox, Clearcote}"

definition temporary_session :: "config \<Rightarrow> string \<Rightarrow> stored_profile option \<Rightarrow> millis \<Rightarrow> stored_session" where
  "temporary_session cfg owner profile now =
     \<lparr>ses_id = [], ses_ownerKeyHash = Some owner, ses_persistent = False, ses_createdAt = 0,
      ses_expiresAt = now + min (jobTimeoutMs cfg) 60000, ses_viewport = (1280, 720), ses_proxyId = None,
      ses_storageState = map_option prf_storageState profile, ses_liveViewer = False\<rparr>"

definition unavailable_error :: "js_error \<Rightarrow> bool" where
  "unavailable_error e \<longleftrightarrow> isOpenBrowseError e \<and> error_code e = ''BROWSER_BACKEND_UNAVAILABLE''"

datatype 'r attempt_end = Finished 'r | Unavailable js_error

text \<open>The \<open>finally\<close> part: its own error replaces whatever the attempt gave.\<close>

definition end_attempt ::
  "'s bql_driver \<Rightarrow> storage_env \<Rightarrow> string \<Rightarrow> 'r outcome \<Rightarrow> storage \<times> 's \<Rightarrow> 'r outcome \<times> storage \<times> 's" where
  "end_attempt D E sid r w =
     (case bd_close D sid (snd w) of
        (Inl e, s1) \<Rightarrow> (Inl e, fst w, s1)
      | (Inr _, s1) \<Rightarrow>
          (case deleteSession E sid (bd_now D s1) (fst w) of
             (Inl e, S1) \<Rightarrow> (Inl e, S1, s1)
           | (Inr _, S1) \<Rightarrow> (r, S1, s1)))"

definition bql_attempt ::
  "'s bql_driver \<Rightarrow> storage_env \<Rightarrow> inherited \<Rightarrow> string \<Rightarrow> stored_profile option \<Rightarrow> backend_options option \<Rightarrow> bql_field list \<Rightarrow>
   backend \<Rightarrow> storage \<times> 's \<Rightarrow> ((string, jsval) jsmap \<times> bool) attempt_end outcome \<times> storage \<times> 's" where
  "bql_attempt D E inh owner profile options acts b w =
     (case createSession E (bd_newId D (snd w)) (bd_iv D (snd w)) (bd_now D (snd w))
             (temporary_session (se_config E) owner profile (bd_now D (snd w))) (fst w) of
        (Inl e, S1) \<Rightarrow> (Inl e, S1, snd w)
      | (Inr session, S1) \<Rightarrow>
          (case bd_live D session b (if takes_options b then options else None) (snd w) of
             (Inl e, s1) \<Rightarrow>
               end_attempt D E (ses_id session) (if unavailable_error e then Inr (Unavailable e) else Inl e) (S1, s1)
           | (Inr _, s1) \<Rightarrow>
               (case run_fields D inh session acts [] False s1 of
                  (Inl e, s2) \<Rightarrow>
                    end_attempt D E (ses_id session) (if unavailable_error e then Inr (Unavailable e) else Inl e) (S1, s2)
                | (Inr r, s2) \<Rightarrow> end_attempt D E (ses_id session) (Inr (Finished r)) (S1, s2))))"

section \<open>The backends in turn\<close>

record bql_outcome =
  bo_data :: "(string, jsval) jsmap"
  bo_selectedBackend :: backend
  bo_challengeRemaining :: bool
  bo_backendAttempts :: "backend list"

definition bql_candidates :: "config \<Rightarrow> backend option \<Rightarrow> bool \<Rightarrow> backend list" where
  "bql_candidates cfg wanted solveRequested =
     filter (\<lambda>b. b \<in> set (enabledBrowserBackends cfg))
       (js_set (or_default wanted (defaultBrowserBackend cfg)
          # (if solveRequested then [Patchright, Clearcote, Camoufox, CloakBrowser] else [])))"

definition no_backend :: js_error where
  "no_backend = ob_err ''BROWSER_BACKEND_DISABLED'' ''No configured browser backend can execute this BrowserQL request'' 409 False"

fun bql_attempts ::
  "(backend \<Rightarrow> 'w \<Rightarrow> ((string, jsval) jsmap \<times> bool) attempt_end outcome \<times> 'w) \<Rightarrow> backend list \<Rightarrow>
   ((string, jsval) jsmap \<times> backend \<times> bool) option \<Rightarrow> js_error option \<Rightarrow> backend list \<Rightarrow> 'w \<Rightarrow> bql_outcome outcome \<times> 'w" where
  "bql_attempts attempt [] final unavailable attempts w =
     ((case final of
         Some (data, b, remaining) \<Rightarrow>
           Inr \<lparr>bo_data = data, bo_selectedBackend = b, bo_challengeRemaining = remaining, bo_backendAttempts = attempts\<rparr>
       | None \<Rightarrow> Inl (or_default unavailable no_backend)), w)"
| "bql_attempts attempt (b # bs) final unavailable attempts w =
     (case attempt b w of
        (Inl e, w1) \<Rightarrow> (Inl e, w1)
      | (Inr (Unavailable e), w1) \<Rightarrow> bql_attempts attempt bs final (Some e) (attempts @ [b]) w1
      | (Inr (Finished (data, remaining)), w1) \<Rightarrow>
          if remaining then bql_attempts attempt bs (Some (data, b, remaining)) unavailable (attempts @ [b]) w1
          else bql_attempts attempt [] (Some (data, b, remaining)) unavailable (attempts @ [b]) w1)"

section \<open>The endpoint\<close>

text \<open>The body and the query are parsed; \<open>admit\<close> is what \<open>queue.run\<close> does before the job starts.\<close>

definition find_profile ::
  "storage_env \<Rightarrow> bql_request \<Rightarrow> string \<Rightarrow> storage \<Rightarrow> stored_profile option outcome" where
  "find_profile E q owner S =
     (let pid = or_default (bq_profileId q) []; name = or_default (bq_profile q) [] in
      if pid = [] \<and> name = [] then Inr None
      else res_bind (if pid \<noteq> [] then getProfile (se_box E) pid owner (sg_profiles S) else getProfileByName (se_box E) name owner (sg_profiles S)) (\<lambda>found.
        case found of
          None \<Rightarrow> Inl (ob_err ''PROFILE_NOT_FOUND'' ''Browser profile does not exist'' 404 False)
        | Some p \<Rightarrow> Inr (Some p)))"

definition options_apply :: "bql_request \<Rightarrow> bool" where
  "options_apply q \<longleftrightarrow>
     bq_browserOptions q = None \<or> (case bq_browserBackend q of None \<Rightarrow> True | Some b \<Rightarrow> takes_options b)"

definition bql_prepare ::
  "storage_env \<Rightarrow> inherited \<Rightarrow> (string \<Rightarrow> rat) \<Rightarrow> (string \<Rightarrow> definition_node list option) \<Rightarrow> bql_request \<Rightarrow> string \<Rightarrow> storage \<Rightarrow>
   (bql_field list \<times> stored_profile option) outcome" where
  "bql_prepare E inh num graphql q owner S =
     res_bind (ensure (\<not> (or_default (bq_profileId q) [] \<noteq> [] \<and> or_default (bq_profile q) [] \<noteq> []))
       (bql_invalid ''Provide profileId or profile query parameter, not both'')) (\<lambda>_.
     res_bind (parseBql inh num graphql (bq_query q) (bq_variables q)) (\<lambda>acts.
     res_bind (find_profile E q owner S) (\<lambda>profile.
     res_bind (ensure (options_apply q)
       (bql_invalid ''BrowserQL browserOptions apply only to CloakBrowser, Camoufox, and Clearcote attempts'')) (\<lambda>_.
     Inr (acts, profile)))))"

definition bql_handler ::
  "'s bql_driver \<Rightarrow> storage_env \<Rightarrow> inherited \<Rightarrow> (string \<Rightarrow> rat) \<Rightarrow> (string \<Rightarrow> definition_node list option) \<Rightarrow>
   ('s \<Rightarrow> millis outcome \<times> 's) \<Rightarrow> ('s \<Rightarrow> 's) \<Rightarrow> (bql_outcome \<times> millis \<Rightarrow> string option) \<Rightarrow>
   bql_request \<Rightarrow> string \<Rightarrow> storage \<times> 's \<Rightarrow> (bql_outcome \<times> millis) outcome \<times> storage \<times> 's" where
  "bql_handler D E inh num graphql admit settled stringify q owner w =
     (case bql_prepare E inh num graphql q owner (fst w) of
        Inl e \<Rightarrow> (Inl e, w)
      | Inr (acts, profile) \<Rightarrow>
          (case admit (snd w) of
             (Inl e, s1) \<Rightarrow> (Inl e, fst w, s1)
           | (Inr queueMs, s1) \<Rightarrow>
               (case bql_attempts (bql_attempt D E inh owner profile (bq_browserOptions q) acts)
                       (bql_candidates (se_config E) (bq_browserBackend q) (list_ex (\<lambda>f. bf_name f = ''solve'') acts))
                       None None [] (fst w, s1) of
                  (r, S2, s2) \<Rightarrow>
                    (res_bind r (\<lambda>x. assertBoundedJson (se_config E) stringify (x, queueMs) ''BrowserQL response''), S2, settled s2))))"

section \<open>No session is left behind\<close>

lemma deleteSession_rows:
  "deleteSession E sid now S = (Inr x, S') \<Longrightarrow> sg_sessions S' = filter (\<lambda>r. ses_id r \<noteq> sid) (sg_sessions S)"
  by (auto simp: deleteSession_def session_delete_def Let_def split: sum.splits)

lemma session_of_row_total:
  assumes "box_ok B" and "iv_ok iv"
  shows "\<exists>x. session_of_row B (s\<lparr>ses_storageState := map_option (encrypt B iv) (truthy v)\<rparr>) = Inr x"
proof (cases "truthy v")
  case (Some t)
  then have "t \<noteq> []" by (auto simp: truthy_def split: option.splits list.splits)
  with decrypt_encrypt [OF assms, of t] have "decrypt B (encrypt B iv t) = Inr t" by simp
  moreover have "truthy (Some (encrypt B iv t)) = Some (encrypt B iv t)"
    by (cases "encrypt B iv t") (simp_all add: truthy_def encrypt_def split: prod.splits)
  ultimately show ?thesis by (simp add: session_of_row_def Some Let_def)
qed (simp add: session_of_row_def truthy_def)

lemma find_snoc: "(\<And>x. x \<in> set xs \<Longrightarrow> \<not> P x) \<Longrightarrow> P y \<Longrightarrow> find P (xs @ [y]) = Some y"
  by (induction xs) auto

text \<open>The row of a session that was just created can be deleted.\<close>

lemma created_deleted:
  assumes "box_ok (se_box E)" and "iv_ok iv" and "createSession E newId iv now inp S = (Inr s, S1)"
    and "deleteSession E (ses_id s) now' S1 = (r, S2)"
  shows "(\<exists>x. r = Inr x) \<and> sg_sessions S2 = sg_sessions S"
proof -
  let ?row = "inp\<lparr>ses_id := newId, ses_createdAt := now,
    ses_storageState := map_option (encrypt (se_box E) iv) (truthy (ses_storageState inp))\<rparr>"
  from assms(3) have s: "ses_id s = newId" "newId \<notin> ses_id ` set (sg_sessions S)" "sg_sessions S1 = sg_sessions S @ [?row]"
    by (auto simp: createSession_def session_create_def Let_def split: if_splits)
  have "\<exists>x. session_get (se_box E) newId now' (sg_sessions S1) = Inr x"
  proof -
    have "find (\<lambda>r. ses_id r = newId) (sg_sessions S1) = Some ?row" unfolding s(3) by (rule find_snoc) (use s(2) in auto)
    with session_of_row_total [OF assms(1,2), where s = "inp\<lparr>ses_id := newId, ses_createdAt := now\<rparr>" and v = "ses_storageState inp"]
    show ?thesis by (auto simp: session_get_def)
  qed
  then obtain x where x: "session_get (se_box E) newId now' (sg_sessions S1) = Inr x" by blast
  then have "r = Inr (x \<noteq> None)" "sg_sessions S2 = filter (\<lambda>r. ses_id r \<noteq> newId) (sg_sessions S1)"
    using assms(4) s(1) by (auto simp: deleteSession_def session_delete_def Let_def)
  moreover have "filter (\<lambda>r. ses_id r \<noteq> newId) (sg_sessions S) = sg_sessions S"
    using s(2) by (intro filter_True) auto
  ultimately show ?thesis by (simp add: s(3))
qed

definition driver_ok :: "'s bql_driver \<Rightarrow> bool" where
  "driver_ok D \<longleftrightarrow> (\<forall>s. iv_ok (bd_iv D s)) \<and> (\<forall>sid s. \<exists>s'. bd_close D sid s = (Inr (), s'))"

lemma end_attempt_rows:
  assumes "box_ok (se_box E)" and "driver_ok D" and "createSession E newId (bd_iv D s0) now inp S = (Inr session, S1)"
    and "end_attempt D E (ses_id session) r (S1, s) = (r', S2, s')"
  shows "sg_sessions S2 = sg_sessions S \<and> r' = r"
proof -
  from assms(2) obtain s1 where s1: "bd_close D (ses_id session) s = (Inr (), s1)" unfolding driver_ok_def by blast
  obtain d S3 where d: "deleteSession E (ses_id session) (bd_now D s1) S1 = (d, S3)"
    by (cases "deleteSession E (ses_id session) (bd_now D s1) S1")
  have "iv_ok (bd_iv D s0)" using assms(2) by (simp add: driver_ok_def)
  from created_deleted [OF assms(1) this assms(3) d] s1 d assms(4) show ?thesis
    by (auto simp: end_attempt_def split: sum.splits)
qed

lemma bql_attempt_rows:
  assumes "box_ok (se_box E)" and "driver_ok D" and "bql_attempt D E inh owner profile options acts b w = (r, w')"
  shows "sg_sessions (fst w') = sg_sessions (fst w)"
proof -
  obtain S s where w: "w = (S, s)" by (cases w)
  obtain c S1 where c: "createSession E (bd_newId D s) (bd_iv D s) (bd_now D s)
      (temporary_session (se_config E) owner profile (bd_now D s)) S = (c, S1)"
    by (cases "createSession E (bd_newId D s) (bd_iv D s) (bd_now D s) (temporary_session (se_config E) owner profile (bd_now D s)) S")
  show ?thesis
  proof (cases c)
    case (Inl e)
    with c have "S1 = S" by (auto simp: createSession_def session_create_def Let_def split: if_splits)
    with Inl c assms(3) w show ?thesis by (simp add: bql_attempt_def)
  next
    case (Inr session)
    with assms(3) w c obtain r0 s0 where "end_attempt D E (ses_id session) r0 (S1, s0) = (r, w')"
      by (auto simp: bql_attempt_def split: sum.splits prod.splits)
    moreover obtain S2 s2 where w': "w' = (S2, s2)" by (cases w')
    ultimately have "sg_sessions S2 = sg_sessions S" using end_attempt_rows [OF assms(1,2) c [unfolded Inr]] by blast
    with w w' show ?thesis by simp
  qed
qed

lemma bql_attempts_rows:
  assumes "\<And>b w r w'. attempt b w = (r, w') \<Longrightarrow> f w' = f w"
  shows "bql_attempts attempt bs final un done' w = (r, w') \<Longrightarrow> f w' = f w"
proof (induction bs arbitrary: final un done' w)
  case (Cons b bs)
  obtain a w1 where a: "attempt b w = (a, w1)" by (cases "attempt b w")
  with assms have "f w1 = f w" by blast
  with Cons a show ?case by (auto split: sum.splits attempt_end.splits if_splits prod.splits)
qed simp

text \<open>C23. A BrowserQL request leaves no session behind: on every path, errors of the actions, unavailable backends and
  failing bounds included, the table of sessions is the same afterwards, as long as closing the live session
  does not fail itself.\<close>

theorem bql_leaves_no_session:
  assumes "box_ok (se_box E)" and "driver_ok D"
    and "bql_handler D E inh num graphql admit settled stringify q owner (S, s) = (r, S', s')"
  shows "sg_sessions S' = sg_sessions S"
proof -
  have rows: "sg_sessions (fst w') = sg_sessions (fst w)"
    if "bql_attempts (bql_attempt D E inh owner profile opts acts) bs None None [] w = (x, w')" for profile opts acts bs w x w'
    by (rule bql_attempts_rows [OF _ that]) (rule bql_attempt_rows [OF assms(1,2)])
  from assms(3) show ?thesis
    by (auto simp: bql_handler_def split: sum.splits prod.splits dest!: rows)
qed

section \<open>Which attempts are made\<close>

lemma candidates_enabled: "set (bql_candidates cfg wanted solve) \<subseteq> set (enabledBrowserBackends cfg) \<and> distinct (bql_candidates cfg wanted solve)"
  by (auto simp: bql_candidates_def)

lemma bql_attempts_result:
  assumes "bql_attempts attempt bs final un done' w = (Inr x, w')"
    and "final = None \<or> (\<exists>data. \<exists>b \<in> set done'. final = Some (data, b, True))"
  shows "\<exists>tried rest. bs = tried @ rest \<and> bo_backendAttempts x = done' @ tried \<and> bo_selectedBackend x \<in> set (bo_backendAttempts x) \<and>
    (bo_challengeRemaining x \<longrightarrow> rest = []) \<and> (\<not> bo_challengeRemaining x \<longrightarrow> bo_selectedBackend x = last (bo_backendAttempts x))"
  using assms
proof (induction bs arbitrary: final un done' w)
  case Nil
  then show ?case by (auto split: option.splits)
next
  case (Cons b bs)
  obtain a w1 where a: "attempt b w = (a, w1)" by (cases "attempt b w")
  have go: ?case if r: "bql_attempts attempt bs f u (done' @ [b]) w1 = (Inr x, w')"
    and f: "f = None \<or> (\<exists>data. \<exists>c \<in> set (done' @ [b]). f = Some (data, c, True))" for f u
  proof -
    from Cons.IH [OF r f] show ?thesis
      by (elim exE, rename_tac tried rest, rule_tac x = "b # tried" in exI, rule_tac x = rest in exI) simp
  qed
  from Cons.prems(1) a show ?case
  proof (cases a)
    case (Inr y)
    show ?thesis
    proof (cases y)
      case (Finished z)
      obtain data remaining where z: "z = (data, remaining)" by (cases z)
      show ?thesis
      proof (cases remaining)
        case True
        with Cons.prems(1) a Inr Finished z show ?thesis by (intro go) auto
      next
        case False
        with Cons.prems(1) a Inr Finished z have "x = \<lparr>bo_data = data, bo_selectedBackend = b, bo_challengeRemaining = False,
          bo_backendAttempts = done' @ [b]\<rparr>" by simp
        then show ?thesis by (intro exI [of _ "[b]"] exI [of _ bs]) simp
      qed
    next
      case (Unavailable e)
      with Cons.prems a Inr show ?thesis by (intro go) auto
    qed
  qed simp
qed

text \<open>A BrowserQL answer tells which backends were tried: they are the first of the candidates, each enabled and none
  twice; the selected one is among them; the search ends with the first answer that shows no remaining challenge, and a
  remaining challenge is only reported after every candidate was tried.\<close>

theorem bql_attempts_reported:
  assumes "bql_handler D E inh num graphql admit settled stringify q owner w = (Inr (x, queueMs), w')"
  shows "\<exists>solve tried rest. bql_candidates (se_config E) (bq_browserBackend q) solve = tried @ rest \<and> bo_backendAttempts x = tried \<and>
    set tried \<subseteq> set (enabledBrowserBackends (se_config E)) \<and> distinct tried \<and> bo_selectedBackend x \<in> set tried \<and>
    (bo_challengeRemaining x \<longrightarrow> rest = []) \<and> (\<not> bo_challengeRemaining x \<longrightarrow> bo_selectedBackend x = last tried)"
proof -
  from assms obtain acts profile v w1 where "bql_attempts (bql_attempt D E inh owner profile (bq_browserOptions q) acts)
      (bql_candidates (se_config E) (bq_browserBackend q) (list_ex (\<lambda>f. bf_name f = ''solve'') acts)) None None [] v = (Inr x, w1)"
    by (auto simp: bql_handler_def res_bind_Inr_iff split: sum.splits prod.splits)
  from bql_attempts_result [OF this] candidates_enabled show ?thesis
    by (metis (no_types, lifting) append_Nil distinct_append le_sup_iff option.distinct(1) set_append)
qed

section \<open>A run\<close>

definition quiet_driver :: "nat bql_driver" where
  "quiet_driver = \<lparr>bd_now = int, bd_newId = (\<lambda>_. ''tmp''), bd_iv = (\<lambda>_. ''iv''), bd_live = (\<lambda>_ _ _ s. (Inr (), s)),
     bd_field = (\<lambda>_ _ s. (Inr (JObj [(''title'', JStr ''a''), (''status'', JNum 200)]), Suc s)), bd_close = (\<lambda>_ s. (Inr (), s))\<rparr>"

definition title_query :: "string \<Rightarrow> definition_node list option" where
  "title_query _ = Some [OtherDefinition, OperationDefinition OpMutation
     [FieldSelection (FieldNode (Some ''t'') ''title'' [] (Some [FieldSelection (FieldNode None ''title'' [] None)]))]]"

definition title_request :: bql_request where
  "title_request = \<lparr>bq_query = ''mutation { t: title { title } }'', bq_variables = [], bq_profileId = None, bq_profile = None,
     bq_browserBackend = None, bq_browserOptions = None\<rparr>"

abbreviation title_action :: bql_field where
  "title_action \<equiv> \<lparr>bf_name = ''title'', bf_key = ''t'', bf_args = [], bf_selection = [FieldNode None ''title'' [] None]\<rparr>"

lemma title_prepared: "bql_prepare E (\<lambda>_. None) (\<lambda>_. 0) title_query title_request ''ann'' S = Inr ([title_action], None)"
  by (simp add: ensure_def bql_prepare_def title_request_def or_default_def parseBql_def title_query_def find_profile_def options_apply_def)

lemma title_attempt:
  "bql_attempt quiet_driver sample_env (\<lambda>_. None) ''ann'' None options [title_action] b (sample_storage, 0)
     = (Inr (Finished ([(''t'', JObj [(''title'', JStr ''a'')])], False)), sample_storage, 1)"
proof -
  have cut: "selectBqlResponse (\<lambda>_. None) (timed_result (JObj [(''title'', JStr ''a''), (''status'', JNum 200)]) 1) [FieldNode None ''title'' [] None]
      = JObj [(''title'', JStr ''a'')]"
    by (simp add: selectBqlResponse.simps timed_result_def js_lookup_def from_entries_def)
  then show ?thesis
    by (simp add: bql_attempt_def quiet_driver_def createSession_def session_create_def temporary_session_def sample_storage_def
        sample_session_def retry_recommended_def end_attempt_def deleteSession_def session_delete_def session_get_def truthy_def
        Let_def session_of_row_def handoff_revokeForSession_def)
qed

lemma title_run:
  "\<exists>x S' s'. bql_handler quiet_driver sample_env (\<lambda>_. None) (\<lambda>_. 0) title_query (\<lambda>s. (Inr 3, s)) id (\<lambda>_. None) title_request ''ann''
     (sample_storage, 0) = (Inr (x, 3), S', s') \<and> bo_selectedBackend x = defaultBrowserBackend sample_config"
proof -
  have d: "defaultBrowserBackend sample_config \<in> set (enabledBrowserBackends sample_config)" "4 \<le> maxResponseBytes sample_config"
    using sample_config_ok by (simp_all add: config_ok_def)
  have c: "bql_candidates sample_config None False = [defaultBrowserBackend sample_config]"
    by (simp add: bql_candidates_def js_set_def or_default_def d)
  have f: "se_config sample_env = sample_config" "bq_browserBackend title_request = None" by (simp_all add: sample_env_def title_request_def)
  have bytes: "jsonBytes (\<lambda>_. None) v = 4" for v :: "bql_outcome \<times> int" by (simp add: jsonBytes_def json_text_def utf8_length_def)
  show ?thesis
    by (simp add: bql_handler_def title_prepared title_attempt c f assertBoundedJson_def bytes d not_less)
qed

theorem bql_leaves_no_session_witness:
  "\<exists>r S' s'. bql_handler quiet_driver sample_env (\<lambda>_. None) (\<lambda>_. 0) title_query (\<lambda>s. (Inr 3, s)) id (\<lambda>_. None) title_request ''ann''
     (sample_storage, 0) = (Inr r, S', s') \<and> sg_sessions S' = [sample_session]"
proof -
  obtain x S' s' where run: "bql_handler quiet_driver sample_env (\<lambda>_. None) (\<lambda>_. 0) title_query (\<lambda>s. (Inr 3, s)) id (\<lambda>_. None)
      title_request ''ann'' (sample_storage, 0) = (Inr (x, 3), S', s')" using title_run by blast
  have "box_ok (se_box sample_env)" "driver_ok quiet_driver"
    by (simp_all add: sample_env_def hex_box_ok driver_ok_def quiet_driver_def iv_ok_def)
  from bql_leaves_no_session [OF this run] run show ?thesis by (auto simp: sample_storage_def)
qed

theorem bql_attempts_reported_witness:
  "\<exists>x S' s'. bql_handler quiet_driver sample_env (\<lambda>_. None) (\<lambda>_. 0) title_query (\<lambda>s. (Inr 3, s)) id (\<lambda>_. None) title_request ''ann''
     (sample_storage, 0) = (Inr (x, 3), S', s') \<and> bo_selectedBackend x = defaultBrowserBackend sample_config \<and>
     set (bo_backendAttempts x) \<subseteq> set (enabledBrowserBackends sample_config)"
proof -
  obtain x S' s' where run: "bql_handler quiet_driver sample_env (\<lambda>_. None) (\<lambda>_. 0) title_query (\<lambda>s. (Inr 3, s)) id (\<lambda>_. None)
      title_request ''ann'' (sample_storage, 0) = (Inr (x, 3), S', s')" "bo_selectedBackend x = defaultBrowserBackend sample_config" using title_run by blast
  from bql_attempts_reported [OF run(1)] run show ?thesis by (auto simp: sample_env_def)
qed

end
