(* ===== verification/OB_Content_Props.thy ===== *)
theory OB_Content_Props
  imports OB_Content
begin

text \<open>
  What the fetch pipeline of \<open>OB_Content\<close> reports about itself: the stages it ran and whether the page
  it returns still shows a challenge.
\<close>

section \<open>The browser stage\<close>

text \<open>What the pipeline relies on of \<open>BrowserPool.withContext\<close>: a result is the result of the callback.\<close>

definition runs_callback :: "'s fetch_env \<Rightarrow> bool" where
  "runs_callback E \<longleftrightarrow>
     (\<forall>v p body b opts w r w'. fe_withContext E v p body b opts w = (Inr r, w') \<longrightarrow>
        (\<exists>lease w1 w2. body lease w1 = (Inr r, w2)))"

definition render_report_ok :: "rendered \<Rightarrow> bool" where
  "render_report_ok r \<longleftrightarrow>
     ex_challengeDetected (rd_execution r) = (if hasAccessChallenge (rd_html r) then Some True else None) \<and>
     \<not> ex_escalated (rd_execution r)"

lemma render_page_ok: "render_page E inp ds b started lease w = (Inr r, w') \<Longrightarrow> render_report_ok r"
  unfolding render_page_def Let_def then_do_Inr_iff Pair_inject res_bind_Inr_iff
  by (elim exE conjE) (simp add: render_report_ok_def then_do_Inr_iff res_bind_Inr_iff, (elim exE conjE)?, auto)

lemma browserFetch_ok:
  assumes "runs_callback E" and "browserFetch E inp ds w = (Inr r, w')"
  shows "render_report_ok r"
proof -
  obtain v p b t opts w1 where "fe_withContext E v p (render_page E inp ds b t) b opts w1 = (Inr r, w')"
    using assms(2) by (auto simp: browserFetch_def Let_def split: sum.splits prod.splits)
  with assms(1) obtain lease w2 w3 where "render_page E inp ds b t lease w2 = (Inr r, w3)"
    unfolding runs_callback_def by meson
  then show ?thesis by (rule render_page_ok)
qed

lemma render_attempt_ok:
  "runs_callback E \<Longrightarrow> fst (render_attempt E inp ds b options w) = Inr (r, challenged) \<Longrightarrow>
     render_report_ok r \<and> (challenged \<longleftrightarrow> hasAccessChallenge (rd_html r))"
  by (auto simp: render_attempt_def then_do_def render_report_ok_def split: sum.splits prod.splits dest: browserFetch_ok)

definition fallback_report_ok :: "config \<Rightarrow> rendered \<Rightarrow> bool" where
  "fallback_report_ok cfg r \<longleftrightarrow>
     ex_challengeRemaining (rd_execution r) = Some (hasAccessChallenge (rd_html r)) \<and>
     \<not> ex_escalated (rd_execution r) \<and>
     (\<exists>b. ex_selectedBackend (rd_execution r) = Some b \<and> b \<in> set (ex_backendAttempts (rd_execution r))) \<and>
     distinct (ex_backendAttempts (rd_execution r)) \<and>
     set (ex_backendAttempts (rd_execution r)) \<subseteq> set (enabledBrowserBackends cfg)"

lemma renderWithChallengeFallback_ok:
  assumes "runs_callback E" and "renderWithChallengeFallback E inp decision ds w = (Inr r, w')"
  shows "fallback_report_ok (fe_config E) r"
proof -
  let ?bs = "challengeFallbackBackends (fe_config E) (bd_selected decision)"
  obtain fb where fb: "runChallengeFallback (fe_config E) (fe_admission E) (render_attempt E inp ds) inp
        (bd_selected decision) None w = (Inr fb, w')"
    and r: "r = (fb_value fb)\<lparr>rd_execution := (rd_execution (fb_value fb))\<lparr>ex_backendAttempts := fb_backendAttempts fb,
        ex_selectedBackend := Some (fb_selectedBackend fb), ex_challengeRemaining := Some (fb_challengeRemaining fb)\<rparr>\<rparr>"
    using assms(2) by (auto simp: renderWithChallengeFallback_def then_do_Inr_iff Let_def)
  from runChallengeFallback_ok [OF fb]
  have ok: "distinct (fb_backendAttempts fb)" "set (fb_backendAttempts fb) \<subseteq> set (enabledBrowserBackends (fe_config E))"
    "fb_selectedBackend fb \<in> set (fb_backendAttempts fb)"
    "produced (render_attempt E inp ds) inp (fb_selectedBackend fb) (fb_value fb) (fb_challengeRemaining fb)"
    by (simp_all add: fallback_ok_def)
  from ok(4) render_attempt_ok [OF assms(1)]
  have "render_report_ok (fb_value fb)" "fb_challengeRemaining fb \<longleftrightarrow> hasAccessChallenge (rd_html (fb_value fb))"
    unfolding produced_def by blast+
  with ok(1-3) show ?thesis by (simp add: fallback_report_ok_def r render_report_ok_def)
qed

section \<open>The adaptive fetch\<close>

lemma explicit_browser_Inr:
  assumes "runs_callback E" and "explicit_browser E inp plan w = (Inr r, w')"
  shows "\<exists>rd report. r = browser_result rd [StageBrowser] 0 report \<and> fallback_report_ok (fe_config E) (rd\<lparr>rd_execution := report\<rparr>) \<and>
    ex_plan report = plan \<and> ex_strategyUsed report = StageBrowser \<and> ex_strategyRequested report = BrowserOnly"
proof -
  obtain decision rd report where rd: "renderWithChallengeFallback E inp decision False w = (Inr rd, w')"
    and r: "r = browser_result rd [StageBrowser] 0 report"
    and report: "ex_plan report = plan" "ex_strategyUsed report = StageBrowser" "ex_strategyRequested report = BrowserOnly"
      "ex_escalated report = ex_escalated (rd_execution rd)"
      "ex_challengeRemaining report = ex_challengeRemaining (rd_execution rd)"
      "ex_selectedBackend report = ex_selectedBackend (rd_execution rd)"
      "ex_backendAttempts report = ex_backendAttempts (rd_execution rd)"
    using assms(2) unfolding explicit_browser_def then_do_Inr_iff by auto
  from renderWithChallengeFallback_ok [OF assms(1) rd] report show ?thesis
    unfolding r by (intro exI [of _ rd] exI [of _ report]) (simp add: fallback_report_ok_def)
qed

lemma escalate_Inr:
  assumes "runs_callback E" and "escalate E inp http a resolved timeline w = (Inr r, w')"
  shows "\<exists>rd report. r = browser_result rd [StageHttp, StageBrowser] (hr_fetchMs http) report \<and>
    fallback_report_ok (fe_config E) (rd\<lparr>rd_execution := report\<lparr>ex_escalated := False\<rparr>\<rparr>) \<and> ex_escalated report \<and>
    ex_plan report = resolved \<and> ex_strategyUsed report = StageBrowser \<and> ex_analysis report = Some a \<and>
    ex_strategyRequested report = or_default (in_strategy inp) Auto"
proof -
  obtain decision rd report where rd: "renderWithChallengeFallback E inp decision True w = (Inr rd, w')"
    and r: "r = browser_result rd [StageHttp, StageBrowser] (hr_fetchMs http) report"
    and report: "ex_plan report = resolved" "ex_strategyUsed report = StageBrowser" "ex_analysis report = Some a"
      "ex_strategyRequested report = or_default (in_strategy inp) Auto" "ex_escalated report"
      "ex_challengeRemaining report = ex_challengeRemaining (rd_execution rd)"
      "ex_selectedBackend report = ex_selectedBackend (rd_execution rd)"
      "ex_backendAttempts report = ex_backendAttempts (rd_execution rd)"
    using assms(2) unfolding escalate_def then_do_Inr_iff Let_def by auto
  from renderWithChallengeFallback_ok [OF assms(1) rd] report show ?thesis
    unfolding r by (intro exI [of _ rd] exI [of _ report]) (simp add: fallback_report_ok_def)
qed

lemma httpFetch_report:
  assumes "httpFetch cfg P dns net utf8 showNum clock inp w = (Inr h, w')"
  shows "ex_challengeRemaining (hr_execution h) = None"
proof -
  obtain st ms t where "hr_execution h = http_report cfg showNum inp st ms t"
    using assms by (cases clock) (fastforce simp: httpFetch_def res_bind_Inr_iff Let_def split: sum.splits prod.splits)
  then show ?thesis by (simp add: http_report_def)
qed

lemma html_challenged_Some: "html_challenged (Some t) \<longleftrightarrow> hasAccessChallenge t"
proof -
  have "\<not> hasAccessChallenge []" by code_simp
  then show ?thesis by (auto simp: html_challenged_def)
qed

lemma http_answer_fields:
  assumes "ex_challengeRemaining (hr_execution h) = None"
  shows "fr_strategy (http_answer h st a plan) = StageHttp" "fr_attempted (http_answer h st a plan) = [StageHttp]"
    "fr_html (http_answer h st a plan) = hr_html h" "ex_plan (fr_execution (http_answer h st a plan)) = plan"
    "ex_strategyUsed (fr_execution (http_answer h st a plan)) = StageHttp"
    "ex_strategyRequested (fr_execution (http_answer h st a plan)) = st"
    "\<not> ex_escalated (fr_execution (http_answer h st a plan))"
    "ex_challengeRemaining (fr_execution (http_answer h st a plan)) = (if html_challenged (hr_html h) then Some True else None)"
  using assms by (simp_all add: http_answer_def http_result_of_def Let_def)

lemma browser_result_fields:
  "fr_strategy (browser_result rd st ms report) = StageBrowser" "fr_attempted (browser_result rd st ms report) = st"
  "fr_html (browser_result rd st ms report) = Some (rd_html rd)" "fr_execution (browser_result rd st ms report) = report"
  by (simp_all add: browser_result_def)

text \<open>What a result says about the stages that were run, for a strategy that was asked for.\<close>

definition stages_reported :: "config \<Rightarrow> strategy \<Rightarrow> fetch_result \<Rightarrow> bool" where
  "stages_reported cfg asked r \<longleftrightarrow>
     (let report = fr_execution r in
      plan_stages (ex_plan report) = fr_attempted r \<and> fr_strategy r = last (fr_attempted r) \<and>
      ex_strategyUsed report = fr_strategy r \<and> ex_strategyRequested report = asked \<and>
      fr_attempted r \<in> (case asked of HttpOnly \<Rightarrow> {[StageHttp]} | BrowserOnly \<Rightarrow> {[StageBrowser]}
                              | Auto \<Rightarrow> {[StageHttp], [StageHttp, StageBrowser]}) \<and>
      (ex_escalated report \<longleftrightarrow> fr_attempted r = [StageHttp, StageBrowser]) \<and>
      (fr_strategy r = StageBrowser \<longrightarrow>
         (\<exists>b \<in> set (ex_backendAttempts report). ex_selectedBackend report = Some b \<and> b \<in> set (enabledBrowserBackends cfg))) \<and>
      (ex_challengeRemaining report = Some True \<longleftrightarrow> html_challenged (fr_html r)) \<and>
      (asked = Auto \<and> fr_strategy r = StageHttp \<longrightarrow> \<not> html_challenged (fr_html r)))"

lemma plan_stages_of:
  "or_default (in_strategy inp) Auto = HttpOnly \<Longrightarrow> plan_stages (planExecution cfg showNum inp opts) = [StageHttp]"
  "or_default (in_strategy inp) Auto = BrowserOnly \<Longrightarrow> plan_stages (planExecution cfg showNum inp opts) = [StageBrowser]"
  "or_default (in_strategy inp) Auto = Auto \<Longrightarrow> po_browserAvailable opts = None \<Longrightarrow>
     plan_stages (resolvedPlan (planExecution cfg showNum inp opts) a) =
       (if an_browserRecommended a then [StageHttp, StageBrowser] else [StageHttp])"
  by (simp_all add: planExecution_def resolvedPlan_def Let_def)

lemma stages_after_http:
  assumes "runs_callback E" and "after_http E inp plan h obs w = (Inr r, obs', w')"
    and "plan = planExecution (fe_config E) (fe_showNumber E) inp (no_options\<lparr>po_domainObservation := seen\<rparr>)"
    and "ex_challengeRemaining (hr_execution h) = None" and "or_default (in_strategy inp) Auto \<noteq> BrowserOnly"
  shows "stages_reported (fe_config E) (or_default (in_strategy inp) Auto) r"
proof -
  let ?asked = "or_default (in_strategy inp) Auto" and ?a = "page_analysis E h"
  let ?resolved = "if ?asked = HttpOnly then plan else resolvedPlan plan ?a"
  have avail: "po_browserAvailable (no_options\<lparr>po_domainObservation := seen\<rparr>) = None" by (simp add: no_options_def)
  have asked: "?asked = HttpOnly \<or> ?asked = Auto" using assms(5) strategy.exhaust by blast
  show ?thesis
  proof (cases "?asked = HttpOnly \<or> (\<not> an_browserRecommended ?a \<and> \<not> html_challenged (hr_html h))")
    case True
    then have r: "r = http_answer h ?asked ?a ?resolved"
      using assms(2) by (auto simp: after_http_def Let_def split: sum.splits)
    show ?thesis
      using asked True plan_stages_of(1,3) avail
      by (auto simp: stages_reported_def r Let_def http_answer_fields [OF assms(4)] assms(3))
  next
    case False
    then have auto: "?asked = Auto" and rec: "an_browserRecommended ?a"
      using asked by (auto simp: page_analysis_def challenged_analysis_def Let_def)
    obtain w2 where "escalate E inp h ?a ?resolved (http_timeline h ?a) w = (Inr r, w2)"
      using assms(2) False by (auto simp: after_http_def Let_def split: sum.splits prod.splits)
    from escalate_Inr [OF assms(1) this] obtain rd report where
      r: "r = browser_result rd [StageHttp, StageBrowser] (hr_fetchMs h) report"
      and ok: "fallback_report_ok (fe_config E) (rd\<lparr>rd_execution := report\<lparr>ex_escalated := False\<rparr>\<rparr>)"
      and f: "ex_escalated report" "ex_plan report = resolvedPlan plan ?a" "ex_strategyUsed report = StageBrowser"
        "ex_strategyRequested report = Auto" by (auto simp: auto)
    show ?thesis
      using ok plan_stages_of(3) [OF auto avail, of "fe_config E" "fe_showNumber E" ?a]
      by (auto simp: stages_reported_def r browser_result_fields f auto rec assms(3) fallback_report_ok_def html_challenged_Some)
  qed
qed


text \<open>A network that answers with an empty text, and a browser that is never asked.\<close>

definition plain_page :: page_facts where
  "plain_page = \<lparr>pf_scripts = [], pf_moduleScripts = 0, pf_text = ''hello'', pf_first = (\<lambda>_. None)\<rparr>"

definition answering :: "unit timed network" where
  "answering rq w = (Inr \<lparr>rp_status = 200, rp_url = [], rp_location = None, rp_contentType = Some ''text/plain'',
     rp_declared = None, rp_body = None\<rparr>, w)"

definition idle_page :: "unit page" where
  "idle_page = \<lparr>pg_goto = (\<lambda>_ _ s. (Inr None, 0, s)), pg_waitForLoadState = (\<lambda>_ _ s. (Inr (), 0, s)),
     pg_waitForSelector = (\<lambda>_ _ s. (Inr (), 0, s)), pg_waitForTimeout = (\<lambda>_ s. (Inr (), 0, s)),
     pg_stability = (\<lambda>_ s. (Inr (), 0, s)), pg_content = (\<lambda>s. (Inr [], 0, s)), pg_documents = (\<lambda>_. []), pg_url = (\<lambda>_. [])\<rparr>"

definition sample_fetch_env :: "unit fetch_env" where
  "sample_fetch_env = \<lparr>fe_config = sample_config, fe_parsers = sample_parsers, fe_resolver = (\<lambda>_ _. None),
     fe_renderResolver = (\<lambda>_ _. None), fe_network = answering, fe_utf8 = (\<lambda>_. []), fe_showNumber = (\<lambda>_. []),
     fe_httpClock = (5, 5, 5), fe_load = (\<lambda>_. plain_page), fe_platform = ''linux'', fe_page = idle_page,
     fe_withContext = (\<lambda>_ _ body _ _ w. body \<lparr>bl_reusedWorker = True, bl_acquireMs = 0\<rparr> w),
     fe_admission = (\<lambda>_ _ w. (\<lparr>ad_allowed = True, ad_reason = WarmCapacity, ad_currentRssMb = 0,
        ad_estimatedMemoryMb = 0, ad_warmCapacity = 0\<rparr>, w))\<rparr>"

lemma sample_http:
  assumes "proxy_domains inp = None"
  shows "\<exists>h. httpFetch sample_config sample_parsers (\<lambda>_ _. None) answering (\<lambda>_. []) (\<lambda>_. []) (5, 5, 5) inp ((), 0) = (Inr h, (), 0)
     \<and> hr_html h = None \<and> hr_status h = 200 \<and> hr_contentType h = ''text/plain''"
proof -
  let ?r = "\<lparr>safe_url = public_url, safe_addresses = [(''93.184.216.34'', 4)]\<rparr>"
  have r: "resolveSafeUrl (\<lambda>_. Some public_url) (\<lambda>_. None) v None = Inr ?r" for v by code_simp
  have "follow sample_config sample_parsers (\<lambda>_ _. None) answering inp n i ?r ((), 0) = (Inr (?r, \<lparr>rp_status = 200,
      rp_url = [], rp_location = None, rp_contentType = Some ''text/plain'', rp_declared = None, rp_body = None\<rparr>), ((), 0))" for n i
    by (subst follow.simps) (simp add: answering_def redirect_statuses_def)
  moreover have "\<not> str_includes ''text/plain'' ''html''" by code_simp
  ultimately show ?thesis
    by (simp add: httpFetch_def sample_simps assms r readBoundedResponse_def normalizeUrl_def or_default_def)
qed

lemma sample_fetch:
  assumes "or_default (in_strategy inp) Auto = Auto" and "proxy_domains inp = None"
  shows "\<exists>r obs. adaptiveFetch sample_fetch_env inp default_observation_store ((), 0) = (Inr r, obs, ((), 0)) \<and>
    fr_html r = None \<and> ex_challengeRemaining (fr_execution r) = None"
proof -
  obtain h where h: "httpFetch sample_config sample_parsers (\<lambda>_ _. None) answering (\<lambda>_. []) (\<lambda>_. []) (5, 5, 5) inp ((), 0) = (Inr h, (), 0)"
    "hr_html h = None" "hr_status h = 200" "hr_contentType h = ''text/plain''" using sample_http [OF assms(2)] by blast
  have a: "\<not> an_browserRecommended (analyzeClientRendering (\<lambda>_. plain_page) None 200 ''text/plain'')"
    "an_reason (analyzeClientRendering (\<lambda>_. plain_page) None 200 ''text/plain'') = NonHtmlResponse" by code_simp+
  have host: "hostname (\<lambda>_. Some public_url) v = Inr ''93.184.216.34''" for v by code_simp
  have fields: "fe_config sample_fetch_env = sample_config" "fe_parsers sample_fetch_env = sample_parsers" "fe_resolver sample_fetch_env = (\<lambda>_ _. None)"
    "fe_network sample_fetch_env = answering" "fe_utf8 sample_fetch_env = (\<lambda>_. [])" "fe_showNumber sample_fetch_env = (\<lambda>_. [])"
    "fe_httpClock sample_fetch_env = (5, 5, 5)" "fe_load sample_fetch_env = (\<lambda>_. plain_page)"
    by (simp_all add: sample_fetch_env_def)
  have obs: "observation_get (\<lambda>_. Some public_url) v 0 default_observation_store = Inr (None, default_observation_store)" for v
    by (simp add: observation_get_def host default_observation_store_def new_observation_store_def)
  have pa: "page_analysis sample_fetch_env h = analyzeClientRendering (\<lambda>_. plain_page) None 200 ''text/plain''"
    by (simp add: page_analysis_def h fields html_challenged_def)
  have rec: "record_observation (\<lambda>_. Some public_url) v (analyzeClientRendering (\<lambda>_. plain_page) None 200 ''text/plain'') 0
      default_observation_store = Inr default_observation_store" for v
    by (simp add: record_observation_def a)
  note answer = http_answer_fields [OF httpFetch_report [OF h(1)]]
  from rec show ?thesis
    by (simp add: answer adaptiveFetch_def after_http_def fields sample_simps obs assms h pa a html_challenged_def Let_def)
qed


text \<open>A page whose challenge never goes away.\<close>

definition stubborn_page :: "unit page" where
  "stubborn_page = idle_page\<lparr>pg_content := (\<lambda>s. (Inr ''data-sitekey'', 0, s))\<rparr>"

theorem challenge_waited_out_witness:
  "\<exists>c w. observeChallengeResolution stubborn_page ''data-sitekey'' 900 ((), 0) = (Inr c, w) \<and> 900 \<le> co_waitedMs c"
proof -
  have e: "observeChallengeResolution stubborn_page ''data-sitekey'' 900 ((), 0)
      = (Inr \<lparr>co_html = ''data-sitekey'', co_waitedMs = 900, co_resolved = False\<rparr>, ((), 900))"
  proof -
    have nap: "sleep_for stubborn_page ms ((), t) = (Inr (), ((), t + max 0 ms))"
      "spend (pg_content stubborn_page) ((), t) = (Inr ''data-sitekey'', ((), t))" for ms t
      by (simp_all add: sleep_for_def spend_def stubborn_page_def idle_page_def)
    show ?thesis
      by (simp add: observeChallengeResolution_def site_key_challenge observe_loop.simps nap)
  qed
  from challenge_waited_out [OF e] e show ?thesis by simp
qed

end
