(* ===== verification/OB_Fetch_Props.thy ===== *)
theory OB_Fetch_Props
  imports OB_Fetch OB_Content_Props
begin

text \<open>
  What the fetch service promises about its cache: a response served from it was computed by an earlier
  request with the same key that was allowed to be stored. The proof rests on the interpretation of the cache laws on
  the disk store, \<open>disk_cache\<close>.
\<close>

section \<open>One request\<close>

lemma key_is_digest [simp]: "digest_key (fetch_key V b n)"
  by (simp add: digest_key_def fetch_key_def cacheKey_def starts_with_def)

lemma challenge_kept [simp]:
  "challenge_remains (fr_execution (mark_cacheable b r)) = challenge_remains (fr_execution r)"
  "challenge_remains (fr_execution (snd (transform X at1 ms r outs))) = challenge_remains (fr_execution r)"
  by (simp_all add: mark_cacheable_def transform_def record_extraction_def challenge_remains_def Let_def split: option.splits list.splits)

abbreviation remembers :: "'s fetch_service \<Rightarrow> (string \<rightharpoonup> buffer \<times> metadata) \<Rightarrow> 's service_state \<Rightarrow> bool" where
  "remembers V spec w \<equiv> disk_cache.coherent (se_codec (sv_storage V)) (se_cacheDir (sv_storage V)) spec (ss_cache w)"

lemma cached_response_forgets:
  assumes "remembers V spec w" and "cached_response V key w = (r, w')"
  shows "\<exists>spec'. remembers V spec' w' \<and> spec' \<subseteq>\<^sub>m spec"
    and "r = Inr (Some x) \<Longrightarrow> \<exists>body meta layer y. spec key = Some (body, meta) \<and> sv_decode V body = Inr y \<and>
      \<not> challenge_remains (fp_execution y) \<and> x = y\<lparr>fp_cache := \<lparr>cp_hit = True, cp_key = key, cp_layer = Some layer\<rparr>\<rparr>"
proof -
  define got where "got = cache_get (se_config (sv_storage V)) (response_store V) (service_now w) key (ss_cache w)"
  have c: "disk_cache.coherent (se_codec (sv_storage V)) (se_cacheDir (sv_storage V)) spec (snd got)"
    unfolding got_def by (rule disk_cache.coherent_get(1) [OF assms(1)])
  have d: "disk_cache.coherent (se_codec (sv_storage V)) (se_cacheDir (sv_storage V)) (spec(key := None))
      (cache_delete (response_store V) key (snd got))"
    by (rule disk_cache.coherent_delete [OF c])
  have found: "spec key = Some (body, meta)" if "fst got = Some (body, meta, layer)" for body meta layer
    using disk_cache.coherent_get(2) [OF assms(1)] that unfolding got_def by blast
  define ok where "ok c \<longleftrightarrow> (\<exists>spec'. disk_cache.coherent (se_codec (sv_storage V)) (se_cacheDir (sv_storage V)) spec' c \<and>
    spec' \<subseteq>\<^sub>m spec)" for c
  have "spec(key := None) \<subseteq>\<^sub>m spec" by (simp add: map_le_def)
  with c d have ok: "ok (snd got)" "ok (cache_delete (response_store V) key (snd got))"
    unfolding ok_def using map_le_refl by blast+
  have "ok (ss_cache w')"
    using assms(2) ok unfolding cached_response_def got_def [symmetric]
    by (cases got; cases "fst got"; cases "sv_decode V (fst (the (fst got)))") (auto split: if_splits)
  then show "\<exists>spec'. remembers V spec' w' \<and> spec' \<subseteq>\<^sub>m spec" by (simp only: ok_def)
  show "\<exists>body meta layer y. spec key = Some (body, meta) \<and> sv_decode V body = Inr y \<and>
      \<not> challenge_remains (fp_execution y) \<and> x = y\<lparr>fp_cache := \<lparr>cp_hit = True, cp_key = key, cp_layer = Some layer\<rparr>\<rparr>"
    if "r = Inr (Some x)"
    using assms(2) that found unfolding cached_response_def got_def [symmetric]
    by (cases got; cases "fst got"; cases "sv_decode V (fst (the (fst got)))") (auto split: if_splits)
qed

lemma startFetch_cases:
  assumes "startFetch V inflight fresh b w = (Inr x, w1, m)"
  obtains (uncached) inp n where "x = Compute inp n (fetch_key V b n)" and "\<not> cacheable b" and "w1 = w"
  | (hit) n r where "x = CacheHit r" and "cacheable b" and "cached_response V (fetch_key V b n) w = (Inr (Some r), w1)"
  | (miss) inp n where "x = Compute inp n (fetch_key V b n)" and "cacheable b"
      and "cached_response V (fetch_key V b n) w = (Inr None, w1)"
  | (joined) p n where "x = Join p" and "cacheable b" and "map_of inflight (fetch_key V b n) = Some p"
      and "cached_response V (fetch_key V b n) w = (Inr None, w1)"
  using assms unfolding startFetch_def
  by (auto simp: Let_def coalesce_def split: sum.splits if_splits prod.splits option.splits bool.splits)

lemma startFetch_error:
  assumes "startFetch V inflight fresh b w = (Inl e, w1, m)"
  shows "w1 = w \<or> (\<exists>n. cached_response V (fetch_key V b n) w = (Inl e, w1))"
  using assms unfolding startFetch_def
  by (auto simp: Let_def coalesce_def split: sum.splits if_splits prod.splits option.splits bool.splits)

text \<open>What a computation answers and stores.\<close>

lemma compute_response_stores:
  assumes "compute_response V b inp n key w = (Inr r, w')"
  shows "\<not> cp_hit (fp_cache r) \<and> cp_key (fp_cache r) = key \<and>
    (ss_cache w' = ss_cache w \<or>
     cacheable b \<and> \<not> challenge_remains (fp_execution r) \<and>
       (\<exists>now. ss_cache w' = cache_put (se_config (sv_storage V)) (response_store V) now key (sv_encode V r) (af_ttlSeconds b)
          [(''url'', JStr n)] (ss_cache w)))"
  using assms unfolding compute_response_def
  by (auto simp: Let_def response_of_def split: sum.splits prod.splits if_splits)

lemma compute_response_error: "compute_response V b inp n key w = (Inl e, w') \<Longrightarrow> ss_cache w' = ss_cache w"
  by (auto simp: compute_response_def Let_def split: sum.splits prod.splits)

section \<open>Runs of requests\<close>

text \<open>
  An event is a request together with the state in which the rest of the service is then: the clock, the browser, the
  observations and the tables of the stores may change in any way between requests.
\<close>

type_synonym 's fetch_event = "'s pipeline_state \<times> storage \<times> api_fetch"

definition fetch_at ::
  "'s fetch_service \<Rightarrow> 's fetch_event \<Rightarrow> 's service_state \<Rightarrow> fetch_response outcome \<times> 's service_state" where
  "fetch_at V e w = (case e of (p, S, b) \<Rightarrow> runFetch V b (w\<lparr>ss_pipeline := p, ss_storage := S\<rparr>))"

definition fetch_apply :: "'s fetch_service \<Rightarrow> 's fetch_event \<Rightarrow> 's service_state \<Rightarrow> 's service_state" where
  "fetch_apply V e w = snd (fetch_at V e w)"

text \<open>The request was computed, not found, and its response may be kept.\<close>

definition computed :: "'s fetch_service \<Rightarrow> 's fetch_event \<Rightarrow> 's service_state \<Rightarrow> fetch_response \<Rightarrow> bool" where
  "computed V e w r \<longleftrightarrow>
     fst (fetch_at V e w) = Inr r \<and> \<not> cp_hit (fp_cache r) \<and> cacheable (snd (snd e)) \<and> \<not> challenge_remains (fp_execution r)"

lemma fetch_step:
  assumes "remembers V spec w"
  shows "\<exists>spec'. remembers V spec' (fetch_apply V e w) \<and>
    (\<forall>k x. spec' k = Some x \<longrightarrow> spec k = Some x \<or>
       (\<exists>r meta. x = (sv_encode V r, meta) \<and> computed V e w r \<and> cp_key (fp_cache r) = k))"
proof -
  obtain p S b where e: "e = (p, S, b)" by (cases e)
  let ?w = "w\<lparr>ss_pipeline := p, ss_storage := S\<rparr>"
  have w: "remembers V spec ?w" using assms by simp
  obtain x w1 m where st: "startFetch V [] 0 b ?w = (x, w1, m)" by (cases "startFetch V [] 0 b ?w")
  have kept: ?thesis if "remembers V spec' (fetch_apply V e w)" and "spec' \<subseteq>\<^sub>m spec" for spec'
    using that unfolding map_le_def by (metis domI)
  have computed_case: ?thesis
    if r: "x = Inr (Compute inp n (fetch_key V b n))" and c: "remembers V spec1 w1" "spec1 \<subseteq>\<^sub>m spec" for inp n spec1
  proof -
    obtain y w2 where y: "compute_response V b inp n (fetch_key V b n) w1 = (y, w2)"
      by (cases "compute_response V b inp n (fetch_key V b n) w1")
    have here: "fetch_at V e w = (y, w2)" using st r y by (simp add: fetch_at_def e runFetch_def)
    show ?thesis
    proof (cases "ss_cache w2 = ss_cache w1")
      case True
      with c(1) here have "remembers V spec1 (fetch_apply V e w)" by (simp add: fetch_apply_def)
      with c(2) show ?thesis by (rule kept [rotated])
    next
      case False
      with compute_response_error [of V b inp n "fetch_key V b n" w1 _ w2] y obtain r where r: "y = Inr r" by (cases y) auto
      from compute_response_stores [OF y [unfolded r]] False obtain now
        where f: "\<not> cp_hit (fp_cache r)" "cp_key (fp_cache r) = fetch_key V b n" "cacheable b" "\<not> challenge_remains (fp_execution r)"
          and put: "ss_cache w2 = cache_put (se_config (sv_storage V)) (response_store V) now (fetch_key V b n) (sv_encode V r)
            (af_ttlSeconds b) [(''url'', JStr n)] (ss_cache w1)" by blast
      have "disk_cache.coherent (se_codec (sv_storage V)) (se_cacheDir (sv_storage V))
          (spec1(fetch_key V b n \<mapsto> (sv_encode V r, [(''url'', JStr n)]))) (ss_cache w2)"
        unfolding put by (rule disk_cache.coherent_put [OF c(1)]) simp
      then have "remembers V (spec1(fetch_key V b n \<mapsto> (sv_encode V r, [(''url'', JStr n)]))) (fetch_apply V e w)"
        using here by (simp add: fetch_apply_def)
      moreover have "computed V e w r" using here r f by (simp add: computed_def e)
      moreover have "spec k = Some z" if "spec1 k = Some z" for k z using c(2) that by (metis map_le_def domI)
      ultimately show ?thesis
        using f(2) by (intro exI [of _ "spec1(fetch_key V b n \<mapsto> (sv_encode V r, [(''url'', JStr n)]))"]) (auto split: if_splits)
    qed
  qed
  have same: "fetch_apply V e w = w1" if "\<And>inp n k. x \<noteq> Inr (Compute inp n k)"
    using st that by (auto simp: fetch_apply_def fetch_at_def e runFetch_def split: sum.splits fetch_start.splits)
  show ?thesis
  proof (cases x)
    case (Inl err)
    then have "fetch_apply V e w = w1" using same by simp
    moreover from startFetch_error [of V "[]" 0 b ?w err w1 m] st Inl
    consider "w1 = ?w" | n where "cached_response V (fetch_key V b n) ?w = (Inl err, w1)" by blast
    then have "\<exists>spec'. remembers V spec' w1 \<and> spec' \<subseteq>\<^sub>m spec"
    proof cases
      case 1
      with w map_le_refl show ?thesis by blast
    next
      case 2
      from cached_response_forgets(1) [OF w 2] show ?thesis .
    qed
    ultimately show ?thesis using kept by auto
  next
    case (Inr y)
    from st [unfolded Inr] show ?thesis
    proof (cases rule: startFetch_cases)
      case (uncached inp n)
      with Inr w show ?thesis using computed_case [of inp n spec] by auto
    next
      case (hit n r)
      with cached_response_forgets(1) [OF w hit(3)] same Inr kept show ?thesis by auto
    next
      case (miss inp n)
      with cached_response_forgets(1) [OF w miss(3)] Inr computed_case show ?thesis by auto
    next
      case (joined p n)
      then show ?thesis by simp
    qed
  qed
qed

definition fetch_start_state :: "'s service_state \<Rightarrow> 's service_state" where
  "fetch_start_state w = w\<lparr>ss_cache := cache_start empty_disk\<rparr>"

text \<open>
  The laws the service relies on: the codec of the metadata column is invertible and \<open>JSON.parse\<close> gives back the
  responses that are stored in the run.
\<close>

definition codecs_ok :: "'s fetch_service \<Rightarrow> 's fetch_event list \<Rightarrow> 's service_state \<Rightarrow> bool" where
  "codecs_ok V es w \<longleftrightarrow> codec_ok (se_codec (sv_storage V)) \<and>
     (\<forall>before e after r. es = before @ e # after \<and> computed V e (run_events (fetch_apply V) before (fetch_start_state w)) r \<longrightarrow>
        sv_decode V (sv_encode V r) = Inr r)"

lemma fetch_run:
  assumes "codec_ok (se_codec (sv_storage V))"
  shows "\<exists>spec. remembers V spec (run_events (fetch_apply V) es (fetch_start_state w)) \<and>
    (\<forall>k x. spec k = Some x \<longrightarrow> (\<exists>before e after r meta. es = before @ e # after \<and> x = (sv_encode V r, meta) \<and>
       computed V e (run_events (fetch_apply V) before (fetch_start_state w)) r \<and> cp_key (fp_cache r) = k))"
proof (induction es rule: rev_induct)
  case Nil
  have "disk_cache.coherent (se_codec (sv_storage V)) (se_cacheDir (sv_storage V)) Map.empty (cache_start empty_disk)"
    by (rule disk_cache.coherent_storage)
       (use assms in \<open>simp_all add: cache_start_def empty_disk_def disk_ok_def counted_def disk_holds_def\<close>)
  then show ?case by (intro exI [of _ Map.empty]) (simp add: fetch_start_state_def run_events_def)
next
  case (snoc e es)
  let ?w = "run_events (fetch_apply V) es (fetch_start_state w)"
  from snoc obtain spec where spec: "remembers V spec ?w"
    and old: "\<And>k x. spec k = Some x \<Longrightarrow> \<exists>before e after r meta. es = before @ e # after \<and> x = (sv_encode V r, meta) \<and>
       computed V e (run_events (fetch_apply V) before (fetch_start_state w)) r \<and> cp_key (fp_cache r) = k" by blast
  from fetch_step [OF spec, of e] obtain spec' where spec': "remembers V spec' (fetch_apply V e ?w)"
    and new: "\<And>k x. spec' k = Some x \<Longrightarrow> spec k = Some x \<or>
       (\<exists>r meta. x = (sv_encode V r, meta) \<and> computed V e ?w r \<and> cp_key (fp_cache r) = k)" by blast
  have "\<exists>before f after r meta. es @ [e] = before @ f # after \<and> x = (sv_encode V r, meta) \<and>
       computed V f (run_events (fetch_apply V) before (fetch_start_state w)) r \<and> cp_key (fp_cache r) = k"
    if "spec' k = Some x" for k x
    using new [OF that]
  proof
    assume "spec k = Some x"
    from old [OF this] obtain before f after r meta where o: "es = before @ f # after" "x = (sv_encode V r, meta)"
      "computed V f (run_events (fetch_apply V) before (fetch_start_state w)) r" "cp_key (fp_cache r) = k" by blast
    then show ?thesis by (intro exI [of _ before] exI [of _ f] exI [of _ "after @ [e]"] exI [of _ r] exI [of _ meta]) simp
  next
    assume "\<exists>r meta. x = (sv_encode V r, meta) \<and> computed V e ?w r \<and> cp_key (fp_cache r) = k"
    then obtain r meta where "x = (sv_encode V r, meta)" "computed V e ?w r" "cp_key (fp_cache r) = k" by blast
    then show ?thesis by (intro exI [of _ es] exI [of _ e] exI [of _ "[]"] exI [of _ r] exI [of _ meta]) simp
  qed
  with spec' show ?case by (intro exI [of _ spec']) (simp add: run_events_def)
qed


section \<open>The key does not name the proxy\<close>

lemma runFetch_computed:
  assumes "runFetch V b w = (Inr r, w1)" and "\<not> cp_hit (fp_cache r)" and "cacheable b"
  obtains n w0 inp where "normalizeUrl (service_parse V) (af_url b) = Inr n" and "compute_response V b inp n (fetch_key V b n) w0 = (Inr r, w1)"
    and "ss_cache w0 = ss_cache w \<or> cached_response V (fetch_key V b n) w = (Inr None, w0)"
proof -
  obtain x w0 m where st: "startFetch V [] 0 b w = (x, w0, m)" by (cases "startFetch V [] 0 b w")
  with assms(1) obtain y where y: "x = Inr y" by (cases x) (auto simp: runFetch_def)
  have n: "\<exists>n. normalizeUrl (service_parse V) (af_url b) = Inr n \<and> (\<forall>inp n' k. y = Compute inp n' k \<longrightarrow> n' = n)"
    using st y unfolding startFetch_def
    by (auto simp: res_bind_Inr_iff Let_def split: sum.splits if_splits prod.splits option.splits bool.splits)
  from st [unfolded y] show thesis
  proof (cases rule: startFetch_cases)
    case (hit n' q)
    with cached_response_forgets [of V _ w] have "cp_hit (fp_cache q)"
      by (auto simp: cached_response_def then_do_Inr_iff split: option.splits prod.splits if_splits)
    with hit assms(1,2) st y show thesis by (simp add: runFetch_def)
  next
    case (miss inp n')
    with n st y assms(1) that [of n' inp w0] show thesis by (auto simp: runFetch_def)
  qed (use assms(3) in simp_all)
qed

lemma stored_response_hits:
  assumes "runFetch V b w = (Inr r, w1)" and "\<not> cp_hit (fp_cache r)" and "cacheable b" and "\<not> challenge_remains (fp_execution r)"
    and "remembers V spec w" and "int (length (sv_encode V r)) \<le> cacheMemoryBytes (se_config (sv_storage V))"
    and "sv_decode V (sv_encode V r) = Inr r"
    and b': "af_url b' = af_url b" "cacheable b'" "\<And>n. parts_of b' n = parts_of b n"
    and "resolveProxy (sv_storage V) S (af_proxyId b') (af_ownerKeyHash b') = Inr proxy"
    and "assertSafeUrl (service_parse V) (sv_guard V) (af_url b) (map_option pxy_allowedDomains proxy) = Inr u"
    and "snd (snd p) \<le> service_now w1 + af_ttlSeconds b * 1000"
  shows "fst (runFetch V b' (w1\<lparr>ss_pipeline := p, ss_storage := S\<rparr>))
    = Inr (r\<lparr>fp_cache := \<lparr>cp_hit = True, cp_key = cp_key (fp_cache r), cp_layer = Some LayerMemory\<rparr>\<rparr>)"
proof -
  from runFetch_computed [OF assms(1-3)] obtain n w0 inp where n: "normalizeUrl (service_parse V) (af_url b) = Inr n"
    and c: "compute_response V b inp n (fetch_key V b n) w0 = (Inr r, w1)"
    and w0: "ss_cache w0 = ss_cache w \<or> cached_response V (fetch_key V b n) w = (Inr None, w0)" by blast
  let ?cfg = "se_config (sv_storage V)" and ?k = "fetch_key V b n" and ?w = "w1\<lparr>ss_pipeline := p, ss_storage := S\<rparr>"
  let ?e = "\<lparr>en_body = sv_encode V r, en_metadata = [(''url'', JStr n)], en_expiresAt = service_now w1 + af_ttlSeconds b * 1000\<rparr>"
  have key: "fetch_key V b' n = ?k" "cp_key (fp_cache r) = ?k"
    using compute_response_stores [OF c] b'(3) by (simp_all add: fetch_key_def)
  from cached_response_forgets(1) [OF assms(5)] w0 assms(5) obtain spec' where "remembers V spec' w0"
    by (metis (no_types))
  then have cnt: "counted (ss_cache w0)" by (rule disk_cache.coherentD(2))
  have "ss_cache w1 = cache_put ?cfg (response_store V) (service_now w1) ?k (sv_encode V r) (af_ttlSeconds b) [(''url'', JStr n)] (ss_cache w0)"
    using c assms(3,4) unfolding compute_response_def
    by (auto simp: Let_def response_of_def service_now_def split: sum.splits prod.splits)
  then have "map_of (ca_memory (ss_cache w1)) ?k = Some ?e"
    using cnt assms(6) by (simp add: cache_put_def putMemory_stores counted_def entry_bytes_def)
  then have "\<exists>w2. cached_response V ?k ?w =
      (Inr (Some (r\<lparr>fp_cache := \<lparr>cp_hit = True, cp_key = ?k, cp_layer = Some LayerMemory\<rparr>\<rparr>)), w2)"
    using assms(4,7,13) by (simp add: cached_response_def cache_get_def service_now_def)
  then show ?thesis using assms(11,12) b' n key by (auto simp: runFetch_def startFetch_def)
qed

text \<open>The cache key says nothing about the proxy or the owner of a request. A response that one caller computed
  with its own proxy, or with none, is the answer to the same request of any other caller that names any other
  proxy, as long as the entry lives: the proxy that was asked for is checked and then not used.\<close>

theorem cache_ignores_proxy:
  assumes "runFetch V b w = (Inr r, w1)" and "\<not> cp_hit (fp_cache r)" and "cacheable b" and "\<not> challenge_remains (fp_execution r)"
    and "remembers V spec w" and "int (length (sv_encode V r)) \<le> cacheMemoryBytes (se_config (sv_storage V))"
    and "sv_decode V (sv_encode V r) = Inr r"
    and "resolveProxy (sv_storage V) S proxyId owner = Inr proxy"
    and "assertSafeUrl (service_parse V) (sv_guard V) (af_url b) (map_option pxy_allowedDomains proxy) = Inr u"
    and "snd (snd p) \<le> service_now w1 + af_ttlSeconds b * 1000"
  shows "fst (runFetch V (b\<lparr>af_proxyId := proxyId, af_ownerKeyHash := owner\<rparr>) (w1\<lparr>ss_pipeline := p, ss_storage := S\<rparr>))
    = Inr (r\<lparr>fp_cache := \<lparr>cp_hit = True, cp_key = cp_key (fp_cache r), cp_layer = Some LayerMemory\<rparr>\<rparr>)"
  by (rule stored_response_hits [OF assms(1-7)]) (use assms(3,8-10) in \<open>simp_all add: parts_of_def cacheable_def\<close>)

section \<open>A run\<close>

definition no_extractors :: extractors where
  "no_extractors = \<lparr>xt_cheerio = \<lparr>html_load = (\<lambda>_. []), html_print = (\<lambda>_. [])\<rparr>, xt_resolve = (\<lambda>_ _. None), xt_parse = (\<lambda>_. None)\<rparr>"

definition sample_service :: "fetch_response \<Rightarrow> unit fetch_service" where
  "sample_service q = \<lparr>sv_env = sample_fetch_env, sv_extractors = no_extractors, sv_storage = sample_env, sv_guard = (\<lambda>_. None),
     sv_admit = (\<lambda>_ p. (Inr 0, p)), sv_settled = (\<lambda>_ p. p), sv_elapsed = (\<lambda>_. 0), sv_iso = (\<lambda>_. []),
     sv_stringify = (\<lambda>_. []), sv_encode = (\<lambda>_. [7, 7]), sv_decode = (\<lambda>_. Inr q)\<rparr>"

definition sample_body :: api_fetch where
  "sample_body = \<lparr>af_url = ''https://example.test/'', af_strategy = Auto, af_timeoutMs = None, af_headers = None,
     af_waitUntil = None, af_wait = None, af_output = [OutHtml], af_browserBackend = None, af_browserOptions = None,
     af_cacheMode = CacheDefault, af_ttlSeconds = 300, af_proxyId = None, af_viewport = None, af_ownerKeyHash = Some ''ann''\<rparr>"

definition sample_world :: "unit service_state" where
  "sample_world = \<lparr>ss_pipeline = (default_observation_store, (), 0), ss_cache = cache_start empty_disk, ss_storage = sample_storage,
     ss_metrics = []\<rparr>"

lemma sample_service_fields:
  "sv_env (sample_service q) = sample_fetch_env" "sv_storage (sample_service q) = sample_env"
  "sv_guard (sample_service q) = (\<lambda>_. None)" "sv_admit (sample_service q) = (\<lambda>_ p. (Inr 0, p))"
  "sv_settled (sample_service q) = (\<lambda>_ p. p)" "sv_elapsed (sample_service q) = (\<lambda>_. 0)"
  "sv_encode (sample_service q) = (\<lambda>_. [7, 7])" "sv_decode (sample_service q) = (\<lambda>_. Inr q)"
  "parse_absolute (fe_parsers sample_fetch_env) = (\<lambda>_. Some public_url)" "sv_stringify (sample_service q) = (\<lambda>_. [])"
  "se_config sample_env = sample_config" "se_sha256 sample_env = id" "se_codec sample_env = enum_codec"
  by (simp_all add: sample_service_def sample_fetch_env_def sample_simps sample_env_def)

lemma sample_guard: "assertSafeUrl (\<lambda>_. Some public_url) (\<lambda>_. None) v None = Inr public_url"
proof -
  have "resolveSafeUrl (\<lambda>_. Some public_url) (\<lambda>_. None) v None
      = Inr \<lparr>safe_url = public_url, safe_addresses = [(''93.184.216.34'', 4)]\<rparr>" by code_simp
  then show ?thesis by (simp add: assertSafeUrl_def)
qed

lemma sample_run:
  "\<exists>r. \<not> cp_hit (fp_cache r) \<and> \<not> challenge_remains (fp_execution r) \<and>
     (\<forall>q. \<exists>w1. runFetch (sample_service q) sample_body sample_world = (Inr r, w1) \<and> service_now w1 = 0)"
proof -
  have "or_default (in_strategy (input_of sample_body None)) Auto = Auto" "proxy_domains (input_of sample_body None) = None"
    by (simp_all add: input_of_def sample_body_def or_default_def proxy_domains_def)
  from sample_fetch [OF this] obtain res obs u t
    where f: "adaptiveFetch sample_fetch_env (input_of sample_body None) default_observation_store ((), 0) = (Inr res, obs, ((), 0))"
      "fr_html res = None" "ex_challengeRemaining (fr_execution res) = None" by blast
  have st: "(in_strategy (input_of sample_body None) = Some BrowserOnly) = False" by (simp add: input_of_def sample_body_def)
  have sched: "scheduled_fetch (sample_service q) (input_of sample_body None) (default_observation_store, (), 0)
      = (Inr (res, 0), obs, (), 0)" for q
    by (simp add: scheduled_fetch_def sample_service_fields f(1) st)
  let ?m = "mark_cacheable sample_body res"
  have m: "fr_html ?m = None" "challenge_remains (fr_execution res) = False"
    using f by (simp_all add: mark_cacheable_def Let_def challenge_remains_def)
  let ?k = "cacheKey id (\<lambda>_. []) (parts_of sample_body (url_href (normalize_parts public_url)))"
  let ?r = "response_of ?k no_outputs ?m 0 0"
  have plain: "af_proxyId sample_body = None" "cacheable sample_body" by (simp_all add: sample_body_def cacheable_def or_default_def)
  have start: "\<exists>w0. startFetch (sample_service q) [] 0 sample_body sample_world
      = (Inr (Compute (input_of sample_body None) (url_href (normalize_parts public_url)) ?k), w0, [(?k, 0)]) \<and>
      ss_pipeline w0 = (default_observation_store, (), 0)" for q
    using plain
    by (simp add: startFetch_def resolveProxy_def or_default_def sample_service_fields sample_guard normalizeUrl_def
        fetch_key_def cached_response_def cache_get_def cache_get_disk_def sample_world_def cache_start_def
        disk_storage_def disk_get_def empty_disk_def coalesce_def Let_def)
  have run: "\<exists>w1. runFetch (sample_service q) sample_body sample_world = (Inr ?r, w1) \<and> service_now w1 = 0" for q
  proof -
    obtain w0 where "startFetch (sample_service q) [] 0 sample_body sample_world
      = (Inr (Compute (input_of sample_body None) (url_href (normalize_parts public_url)) ?k), w0, [(?k, 0)])"
      "ss_pipeline w0 = (default_observation_store, (), 0)" using start [of q] by blast
    then show ?thesis
      using sched [of q] m
      by (simp add: runFetch_def compute_response_def Let_def transform_def sample_service_fields service_now_def)
  qed
  have "\<not> cp_hit (fp_cache ?r)" "\<not> challenge_remains (fp_execution ?r)" using m by (simp_all add: response_of_def Let_def)
  with run show ?thesis by (intro exI [of _ ?r]) simp
qed

lemma sample_start: "fetch_start_state sample_world = sample_world"
  by (simp add: fetch_start_state_def sample_world_def)

lemma sample_remembers: "remembers (sample_service q) Map.empty sample_world"
  by (rule disk_cache.coherent_storage)
     (simp_all add: sample_service_fields sample_world_def enum_codec_ok cache_start_def empty_disk_def disk_ok_def counted_def disk_holds_def)

text \<open>Bob asks for the same page and names his own proxy.\<close>

definition bobs_proxy :: stored_proxy where
  "bobs_proxy = \<lparr>pxy_id = ''pxy_b'', pxy_ownerKeyHash = ''bob'', pxy_name = ''b'', pxy_url = ''v1:1.0.a'', pxy_allowedDomains = []\<rparr>"

definition bobs_storage :: storage where
  "bobs_storage = sample_storage\<lparr>sg_proxies := [bobs_proxy]\<rparr>"

lemma bobs_proxy_resolved:
  "\<exists>x. resolveProxy sample_env bobs_storage (Some ''pxy_b'') (Some ''bob'') = Inr (Some x) \<and> pxy_allowedDomains x = []"
proof -
  have "decrypt hex_box ''v1:1.0.a'' = Inr []" by code_simp
  then show ?thesis
    by (simp add: resolveProxy_def or_default_def getProxy_def proxy_get_def sample_env_def bobs_storage_def bobs_proxy_def)
qed

theorem cache_ignores_proxy_witness:
  "\<exists>r w1 q. runFetch (sample_service r) sample_body sample_world = (Inr r, w1) \<and>
     fst (runFetch (sample_service r) (sample_body\<lparr>af_proxyId := Some ''pxy_b'', af_ownerKeyHash := Some ''bob''\<rparr>)
       (w1\<lparr>ss_pipeline := ss_pipeline w1, ss_storage := bobs_storage\<rparr>)) = Inr q \<and> cp_hit (fp_cache q)"
proof -
  obtain r where r: "\<not> cp_hit (fp_cache r)" "\<not> challenge_remains (fp_execution r)"
    "\<And>q. \<exists>w1. runFetch (sample_service q) sample_body sample_world = (Inr r, w1) \<and> service_now w1 = 0"
    using sample_run by blast
  from r(3) obtain w1 where w1: "runFetch (sample_service r) sample_body sample_world = (Inr r, w1)" "service_now w1 = 0" by blast
  obtain x where x: "resolveProxy sample_env bobs_storage (Some ''pxy_b'') (Some ''bob'') = Inr (Some x)" "pxy_allowedDomains x = []"
    using bobs_proxy_resolved by blast
  have guard: "assertSafeUrl (\<lambda>_. Some public_url) (\<lambda>_. None) v (Some []) = Inr public_url" for v
  proof -
    have "resolveSafeUrl (\<lambda>_. Some public_url) (\<lambda>_. None) v (Some [])
        = Inr \<lparr>safe_url = public_url, safe_addresses = [(''93.184.216.34'', 4)]\<rparr>" by code_simp
    then show ?thesis by (simp add: assertSafeUrl_def)
  qed
  have c: "cacheable sample_body" "af_ttlSeconds sample_body = 300" by (simp_all add: sample_body_def cacheable_def or_default_def)
  have "fst (runFetch (sample_service r) (sample_body\<lparr>af_proxyId := Some ''pxy_b'', af_ownerKeyHash := Some ''bob''\<rparr>)
      (w1\<lparr>ss_pipeline := ss_pipeline w1, ss_storage := bobs_storage\<rparr>))
    = Inr (r\<lparr>fp_cache := \<lparr>cp_hit = True, cp_key = cp_key (fp_cache r), cp_layer = Some LayerMemory\<rparr>\<rparr>)"
    by (rule cache_ignores_proxy [OF w1(1) r(1) c(1) r(2) sample_remembers, where proxy = "Some x" and u = public_url])
       (use x guard w1 in \<open>simp_all add: sample_service_fields sample_config_fields service_now_def c\<close>)
  then have "\<exists>q. fst (runFetch (sample_service r) (sample_body\<lparr>af_proxyId := Some ''pxy_b'', af_ownerKeyHash := Some ''bob''\<rparr>)
      (w1\<lparr>ss_pipeline := ss_pipeline w1, ss_storage := bobs_storage\<rparr>)) = Inr q \<and> cp_hit (fp_cache q)"
    by (rule ssubst) simp
  with w1(1) show ?thesis by blast
qed


end
