(* ===== verification/OB_SessionRoutes_Props.thy ===== *)
theory OB_SessionRoutes_Props
  imports OB_SessionRoutes OB_BqlHandler OB_Agent_Props OB_Fetch_Props
begin

text \<open>
  What the session routes promise: the wait for a challenge returns, a creation that fails leaves no session, a stopped
  trace can be downloaded, a handoff does not outlive its session, and what a handoff does to a session with a
  proxy.
\<close>

section \<open>Waiting for a challenge\<close>

text \<open>The clock of the live browsers: it never goes back, and a pause lasts at least as long as asked for.\<close>

definition steady :: "'s route_env \<Rightarrow> ('s, 'a) live_op \<Rightarrow> bool" where
  "steady R f \<longleftrightarrow> (\<forall>s. rt_now R s \<le> rt_now R (snd (f s)))"

definition steady_clock :: "'s route_env \<Rightarrow> bool" where
  "steady_clock R \<longleftrightarrow>
     (\<forall>ms s. 0 \<le> ms \<longrightarrow> rt_now R s + ms \<le> rt_now R (rt_sleep R ms s)) \<and>
     (\<forall>session proxy. steady R (lp_get (rt_page R) session proxy)) \<and> steady R (lp_content (rt_page R)) \<and>
     steady R (lp_title (rt_page R)) \<and> (\<forall>u. steady R (rt_cookies R u)) \<and> (\<forall>sid. steady R (rt_storageState R sid))"

lemma then_do_steady:
  assumes "rt_now R (snd w) \<le> rt_now R (snd (snd r))" "\<And>x w1. r = (Inr x, w1) \<Longrightarrow> rt_now R (snd w1) \<le> rt_now R (snd (snd (f x w1)))"
  shows "rt_now R (snd w) \<le> rt_now R (snd (snd (then_do r f)))"
  using assms by (cases r; cases "fst r") (auto intro: order_trans)

lemma on_live_steady: "steady R f \<Longrightarrow> rt_now R (snd w) \<le> rt_now R (snd (snd (on_live f w)))"
  by (simp add: steady_def on_live_def split: prod.split) (metis snd_conv)

lemma or_else_snd [simp]: "snd (or_else v r) = snd r"
  by (simp add: or_else_def split: prod.split sum.split)

lemma settled_snd [simp]: "snd (settled r w) = w"
  by (simp add: settled_def)

lemma live_session_steady: "steady_clock R \<Longrightarrow> rt_now R (snd w) \<le> rt_now R (snd (snd (live_session R session owner w)))"
  unfolding live_session_def
  by (rule then_do_steady) (auto simp: settled_def steady_clock_def intro: on_live_steady)

lemma challengeState_steady: "steady_clock R \<Longrightarrow> rt_now R (snd w) \<le> rt_now R (snd (snd (challengeState R session owner w)))"
  unfolding challengeState_def
  by (intro then_do_steady live_session_steady)
    (auto intro: on_live_steady simp: steady_clock_def)

lemma save_state_steady: "steady_clock R \<Longrightarrow> rt_now R (snd w) \<le> rt_now R (snd (snd (save_state R session w)))"
  unfolding save_state_def
  by (auto intro!: then_do_steady on_live_steady simp: steady_clock_def)

lemma poll_challenge_returns:
  assumes "steady_clock R" "0 < interval"
  shows "\<exists>r w'. poll_challenge R session owner timeoutMs interval startedAt state w = Some (r, w') \<and>
    rt_now R (snd w) \<le> rt_now R (snd w') \<and>
    (\<forall>st. r = Inr st \<longrightarrow> cs_challengeRemaining st \<longrightarrow> timeoutMs \<le> rt_now R (snd w') - startedAt)"
proof (induction "nat (timeoutMs - (rt_now R (snd w) - startedAt))" arbitrary: state w rule: less_induct)
  case less
  let ?left = "timeoutMs - (rt_now R (snd w) - startedAt)"
  let ?w1 = "(fst w, rt_sleep R (min interval ?left) (snd w))"
  show ?case
  proof (cases "cs_challengeRemaining state \<and> rt_now R (snd w) - startedAt < timeoutMs")
    case False
    then show ?thesis by (subst poll_challenge.simps) auto
  next
    case True
    obtain x w2 where c: "challengeState R session owner ?w1 = (x, w2)" by (rule prod.exhaust)
    have "rt_now R (snd w) + min interval ?left \<le> rt_now R (snd ?w1)"
      using assms True by (auto simp: steady_clock_def)
    moreover have "rt_now R (snd ?w1) \<le> rt_now R (snd w2)"
      using challengeState_steady [OF assms(1), of ?w1 session owner] by (simp only: c snd_conv)
    ultimately have later: "rt_now R (snd w) + min interval ?left \<le> rt_now R (snd w2)" by simp
    have run: "poll_challenge R session owner timeoutMs interval startedAt state w =
        (case (x, w2) of (Inl e, w1) \<Rightarrow> Some (Inl e, w1)
         | (Inr st, w1) \<Rightarrow> poll_challenge R session owner timeoutMs interval startedAt st w1)"
      using True by (subst poll_challenge.simps) (simp add: c)
    show ?thesis
    proof (cases x)
      case (Inl e)
      then show ?thesis using run later assms(2) True by auto
    next
      case (Inr st)
      have "nat (timeoutMs - (rt_now R (snd w2) - startedAt)) < nat ?left" using later assms(2) True by linarith
      from less [OF this, of st] run Inr later assms(2) True show ?thesis by fastforce
    qed
  qed
qed

text \<open>C26. Waiting for a challenge always returns, on a clock that moves: with an error of the page, with the challenge
  resolved, or timed out, and it reports a time-out only after the whole time had passed.\<close>

theorem challenge_wait_returns:
  assumes "steady_clock R" "0 < interval"
  shows "\<exists>r w'. challenge_wait_route R sid owner timeoutMs interval w = Some (r, w') \<and>
    (\<forall>x. r = Inr x \<longrightarrow> (cx_timedOut x \<longleftrightarrow> cs_challengeRemaining (cx_state x)) \<and> (cx_timedOut x \<longrightarrow> timeoutMs \<le> cx_waitedMs x))"
proof -
  obtain s w1 where s: "require_session R sid w = (s, w1)" by (rule prod.exhaust)
  show ?thesis
  proof (cases s)
    case (Inr session)
    obtain c w2 where c: "challengeState R session owner w1 = (c, w2)" by (rule prod.exhaust)
    show ?thesis
    proof (cases c)
      case (Inr first)
      from poll_challenge_returns [OF assms, of session owner timeoutMs "rt_now R (snd w1)" first w2] obtain p w3
        where p: "poll_challenge R session owner timeoutMs interval (rt_now R (snd w1)) first w2 = Some (p, w3)"
          and late: "\<forall>st. p = Inr st \<longrightarrow> cs_challengeRemaining st \<longrightarrow> timeoutMs \<le> rt_now R (snd w3) - rt_now R (snd w1)" by blast
      show ?thesis
      proof (cases p)
        case (Inr st)
        obtain v w4 where v: "(if cs_challengeRemaining st then (Inr (), w3) else save_state R session w3) = (v, w4)" by (rule prod.exhaust)
        have "rt_now R (snd w3) \<le> rt_now R (snd w4)"
          using save_state_steady [OF assms(1), of w3 session] v by (auto split: if_splits)
        with late Inr s \<open>s = Inr session\<close> c \<open>c = Inr first\<close> p v show ?thesis
          by (cases v) (auto simp: challenge_wait_route_def)
      qed (use s \<open>s = Inr session\<close> c Inr p in \<open>simp add: challenge_wait_route_def\<close>)
    qed (use s Inr c in \<open>simp add: challenge_wait_route_def\<close>)
  qed (use s in \<open>simp add: challenge_wait_route_def\<close>)
qed

section \<open>A creation that fails\<close>

text \<open>The row of a new session comes last, and its state can be read.\<close>

definition holds_new :: "secret_box \<Rightarrow> stored_session list \<Rightarrow> string \<Rightarrow> stored_session list \<Rightarrow> bool" where
  "holds_new B base sid rows \<longleftrightarrow>
     (\<exists>row x. rows = base @ [row] \<and> ses_id row = sid \<and> sid \<notin> ses_id ` set base \<and> session_of_row B row = Inr x)"

lemma readable_row:
  assumes "box_ok B" "iv_ok iv"
  shows "\<exists>x. session_of_row B (s\<lparr>ses_storageState := map_option (encrypt B iv) (truthy v)\<rparr>) = Inr x"
  using session_of_row_total [OF assms, where s = s and v = v] by blast

lemma holds_new_create:
  assumes "box_ok (se_box E)" "iv_ok iv" "createSession E newId iv now inp S = (Inr s, S1)"
  shows "holds_new (se_box E) (sg_sessions S) (ses_id s) (sg_sessions S1)"
  using assms(3) readable_row [OF assms(1,2), where s = "inp\<lparr>ses_id := newId, ses_createdAt := now\<rparr>" and v = "ses_storageState inp"]
  by (auto simp: createSession_def session_create_def Let_def holds_new_def split: if_splits)

lemma holds_new_update:
  assumes "box_ok (se_box E)" "iv_ok iv" "holds_new (se_box E) base sid (sg_sessions S)" "st \<noteq> []"
  shows "holds_new (se_box E) base sid (sg_sessions (updateSessionState E iv sid st S))"
proof -
  from assms(3) obtain row where row: "sg_sessions S = base @ [row]" "ses_id row = sid" "sid \<notin> ses_id ` set base"
    by (auto simp: holds_new_def)
  have "map (\<lambda>r. if ses_id r = sid then r\<lparr>ses_storageState := Some (encrypt (se_box E) iv st)\<rparr> else r) base = base"
    using row(3) by (intro map_idI) auto
  moreover have "truthy (Some st) = Some st" using assms(4) by (cases st) (simp_all add: truthy_def)
  then obtain x where "session_of_row (se_box E) (row\<lparr>ses_storageState := Some (encrypt (se_box E) iv st)\<rparr>) = Inr x"
    using readable_row [OF assms(1,2), where s = row and v = "Some st"] by auto
  ultimately show ?thesis
    using row by (auto simp: holds_new_def updateSessionState_def session_updateState_def)
qed

lemma holds_new_delete:
  assumes "holds_new (se_box E) base sid (sg_sessions S)" "deleteSession E sid now S = (r, S1)"
  shows "(\<exists>x. r = Inr x) \<and> sg_sessions S1 = base"
proof -
  from assms(1) obtain row x where row: "sg_sessions S = base @ [row]" "ses_id row = sid" "sid \<notin> ses_id ` set base"
    "session_of_row (se_box E) row = Inr x" by (auto simp: holds_new_def)
  have "find (\<lambda>r. ses_id r = sid) (base @ [row]) = Some row" using row(2,3) by (intro find_snoc) (auto simp: image_iff)
  moreover have "filter (\<lambda>r. ses_id r \<noteq> sid) base = base" using row(3) by (intro filter_True) auto
  ultimately show ?thesis
    using assms(2) row
    by (cases "ses_expiresAt row < now") (auto simp: deleteSession_def session_delete_def OB_Storage.session_get_def Let_def)
qed

lemma then_do_keeps:
  assumes "P (fst (snd r))" "\<And>y w1. P (fst w1) \<Longrightarrow> P (fst (snd (f y w1)))"
  shows "P (fst (snd (then_do r f)))"
proof -
  obtain x w where "r = (x, w)" by (rule prod.exhaust)
  then show ?thesis using assms(1) assms(2) [of w] by (cases x) simp_all
qed

lemma on_live_fst [simp]: "fst (snd (on_live f w)) = fst w"
  by (simp add: on_live_def split: prod.split)

lemma save_state_rows:
  assumes "box_ok (se_box (rt_store R))" "\<forall>s. iv_ok (rt_iv R s)" "holds_new (se_box (rt_store R)) base (ses_id session) (sg_sessions (fst w))"
  shows "holds_new (se_box (rt_store R)) base (ses_id session) (sg_sessions (fst (snd (save_state R session w))))"
  using assms(3) holds_new_update [OF assms(1)] assms(2)
  by (auto simp: save_state_def intro!: then_do_keeps [where P = "\<lambda>S. holds_new (se_box (rt_store R)) base (ses_id session) (sg_sessions S)"])

text \<open>Closing a live session succeeds; what \<open>try\<close> does keeps the row of the new session the last one.\<close>

definition closes :: "'s route_env \<Rightarrow> bool" where
  "closes R \<longleftrightarrow> (\<forall>sid s. \<exists>s'. lp_close (rt_page R) sid s = (Inr (), s'))"

lemma open_session_rows:
  assumes "box_ok (se_box (rt_store R))" "\<forall>s. iv_ok (rt_iv R s)" "holds_new (se_box (rt_store R)) base (ses_id session) (sg_sessions (fst w))"
  shows "holds_new (se_box (rt_store R)) base (ses_id session) (sg_sessions (fst (snd (open_session R q session proxy w))))"
  unfolding open_session_def
  by (auto intro!: then_do_keeps [where P = "\<lambda>S. holds_new (se_box (rt_store R)) base (ses_id session) (sg_sessions S)"]
        save_state_rows [OF assms(1,2)] simp: assms(3))


section \<open>Replays\<close>

text \<open>A stopped trace is not lost: its owner downloads exactly the bytes of the trace, as a ZIP archive, for at least a
  minute and as long as the session was to live, and no other key gets them.\<close>

theorem replay_roundtrip:
  assumes "stop_replay_route R sid owner w = (Inr rpl, S', s')"
    and "rt_stopTrace R sid (snd w) = (Inr (Some trace), s1)"
    and "rt_now R later \<le> rt_now R s1 + 60000 \<or>
         (\<exists>session. getSession (rt_store R) sid (rt_now R (snd w)) (fst w) = Inr (Some session) \<and> rt_now R later \<le> ses_expiresAt session)"
  shows "replay_download_route R (rpl_id rpl) owner (S', later) = (Inr (''application/zip'', trace), S', later) \<and>
    (other \<noteq> owner \<longrightarrow> replay_download_route R (rpl_id rpl) other (S', later) = (Inl (replay_gone ''Replay''), S', later))"
proof -
  from assms(1) obtain session where get: "getSession (rt_store R) sid (rt_now R (snd w)) (fst w) = Inr (Some session)"
    by (auto simp: stop_replay_route_def require_session_or_def then_do_def split: sum.splits option.splits)
  let ?now = "rt_now R s1"
  let ?ttl = "replay_ttl session ?now"
  have store: "store_replay R session owner trace (fst w, s1) = (Inr rpl, S', s')"
    using assms(1,2) get by (simp add: stop_replay_route_def require_session_or_def on_live_def)
  obtain x S1 where x: "createArtifact (rt_store R) (rt_newId R s1) ?now trace ''application/zip'' owner (Some ?ttl) (fst w) = (x, S1)"
    by (rule prod.exhaust)
  with store obtain a where a: "x = Inr a" by (cases x) (auto simp: store_replay_def on_store_def Let_def)
  obtain y T where y: "createReplay (''rpl_'' @ rt_newId R s1) ?now (ses_id session) (art_id a) ?ttl owner (sg_jobs S1) = (y, T)"
    by (rule prod.exhaust)
  with store x a have S': "y = Inr rpl" "S' = S1\<lparr>sg_jobs := T\<rparr>" by (auto simp: store_replay_def on_store_def Let_def)
  have ttl: "rt_now R later \<le> ?now + ?ttl * 1000"
  proof -
    have "d div 1000 * 1000 \<le> d" for d :: int by presburger
    from this [of "?now - ses_expiresAt session"] have "ses_expiresAt session \<le> ?now + - ((?now - ses_expiresAt session) div 1000) * 1000"
      by linarith
    moreover have "- ((?now - ses_expiresAt session) div 1000) \<le> ?ttl" "60 \<le> ?ttl"
      by (simp_all only: replay_ttl_def max.cobounded1 max.cobounded2)
    moreover have "rt_now R later \<le> ?now + 60000 \<or> rt_now R later \<le> ses_expiresAt session" using assms(3) get by auto
    ultimately show ?thesis by linarith
  qed
  let ?path = "se_artifactsDir (rt_store R) @ ''/'' @ rt_newId R s1"
  from x a have art: "a = \<lparr>art_id = rt_newId R s1, art_ownerKeyHash = owner, art_path = ?path, art_contentType = ''application/zip'',
        art_bytes = length trace, art_createdAt = ?now, art_expiresAt = ?now + ?ttl * 1000\<rparr>"
    "at_rows (sg_artifacts S1) = at_rows (sg_artifacts (fst w)) @ [a]" "art_id a \<notin> art_id ` set (at_rows (sg_artifacts (fst w)))"
    "map_of (at_files (sg_artifacts S1)) ?path = Some trace" "sg_jobs S1 = sg_jobs (fst w)"
    by (auto simp: createArtifact_def artifact_create_def Let_def split: if_splits)
  have "find (\<lambda>r. art_id r = art_id a \<and> art_ownerKeyHash r = owner) (at_rows (sg_artifacts S1)) = Some a"
    unfolding art(2) by (rule find_snoc) (use art(1,3) in \<open>auto simp: image_iff\<close>)
  then have artifact: "artifact_get (art_id a) (rt_now R later) owner (sg_artifacts S1) = Some (a, trace)"
    using ttl art(1,4) by (simp add: artifact_get_def)
  from y S' have rpl: "rpl = \<lparr>rpl_id = ''rpl_'' @ rt_newId R s1, rpl_ownerKeyHash = owner, rpl_sessionId = ses_id session,
      rpl_artifactId = art_id a, rpl_createdAt = ?now, rpl_expiresAt = ?now + ?ttl * 1000\<rparr>"
    "jt_replays T = jt_replays (sg_jobs S1) @ [rpl]" "rpl_id rpl \<notin> rpl_id ` set (jt_replays (sg_jobs S1))"
    by (auto simp: createReplay_def Let_def split: if_splits)
  have "find (\<lambda>r. rpl_id r = rpl_id rpl \<and> rpl_ownerKeyHash r = owner) (jt_replays T) = Some rpl"
    unfolding rpl(2) by (rule find_snoc) (use rpl(1,3) in \<open>auto simp: image_iff\<close>)
  then have "getReplay (rpl_id rpl) (rt_now R later) owner T = Some rpl" using ttl rpl(1) by (simp add: getReplay_def)
  moreover have "getReplay (rpl_id rpl) (rt_now R later) other T = None" if "other \<noteq> owner"
  proof -
    have "find (\<lambda>r. rpl_id r = rpl_id rpl \<and> rpl_ownerKeyHash r = other) (jt_replays T) = None"
      unfolding find_None_iff rpl(2) using that rpl(1,3) by (auto simp: image_iff)
    then show ?thesis by (simp add: getReplay_def)
  qed
  ultimately show ?thesis
    using artifact S' rpl(1) art(1) by (simp add: replay_download_route_def getArtifact_def)
qed

section \<open>Handoffs\<close>

lemma redeemed_session:
  assumes "redeemSessionHandoff E token owner now S = (Inr (Some session), S')" "owner \<noteq> []"
  shows "ses_ownerKeyHash session = Some owner \<and> sg_proxies S' = sg_proxies S"
proof -
  obtain h hs where h: "handoff_redeem (se_sha256 E) token now (sg_handoffs S) = (Some h, hs)"
    using assms(1) by (auto simp: redeemSessionHandoff_def split: prod.splits option.splits)
  let ?g = "\<lambda>r. if ses_id r = hf_sessionId h \<and> ses_expiresAt r \<ge> now then r\<lparr>ses_ownerKeyHash := Some owner\<rparr> else r"
  have S': "S' = S\<lparr>sg_handoffs := hs, sg_sessions := map ?g (sg_sessions S)\<rparr>"
    and get: "OB_Storage.session_get (se_box E) (hf_sessionId h) now (map ?g (sg_sessions S)) = Inr (Some session)"
    using assms(1) by (auto simp: redeemSessionHandoff_def h Let_def session_transferOwner_def split: if_splits bool.splits)
  from get obtain r where r: "\<not> ses_expiresAt (?g r) < now" "ses_id (?g r) = hf_sessionId h" "session_of_row (se_box E) (?g r) = Inr session"
    by (auto simp: OB_Storage.session_get_def map_sum_Inr_iff find_Some_iff split: option.splits if_splits)
  then have "ses_ownerKeyHash (?g r) = Some owner" by (auto split: if_splits)
  with session_of_row_owner [OF r(3)] S' assms(2) show ?thesis by (cases owner) (simp_all add: truthy_def)
qed

text \<open>Redeeming a handoff gives the session to another key but not the proxy it was created with, which stays with the old
  key: every command and every navigation of the new owner then fails, because the selected proxy does not
  exist for that key.\<close>

theorem handoff_breaks_proxied_session:
  assumes "redeem_route R token owner w = (Inr session, w')" and "owner \<noteq> []"
    and "ses_proxyId session = Some proxy" "proxy \<noteq> []"
    and "\<forall>r \<in> set (sg_proxies (fst w)). pxy_id r = proxy \<longrightarrow> pxy_ownerKeyHash r \<noteq> owner"
  shows "ses_ownerKeyHash session = Some owner \<and>
    executeAgentCommand (rt_agent R) session c w' = (Inl (ob_err ''INVALID_REQUEST'' ''Selected proxy does not exist'' 400 False), w') \<and>
    live_session R session owner w' = (Inl (ob_err ''INVALID_REQUEST'' ''Selected proxy does not exist'' 400 False), w')"
proof -
  from assms(1) obtain S1 where S1: "redeemSessionHandoff (rt_store R) token owner (rt_now R (snd w)) (fst w) = (Inr (Some session), S1)"
    "w' = (S1, snd w)"
    by (auto simp: redeem_route_def then_do_Inr on_store_def settled_def split: prod.splits option.splits)
  from redeemed_session [OF S1(1) assms(2)] have owner: "ses_ownerKeyHash session = Some owner" "sg_proxies S1 = sg_proxies (fst w)"
    by simp_all
  have "find (\<lambda>r. pxy_id r = proxy \<and> pxy_ownerKeyHash r = owner) (sg_proxies S1) = None"
    using assms(5) owner(2) by (auto simp: find_None_iff)
  then have "resolveProxy (rt_store R) (fst w') (ses_proxyId session) (Some owner)
      = Inl (ob_err ''INVALID_REQUEST'' ''Selected proxy does not exist'' 400 False)"
    using assms(2-4) S1(2) by (simp add: resolveProxy_def or_default_def getProxy_def proxy_get_def)
  then show ?thesis using owner(1) by (simp add: executeAgentCommand_def live_session_def settled_def)
qed

section \<open>A page with some text, and a clock\<close>

definition sample_routes :: "string option \<Rightarrow> unit outcome \<Rightarrow> int route_env" where
  "sample_routes trace started =
     \<lparr>rt_agent = \<lparr>ae_page = text_page ''ok'', ae_storage = sample_env, ae_parse = (\<lambda>_. None), ae_guard = (\<lambda>_ _. None),
        ae_now = id, ae_stringify = (\<lambda>_. None)\<rparr>,
      rt_newId = (\<lambda>_. ''n1''), rt_token = (\<lambda>_. ''tk''), rt_iv = (\<lambda>_. ''iv''), rt_iso = (\<lambda>_. []), rt_sleep = (\<lambda>ms s. s + ms),
      rt_cookies = (\<lambda>_ s. (Inr [], s)), rt_addCookies = (\<lambda>_ s. (Inr (), s)), rt_storageState = (\<lambda>_ s. (Inr None, s)),
      rt_startTrace = (\<lambda>_ _ s. (started, s)), rt_stopTrace = (\<lambda>_ s. (Inr trace, s))\<rparr>"

definition traced_request :: session_request where
  "traced_request = \<lparr>sq_persistent = False, sq_ttlSeconds = 60, sq_viewport = (800, 600), sq_proxyId = None, sq_profileId = None,
     sq_profileName = None, sq_recordTrace = True, sq_liveViewer = False, sq_startUrl = None, sq_waitUntil = WaitLoad\<rparr>"

theorem challenge_wait_returns_witness:
  "\<exists>r w'. challenge_wait_route (sample_routes None (Inr ())) ''s1'' ''ann'' 100 10 (sample_storage, 0) = Some (r, w')"
proof -
  have "steady_clock (sample_routes None (Inr ()))"
    by (simp add: steady_clock_def steady_def sample_routes_def text_page_def)
  from challenge_wait_returns [OF this, of 10] show ?thesis by fastforce
qed


theorem replay_roundtrip_witness:
  "\<exists>rpl S' s'. stop_replay_route (sample_routes (Some ''zip'') (Inr ())) ''s1'' ''ann'' (sample_storage, 0) = (Inr rpl, S', s') \<and>
     replay_download_route (sample_routes (Some ''zip'') (Inr ())) (rpl_id rpl) ''ann'' (S', 50000) = (Inr (''application/zip'', ''zip''), S', 50000) \<and>
     replay_download_route (sample_routes (Some ''zip'') (Inr ())) (rpl_id rpl) ''bob'' (S', 50000) = (Inl (replay_gone ''Replay''), S', 50000)"
proof -
  let ?R = "sample_routes (Some ''zip'') (Inr ())"
  obtain rpl S' s' where run: "stop_replay_route ?R ''s1'' ''ann'' (sample_storage, 0) = (Inr rpl, S', s')"
    by (simp add: stop_replay_route_def require_session_or_def getSession_def OB_Storage.session_get_def session_of_row_def sample_routes_def
        sample_env_def sample_storage_def sample_session_def truthy_def on_live_def store_replay_def on_store_def createArtifact_def artifact_create_def
        createReplay_def empty_jobs_def Let_def)
  from replay_roundtrip [OF run, of "''zip''" 0 50000 "''bob''"] run show ?thesis by (auto simp: sample_routes_def)
qed

theorem handoff_breaks_proxied_session_witness:
  "\<exists>session w'. redeem_route (sample_routes None (Inr ())) ''t'' ''carol''
       (bobs_storage\<lparr>sg_sessions := [sample_session\<lparr>ses_proxyId := Some ''pxy_b''\<rparr>]\<rparr>, 5) = (Inr session, w') \<and>
     fst (executeAgentCommand (rt_agent (sample_routes None (Inr ()))) session CmdClose w')
       = Inl (ob_err ''INVALID_REQUEST'' ''Selected proxy does not exist'' 400 False)"
proof -
  let ?w = "(bobs_storage\<lparr>sg_sessions := [sample_session\<lparr>ses_proxyId := Some ''pxy_b''\<rparr>]\<rparr>, 5::int)"
  obtain session w' where run: "redeem_route (sample_routes None (Inr ())) ''t'' ''carol'' ?w = (Inr session, w')"
    and "ses_proxyId session = Some ''pxy_b''"
    by (simp add: redeem_route_def on_store_def settled_def redeemSessionHandoff_def handoff_redeem_def session_transferOwner_def
        OB_Storage.session_get_def session_of_row_def truthy_def sample_routes_def sample_env_def sample_storage_def sample_session_def bobs_storage_def)
  from handoff_breaks_proxied_session [OF run _ this(2), of CmdClose] run show ?thesis
    by (auto simp: bobs_storage_def bobs_proxy_def)
qed

end
