(* ===== verification/OB_Inspect.thy ===== *)
theory OB_Inspect
  imports OB_SessionRoutes
begin

text \<open>
  The inspection routes of \<open>src/src/server/routes/sessions/inspection.ts\<close>: the report of a live session, one frame of its page, and
  the stream of frames as a step relation over the events that reach the handler.
\<close>

section \<open>The report and one frame\<close>

record inspection =
  ir_session :: stored_session
  ir_tracing :: bool
  ir_url :: string
  ir_title :: string

definition session_route :: "'s route_env \<Rightarrow> string \<Rightarrow> ('s, stored_session) route_op" where
  "session_route R sid w = require_session R sid w"

definition inspect_route :: "'s route_env \<Rightarrow> ('s \<Rightarrow> bool) \<Rightarrow> string \<Rightarrow> string \<Rightarrow> ('s, inspection) route_op" where
  "inspect_route R tracing sid owner w =
     then_do (require_session R sid w) (\<lambda>session w1.
     then_do (live_session R session owner w1) (\<lambda>_ w2.
     then_do (settled (normalizeUrl (ae_parse (rt_agent R)) (lp_url (rt_page R) (snd w2))) w2) (\<lambda>u w3.
     then_do (or_else [] (on_live (lp_title (rt_page R)) w3)) (\<lambda>title.
     settled (Inr \<lparr>ir_session = session, ir_tracing = tracing (snd w2), ir_url = u, ir_title = title\<rparr>)))))"

definition frame_too_large :: js_error where
  "frame_too_large = ob_err ''PAYLOAD_TOO_LARGE'' ''Session inspector frame exceeds the configured byte limit'' 413 False"

definition inspect_screenshot_route ::
  "'s route_env \<Rightarrow> ('s, string) live_op \<Rightarrow> string \<Rightarrow> string \<Rightarrow> ('s, string) route_op" where
  "inspect_screenshot_route R shoot sid owner w =
     then_do (require_session R sid w) (\<lambda>session w1.
     then_do (live_session R session owner w1) (\<lambda>_ w2.
     then_do (on_live shoot w2) (\<lambda>shown.
     settled (if int (length shown) > maxResponseBytes (se_config (rt_store R)) then Inl frame_too_large else Inr shown))))"

section \<open>The stream\<close>

datatype stream_message =
    FrameMessage nat string string string
  | ErrorMessage string string

text \<open>What a capture waits for: the screenshot, or the title of the page whose image and address it has.\<close>

datatype capture_wait = WaitShot | WaitTitle string string

record inspect_stream =
  st_frame :: nat
  st_running :: "capture_wait option"
  st_started :: bool
  st_timer :: bool
  st_closed :: bool
  st_sent :: "stream_message list"

definition stream_close :: "inspect_stream \<Rightarrow> inspect_stream" where
  "stream_close s = (if st_closed s then s else s\<lparr>st_closed := True, st_timer := False\<rparr>)"

definition stream_send :: "stream_message \<Rightarrow> inspect_stream \<Rightarrow> inspect_stream" where
  "stream_send m s = (if st_closed s then s else s\<lparr>st_sent := st_sent s @ [m]\<rparr>)"

definition capture_begin :: "inspect_stream \<Rightarrow> inspect_stream" where
  "capture_begin s = (if st_running s \<noteq> None \<or> st_closed s then s else s\<lparr>st_running := Some WaitShot\<rparr>)"

definition capture_end :: "inspect_stream \<Rightarrow> inspect_stream" where
  "capture_end s = s\<lparr>st_running := None\<rparr>"

definition capture_failed :: "inspect_stream \<Rightarrow> inspect_stream" where
  "capture_failed s = capture_end (stream_close
     (stream_send (ErrorMessage ''SESSION_STREAM_FAILED'' ''Could not capture a session inspector frame'') s))"

text \<open>The screenshot arrived, or failed, with the address of the page at that time.\<close>

definition shot_done :: "config \<Rightarrow> string outcome \<Rightarrow> string outcome \<Rightarrow> inspect_stream \<Rightarrow> inspect_stream" where
  "shot_done cfg shot url s =
     (case shot of
        Inl _ \<Rightarrow> capture_failed s
      | Inr shown \<Rightarrow>
          if int (length shown) > maxResponseBytes cfg
          then capture_end (stream_close
            (stream_send (ErrorMessage ''PAYLOAD_TOO_LARGE'' ''Inspector stream frame exceeds the configured byte limit'') s))
          else (case url of
              Inl _ \<Rightarrow> capture_failed (s\<lparr>st_frame := st_frame s + 1\<rparr>)
            | Inr u \<Rightarrow> s\<lparr>st_frame := st_frame s + 1, st_running := Some (WaitTitle shown u)\<rparr>))"

definition title_done :: "nat \<Rightarrow> string outcome \<Rightarrow> string \<Rightarrow> string \<Rightarrow> inspect_stream \<Rightarrow> inspect_stream" where
  "title_done maxFrames title shown u s =
     (let s1 = stream_send (FrameMessage (st_frame s) u (case title of Inl _ \<Rightarrow> [] | Inr t \<Rightarrow> t) shown) s
      in capture_end (if maxFrames \<le> st_frame s1 then stream_close s1 else s1))"

text \<open>The first capture is over: the interval starts, unless the stream was closed meanwhile.\<close>

definition first_done :: "inspect_stream \<Rightarrow> inspect_stream" where
  "first_done s = s\<lparr>st_started := True, st_timer := \<not> st_closed s\<rparr>"

definition stream_start :: inspect_stream where
  "stream_start = capture_begin \<lparr>st_frame = 0, st_running = None, st_started = False, st_timer = False, st_closed = False, st_sent = []\<rparr>"

inductive stream_step :: "config \<Rightarrow> nat \<Rightarrow> inspect_stream \<Rightarrow> inspect_stream \<Rightarrow> bool" for cfg maxFrames where
  tick: "st_timer s \<Longrightarrow> stream_step cfg maxFrames s (capture_begin s)"
| shot: "st_running s = Some WaitShot \<Longrightarrow> stream_step cfg maxFrames s (shot_done cfg shown url s)"
| titled: "st_running s = Some (WaitTitle shown u) \<Longrightarrow> stream_step cfg maxFrames s (title_done maxFrames title shown u s)"
| begun: "st_running s = None \<Longrightarrow> \<not> st_started s \<Longrightarrow> stream_step cfg maxFrames s (first_done s)"
| client: "stream_step cfg maxFrames s (stream_close s)"

inductive_cases stream_stepE: "stream_step cfg maxFrames s s'"

inductive stream_reach :: "config \<Rightarrow> nat \<Rightarrow> inspect_stream \<Rightarrow> bool" for cfg maxFrames where
  start: "stream_reach cfg maxFrames stream_start"
| step: "stream_reach cfg maxFrames s \<Longrightarrow> stream_step cfg maxFrames s s' \<Longrightarrow> stream_reach cfg maxFrames s'"

section \<open>What the stream sends\<close>

definition frame_index :: "stream_message \<Rightarrow> nat option" where
  "frame_index m = (case m of FrameMessage i _ _ _ \<Rightarrow> Some i | ErrorMessage _ _ \<Rightarrow> None)"

definition frames_upto :: "nat \<Rightarrow> nat option list" where
  "frames_upto n = map Some [1..<Suc n]"

text \<open>Frames are numbered from one and one at a time; an error closes the stream.\<close>

definition stream_ok :: "nat \<Rightarrow> inspect_stream \<Rightarrow> bool" where
  "stream_ok maxFrames s \<longleftrightarrow>
     (let sent = map frame_index (st_sent s) in
      (\<exists>n \<le> maxFrames. sent = frames_upto n \<or> st_closed s \<and> sent = frames_upto n @ [None]) \<and>
      (\<not> st_closed s \<longrightarrow> (case st_running s of
           Some (WaitTitle _ _) \<Rightarrow> (\<exists>n. st_frame s = Suc n \<and> n < maxFrames \<and> sent = frames_upto n)
         | _ \<Rightarrow> st_frame s < maxFrames \<and> sent = frames_upto (st_frame s))) \<and>
      (st_closed s \<longrightarrow> \<not> st_timer s) \<and> (st_timer s \<longrightarrow> st_started s))"

lemma frames_upto_Suc: "frames_upto (Suc n) = frames_upto n @ [Some (Suc n)]"
  by (simp add: frames_upto_def)

lemmas stream_defs = stream_close_def stream_send_def capture_begin_def capture_end_def capture_failed_def shot_done_def title_done_def
  first_done_def

lemma stream_step_ok: "stream_step cfg maxFrames s s' \<Longrightarrow> stream_ok maxFrames s \<Longrightarrow> stream_ok maxFrames s'"
proof (induction rule: stream_step.induct)
  case (titled s shown u title)
  show ?case
  proof (cases "st_closed s")
    case False
    with titled obtain n where n: "st_frame s = Suc n" "n < maxFrames" "map frame_index (st_sent s) = frames_upto n"
      by (auto simp: stream_ok_def Let_def)
    then have "map frame_index (st_sent s) @ [Some (Suc n)] = frames_upto (Suc n)" by (simp add: frames_upto_Suc)
    with n False titled show ?thesis
      by (auto simp: stream_ok_def title_done_def Let_def stream_send_def stream_close_def capture_end_def frame_index_def intro!: exI [of _ "Suc n"])
  qed (use titled in \<open>auto simp: stream_ok_def title_done_def Let_def stream_send_def stream_close_def capture_end_def\<close>)
next
  case (shot s shown url)
  then show ?case
    by (cases "st_closed s")
      (auto simp: stream_ok_def stream_defs Let_def frame_index_def split: sum.split intro!: exI [of _ "st_frame s"])
qed (auto simp: stream_ok_def stream_defs Let_def split: option.splits capture_wait.splits intro: less_imp_le)

lemma stream_start_ok: "0 < maxFrames \<Longrightarrow> stream_ok maxFrames stream_start"
  by (auto simp: stream_ok_def stream_start_def capture_begin_def Let_def frames_upto_def)

lemma stream_reach_ok: "stream_reach cfg maxFrames s \<Longrightarrow> 0 < maxFrames \<Longrightarrow> stream_ok maxFrames s"
  by (induction rule: stream_reach.induct) (auto intro: stream_start_ok stream_step_ok)

lemma stream_step_closed: "stream_step cfg maxFrames s s' \<Longrightarrow> st_closed s \<Longrightarrow> st_closed s' \<and> st_sent s' = st_sent s"
  by (erule stream_stepE) (auto simp: stream_defs Let_def split: sum.split)

lemma length_frames_upto: "length (frames_upto n) = n"
  by (simp add: frames_upto_def)

lemma None_frames_upto: "None \<notin> set (frames_upto n)"
  by (auto simp: frames_upto_def)

text \<open>C27. The stream of a session sends at most the requested number of frames, numbered from one without a gap, then at most one
  error. It is closed as soon as the last frame or an error was sent, whatever the timer and the client do
  meanwhile, and a closed stream sends nothing more.\<close>

theorem stream_frames:
  assumes "stream_reach cfg maxFrames s" "0 < maxFrames"
  shows "(\<exists>n \<le> maxFrames. map frame_index (st_sent s) = frames_upto n \<or> map frame_index (st_sent s) = frames_upto n @ [None]) \<and>
    (None \<in> set (map frame_index (st_sent s)) \<or> length (st_sent s) = maxFrames \<longrightarrow> st_closed s) \<and>
    (st_closed s \<and> stream_step cfg maxFrames s s' \<longrightarrow> st_closed s' \<and> st_sent s' = st_sent s)"
proof -
  from stream_reach_ok [OF assms] have ok: "stream_ok maxFrames s" .
  have "st_closed s" if sent: "None \<in> set (map frame_index (st_sent s)) \<or> length (st_sent s) = maxFrames"
  proof (rule ccontr)
    assume "\<not> st_closed s"
    with ok obtain n where n: "n < maxFrames" "map frame_index (st_sent s) = frames_upto n"
      by (auto simp: stream_ok_def Let_def split: option.splits capture_wait.splits)
    then have "length (st_sent s) = n" using length_frames_upto [of n] by (metis length_map)
    with sent n None_frames_upto [of n] show False by auto
  qed
  with ok stream_step_closed show ?thesis by (auto simp: stream_ok_def Let_def)
qed

definition two_frames :: inspect_stream where
  "two_frames = title_done 2 (Inr ''b'') ''i'' ''u'' (shot_done sample_config (Inr ''i'') (Inr ''u'')
     (capture_begin (first_done (title_done 2 (Inr ''a'') ''i'' ''u'' (shot_done sample_config (Inr ''i'') (Inr ''u'') stream_start)))))"

theorem stream_frames_witness: "st_closed two_frames \<and> map frame_index (st_sent two_frames) = [Some 1, Some 2]"
proof -
  have small: "\<not> int (length ''i'') > maxResponseBytes sample_config" using sample_config_ok by (simp add: config_ok_def)
  let ?s1 = "shot_done sample_config (Inr ''i'') (Inr ''u'') stream_start"
  let ?s2 = "title_done 2 (Inr ''a'') ''i'' ''u'' ?s1"
  let ?s4 = "capture_begin (first_done ?s2)"
  let ?s5 = "shot_done sample_config (Inr ''i'') (Inr ''u'') ?s4"
  note eval = stream_defs stream_start_def Let_def frame_index_def
  have s: "st_running stream_start = Some WaitShot" "st_running ?s1 = Some (WaitTitle ''i'' ''u'')" "st_running ?s2 = None" "\<not> st_started ?s2"
    "st_timer (first_done ?s2)" "st_running ?s4 = Some WaitShot" "st_running ?s5 = Some (WaitTitle ''i'' ''u'')"
    "length (st_sent two_frames) = 2" "map frame_index (st_sent two_frames) = [Some 1, Some 2]"
    using small by (simp_all add: eval two_frames_def)
  have "stream_reach sample_config 2 two_frames" unfolding two_frames_def
    by (rule stream_reach.step [OF stream_reach.step [OF stream_reach.step [OF stream_reach.step [OF stream_reach.step
        [OF stream_reach.step [OF stream_reach.start shot [OF s(1)]] titled [OF s(2)]] begun [OF s(3,4)]] tick [OF s(5)]]
        shot [OF s(6)]] titled [OF s(7)]])
  from stream_frames [OF this] s(8,9) show ?thesis by auto
qed

end
