(* ===== verification/OB_Queue.thy ===== *)
theory OB_Queue
  imports OB_Config_Facts OB_System
begin

text \<open>
  The admission queue of \<open>src/src/queue.ts\<close>: admission by memory and by length, the 90th
  percentile estimate per workload kind, first-in-first-out draining under the concurrency limit
  and the memory slots, and the statistics. Each call that reads the resident set gets its value
  as an argument; a started job is returned to the caller of the model, and its later settlement
  is an event.
\<close>

section \<open>State\<close>

datatype workload = WlHttp | WlBrowser | WlScreenshot | WlPdf | WlDownload | WlWorkflow | WlAutomation | WlUnknown

definition workloads :: "workload list" where
  "workloads = [WlHttp, WlBrowser, WlScreenshot, WlPdf, WlDownload, WlWorkflow, WlAutomation, WlUnknown]"

fun defaultEstimates :: "workload \<Rightarrow> rat" where
  "defaultEstimates WlHttp = 32"
| "defaultEstimates WlBrowser = 256"
| "defaultEstimates WlScreenshot = 192"
| "defaultEstimates WlPdf = 256"
| "defaultEstimates WlDownload = 192"
| "defaultEstimates WlWorkflow = 256"
| "defaultEstimates WlAutomation = 256"
| "defaultEstimates WlUnknown = 200"

record 'j pending_job =
  pj_task :: 'j
  pj_createdAt :: millis
  pj_workload :: workload

record 'j admission_queue =
  aq_active :: nat
  aq_pending :: "'j pending_job list"
  aq_samples :: "(workload, rat list) jsmap"
  aq_queueAlerted :: bool
  aq_rejMemory :: nat
  aq_rejQueue :: nat

definition empty_queue :: "'j admission_queue" where
  "empty_queue = \<lparr>aq_active = 0, aq_pending = [], aq_samples = [], aq_queueAlerted = False,
                  aq_rejMemory = 0, aq_rejQueue = 0\<rparr>"

section \<open>Operations\<close>

definition p90 :: "rat list \<Rightarrow> rat \<Rightarrow> rat" where
  "p90 vs fallback =
     (if vs = [] then fallback
      else sort vs ! min (length vs - 1) (nat \<lceil>rat_of_nat (length vs) * (9 / 10)\<rceil> - 1))"

definition estimate :: "'j admission_queue \<Rightarrow> workload \<Rightarrow> rat" where
  "estimate q w = p90 (map_get_or [] (aq_samples q) w) (defaultEstimates w)"

definition recordSample :: "workload \<Rightarrow> rat \<Rightarrow> 'j admission_queue \<Rightarrow> 'j admission_queue" where
  "recordSample w v q =
     (let history = map_get_or [] (aq_samples q) w @ [v];
          kept = (if length history > 128 then drop (length history - 128) history else history)
      in q\<lparr>aq_samples := map_set w kept (aq_samples q)\<rparr>)"

definition memory_slots :: "config \<Rightarrow> rat \<Rightarrow> rat \<Rightarrow> int" where
  "memory_slots cfg rss est = \<lfloor>(of_int (memoryHardMb cfg - memoryReserveMb cfg) - rss) / est\<rfloor>"

text \<open>The \<open>while\<close> loop: the jobs that stay pending and those that start, in order.\<close>

fun drain_loop ::
  "config \<Rightarrow> rat \<Rightarrow> (workload \<Rightarrow> rat) \<Rightarrow> nat \<Rightarrow> 'j pending_job list
     \<Rightarrow> 'j pending_job list \<times> 'j pending_job list" where
  "drain_loop cfg rss est active [] = ([], [])"
| "drain_loop cfg rss est active (next # rest) =
     (if \<not> int active < maxConcurrency cfg then (next # rest, [])
      else if int active \<ge> max 0 (memory_slots cfg rss (est (pj_workload next))) then (next # rest, [])
      else (case drain_loop cfg rss est (Suc active) rest of
              (pending, started) \<Rightarrow> (pending, next # started)))"

definition drain :: "config \<Rightarrow> rat \<Rightarrow> 'j admission_queue \<Rightarrow> 'j admission_queue \<times> 'j pending_job list" where
  "drain cfg rss q =
     (let q1 = (if aq_pending q = [] then q\<lparr>aq_queueAlerted := False\<rparr> else q)
      in case drain_loop cfg rss (estimate q1) (aq_active q1) (aq_pending q1) of
           (pending, started) \<Rightarrow>
             (q1\<lparr>aq_pending := pending, aq_active := aq_active q1 + length started\<rparr>, started))"

text \<open>
  \<open>run\<close>: the caller's snapshot \<open>rss\<close>, the snapshot \<open>rss'\<close> that \<open>drain\<close> takes, and the clock.
  The second component of a success says whether \<open>onQueued\<close> was scheduled.
\<close>

definition run ::
  "config \<Rightarrow> rat \<Rightarrow> rat \<Rightarrow> millis \<Rightarrow> 'j \<Rightarrow> workload \<Rightarrow> 'j admission_queue
     \<Rightarrow> ('j pending_job list \<times> bool) outcome \<times> 'j admission_queue" where
  "run cfg rss rss' now task w q =
     (if rss \<ge> of_int (memoryHardMb cfg)
          \<or> rss + estimate q w > of_int (memoryHardMb cfg - memoryReserveMb cfg)
      then (Inl (ob_err ''MEMORY_PRESSURE''
                  ''Service cannot admit this workload within its configured memory reserve'' 503 True),
            q\<lparr>aq_rejMemory := Suc (aq_rejMemory q)\<rparr>)
      else if int (length (aq_pending q)) \<ge> queueMax cfg
      then (Inl (ob_err ''RATE_LIMITED'' ''Execution queue is full'' 429 True),
            q\<lparr>aq_rejQueue := Suc (aq_rejQueue q)\<rparr>)
      else
        (let notify = ((aq_pending q \<noteq> [] \<or> int (aq_active q) \<ge> maxConcurrency cfg) \<and> \<not> aq_queueAlerted q);
             q1 = (if notify then q\<lparr>aq_queueAlerted := True\<rparr> else q);
             job = \<lparr>pj_task = task, pj_createdAt = now, pj_workload = w\<rparr>
         in case drain cfg rss' (q1\<lparr>aq_pending := aq_pending q1 @ [job]\<rparr>) of
              (q2, started) \<Rightarrow> (Inr (started, notify), q2)))"

text \<open>The wrapped task after \<open>await task()\<close>, with the snapshots around it.\<close>

definition task_sample :: "workload \<Rightarrow> rat \<Rightarrow> rat \<Rightarrow> 'j admission_queue \<Rightarrow> 'j admission_queue" where
  "task_sample w before after q = recordSample w (max 1 (after - before)) q"

text \<open>Both continuations of \<open>job.task().then\<close>: give the slot back and drain.\<close>

definition settle :: "config \<Rightarrow> rat \<Rightarrow> 'j admission_queue \<Rightarrow> 'j admission_queue \<times> 'j pending_job list" where
  "settle cfg rss q = drain cfg rss (q\<lparr>aq_active := aq_active q - 1\<rparr>)"

datatype pressure = Normal | Pressure | Critical

fun pressure_rank :: "pressure \<Rightarrow> nat" where
  "pressure_rank Normal = 0"
| "pressure_rank Pressure = 1"
| "pressure_rank Critical = 2"

lemma pressure_rank_inject: "pressure_rank a = pressure_rank b \<longleftrightarrow> a = b"
  by (cases a; cases b) simp_all

instantiation pressure :: linorder
begin

definition less_eq_pressure :: "pressure \<Rightarrow> pressure \<Rightarrow> bool" where
  "less_eq_pressure a b \<longleftrightarrow> pressure_rank a \<le> pressure_rank b"

definition less_pressure :: "pressure \<Rightarrow> pressure \<Rightarrow> bool" where
  "less_pressure a b \<longleftrightarrow> pressure_rank a < pressure_rank b"

instance
  by standard (auto simp: less_eq_pressure_def less_pressure_def pressure_rank_inject)

end

record queue_stats =
  qs_active :: nat
  qs_pending :: nat
  qs_pressure :: pressure
  qs_estimatedJobMemoryMb :: rat
  qs_estimatesMb :: "(workload \<times> rat) list"
  qs_rejections :: "nat \<times> nat"

definition queue_pressure :: "config \<Rightarrow> rat \<Rightarrow> pressure" where
  "queue_pressure cfg rss =
     (if rss \<ge> of_int (memoryHardMb cfg) then Critical
      else if rss \<ge> of_int (memorySoftMb cfg) then Pressure else Normal)"

definition stats :: "config \<Rightarrow> rat \<Rightarrow> 'j admission_queue \<Rightarrow> queue_stats" where
  "stats cfg rss q =
     \<lparr>qs_active = aq_active q, qs_pending = length (aq_pending q), qs_pressure = queue_pressure cfg rss,
      qs_estimatedJobMemoryMb = to_fixed 1 (estimate q WlUnknown),
      qs_estimatesMb = map (\<lambda>w. (w, to_fixed 1 (estimate q w))) workloads,
      qs_rejections = (aq_rejMemory q, aq_rejQueue q)\<rparr>"

lemmas [ob_ops] = p90_def estimate_def recordSample_def drain_def run_def task_sample_def settle_def

section \<open>Estimates\<close>

lemma p90_in: "vs \<noteq> [] \<Longrightarrow> p90 vs d \<in> set vs"
proof -
  assume "vs \<noteq> []"
  then have "min (length vs - 1) k < length (sort vs)" for k by (cases vs) auto
  then have "sort vs ! min (length vs - 1) k \<in> set (sort vs)" for k by (rule nth_mem)
  with \<open>vs \<noteq> []\<close> show ?thesis by (simp add: p90_def)
qed

lemma ceil_nine_tenths: "nat \<lceil>rat_of_nat n * (9 / 10)\<rceil> = (9 * n + 9) div 10"
proof -
  have "\<lceil>rat_of_nat n * (9 / 10)\<rceil> = int ((9 * n + 9) div 10)"
  proof (rule ceiling_unique)
    have "9 * n \<le> 10 * ((9 * n + 9) div 10)" and "10 * ((9 * n + 9) div 10) \<le> 9 * n + 9" by linarith+
    then have "rat_of_nat (9 * n) \<le> rat_of_nat (10 * ((9 * n + 9) div 10))"
      and "rat_of_nat (10 * ((9 * n + 9) div 10)) \<le> rat_of_nat (9 * n + 9)"
      by (simp_all only: of_nat_le_iff)
    then show "rat_of_nat n * (9 / 10) \<le> of_int (int ((9 * n + 9) div 10))"
      and "of_int (int ((9 * n + 9) div 10)) - 1 < rat_of_nat n * (9 / 10)" by simp_all
  qed
  then show ?thesis by simp
qed

lemma length_filter_sorted_le:
  assumes "sorted xs" and "i < length xs"
  shows "Suc i \<le> length (filter (\<lambda>x. x \<le> xs ! i) xs)"
proof -
  have "\<forall>x \<in> set (take (Suc i) xs). x \<le> xs ! i"
    using assms by (auto simp: in_set_conv_nth less_Suc_eq_le sorted_iff_nth_mono)
  then have "filter (\<lambda>x. x \<le> xs ! i) (take (Suc i) xs) = take (Suc i) xs"
    by (simp add: filter_id_conv)
  then have "Suc i = length (filter (\<lambda>x. x \<le> xs ! i) (take (Suc i) xs))" using assms by simp
  also have "\<dots> \<le> length (filter (\<lambda>x. x \<le> xs ! i) (take (Suc i) xs @ drop (Suc i) xs))"
    by (simp only: filter_append length_append)
  finally show ?thesis by simp
qed

text \<open>\<open>p90\<close> is a 90th percentile of the samples: it is one of them, and at least nine tenths
  of the samples do not exceed it. Without samples it is the default of the workload.\<close>

theorem p90_percentile:
  "p90 [] d = d
   \<and> (vs = [] \<or> (p90 vs d \<in> set vs
        \<and> 9 * length vs \<le> 10 * length (filter (\<lambda>v. v \<le> p90 vs d) vs)))"
proof (cases "vs = []")
  case False
  define i where "i = min (length vs - 1) ((9 * length vs + 9) div 10 - 1)"
  have i: "i < length (sort vs)" and "9 * length vs \<le> 10 * Suc i"
  proof -
    have "0 < length vs" using False by simp
    then show "i < length (sort vs)" and "9 * length vs \<le> 10 * Suc i" by (auto simp: i_def min_def)
  qed
  have p: "p90 vs d = sort vs ! i" using False unfolding p90_def i_def ceil_nine_tenths by simp
  have "Suc i \<le> length (filter (\<lambda>v. v \<le> sort vs ! i) (sort vs))"
    by (rule length_filter_sorted_le [OF sorted_sort i])
  also have "\<dots> = length (filter (\<lambda>v. v \<le> p90 vs d) vs)"
    by (simp only: p filter_sort length_sort)
  finally show ?thesis using p90_in [OF False] \<open>9 * length vs \<le> 10 * Suc i\<close> by (auto simp: p90_def)
qed (simp add: p90_def)


section \<open>Draining\<close>

lemma drain_loop_split:
  "drain_loop cfg rss est active ps = (pending, started) \<Longrightarrow> ps = started @ pending"
  by (induction ps arbitrary: active pending started) (auto split: if_splits prod.splits)

lemma drain_loop_active:
  "drain_loop cfg rss est active ps = (pending, started) \<Longrightarrow> int active \<le> maxConcurrency cfg \<Longrightarrow>
     int (active + length started) \<le> maxConcurrency cfg"
proof (induction ps arbitrary: active pending started)
  case (Cons p ps)
  show ?case
  proof (cases "started = []")
    case False
    then obtain st where "drain_loop cfg rss est (Suc active) ps = (pending, st)" "started = p # st"
        "int active < maxConcurrency cfg"
      using Cons.prems(1) by (auto split: if_splits prod.splits)
    with Cons.IH [of "Suc active" pending st] show ?thesis by simp
  qed (use Cons.prems in simp)
qed simp

text \<open>A job may start only below the concurrency limit and below its memory slots.\<close>

definition may_start :: "config \<Rightarrow> rat \<Rightarrow> (workload \<Rightarrow> rat) \<Rightarrow> nat \<Rightarrow> 'j pending_job \<Rightarrow> bool" where
  "may_start cfg rss est active j \<longleftrightarrow>
     int active < maxConcurrency cfg \<and> int active < max 0 (memory_slots cfg rss (est (pj_workload j)))"

lemma drain_loop_started:
  "drain_loop cfg rss est active ps = (pending, started) \<Longrightarrow> i < length started \<Longrightarrow>
     may_start cfg rss est (active + i) (started ! i)"
proof (induction ps arbitrary: active pending started i)
  case (Cons p ps)
  then obtain st where st: "drain_loop cfg rss est (Suc active) ps = (pending, st)" "started = p # st"
    and p: "may_start cfg rss est active p"
    by (auto simp: may_start_def split: if_splits prod.splits)
  show ?case
  proof (cases i)
    case (Suc k)
    with Cons.IH [OF st(1), of k] Cons.prems(2) st(2) show ?thesis by simp
  qed (use p st in simp)
qed simp

lemma drain_loop_stops:
  "drain_loop cfg rss est active ps = (pending, started) \<Longrightarrow>
     pending = [] \<or> \<not> may_start cfg rss est (active + length started) (hd pending)"
proof (induction ps arbitrary: active pending started)
  case (Cons p ps)
  show ?case
  proof (cases "may_start cfg rss est active p")
    case True
    then obtain st where st: "drain_loop cfg rss est (Suc active) ps = (pending, st)" "started = p # st"
      using Cons.prems by (auto simp: may_start_def split: prod.splits if_splits)
    with Cons.IH [OF st(1)] show ?thesis by simp
  next
    case False
    with Cons.prems have "pending = p # ps \<and> started = []" by (auto simp: may_start_def split: if_splits)
    with False show ?thesis by simp
  qed
qed simp

lemma drain_cases:
  assumes "drain cfg rss q = (q', started)"
  obtains pending q1 where "drain_loop cfg rss (estimate q) (aq_active q) (aq_pending q) = (pending, started)"
    and "q' = q1\<lparr>aq_pending := pending, aq_active := aq_active q + length started\<rparr>"
    and "q1 = q \<or> q1 = q\<lparr>aq_queueAlerted := False\<rparr>"
proof -
  let ?q1 = "if aq_pending q = [] then q\<lparr>aq_queueAlerted := False\<rparr> else q"
  have est: "estimate ?q1 = estimate q" by (auto simp: estimate_def)
  obtain pending st where l: "drain_loop cfg rss (estimate q) (aq_active q) (aq_pending q) = (pending, st)" by fastforce
  have "q' = ?q1\<lparr>aq_pending := pending, aq_active := aq_active q + length st\<rparr> \<and> started = st"
    using assms l by (auto simp: drain_def Let_def est split: if_splits)
  with l that [of pending ?q1] show ?thesis by auto
qed

lemma drain_facts:
  assumes "drain cfg rss q = (q', started)"
  shows "aq_pending q = started @ aq_pending q'" and "aq_active q' = aq_active q + length started"
    and "aq_samples q' = aq_samples q" and "estimate q' = estimate q"
    and "aq_rejMemory q' = aq_rejMemory q" and "aq_rejQueue q' = aq_rejQueue q"
proof -
  from assms obtain pending q1 where l: "drain_loop cfg rss (estimate q) (aq_active q) (aq_pending q) = (pending, started)"
    and q': "q' = q1\<lparr>aq_pending := pending, aq_active := aq_active q + length started\<rparr>"
    and q1: "q1 = q \<or> q1 = q\<lparr>aq_queueAlerted := False\<rparr>"
    by (rule drain_cases)
  from drain_loop_split [OF l] q' show "aq_pending q = started @ aq_pending q'" by simp
  from q' q1 show "aq_active q' = aq_active q + length started" and "aq_samples q' = aq_samples q"
    and "aq_rejMemory q' = aq_rejMemory q" and "aq_rejQueue q' = aq_rejQueue q"
    by auto
  from q' q1 show "estimate q' = estimate q" by (auto simp: estimate_def)
qed



section \<open>The queue as a step system\<close>

text \<open>
  The queue with the jobs whose promises are outstanding, and the histories of accepted and
  started jobs.
\<close>

record 'j queue_world =
  qw_queue :: "'j admission_queue"
  qw_running :: "'j pending_job list"
  qw_accepted :: "'j pending_job list"
  qw_started :: "'j pending_job list"

definition queue_start :: "'j queue_world" where
  "queue_start = \<lparr>qw_queue = empty_queue, qw_running = [], qw_accepted = [], qw_started = []\<rparr>"

definition start_jobs :: "'j pending_job list \<Rightarrow> 'j queue_world \<Rightarrow> 'j queue_world" where
  "start_jobs js W = W\<lparr>qw_running := qw_running W @ js, qw_started := qw_started W @ js\<rparr>"

inductive queue_step :: "config \<Rightarrow> 'j queue_world \<Rightarrow> 'j queue_world \<Rightarrow> bool" for cfg where
  queue_admit:
    "run cfg rss rss' now task w (qw_queue W) = (Inr (js, notify), q') \<Longrightarrow>
     queue_step cfg W (start_jobs js
       (W\<lparr>qw_queue := q',
          qw_accepted := qw_accepted W @ [\<lparr>pj_task = task, pj_createdAt = now, pj_workload = w\<rparr>]\<rparr>))"
| queue_refuse:
    "run cfg rss rss' now task w (qw_queue W) = (Inl e, q') \<Longrightarrow>
     queue_step cfg W (W\<lparr>qw_queue := q'\<rparr>)"
| queue_sample:
    "j \<in> set (qw_running W) \<Longrightarrow>
     queue_step cfg W (W\<lparr>qw_queue := task_sample (pj_workload j) before after (qw_queue W)\<rparr>)"
| queue_settle:
    "j \<in> set (qw_running W) \<Longrightarrow> settle cfg rss (qw_queue W) = (q', js) \<Longrightarrow>
     queue_step cfg W (start_jobs js (W\<lparr>qw_queue := q', qw_running := remove1 j (qw_running W)\<rparr>))"

inductive_cases queue_stepE: "queue_step cfg W W'"

definition samples_ok :: "'j admission_queue \<Rightarrow> bool" where
  "samples_ok q \<longleftrightarrow>
     map_keys_ok (aq_samples q) \<and> list_all (\<lambda>(w, vs). length vs \<le> 128 \<and> list_all ((\<le>) 1) vs) (aq_samples q)"

definition queue_inv :: "config \<Rightarrow> 'j queue_world \<Rightarrow> bool" where
  "queue_inv cfg W \<longleftrightarrow>
     (let q = qw_queue W in
      aq_active q = length (qw_running W) \<and> int (aq_active q) \<le> maxConcurrency cfg \<and>
      int (length (aq_pending q)) \<le> queueMax cfg \<and>
      qw_started W @ aq_pending q = qw_accepted W \<and> samples_ok q)"

lemma samples_ok_history:
  "samples_ok q \<Longrightarrow> length (map_get_or [] (aq_samples q) w) \<le> 128
     \<and> list_all ((\<le>) 1) (map_get_or [] (aq_samples q) w)"
  by (auto simp: samples_ok_def map_get_or_def list_all_iff dest!: map_of_Some_in split: option.splits)

lemma samples_ok_record: "samples_ok q \<Longrightarrow> 1 \<le> v \<Longrightarrow> samples_ok (recordSample w v q)"
  using samples_ok_history [of q w]
  by (auto simp: samples_ok_def recordSample_def Let_def set_map_set list_all_iff dest: in_set_dropD)

lemma queue_active_drain:
  assumes "drain cfg rss q = (q', js)" and "int (aq_active q) \<le> maxConcurrency cfg"
  shows "int (aq_active q') \<le> maxConcurrency cfg"
proof -
  from assms(1) obtain pending q1 where l: "drain_loop cfg rss (estimate q) (aq_active q) (aq_pending q) = (pending, js)"
    and q': "q' = q1\<lparr>aq_pending := pending, aq_active := aq_active q + length js\<rparr>"
    by (rule drain_cases)
  from drain_loop_active [OF l assms(2)] q' show ?thesis by simp
qed

lemma run_Inr:
  assumes "run cfg rss rss' now task w q = (Inr (js, n), q')"
  obtains q1 where "drain cfg rss' (q1\<lparr>aq_pending := aq_pending q @ [\<lparr>pj_task = task, pj_createdAt = now, pj_workload = w\<rparr>]\<rparr>) = (q', js)"
    and "q1 = q \<or> q1 = q\<lparr>aq_queueAlerted := True\<rparr>" and "int (length (aq_pending q)) < queueMax cfg"
    and "rss + estimate q w \<le> of_int (memoryHardMb cfg - memoryReserveMb cfg)"
  using assms by (auto simp: run_def Let_def not_le split: if_splits prod.splits)

lemma run_Inl:
  assumes "run cfg rss rss' now task w q = (Inl e, q')"
  shows "q' = q\<lparr>aq_rejMemory := Suc (aq_rejMemory q)\<rparr> \<or> q' = q\<lparr>aq_rejQueue := Suc (aq_rejQueue q)\<rparr>"
  using assms by (auto simp: run_def Let_def split: if_splits prod.splits)

lemma samples_ok_cong: "aq_samples q = aq_samples q' \<Longrightarrow> samples_ok q = samples_ok q'"
  by (simp add: samples_ok_def)

lemma queue_inv_drain:
  assumes inv: "queue_inv cfg W" and q: "aq_samples q = aq_samples (qw_queue W)"
    and d: "drain cfg rss q = (q', js)" and act: "aq_active q = length run'" "aq_active q \<le> aq_active (qw_queue W)"
    and pend: "qw_started W @ aq_pending q = acc" and len: "int (length (aq_pending q)) \<le> queueMax cfg"
  shows "queue_inv cfg (start_jobs js (W\<lparr>qw_queue := q', qw_running := run', qw_accepted := acc\<rparr>))"
proof -
  note f = drain_facts [OF d]
  have "int (aq_active q) \<le> maxConcurrency cfg" using inv act(2) by (simp add: queue_inv_def Let_def)
  from queue_active_drain [OF d this] f inv act pend len samples_ok_cong [of q' "qw_queue W"] q show ?thesis
    by (simp add: queue_inv_def Let_def start_jobs_def)
qed

lemma queue_inv_step: "queue_inv cfg W \<Longrightarrow> queue_step cfg W W' \<Longrightarrow> queue_inv cfg W'"
proof (erule queue_stepE, goal_cases)
  case (1 rss rss' now task w js n q')
  let ?j = "\<lparr>pj_task = task, pj_createdAt = now, pj_workload = w\<rparr>"
  from 1(3) obtain q1 where d: "drain cfg rss' (q1\<lparr>aq_pending := aq_pending (qw_queue W) @ [?j]\<rparr>) = (q', js)"
    and q1: "q1 = qw_queue W \<or> q1 = qw_queue W\<lparr>aq_queueAlerted := True\<rparr>"
    and room: "int (length (aq_pending (qw_queue W))) < queueMax cfg" by (rule run_Inr)
  have "queue_inv cfg (start_jobs js (W\<lparr>qw_queue := q', qw_running := qw_running W, qw_accepted := qw_accepted W @ [?j]\<rparr>))"
    by (rule queue_inv_drain [OF 1(1) _ d]) (use 1(1) q1 room in \<open>auto simp: queue_inv_def Let_def\<close>)
  with 1(2) show ?case by simp
next
  case (2 rss rss' now task w e q')
  from run_Inl [OF 2(3)] 2(1,2) show ?case by (auto simp: queue_inv_def Let_def samples_ok_def)
next
  case (3 j before after)
  have "aq_active (recordSample w v q) = aq_active q" "aq_pending (recordSample w v q) = aq_pending q"
    for w v and q :: "'a admission_queue" by (simp_all add: recordSample_def Let_def)
  with 3(1,2) show ?case
    by (simp add: queue_inv_def Let_def task_sample_def samples_ok_record)
next
  case (4 j rss q' js)
  have d: "drain cfg rss (qw_queue W\<lparr>aq_active := aq_active (qw_queue W) - 1\<rparr>) = (q', js)"
    using 4(4) by (simp add: settle_def)
  have "queue_inv cfg (start_jobs js (W\<lparr>qw_queue := q', qw_running := remove1 j (qw_running W), qw_accepted := qw_accepted W\<rparr>))"
    by (rule queue_inv_drain [OF 4(1) _ d]) (use 4(1,3) in \<open>auto simp: queue_inv_def Let_def length_remove1\<close>)
  with 4(2) show ?case by simp
qed

lemma queue_inv_start: "config_ok cfg \<Longrightarrow> queue_inv cfg queue_start"
  by (simp add: queue_inv_def queue_start_def empty_queue_def samples_ok_def config_ok_def)

interpretation queue_system: invariant_system "queue_step cfg" "queue_inv cfg"
  by unfold_locales (rule queue_inv_step)

text \<open>C3. In every state the queue reaches under a loaded configuration, the active count is the
  number of jobs whose promise is outstanding and at most \<open>maxConcurrency\<close>, at most \<open>queueMax\<close>
  jobs are pending, jobs start in the order in which they were accepted with none lost or
  duplicated, and every workload keeps at most 128 samples of at least one megabyte.\<close>

theorem queue_reachable:
  assumes "config_ok cfg" and "reach (queue_step cfg) queue_start W"
  shows "aq_active (qw_queue W) = length (qw_running W)
    \<and> int (aq_active (qw_queue W)) \<le> maxConcurrency cfg
    \<and> int (length (aq_pending (qw_queue W))) \<le> queueMax cfg
    \<and> qw_started W @ aq_pending (qw_queue W) = qw_accepted W
    \<and> samples_ok (qw_queue W)"
  using queue_system.reach_inv [OF assms(2) queue_inv_start [OF assms(1)]]
  by (simp add: queue_inv_def Let_def)

definition admissible :: "config \<Rightarrow> rat \<Rightarrow> 'j admission_queue \<Rightarrow> workload \<Rightarrow> bool" where
  "admissible cfg rss q w \<longleftrightarrow>
     rss < of_int (memoryHardMb cfg) \<and>
     rss + estimate q w \<le> of_int (memoryHardMb cfg - memoryReserveMb cfg) \<and>
     int (length (aq_pending q)) < queueMax cfg"

definition rejections :: "'j admission_queue \<Rightarrow> nat" where
  "rejections q = aq_rejMemory q + aq_rejQueue q"

lemma run_refused:
  assumes "run cfg rss rss' now task w q = (Inl e, q')"
  shows "\<not> admissible cfg rss q w" and "error_code e \<in> {''MEMORY_PRESSURE'', ''RATE_LIMITED''}"
    and "rejections q' = rejections q + 1"
    and "aq_pending q' = aq_pending q \<and> aq_active q' = aq_active q \<and> aq_samples q' = aq_samples q"
  using assms
  by (auto simp: run_def admissible_def rejections_def Let_def split: if_splits prod.splits)

lemma run_accepted:
  assumes "run cfg rss rss' now task w q = (Inr (js, notify), q')"
  shows "admissible cfg rss q w"
    and "aq_pending q @ [\<lparr>pj_task = task, pj_createdAt = now, pj_workload = w\<rparr>] = js @ aq_pending q'"
    and "aq_active q' = aq_active q + length js" and "rejections q' = rejections q"
    and "aq_samples q' = aq_samples q"
proof -
  from assms obtain q1 where
    d: "drain cfg rss' (q1\<lparr>aq_pending := aq_pending q @ [\<lparr>pj_task = task, pj_createdAt = now, pj_workload = w\<rparr>]\<rparr>) = (q', js)"
    and q1: "q1 = q \<or> q1 = q\<lparr>aq_queueAlerted := True\<rparr>" by (rule run_Inr)
  from drain_facts [OF d] q1
  show "aq_pending q @ [\<lparr>pj_task = task, pj_createdAt = now, pj_workload = w\<rparr>] = js @ aq_pending q'"
    and "aq_active q' = aq_active q + length js" and "rejections q' = rejections q"
    and "aq_samples q' = aq_samples q"
    by (auto simp: rejections_def)
  show "admissible cfg rss q w"
    using assms by (auto simp: run_def admissible_def Let_def split: if_splits)
qed

text \<open>\<open>run\<close> admits a job exactly when the estimate fits below the hard limit less the reserve
  and the queue has room. An admitted job joins the end of the queue and the started jobs leave
  its front; a refusal is one of the two retryable errors, is counted once, and changes neither
  the pending jobs nor the active count nor the samples.\<close>

theorem run_outcomes:
  "case run cfg rss rss' now task w q of
     (Inr (started, _), q') \<Rightarrow>
       admissible cfg rss q w \<and>
       aq_pending q @ [\<lparr>pj_task = task, pj_createdAt = now, pj_workload = w\<rparr>] = started @ aq_pending q' \<and>
       aq_active q' = aq_active q + length started \<and> rejections q' = rejections q \<and>
       aq_samples q' = aq_samples q
   | (Inl e, q') \<Rightarrow>
       \<not> admissible cfg rss q w \<and> error_code e \<in> {''MEMORY_PRESSURE'', ''RATE_LIMITED''} \<and>
       rejections q' = rejections q + 1 \<and> aq_pending q' = aq_pending q \<and>
       aq_active q' = aq_active q \<and> aq_samples q' = aq_samples q"
proof (cases "run cfg rss rss' now task w q")
  case (Pair r q')
  show ?thesis
  proof (cases r)
    case (Inl e)
    from run_refused [OF Pair [unfolded Inl]] show ?thesis by (simp add: Pair Inl)
  next
    case (Inr v)
    obtain js notify where v: "v = (js, notify)" by (cases v)
    from run_accepted [OF Pair [unfolded Inr v]] show ?thesis by (simp add: Pair Inr v)
  qed
qed

section \<open>A queue can stall\<close>

text \<open>
  Nothing but \<open>run\<close> and a settlement drains the queue, so a job found too big for the memory at
  the last settlement waits for the next caller, however much memory is free by then.
\<close>

definition stall_job :: "int \<Rightarrow> millis \<Rightarrow> int pending_job" where
  "stall_job n t = \<lparr>pj_task = n, pj_createdAt = t, pj_workload = WlUnknown\<rparr>"

lemma slots_eval: "memory_slots sample_config rss est = \<lfloor>(1644 - rss) / est\<rfloor>"
  by (simp add: memory_slots_def sample_config_fields)

lemma stall_first:
  "run sample_config 0 0 0 (1::int) WlUnknown empty_queue
     = (Inr ([stall_job 1 0], False), empty_queue\<lparr>aq_active := 1\<rparr>)"
  by (simp add: run_def drain_def empty_queue_def sample_config_fields slots_eval estimate_def p90_def
      map_get_or_def stall_job_def)

lemma stall_second:
  "run sample_config 1400 1400 5 (2::int) WlUnknown (empty_queue\<lparr>aq_active := 1\<rparr>)
     = (Inr ([], False), empty_queue\<lparr>aq_active := 1, aq_pending := [stall_job 2 5]\<rparr>)"
  by (simp add: run_def drain_def empty_queue_def sample_config_fields slots_eval estimate_def p90_def
      map_get_or_def stall_job_def)

lemma stall_settle:
  "settle sample_config 1500 (empty_queue\<lparr>aq_active := 1, aq_pending := [stall_job 2 5]\<rparr>)
     = (empty_queue\<lparr>aq_pending := [stall_job 2 5]\<rparr>, [])"
  by (simp add: settle_def drain_def empty_queue_def sample_config_fields slots_eval estimate_def p90_def
      map_get_or_def stall_job_def)

text \<open>The queue can stall: with eight slots configured, one job starts, a second is accepted while
  only one job fits, the first settles while memory is still high, and the second is left pending
  with no job active, so no settlement will ever start it.\<close>

theorem queue_can_stall:
  "\<exists>W. config_ok sample_config \<and> reach (queue_step sample_config) (queue_start :: int queue_world) W
     \<and> qw_running W = [] \<and> aq_active (qw_queue W) = 0 \<and> aq_pending (qw_queue W) \<noteq> []"
proof -
  define A B C :: "int queue_world" where
    "A = \<lparr>qw_queue = empty_queue\<lparr>aq_active := 1\<rparr>, qw_running = [stall_job 1 0],
          qw_accepted = [stall_job 1 0], qw_started = [stall_job 1 0]\<rparr>"
    and "B = A\<lparr>qw_queue := empty_queue\<lparr>aq_active := 1, aq_pending := [stall_job 2 5]\<rparr>,
              qw_accepted := [stall_job 1 0, stall_job 2 5]\<rparr>"
    and "C = B\<lparr>qw_queue := empty_queue\<lparr>aq_pending := [stall_job 2 5]\<rparr>, qw_running := []\<rparr>"
  have "queue_step sample_config queue_start A"
    using queue_admit [of sample_config 0 0 0 1 WlUnknown queue_start] stall_first
    by (simp add: queue_start_def start_jobs_def A_def stall_job_def)
  moreover have "queue_step sample_config A B"
    using queue_admit [of sample_config 1400 1400 5 2 WlUnknown A] stall_second
    by (auto simp: start_jobs_def A_def B_def stall_job_def)
  moreover have "queue_step sample_config B C"
    using queue_settle [of "stall_job 1 0" B sample_config 1500] stall_settle
    by (simp add: start_jobs_def A_def B_def C_def)
  ultimately have "reach (queue_step sample_config) queue_start C" by (blast intro: reach.intros)
  then show ?thesis using sample_config_ok by (intro exI [of _ C]) (simp add: C_def empty_queue_def)
qed


theorem queue_reachable_witness:
  "aq_active (qw_queue (start_jobs [stall_job 1 0]
      (queue_start\<lparr>qw_queue := empty_queue\<lparr>aq_active := 1\<rparr>, qw_accepted := [stall_job 1 0]\<rparr>))) = 1
   \<and> samples_ok (empty_queue\<lparr>aq_active := 1\<rparr> :: int admission_queue)"
proof -
  let ?W = "start_jobs [stall_job 1 0]
      (queue_start\<lparr>qw_queue := empty_queue\<lparr>aq_active := 1\<rparr>, qw_accepted := [stall_job 1 0]\<rparr>)"
  have "queue_step sample_config queue_start ?W"
    using queue_admit [of sample_config 0 0 0 1 WlUnknown queue_start] stall_first
    by (simp add: queue_start_def stall_job_def)
  from queue_reachable [OF sample_config_ok reach_one [of "queue_step sample_config", OF this]]
  show ?thesis by (simp add: start_jobs_def queue_start_def)
qed

end
