(* ===== verification/OB_Pool_System.thy ===== *)
theory OB_Pool_System
  imports OB_Pool "HOL-Library.Multiset"
begin

text \<open>
  The pool as a step system: the pool with the launches, selections, open contexts, recyclings and
  replenishments whose next part is still to run. One rule per part of \<open>BrowserPool\<close>'s methods
  and per browser event; the asynchronous parts of different calls interleave freely.
\<close>

datatype launch_purpose = ForAcquire | ForReplenish | ForInit

record pending_launch =
  ln_id :: nat
  ln_backend :: backend
  ln_purpose :: launch_purpose
  ln_worker :: "nat option"

record pool_world =
  pw_pool :: pool
  pw_launches :: "pending_launch list"
  pw_nextLaunch :: nat
  pw_selected :: "nat list"
  pw_open :: "nat list"
  pw_ended :: "nat list"
  pw_closing :: "backend list"

definition add_launch :: "launch_purpose \<Rightarrow> backend \<Rightarrow> pool_world \<Rightarrow> pool_world" where
  "add_launch purpose b W =
     W\<lparr>pw_launches := pw_launches W @
         [\<lparr>ln_id = pw_nextLaunch W, ln_backend = b, ln_purpose = purpose, ln_worker = None\<rparr>],
       pw_nextLaunch := Suc (pw_nextLaunch W)\<rparr>"

definition add_launches :: "launch_purpose \<Rightarrow> backend list \<Rightarrow> pool_world \<Rightarrow> pool_world" where
  "add_launches purpose bs W = fold (add_launch purpose) bs W"

definition drop_launch :: "nat \<Rightarrow> pool_world \<Rightarrow> pool_world" where
  "drop_launch l W = W\<lparr>pw_launches := filter (\<lambda>x. ln_id x \<noteq> l) (pw_launches W)\<rparr>"

definition acquired_world :: "backend \<Rightarrow> acquired outcome \<Rightarrow> pool_world \<Rightarrow> pool_world" where
  "acquired_world b r W =
     (case r of
        Inl _ \<Rightarrow> W
      | Inr (Chosen i) \<Rightarrow> W\<lparr>pw_selected := pw_selected W @ [i]\<rparr>
      | Inr LaunchBegun \<Rightarrow> add_launch ForAcquire b W)"

definition launch_done :: "pending_launch \<Rightarrow> nat \<Rightarrow> pool_world \<Rightarrow> pool_world" where
  "launch_done l i W =
     (let W1 = drop_launch (ln_id l) (W\<lparr>pw_pool := launch_finally (ln_backend l) (pw_pool W)\<rparr>)
      in case ln_purpose l of
           ForAcquire \<Rightarrow> W1\<lparr>pw_selected := pw_selected W1 @ [i]\<rparr>
         | ForReplenish \<Rightarrow> W1\<lparr>pw_pool := replenish_done (ln_backend l) (pw_pool W1)\<rparr>
         | ForInit \<Rightarrow> W1)"

definition launch_joined :: "nat \<Rightarrow> nat \<Rightarrow> pool_world \<Rightarrow> pool_world" where
  "launch_joined l i W = W\<lparr>pw_launches := update_by ln_id l (\<lambda>x. x\<lparr>ln_worker := Some i\<rparr>) (pw_launches W)\<rparr>"

text \<open>\<open>initialize\<close> on a new pool: \<open>browserPoolMin\<close> launches of the default backend begin at once.\<close>

definition pool_initial :: "config \<Rightarrow> bool \<Rightarrow> rat \<Rightarrow> millis \<Rightarrow> pool_world" where
  "pool_initial cfg linux nodeRss now =
     (let n = nat (browserPoolMin cfg); b = defaultBrowserBackend cfg in
      add_launches ForInit (replicate n b)
        \<lparr>pw_pool = ((\<lambda>p. case launch_begin now b p of Inr q \<Rightarrow> q | Inl _ \<Rightarrow> p) ^^ n) (new_pool linux nodeRss now),
         pw_launches = [], pw_nextLaunch = 0, pw_selected = [], pw_open = [], pw_ended = [], pw_closing = []\<rparr>)"

inductive pool_step :: "config \<Rightarrow> pool_world \<Rightarrow> pool_world \<Rightarrow> bool" for cfg where
  pool_acquire:
    "acquire cfg now b key (pw_pool W) = (r, p, began) \<Longrightarrow>
     pool_step cfg W (acquired_world b r (add_launches ForReplenish began (W\<lparr>pw_pool := p\<rparr>)))"
| pool_lease:
    "i \<in> set (pw_selected W) \<Longrightarrow>
     pool_step cfg W (W\<lparr>pw_pool := lease_start i (pw_pool W), pw_selected := remove1 i (pw_selected W),
                        pw_open := pw_open W @ [i]\<rparr>)"
| pool_context_failed:
    "i \<in> set (pw_open W) \<Longrightarrow> pool_step cfg W (W\<lparr>pw_pool := recordFailure cfg i (pw_pool W)\<rparr>)"
| pool_end:
    "i \<in> set (pw_open W) \<Longrightarrow>
     pool_step cfg W (W\<lparr>pw_pool := lease_end i (pw_pool W), pw_open := remove1 i (pw_open W),
                        pw_ended := pw_ended W @ [i]\<rparr>)"
| pool_recycle:
    "i \<in> set (pw_ended W) \<Longrightarrow> recycle cfg now i (pw_pool W) = (p, again) \<Longrightarrow>
     pool_step cfg W (W\<lparr>pw_pool := p, pw_ended := remove1 i (pw_ended W),
                        pw_closing := pw_closing W @ (case again of Some b \<Rightarrow> [b] | None \<Rightarrow> [])\<rparr>)"
| pool_replenish:
    "b \<in> set (pw_closing W) \<Longrightarrow> replenish_begin cfg now b (pw_pool W) = (p, began) \<Longrightarrow>
     pool_step cfg W (add_launches ForReplenish (if began then [b] else [])
                        (W\<lparr>pw_pool := p, pw_closing := remove1 b (pw_closing W)\<rparr>))"
| pool_launch_ready:
    "l \<in> set (pw_launches W) \<Longrightarrow> ln_worker l = None \<Longrightarrow> i = length (pl_objects (pw_pool W)) \<Longrightarrow>
     pool_step cfg W (launch_joined (ln_id l) i
                        (W\<lparr>pw_pool := launch_ready i key pid now (ln_backend l) (pw_pool W)\<rparr>))"
| pool_launch_done:
    "l \<in> set (pw_launches W) \<Longrightarrow> ln_worker l = Some i \<Longrightarrow> pool_step cfg W (launch_done l i W)"
| pool_launch_failed:
    "l \<in> set (pw_launches W) \<Longrightarrow>
     pool_step cfg W (drop_launch (ln_id l) (W\<lparr>pw_pool := launch_failed cfg now (ln_backend l) (pw_pool W)\<rparr>))"
| pool_connection_lost:
    "pool_step cfg W (W\<lparr>pw_pool := update_worker i (\<lambda>w. w\<lparr>w_connected := False\<rparr>) (pw_pool W)\<rparr>)"
| pool_disconnected:
    "pool_step cfg W (W\<lparr>pw_pool := on_disconnected i (pw_pool W)\<rparr>)"
| pool_server_closed:
    "markDead cfg now i (pw_pool W) = (p, began) \<Longrightarrow>
     pool_step cfg W (add_launches ForReplenish began (W\<lparr>pw_pool := p\<rparr>))"
| pool_refreshed:
    "pool_step cfg W (W\<lparr>pw_pool := refresh_applied m nodeRss now (pw_pool W)\<rparr>)"
| pool_closed:
    "pool_step cfg W (W\<lparr>pw_pool := pool_close (pw_pool W)\<rparr>)"

inductive_cases pool_stepE: "pool_step cfg W W'"

section \<open>Identities and live workers\<close>

definition ids_ok :: "pool \<Rightarrow> bool" where
  "ids_ok p \<longleftrightarrow>
     map w_id (pl_objects p) = [0..<length (pl_objects p)] \<and> distinct (pl_workers p) \<and>
     (\<forall>i \<in> set (pl_workers p). i < length (pl_objects p)) \<and>
     (\<forall>i \<in> set (pl_workers p). w_state (pl_objects p ! i) \<noteq> Dead)"

lemma find_nth: "map f xs = [0..<length xs] \<Longrightarrow> find (\<lambda>x. f x = i) xs = (if i < length xs then Some (xs ! i) else None)"
proof (induction xs rule: rev_induct)
  case (snoc x xs)
  then have ids: "map f xs = [0..<length xs]" and x: "f x = length xs" by simp_all
  have app: "find P (ys @ [y]) = (case find P ys of Some z \<Rightarrow> Some z | None \<Rightarrow> if P y then Some y else None)"
    for P and ys :: "'a list" and y by (induction ys) auto
  show ?case using snoc.IH [OF ids] x by (auto simp: app nth_append)
qed simp

lemma worker_of_nth: "ids_ok p \<Longrightarrow> worker_of p i = (if i < length (pl_objects p) then Some (pl_objects p ! i) else None)"
  by (simp add: worker_of_def ids_ok_def find_nth)

lemma workers_nth: "ids_ok p \<Longrightarrow> workers p = map ((!) (pl_objects p)) (pl_workers p)"
proof -
  assume ok: "ids_ok p"
  have "\<forall>i \<in> set is. i < length (pl_objects p) \<Longrightarrow> List.map_filter (worker_of p) is = map ((!) (pl_objects p)) is" for "is"
    by (induction "is") (auto simp: List.map_filter_simps worker_of_nth [OF ok])
  with ok show ?thesis by (simp add: workers_def ids_ok_def)
qed

lemma update_by_nth:
  "map key xs = [0..<length xs] \<Longrightarrow> i < length xs \<Longrightarrow>
     update_by key k f xs ! i = (if i = k then f (xs ! i) else xs ! i)"
proof -
  assume "map key xs = [0..<length xs]" and i: "i < length xs"
  then have "key (xs ! i) = i" by (metis length_map nth_map nth_upt add_0)
  with i show ?thesis by (simp add: update_by_def)
qed

lemma update_worker_objects:
  "ids_ok p \<Longrightarrow> (\<And>w. w_id (f w) = w_id w) \<Longrightarrow>
     length (pl_objects (update_worker i f p)) = length (pl_objects p) \<and>
     pl_workers (update_worker i f p) = pl_workers p \<and>
     map w_id (pl_objects (update_worker i f p)) = map w_id (pl_objects p) \<and>
     (\<forall>k < length (pl_objects p). pl_objects (update_worker i f p) ! k
        = (if k = i then f (pl_objects p ! k) else pl_objects p ! k))"
  by (simp add: update_worker_def ids_ok_def update_by_nth update_by_keys)

text \<open>The backends of the workers in the pool.\<close>

definition slots :: "pool \<Rightarrow> backend list" where
  "slots p = map (\<lambda>i. w_backend (pl_objects p ! i)) (pl_workers p)"

definition in_pool :: "backend \<Rightarrow> pool \<Rightarrow> int" where
  "in_pool b p = int (count_list (slots p) b)"

definition launching_by :: "backend \<Rightarrow> pool \<Rightarrow> int" where
  "launching_by b p = map_get_or 0 (pl_launchingBy p) b"

lemma update_worker_ok:
  assumes "ids_ok p" and f: "\<And>w. w_id (f w) = w_id w" "\<And>w. w_backend (f w) = w_backend w"
    and live: "\<And>w. i \<in> set (pl_workers p) \<Longrightarrow> w_state w \<noteq> Dead \<Longrightarrow> w_state (f w) \<noteq> Dead"
  shows "ids_ok (update_worker i f p)" and "slots (update_worker i f p) = slots p"
  using update_worker_objects [OF assms(1), of f i] assms by (auto simp: ids_ok_def slots_def)

lemma update_worker_frame [simp]:
  "pl_launching (update_worker i f p) = pl_launching p" "launching_by b (update_worker i f p) = launching_by b p"
  "pl_workers (update_worker i f p) = pl_workers p" "pl_closed (update_worker i f p) = pl_closed p"
  "length (pl_objects (update_worker i f p)) = length (pl_objects p)"
  by (simp_all add: update_worker_def launching_by_def)

lemma remove1_filter: "distinct xs \<Longrightarrow> remove1 x xs = filter (\<lambda>y. y \<noteq> x) xs"
  by (rule distinct_remove1_removeAll [THEN trans]) (simp_all add: removeAll_filter_not_eq neq_commute)

lemma retire_ok:
  assumes "ids_ok p"
  shows "ids_ok (retire i p)" and "mset (slots (retire i p)) \<subseteq># mset (slots p)"
    and "length (pl_objects (retire i p)) = length (pl_objects p)"
    and "k < length (pl_objects p) \<Longrightarrow> w_active (pl_objects (retire i p) ! k) = w_active (pl_objects p ! k)"
proof -
  let ?f = "\<lambda>w :: worker. w\<lparr>w_state := Dead\<rparr>"
  note u = update_worker_objects [OF assms, of ?f i, simplified]
  have ws: "pl_workers (retire i p) = remove1 i (pl_workers p)" "pl_objects (retire i p) = pl_objects (update_worker i ?f p)"
    by (simp_all add: retire_def remove_worker_def)
  show "ids_ok (retire i p)"
    using assms u by (auto simp: ids_ok_def ws distinct_remove1 set_remove1_eq)
  have same: "map (\<lambda>k. w_backend (pl_objects (update_worker i ?f p) ! k)) is = map (\<lambda>k. w_backend (pl_objects p ! k)) is"
    if "\<forall>k \<in> set is. k < length (pl_objects p)" for "is" using that u by auto
  have "slots (retire i p) = map (\<lambda>k. w_backend (pl_objects p ! k)) (remove1 i (pl_workers p))"
    unfolding slots_def ws by (rule same) (use assms in \<open>auto simp: ids_ok_def dest: in_set_remove1 notin_set_remove1\<close>)
  then show "mset (slots (retire i p)) \<subseteq># mset (slots p)"
    by (simp add: slots_def image_mset_subseteq_mono)
  show "length (pl_objects (retire i p)) = length (pl_objects p)"
    and "k < length (pl_objects p) \<Longrightarrow> w_active (pl_objects (retire i p) ! k) = w_active (pl_objects p ! k)"
    using u by (simp_all add: ws)
qed

lemma retire_frame [simp]:
  "pl_launching (retire i p) = pl_launching p" "launching_by b (retire i p) = launching_by b p"
  by (simp_all add: retire_def remove_worker_def launching_by_def update_worker_def)

text \<open>
  A change that adds no worker: workers may leave, and launches \<open>bs\<close> may begin, all of the
  default backend and only while fewer than \<open>browserPoolMin\<close> are there or on their way.
\<close>

definition shrinks :: "config \<Rightarrow> pool \<Rightarrow> backend list \<Rightarrow> pool \<Rightarrow> bool" where
  "shrinks cfg p bs q \<longleftrightarrow>
     ids_ok q \<and> length (pl_objects q) = length (pl_objects p) \<and>
     (\<forall>k < length (pl_objects p). w_active (pl_objects q ! k) = w_active (pl_objects p ! k)) \<and>
     mset (slots q) \<subseteq># mset (slots p) \<and>
     pl_launching q = pl_launching p + int (length bs) \<and>
     (\<forall>b. launching_by b q = launching_by b p + int (count_list bs b)) \<and>
     set bs \<subseteq> {defaultBrowserBackend cfg} \<and>
     (bs \<noteq> [] \<longrightarrow> in_pool (defaultBrowserBackend cfg) q + launching_by (defaultBrowserBackend cfg) q \<le> browserPoolMin cfg)"

lemma in_pool_mono: "mset (slots q) \<subseteq># mset (slots p) \<Longrightarrow> in_pool b q \<le> in_pool b p"
  using mset_subset_eq_count [of "mset (slots q)" "mset (slots p)" b] by (simp add: in_pool_def count_mset)

lemma slots_length_mono: "mset (slots q) \<subseteq># mset (slots p) \<Longrightarrow> length (pl_workers q) \<le> length (pl_workers p)"
  using size_mset_mono [of "mset (slots q)" "mset (slots p)"] by (simp add: slots_def)

lemma shrinks_refl: "ids_ok p \<Longrightarrow> shrinks cfg p [] p"
  by (simp add: shrinks_def)

lemma shrinks_trans:
  assumes "shrinks cfg p bs q" and "shrinks cfg q cs r"
  shows "shrinks cfg p (bs @ cs) r"
  using assms in_pool_mono [of r q "defaultBrowserBackend cfg"]
  by (cases "cs = []") (auto simp: shrinks_def intro: subset_mset.order_trans)

lemma shrinks_update:
  assumes "ids_ok p" and "\<And>w. w_id (f w) = w_id w" "\<And>w. w_backend (f w) = w_backend w"
    and "\<And>w. i \<in> set (pl_workers p) \<Longrightarrow> w_state w \<noteq> Dead \<Longrightarrow> w_state (f w) \<noteq> Dead"
    and "\<And>w. w_active (f w) = w_active w"
  shows "shrinks cfg p [] (update_worker i f p)"
  using update_worker_ok [of p f i, OF assms(1-4)] update_worker_objects [of p f i, OF assms(1,2)] assms(5)
  by (simp add: shrinks_def)

lemma shrinks_retire: "ids_ok p \<Longrightarrow> shrinks cfg p [] (retire i p)"
  by (simp add: shrinks_def retire_ok)

text \<open>Fields outside the objects, the list and the launch counters play no part.\<close>

lemma shrinks_frame:
  assumes "shrinks cfg p bs q" and "pl_objects q' = pl_objects q" "pl_workers q' = pl_workers q"
    "pl_launching q' = pl_launching q" "pl_launchingBy q' = pl_launchingBy q"
  shows "shrinks cfg p bs q'"
proof -
  have eqs: "ids_ok q' = ids_ok q" "slots q' = slots q" "launching_by b q' = launching_by b q" for b
    using assms by (simp_all add: ids_ok_def slots_def launching_by_def)
  from assms(1) show ?thesis unfolding shrinks_def in_pool_def eqs assms(2,4) .
qed

lemma launch_begin_frame:
  assumes "launch_begin now b p = Inr q"
  shows "pl_objects q = pl_objects p" and "pl_workers q = pl_workers p" and "pl_launching q = pl_launching p + 1"
    and "launching_by b' q = launching_by b' p + (if b' = b then 1 else 0)"
  using assms by (auto simp: launch_begin_def Let_def launching_by_def bump_def split: if_splits)

lemma filter_workers_count: "ids_ok p \<Longrightarrow> int (length (filter (\<lambda>w. w_backend w = b) (workers p))) = in_pool b p"
  by (simp add: workers_nth in_pool_def slots_def count_list_eq_length_filter filter_map comp_def eq_commute)

lemma shrinks_replenish:
  assumes ok: "ids_ok p" and pos: "\<And>b. 0 \<le> launching_by b p" and r: "replenish_begin cfg now b p = (q, began)"
  shows "shrinks cfg p (if began then [b] else []) q"
proof (cases began)
  case False
  with r have "q = p" by (auto simp: replenish_begin_def split: if_splits sum.splits)
  with False shrinks_refl [OF ok] show ?thesis by simp
next
  case True
  with r have nb: "\<not> replenish_blocked cfg now b p" and l: "launch_begin now b p = Inr q"
    by (auto simp: replenish_begin_def split: if_splits sum.splits)
  note fr = launch_begin_frame [OF l]
  have room: "in_pool b p + launching_by b p < (if b = defaultBrowserBackend cfg then browserPoolMin cfg else 0)"
    using nb filter_workers_count [OF ok, of b] by (simp add: replenish_blocked_def launching_by_def)
  have "0 \<le> in_pool b p" by (simp add: in_pool_def)
  with room pos [of b] have b: "b = defaultBrowserBackend cfg" by (auto split: if_splits)
  have "ids_ok q" "slots q = slots p" using ok fr(1,2) by (simp_all add: ids_ok_def slots_def)
  with True b room fr show ?thesis by (simp add: shrinks_def in_pool_def)
qed

lemma shrinks_markDead:
  assumes ok: "ids_ok p" and pos: "\<And>b. 0 \<le> launching_by b p" and m: "markDead cfg now i p = (q, bs)"
  shows "shrinks cfg p bs q"
proof (cases "\<exists>w. worker_of p i = Some w \<and> w_state w \<noteq> Dead")
  case False
  with m have "q = p \<and> bs = []" by (auto simp: markDead_def split: option.splits if_splits)
  with shrinks_refl [OF ok] show ?thesis by simp
next
  case True
  then obtain w where w: "worker_of p i = Some w" "w_state w \<noteq> Dead" by blast
  define p2 where "p2 = retire i (p\<lparr>pl_crashes := pl_crashes p + 1, pl_crashesBy := bump (w_backend w) 1 (pl_crashesBy p)\<rparr>)"
  obtain began where r: "replenish_begin cfg now (w_backend w) p2 = (q, began)" and bs: "bs = (if began then [w_backend w] else [])"
    using m w by (auto simp: markDead_def Let_def p2_def retire_def split: prod.splits)
  have "shrinks cfg p [] p2"
    by (rule shrinks_frame [OF shrinks_retire [OF ok, of cfg i]])
       (simp_all add: p2_def retire_def remove_worker_def update_worker_def)
  moreover from this have "shrinks cfg p2 bs q"
    unfolding bs using pos by (intro shrinks_replenish [OF _ _ r]) (simp_all add: shrinks_def)
  ultimately show ?thesis using shrinks_trans by fastforce
qed

lemma shrinks_pos: "shrinks cfg p bs q \<Longrightarrow> 0 \<le> launching_by b p \<Longrightarrow> 0 \<le> launching_by b q"
  by (simp add: shrinks_def)

lemma shrinks_mark_disconnected:
  assumes "ids_ok p" and "\<And>b. 0 \<le> launching_by b p" and "mark_disconnected cfg now is p = (q, bs)"
  shows "shrinks cfg p bs q"
  using assms
proof (induction "is" arbitrary: p bs)
  case Nil
  then show ?case by (simp add: shrinks_refl)
next
  case (Cons i "is")
  show ?case
  proof (cases "\<exists>w. worker_of p i = Some w \<and> w_state w = Healthy \<and> \<not> w_connected w")
    case False
    with Cons.prems(3) have "mark_disconnected cfg now is p = (q, bs)" by (auto split: option.splits if_splits)
    with Cons.IH [OF Cons.prems(1,2)] show ?thesis by simp
  next
    case True
    obtain p1 xs ys where m: "markDead cfg now i p = (p1, xs)" "mark_disconnected cfg now is p1 = (q, ys)" "bs = xs @ ys"
      using True Cons.prems(3) by (auto split: prod.splits)
    have s: "shrinks cfg p xs p1" by (rule shrinks_markDead [OF Cons.prems(1,2) m(1)])
    have "shrinks cfg p1 ys q"
      using s shrinks_pos [OF s] Cons.prems(2) m(2) by (intro Cons.IH) (simp_all add: shrinks_def)
    with s m(3) show ?thesis by (simp add: shrinks_trans)
  qed
qed

section \<open>The invariant of the system\<close>

definition launches_ok :: "pool_world \<Rightarrow> bool" where
  "launches_ok W \<longleftrightarrow>
     distinct (map ln_id (pw_launches W)) \<and>
     (\<forall>l \<in> set (pw_launches W). ln_id l < pw_nextLaunch W) \<and>
     (\<forall>l \<in> set (pw_launches W). \<forall>i. ln_worker l = Some i \<longrightarrow> i < length (pl_objects (pw_pool W))) \<and>
     pl_launching (pw_pool W) = int (length (pw_launches W)) \<and>
     (\<forall>b. launching_by b (pw_pool W) = int (length (filter (\<lambda>l. ln_backend l = b) (pw_launches W))))"

definition contexts_ok :: "pool_world \<Rightarrow> bool" where
  "contexts_ok W \<longleftrightarrow>
     (\<forall>k < length (pl_objects (pw_pool W)). w_active (pl_objects (pw_pool W) ! k) = int (count_list (pw_open W) k)) \<and>
     (\<forall>i \<in> set (pw_selected W) \<union> set (pw_open W) \<union> set (pw_ended W). i < length (pl_objects (pw_pool W)))"

text \<open>Workers and launches that have no worker yet, of the default backend and of the others.\<close>

definition starting :: "pool_world \<Rightarrow> pending_launch list" where
  "starting W = filter (\<lambda>l. ln_worker l = None) (pw_launches W)"

definition own_count :: "config \<Rightarrow> pool_world \<Rightarrow> int" where
  "own_count cfg W = in_pool (defaultBrowserBackend cfg) (pw_pool W)
     + int (length (filter (\<lambda>l. ln_backend l = defaultBrowserBackend cfg) (starting W)))"

definition other_count :: "config \<Rightarrow> pool_world \<Rightarrow> int" where
  "other_count cfg W = int (length (filter (\<lambda>b. b \<noteq> defaultBrowserBackend cfg) (slots (pw_pool W))))
     + int (length (filter (\<lambda>l. ln_backend l \<noteq> defaultBrowserBackend cfg) (starting W)))"

definition capacity_ok :: "config \<Rightarrow> pool_world \<Rightarrow> bool" where
  "capacity_ok cfg W \<longleftrightarrow>
     other_count cfg W \<le> browserPoolMax cfg \<and>
     (own_count cfg W + other_count cfg W \<le> browserPoolMax cfg \<or> own_count cfg W \<le> browserPoolMin cfg)"

definition pool_inv :: "config \<Rightarrow> pool_world \<Rightarrow> bool" where
  "pool_inv cfg W \<longleftrightarrow> ids_ok (pw_pool W) \<and> launches_ok W \<and> contexts_ok W \<and> capacity_ok cfg W"

lemma count_list_filter: "count_list xs b = length (filter (\<lambda>x. x = b) xs)"
  by (induction xs) auto

lemma slots_length: "length (slots p) = length (pl_workers p)"
  by (simp add: slots_def)

lemma total_count: "own_count cfg W + other_count cfg W = int (length (pl_workers (pw_pool W))) + int (length (starting W))"
proof -
  have "length (filter P xs) + length (filter (\<lambda>x. \<not> P x) xs) = length xs" for P and xs :: "'a list"
    by (rule sum_length_filter_compl)
  from this [of "\<lambda>b. b = defaultBrowserBackend cfg" "slots (pw_pool W)"]
    this [of "\<lambda>l. ln_backend l = defaultBrowserBackend cfg" "starting W"]
  have "length (filter (\<lambda>b. b = defaultBrowserBackend cfg) (slots (pw_pool W)))
      + length (filter (\<lambda>b. b \<noteq> defaultBrowserBackend cfg) (slots (pw_pool W))) = length (pl_workers (pw_pool W))"
    and "length (filter (\<lambda>l. ln_backend l = defaultBrowserBackend cfg) (starting W))
      + length (filter (\<lambda>l. ln_backend l \<noteq> defaultBrowserBackend cfg) (starting W)) = length (starting W)"
    by (simp_all add: slots_length)
  then show ?thesis by (simp add: own_count_def other_count_def in_pool_def count_list_filter)
qed

definition new_launches :: "launch_purpose \<Rightarrow> nat \<Rightarrow> backend list \<Rightarrow> pending_launch list" where
  "new_launches purpose n bs =
     map (\<lambda>(i, b). \<lparr>ln_id = i, ln_backend = b, ln_purpose = purpose, ln_worker = None\<rparr>) (enumerate n bs)"

lemma add_launches_eq:
  "add_launches purpose bs W = W\<lparr>pw_launches := pw_launches W @ new_launches purpose (pw_nextLaunch W) bs,
                                 pw_nextLaunch := pw_nextLaunch W + length bs\<rparr>"
proof (induction bs arbitrary: W)
  case (Cons b bs)
  then show ?case by (simp add: add_launches_def add_launch_def new_launches_def)
qed (simp add: add_launches_def new_launches_def)

lemma new_launches_facts:
  "length (new_launches pu n bs) = length bs"
  "map ln_backend (new_launches pu n bs) = bs"
  "map ln_id (new_launches pu n bs) = [n..<n + length bs]"
  "filter (\<lambda>l. ln_worker l = None) (new_launches pu n bs) = new_launches pu n bs"
  by (auto simp: new_launches_def comp_def case_prod_unfold filter_id_conv)

lemma new_launches_filter: "length (filter (\<lambda>l. P (ln_backend l)) (new_launches pu n bs)) = length (filter P bs)"
  using arg_cong [OF filter_map [of P ln_backend "new_launches pu n bs"], of length]
  by (simp add: new_launches_facts comp_def)

lemma new_launches_in: "l \<in> set (new_launches pu n bs) \<Longrightarrow> ln_worker l = None \<and> ln_id l < n + length bs \<and> n \<le> ln_id l"
  using arg_cong [OF new_launches_facts(3) [of pu n bs], of set] new_launches_facts(4) [of pu n bs]
  by (auto simp: filter_id_conv)

lemma launches_ok_add:
  assumes ok: "launches_ok W" and len: "length (pl_objects (pw_pool W)) \<le> length (pl_objects q)"
    and l: "pl_launching q = pl_launching (pw_pool W) + int (length bs)"
    and lb: "\<And>b. launching_by b q = launching_by b (pw_pool W) + int (count_list bs b)"
  shows "launches_ok (add_launches pu bs (W\<lparr>pw_pool := q\<rparr>))"
proof -
  have "distinct (map ln_id (pw_launches W) @ [pw_nextLaunch W..<pw_nextLaunch W + length bs])"
    using ok by (auto simp: launches_ok_def)
  moreover have "int (length (filter (\<lambda>l. ln_backend l = b) (new_launches pu n bs))) = int (count_list bs b)" for n b
    using new_launches_filter [of "\<lambda>x. x = b" pu n bs] by (simp add: count_list_filter)
  ultimately show ?thesis
    using ok len l lb by (fastforce simp: launches_ok_def add_launches_eq new_launches_facts dest: new_launches_in)
qed

lemma contexts_ok_pool:
  assumes "contexts_ok W" and "length (pl_objects q) = length (pl_objects (pw_pool W))"
    and "\<And>k. k < length (pl_objects (pw_pool W)) \<Longrightarrow> w_active (pl_objects q ! k) = w_active (pl_objects (pw_pool W) ! k)"
  shows "contexts_ok (add_launches pu bs (W\<lparr>pw_pool := q\<rparr>))"
  using assms by (simp add: contexts_ok_def add_launches_eq)

lemma filter_mset_length: "mset xs \<subseteq># mset ys \<Longrightarrow> length (filter P xs) \<le> length (filter P ys)"
  using size_mset_mono [OF multiset_filter_mono, of "mset xs" "mset ys" P] by (simp flip: mset_filter)

lemma starting_add: "starting (add_launches pu bs W) = starting W @ new_launches pu (pw_nextLaunch W) bs"
  by (simp add: starting_def add_launches_eq new_launches_facts)

lemma starting_le:
  "launches_ok W \<Longrightarrow> int (length (filter (\<lambda>l. ln_backend l = b) (starting W))) \<le> launching_by b (pw_pool W)"
proof -
  assume "launches_ok W"
  then have "launching_by b (pw_pool W) = int (length (filter (\<lambda>l. ln_backend l = b) (pw_launches W)))"
    by (simp add: launches_ok_def)
  moreover have "filter (\<lambda>l. ln_backend l = b) (starting W) = filter (\<lambda>l. ln_worker l = None) (filter (\<lambda>l. ln_backend l = b) (pw_launches W))"
    by (simp add: starting_def conj_commute)
  ultimately show ?thesis by (simp only: of_nat_le_iff length_filter_le)
qed

lemma pool_inv_shrinks:
  assumes inv: "pool_inv cfg W" and s: "shrinks cfg (pw_pool W) bs q"
  shows "pool_inv cfg (add_launches ForReplenish bs (W\<lparr>pw_pool := q\<rparr>))"
proof -
  let ?d = "defaultBrowserBackend cfg" and ?W = "add_launches ForReplenish bs (W\<lparr>pw_pool := q\<rparr>)"
  have q: "pw_pool ?W = q" by (simp add: add_launches_eq)
  have ok: "launches_ok W" "contexts_ok W" "capacity_ok cfg W" using inv by (simp_all add: pool_inv_def)
  have lo: "launches_ok ?W" by (rule launches_ok_add [OF ok(1)]) (use s in \<open>simp_all add: shrinks_def\<close>)
  have co: "contexts_ok ?W" by (rule contexts_ok_pool [OF ok(2)]) (use s in \<open>simp_all add: shrinks_def\<close>)
  have bs: "filter (\<lambda>b. b \<noteq> ?d) bs = []" using s by (auto simp: shrinks_def filter_empty_conv)
  have m: "mset (slots q) \<subseteq># mset (slots (pw_pool W))" using s by (simp add: shrinks_def)
  have st: "starting (W\<lparr>pw_pool := q\<rparr>) = starting W" by (simp add: starting_def)
  have oth: "other_count cfg ?W \<le> other_count cfg W"
    using filter_mset_length [OF m, of "\<lambda>b. b \<noteq> ?d"]
      new_launches_filter [of "\<lambda>b. b \<noteq> ?d" ForReplenish "pw_nextLaunch W" bs]
    by (simp add: other_count_def q starting_add st bs)
  have "capacity_ok cfg ?W"
  proof (cases "bs = []")
    case True
    have "own_count cfg ?W \<le> own_count cfg W"
      unfolding own_count_def q starting_add st using in_pool_mono [OF m, of ?d] True by (simp add: new_launches_def)
    with oth ok(3) show ?thesis by (auto simp: capacity_ok_def)
  next
    case False
    have "own_count cfg ?W \<le> in_pool ?d q + launching_by ?d q"
      using starting_le [OF lo, of ?d] by (simp add: own_count_def q)
    also have "\<dots> \<le> browserPoolMin cfg" using s False unfolding shrinks_def by blast
    finally show ?thesis using oth ok(3) by (auto simp: capacity_ok_def)
  qed
  with lo co s q show ?thesis by (simp add: pool_inv_def shrinks_def)
qed

text \<open>The lists of ended contexts and of replenishments are free to shrink or change.\<close>

lemma pool_inv_ended:
  "pool_inv cfg W \<Longrightarrow> set es \<subseteq> set (pw_ended W) \<Longrightarrow> pool_inv cfg (W\<lparr>pw_ended := es, pw_closing := cs\<rparr>)"
  by (auto simp: pool_inv_def launches_ok_def contexts_ok_def capacity_ok_def own_count_def other_count_def starting_def)

section \<open>Every step keeps the invariant\<close>

lemma shrinks_world:
  assumes "pool_inv cfg W" and "shrinks cfg (pw_pool W) [] q"
  shows "pool_inv cfg (W\<lparr>pw_pool := q\<rparr>)"
  using pool_inv_shrinks [OF assms] by (simp add: add_launches_def)

lemma launching_pos: "launches_ok W \<Longrightarrow> 0 \<le> launching_by b (pw_pool W)"
  by (simp add: launches_ok_def)

lemma pool_inv_acquired:
  assumes inv: "pool_inv cfg W" and a: "acquire cfg now b key (pw_pool W) = (r, p, began)"
  shows "pool_inv cfg (acquired_world b r (add_launches ForReplenish began (W\<lparr>pw_pool := p\<rparr>)))"
proof -
  obtain p1 where m: "mark_disconnected cfg now (pl_workers (pw_pool W)) (pw_pool W) = (p1, began)"
    using a by (auto simp: acquire_def split: prod.splits list.splits if_splits sum.splits)
  have "ids_ok (pw_pool W)" and pos: "\<And>b. 0 \<le> launching_by b (pw_pool W)"
    using inv launching_pos by (auto simp: pool_inv_def)
  then have "shrinks cfg (pw_pool W) began p1" using shrinks_mark_disconnected m by blast
  from pool_inv_shrinks [OF inv this]
  have inv1: "pool_inv cfg (add_launches ForReplenish began (W\<lparr>pw_pool := p1\<rparr>))" (is "pool_inv cfg ?W1") .
  have W1: "pw_pool ?W1 = p1" by (simp add: add_launches_eq)
  consider (error) e where "r = Inl e" "p = p1"
    | (chosen) w where "r = Inr (Chosen (w_id w))" "p = p1" "w \<in> set (available cfg b key p1)"
    | (launch) "r = Inr LaunchBegun" "int (length (pl_workers p1)) + pl_launching p1 < browserPoolMax cfg"
        "launch_begin now b p1 = Inr p"
    using a m by (auto simp: acquire_def split: list.splits if_splits sum.splits)
  then show ?thesis
  proof cases
    case error
    with inv1 show ?thesis by (simp add: acquired_world_def)
  next
    case chosen
    have ok: "ids_ok p1" using inv1 by (simp add: pool_inv_def W1)
    from chosen(3) obtain k where k: "k \<in> set (pl_workers p1)" "w = pl_objects p1 ! k"
      by (auto simp: available_def workers_nth [OF ok])
    have "k < length (pl_objects p1)" and "map w_id (pl_objects p1) = [0..<length (pl_objects p1)]"
      using ok k(1) by (simp_all add: ids_ok_def)
    then have "w_id w < length (pl_objects p1)" using k(2) by (metis add_0 length_map nth_map nth_upt)
    with chosen inv1 W1 show ?thesis
      by (auto simp: acquired_world_def pool_inv_def launches_ok_def contexts_ok_def capacity_ok_def own_count_def
          other_count_def starting_def)
  next
    case launch
    note fr = launch_begin_frame [OF launch(3)]
    let ?W2 = "add_launches ForAcquire [b] (?W1\<lparr>pw_pool := p\<rparr>)"
    have W2: "acquired_world b r (add_launches ForReplenish began (W\<lparr>pw_pool := p\<rparr>)) = ?W2"
      by (simp add: launch(1) acquired_world_def add_launches_eq add_launch_def new_launches_def)
    have parts: "launches_ok ?W1" "contexts_ok ?W1" "capacity_ok cfg ?W1" "ids_ok p1"
      using inv1 by (simp_all add: pool_inv_def W1)
    have "launches_ok ?W2"
      by (rule launches_ok_add [OF parts(1)]) (simp_all add: W1 fr)
    moreover have "contexts_ok ?W2" by (rule contexts_ok_pool [OF parts(2)]) (simp_all add: W1 fr)
    moreover have ids: "ids_ok p" and sl: "slots p = slots p1" using parts(4) fr by (simp_all add: ids_ok_def slots_def)
    moreover have "capacity_ok cfg ?W2"
    proof -
      have "starting (X\<lparr>pw_pool := p\<rparr>) = starting X" for X by (simp add: starting_def)
      with starting_add [of ForAcquire "[b]" "?W1\<lparr>pw_pool := p\<rparr>"]
      have st: "starting ?W2 = starting ?W1 @ new_launches ForAcquire (pw_nextLaunch ?W1) [b]" by simp
      have "int (length (starting ?W1)) \<le> pl_launching p1"
        using parts(1) W1 by (simp add: launches_ok_def starting_def)
      then have "int (length (pl_workers p)) + int (length (starting ?W2)) \<le> browserPoolMax cfg"
        using launch(2) fr(2) by (simp add: st new_launches_facts)
      then have "own_count cfg ?W2 + other_count cfg ?W2 \<le> browserPoolMax cfg"
        using total_count [of cfg ?W2] by (simp add: add_launches_eq)
      moreover have "0 \<le> own_count cfg ?W2" by (simp add: own_count_def in_pool_def)
      ultimately show ?thesis by (simp add: capacity_ok_def)
    qed
    ultimately show ?thesis unfolding W2 by (simp add: pool_inv_def add_launches_eq)
  qed
qed

text \<open>Leases change the counters of one worker and the lists of contexts, nothing else.\<close>

lemma pool_inv_lease:
  assumes inv: "pool_inv cfg W" and f: "\<And>w. w_id (f w) = w_id w" "\<And>w. w_backend (f w) = w_backend w"
      "\<And>w. w_state (f w) = w_state w"
    and act: "\<And>w. w_active (f w) = w_active w + d"
    and open': "\<And>k. int (count_list os k) = int (count_list (pw_open W) k) + (if k = i then d else 0)"
    and refs: "\<forall>k \<in> set ss \<union> set os \<union> set es. k < length (pl_objects (pw_pool W))"
  shows "pool_inv cfg (W\<lparr>pw_pool := update_worker i f (pw_pool W), pw_selected := ss, pw_open := os, pw_ended := es\<rparr>)"
proof -
  have ok: "ids_ok (pw_pool W)" using inv by (simp add: pool_inv_def)
  have u: "ids_ok (update_worker i f (pw_pool W))" "slots (update_worker i f (pw_pool W)) = slots (pw_pool W)"
    using update_worker_ok [of "pw_pool W" f i, OF ok f(1,2)] f(3) by simp_all
  note v = update_worker_objects [of "pw_pool W" f i, OF ok f(1)]
  show ?thesis
    using inv u v act open' refs
    by (auto simp: pool_inv_def launches_ok_def contexts_ok_def capacity_ok_def own_count_def other_count_def
        starting_def in_pool_def)
qed

lemma count_open_removed: "x \<in> set xs \<Longrightarrow> int (count_list (remove1 x xs) k) = int (count_list xs k) - (if k = x then 1 else 0)"
  by (induction xs) auto

lemma pool_inv_lease_start:
  assumes inv: "pool_inv cfg W" and i: "i \<in> set (pw_selected W)"
  shows "pool_inv cfg (W\<lparr>pw_pool := lease_start i (pw_pool W), pw_selected := remove1 i (pw_selected W),
                        pw_open := pw_open W @ [i]\<rparr>)"
proof -
  have "pool_inv cfg (W\<lparr>pw_pool := update_worker i (\<lambda>w. w\<lparr>w_active := w_active w + 1\<rparr>) (pw_pool W),
       pw_selected := remove1 i (pw_selected W), pw_open := pw_open W @ [i], pw_ended := pw_ended W\<rparr>)"
    by (rule pool_inv_lease [OF inv, where d = 1])
       (use inv i in \<open>auto simp: pool_inv_def contexts_ok_def dest: set_mp [OF set_remove1_subset]\<close>)
  then show ?thesis by (simp add: lease_start_def)
qed

lemma pool_inv_lease_end:
  assumes inv: "pool_inv cfg W" and i: "i \<in> set (pw_open W)"
  shows "pool_inv cfg (W\<lparr>pw_pool := lease_end i (pw_pool W), pw_open := remove1 i (pw_open W),
                        pw_ended := pw_ended W @ [i]\<rparr>)"
proof -
  have "pool_inv cfg (W\<lparr>pw_pool := update_worker i (\<lambda>w. w\<lparr>w_active := w_active w - 1, w_jobs := w_jobs w + 1\<rparr>) (pw_pool W),
       pw_selected := pw_selected W, pw_open := remove1 i (pw_open W), pw_ended := pw_ended W @ [i]\<rparr>)"
  proof (rule pool_inv_lease [OF inv, where d = "-1"])
    show "int (count_list (remove1 i (pw_open W)) k) = int (count_list (pw_open W) k) + (if k = i then - 1 else 0)" for k
      using count_open_removed [OF i, of k] by presburger
    show "\<forall>k \<in> set (pw_selected W) \<union> set (remove1 i (pw_open W)) \<union> set (pw_ended W @ [i]).
        k < length (pl_objects (pw_pool W))"
      using inv i by (auto simp: pool_inv_def contexts_ok_def dest: set_mp [OF set_remove1_subset])
  qed simp_all
  then show ?thesis by (simp add: lease_end_def)
qed

lemma shrinks_recycle:
  assumes ok: "ids_ok p" and r: "recycle cfg now i p = (q, again)"
  shows "shrinks cfg p [] q"
proof (cases "worker_of p i")
  case None
  with r shrinks_refl [OF ok] show ?thesis by (simp add: recycle_def)
next
  case (Some w)
  define w1 where "w1 = (if wants_recycling cfg now w then w\<lparr>w_state := Draining\<rparr> else w)"
  let ?p1 = "update_worker i (\<lambda>_. w1) p"
  have i: "i < length (pl_objects p)" "w = pl_objects p ! i"
    using Some by (auto simp: worker_of_nth [OF ok] split: if_splits)
  have same: "w_id w1 = w_id w" "w_backend w1 = w_backend w" "w_active w1 = w_active w" by (simp_all add: w1_def)
  have eq: "?p1 = update_worker i (\<lambda>v. if v = w then w1 else v) p"
  proof -
    have "v = w" if "v \<in> set (pl_objects p)" "w_id v = i" for v
    proof -
      from that(1) obtain k where k: "k < length (pl_objects p)" "v = pl_objects p ! k" by (auto simp: in_set_conv_nth)
      then have "w_id v = k" using ok by (metis add_0 ids_ok_def length_map nth_map nth_upt)
      with that(2) k i show ?thesis by simp
    qed
    then show ?thesis by (auto simp: update_worker_def update_by_def)
  qed
  have s1: "shrinks cfg p [] ?p1"
    unfolding eq
  proof (rule shrinks_update [OF ok])
    fix v :: worker
    show "w_id (if v = w then w1 else v) = w_id v" "w_backend (if v = w then w1 else v) = w_backend v"
      "w_active (if v = w then w1 else v) = w_active v" using same by simp_all
    show "i \<in> set (pl_workers p) \<Longrightarrow> w_state v \<noteq> Dead \<Longrightarrow> w_state (if v = w then w1 else v) \<noteq> Dead"
      by (auto simp: w1_def)
  qed
  show ?thesis
  proof (cases "w_active w1 > 0 \<or> w_state w1 = Healthy")
    case True
    with r Some s1 show ?thesis by (simp add: recycle_def Let_def w1_def [symmetric])
  next
    case False
    have "ids_ok ?p1" using s1 by (simp add: shrinks_def)
    from shrinks_trans [OF s1 shrinks_retire [OF this, of cfg i]] have "shrinks cfg p [] (retire i ?p1)" by simp
    then show ?thesis
      by (rule shrinks_frame)
         (use r Some False in \<open>auto simp: recycle_def Let_def w1_def [symmetric]\<close>)
  qed
qed

end
