(* ===== verification/OB_Pool_Facts.thy ===== *)
theory OB_Pool_Facts
  imports OB_Pool_System
begin

text \<open>
  The remaining steps of the pool, the invariant over whole runs, and what it says of the pool:
  the bookkeeping of workers, contexts and launches, the choice of a worker, the launch backoff.
\<close>

section \<open>Launches that end\<close>

lemma filter_drop_one:
  "distinct (map f xs) \<Longrightarrow> l \<in> set xs \<Longrightarrow>
     int (length (filter P (filter (\<lambda>x. f x \<noteq> f l) xs))) = int (length (filter P xs)) - (if P l then 1 else 0)"
proof (induction xs)
  case (Cons x xs)
  show ?case
  proof (cases "x = l")
    case True
    with Cons.prems have "filter (\<lambda>x. f x \<noteq> f l) xs = xs" by (auto simp: filter_id_conv image_iff)
    with True show ?thesis by simp
  next
    case False
    with Cons.prems have "f x \<noteq> f l" "l \<in> set xs" by auto
    with Cons show ?thesis by (auto split: if_splits)
  qed
qed simp

lemma starting_drop: "starting (drop_launch k W) = filter (\<lambda>x. ln_id x \<noteq> k) (starting W)"
  by (simp add: starting_def drop_launch_def) (metis conj_commute)

lemma starting_joined: "starting (launch_joined k i W) = filter (\<lambda>x. ln_id x \<noteq> k) (starting W)"
proof -
  have "filter (\<lambda>l. ln_worker l = None) (update_by ln_id k (\<lambda>x. x\<lparr>ln_worker := Some i\<rparr>) ls)
      = filter (\<lambda>x. ln_id x \<noteq> k) (filter (\<lambda>l. ln_worker l = None) ls)" for ls
    by (induction ls) (auto simp: update_by_def)
  then show ?thesis by (simp add: starting_def launch_joined_def)
qed

lemma starting_pool [simp]: "starting (W\<lparr>pw_pool := q\<rparr>) = starting W"
  by (simp add: starting_def)

lemma drop_count:
  assumes "launches_ok W" and l: "l \<in> set (pw_launches W)"
  shows "int (length (filter P (pw_launches (drop_launch (ln_id l) W)))) = int (length (filter P (pw_launches W))) - (if P l then 1 else 0)"
  using assms filter_drop_one [of ln_id "pw_launches W" l P] by (simp add: launches_ok_def drop_launch_def)

lemma launch_finally_frame [simp]:
  "pl_objects (launch_finally b p) = pl_objects p" "pl_workers (launch_finally b p) = pl_workers p"
  "pl_launching (launch_finally b p) = pl_launching p - 1"
  "slots (launch_finally b p) = slots p" "ids_ok (launch_finally b p) = ids_ok p"
  by (simp_all add: launch_finally_def slots_def ids_ok_def)

lemma launch_finally_by:
  "1 \<le> launching_by b p \<Longrightarrow> launching_by b' (launch_finally b p) = launching_by b' p - (if b' = b then 1 else 0)"
  by (auto simp: launching_by_def launch_finally_def map_get_or_def split: option.splits)

lemma launching_here: "launches_ok W \<Longrightarrow> l \<in> set (pw_launches W) \<Longrightarrow> 1 \<le> launching_by (ln_backend l) (pw_pool W)"
proof -
  assume ok: "launches_ok W" and l: "l \<in> set (pw_launches W)"
  then have "l \<in> set (filter (\<lambda>x. ln_backend x = ln_backend l) (pw_launches W))" by simp
  then have "0 < length (filter (\<lambda>x. ln_backend x = ln_backend l) (pw_launches W))" by (rule length_pos_if_in_set)
  then have "1 \<le> int (length (filter (\<lambda>x. ln_backend x = ln_backend l) (pw_launches W)))" by linarith
  with ok show ?thesis unfolding launches_ok_def by metis
qed

lemma capacity_ok_mono:
  "capacity_ok cfg W \<Longrightarrow> own_count cfg W' \<le> own_count cfg W \<Longrightarrow> other_count cfg W' \<le> other_count cfg W \<Longrightarrow> capacity_ok cfg W'"
  by (auto simp: capacity_ok_def)

text \<open>A launch leaves the list: its \<open>finally\<close> block ran on a pool \<open>q\<close> with the same workers.\<close>

lemma pool_inv_dropped:
  assumes inv: "pool_inv cfg W" and l: "l \<in> set (pw_launches W)"
    and q: "pl_objects q = pl_objects (pw_pool W)" "pl_workers q = pl_workers (pw_pool W)"
      "pl_launching q = pl_launching (pw_pool W) - 1"
      "\<And>b. launching_by b q = launching_by b (pw_pool W) - (if b = ln_backend l then 1 else 0)"
  shows "pool_inv cfg (drop_launch (ln_id l) (W\<lparr>pw_pool := q\<rparr>))" (is "pool_inv cfg ?W")
proof -
  have ok: "launches_ok W" "contexts_ok W" "capacity_ok cfg W" "ids_ok (pw_pool W)" using inv by (simp_all add: pool_inv_def)
  have p: "pw_pool ?W = q" and same: "slots q = slots (pw_pool W)" "ids_ok q"
    using q ok(4) by (simp_all add: drop_launch_def slots_def ids_ok_def)
  have ls: "pw_launches ?W = pw_launches (drop_launch (ln_id l) W)" by (simp add: drop_launch_def)
  have sub: "set (pw_launches ?W) \<subseteq> set (pw_launches W)" by (auto simp: drop_launch_def)
  have d: "distinct (map ln_id (pw_launches ?W))" using ok(1) by (simp add: drop_launch_def launches_ok_def distinct_map_filter)
  have "int (length (pw_launches ?W)) = int (length (pw_launches W)) - 1"
    using drop_count [OF ok(1) l, of "\<lambda>_. True"] by (simp add: ls)
  moreover have "int (length (filter (\<lambda>x. ln_backend x = b) (pw_launches ?W)))
      = int (length (filter (\<lambda>x. ln_backend x = b) (pw_launches W))) - (if b = ln_backend l then 1 else 0)" for b
    using drop_count [OF ok(1) l, of "\<lambda>x. ln_backend x = b"] by (simp add: ls eq_commute)
  moreover have "pw_nextLaunch ?W = pw_nextLaunch W" by (simp add: drop_launch_def)
  ultimately have lo: "launches_ok ?W"
    using ok(1) d sub q(3,4) unfolding launches_ok_def p q(1) by (simp add: subset_iff) blast
  have co: "contexts_ok ?W" using ok(2) q(1) by (simp add: contexts_ok_def drop_launch_def)
  have "length (filter P (filter R xs)) \<le> length (filter P xs)" for P R and xs :: "pending_launch list"
    by (induction xs) auto
  then have "capacity_ok cfg ?W"
    by (intro capacity_ok_mono [OF ok(3)]) (simp_all add: own_count_def other_count_def p same in_pool_def starting_drop)
  with lo co same(2) p show ?thesis by (simp add: pool_inv_def)
qed

text \<open>Fields of the pool outside the objects, the list and the launch counters are free.\<close>

lemma pool_inv_frame:
  assumes inv: "pool_inv cfg W" and q: "pl_objects q = pl_objects (pw_pool W)" "pl_workers q = pl_workers (pw_pool W)"
      "pl_launching q = pl_launching (pw_pool W)" "pl_launchingBy q = pl_launchingBy (pw_pool W)"
  shows "pool_inv cfg (W\<lparr>pw_pool := q\<rparr>)"
proof (rule shrinks_world [OF inv])
  have "ids_ok (pw_pool W)" using inv by (simp add: pool_inv_def)
  from shrinks_frame [OF shrinks_refl [OF this] q] show "shrinks cfg (pw_pool W) [] q" .
qed

lemma pool_inv_selected:
  "pool_inv cfg W \<Longrightarrow> set ss \<subseteq> {k. k < length (pl_objects (pw_pool W))} \<Longrightarrow> pool_inv cfg (W\<lparr>pw_selected := ss\<rparr>)"
  by (auto simp: pool_inv_def launches_ok_def contexts_ok_def capacity_ok_def own_count_def other_count_def starting_def)

lemma pool_inv_launch_done:
  assumes inv: "pool_inv cfg W" and l: "l \<in> set (pw_launches W)" and i: "ln_worker l = Some i"
  shows "pool_inv cfg (launch_done l i W)"
proof -
  let ?W1 = "drop_launch (ln_id l) (W\<lparr>pw_pool := launch_finally (ln_backend l) (pw_pool W)\<rparr>)"
  have ok: "launches_ok W" using inv by (simp add: pool_inv_def)
  have inv1: "pool_inv cfg ?W1"
    by (rule pool_inv_dropped [OF inv l]) (simp_all add: launch_finally_by [OF launching_here [OF ok l]])
  have bound: "i < length (pl_objects (pw_pool ?W1))" using ok l i by (simp add: launches_ok_def drop_launch_def)
  show ?thesis
  proof (cases "ln_purpose l")
    case ForAcquire
    have "pool_inv cfg (?W1\<lparr>pw_selected := pw_selected ?W1 @ [i]\<rparr>)"
      using inv1 bound by (intro pool_inv_selected [OF inv1]) (auto simp: pool_inv_def contexts_ok_def)
    with ForAcquire show ?thesis by (simp add: launch_done_def Let_def)
  next
    case ForReplenish
    have "pool_inv cfg (?W1\<lparr>pw_pool := replenish_done (ln_backend l) (pw_pool ?W1)\<rparr>)"
      by (rule pool_inv_frame [OF inv1]) (simp_all add: replenish_done_def)
    with ForReplenish show ?thesis by (simp add: launch_done_def Let_def)
  next
    case ForInit
    with inv1 show ?thesis by (simp add: launch_done_def Let_def)
  qed
qed

lemma pool_inv_launch_failed:
  assumes inv: "pool_inv cfg W" and l: "l \<in> set (pw_launches W)"
  shows "pool_inv cfg (drop_launch (ln_id l) (W\<lparr>pw_pool := launch_failed cfg now (ln_backend l) (pw_pool W)\<rparr>))"
proof (rule pool_inv_dropped [OF inv l])
  have ok: "launches_ok W" using inv by (simp add: pool_inv_def)
  let ?p = "(pw_pool W)\<lparr>pl_launchFailures := pl_launchFailures (pw_pool W) + 1,
     pl_launchFailuresBy := bump (ln_backend l) 1 (pl_launchFailuresBy (pw_pool W)),
     pl_consecutiveBy := map_set (ln_backend l) (map_get_or 0 (pl_consecutiveBy (pw_pool W)) (ln_backend l) + 1) (pl_consecutiveBy (pw_pool W)),
     pl_nextLaunchAtBy := map_set (ln_backend l) (now + backoff_delay cfg (map_get_or 0 (pl_consecutiveBy (pw_pool W)) (ln_backend l) + 1)) (pl_nextLaunchAtBy (pw_pool W))\<rparr>"
  have keep: "launching_by b ?p = launching_by b (pw_pool W)" for b by (simp add: launching_by_def)
  have eq: "launch_failed cfg now (ln_backend l) (pw_pool W) = launch_finally (ln_backend l) ?p"
    by (simp add: launch_failed_def Let_def)
  show "launching_by b (launch_failed cfg now (ln_backend l) (pw_pool W))
      = launching_by b (pw_pool W) - (if b = ln_backend l then 1 else 0)" for b
    unfolding eq using launch_finally_by [of "ln_backend l" ?p b] launching_here [OF ok l] by (simp add: keep)
qed (simp_all add: launch_failed_def Let_def)


text \<open>A worker joins the pool; its launch stays until \<open>refreshMemory\<close> returned.\<close>

lemma pool_inv_launch_ready:
  assumes inv: "pool_inv cfg W" and l: "l \<in> set (pw_launches W)" "ln_worker l = None"
  defines "i \<equiv> length (pl_objects (pw_pool W))"
  shows "pool_inv cfg (launch_joined (ln_id l) i (W\<lparr>pw_pool := launch_ready i key pid now (ln_backend l) (pw_pool W)\<rparr>))"
    (is "pool_inv cfg ?W")
proof -
  let ?p = "pw_pool W" and ?q = "launch_ready i key pid now (ln_backend l) (pw_pool W)"
  have ok: "launches_ok W" "contexts_ok W" "capacity_ok cfg W" "ids_ok ?p" using inv by (simp_all add: pool_inv_def)
  obtain w where q: "pl_objects ?q = pl_objects ?p @ [w]" "pl_workers ?q = pl_workers ?p @ [i]" "pl_launching ?q = pl_launching ?p"
      "\<And>b. launching_by b ?q = launching_by b ?p"
    and w: "w_id w = i" "w_backend w = ln_backend l" "w_active w = 0" "w_state w \<noteq> Dead"
    by (simp add: launch_ready_def launching_by_def)
  have p: "pw_pool ?W = ?q" by (simp add: launch_joined_def)
  have below: "k < i" if "k \<in> set (pl_workers ?p)" for k using ok(4) that by (simp add: ids_ok_def i_def)
  have ids: "ids_ok ?q"
    using ok(4) w below unfolding ids_ok_def q by (auto simp: i_def nth_append)
  have slots: "slots ?q = slots ?p @ [ln_backend l]"
    using below w by (simp add: slots_def q nth_append i_def [symmetric])
  have st: "starting ?W = filter (\<lambda>x. ln_id x \<noteq> ln_id l) (starting W)" by (simp add: starting_joined)
  have "distinct (map ln_id (starting W))" and "l \<in> set (starting W)"
    using ok(1) l by (simp_all add: launches_ok_def starting_def distinct_map_filter)
  note fewer = filter_drop_one [OF this]
  have cap: "capacity_ok cfg ?W"
    by (rule capacity_ok_mono [OF ok(3)])
       (use fewer [of "\<lambda>x. ln_backend x = defaultBrowserBackend cfg"] fewer [of "\<lambda>x. ln_backend x \<noteq> defaultBrowserBackend cfg"]
        in \<open>auto simp: own_count_def other_count_def p slots in_pool_def st\<close>)
  have up: "pw_launches ?W = update_by ln_id (ln_id l) (\<lambda>x. x\<lparr>ln_worker := Some i\<rparr>) (pw_launches W)"
    "pw_nextLaunch ?W = pw_nextLaunch W" by (simp_all add: launch_joined_def)
  have maps: "map ln_id (pw_launches ?W) = map ln_id (pw_launches W)"
    "map ln_backend (pw_launches ?W) = map ln_backend (pw_launches W)" by (simp_all add: up update_by_def)
  have "length (filter (\<lambda>x. ln_backend x = b) (pw_launches ?W)) = length (filter (\<lambda>x. ln_backend x = b) (pw_launches W))" for b
    using arg_cong [OF maps(2), of "\<lambda>bs. length (filter (\<lambda>x. x = b) bs)"] by (simp add: filter_map comp_def)
  moreover have "length (pw_launches ?W) = length (pw_launches W)" using arg_cong [OF maps(1), of length] by simp
  moreover have "\<forall>x \<in> set (pw_launches W). ln_id x < pw_nextLaunch W \<and> (\<forall>k. ln_worker x = Some k \<longrightarrow> k < i)"
    using ok(1) by (simp add: launches_ok_def i_def)
  then have "\<forall>x \<in> set (pw_launches ?W). ln_id x < pw_nextLaunch ?W \<and> (\<forall>k. ln_worker x = Some k \<longrightarrow> k < Suc i)"
    unfolding up update_by_def by (auto simp: less_Suc_eq)
  ultimately have lo: "launches_ok ?W"
    using ok(1) unfolding launches_ok_def p maps q by (simp add: i_def)
  have "count_list (pw_open W) i = 0" using ok(2) by (auto simp: contexts_ok_def i_def count_list_0_iff)
  moreover have lists: "pw_open ?W = pw_open W" "pw_selected ?W = pw_selected W" "pw_ended ?W = pw_ended W"
    by (simp_all add: launch_joined_def)
  moreover have "\<forall>k < i. w_active (pl_objects ?p ! k) = int (count_list (pw_open W) k)"
    and "\<forall>k \<in> set (pw_selected W) \<union> set (pw_open W) \<union> set (pw_ended W). k < Suc i"
    using ok(2) by (auto simp: contexts_ok_def i_def intro: less_SucI)
  moreover have "length (pl_objects ?q) = Suc i" unfolding q(1) by (simp add: i_def)
  moreover have "\<forall>k < Suc i. pl_objects ?q ! k = (if k = i then w else pl_objects ?p ! k)"
    unfolding q(1) by (simp add: nth_append i_def less_Suc_eq)
  ultimately have "contexts_ok ?W"
    using w unfolding contexts_ok_def p lists by (auto simp: less_Suc_eq)
  with ids cap lo p show ?thesis by (simp add: pool_inv_def)
qed

lemma pool_inv_refreshed:
  assumes inv: "pool_inv cfg W"
  shows "pool_inv cfg (W\<lparr>pw_pool := refresh_applied m nodeRss now (pw_pool W)\<rparr>)"
proof (rule shrinks_world [OF inv])
  let ?p = "pw_pool W" and ?q = "refresh_applied m nodeRss now (pw_pool W)"
  have ok: "ids_ok ?p" using inv by (simp add: pool_inv_def)
  obtain g where q: "pl_objects ?q = map g (pl_objects ?p)" "pl_workers ?q = pl_workers ?p"
      "pl_launching ?q = pl_launching ?p" "pl_launchingBy ?q = pl_launchingBy ?p"
    and g: "\<And>w. w_id (g w) = w_id w" "\<And>w. w_backend (g w) = w_backend w" "\<And>w. w_state (g w) = w_state w"
      "\<And>w. w_active (g w) = w_active w"
    by (rule that [of "\<lambda>w. if w_id w \<in> set (pl_workers ?p) then w\<lparr>w_rssMb := tree_rss m w\<rparr> else w"])
       (simp_all add: refresh_applied_def Let_def)
  have "slots ?q = slots ?p" using ok g by (simp add: slots_def q ids_ok_def)
  moreover have "ids_ok ?q" using ok g by (simp add: ids_ok_def q comp_def)
  ultimately show "shrinks cfg ?p [] ?q" using g by (simp add: shrinks_def q launching_by_def)
qed

lemma pool_inv_closed:
  assumes inv: "pool_inv cfg W"
  shows "pool_inv cfg (W\<lparr>pw_pool := pool_close (pw_pool W)\<rparr>)"
proof (rule shrinks_world [OF inv])
  have ok: "ids_ok (pw_pool W)" using inv by (simp add: pool_inv_def)
  have "map w_id (pl_objects (pool_close (pw_pool W))) = map w_id (pl_objects (pw_pool W))"
    by (simp add: pool_close_def)
  with ok show "shrinks cfg (pw_pool W) [] (pool_close (pw_pool W))"
    by (simp add: shrinks_def ids_ok_def slots_def launching_by_def pool_close_def)
qed


section \<open>Every step keeps the invariant\<close>

lemma add_launches_closing:
  "add_launches pu bs (W\<lparr>pw_pool := p, pw_closing := cs\<rparr>)
     = (add_launches pu bs (W\<lparr>pw_pool := p\<rparr>))\<lparr>pw_ended := pw_ended W, pw_closing := cs\<rparr>"
  by (cases W) (simp add: add_launches_eq)

lemma ended_add_launches: "pw_ended (add_launches pu bs W) = pw_ended W"
  by (simp add: add_launches_eq)

lemma pool_inv_step: "pool_inv cfg W \<Longrightarrow> pool_step cfg W W' \<Longrightarrow> pool_inv cfg W'"
proof (erule pool_stepE)
  assume inv: "pool_inv cfg W"
  then have ok: "ids_ok (pw_pool W)" and pos: "\<And>b. 0 \<le> launching_by b (pw_pool W)"
    using launching_pos by (auto simp: pool_inv_def)
  have upd: "pool_inv cfg (W\<lparr>pw_pool := update_worker i f (pw_pool W)\<rparr>)"
    if "\<And>w. w_id (f w) = w_id w" "\<And>w. w_backend (f w) = w_backend w"
      "\<And>w. w_state w \<noteq> Dead \<Longrightarrow> w_state (f w) \<noteq> Dead" "\<And>w. w_active (f w) = w_active w" for f i
    by (rule shrinks_world [OF inv shrinks_update [OF ok]]) (simp_all add: that)
  show "pool_inv cfg W'" if "W' = W\<lparr>pw_pool := recordFailure cfg i (pw_pool W)\<rparr>" "i \<in> set (pw_open W)" for i
    unfolding that(1) recordFailure_def by (rule upd) (simp_all add: Let_def)
  show "pool_inv cfg W'" if "W' = W\<lparr>pw_pool := update_worker i (\<lambda>w. w\<lparr>w_connected := False\<rparr>) (pw_pool W)\<rparr>" for i
    unfolding that by (rule upd) simp_all
  show "pool_inv cfg W'" if "W' = W\<lparr>pw_pool := on_disconnected i (pw_pool W)\<rparr>" for i
    unfolding that on_disconnected_def by (rule upd) simp_all
  show "pool_inv cfg W'"
    if "W' = acquired_world b r (add_launches ForReplenish began (W\<lparr>pw_pool := p\<rparr>))"
      "acquire cfg now b key (pw_pool W) = (r, p, began)" for now b key r p began
    unfolding that(1) by (rule pool_inv_acquired [OF inv that(2)])
  show "pool_inv cfg W'"
    if "W' = W\<lparr>pw_pool := lease_start i (pw_pool W), pw_selected := remove1 i (pw_selected W), pw_open := pw_open W @ [i]\<rparr>"
      "i \<in> set (pw_selected W)" for i
    unfolding that(1) by (rule pool_inv_lease_start [OF inv that(2)])
  show "pool_inv cfg W'"
    if "W' = W\<lparr>pw_pool := lease_end i (pw_pool W), pw_open := remove1 i (pw_open W), pw_ended := pw_ended W @ [i]\<rparr>"
      "i \<in> set (pw_open W)" for i
    unfolding that(1) by (rule pool_inv_lease_end [OF inv that(2)])
  show "pool_inv cfg W'"
    if "W' = W\<lparr>pw_pool := p, pw_ended := remove1 i (pw_ended W),
               pw_closing := pw_closing W @ (case again of Some b \<Rightarrow> [b] | None \<Rightarrow> [])\<rparr>"
      "i \<in> set (pw_ended W)" "recycle cfg now i (pw_pool W) = (p, again)" for i now p again
    using pool_inv_ended [OF shrinks_world [OF inv shrinks_recycle [OF ok that(3)]], of "remove1 i (pw_ended W)"]
    unfolding that(1) by (simp add: set_remove1_subset)
  show "pool_inv cfg W'"
    if "W' = add_launches ForReplenish (if began then [b] else []) (W\<lparr>pw_pool := p, pw_closing := remove1 b (pw_closing W)\<rparr>)"
      "b \<in> set (pw_closing W)" "replenish_begin cfg now b (pw_pool W) = (p, began)" for b now p began
    using pool_inv_ended [OF pool_inv_shrinks [OF inv shrinks_replenish [OF ok pos that(3)]], of "pw_ended W" "remove1 b (pw_closing W)"]
    unfolding that(1) add_launches_closing by (simp add: ended_add_launches split del: if_split)
  show "pool_inv cfg W'"
    if "W' = launch_joined (ln_id l) (length (pl_objects (pw_pool W)))
              (W\<lparr>pw_pool := launch_ready (length (pl_objects (pw_pool W))) key pid now (ln_backend l) (pw_pool W)\<rparr>)"
      "l \<in> set (pw_launches W)" "ln_worker l = None" for l key pid now
    unfolding that(1) by (rule pool_inv_launch_ready [OF inv that(2,3)])
  show "pool_inv cfg W'"
    if "W' = launch_done l i W" "l \<in> set (pw_launches W)" "ln_worker l = Some i" for l i
    unfolding that(1) by (rule pool_inv_launch_done [OF inv that(2,3)])
  show "pool_inv cfg W'"
    if "W' = drop_launch (ln_id l) (W\<lparr>pw_pool := launch_failed cfg now (ln_backend l) (pw_pool W)\<rparr>)"
      "l \<in> set (pw_launches W)" for l now
    unfolding that(1) by (rule pool_inv_launch_failed [OF inv that(2)])
  show "pool_inv cfg W'"
    if "W' = add_launches ForReplenish began (W\<lparr>pw_pool := p\<rparr>)" "markDead cfg now i (pw_pool W) = (p, began)" for now i p began
    unfolding that(1) by (rule pool_inv_shrinks [OF inv shrinks_markDead [OF ok pos that(2)]])
  show "pool_inv cfg W'" if "W' = W\<lparr>pw_pool := refresh_applied m nodeRss now (pw_pool W)\<rparr>" for m nodeRss now
    unfolding that by (rule pool_inv_refreshed [OF inv])
  show "pool_inv cfg W'" if "W' = W\<lparr>pw_pool := pool_close (pw_pool W)\<rparr>"
    unfolding that by (rule pool_inv_closed [OF inv])
qed

interpretation pool_system: invariant_system "pool_step cfg" "pool_inv cfg" for cfg
  by unfold_locales (rule pool_inv_step)

text \<open>The launches of \<open>initialize\<close> begin one after the other, before any of them ends.\<close>

lemma initial_launches:
  fixes b now
  defines "f \<equiv> \<lambda>p. case launch_begin now b p of Inr q \<Rightarrow> q | Inl _ \<Rightarrow> p"
  assumes "pl_objects p = []" "pl_workers p = []" "pl_nextLaunchAtBy p = []" "0 \<le> now"
  shows "pl_objects ((f ^^ n) p) = []" and "pl_workers ((f ^^ n) p) = []" and "pl_nextLaunchAtBy ((f ^^ n) p) = []"
    and "pl_launching ((f ^^ n) p) = pl_launching p + int n"
    and "launching_by c ((f ^^ n) p) = launching_by c p + (if c = b then int n else 0)"
  using assms(2-5)
  by (induction n) (auto simp: f_def launch_begin_def map_get_or_def launching_by_def bump_def Let_def)

lemma pool_inv_initial:
  assumes "0 \<le> browserPoolMin cfg" and "0 \<le> browserPoolMax cfg" and "0 \<le> now"
  shows "pool_inv cfg (pool_initial cfg linux rss now)"
proof -
  let ?n = "nat (browserPoolMin cfg)" and ?d = "defaultBrowserBackend cfg" and ?p = "new_pool linux rss now"
  define q where "q = ((\<lambda>p. case launch_begin now ?d p of Inr q \<Rightarrow> q | Inl _ \<Rightarrow> p) ^^ ?n) ?p"
  have "pl_objects ?p = []" "pl_workers ?p = []" "pl_nextLaunchAtBy ?p = []" "pl_launching ?p = 0" "launching_by b ?p = 0" for b
    by (simp_all add: new_pool_def launching_by_def map_get_or_def)
  with initial_launches [where p = ?p and now = now and n = ?n and b = ?d] assms(3)
  have q: "pl_objects q = []" "pl_workers q = []" "pl_launching q = int ?n" "launching_by b q = (if b = ?d then int ?n else 0)" for b
    unfolding q_def by auto
  let ?L = "new_launches ForInit 0 (replicate ?n ?d)"
  let ?W = "\<lparr>pw_pool = q, pw_launches = ?L, pw_nextLaunch = ?n, pw_selected = [], pw_open = [], pw_ended = [], pw_closing = []\<rparr>"
  have W: "pool_initial cfg linux rss now = ?W"
    by (simp add: pool_initial_def Let_def add_launches_eq q_def)
  note counts = new_launches_filter [of _ ForInit 0 "replicate ?n ?d"]
  have st: "starting ?W = ?L" by (simp add: starting_def new_launches_facts)
  have "launches_ok ?W"
    using q counts [of "\<lambda>b. b = c" for c]
    by (auto simp: launches_ok_def new_launches_facts dest: new_launches_in)
  moreover have "own_count cfg ?W \<le> browserPoolMin cfg" "other_count cfg ?W = 0"
    using assms counts [of "\<lambda>b. b = ?d"] counts [of "\<lambda>b. b \<noteq> ?d"]
    by (simp_all add: own_count_def other_count_def st in_pool_def slots_def q)
  ultimately show ?thesis unfolding W using assms(2) q by (simp add: pool_inv_def ids_ok_def contexts_ok_def capacity_ok_def)
qed

end
