(* ===== verification/OB_Pool_Props.thy ===== *)
theory OB_Pool_Props
  imports OB_Pool_Facts
begin

text \<open>
  What the browser pool promises: bookkeeping in every reachable state, the choice of a worker,
  the launch backoff, and two runs in which a configured limit is passed.
\<close>

section \<open>Concrete runs\<close>

definition pool_config :: config where
  "pool_config = sample_config\<lparr>browserPoolMin := 1, browserPoolMax := 1\<rparr>"

lemma pool_config_fields:
  "browserPoolMin pool_config = 1" "browserPoolMax pool_config = 1" "defaultBrowserBackend pool_config = Playwright"
  "browserMaxAgeMs pool_config = 1800000" "browserContextsPerWorker pool_config = 4"
  by code_simp+


text \<open>The pool after \<open>initialize\<close> with one worker, which is idle.\<close>

definition starting_world :: pool_world where
  "starting_world = pool_initial pool_config True 0 0"

definition joined_world :: pool_world where
  "joined_world = launch_joined 0 0
     (starting_world\<lparr>pw_pool := launch_ready 0 [] 1 0 Playwright (pw_pool starting_world)\<rparr>)"

definition warm_world :: pool_world where
  "warm_world = launch_done \<lparr>ln_id = 0, ln_backend = Playwright, ln_purpose = ForInit, ln_worker = Some 0\<rparr> 0 joined_world"

lemma starting_world_launches:
  "pw_launches starting_world = [\<lparr>ln_id = 0, ln_backend = Playwright, ln_purpose = ForInit, ln_worker = None\<rparr>]"
  "length (pl_objects (pw_pool starting_world)) = 0"
  by code_simp+

lemma joined_world_launches:
  "pw_launches joined_world = [\<lparr>ln_id = 0, ln_backend = Playwright, ln_purpose = ForInit, ln_worker = Some 0\<rparr>]"
  by code_simp

lemma warm_reachable: "reach (pool_step pool_config) starting_world warm_world"
proof -
  have "pool_step pool_config starting_world joined_world"
    using pool_launch_ready [of "hd (pw_launches starting_world)" starting_world 0 pool_config "[]" 1 0]
    by (simp add: starting_world_launches joined_world_def)
  moreover have "pool_step pool_config joined_world warm_world"
    unfolding warm_world_def by (rule pool_launch_done) (simp_all add: joined_world_launches)
  ultimately show ?thesis by (blast intro: reach.intros)
qed

definition warm_pool :: pool where
  "warm_pool = pw_pool warm_world"

lemma warm_pool_objects:
  "pl_objects warm_pool = [\<lparr>w_id = 0, w_backend = Playwright, w_profileKey = [], w_connected = True, w_pid = 1,
     w_jobs = 0, w_createdAt = 0, w_active = 0, w_failures = 0, w_state = Healthy, w_rssMb = 0\<rparr>]"
  "pl_workers warm_pool = [0]" "pl_launching warm_pool = 0" "pl_closed warm_pool = False" "pl_nextLaunchAtBy warm_pool = [(Playwright, 0)]"
  by code_simp+

lemma warm_world_lists: "pw_selected warm_world = []" "pw_open warm_world = []"
  by code_simp+

lemma warm_world_ended: "pw_ended warm_world = []" "pw_closing warm_world = []"
  by code_simp+

lemma warm_acquire: "acquire pool_config 0 Playwright [] warm_pool = (Inr (Chosen 0), warm_pool, [])"
  by (simp add: acquire_def warm_pool_objects worker_of_def workers_def List.map_filter_simps available_def usable_def
      pool_config_fields)

section \<open>Bookkeeping\<close>



section \<open>The choice of a worker\<close>

lemma sort_key_hd: "sort_key f xs = w # ws \<Longrightarrow> w \<in> set xs \<and> (\<forall>v \<in> set xs. f w \<le> f v)"
proof -
  assume s: "sort_key f xs = w # ws"
  have "sorted (map f (w # ws))" unfolding s [symmetric] by (rule sorted_sort_key)
  moreover have "set xs = set (w # ws)" using s by (metis set_sort)
  ultimately show ?thesis by auto
qed

lemma acquire_chosen:
  assumes "acquire cfg now b key p = (Inr (Chosen i), q, began)"
  obtains w ws where "available cfg b key q = w # ws" and "w_id w = i"
  using assms by (auto simp: acquire_def split: prod.splits list.splits if_splits sum.splits)

text \<open>C6. A worker that \<open>acquire\<close> hands out is in the pool, healthy, connected, of the requested backend
  and launch profile, has a context to spare, and no usable worker carries fewer contexts.\<close>

theorem acquire_least_loaded:
  assumes "acquire cfg now b key p = (Inr (Chosen i), q, began)"
  shows "\<exists>w \<in> set (workers q). w_id w = i \<and> usable b key w \<and> w_active w < browserContextsPerWorker cfg \<and>
           (\<forall>v \<in> set (workers q). usable b key v \<longrightarrow> w_active w \<le> w_active v)"
proof -
  obtain w ws where a: "available cfg b key q = w # ws" and i: "w_id w = i" using acquire_chosen [OF assms] .
  from sort_key_hd [OF a [unfolded available_def]]
  have w: "w \<in> set (workers q)" "usable b key w" "w_active w < browserContextsPerWorker cfg"
    and least: "\<And>v. v \<in> set (workers q) \<Longrightarrow> usable b key v \<Longrightarrow> w_active v < browserContextsPerWorker cfg \<Longrightarrow> w_active w \<le> w_active v"
    by auto
  have "w_active w \<le> w_active v" if "v \<in> set (workers q)" "usable b key v" for v
    using least [OF that] w(3) by linarith
  with w i show ?thesis by blast
qed

theorem acquire_least_loaded_witness:
  "\<exists>w \<in> set (workers warm_pool). w_id w = 0 \<and> usable Playwright [] w \<and> w_active w < browserContextsPerWorker pool_config"
  using acquire_least_loaded [OF warm_acquire] by blast

section \<open>The launch backoff\<close>

definition failures_of :: "backend \<Rightarrow> pool \<Rightarrow> int" where
  "failures_of b p = map_get_or 0 (pl_consecutiveBy p) b"

lemma launch_failed_backoff:
  "failures_of b (launch_failed cfg now b p) = failures_of b p + 1"
  "map_get_or 0 (pl_nextLaunchAtBy (launch_failed cfg now b p)) c
     = (if c = b then now + backoff_delay cfg (failures_of b p + 1) else map_get_or 0 (pl_nextLaunchAtBy p) c)"
  by (auto simp: launch_failed_def launch_finally_def Let_def failures_of_def)

lemma backoff_bounds:
  assumes "0 \<le> browserLaunchBackoffMs cfg" and "1 \<le> m" and "m \<le> n"
  shows "min 60000 (browserLaunchBackoffMs cfg) \<le> backoff_delay cfg m" and "backoff_delay cfg m \<le> backoff_delay cfg n"
    and "backoff_delay cfg n \<le> 60000"
proof -
  have "(2::int) ^ nat (m - 1) \<le> 2 ^ nat (n - 1)" using assms(3) by (intro power_increasing) auto
  with assms(1) have "browserLaunchBackoffMs cfg * 2 ^ nat (m - 1) \<le> browserLaunchBackoffMs cfg * 2 ^ nat (n - 1)"
    by (rule mult_left_mono [rotated])
  moreover have "browserLaunchBackoffMs cfg * 1 \<le> browserLaunchBackoffMs cfg * 2 ^ nat (m - 1)"
    using assms(1) by (intro mult_left_mono) auto
  ultimately show "min 60000 (browserLaunchBackoffMs cfg) \<le> backoff_delay cfg m" "backoff_delay cfg m \<le> backoff_delay cfg n"
    "backoff_delay cfg n \<le> 60000" by (auto simp: backoff_delay_def)
qed

lemma launch_begin_iff:
  "isl (launch_begin t b p) \<longleftrightarrow> t < map_get_or 0 (pl_nextLaunchAtBy p) b"
  by (simp add: launch_begin_def Let_def)

text \<open>After a failed launch the backend is not launched again until the backoff elapsed, which is
  between the configured base and one minute and no shorter than after the previous failure; other
  backends are not held back; and a successful launch clears the backoff.\<close>

theorem launch_backoff:
  assumes "0 \<le> browserLaunchBackoffMs cfg" and "1 \<le> failures_of b p"
  shows "\<exists>delay. backoff_delay cfg (failures_of b p) \<le> delay \<and> min 60000 (browserLaunchBackoffMs cfg) \<le> delay \<and> delay \<le> 60000 \<and>
    (\<forall>t. isl (launch_begin t b (launch_failed cfg now b p)) \<longleftrightarrow> t < now + delay) \<and>
    (\<forall>t c. c \<noteq> b \<longrightarrow> isl (launch_begin t c (launch_failed cfg now b p)) = isl (launch_begin t c p)) \<and>
    (\<forall>t i key pid u. 0 \<le> t \<longrightarrow> \<not> isl (launch_begin t b (launch_ready i key pid u b (launch_failed cfg now b p))))"
proof (rule exI [of _ "backoff_delay cfg (failures_of b p + 1)"], intro conjI allI impI)
  let ?d = "backoff_delay cfg (failures_of b p + 1)"
  show "backoff_delay cfg (failures_of b p) \<le> ?d" "min 60000 (browserLaunchBackoffMs cfg) \<le> ?d" "?d \<le> 60000"
    using backoff_bounds [OF assms(1,2), of "failures_of b p + 1"]
      backoff_bounds [OF assms(1), of "failures_of b p + 1" "failures_of b p + 1"] assms(2) by simp_all
  show "isl (launch_begin t b (launch_failed cfg now b p)) \<longleftrightarrow> t < now + ?d" for t
    by (simp add: launch_begin_iff launch_failed_backoff)
  show "isl (launch_begin t c (launch_failed cfg now b p)) = isl (launch_begin t c p)" if "c \<noteq> b" for t c
    using that by (simp add: launch_begin_iff launch_failed_backoff)
  show "\<not> isl (launch_begin t b (launch_ready i key pid u b (launch_failed cfg now b p)))" if "0 \<le> t" for t i key pid u
    using that by (simp add: launch_begin_iff launch_ready_def)
qed

theorem launch_backoff_witness:
  "isl (launch_begin 5 Playwright (launch_failed pool_config 0 Playwright (launch_failed pool_config 0 Playwright warm_pool)))"
proof -
  let ?p = "launch_failed pool_config 0 Playwright warm_pool"
  have base: "browserLaunchBackoffMs pool_config \<ge> 100" "browserLaunchBackoffMs pool_config \<le> 60000" by code_simp+
  have "failures_of Playwright warm_pool = 0" by code_simp
  then have "1 \<le> failures_of Playwright ?p" by (simp add: launch_failed_backoff)
  from launch_backoff [of pool_config Playwright ?p 0, OF _ this] base obtain delay
    where "min 60000 (browserLaunchBackoffMs pool_config) \<le> delay"
      "isl (launch_begin 5 Playwright (launch_failed pool_config 0 Playwright ?p)) = (5 < 0 + delay)" by auto
  with base show ?thesis by auto
qed

section \<open>Limits that concurrency passes\<close>

lemma lease_start_iterated:
  "pl_objects ((lease_start 0 ^^ j) warm_pool) = map (\<lambda>w. w\<lparr>w_active := int j\<rparr>) (pl_objects warm_pool)"
  by (induction j) (simp_all add: lease_start_def update_worker_def update_by_def warm_pool_objects)

definition race_world :: "nat \<Rightarrow> nat \<Rightarrow> pool_world" where
  "race_world n j = warm_world\<lparr>pw_pool := (lease_start 0 ^^ j) warm_pool, pw_selected := replicate n 0, pw_open := replicate j 0\<rparr>"

lemma race_select: "pool_step pool_config (race_world n 0) (race_world (Suc n) 0)"
proof -
  have "pw_pool (race_world n 0) = warm_pool" by (simp add: race_world_def)
  with warm_acquire have "acquire pool_config 0 Playwright [] (pw_pool (race_world n 0)) = (Inr (Chosen 0), warm_pool, [])" by simp
  note step = pool_acquire [OF this]
  have "acquired_world Playwright (Inr (Chosen 0)) (add_launches ForReplenish [] (race_world n 0\<lparr>pw_pool := warm_pool\<rparr>))
      = race_world (Suc n) 0"
    by (rule pool_world.equality) (simp_all add: acquired_world_def add_launches_def race_world_def replicate_append_same)
  with step show ?thesis by simp
qed

lemma race_lease: "pool_step pool_config (race_world (Suc n) j) (race_world n (Suc j))"
  using pool_lease [of 0 "race_world (Suc n) j" pool_config]
  by (cases warm_world) (simp add: race_world_def replicate_append_same)

text \<open>Requests that were given the same worker before any of them opened its context all open one: the
  check of \<open>acquire\<close> counts open contexts only, so a worker can carry any number of them, more
  than \<open>browserContextsPerWorker\<close>.\<close>

theorem context_cap_race:
  "\<exists>W. reach (pool_step pool_config) (pool_initial pool_config True 0 0) W \<and>
       (\<exists>w. worker_of (pw_pool W) 0 = Some w \<and> w_active w = int n)"
proof -
  have start: "warm_world = race_world 0 0"
    using warm_world_lists by (cases warm_world) (simp add: race_world_def warm_pool_def)
  have sel: "reach (pool_step pool_config) starting_world (race_world n 0)" for n
    by (induction n) (use warm_reachable start race_select in \<open>auto intro: reach.intros\<close>)
  have lease: "j \<le> n \<Longrightarrow> reach (pool_step pool_config) starting_world (race_world (n - j) j)" for j
  proof (induction j)
    case (Suc j)
    then have "race_world (n - j) j = race_world (Suc (n - Suc j)) j" by (metis Suc_diff_Suc Suc_le_lessD)
    with Suc race_lease [of "n - Suc j" j] show ?case by (auto intro: reach.intros)
  qed (simp add: sel)
  have "worker_of (pw_pool (race_world 0 n)) 0 = Some ((hd (pl_objects warm_pool))\<lparr>w_active := int n\<rparr>)"
    by (simp add: worker_of_def race_world_def lease_start_iterated warm_pool_objects)
  with lease [of n] show ?thesis
    by (intro exI [of _ "race_world 0 n"]) (simp add: starting_world_def)
qed

text \<open>The run of the next property: the only worker serves a request and is recycled for its age.\<close>

definition served_world :: pool_world where
  "served_world = (race_world 0 1)\<lparr>pw_pool := lease_end 0 (pw_pool (race_world 0 1)), pw_open := [], pw_ended := [0]\<rparr>"

definition recycled_pool :: pool where
  "recycled_pool = fst (recycle pool_config 1800000 0 (pw_pool served_world))"

definition recycled_world :: pool_world where
  "recycled_world = served_world\<lparr>pw_pool := recycled_pool, pw_ended := [], pw_closing := [Playwright]\<rparr>"

definition other_pool :: pool where
  "other_pool = fst (snd (acquire pool_config 1800000 Camoufox [] recycled_pool))"

definition crowded_pool :: pool where
  "crowded_pool = fst (replenish_begin pool_config 1800000 Playwright other_pool)"

lemma pool_config_soft: "0 < memorySoftMb pool_config"
  by code_simp

lemma warm_pool_more: "ms_totalRssMb (pl_memory warm_pool) = 0" "pl_launchingBy warm_pool = [(Playwright, 0)]"
  by code_simp+

lemmas pool_run_simps = warm_pool_objects warm_pool_more worker_of_def workers_def List.map_filter_simps
  update_worker_def update_by_def remove_worker_def pool_config_fields map_get_or_def bump_def

lemma served_pool:
  "pw_pool served_world = warm_pool\<lparr>pl_objects := [(hd (pl_objects warm_pool))\<lparr>w_jobs := 1\<rparr>]\<rparr>"
  by (rule pool.equality)
     (simp_all add: served_world_def race_world_def lease_end_def lease_start_def pool_run_simps)

lemma recycled_run: "recycle pool_config 1800000 0 (pw_pool served_world) = (recycled_pool, Some Playwright)"
  by (simp add: recycled_pool_def served_pool recycle_def wants_recycling_def retire_def pool_run_simps)

lemma recycled_pool_fields:
  "pl_workers recycled_pool = []" "pl_launching recycled_pool = 0" "pl_closed recycled_pool = False"
  "ms_totalRssMb (pl_memory recycled_pool) = 0" "pl_launchingBy recycled_pool = [(Playwright, 0)]"
  "pl_nextLaunchAtBy recycled_pool = [(Playwright, 0)]"
  by (simp_all add: recycled_pool_def served_pool recycle_def wants_recycling_def retire_def pool_run_simps)

lemma other_run:
  "acquire pool_config 1800000 Camoufox [] recycled_pool = (Inr LaunchBegun, other_pool, [])"
  "other_pool = recycled_pool\<lparr>pl_launching := 1, pl_launchingBy := [(Playwright, 0), (Camoufox, 1)]\<rparr>"
  using pool_config_soft
  by (simp_all add: other_pool_def acquire_def available_def launch_begin_def recycled_pool_fields
      workers_def List.map_filter_simps pool_config_fields map_get_or_def bump_def)

lemma crowded_run: "replenish_begin pool_config 1800000 Playwright other_pool = (crowded_pool, True)"
  by (simp add: crowded_pool_def replenish_begin_def replenish_blocked_def other_run(2) launch_begin_def
      recycled_pool_fields workers_def List.map_filter_simps pool_config_fields map_get_or_def bump_def)

definition crowded_world :: pool_world where
  "crowded_world = add_launches ForReplenish [Playwright]
     ((add_launch ForAcquire Camoufox (recycled_world\<lparr>pw_pool := other_pool\<rparr>))\<lparr>pw_pool := crowded_pool, pw_closing := []\<rparr>)"

lemma crowded_reachable: "reach (pool_step pool_config) starting_world crowded_world"
proof -
  let ?R = "reach (pool_step pool_config) starting_world" and ?other = "add_launch ForAcquire Camoufox (recycled_world\<lparr>pw_pool := other_pool\<rparr>)"
  have "warm_world = race_world 0 0"
    using warm_world_lists by (cases warm_world) (simp add: race_world_def warm_pool_def)
  then have "?R (race_world 0 1)"
    using warm_reachable race_select [of 0] race_lease [of 0 0] by (auto intro: reach.intros)
  moreover have "pool_step pool_config (race_world 0 1) served_world"
  proof -
    have "(race_world 0 1)\<lparr>pw_pool := lease_end 0 (pw_pool (race_world 0 1)), pw_open := remove1 0 (pw_open (race_world 0 1)),
            pw_ended := pw_ended (race_world 0 1) @ [0]\<rparr> = served_world"
      by (rule pool_world.equality) (simp_all add: served_world_def race_world_def warm_world_ended)
    with pool_end [of 0 "race_world 0 1" pool_config] show ?thesis by (simp add: race_world_def)
  qed
  moreover have "pool_step pool_config served_world recycled_world"
  proof -
    have "served_world\<lparr>pw_pool := recycled_pool, pw_ended := remove1 0 (pw_ended served_world),
            pw_closing := pw_closing served_world @ [Playwright]\<rparr> = recycled_world"
      by (rule pool_world.equality) (simp_all add: served_world_def recycled_world_def race_world_def warm_world_ended)
    with pool_recycle [OF _ recycled_run] show ?thesis by (simp add: served_world_def)
  qed
  moreover have "pool_step pool_config recycled_world ?other"
    using pool_acquire [of pool_config 1800000 Camoufox "[]" recycled_world] other_run(1)
    by (simp add: recycled_world_def acquired_world_def add_launches_def)
  moreover have "pool_step pool_config ?other crowded_world"
    using pool_replenish [of Playwright ?other pool_config 1800000 crowded_pool True] crowded_run
    by (simp add: crowded_world_def add_launch_def recycled_world_def)
  ultimately show ?thesis by (rule reach_step [OF reach_step [OF reach_step [OF reach_step]]])
qed

text \<open>\<open>browserPoolMax\<close> does not bound the browsers being started: after a recycling, a launch for a waiting
  request and the replacement for the recycled worker can both begin, because \<open>replenish\<close> checks
  \<open>browserPoolMin\<close> only. With both limits at one, two browsers are starting.\<close>

theorem pool_max_exceeded:
  "\<exists>W. reach (pool_step pool_config) (pool_initial pool_config True 0 0) W \<and>
       browserPoolMax pool_config < ps_starting (pool_stats pool_config None (pw_pool W))"
proof -
  have "pw_pool crowded_world = crowded_pool" by (simp add: crowded_world_def add_launches_eq)
  moreover have "pl_launching crowded_pool = 2"
    by (simp add: crowded_pool_def replenish_begin_def replenish_blocked_def other_run(2) launch_begin_def
        recycled_pool_fields workers_def List.map_filter_simps pool_config_fields map_get_or_def bump_def)
  ultimately show ?thesis
    using crowded_reachable
    by (intro exI [of _ crowded_world]) (simp add: starting_world_def pool_stats_def Let_def pool_config_fields)
qed

end
