(* ===== verification/OB_Launch.thy ===== *)
theory OB_Launch
  imports OB_Regex OB_Sessions
begin

text \<open>
  The browser arguments a client may pass, \<open>src/src/server/input/launch-options.ts\<close>. \<open>JSON.parse\<close>, the
  base64 decoder and the schema validator are parameters; the values of the query string are
  \<open>jsval\<close>s, \<open>JUndefined\<close> when absent.
\<close>

record client_launch =
  cl_args :: "string list option"
  cl_headless :: "bool option"
  cl_slowMo :: "int option"
  cl_acceptInsecureCerts :: "bool option"
  cl_ignoreHTTPSErrors :: "bool option"

section \<open>The argument filter\<close>

definition unsafeChromiumArgumentPrefixes :: "string list" where
  "unsafeChromiumArgumentPrefixes =
     [''--no-sandbox'', ''--disable-setuid-sandbox'', ''--remote-debugging-address'', ''--remote-debugging-port'',
      ''--user-data-dir'', ''--proxy-server'', ''--proxy-bypass-list'', ''--host-resolver-rules'',
      ''--disable-web-security'', ''--allow-file-access-from-files'', ''--disable-features=IsolateOrigins'']"

definition permittedChromiumArgumentPatterns :: "rx list" where
  "permittedChromiumArgumentPatterns =
     [seqs [lit ''--window-size='', RRep digit 2 4, ch (CHR '',''), RRep digit 2 4],
      seqs [lit ''--lang='', RRep (alnum_or ''-'') 2 35],
      seqs [lit ''--'', alts [lit ''disable'', lit ''enable''], lit ''-features='', RRep (alnum_or '',._-'') 1 500],
      seqs [lit ''--force-color-profile='', RRep (alnum_or ''-'') 1 50],
      seqs [lit ''--force-device-scale-factor='',
            alts [RSeq (one_of ''012'') (opt (RSeq (ch (CHR ''.'')) (plus digit))),
                  RSeq (ch (CHR ''3'')) (opt (RSeq (ch (CHR ''.'')) (plus (ch (CHR ''0'')))))]],
      seqs [lit ''--font-render-hinting='', alts [lit ''none'', lit ''slight'', lit ''medium'', lit ''full'']],
      seqs [lit ''--use-angle='', RRep (alnum_or ''_-'') 1 32],
      seqs [lit ''--'', alts [lit ''disable-gpu'', lit ''disable-dev-shm-usage'', lit ''mute-audio'']]]"

definition argument_name :: "string \<Rightarrow> string" where
  "argument_name arg = takeWhile (\<lambda>c. c \<noteq> CHR ''='') arg"

definition check_argument :: "string \<Rightarrow> unit outcome" where
  "check_argument arg =
     (if list_ex (starts_with (to_lower arg)) unsafeChromiumArgumentPrefixes
      then Inl (ob_err ''FORBIDDEN'' (''Unsafe Chromium launch argument is not permitted: '' @ argument_name arg) 403 False)
      else if \<not> list_ex (\<lambda>r. rx_full r arg) permittedChromiumArgumentPatterns
      then Inl (ob_err ''INVALID_REQUEST'' (''Unsupported Chromium launch argument: '' @ argument_name arg) 400 False)
      else Inr ())"

fun check_arguments :: "string list \<Rightarrow> unit outcome" where
  "check_arguments [] = Inr ()"
| "check_arguments (a # as) = res_bind (check_argument a) (\<lambda>_. check_arguments as)"

section \<open>Parsing\<close>

definition invalid_launch :: "string \<Rightarrow> js_error" where
  "invalid_launch msg = ob_err ''INVALID_REQUEST'' msg 400 False"

definition decode_launch :: "(string \<Rightarrow> jsval option) \<Rightarrow> (string \<Rightarrow> string) \<Rightarrow> jsval \<Rightarrow> jsval outcome" where
  "decode_launch parseJson fromBase64 v =
     (case v of
        JStr text \<Rightarrow>
          if length text > 12000 then Inl (invalid_launch ''launch is too large'')
          else (case parseJson text of
              Some x \<Rightarrow> Inr x
            | None \<Rightarrow> (case parseJson (fromBase64 text) of
                  Some x \<Rightarrow> Inr x
                | None \<Rightarrow> Inl (invalid_launch ''launch must contain valid JSON'')))
      | _ \<Rightarrow> Inr (JObj []))"

definition query_headless :: "jsval \<Rightarrow> bool option outcome" where
  "query_headless v =
     (if v = JUndefined then Inr None
      else if v = JStr ''true'' \<or> v = JStr ''1'' then Inr (Some True)
      else if v = JStr ''false'' \<or> v = JStr ''0'' then Inr (Some False)
      else Inl (invalid_launch ''headless must be true or false''))"

definition first_given :: "'a option \<Rightarrow> 'a option \<Rightarrow> 'a option" where
  "first_given a b = (case a of Some x \<Rightarrow> Some x | None \<Rightarrow> b)"

definition parseClientLaunchOptions ::
  "config \<Rightarrow> (string \<Rightarrow> jsval option) \<Rightarrow> (string \<Rightarrow> string) \<Rightarrow> (jsval \<Rightarrow> client_launch outcome) \<Rightarrow>
   jsval \<Rightarrow> jsval \<Rightarrow> safe_launch_options outcome" where
  "parseClientLaunchOptions cfg parseJson fromBase64 parse launchValue headlessValue =
     (if launchValue = JUndefined \<and> headlessValue = JUndefined
      then Inr \<lparr>sl_args = None, sl_headless = None, sl_slowMo = None, sl_acceptInsecureCerts = None\<rparr>
      else if \<not> allowClientLaunchOptions cfg
      then Inl (ob_err ''FEATURE_DISABLED'' ''Client launch options are disabled; set OPENBROWSE_ALLOW_CLIENT_LAUNCH_OPTIONS=true to enable the hardened subset'' 403 False)
      else if launchValue \<noteq> JUndefined \<and> \<not> (case launchValue of JStr _ \<Rightarrow> True | _ \<Rightarrow> False)
      then Inl (invalid_launch ''launch must be a JSON or base64 JSON string'')
      else res_bind (decode_launch parseJson fromBase64 launchValue) (\<lambda>decoded.
           res_bind (parse decoded) (\<lambda>options.
           res_bind (query_headless headlessValue) (\<lambda>queryHeadless.
           res_bind (check_arguments (or_default (cl_args options) [])) (\<lambda>_.
             Inr \<lparr>sl_args = cl_args options, sl_headless = first_given queryHeadless (cl_headless options),
                  sl_slowMo = cl_slowMo options,
                  sl_acceptInsecureCerts = first_given (cl_acceptInsecureCerts options) (cl_ignoreHTTPSErrors options)\<rparr>)))))"

section \<open>What passes\<close>

lemma check_arguments_iff:
  "check_arguments as = Inr () \<longleftrightarrow>
     (\<forall>a \<in> set as. \<not> list_ex (starts_with (to_lower a)) unsafeChromiumArgumentPrefixes
                    \<and> list_ex (\<lambda>r. rx_full r a) permittedChromiumArgumentPatterns)"
  by (induction as) (auto simp: check_argument_def res_bind_Inr_iff)


definition sample_launch :: client_launch where
  "sample_launch = \<lparr>cl_args = Some [''--lang=de'', ''--mute-audio''], cl_headless = None, cl_slowMo = None,
     cl_acceptInsecureCerts = None, cl_ignoreHTTPSErrors = None\<rparr>"

definition launch_config :: config where
  "launch_config = sample_config\<lparr>allowClientLaunchOptions := True\<rparr>"

lemma sample_launch_parses:
  "parseClientLaunchOptions launch_config (\<lambda>_. Some (JObj [])) id (\<lambda>_. Inr sample_launch) (JStr ''launch'') JUndefined
     = Inr \<lparr>sl_args = Some [''--lang=de'', ''--mute-audio''], sl_headless = None, sl_slowMo = None, sl_acceptInsecureCerts = None\<rparr>"
proof -
  have "check_arguments [''--lang=de'', ''--mute-audio''] = Inr ()" by code_simp
  then show ?thesis
    by (simp add: parseClientLaunchOptions_def launch_config_def decode_launch_def query_headless_def sample_launch_def
        or_default_def first_given_def)
qed


text \<open>The last unsafe prefix never takes effect: it has capitals and is compared with a text in lower case, so
  site isolation can be switched off by any list of features that starts with \<open>IsolateOrigins\<close>.\<close>

theorem isolation_can_be_disabled:
  "\<not> starts_with (to_lower arg) ''--disable-features=IsolateOrigins'' \<and>
   check_argument ''--disable-features=IsolateOrigins,site-per-process'' = Inr ()"
proof
  let ?w = "''IsolateOrigins,site-per-process''"
  have "list_all (\<lambda>c. is_letter c \<or> is_digit c \<or> c \<in> set '',._-'') ?w" by code_simp
  from match_rep_chars [OF this, of 1 500 "[]"]
  have rep: "rx_match (RRep (alnum_or '',._-'') 1 500) ?w []" by (simp add: alnum_or_def)
  have alt: "rx_match (alts [lit ''disable'', lit ''enable'']) (''disable'' @ t) t" for t
    by (simp add: alts_def match_left match_lit del: append_Cons append_Nil)
  have "rx_match (seqs [lit ''--'', alts [lit ''disable'', lit ''enable''], lit ''-features='', RRep (alnum_or '',._-'') 1 500])
      (''--'' @ ''disable'' @ ''-features='' @ ?w) []"
    by (intro match_seqs_Cons [OF match_lit] match_seqs_Cons [OF alt] match_seqs_Cons [OF rep] match_seqs_Nil)
  then have "list_ex (\<lambda>r. rx_full r ''--disable-features=IsolateOrigins,site-per-process'') permittedChromiumArgumentPatterns"
    by (simp add: permittedChromiumArgumentPatterns_def rx_full_iff)
  moreover have "\<not> list_ex (starts_with (to_lower ''--disable-features=IsolateOrigins,site-per-process'')) unsafeChromiumArgumentPrefixes"
    by code_simp
  ultimately show "check_argument ''--disable-features=IsolateOrigins,site-per-process'' = Inr ()"
    by (simp add: check_argument_def)
  have I: "lower_char (CHR ''I'') = CHR ''i''" by code_simp
  have no: "lower_char c \<noteq> CHR ''I''" for c
  proof
    assume c: "lower_char c = CHR ''I''"
    have "lower_char (lower_char c) = lower_char c" by (auto simp: lower_char_def Let_def)
    then show False unfolding c I by simp
  qed
  show "\<not> starts_with (to_lower arg) ''--disable-features=IsolateOrigins''"
  proof
    assume "starts_with (to_lower arg) ''--disable-features=IsolateOrigins''"
    then have "set ''--disable-features=IsolateOrigins'' \<subseteq> set (map lower_char arg)"
      by (simp only: starts_with_def to_lower_def set_mono_prefix)
    then have "CHR ''I'' \<in> lower_char ` set arg" by simp
    with no show False by force
  qed
qed

end
