(* ===== verification/OB_Cdp.thy ===== *)
theory OB_Cdp
  imports OB_Sessions OB_Url
begin

text \<open>
  Reconnectable DevTools targets, \<open>src/src/cdp-reconnect.ts\<close>, and the launch of their browser,
  \<open>src/src/cdp.ts\<close>. Identifiers, tokens and the hash are parameters; a browser is its handle.
\<close>

section \<open>Waiting for the endpoint\<close>

text \<open>One probe: whether the browser is connected, and the text of \<open>DevToolsActivePort\<close> if it can be read.\<close>

record endpoint_probe =
  pb_connected :: bool
  pb_text :: "string option"

text \<open>\<open>.split(/\\r?\\n/)\<close>.\<close>

fun split_lines :: "string \<Rightarrow> string list" where
  "split_lines [] = [[]]"
| "split_lines (c # s) =
     (if c = CHR 0x0A then [] # split_lines s
      else if c = CHR 0x0D \<and> s \<noteq> [] \<and> hd s = CHR 0x0A then split_lines s
      else (case split_lines s of [] \<Rightarrow> [[c]] | w # ws \<Rightarrow> (c # w) # ws))"

definition endpoint_of :: "string \<Rightarrow> string option" where
  "endpoint_of text =
     (case split_lines (trim text) of
        prt # path # _ \<Rightarrow>
          if prt \<noteq> [] \<and> path \<noteq> [] \<and> list_all is_digit prt \<and> starts_with path ''/devtools/browser/''
          then Some (''ws://127.0.0.1:'' @ prt @ path) else None
      | _ \<Rightarrow> None)"

fun wait_attempts :: "nat \<Rightarrow> endpoint_probe list \<Rightarrow> string outcome" where
  "wait_attempts 0 ps = Inl (ob_err ''RENDER_FAILED'' ''Timed out waiting for Chromium CDP endpoint'' 422 True)"
| "wait_attempts (Suc n) [] = Inl (ob_err ''RENDER_FAILED'' ''Timed out waiting for Chromium CDP endpoint'' 422 True)"
| "wait_attempts (Suc n) (p # ps) =
     (if \<not> pb_connected p
      then Inl (ob_err ''RENDER_FAILED'' ''Chromium exited before exposing its CDP endpoint'' 422 False)
      else (case Option.bind (pb_text p) endpoint_of of Some e \<Rightarrow> Inr e | None \<Rightarrow> wait_attempts n ps))"

definition waitForEndpoint :: "endpoint_probe list \<Rightarrow> string outcome" where
  "waitForEndpoint ps = wait_attempts 100 ps"

definition cdp_arguments :: "config \<Rightarrow> string list \<Rightarrow> safe_launch_options \<Rightarrow> string list" where
  "cdp_arguments cfg extensionArgs launch =
     [''--remote-debugging-address=127.0.0.1'', ''--remote-debugging-port=0'', ''--remote-allow-origins=*'',
      ''--no-first-run'', ''--no-default-browser-check'']
     @ (if chromiumExtensionDirs cfg = []
        then [''--disable-extensions'', ''--disable-component-extensions-with-background-pages'']
        else extensionArgs)
     @ [''--disable-background-networking'', ''--disable-features=MediaRouter,OptimizationHints'']
     @ or_default (sl_args launch) []"

definition cdp_settings :: "config \<Rightarrow> string list \<Rightarrow> safe_launch_options \<Rightarrow> launch_settings" where
  "cdp_settings cfg extensionArgs launch =
     \<lparr>ls_headless = or_default (sl_headless launch) True, ls_chromiumSandbox = chromiumSandbox cfg,
      ls_slowMo = sl_slowMo launch, ls_ignoreHTTPSErrors = sl_acceptInsecureCerts launch,
      ls_args = cdp_arguments cfg extensionArgs launch\<rparr>"

section \<open>The manager\<close>

record cdp_target =
  ct_ownerKeyHash :: string
  ct_accessHash :: string
  ct_browser :: nat
  ct_expiresAt :: millis
  ct_fires :: millis

type_synonym cdp_targets = "(string, cdp_target) jsmap"

definition cdp_ttl :: "config \<Rightarrow> int \<Rightarrow> millis" where
  "cdp_ttl cfg ttlSeconds = min (ttlSeconds * 1000) (maxSessionTtlSeconds cfg * 1000)"

text \<open>\<open>create\<close> after the launch: the answer is the id, the token and the expiry.\<close>

definition cdp_create ::
  "config \<Rightarrow> (string \<Rightarrow> string) \<Rightarrow> string \<Rightarrow> string \<Rightarrow> millis \<Rightarrow> string \<Rightarrow> int \<Rightarrow> nat \<Rightarrow> cdp_targets
     \<Rightarrow> (string \<times> string \<times> millis) \<times> cdp_targets" where
  "cdp_create cfg sha newId token now owner ttlSeconds browser ts =
     (let ttl = cdp_ttl cfg ttlSeconds in
      ((newId, token, now + ttl),
       map_set newId \<lparr>ct_ownerKeyHash = owner, ct_accessHash = sha token, ct_browser = browser,
                      ct_expiresAt = now + ttl, ct_fires = now + timer_delay ttl\<rparr> ts))"

definition cdp_not_found :: js_error where
  "cdp_not_found = ob_err ''CDP_SESSION_NOT_FOUND'' ''Reconnectable CDP session does not exist or has expired'' 404 False"

definition cdp_get :: "(string \<Rightarrow> string) \<Rightarrow> millis \<Rightarrow> string \<Rightarrow> string \<Rightarrow> string \<Rightarrow> cdp_targets \<Rightarrow> nat outcome" where
  "cdp_get sha now i owner token ts =
     (case map_of ts i of
        None \<Rightarrow> Inl cdp_not_found
      | Some t \<Rightarrow>
          if ct_expiresAt t < now \<or> ct_ownerKeyHash t \<noteq> owner \<or> sha token \<noteq> ct_accessHash t
          then Inl cdp_not_found else Inr (ct_browser t))"

text \<open>The browser to stop, if the target was there.\<close>

definition cdp_close :: "string \<Rightarrow> cdp_targets \<Rightarrow> nat option \<times> cdp_targets" where
  "cdp_close i ts = (map_option ct_browser (map_of ts i), map_remove i ts)"

definition cdp_closeAll :: "cdp_targets \<Rightarrow> nat list \<times> cdp_targets" where
  "cdp_closeAll ts =
     fold (\<lambda>i (bs, ts'). case cdp_close i ts' of (b, ts'') \<Rightarrow> (bs @ (case b of Some x \<Rightarrow> [x] | None \<Rightarrow> []), ts''))
       (map fst ts) ([], ts)"

section \<open>Access\<close>

text \<open>A reconnectable target is reachable exactly with its id, by the key that created it, with the access token it
  was given and until it expires; creating it changes the access to no other target, and after it was
  closed nobody reaches it.\<close>

theorem cdp_access:
  assumes "cdp_create cfg sha newId token now owner ttl browser ts = ((i, t, expires), ts')"
  shows "i = newId \<and> t = token \<and>
    (cdp_get sha later i who tok ts' = Inr b \<longleftrightarrow> who = owner \<and> sha tok = sha token \<and> later \<le> expires \<and> b = browser) \<and>
    (j \<noteq> i \<longrightarrow> cdp_get sha later j who tok ts' = cdp_get sha later j who tok ts) \<and>
    cdp_get sha later i who tok (snd (cdp_close i ts')) = Inl cdp_not_found \<and> fst (cdp_close i ts') = Some browser"
  using assms by (auto simp: cdp_create_def cdp_get_def cdp_close_def Let_def split: if_splits)

theorem cdp_access_witness:
  "cdp_get id 10 ''cdp_1'' ''ann'' ''secret''
     (snd (cdp_create sample_config id ''cdp_1'' ''secret'' 0 ''ann'' 60 7 [])) = Inr 7"
proof -
  have e: "cdp_create sample_config id ''cdp_1'' ''secret'' 0 ''ann'' 60 7 []
     = ((''cdp_1'', ''secret'', cdp_ttl sample_config 60), snd (cdp_create sample_config id ''cdp_1'' ''secret'' 0 ''ann'' 60 7 []))"
    by (simp add: cdp_create_def Let_def)
  have "10 \<le> cdp_ttl sample_config 60" by code_simp
  with cdp_access [OF e, of 10 "''ann''" "''secret''" 7 "''x''"] show ?thesis by simp
qed

lemma fold_cdp_close:
  "snd (fold (\<lambda>i (bs, ts'). case cdp_close i ts' of (b, ts'') \<Rightarrow> (bs @ (case b of Some x \<Rightarrow> [x] | None \<Rightarrow> []), ts'')) is (bs, ts))
     = filter (\<lambda>p. fst p \<notin> set is) ts"
proof (induction "is" arbitrary: bs ts)
  case (Cons i "is")
  have "filter (\<lambda>p. fst p \<notin> set is) (map_remove i ts) = filter (\<lambda>p. fst p \<notin> set (i # is)) ts"
    by (auto simp: AList.delete_eq intro: filter_cong)
  with Cons show ?case by (simp add: cdp_close_def)
qed (simp add: filter_id_conv)

lemma cdp_closeAll_empty: "snd (cdp_closeAll ts) = []"
  by (simp add: cdp_closeAll_def fold_cdp_close filter_empty_conv)

lemma endpoint_local: "waitForEndpoint ps = Inr e \<Longrightarrow> starts_with e ''ws://127.0.0.1:''"
proof -
  have "wait_attempts n ps = Inr e \<Longrightarrow> starts_with e ''ws://127.0.0.1:''" for n
    by (induction n ps rule: wait_attempts.induct)
       (auto simp: endpoint_of_def starts_with_def bind_eq_Some_conv split: option.splits if_splits list.splits)
  then show "waitForEndpoint ps = Inr e \<Longrightarrow> starts_with e ''ws://127.0.0.1:''" by (simp add: waitForEndpoint_def)
qed

end
