(* ===== verification/OB_Markdown_Props.thy ===== *)
theory OB_Markdown_Props
  imports OB_Markdown
begin

text \<open>
  What the extraction of \<open>OB_Markdown\<close> guarantees: whitespace of the output, what noise removal and the
  paywall cut remove, and which region is chosen.
\<close>

section \<open>Replacing runs\<close>

lemma dropWhile_shorter [simp, termination_simp]:
  "length (dropWhile P xs) < Suc (length xs)" "length (dropWhile P xs) < Suc (Suc (Suc (length xs)))"
  using length_dropWhile_le [of P xs] by simp_all

fun squeeze :: "(char \<Rightarrow> bool) \<Rightarrow> char \<Rightarrow> string \<Rightarrow> string" where
  "squeeze P c [] = []"
| "squeeze P c (x # xs) = (if P x then c # squeeze P c (dropWhile P xs) else x # squeeze P c xs)"

lemma star_head: "\<exists>ts. rx_rest (RStar (RSym P)) s = dropWhile P s # ts"
  by (induction s) (subst rx_rest.simps(5), force)+

lemma replace_run: "rx_replace_all (plus (RSym P)) (\<lambda>_. [c]) s = squeeze P c s"
proof (induction P c s rule: squeeze.induct)
  case (1 P c)
  show ?case by (subst rx_replace_all.simps) (simp add: plus_def)
next
  case (2 P c x xs)
  obtain ts where ts: "rx_rest (RStar (RSym P)) xs = dropWhile P xs # ts" using star_head by blast
  with 2 ts show ?case by (subst rx_replace_all.simps) (simp add: plus_def)
qed

definition apart :: "(char \<Rightarrow> bool) \<Rightarrow> string \<Rightarrow> bool" where
  "apart P s \<longleftrightarrow> successively (\<lambda>a b. \<not> (P a \<and> P b)) s"

lemma squeeze_apart: "apart P (squeeze P c s) \<and> (s \<noteq> [] \<longrightarrow> \<not> P (hd s) \<longrightarrow> hd (squeeze P c s) = hd s)"
proof (induction P c s rule: squeeze.induct)
  case (2 P c x xs)
  show ?case
  proof (cases "P x")
    case True
    show ?thesis
    proof (cases "dropWhile P xs")
      case (Cons z zs)
      then have "\<not> P z" using hd_dropWhile [of P xs] by simp
      with 2(1) [OF True] True Cons show ?thesis by (auto simp: apart_def successively_Cons)
    next
      case Nil
      show ?thesis by (simp add: True apart_def Nil)
    qed
  next
    case False
    with 2(2) show ?thesis by (auto simp: apart_def successively_Cons)
  qed
qed (simp add: apart_def)

fun cap_newlines :: "char \<Rightarrow> string \<Rightarrow> string" where
  "cap_newlines n (a # b # c # t) =
     (if a = n \<and> b = n \<and> c = n then n # n # cap_newlines n (dropWhile (\<lambda>x. x = n) t) else a # cap_newlines n (b # c # t))"
| "cap_newlines n s = s"

lemma replace_newlines: "rx_replace_all three_newlines (\<lambda>_. [newline, newline]) s = cap_newlines newline s"
proof (induction newline s rule: cap_newlines.induct)
  case (1 a b c t)
  obtain ts where ts: "rx_rest (RStar (RSym (\<lambda>x. x = newline))) t = dropWhile (\<lambda>x. x = newline) t # ts" using star_head by blast
  note build = three_newlines_def seqs_def plus_def ch_def
  show ?case
  proof (cases "a = newline \<and> b = newline \<and> c = newline")
    case True
    with 1(1) ts show ?thesis by (subst rx_replace_all.simps) (simp add: build)
  next
    case False
    then have "rx_rest three_newlines (a # b # c # t) = []" by (auto simp: build)
    with 1(2) False show ?thesis by (subst rx_replace_all.simps) auto
  qed
qed (subst rx_replace_all.simps, simp add: three_newlines_def seqs_def plus_def ch_def rx_replace_all.simps)+

lemma apart_sublist: "sublist xs ys \<Longrightarrow> apart P ys \<Longrightarrow> apart P xs"
  by (auto simp: sublist_def apart_def successively_append_iff)

lemma cap_apart: "apart P s \<Longrightarrow> \<not> P n \<Longrightarrow> apart P (cap_newlines n s) \<and> (s \<noteq> [] \<longrightarrow> cap_newlines n s \<noteq> [] \<and> hd (cap_newlines n s) = hd s)"
proof (induction n s rule: cap_newlines.induct)
  case (1 n a b c t)
  show ?case
  proof (cases "a = n \<and> b = n \<and> c = n")
    case True
    have "sublist (dropWhile (\<lambda>x. x = n) t) (a # b # c # t)"
      by (metis (no_types) sublist_append_leftI append_Cons append_Nil sublist_order.order_trans sublist_Cons_right suffix_dropWhile suffix_imp_sublist)
    with 1(3) have "apart P (dropWhile (\<lambda>x. x = n) t)" by (rule apart_sublist [rotated])
    with 1(1) True 1(4) show ?thesis by (auto simp: apart_def successively_Cons)
  next
    case False
    have "apart P (b # c # t)" using 1(3) by (simp add: apart_def)
    with 1(2) [OF False] 1(3,4) False show ?thesis by (auto simp: apart_def successively_Cons)
  qed
qed auto

lemma trim_sublist: "sublist (trim s) s"
proof -
  have "prefix (trim s) (dropWhile is_space s)"
    unfolding trim_def by (metis suffix_dropWhile suffix_to_prefix rev_rev_ident)
  then show ?thesis by (meson prefix_imp_sublist suffix_dropWhile suffix_imp_sublist sublist_order.order_trans)
qed

lemma squeeze_set: "set (squeeze P c s) \<subseteq> insert c {x \<in> set s. \<not> P x}"
  by (induction P c s rule: squeeze.induct) (auto dest: set_dropWhileD)

lemma cap_set: "set (cap_newlines n s) \<subseteq> insert n (set s)"
  by (induction n s rule: cap_newlines.induct) (auto dest: set_dropWhileD)

lemma clean_eq: "clean s = trim (cap_newlines newline (squeeze blank (CHR '' '') (rx_replace_all (ch nbsp) (\<lambda>_. '' '') s)))"
  by (simp add: clean_def replace_run replace_newlines)

lemma clean_apart: "apart blank (clean s)"
proof -
  have "apart blank (cap_newlines newline (squeeze blank (CHR '' '') u))" for u
    using cap_apart [of blank "squeeze blank (CHR '' '') u" newline] squeeze_apart [of blank "CHR '' ''" u]
    by (simp add: blank_def newline_def)
  then show ?thesis unfolding clean_eq by (rule apart_sublist [OF trim_sublist])
qed

lemma clean_blanks: "x \<in> set (clean s) \<Longrightarrow> blank x \<Longrightarrow> x = CHR '' ''"
proof -
  assume "x \<in> set (clean s)" "blank x"
  then obtain u where "x \<in> set (cap_newlines newline (squeeze blank (CHR '' '') u))"
    unfolding clean_eq using set_mono_sublist [OF trim_sublist] by blast
  with cap_set squeeze_set \<open>blank x\<close> show "x = CHR '' ''"
    by (fastforce simp: blank_def newline_def)
qed

section \<open>What the output never contains\<close>

lemma markdown_cleaned: "htmlToMarkdown K resolve html base = [] \<or> (\<exists>t. htmlToMarkdown K resolve html base = clean t)"
  by (auto simp: htmlToMarkdown_def Let_def split: prod.splits option.splits)

lemma apart_no_pair: "apart P s \<Longrightarrow> P a \<Longrightarrow> P b \<Longrightarrow> \<not> sublist [a, b] s"
  using apart_sublist [of "[a, b]" s P] by (auto simp: apart_def)

text \<open>The Markdown of a page never has two blanks in a row and no tab. The list renderer indents every nested
  item by two spaces for each level, and this indentation does not survive: no line of the output starts with two
  spaces, so a nested list is no longer nested and preformatted code loses its indentation.\<close>

theorem markdown_indentation_lost:
  "\<not> sublist ''  '' (htmlToMarkdown K resolve html base) \<and> CHR 0x09 \<notin> set (htmlToMarkdown K resolve html base) \<and>
   starts_with (item_line L ordered (Suc depth) i ks inner) ''  ''"
proof -
  have "apart blank (htmlToMarkdown K resolve html base)"
    using markdown_cleaned [of K resolve html base] clean_apart by (auto simp: apart_def)
  then have "\<not> sublist ''  '' (htmlToMarkdown K resolve html base)" by (rule apart_no_pair) (simp_all add: blank_def)
  moreover have "CHR 0x09 \<notin> set (htmlToMarkdown K resolve html base)"
    using markdown_cleaned [of K resolve html base] clean_blanks [of "CHR 0x09"] by (auto simp: blank_def)
  moreover have "starts_with (item_line L ordered (Suc depth) i ks inner) ''  ''"
    by (simp add: item_line_def starts_with_def Let_def)
  ultimately show ?thesis by blast
qed

text \<open>A line break in the page is lost: the element yields nothing, because it has no text, before the case that
  would make it a newline is reached. The words around it are run together.\<close>

theorem line_breaks_lost:
  "inline L (Elem ''br'' a []) = [] \<and>
   md_block L (Elem ''p'' b [Text before, Elem ''br'' a [], Text after]) = md_block L (Elem ''p'' b [Text (before @ after)])"
proof -
  have "clean [] = []" by code_simp
  then have "inline L (Elem ''br'' a []) = []" by (simp add: to_lower_def lower_char_def)
  then show ?thesis by (simp add: heading_level_def to_lower_def lower_char_def blocks_def Let_def)
qed

section \<open>What the readable region leaves out\<close>

definition plainly_noise :: "dom \<Rightarrow> bool" where
  "plainly_noise d \<longleftrightarrow> dom_name d \<in> {''nav'', ''footer'', ''aside''} \<or> hasAny (elementMetadata d) noiseSignals"

lemma attr_prune [simp]: "attr_or_empty k (prune P d) = attr_or_empty k d"
  by (simp add: attr_or_empty_def)

lemma removeNoise_clean: "e \<in> set (descendants (removeNoise d)) \<Longrightarrow> \<not> plainly_noise e"
  unfolding removeNoise_def
  by (erule prune_removes [rotated]) (auto simp: plainly_noise_def isNoiseElement_def elementMetadata_def)

text \<open>Cutting keeps some of the children, possibly changed inside, so it brings back no element.\<close>

lemma edit_header [simp]: "dom_name (edit_at p f d) = dom_name d"
  "dom_attr k (edit_at p f d) = dom_attr k d" "is_element (edit_at p f d) = is_element d"
  by (cases p; cases d; simp)+

lemma plainly_noise_edit [simp]: "plainly_noise (edit_at p f d) = plainly_noise d"
  by (simp add: plainly_noise_def elementMetadata_def attr_or_empty_def)

lemma edit_keeps:
  assumes "\<And>cs. set (f cs) \<subseteq> set cs"
  shows "(\<And>e. e \<in> set (descendants d) \<Longrightarrow> \<not> plainly_noise e) \<Longrightarrow> e \<in> set (descendants (edit_at p f d)) \<Longrightarrow> \<not> plainly_noise e"
proof (induction p arbitrary: d e)
  case Nil
  show ?case
  proof (cases d)
    case (Elem n a cs)
    with Nil.prems(2) assms [of cs] have "e \<in> set (descendants d)" by (auto simp: descendants_Elem)
    then show ?thesis by (rule Nil.prems(1))
  qed (use Nil.prems in simp_all)
next
  case (Cons i p)
  show ?case
  proof (cases d)
    case (Elem n a cs)
    show ?thesis
    proof (cases "i < length cs")
      case False
      with Cons.prems Elem show ?thesis by simp
    next
      case True
      then have ci: "cs ! i \<in> set cs" by simp
      from Cons.prems(2) True Elem obtain c where c: "c \<in> set (cs[i := edit_at p f (cs ! i)])" "is_element c"
        "e = c \<or> e \<in> set (descendants c)" by (auto simp: descendants_Elem)
      then consider "c \<in> set cs" | "c = edit_at p f (cs ! i)"
        using set_update_subset_insert [of cs i "edit_at p f (cs ! i)"] by blast
      then show ?thesis
      proof cases
        case 1
        with c Cons.prems(1) Elem show ?thesis by (auto simp: descendants_Elem)
      next
        case 2
        with c have el: "is_element (cs ! i)" by simp
        with Cons.prems(1) ci Elem have "\<not> plainly_noise (cs ! i)" "\<And>x. x \<in> set (descendants (cs ! i)) \<Longrightarrow> \<not> plainly_noise x"
          by (auto simp: descendants_Elem)
        with Cons.IH 2 c(3) show ?thesis by auto
      qed
    qed
  qed (use Cons.prems in simp_all)
qed

lemma cut_from_subset: "set (cut_from i cs) \<subseteq> set cs"
  by (auto simp: cut_from_def dest: in_set_takeD in_set_dropD)

text \<open>Positions.\<close>

lemma at_path_Elem: "at_path (i # p) (Elem n a cs) = (if i < length cs then at_path p (cs ! i) else None)"
  by simp

lemma paths_valid:
  "p \<in> set (element_paths d) \<Longrightarrow> p \<noteq> [] \<and> at_path p d \<noteq> None"
  "p \<in> set (paths_from i cs) \<Longrightarrow> \<exists>k q. p = (i + k) # q \<and> k < length cs \<and> at_path q (cs ! k) \<noteq> None"
proof (induction d and i cs arbitrary: p and p rule: element_paths_paths_from.induct)
  case (4 i c cs)
  from 4(3) consider "p = [i]" | q where "p = i # q" "q \<in> set (element_paths c)" "is_element c" | "p \<in> set (paths_from (Suc i) cs)"
    by (auto split: if_splits)
  then show ?case
  proof cases
    case 1
    then show ?thesis by (intro exI [of _ 0] exI [of _ "[]"]) simp
  next
    case 2
    with 4(1) show ?thesis by (intro exI [of _ 0] exI [of _ q]) auto
  next
    case 3
    from 4(2) [OF this] obtain k q where "p = (Suc i + k) # q" "k < length cs" "at_path q (cs ! k) \<noteq> None" by blast
    then show ?thesis by (intro exI [of _ "Suc k"] exI [of _ q]) simp
  qed
qed fastforce+

lemma first_shortest_None: "first_shortest f xs = None \<longleftrightarrow> xs = []"
  by (cases xs) (auto split: option.splits)

lemma first_shortest_in: "first_shortest f xs = Some x \<Longrightarrow> x \<in> set xs \<and> (\<forall>y \<in> set xs. f x \<le> f y)"
proof (induction xs arbitrary: x)
  case (Cons y ys)
  show ?case
  proof (cases "first_shortest f ys")
    case None
    with Cons.prems show ?thesis by (simp add: first_shortest_None)
  next
    case (Some z)
    with Cons.IH [OF Some] Cons.prems show ?thesis by (auto split: if_splits)
  qed
qed simp

lemma climb_prefix: "p \<noteq> [] \<Longrightarrow> climb d p \<noteq> [] \<and> prefix (climb d p) p"
proof (induction d p rule: climb.induct)
  case (1 d p)
  show ?case
  proof (cases "climb d p = p")
    case False
    then obtain e where e: "\<not> length p \<le> 1" "at_path (butlast p) d = Some e" "length (child_elements e) = 1"
      "climb d p = climb d (butlast p)"
      using climb.simps [of d p] by (auto split: if_splits option.splits)
    have "butlast p \<noteq> []" using e(1) by (cases p rule: rev_cases) auto
    from 1(1) [OF e(1-3) this] e(4) prefixeq_butlast [of p] show ?thesis by (auto intro: prefix_order.trans)
  qed (use 1(2) in simp)
qed

lemma at_path_append: "at_path (p @ q) d = Option.bind (at_path p d) (at_path q)"
  by (induction p d rule: at_path.induct) auto

text \<open>Text up to the cut is kept, the text of the cut element goes, and of what follows only a part is left.\<close>

lemma cut_text:
  assumes "p \<noteq> []" and "at_path p d = Some e"
  shows "\<exists>before after rest. dom_text d = before @ dom_text e @ after \<and>
    dom_text (edit_at (butlast p) (cut_from (last p)) d) = before @ rest \<and> subseq rest after"
  using assms
proof (induction p arbitrary: d)
  case (Cons i p)
  then obtain n a cs where d: "d = Elem n a cs" and i: "i < length cs" "at_path p (cs ! i) = Some e"
    by (cases d) (auto split: if_splits)
  have parts: "cs = take i cs @ (cs ! i) # drop (Suc i) cs" using i(1) by (simp add: id_take_nth_drop)
  let ?before = "concat (map dom_text (take i cs))" and ?after = "concat (map dom_text (drop (Suc i) cs))"
  have whole: "dom_text d = ?before @ dom_text (cs ! i) @ ?after"
    unfolding d by (subst parts) (simp del: append_take_drop_id add: min_def)
  have sub: "subseq (concat (map dom_text (filter P ds))) (concat (map dom_text ds))" for P ds
    by (induction ds) (auto simp: list_emb_append2 intro: list_emb_append_mono)
  show ?case
  proof (cases "p = []")
    case True
    with i have "e = cs ! i" by simp
    moreover have "dom_text (edit_at (butlast (i # p)) (cut_from (last (i # p))) d)
        = ?before @ concat (map dom_text (filter (\<lambda>c. \<not> is_element c) (drop (Suc i) cs)))"
      by (simp add: True d cut_from_def)
    ultimately show ?thesis using whole sub by blast
  next
    case False
    from Cons.IH [OF False i(2)] obtain before after rest where IH: "dom_text (cs ! i) = before @ dom_text e @ after"
      "dom_text (edit_at (butlast p) (cut_from (last p)) (cs ! i)) = before @ rest" "subseq rest after" by blast
    have "cs[i := x] = take i cs @ x # drop (Suc i) cs" for x using i(1) by (simp add: upd_conv_take_nth_drop)
    then have "dom_text (edit_at (butlast (i # p)) (cut_from (last (i # p))) d)
        = ?before @ (before @ rest) @ ?after"
      using False i(1) by (simp add: d IH(2) [symmetric])
    with whole IH(1,3) show ?thesis
      by (intro exI [of _ "?before @ before"] exI [of _ "after @ ?after"] exI [of _ "rest @ ?after"])
         (auto intro: list_emb_append_mono)
  qed
qed simp

text \<open>The positions reach every element below the root.\<close>

lemma descendants_have_paths:
  "e \<in> set (descendants d) \<Longrightarrow> \<exists>p \<in> set (element_paths d). at_path p d = Some e"
proof (induction d)
  case (Elem n a cs)
  have "\<exists>p \<in> set (paths_from i ds). \<exists>k q. p = (i + k) # q \<and> k < length ds \<and> at_path q (ds ! k) = Some e"
    if "c \<in> set ds" "set ds \<subseteq> set cs" "is_element c" "e = c \<or> e \<in> set (descendants c)" for i ds c
    using that
  proof (induction ds arbitrary: i)
    case (Cons b bs)
    show ?case
    proof (cases "c = b")
      case True
      show ?thesis
      proof (cases "e = c")
        case True
        with \<open>c = b\<close> Cons.prems show ?thesis by (intro bexI [of _ "[i]"]) (auto intro: exI [of _ "0::nat"])
      next
        case False
        with Cons.prems True Elem.IH [of c] obtain p where p: "p \<in> set (element_paths c)" "at_path p c = Some e" by auto
        with True Cons.prems(3) show ?thesis
          by (intro bexI [of _ "i # p"] exI [of _ "0::nat"] exI [of _ p]) auto
      qed
    next
      case False
      with Cons.prems Cons.IH [of "Suc i"] obtain k q where p: "(Suc i + k) # q \<in> set (paths_from (Suc i) bs)"
        "k < length bs" "at_path q (bs ! k) = Some e" by auto
      then show ?thesis by (intro bexI [of _ "(Suc i + k) # q"] exI [of _ "Suc k"] exI [of _ q]) auto
    qed
  qed simp
  moreover from Elem.prems obtain c where "c \<in> set cs" "is_element c" "e = c \<or> e \<in> set (descendants c)"
    unfolding descendants_Elem by blast
  ultimately obtain k q where "k # q \<in> set (paths_from 0 cs)" "k < length cs" "at_path q (cs ! k) = Some e"
    by (metis add_0 order_refl)
  then show ?case by (intro bexI [of _ "k # q"]) simp_all
qed simp_all

lemma at_path_text: "at_path p d = Some e \<Longrightarrow> \<exists>x y. dom_text d = x @ dom_text e @ y"
proof (induction p d rule: at_path.induct)
  case (2 i p d)
  then obtain n a cs where d: "d = Elem n a cs" and i: "i < length cs" "at_path p (cs ! i) = Some e"
    by (cases d) (auto split: if_splits)
  with 2(1) obtain x y where xy: "dom_text (cs ! i) = x @ dom_text e @ y" by auto
  have "dom_text d = concat (map dom_text (take i cs @ (cs ! i) # drop (Suc i) cs))"
    unfolding d using i(1) by (simp add: id_take_nth_drop [symmetric])
  then have "dom_text d = (concat (map dom_text (take i cs)) @ x) @ dom_text e @ (y @ concat (map dom_text (drop (Suc i) cs)))"
    by (simp add: xy)
  then show ?case by blast
qed (auto intro: exI [of _ "[]"])

text \<open>What the cut at a marker does to the region.\<close>

definition cut_at_marker :: "dom \<Rightarrow> dom \<Rightarrow> bool" where
  "cut_at_marker d d' \<longleftrightarrow> (\<exists>m before lead tail after rest.
     m \<in> set (descendants d) \<and> rx_test paywallPattern (clean (dom_text m)) \<and>
     (\<forall>e \<in> set (descendants d). rx_test paywallPattern (clean (dom_text e)) \<longrightarrow> clean_length m \<le> clean_length e) \<and>
     dom_text d = before @ (lead @ dom_text m @ tail) @ after \<and> dom_text d' = before @ rest \<and> subseq rest after)"

lemma paths_descendants:
  "p \<in> set (element_paths d) \<Longrightarrow> \<exists>e \<in> set (descendants d). at_path p d = Some e"
  "p \<in> set (paths_from i cs) \<Longrightarrow>
     \<exists>k q c. p = (i + k) # q \<and> k < length cs \<and> cs ! k = c \<and> is_element c \<and>
       (\<exists>e. at_path q c = Some e \<and> (e = c \<or> e \<in> set (descendants c)))"
proof (induction d and i cs arbitrary: p and p rule: element_paths_paths_from.induct)
  case (1 n a cs)
  from 1(1) [of p] 1(2) obtain k q c e where "p = k # q" "k < length cs" "cs ! k = c" "is_element c" "at_path q c = Some e"
    "e = c \<or> e \<in> set (descendants c)" by auto
  then show ?case by (intro bexI [of _ e]) (auto simp: descendants_Elem)
next
  case (4 i c cs)
  from 4(3) consider "p = [i]" "is_element c" | q where "p = i # q" "q \<in> set (element_paths c)" "is_element c"
    | "p \<in> set (paths_from (Suc i) cs)"
    by (auto split: if_splits)
  then show ?case
  proof cases
    case 1
    then show ?thesis by (intro exI [of _ 0] exI [of _ "[]"]) simp
  next
    case 2
    with 4(1) [OF 2(3,2)] show ?thesis by (intro exI [of _ 0] exI [of _ q]) auto
  next
    case 3
    from 4(2) [OF this] obtain k q c' where "p = (Suc i + k) # q" "k < length cs" "cs ! k = c'" "is_element c'"
      "\<exists>e. at_path q c' = Some e \<and> (e = c' \<or> e \<in> set (descendants c'))" by blast
    then show ?thesis by (intro exI [of _ "Suc k"] exI [of _ q]) auto
  qed
qed simp_all

lemma trimAtPaywall_cuts:
  assumes "trimAtPaywall d = (d', paywall)"
  shows "if paywall then cut_at_marker d d'
    else d' = d \<and> (\<forall>e \<in> set (descendants d). \<not> rx_test paywallPattern (clean (dom_text e)))"
proof (cases "paywall_marker d")
  case None
  then have "filter (paywalled d) (element_paths d) = []" by (simp add: paywall_marker_def first_shortest_None)
  then have "\<not> rx_test paywallPattern (clean (dom_text e))" if "e \<in> set (descendants d)" for e
    using descendants_have_paths [OF that] by (auto simp: filter_empty_conv paywalled_def)
  with None assms show ?thesis by (auto simp: trimAtPaywall_def)
next
  case (Some p)
  note p = first_shortest_in [OF Some [unfolded paywall_marker_def]]
  then obtain m where m: "m \<in> set (descendants d)" "at_path p d = Some m" "p \<noteq> []" "rx_test paywallPattern (clean (dom_text m))"
    using paths_descendants(1) [of p d] paths_valid(1) [of p d] by (auto simp: paywalled_def)
  have least: "clean_length m \<le> clean_length e" if "e \<in> set (descendants d)" "rx_test paywallPattern (clean (dom_text e))" for e
    using descendants_have_paths [OF that(1)] that(2) p m(2) by (fastforce simp: paywalled_def length_at_def)
  obtain q where q: "climb d p \<noteq> []" "p = climb d p @ q" using climb_prefix [OF m(3), of d] by (auto simp: prefix_def)
  from m(2) obtain b where b: "at_path (climb d p) d = Some b" "at_path q b = Some m"
    by (subst (asm) q(2)) (auto simp: at_path_append split: bind_splits)
  from Some assms have d': "d' = edit_at (butlast (climb d p)) (cut_from (last (climb d p))) d" "paywall"
    by (auto simp: trimAtPaywall_def Let_def)
  from cut_text [OF q(1) b(1)] obtain before after rest where cut: "dom_text d = before @ dom_text b @ after"
    "dom_text d' = before @ rest" "subseq rest after" unfolding d' by blast
  from at_path_text [OF b(2)] obtain lead tail where "dom_text b = lead @ dom_text m @ tail" by blast
  with cut m least have "cut_at_marker d d'" unfolding cut_at_marker_def by metis
  with d'(2) show ?thesis by simp
qed

lemma trim_keeps_clean:
  assumes "trimAtPaywall (removeNoise r) = (d, paywall)" and "e \<in> set (descendants d)"
  shows "\<not> plainly_noise e"
  using assms edit_keeps [OF cut_from_subset, of "removeNoise r"] removeNoise_clean
  by (auto simp: trimAtPaywall_def Let_def split: option.splits)

text \<open>The readable region is the main region of the page without anything that is noise by its name or its
  attributes. Without the paywall flag no element of it mentions a paywall; with the flag the shortest
  element that does is gone with everything that encloses it alone, the text before it is kept and of the text after
  it at most a part is left.\<close>

theorem readable_region_trimmed:
  assumes "readable_region doc = Some (d, paywall)"
  shows "\<exists>r. mainContent (prune_document (\<lambda>d. dom_name d \<in> set ignored) doc) = Some r \<and>
    (\<forall>e \<in> set (descendants d). \<not> plainly_noise e) \<and>
    (if paywall then cut_at_marker (removeNoise r) d
     else d = removeNoise r \<and> (\<forall>e \<in> set (descendants d). \<not> rx_test paywallPattern (clean (dom_text e))))"
proof -
  from assms obtain r where r: "mainContent (prune_document (\<lambda>d. dom_name d \<in> set ignored) doc) = Some r"
    "trimAtPaywall (removeNoise r) = (d, paywall)" by (auto simp: readable_region_def)
  with trimAtPaywall_cuts [OF r(2)] trim_keeps_clean [OF r(2)] show ?thesis by auto
qed

section \<open>Which region is chosen\<close>

lemma best_candidate_best:
  "(best_candidate xs = None \<longleftrightarrow> xs = []) \<and>
   (best_candidate xs = Some (d, q) \<longrightarrow> (\<exists>ahead behind. xs = ahead @ (d, q) # behind \<and> (\<forall>(e, r) \<in> set ahead. r < q) \<and> (\<forall>(e, r) \<in> set behind. r \<le> q)))"
proof (induction xs arbitrary: d q)
  case (Cons x xs)
  obtain e r where x: "x = (e, r)" by (cases x)
  show ?case
  proof (cases "best_candidate xs")
    case None
    with Cons.IH x show ?thesis by (auto intro: exI [of _ "[]"])
  next
    case (Some y)
    obtain f s where y: "y = (f, s)" by (cases y)
    with Some Cons.IH [of f s] obtain ahead behind where fb: "xs = ahead @ (f, s) # behind" "\<forall>(e, r) \<in> set ahead. r < s"
      "\<forall>(e, r) \<in> set behind. r \<le> s" by auto
    show ?thesis
    proof (cases "s \<le> r")
      case True
      with Some x y fb show ?thesis by (fastforce intro: exI [of _ "[]"])
    next
      case False
      with fb have "\<exists>a z. x # xs = a @ (f, s) # z \<and> (\<forall>(e, r) \<in> set a. r < s) \<and> (\<forall>(e, r) \<in> set z. r \<le> s)"
        by (intro exI [of _ "x # ahead"] exI [of _ behind]) (auto simp: x)
      moreover have "best_candidate (x # xs) = Some (f, s)" using Some y x False by simp
      ultimately show ?thesis by (simp only: option.distinct option.inject prod.inject list.distinct) blast
    qed
  qed
qed simp

lemma in_scored: "(d, q) \<in> set (scored ds) \<longleftrightarrow> d \<in> set ds \<and> candidateScore d = Some q"
  by (auto simp: scored_def split: option.splits)

lemma no_score: "candidateScore d = None \<longleftrightarrow> clean_length d < 120"
  by (simp add: candidateScore_def Let_def)

text \<open>The main region is a candidate whose score no other candidate exceeds; only when no candidate has a
  score, which means that each has fewer than 120 characters of text, it is the body of the page.\<close>

theorem main_region_best:
  assumes "mainContent doc = Some d"
  shows "(\<exists>q. d \<in> set (candidates doc) \<and> candidateScore d = Some q \<and>
      (\<forall>e r. e \<in> set (candidates doc) \<and> candidateScore e = Some r \<longrightarrow> r \<le> q)) \<or>
    first_body doc = Some d \<and> (\<forall>e \<in> set (candidates doc). clean_length e < 120)"
proof (cases "best_candidate (scored (candidates doc))")
  case None
  then have "scored (candidates doc) = []" using best_candidate_best [of "scored (candidates doc)"] by auto
  then have "candidateScore e = None" if "e \<in> set (candidates doc)" for e
    using in_scored [of e _ "candidates doc"] that by (cases "candidateScore e") auto
  then have "\<forall>e \<in> set (candidates doc). clean_length e < 120" by (simp add: no_score)
  with None assms show ?thesis by (simp add: mainContent_def)
next
  case (Some y)
  with assms obtain q where q: "best_candidate (scored (candidates doc)) = Some (d, q)"
    by (cases y) (simp add: mainContent_def)
  with best_candidate_best [of "scored (candidates doc)" d q] obtain ahead behind
    where fb: "scored (candidates doc) = ahead @ (d, q) # behind" "\<forall>(e, r) \<in> set ahead. r < q"
      "\<forall>(e, r) \<in> set behind. r \<le> q" by auto
  have "d \<in> set (candidates doc) \<and> candidateScore d = Some q" using in_scored [of d q "candidates doc"] fb(1) by simp
  moreover have "r \<le> q" if "e \<in> set (candidates doc)" "candidateScore e = Some r" for e r
    using in_scored [of e r "candidates doc"] that fb by fastforce
  ultimately show ?thesis by blast
qed

definition teaser_page :: "dom list" where
  "teaser_page = [Elem ''body'' [] [Elem ''nav'' [] [Text ''Home''], Elem ''p'' [] [Text ''Story''],
     Elem ''p'' [] [Text ''Paywall''], Elem ''p'' [] [Text ''More'']]]"

lemma teaser_candidates: "candidates (prune_document (\<lambda>d. dom_name d \<in> set ignored) teaser_page) = []"
  by code_simp

lemma teaser_main: "mainContent (prune_document (\<lambda>d. dom_name d \<in> set ignored) teaser_page) = Some (hd teaser_page)"
  unfolding mainContent_def teaser_candidates by code_simp

theorem readable_region_trimmed_witness:
  "\<exists>d paywall r. readable_region teaser_page = Some (d, paywall) \<and>
    mainContent (prune_document (\<lambda>d. dom_name d \<in> set ignored) teaser_page) = Some r \<and>
    (\<forall>e \<in> set (descendants d). \<not> plainly_noise e)"
proof -
  obtain d paywall where "readable_region teaser_page = Some (d, paywall)"
    by (cases "trimAtPaywall (removeNoise (hd teaser_page))") (simp add: readable_region_def teaser_main)
  with readable_region_trimmed [OF this] show ?thesis by blast
qed

text \<open>A page with an article of 120 characters.\<close>

definition article_page :: "dom list" where
  "article_page = [Elem ''body'' [] [Elem ''article'' [] [Text (replicate 120 (CHR ''a''))]]]"

lemma clean_plain: "(\<And>c. c \<in> set s \<Longrightarrow> \<not> is_space c \<and> c \<noteq> nbsp) \<Longrightarrow> clean s = s"
proof -
  assume plain: "\<And>c. c \<in> set s \<Longrightarrow> \<not> is_space c \<and> c \<noteq> nbsp"
  have keep: "rx_replace_all (ch nbsp) f t = t" if "set t \<subseteq> set s" for f t
    using that plain by (induction t) (auto simp: rx_replace_all.simps ch_def)
  have special: "is_space (CHR '' '')" "is_space (CHR 0x09)" "is_space newline" by (simp_all add: is_space_def newline_def)
  with plain have absent: "CHR '' '' \<notin> set s" "CHR 0x09 \<notin> set s" "newline \<notin> set s" by blast+
  have sq: "squeeze blank c t = t" if "set t \<subseteq> set s" for c t
    using that absent(1,2) by (induction t) (auto simp: blank_def)
  have cap: "cap_newlines n t = t" if "n \<notin> set t" for n t
    using that by (induction n t rule: cap_newlines.induct) auto
  have "dropWhile is_space t = t" if "set t \<subseteq> set s" for t
    using that plain by (cases t) auto
  then have "trim s = s" by (simp add: trim_def)
  with keep [OF order_refl] sq [OF order_refl] cap [OF absent(3)] show ?thesis by (simp add: clean_eq)
qed

lemma article_score: "\<exists>q. candidateScore (Elem ''article'' [] [Text (replicate 120 (CHR ''a''))]) = Some q"
proof -
  have "clean (replicate 120 (CHR ''a'')) = replicate 120 (CHR ''a'')"
    by (rule clean_plain) (auto simp: is_space_def nbsp_def)
  then have "\<not> clean_length (Elem ''article'' [] [Text (replicate 120 (CHR ''a''))]) < 120"
    by (simp add: clean_length_def)
  then show ?thesis by (simp only: no_score [symmetric] not_None_eq)
qed

theorem main_region_best_witness:
  "\<exists>q. mainContent article_page = Some (Elem ''article'' [] [Text (replicate 120 (CHR ''a''))]) \<and>
    candidateScore (Elem ''article'' [] [Text (replicate 120 (CHR ''a''))]) = Some q"
proof -
  let ?a = "Elem ''article'' [] [Text (replicate 120 (CHR ''a''))]"
  have c: "candidates article_page = [?a]" unfolding article_page_def by code_simp
  obtain q where q: "candidateScore ?a = Some q" using article_score by blast
  have m: "mainContent article_page = Some ?a" by (simp add: mainContent_def c scored_def q)
  from main_region_best [OF m] q m show ?thesis by blast
qed

end
