(* ===== verification/OB_Article_Props.thy ===== *)
theory OB_Article_Props
  imports OB_Article OB_Markdown_Props
begin

text \<open>
  The shape of an extracted article: its texts are tidy, its addresses are web addresses, its words are
  counted, and the access it reports is the one its signals say.
\<close>

section \<open>Tidy texts\<close>

definition tidy :: "string \<Rightarrow> bool" where
  "tidy s \<longleftrightarrow> s \<noteq> [] \<and> \<not> is_space (hd s) \<and> \<not> is_space (last s) \<and> apart is_space s \<and>
     (\<forall>c \<in> set s. is_space c \<longrightarrow> c = CHR '' '')"

lemma trim_ends: "trim s \<noteq> [] \<Longrightarrow> \<not> is_space (hd (trim s)) \<and> \<not> is_space (last (trim s))"
proof -
  assume ne: "trim s \<noteq> []"
  let ?u = "dropWhile is_space s"
  let ?v = "dropWhile is_space (rev ?u)"
  have v: "?v \<noteq> []" using ne by (simp add: trim_def)
  then have "\<not> is_space (hd ?v)" by (rule hd_dropWhile)
  then have l: "\<not> is_space (last (trim s))" using v by (simp add: trim_def last_rev)
  have "prefix (trim s) ?u" unfolding trim_def by (metis suffix_dropWhile suffix_to_prefix rev_rev_ident)
  then obtain z where z: "?u = trim s @ z" by (auto simp: prefix_def)
  with ne have "?u \<noteq> []" by auto
  then have "\<not> is_space (hd ?u)" by (rule hd_dropWhile)
  with z ne l show ?thesis by simp
qed

lemma collapse_eq: "collapse_spaces s = trim (squeeze is_space (CHR '' '') s)"
  by (simp add: collapse_spaces_def space_def replace_run)

lemma collapse_tidy: "collapse_spaces s = [] \<or> tidy (collapse_spaces s)"
proof (cases "collapse_spaces s = []")
  case False
  have sub: "sublist (collapse_spaces s) (squeeze is_space (CHR '' '') s)" unfolding collapse_eq by (rule trim_sublist)
  have "apart is_space (collapse_spaces s)" by (rule apart_sublist [OF sub]) (simp add: squeeze_apart)
  moreover have "c = CHR '' ''" if "c \<in> set (collapse_spaces s)" "is_space c" for c
    using set_mono_sublist [OF sub] squeeze_set [of is_space "CHR '' ''" s] that by blast
  ultimately show ?thesis using trim_ends [of "squeeze is_space (CHR '' '') s"] False
    by (auto simp: tidy_def collapse_eq)
qed simp

lemma clean_text_tidy: "clean_text v = Some t \<Longrightarrow> tidy t"
  using collapse_tidy by (auto simp: clean_text_def Let_def split: option.splits if_splits)

lemma firstString_tidy: "firstString vs = Some t \<Longrightarrow> tidy t"
proof (induction vs rule: firstString.induct)
  case (2 v vs)
  let ?v = "case v of JStr s \<Rightarrow> clean_text (Some s) | JArr xs \<Rightarrow> firstString xs
    | JObj fs \<Rightarrow> firstString [member ''name'' fs, member ''url'' fs] | _ \<Rightarrow> None"
  show ?case
  proof (cases ?v)
    case None
    with 2(4) have "firstString vs = Some t" unfolding firstString.simps(2) [of v vs] by simp
    with None show ?thesis by (rule 2(3))
  next
    case (Some u)
    with 2(4) have "?v = Some t" unfolding firstString.simps(2) [of v vs] by simp
    with 2(1,2) show ?thesis by (cases v) (auto intro: clean_text_tidy)
  qed
qed (simp add: firstString.simps)

definition web_address :: "string \<Rightarrow> bool" where
  "web_address v \<longleftrightarrow> starts_with v ''http://'' \<or> starts_with v ''https://''"

lemma absolute_web: "absolute resolve v base = Some t \<Longrightarrow> web_address t"
  by (auto simp: absolute_def web_address_def url_href_def starts_with_def split: option.splits if_splits)

text \<open>A tidy text has one word more than blanks.\<close>

lemma squeeze_tidy: "apart P t \<Longrightarrow> (\<And>x. x \<in> set t \<Longrightarrow> P x \<Longrightarrow> x = c) \<Longrightarrow> squeeze P c t = t"
proof (induction P c t rule: squeeze.induct)
  case (2 P c x xs)
  have a: "apart P xs" using 2(3) by (cases xs) (auto simp: apart_def)
  show ?case
  proof (cases "P x")
    case True
    then have dw: "dropWhile P xs = xs" using 2(3) by (cases xs) (auto simp: apart_def)
    have "squeeze P c (dropWhile P xs) = dropWhile P xs"
      by (rule 2(1) [OF True]) (simp_all only: dw a 2(4) list.set insert_iff simp_thms)
    moreover have "x = c" using 2(4) [of x] True by simp
    ultimately show ?thesis using True by (simp only: squeeze.simps dw if_True)
  next
    case False
    with 2(2) [OF False a] 2(4) show ?thesis by simp
  qed
qed simp

lemma length_split_on: "length (split_on c s) = Suc (count_list s c)"
proof (induction s)
  case (Cons x xs)
  obtain w ws where "split_on c xs = w # ws" using split_on_nonempty [of c xs] by (cases "split_on c xs") blast+
  with Cons show ?case by simp
qed simp

lemma count_words_tidy: "tidy t \<Longrightarrow> count_words t = Suc (count_list t (CHR '' ''))"
  by (simp add: count_words_def space_def replace_run tidy_def squeeze_tidy length_split_on)

section \<open>Articles\<close>

definition optional :: "('a \<Rightarrow> bool) \<Rightarrow> 'a option \<Rightarrow> bool" where
  "optional P v \<longleftrightarrow> (case v of Some x \<Rightarrow> P x | None \<Rightarrow> True)"

lemma optionalI: "(\<And>x. v = Some x \<Longrightarrow> P x) \<Longrightarrow> optional P v"
  by (simp add: optional_def split: option.splits)

definition metadata_typed :: "article_metadata \<Rightarrow> bool" where
  "metadata_typed m \<longleftrightarrow>
     optional tidy (md_title m) \<and> optional tidy (md_description m) \<and> optional tidy (md_author m) \<and>
     optional tidy (md_publishedAt m) \<and> optional tidy (md_modifiedAt m) \<and> optional tidy (md_language m) \<and>
     optional tidy (md_siteName m) \<and> optional web_address (md_canonicalUrl m) \<and> optional web_address (md_image m)"

lemma extract_metadata_typed: "metadata_typed (extract_metadata resolve doc jsonLd finalUrl)"
  by (auto simp: metadata_typed_def extract_metadata_def Let_def page_title_def canonical_url_def
      intro!: optionalI intro: firstString_tidy clean_text_tidy absolute_web)

text \<open>Whatever the page holds, an extracted article is well-formed: every metadata text is non-empty, trimmed and
  has single blanks only, the canonical address and the image are http or https addresses, the text is
  empty or tidy, and the word count is the number of its blanks plus one, or zero without text.\<close>

theorem article_well_formed:
  "(let a = extractArticle X extractedAt html sourceUrl finalUrl strategy backend in
      metadata_typed (ar_metadata a) \<and>
      (if ar_text a = [] then ar_wordCount a = 0
       else tidy (ar_text a) \<and> ar_wordCount a = Suc (count_list (ar_text a) (CHR '' ''))))"
proof -
  define a where "a = extractArticle X extractedAt html sourceUrl finalUrl strategy backend"
  have "metadata_typed (ar_metadata a)"
    by (simp add: a_def extractArticle_def Let_def extract_metadata_typed)
  moreover have "\<exists>s. ar_text a = collapse_spaces s \<and> ar_wordCount a = count_words (collapse_spaces s)"
    by (simp add: a_def extractArticle_def Let_def) blast
  then have "if ar_text a = [] then ar_wordCount a = 0
      else tidy (ar_text a) \<and> ar_wordCount a = Suc (count_list (ar_text a) (CHR '' ''))"
    using collapse_tidy count_words_tidy by (fastforce simp: count_words_def)
  ultimately show ?thesis by (simp only: Let_def a_def)
qed

lemma signal_found:
  "s \<in> set (access_signals html truncated) \<longleftrightarrow>
     (\<exists>r. (s, r) \<in> set restrictedPatterns \<and> rx_test r html) \<or> s = ''content-truncated'' \<and> truncated"
  by (auto simp: access_signals_def Let_def image_iff)

text \<open>The reported access is the one the evidence says: the article is restricted exactly when a marker of
  a paywall occurs in the source of the page or the readable part was cut at one, and then and only then
  the evidence names the paywall; an open article is complete, has no signals and no access type; the
  readable part was cut exactly when the signal content-truncated is there; a restricted article is partial
  when more than forty words are left.\<close>

theorem access_explained:
  "(let a = extractArticle X extractedAt html sourceUrl finalUrl strategy backend;
        access = ar_access a;
        marked = (\<exists>r \<in> set restrictedPatterns. rx_test (snd r) html);
        truncated = snd (readableContentHtml (xt_cheerio X) html)
    in (aa_restricted access = (marked \<or> truncated)) \<and>
       (''content-truncated'' \<in> set (aa_signals access)) = truncated \<and>
       aa_status access = (if \<not> (marked \<or> truncated) then AccessOpen
                           else if ar_wordCount a > 40 then AccessPartial else AccessRestricted) \<and>
       (aa_contentScope access = ScopeFull) = (aa_signals access = []) \<and>
       (aa_type access = None) = (aa_signals access = []) \<and> (aa_status access = AccessOpen) = (aa_signals access = []) \<and>
       (''access:paywall'' \<in> set (map er_claim (ar_evidence a))) = (marked \<or> truncated))"
proof -
  define K where "K = xt_cheerio X"
  define truncated where "truncated = snd (readableContentHtml K html)"
  define marked where "marked \<longleftrightarrow> (\<exists>r \<in> set restrictedPatterns. rx_test (snd r) html)"
  define signals where "signals = access_signals html truncated"
  have "signals = [] \<longleftrightarrow> (\<forall>s. s \<notin> set signals)" by (cases signals) auto
  then have empty: "signals = [] \<longleftrightarrow> \<not> (marked \<or> truncated)"
    unfolding signals_def signal_found marked_def by force
  have cut: "''content-truncated'' \<in> set signals \<longleftrightarrow> truncated"
    by (auto simp: signals_def signal_found restrictedPatterns_def)
  have claims: "''access:paywall'' \<in> set (map er_claim (article_evidence m h t n access source)) \<longleftrightarrow> aa_paywallDetected access"
    for m h t n access source
    by (auto simp: article_evidence_def split: option.splits if_splits)
  show ?thesis
    using empty cut claims
    unfolding extractArticle_def Let_def K_def [symmetric] truncated_def [symmetric] marked_def [symmetric] signals_def [symmetric]
    by (simp add: classify_access_def)
qed

end
