(* ===== verification/OB_Mcp.thy ===== *)
theory OB_Mcp
  imports OB_Jobs OB_BqlExec
begin

text \<open>
  The endpoint for model-context clients: the JSON-RPC envelope of \<open>src/src/server/mcp.ts\<close> and the route of
  \<open>src/src/server/routes/mcp.ts\<close>. The services that the route receives as arguments, and the crawl and the screenshot
  under admission control, are operations of the environment.
\<close>

section \<open>The tools\<close>

definition js_type :: "string \<Rightarrow> jsval" where
  "js_type t = JObj [(''type'', JStr t)]"

definition js_enum :: "string list \<Rightarrow> jsval" where
  "js_enum xs = JObj [(''type'', JStr ''string''), (''enum'', JArr (map JStr xs))]"

definition js_object :: "(string \<times> jsval) list \<Rightarrow> string list \<Rightarrow> jsval" where
  "js_object properties required =
     JObj ([(''type'', JStr ''object''), (''properties'', JObj properties)]
           @ (if required = [] then [] else [(''required'', JArr (map JStr required))]))"

definition js_uri :: jsval where
  "js_uri = JObj [(''type'', JStr ''string''), (''format'', JStr ''uri'')]"

definition agent_methods :: "string list" where
  "agent_methods =
     [''goto'', ''back'', ''forward'', ''reload'', ''snapshot'', ''text'', ''html'', ''evaluate'', ''click'', ''type'', ''select'',
      ''checkbox'', ''hover'', ''scroll'', ''waitForSelector'', ''waitForNavigation'', ''waitForTimeout'', ''waitForRequest'',
      ''waitForResponse'', ''liveURL'', ''close'']"

definition mcp_tool :: "string \<Rightarrow> string \<Rightarrow> jsval \<Rightarrow> bool \<Rightarrow> jsval" where
  "mcp_tool name description input readOnly =
     JObj [(''name'', JStr name), (''description'', JStr description), (''inputSchema'', input),
       (''annotations'', JObj ((if readOnly then [(''readOnlyHint'', JBool True)] else []) @ [(''openWorldHint'', JBool True)]))]"

definition agent_tool_schema :: "config \<Rightarrow> jsval" where
  "agent_tool_schema cfg = js_object
     [(''sessionId'', JObj [(''type'', JStr ''string''), (''description'', JStr ''Omit to create a new stateful session.'')]),
      (''ttlSeconds'', JObj [(''type'', JStr ''integer''), (''minimum'', JNum 60), (''maximum'', JNum (of_int (maxSessionTtlSeconds cfg)))]),
      (''persistent'', js_type ''boolean''),
      (''commands'', JObj [(''type'', JStr ''array''), (''minItems'', JNum 1), (''maxItems'', JNum 20),
         (''items'', js_object [(''method'', js_enum agent_methods), (''params'', js_type ''object'')] [''method''])])]
     [''commands'']"

definition output_names :: "string list" where
  "output_names = [''html'', ''text'', ''markdown'', ''links'', ''metadata'', ''article'', ''provenance'']"

definition fetch_tool_schema :: jsval where
  "fetch_tool_schema = js_object
     [(''url'', js_uri), (''strategy'', js_enum [''auto'', ''http'', ''browser'']),
      (''output'', JObj [(''type'', JStr ''array''), (''items'', js_enum output_names)]),
      (''wait'', JObj [(''type'', JStr ''object''),
         (''description'', JStr ''Optional post-navigation readiness condition for browser rendering.''),
         (''properties'', JObj [(''type'', js_enum [''domcontentloaded'', ''load'', ''networkidle'', ''selector'', ''delay'', ''stability'']),
            (''selector'', js_type ''string''), (''state'', js_enum [''attached'', ''visible'']), (''ms'', js_type ''number''),
            (''quietMs'', js_type ''number''), (''timeoutMs'', js_type ''number'')]),
         (''required'', JArr [JStr ''type''])])]
     [''url'']"

definition extract_tool_schema :: jsval where
  "extract_tool_schema = js_object
     [(''url'', js_uri),
      (''selectors'', JObj [(''type'', JStr ''object''), (''additionalProperties'', js_object
         [(''selector'', js_type ''string''), (''type'', js_enum [''text'', ''html'', ''attribute'']),
          (''attribute'', js_type ''string''), (''all'', js_type ''boolean'')] [''selector'', ''type''])])]
     [''url'', ''selectors'']"

definition map_tool_schema :: jsval where
  "map_tool_schema = js_object
     [(''url'', js_uri), (''maxUrls'', JObj [(''type'', JStr ''integer''), (''minimum'', JNum 1), (''maximum'', JNum 1000)]),
      (''maxDepth'', JObj [(''type'', JStr ''integer''), (''minimum'', JNum 0), (''maximum'', JNum 10)]),
      (''render'', JObj [(''type'', JStr ''string''), (''enum'', JArr [JStr ''auto'', JStr ''http'', JStr ''browser'']),
         (''description'', JStr ''HTTP-first by default; browser rendering is used only when the SPA heuristic requires it.'')])]
     [''url'']"

definition screenshot_tool_schema :: jsval where
  "screenshot_tool_schema = js_object [(''url'', js_uri), (''fullPage'', js_type ''boolean'')] [''url'']"

definition mcpTools :: "config \<Rightarrow> jsval list" where
  "mcpTools cfg =
     [mcp_tool ''browserless_agent''
        ''Stateful, snapshot-driven browser agent. Create or resume an API-key-owned session and execute bounded browser commands; the MCP client supplies reasoning between snapshots.''
        (agent_tool_schema cfg) False,
      mcp_tool ''openbrowse_fetch'' ''Fetch a public HTTP(S) page through OpenBrowse's HTTP-first browser gateway.'' fetch_tool_schema True,
      mcp_tool ''openbrowse_extract'' ''Extract named CSS-selector fields from a public web page.'' extract_tool_schema True,
      mcp_tool ''openbrowse_map'' ''Discover bounded same-origin links from a public site.'' map_tool_schema True,
      mcp_tool ''openbrowse_screenshot'' ''Capture a PNG screenshot of a public page.'' screenshot_tool_schema True]"

section \<open>The envelope\<close>

definition mcpReply :: "jsval \<Rightarrow> jsval \<Rightarrow> jsval" where
  "mcpReply ident result = JObj [(''jsonrpc'', JStr ''2.0''), (''id'', ident), (''result'', result)]"

definition mcpError :: "jsval \<Rightarrow> int \<Rightarrow> string \<Rightarrow> jsval" where
  "mcpError ident c m =
     JObj [(''jsonrpc'', JStr ''2.0''), (''id'', ident), (''error'', JObj [(''code'', JNum (of_int c)), (''message'', JStr m)])]"

text \<open>\<open>pretty\<close> is the indented text of a value.\<close>

definition mcpText :: "config \<Rightarrow> (jsval \<Rightarrow> string option) \<Rightarrow> jsval \<Rightarrow> bool \<Rightarrow> jsval outcome" where
  "mcpText cfg pretty v isError =
     res_bind (boundedJsonText cfg pretty v ''MCP tool output'') (\<lambda>txt.
       Inr (JObj ([(''content'', JArr [JObj [(''type'', JStr ''text''), (''text'', JStr txt)]]),
                   (''structuredContent'', if isError then JUndefined else v)]
                  @ (if isError then [(''isError'', JBool True)] else []))))"

text \<open>The header \<open>Origin\<close>: absent, one text, or several.\<close>

datatype origin_header = NoOrigin | OneOrigin string | ManyOrigins

definition bad_origin :: js_error where
  "bad_origin = ob_err ''FORBIDDEN'' ''MCP Origin must match the service host'' 403 False"

definition validateMcpOrigin :: "url_parser \<Rightarrow> origin_header \<Rightarrow> string \<Rightarrow> unit outcome" where
  "validateMcpOrigin parse origin hostName =
     (case origin of
        OneOrigin s \<Rightarrow>
          if s = [] then Inr ()
          else (case parse s of
                  None \<Rightarrow> Inl bad_origin
                | Some u \<Rightarrow> if u_hostname u = hostName then Inr () else Inl bad_origin)
      | _ \<Rightarrow> Inr ())"

section \<open>The environment\<close>

record 's mcp_env =
  mc_routes :: "'s route_env"
  mc_zod :: zod
  mc_agent :: "'s agent_executor"
  mc_fetch :: "api_fetch \<Rightarrow> ('s, fetch_response) route_op"
  mc_response :: "fetch_response \<Rightarrow> jsval"
  mc_extract :: "string \<Rightarrow> string \<Rightarrow> jsval \<Rightarrow> jsval outcome"
  mc_map :: "string \<Rightarrow> map_options \<Rightarrow> ('s, mapped_url list) route_op"
  mc_mapped :: "mapped_url \<Rightarrow> jsval"
  mc_screenshot :: "string \<Rightarrow> bool \<Rightarrow> ('s, string) route_op"
  mc_base64 :: "string \<Rightarrow> string"
  mc_pretty :: "jsval \<Rightarrow> string option"

abbreviation mc_cfg :: "'s mcp_env \<Rightarrow> config" where
  "mc_cfg M \<equiv> se_config (rt_store (mc_routes M))"

definition mcp_args :: "'s mcp_env \<Rightarrow> schema \<Rightarrow> jsval \<Rightarrow> (string \<times> jsval) list outcome" where
  "mcp_args M sch v = map_sum id entries (parse_request (mc_zod M) sch v)"

section \<open>The agent tool\<close>

definition agent_request_schema :: "config \<Rightarrow> schema" where
  "agent_request_schema cfg = SObject False
     [(''sessionId'', SOptional (SMatch (identifier_rx ''ses_'') (SString 0 None))),
      (''profileId'', SOptional (SMatch (identifier_rx ''prf_'') (SString 0 None))),
      (''profileName'', SOptional (STrim (SString 1 (Some 100)))),
      (''ttlSeconds'', SDefault (whole (Some 60) (Some (maxSessionTtlSeconds cfg))) (JNum 900)),
      (''persistent'', SDefault SBool (JBool False)), (''commands'', SArray 1 (Some 20) (agent_command_schema cfg))]"

definition agent_session_gone :: js_error where
  "agent_session_gone = ob_err ''SESSION_NOT_FOUND'' ''Agent session does not exist or has expired'' 404 False"

definition close_not_last :: js_error where
  "close_not_last = ob_err ''INVALID_REQUEST'' ''close must be the final agent command'' 400 False"

definition invalid_request :: "string \<Rightarrow> js_error" where
  "invalid_request m = ob_err ''INVALID_REQUEST'' m 400 False"

text \<open>The session of the request: the one it names, or none for a new one.\<close>

definition agent_existing ::
  "'s mcp_env \<Rightarrow> gate_answer \<Rightarrow> (string \<times> jsval) list \<Rightarrow> storage \<times> 's \<Rightarrow> stored_session option outcome" where
  "agent_existing M who body w =
     (if \<not> present (str_field ''sessionId'' body) then Inr None
      else res_bind (getSession (rt_store (mc_routes M)) (text_of ''sessionId'' body) (rt_now (mc_routes M) (snd w)) (fst w)) (\<lambda>found.
        case found of
          None \<Rightarrow> Inl agent_session_gone
        | Some s \<Rightarrow> res_bind (assertSessionOwner who s) (\<lambda>_. Inr (Some s))))"

definition agent_session ::
  "string \<Rightarrow> (string \<times> jsval) list \<Rightarrow> stored_profile option \<Rightarrow> millis \<Rightarrow> stored_session" where
  "agent_session owner body profile now =
     \<lparr>ses_id = [], ses_ownerKeyHash = Some owner, ses_persistent = bool_field ''persistent'' body, ses_createdAt = 0,
      ses_expiresAt = now + or_default (int_field ''ttlSeconds'' body) 0 * 1000, ses_viewport = (1280, 720), ses_proxyId = None,
      ses_storageState = map_option prf_storageState profile, ses_liveViewer = False\<rparr>"

definition open_agent_session ::
  "'s mcp_env \<Rightarrow> gate_answer \<Rightarrow> (string \<times> jsval) list \<Rightarrow> ('s, stored_session \<times> bool) route_op" where
  "open_agent_session M who body w =
     (let R = mc_routes M; E = rt_store R; pid = str_field ''profileId'' body; name = str_field ''profileName'' body in
      then_do (settled (agent_existing M who body w) w) (\<lambda>existing w1.
      then_do (settled (ensure (existing = None \<or> \<not> present pid \<and> \<not> present name)
                 (invalid_request ''A profile may only be used when creating an agent session'')) w1) (\<lambda>_ w2.
      then_do (settled (res_bind (requestKeyHash who) (\<lambda>owner.
                 map_sum id (\<lambda>profile. (owner, profile)) (chosen_profile E pid name owner (fst w2)))) w2) (\<lambda>(owner, profile) w3.
      case existing of
        Some s \<Rightarrow> (Inr (s, False), w3)
      | None \<Rightarrow> then_do (on_store (createSession E (rt_newId R (snd w3)) (rt_iv R (snd w3)) (rt_now R (snd w3))
                  (agent_session owner body profile (rt_now R (snd w3)))) w3) (\<lambda>s. settled (Inr (s, True)))))))"

fun run_agent_commands ::
  "'s agent_executor \<Rightarrow> stored_session \<Rightarrow> jsval list \<Rightarrow> bool \<Rightarrow> jsval list \<Rightarrow> ('s, jsval list \<times> bool) route_op" where
  "run_agent_commands exec session [] ended results w = (Inr (results, ended), w)"
| "run_agent_commands exec session (v # vs) ended results w =
     (if ended then (Inl close_not_last, w)
      else (case agent_command_of v of
              None \<Rightarrow> (Inl (JsError ''unknown command''), w)
            | Some c \<Rightarrow>
                then_do (exec session c w) (\<lambda>r.
                  run_agent_commands exec session vs (c = CmdClose)
                    (results @ [JObj [(''method'', object_value (entries v) ''method''), (''result'', r)]]))))"

definition command_values :: "(string \<times> jsval) list \<Rightarrow> jsval list" where
  "command_values body = (case object_value body ''commands'' of JArr xs \<Rightarrow> xs | _ \<Rightarrow> [])"

text \<open>What is reported of a session that stays open.\<close>

definition agent_page :: "'s mcp_env \<Rightarrow> stored_session \<Rightarrow> ('s, (string \<times> jsval) list) route_op" where
  "agent_page M session w =
     (let R = mc_routes M in
      then_do (settled (resolveProxy (rt_store R) (fst w) (ses_proxyId session) (ses_ownerKeyHash session)) w) (\<lambda>proxy w1.
      then_do (on_live (lp_get (rt_page R) session proxy) w1) (\<lambda>_ w2.
      then_do (settled (normalizeUrl (ae_parse (rt_agent R)) (lp_url (rt_page R) (snd w2))) w2) (\<lambda>u w3.
      then_do (on_live (lp_title (rt_page R)) w3) (\<lambda>t. settled (Inr [(''url'', JStr u), (''title'', JStr t)]))))))"

definition agent_tool :: "'s mcp_env \<Rightarrow> gate_answer \<Rightarrow> jsval \<Rightarrow> ('s, jsval) route_op" where
  "agent_tool M who args w =
     then_do (settled (mcp_args M (agent_request_schema (mc_cfg M)) args) w) (\<lambda>body w1.
     then_do (open_agent_session M who body w1) (\<lambda>(session, created) w2.
     then_do (run_agent_commands (mc_agent M) session (command_values body) False [] w2) (\<lambda>(results, ended) w3.
     then_do (if ended then (Inr (), w3) else save_state (mc_routes M) session w3) (\<lambda>_ w4.
     then_do (if ended then (Inr [], w4) else agent_page M session w4) (\<lambda>page.
     settled (Inr (JObj ([(''sessionId'', JStr (ses_id session)), (''created'', JBool created), (''closed'', JBool ended),
       (''results'', JArr results)] @ page))))))))"

section \<open>The other tools\<close>

definition strategy_of :: "string \<Rightarrow> strategy" where
  "strategy_of s = (if s = ''http'' then HttpOnly else if s = ''browser'' then BrowserOnly else Auto)"

definition output_of :: "jsval \<Rightarrow> output_kind" where
  "output_of v = or_default (map_of
     [(JStr ''html'', OutHtml), (JStr ''text'', OutText), (JStr ''markdown'', OutMarkdown), (JStr ''links'', OutLinks),
      (JStr ''metadata'', OutMetadata), (JStr ''article'', OutArticle), (JStr ''provenance'', OutProvenance)] v) OutHtml"

definition outputs_of :: "(string \<times> jsval) list \<Rightarrow> string \<Rightarrow> output_kind list" where
  "outputs_of fs k = (case object_value fs k of JArr xs \<Rightarrow> map output_of xs | _ \<Rightarrow> [])"

definition wait_condition :: "jsval \<Rightarrow> browser_wait option" where
  "wait_condition v =
     (case v of
        JObj fs \<Rightarrow>
          (let t = text_of ''type'' fs; ms = int_field ''timeoutMs'' fs in
           if t = ''domcontentloaded'' then Some BwDomContentLoaded
           else if t = ''load'' then Some BwLoad
           else if t = ''networkidle'' then Some (BwNetworkIdle ms)
           else if t = ''selector'' then Some (BwSelector (text_of ''selector'' fs)
             (map_option (\<lambda>s. if s = ''visible'' then Visible else Attached) (str_field ''state'' fs)))
           else if t = ''delay'' then Some (BwDelay (or_default (int_field ''ms'' fs) 0))
           else if t = ''stability'' then Some (BwStability (int_field ''quietMs'' fs) ms)
           else None)
      | _ \<Rightarrow> None)"

definition fetch_tool :: "'s mcp_env \<Rightarrow> gate_answer \<Rightarrow> jsval \<Rightarrow> ('s, jsval) route_op" where
  "fetch_tool M who args w =
     then_do (settled (mcp_args M (SObject False
         [(''url'', url_schema), (''strategy'', strategy_schema),
          (''output'', SDefault (SArray 0 (Some 7) (SEnum output_names)) (JArr [JStr ''markdown''])),
          (''wait'', SOptional (browser_wait_schema (mc_cfg M)))]) args) w) (\<lambda>body w1.
     then_do (settled (requestKeyHash who) w1) (\<lambda>owner w2.
     then_do (mc_fetch M ((public_fetch (text_of ''url'' body) (strategy_of (text_of ''strategy'' body)) None (outputs_of body ''output'')
                  CacheDefault 300 owner)\<lparr>af_wait := wait_condition (object_value body ''wait'')\<rparr>) w2) (\<lambda>r.
     settled (Inr (mc_response M r)))))"

definition selector_count :: "jsval \<Rightarrow> string list" where
  "selector_count v = (if length (entries v) \<le> 100 then [] else [''At most 100 selectors are allowed''])"

definition extract_tool :: "'s mcp_env \<Rightarrow> gate_answer \<Rightarrow> jsval \<Rightarrow> ('s, jsval) route_op" where
  "extract_tool M who args w =
     then_do (settled (mcp_args M (SObject False
         [(''url'', url_schema), (''selectors'', SRefine selector_count (SRecord (SString 1 (Some 128)) selector_schema))]) args) w) (\<lambda>body w1.
     then_do (settled (requestKeyHash who) w1) (\<lambda>owner w2.
     then_do (mc_fetch M (public_fetch (text_of ''url'' body) Auto None [OutHtml] CacheDefault 300 owner) w2) (\<lambda>r w3.
     then_do (settled (mc_extract M (or_default (tf_html (fp_outputs r)) []) (fp_finalUrl r) (object_value body ''selectors'')) w3) (\<lambda>data.
     settled (Inr (JObj [(''data'', data), (''strategy'', JStr (stage_text (fp_strategy r)))]))))))"

definition map_tool :: "'s mcp_env \<Rightarrow> jsval \<Rightarrow> ('s, jsval) route_op" where
  "map_tool M args w =
     then_do (settled (mcp_args M (SObject False
         [(''url'', url_schema), (''maxUrls'', SOptional (whole (Some 1) (Some 1000))), (''maxDepth'', SOptional (whole (Some 0) (Some 10))),
          (''render'', strategy_schema)]) args) w) (\<lambda>body w1.
     then_do (mc_map M (text_of ''url'' body)
         \<lparr>mo_maxUrls = map_option nat (int_field ''maxUrls'' body), mo_maxDepth = map_option nat (int_field ''maxDepth'' body), mo_include = None,
          mo_exclude = None, mo_search = None, mo_render = Some (strategy_of (text_of ''render'' body))\<rparr> w1) (\<lambda>urls.
     settled (Inr (JObj [(''urls'', JArr (map (mc_mapped M) urls))]))))"

definition screenshot_tool :: "'s mcp_env \<Rightarrow> jsval \<Rightarrow> ('s, jsval) route_op" where
  "screenshot_tool M args w =
     then_do (settled (mcp_args M (SObject False [(''url'', url_schema), (''fullPage'', SDefault SBool (JBool True))]) args) w) (\<lambda>body w1.
     then_do (mc_screenshot M (text_of ''url'' body) (bool_field ''fullPage'' body) w1) (\<lambda>img.
     settled (Inr (JObj [(''content'', JArr [JObj [(''type'', JStr ''image''), (''data'', JStr (mc_base64 M img)),
       (''mimeType'', JStr ''image/png'')]])]))))"

section \<open>The route\<close>

datatype mcp_answer = McpBody int jsval | McpEmpty int

definition message_id :: "(string \<times> jsval) list \<Rightarrow> jsval" where
  "message_id msg = (case object_value msg ''id'' of JStr s \<Rightarrow> JStr s | JNum q \<Rightarrow> JNum q | _ \<Rightarrow> JNull)"

definition server_info :: "(string \<times> jsval) list" where
  "server_info = [(''capabilities'', JObj [(''tools'', JObj [(''listChanged'', JBool False)])]),
     (''serverInfo'', JObj [(''name'', JStr ''openbrowse''), (''version'', JStr ''0.2.0'')])]"

text \<open>The result of a tool that is text; \<open>None\<close> for a name that is no tool.\<close>

definition tool_answer :: "'s mcp_env \<Rightarrow> gate_answer \<Rightarrow> string \<Rightarrow> jsval \<Rightarrow> ('s, jsval option) route_op" where
  "tool_answer M who name args w =
     (let answer = (\<lambda>r. then_do r (\<lambda>v. settled (res_bind (mcpText (mc_cfg M) (mc_pretty M) v False) (\<lambda>t. Inr (Some t)))));
          as_is = (\<lambda>r. then_do r (\<lambda>v. settled (Inr (Some v))))
      in if name = ''browserless_agent'' then answer (agent_tool M who args w)
         else if name = ''openbrowse_fetch'' then answer (fetch_tool M who args w)
         else if name = ''openbrowse_extract'' then answer (extract_tool M who args w)
         else if name = ''openbrowse_map'' then answer (map_tool M args w)
         else if name = ''openbrowse_screenshot'' then as_is (screenshot_tool M args w)
         else (Inr None, w))"

definition tools_call :: "'s mcp_env \<Rightarrow> gate_answer \<Rightarrow> jsval \<Rightarrow> string \<Rightarrow> jsval \<Rightarrow> ('s, mcp_answer) route_op" where
  "tools_call M who ident name args w =
     (case tool_answer M who name args w of
        (Inr None, w1) \<Rightarrow> (Inr (McpBody 200 (mcpError ident (- 32602) ''Unknown OpenBrowse MCP tool'')), w1)
      | (Inr (Some result), w1) \<Rightarrow> (Inr (McpBody 200 (mcpReply ident result)), w1)
      | (Inl e, w1) \<Rightarrow>
          (res_bind (mcpText (mc_cfg M) (mc_pretty M) (JObj [(''error'', JStr (thrown_message e))]) True) (\<lambda>t.
             Inr (McpBody 200 (mcpReply ident t))), w1))"

definition mcp_route ::
  "'s mcp_env \<Rightarrow> gate_answer \<Rightarrow> origin_header \<Rightarrow> string \<Rightarrow> (string \<times> jsval) list \<Rightarrow> ('s, mcp_answer) route_op" where
  "mcp_route M who origin hostName msg w =
     (let ident = message_id msg; reply = (\<lambda>v. (Inr (McpBody 200 v), w)) in
      case validateMcpOrigin (ae_parse (rt_agent (mc_routes M))) origin hostName of
        Inl e \<Rightarrow> (Inl e, w)
      | Inr _ \<Rightarrow>
          (case (object_value msg ''jsonrpc'' = JStr ''2.0'', object_value msg ''method'') of
             (True, JStr m) \<Rightarrow>
               if object_value msg ''id'' = JUndefined then (Inr (McpEmpty 202), w)
               else if m = ''initialize'' then reply (mcpReply ident (JObj ((''protocolVersion'', JStr ''2025-06-18'') # server_info)))
               else if m = ''server/discover'' then reply (mcpReply ident (JObj server_info))
               else if m = ''ping'' then reply (mcpReply ident (JObj []))
               else if m = ''tools/list'' then reply (mcpReply ident (JObj [(''tools'', JArr (mcpTools (mc_cfg M)))]))
               else if m \<noteq> ''tools/call'' then reply (mcpError ident (- 32601) ''Method not found'')
               else (case object_value (entries (object_value msg ''params'')) ''name'' of
                       JStr name \<Rightarrow> tools_call M who ident name (object_value (entries (object_value msg ''params'')) ''arguments'') w
                     | _ \<Rightarrow> reply (mcpError ident (- 32602) ''tools/call requires a tool name''))
           | _ \<Rightarrow> (Inr (McpBody 400 (mcpError ident (- 32600) ''Invalid JSON-RPC request'')), w)))"

text \<open>The endpoint has no stream: \<open>GET\<close> is refused with the verb to use.\<close>

definition mcp_get :: "int \<times> (string \<times> string) list" where
  "mcp_get = (405, [(''Allow'', ''POST'')])"

end
