(* ===== verification/OB_Mcp_Props.thy ===== *)
theory OB_Mcp_Props
  imports OB_Mcp OB_SessionRoutes_Props OB_BqlExec_Props
begin

text \<open>
  What the endpoint for model-context clients answers, and the session that a failing agent request leaves behind.
\<close>

section \<open>Every request is answered\<close>

text \<open>The text of an error is within the byte limit.\<close>

definition errors_fit :: "'s mcp_env \<Rightarrow> bool" where
  "errors_fit M \<longleftrightarrow> (\<forall>m. \<exists>t. mcpText (mc_cfg M) (mc_pretty M) (JObj [(''error'', JStr m)]) True = Inr t)"

definition answers_to :: "jsval \<Rightarrow> jsval \<Rightarrow> bool" where
  "answers_to ident v \<longleftrightarrow>
     (\<exists>fs. v = JObj fs \<and> object_value fs ''jsonrpc'' = JStr ''2.0'' \<and> object_value fs ''id'' = ident \<and>
        ((object_value fs ''result'' = JUndefined) \<noteq> (object_value fs ''error'' = JUndefined)))"

lemma answers_error: "answers_to ident (mcpError ident c m)"
  by (simp add: answers_to_def mcpError_def object_value_def)

lemma answers_reply: "result \<noteq> JUndefined \<Longrightarrow> answers_to ident (mcpReply ident result)"
  by (simp add: answers_to_def mcpReply_def object_value_def)

lemma mcpText_object: "mcpText cfg pretty v isError = Inr t \<Longrightarrow> t \<noteq> JUndefined"
  by (auto simp: mcpText_def res_bind_Inr_iff)

lemma tool_answer_object: "tool_answer M who name args w = (Inr (Some v), w') \<Longrightarrow> v \<noteq> JUndefined"
  by (auto simp: tool_answer_def Let_def then_do_Inr settled_def res_bind_Inr_iff screenshot_tool_def dest: mcpText_object split: if_splits)

lemma tools_call_answers:
  assumes "errors_fit M"
  shows "\<exists>v w'. tools_call M who ident name args w = (Inr (McpBody 200 v), w') \<and> answers_to ident v"
proof -
  obtain r w1 where r: "tool_answer M who name args w = (r, w1)" by (rule prod.exhaust)
  show ?thesis
  proof (cases r)
    case (Inl e)
    obtain t where "mcpText (mc_cfg M) (mc_pretty M) (JObj [(''error'', JStr (thrown_message e))]) True = Inr t"
      using assms unfolding errors_fit_def by blast
    with r Inl show ?thesis by (simp add: tools_call_def answers_reply [OF mcpText_object])
  next
    case (Inr v)
    show ?thesis
    proof (cases v)
      case None
      with r Inr show ?thesis by (simp add: tools_call_def answers_error)
    next
      case (Some a)
      with r Inr have "a \<noteq> JUndefined" using tool_answer_object [of M who name args w a w1] by simp
      with r Inr Some show ?thesis by (simp add: tools_call_def answers_reply)
    qed
  qed
qed


section \<open>The lost session\<close>

text \<open>An agent request that creates its session and whose first command fails is answered with the message of the error and
  nothing else: the session stays in the table, and its browser runs until it expires, but the client never
  learns the identifier with which it could use or close it.\<close>

theorem mcp_agent_loses_session:
  assumes "mcp_args M (agent_request_schema (mc_cfg M)) args = Inr body"
    and "\<not> present (str_field ''sessionId'' body)" "\<not> present (str_field ''profileId'' body)" "\<not> present (str_field ''profileName'' body)"
    and "requestKeyHash who = Inr owner"
    and "createSession (rt_store (mc_routes M)) (rt_newId (mc_routes M) (snd w)) (rt_iv (mc_routes M) (snd w)) (rt_now (mc_routes M) (snd w))
           (agent_session owner body None (rt_now (mc_routes M) (snd w))) (fst w) = (Inr session, S1)"
    and "command_values body = v # vs" "agent_command_of v = Some c" "c \<noteq> CmdClose" "mc_agent M = executeAgentCommand A"
    and "executeAgentCommand A session c (S1, snd w) = (Inl e, w')"
    and "mcpText (mc_cfg M) (mc_pretty M) (JObj [(''error'', JStr (thrown_message e))]) True = Inr t"
  shows "tools_call M who ident ''browserless_agent'' args w = (Inr (McpBody 200 (mcpReply ident t)), w') \<and>
    map ses_id (sg_sessions (fst w')) = map ses_id (sg_sessions (fst w)) @ [ses_id session]"
proof -
  have no_profile: "chosen_profile (rt_store (mc_routes M)) (str_field ''profileId'' body) (str_field ''profileName'' body) owner S = Inr None" for S
    using assms(3,4) by (auto simp: chosen_profile_def Let_def present_def or_default_def split: option.splits list.splits)
  have opened: "open_agent_session M who body w = (Inr (session, True), S1, snd w)"
    using assms(2,5,6) no_profile
    by (simp add: open_agent_session_def agent_existing_def settled_def Let_def ensure_def on_store_def)
  have ran: "run_agent_commands (mc_agent M) session (command_values body) False [] (S1, snd w) = (Inl e, w')"
    using assms(7,8,10,11) by simp
  have "agent_tool M who args w = (Inl e, w')"
    using assms(1) opened ran by (simp add: agent_tool_def settled_def)
  moreover have "fst w' = S1" using executed_store [OF assms(9), of A session "(S1, snd w)"] assms(11) by simp
  moreover have "map ses_id (sg_sessions S1) = map ses_id (sg_sessions (fst w)) @ [ses_id session]"
    using assms(6) by (auto simp: createSession_def session_create_def Let_def split: if_splits)
  ultimately show ?thesis
    using assms(12) by (simp add: tools_call_def tool_answer_def)
qed

section \<open>A client and its request\<close>

definition sample_mcp :: "int mcp_env" where
  "sample_mcp = \<lparr>mc_routes = sample_routes None (Inr ()), mc_zod = (\<lambda>_ v. Inr v), mc_agent = executeAgentCommand (rt_agent (sample_routes None (Inr ()))),
     mc_fetch = (\<lambda>_ w. (Inl (JsError []), w)), mc_response = (\<lambda>_. JNull), mc_extract = (\<lambda>_ _ _. Inr JNull), mc_map = (\<lambda>_ _ w. (Inr [], w)),
     mc_mapped = (\<lambda>_. JNull), mc_screenshot = (\<lambda>_ _ w. (Inr [], w)), mc_base64 = id, mc_pretty = (\<lambda>_. Some ''{}'')\<rparr>"

lemma sample_mcp_fits: "errors_fit sample_mcp"
proof -
  have "1024 \<le> maxResponseBytes sample_config" using sample_config_ok by (simp add: config_ok_def)
  then show ?thesis
    by (simp add: errors_fit_def mcpText_def boundedJsonText_def sample_mcp_def sample_routes_def sample_env_def json_text_def or_default_def
        utf8_length_def Let_def)
qed

definition ping_message :: "(string \<times> jsval) list" where
  "ping_message = [(''jsonrpc'', JStr ''2.0''), (''id'', JNum 7), (''method'', JStr ''ping'')]"


definition goto_arguments :: jsval where
  "goto_arguments = JObj [(''ttlSeconds'', JNum 60), (''persistent'', JBool False),
     (''commands'', JArr [JObj [(''method'', JStr ''goto''), (''params'', JObj [(''url'', JStr ''nowhere'')])]])]"

abbreviation sample_agent :: "int agent_env" where
  "sample_agent \<equiv> rt_agent (sample_routes None (Inr ()))"

definition nowhere_error :: js_error where
  "nowhere_error = ob_err ''INVALID_URL'' ''URL is invalid'' 400 False"

lemma goto_fields:
  "mcp_args sample_mcp (agent_request_schema (mc_cfg sample_mcp)) goto_arguments = Inr (entries goto_arguments)"
  "\<not> present (str_field ''sessionId'' (entries goto_arguments))" "\<not> present (str_field ''profileId'' (entries goto_arguments))"
  "\<not> present (str_field ''profileName'' (entries goto_arguments))"
  "command_values (entries goto_arguments) = [JObj [(''method'', JStr ''goto''), (''params'', JObj [(''url'', JStr ''nowhere'')])]]"
  "agent_command_of (JObj [(''method'', JStr ''goto''), (''params'', JObj [(''url'', JStr ''nowhere'')])]) = Some (CmdGoto ''nowhere'' None)"
  by (simp_all add: mcp_args_def parse_request_def sample_mcp_def goto_arguments_def entries_def present_def str_field_def object_value_def
      command_values_def agent_command_of_def text_of_def or_default_def named_command_def wait_of_def)

lemma goto_fails:
  "ses_proxyId session = None \<Longrightarrow> executeAgentCommand sample_agent session (CmdGoto ''nowhere'' None) (S, 0) = (Inl nowhere_error, S, 0)"
  by (simp add: executeAgentCommand_def resolveProxy_def sample_routes_def text_page_def page_command_def assertSafeUrl_def resolveSafeUrl_def
      nowhere_error_def or_default_def Let_def)

theorem mcp_agent_loses_session_witness:
  "\<exists>w'. fst (tools_call sample_mcp (Admitted ''ann'' None) (JNum 1) ''browserless_agent'' goto_arguments (sample_storage, 0)) =
       Inr (McpBody 200 (mcpReply (JNum 1) w')) \<and>
     map ses_id (sg_sessions (fst (snd (tools_call sample_mcp (Admitted ''ann'' None) (JNum 1) ''browserless_agent'' goto_arguments (sample_storage, 0)))))
       = [''s1'', ''n1'']"
proof -
  let ?R = "mc_routes sample_mcp"
  obtain session S1 where created: "createSession (rt_store ?R) (rt_newId ?R (snd (sample_storage, 0::int))) (rt_iv ?R (snd (sample_storage, 0::int)))
       (rt_now ?R (snd (sample_storage, 0::int))) (agent_session ''ann'' (entries goto_arguments) None (rt_now ?R (snd (sample_storage, 0::int)))) (fst (sample_storage, 0::int))
       = (Inr session, S1)" and session: "ses_id session = ''n1''" "ses_proxyId session = None"
    by (simp add: createSession_def session_create_def sample_mcp_def sample_routes_def sample_env_def sample_storage_def sample_session_def
        agent_session_def truthy_def Let_def)
  obtain t where t: "mcpText (mc_cfg sample_mcp) (mc_pretty sample_mcp) (JObj [(''error'', JStr (thrown_message nowhere_error))]) True = Inr t"
    using sample_mcp_fits unfolding errors_fit_def by blast
  have owner: "requestKeyHash (Admitted ''ann'' None) = Inr ''ann''" by (simp add: requestKeyHash_def)
  have agent: "mc_agent sample_mcp = executeAgentCommand sample_agent" by (simp add: sample_mcp_def)
  have failed: "executeAgentCommand sample_agent session (CmdGoto ''nowhere'' None) (S1, snd (sample_storage, 0::int)) = (Inl nowhere_error, S1, 0)"
    using goto_fails [OF session(2), of S1] by simp
  from mcp_agent_loses_session [OF goto_fields(1-4) owner created goto_fields(5,6) _ agent failed t, of "JNum 1"] session(1)
  show ?thesis by (auto simp: sample_storage_def sample_session_def)
qed

end
