(* ===== verification/OB_Media.thy ===== *)
theory OB_Media
  imports OB_Challenge OB_Extract OB_Http
begin

text \<open>
  Scripted pages and their media: the workflows and downloads of \<open>src/src/execution/workflow.ts\<close>, and the screenshots,
  documents and recordings of \<open>src/src/execution/media.ts\<close>. The page is a driver, and so is the pool that lends a
  context to a function on a page.
\<close>

section \<open>The driver\<close>

type_synonym ('s, 'a) page_op = "'s \<Rightarrow> 'a outcome \<times> 's"

type_synonym ('s, 'v) with_context =
  "viewport option \<Rightarrow> stored_proxy option \<Rightarrow> backend \<Rightarrow> backend_options option \<Rightarrow> ('s, 'v) page_op \<Rightarrow> ('s, 'v) page_op"

record 's script_page =
  pg_goto :: "string \<Rightarrow> navigation_wait \<Rightarrow> millis \<Rightarrow> ('s, unit) page_op"
  pg_waitVisible :: "string \<Rightarrow> millis \<Rightarrow> ('s, unit) page_op"
  pg_click :: "string \<Rightarrow> nat \<Rightarrow> millis \<Rightarrow> ('s, unit) page_op"
  pg_fill :: "string \<Rightarrow> string \<Rightarrow> millis \<Rightarrow> ('s, unit) page_op"
  pg_press :: "string \<Rightarrow> string \<Rightarrow> millis \<Rightarrow> ('s, unit) page_op"
  pg_all :: "string \<Rightarrow> ('s, dom list) page_op"
  pg_inner :: "dom \<Rightarrow> string"
  pg_content :: "('s, string) page_op"
  pg_title :: "('s, string) page_op"
  pg_url :: "'s \<Rightarrow> string"
  pg_sleep :: "millis \<Rightarrow> 's \<Rightarrow> 's"

record 's script_env =
  sc_config :: config
  sc_parse :: url_parser
  sc_guard :: "'s \<Rightarrow> resolver"
  sc_stringify :: "jsval \<Rightarrow> string option"
  sc_admit :: "'s admission_check"
  sc_page :: "'s script_page"

definition script_timeout :: "'s script_env \<Rightarrow> fetch_input \<Rightarrow> millis" where
  "script_timeout C inp = timeout (sc_config C) (in_timeoutMs inp)"

definition check_script_url :: "'s script_env \<Rightarrow> fetch_input \<Rightarrow> string \<Rightarrow> ('s, unit) page_op" where
  "check_script_url C inp u s =
     (map_sum id (\<lambda>_. ()) (assertSafeUrl (sc_parse C) (sc_guard C s) u (map_option pxy_allowedDomains (in_proxy inp))), s)"

definition preferred_backend :: "'s script_env \<Rightarrow> fetch_input \<Rightarrow> backend" where
  "preferred_backend C inp = or_default (in_browserBackend inp) (defaultBrowserBackend (sc_config C))"

text \<open>\<open>/Timeout/i.test(error.message)\<close> on an error that is not one of the program's own.\<close>

definition is_timeout_message :: "string \<Rightarrow> bool" where
  "is_timeout_message = rx_test (lit_i ''Timeout'')"

definition script_error :: "string \<Rightarrow> string \<Rightarrow> js_error \<Rightarrow> js_error" where
  "script_error timed_out failed e =
     (case e of
        OpenBrowseError _ \<Rightarrow> e
      | JsError m \<Rightarrow> if is_timeout_message m then ob_err ''TARGET_TIMEOUT'' timed_out 408 True else ob_err ''RENDER_FAILED'' failed 422 True)"

definition catching :: "(js_error \<Rightarrow> js_error) \<Rightarrow> 'a outcome \<times> 's \<Rightarrow> 'a outcome \<times> 's" where
  "catching f r = (map_sum f id (fst r), snd r)"

section \<open>Workflows\<close>

datatype workflow_step =
    StepWait string
  | StepClick string "nat option"
  | StepFill string string
  | StepPress string string
  | StepExtract string string rule_kind "string option" bool

definition node_value :: "'s script_page \<Rightarrow> rule_kind \<Rightarrow> string option \<Rightarrow> dom \<Rightarrow> jsval" where
  "node_value P kind attribute d =
     (case kind of
        RuleHtml \<Rightarrow> JStr (pg_inner P d)
      | RuleAttribute \<Rightarrow> (case dom_attr (or_default attribute []) d of Some v \<Rightarrow> JStr v | None \<Rightarrow> JNull)
      | RuleText \<Rightarrow> JStr (trim (dom_text d)))"

type_synonym outputs = "(string, jsval) jsmap"

definition first_or_null :: "jsval list \<Rightarrow> jsval" where
  "first_or_null xs = (case xs of [] \<Rightarrow> JNull | x # _ \<Rightarrow> x)"

definition run_step :: "'s script_page \<Rightarrow> millis \<Rightarrow> workflow_step \<Rightarrow> outputs \<Rightarrow> ('s, outputs) page_op" where
  "run_step P ms step out s =
     (case step of
        StepWait sel \<Rightarrow> then_do (pg_waitVisible P sel ms s) (\<lambda>_ s1. (Inr out, s1))
      | StepClick sel i \<Rightarrow> then_do (pg_click P sel (or_default i 0) ms s) (\<lambda>_ s1. (Inr out, s1))
      | StepFill sel v \<Rightarrow> then_do (pg_fill P sel v ms s) (\<lambda>_ s1. (Inr out, s1))
      | StepPress sel key \<Rightarrow> then_do (pg_press P sel key ms s) (\<lambda>_ s1. (Inr out, s1))
      | StepExtract name sel kind attribute every \<Rightarrow>
          then_do (pg_all P sel s) (\<lambda>ds s1.
            let vs = map (node_value P kind attribute) ds in
            (Inr (map_set name (if every then JArr vs else first_or_null vs) out), s1)))"

text \<open>The loop under \<open>try\<close>: the outputs so far, and the error of the step that failed.\<close>

fun run_steps :: "'s script_page \<Rightarrow> millis \<Rightarrow> workflow_step list \<Rightarrow> outputs \<Rightarrow> 's \<Rightarrow> (outputs \<times> js_error option) \<times> 's" where
  "run_steps P ms [] out s = ((out, None), s)"
| "run_steps P ms (step # steps) out s =
     (case run_step P ms step out s of
        (Inl e, s1) \<Rightarrow> ((out, Some e), s1)
      | (Inr out1, s1) \<Rightarrow> run_steps P ms steps out1 s1)"

record workflow_page =
  wf_finalUrl :: string
  wf_title :: string
  wf_outputs :: outputs
  wf_challenge :: bool

definition workflow_body :: "'s script_env \<Rightarrow> fetch_input \<Rightarrow> workflow_step list \<Rightarrow> ('s, workflow_page) page_op" where
  "workflow_body C inp steps s =
     (let P = sc_page C; ms = script_timeout C inp in
      then_do (pg_goto P (in_url inp) (or_default (in_waitUntil inp) WaitDomContentLoaded) ms s) (\<lambda>_ s1.
      case run_steps P ms steps [] s1 of
        ((out, failed), s2) \<Rightarrow>
          then_do (pg_content P s2) (\<lambda>html s3.
          let challenged = hasAccessChallenge html in
          if failed \<noteq> None \<and> \<not> challenged then (Inl (the failed), s3)
          else (case normalizeUrl (sc_parse C) (pg_url P s3) of
                  Inl e \<Rightarrow> (Inl e, s3)
                | Inr u \<Rightarrow> then_do (pg_title P s3) (\<lambda>t s4.
                    (Inr \<lparr>wf_finalUrl = u, wf_title = t, wf_outputs = out, wf_challenge = challenged\<rparr>, s4))))))"

definition fallback_report :: "'v fallback_result \<Rightarrow> (string \<times> jsval) list" where
  "fallback_report f =
     [(''backendAttempts'', JArr (map (\<lambda>b. JStr (backend_id b)) (fb_backendAttempts f))),
      (''selectedBackend'', JStr (backend_id (fb_selectedBackend f))), (''challengeRemaining'', JBool (fb_challengeRemaining f))]"

definition workflow_json :: "workflow_page fallback_result \<Rightarrow> jsval" where
  "workflow_json f = JObj [(''finalUrl'', JStr (wf_finalUrl (fb_value f))), (''title'', JStr (wf_title (fb_value f))),
     (''outputs'', JObj (wf_outputs (fb_value f))), (''execution'', JObj (fallback_report f))]"

definition runWorkflow ::
  "'s script_env \<Rightarrow> ('s, workflow_page) with_context \<Rightarrow> fetch_input \<Rightarrow> workflow_step list \<Rightarrow> ('s, workflow_page fallback_result) page_op" where
  "runWorkflow C ctx inp steps s =
     then_do (check_script_url C inp (in_url inp) s) (\<lambda>_ s1.
     catching (script_error ''Workflow step timed out'' ''Workflow execution failed'')
       (then_do (runChallengeFallback (sc_config C) (sc_admit C)
            (\<lambda>b options s. then_do (ctx (in_viewport inp) (in_proxy inp) b options (workflow_body C inp steps) s)
               (\<lambda>v s'. (Inr (v, wf_challenge v), s')))
            inp (preferred_backend C inp) None s1) (\<lambda>f s2.
        (map_sum id (\<lambda>_. f) (assertBoundedJson (sc_config C) (sc_stringify C) (workflow_json f) ''Workflow output''), s2))))"

section \<open>Downloads\<close>

record download_result =
  dl_body :: string
  dl_filename :: string
  dl_contentType :: string
  dl_sourceUrl :: string

text \<open>What a click starts: the address, the stream of chunks if there is one, and the suggested name.\<close>

record started_download =
  sd_url :: string
  sd_stream :: "(string list \<times> js_error option) option"
  sd_suggested :: string

definition unsafe_name_char :: "char \<Rightarrow> bool" where
  "unsafe_name_char c \<longleftrightarrow> c \<in> set [CHR 0x5C, CHR ''/'', CHR '':'', CHR ''*'', CHR ''?'', CHR 0x22, CHR ''<'', CHR ''>'', CHR ''|'']
     \<or> (of_char c :: nat) < 32"

definition safe_filename :: "string \<Rightarrow> string" where
  "safe_filename s =
     (let t = take 180 (map (\<lambda>c. if unsafe_name_char c then CHR ''_'' else c) s) in if t = [] then ''download'' else t)"

definition download_type :: "string \<Rightarrow> string" where
  "download_type name =
     (if ends_with (to_lower name) ''.csv'' then ''text/csv; charset=utf-8''
      else if ends_with (to_lower name) ''.json'' then ''application/json; charset=utf-8''
      else ''application/octet-stream'')"

definition download_too_large :: js_error where
  "download_too_large = ob_err ''PAYLOAD_TOO_LARGE'' ''Downloaded file exceeds the configured byte limit'' 413 False"

fun read_download :: "config \<Rightarrow> string list \<Rightarrow> js_error option \<Rightarrow> string \<Rightarrow> string outcome" where
  "read_download cfg [] failure acc = (case failure of Some e \<Rightarrow> Inl e | None \<Rightarrow> Inr acc)"
| "read_download cfg (chunk # chunks) failure acc =
     (if int (length (acc @ chunk)) > maxResponseBytes cfg then Inl download_too_large
      else read_download cfg chunks failure (acc @ chunk))"

definition download_body ::
  "'s script_env \<Rightarrow> (string \<Rightarrow> nat \<Rightarrow> millis \<Rightarrow> ('s, started_download) page_op) \<Rightarrow> fetch_input \<Rightarrow> string \<Rightarrow> nat option \<Rightarrow>
   ('s, download_result) page_op" where
  "download_body C click inp sel i s =
     then_do (pg_goto (sc_page C) (in_url inp) (or_default (in_waitUntil inp) WaitDomContentLoaded) (script_timeout C inp) s) (\<lambda>_ s1.
     then_do (click sel (or_default i 0) (script_timeout C inp) s1) (\<lambda>d s2.
     then_do (check_script_url C inp (sd_url d) s2) (\<lambda>_ s3.
     (case sd_stream d of
        None \<Rightarrow> Inl (ob_err ''RENDER_FAILED'' ''Browser did not provide a readable download stream'' 422 True)
      | Some (chunks, failure) \<Rightarrow>
          res_bind (read_download (sc_config C) chunks failure []) (\<lambda>body.
            let name = safe_filename (sd_suggested d) in
            Inr \<lparr>dl_body = body, dl_filename = name, dl_contentType = download_type name, dl_sourceUrl = sd_url d\<rparr>), s3))))"

definition browserDownload ::
  "'s script_env \<Rightarrow> ('s, download_result) with_context \<Rightarrow> (string \<Rightarrow> nat \<Rightarrow> millis \<Rightarrow> ('s, started_download) page_op) \<Rightarrow>
   fetch_input \<Rightarrow> string \<Rightarrow> nat option \<Rightarrow> ('s, download_result) page_op" where
  "browserDownload C ctx click inp sel i s =
     then_do (check_script_url C inp (in_url inp) s) (\<lambda>_ s1.
     catching (script_error (''Download did not complete within '' @ show_int (script_timeout C inp) @ ''ms'') ''Browser download failed'')
       (ctx (in_viewport inp) (in_proxy inp) (defaultBrowserBackend (sc_config C)) None (download_body C click inp sel i) s1))"

section \<open>Screenshots and documents\<close>

definition media_body ::
  "'s script_env \<Rightarrow> fetch_input \<Rightarrow> string \<Rightarrow> ('s, string) page_op \<Rightarrow> ('s, string \<times> bool) page_op" where
  "media_body C inp subject capture s =
     then_do (pg_goto (sc_page C) (in_url inp) (or_default (in_waitUntil inp) WaitNetworkIdle) (script_timeout C inp) s) (\<lambda>_ s1.
     then_do (pg_content (sc_page C) s1) (\<lambda>html s2.
     then_do (capture s2) (\<lambda>img s3.
     (res_bind (assertBoundedBuffer (sc_config C) img subject) (\<lambda>b. Inr (b, hasAccessChallenge html)), s3))))"

definition captured_media ::
  "'s script_env \<Rightarrow> ('s, string \<times> bool) with_context \<Rightarrow> fetch_input \<Rightarrow> string \<Rightarrow> required_capability \<Rightarrow> ('s, string) page_op \<Rightarrow>
   ('s, string) page_op" where
  "captured_media C ctx inp subject need capture s =
     then_do (check_script_url C inp (in_url inp) s) (\<lambda>_ s1.
     then_do (runChallengeFallback (sc_config C) (sc_admit C)
         (\<lambda>b options s. then_do (ctx (in_viewport inp) (in_proxy inp) b options (media_body C inp subject capture) s)
            (\<lambda>v s'. (Inr (v, snd v), s')))
         inp (preferred_backend C inp) (Some need) s1) (\<lambda>f s2. (Inr (fst (fb_value f)), s2)))"

record shot_parameters =
  sp_jpeg :: bool
  sp_full :: bool
  sp_level :: "int option"

definition screenshot ::
  "'s script_env \<Rightarrow> ('s, string \<times> bool) with_context \<Rightarrow> (shot_parameters \<Rightarrow> ('s, string) page_op) \<Rightarrow> fetch_input \<Rightarrow> bool \<Rightarrow> bool option \<Rightarrow>
   int option \<Rightarrow> ('s, string) page_op" where
  "screenshot C ctx shoot inp jpeg fullPage quality =
     captured_media C ctx inp ''Screenshot'' NeedScreenshots
       (shoot \<lparr>sp_jpeg = jpeg, sp_full = or_default fullPage True, sp_level = (if jpeg \<and> or_default quality 0 \<noteq> 0 then quality else None)\<rparr>)"

record pdf_parameters =
  pp_format :: string
  pp_landscape :: bool
  pp_background :: bool
  pp_margin :: "(string \<times> string) list option"

definition pdf ::
  "'s script_env \<Rightarrow> ('s, string \<times> bool) with_context \<Rightarrow> (pdf_parameters \<Rightarrow> ('s, string) page_op) \<Rightarrow> fetch_input \<Rightarrow> string option \<Rightarrow>
   bool option \<Rightarrow> bool option \<Rightarrow> (string \<times> string) list option \<Rightarrow> ('s, string) page_op" where
  "pdf C ctx print inp format landscape background margin =
     captured_media C ctx inp ''PDF'' NeedPdf
       (print \<lparr>pp_format = or_default format ''A4'', pp_landscape = or_default landscape False, pp_background = or_default background True,
          pp_margin = margin\<rparr>)"

section \<open>Recordings\<close>

record recorded_page =
  rv_video :: "nat option"
  rv_finalUrl :: string
  rv_challenge :: bool

text \<open>Temporary directories by name; a video is known by a handle, and saving it yields its bytes.\<close>

record 's recorder =
  rd_mkdtemp :: "'s \<Rightarrow> string outcome \<times> 's"
  rd_rm :: "string \<Rightarrow> 's \<Rightarrow> 's"
  rd_video :: "'s \<Rightarrow> nat option"
  rd_save :: "nat \<Rightarrow> string \<Rightarrow> ('s, string) page_op"

definition recording_body :: "'s script_env \<Rightarrow> 's recorder \<Rightarrow> fetch_input \<Rightarrow> millis option \<Rightarrow> ('s, recorded_page) page_op" where
  "recording_body C D inp durationMs s =
     (let video = rd_video D s in
      then_do (pg_goto (sc_page C) (in_url inp) (or_default (in_waitUntil inp) WaitDomContentLoaded) (script_timeout C inp) s) (\<lambda>_ s1.
      then_do (pg_content (sc_page C) s1) (\<lambda>html s2.
      let challenged = hasAccessChallenge html;
          s3 = (if challenged then s2 else pg_sleep (sc_page C) (min (max (or_default durationMs 1500) 0) 10000) s2) in
      (res_bind (normalizeUrl (sc_parse C) (pg_url (sc_page C) s3)) (\<lambda>u.
         Inr \<lparr>rv_video = video, rv_finalUrl = u, rv_challenge = challenged\<rparr>), s3))))"

definition no_video :: js_error where
  "no_video = ob_err ''RENDER_FAILED'' ''Browser did not produce a video recording'' 422 True"

definition recording_too_large :: js_error where
  "recording_too_large = ob_err ''PAYLOAD_TOO_LARGE'' ''Recording exceeds the configured artifact byte limit'' 413 False"

definition recording_error :: "js_error \<Rightarrow> js_error" where
  "recording_error e =
     (case e of
        OpenBrowseError _ \<Rightarrow> e
      | JsError m \<Rightarrow>
          if is_timeout_message m then ob_err ''TARGET_TIMEOUT'' ''Video recording timed out'' 408 True
          else OpenBrowseError \<lparr>code = ''RENDER_FAILED'', message = ''Video recording failed'', statusCode = 422, retryable = True,
                 details = [(''cause'', JStr m)]\<rparr>)"

definition video_size :: "fetch_input \<Rightarrow> int \<times> int" where
  "video_size inp = (case in_viewport inp of Some v \<Rightarrow> (vp_width v, vp_height v) | None \<Rightarrow> (1280, 720))"

definition record_in ::
  "'s script_env \<Rightarrow> 's recorder \<Rightarrow> ('s, recorded_page) with_context \<Rightarrow> fetch_input \<Rightarrow> millis option \<Rightarrow> string \<Rightarrow>
   ('s, string \<times> recorded_page fallback_result) page_op" where
  "record_in C D ctx inp durationMs dir s =
     then_do (runChallengeFallback (sc_config C) (sc_admit C)
         (\<lambda>b options s. then_do (ctx (in_viewport inp) (in_proxy inp) b options (recording_body C D inp durationMs) s)
            (\<lambda>v s'. (Inr (v, rv_challenge v), s')))
         inp (preferred_backend C inp) (Some NeedRecordings) s) (\<lambda>f s1.
     case rv_video (fb_value f) of
       None \<Rightarrow> (Inl no_video, s1)
     | Some v \<Rightarrow> then_do (rd_save D v dir s1) (\<lambda>body s2.
         (if int (length body) > maxResponseBytes (sc_config C) then Inl recording_too_large else Inr (body, f), s2)))"

definition recordVideo ::
  "'s script_env \<Rightarrow> 's recorder \<Rightarrow> (string \<Rightarrow> int \<times> int \<Rightarrow> ('s, recorded_page) with_context) \<Rightarrow> fetch_input \<Rightarrow> millis option \<Rightarrow>
   ('s, string \<times> recorded_page fallback_result) page_op" where
  "recordVideo C D ctx inp durationMs s =
     then_do (check_script_url C inp (in_url inp) s) (\<lambda>_ s1.
     then_do (rd_mkdtemp D s1) (\<lambda>dir s2.
     (case catching recording_error (record_in C D (ctx dir (video_size inp)) inp durationMs dir s2) of
        (r, s3) \<Rightarrow> (r, rd_rm D dir s3))))"

end
