(* ===== verification/OB_Media_Props.thy ===== *)
theory OB_Media_Props
  imports OB_Media
begin

text \<open>
  What workflows, downloads, captures and recordings promise: which outputs a workflow reports, that every error has a
  code, and the bounds of what is returned.
\<close>

section \<open>The outputs of a workflow\<close>

lemma mapped_Inr_iff: "map_sum id g r = Inr y \<longleftrightarrow> (\<exists>x. r = Inr x \<and> y = g x)"
  by (cases r) auto

lemma keys_map_set: "fst ` set (map_set k v m) = insert k (fst ` set m)"
  by (simp add: dom_update)

text \<open>The pool lends a page to the function and returns what the function returned.\<close>

definition lends :: "('s, 'v) with_context \<Rightarrow> bool" where
  "lends ctx \<longleftrightarrow> (\<forall>v p b options body s x s'. ctx v p b options body s = (Inr x, s') \<longrightarrow> (\<exists>s1 s2. body s1 = (Inr x, s2)))"

fun step_name :: "workflow_step \<Rightarrow> string option" where
  "step_name (StepExtract name _ _ _ _) = Some name"
| "step_name _ = None"

definition step_names :: "workflow_step list \<Rightarrow> string set" where
  "step_names steps = {n. \<exists>st \<in> set steps. step_name st = Some n}"

lemma step_names_Cons: "step_names (st # sts) = set_option (step_name st) \<union> step_names sts"
  by (cases "step_name st") (auto simp: step_names_def)

lemma run_step_names:
  assumes "run_step P ms step out s = (Inr out1, s1)"
  shows "fst ` set out1 = fst ` set out \<union> set_option (step_name step)"
proof (cases step)
  case (StepExtract name sel kind attribute every)
  with assms obtain v where "out1 = map_set name v out" by (auto simp: run_step_def then_do_Inr_iff Let_def)
  then have "fst ` set out1 = insert name (fst ` set out)" by (simp only: keys_map_set)
  with StepExtract show ?thesis by simp
qed (use assms in \<open>auto simp: run_step_def then_do_Inr_iff\<close>)

lemma run_steps_names:
  "run_steps P ms steps out s = ((out', failed), s') \<Longrightarrow>
     \<exists>done rest. steps = done @ rest \<and> fst ` set out' = fst ` set out \<union> step_names done \<and> (failed = None \<longrightarrow> rest = [])"
proof (induction steps arbitrary: out s)
  case Nil
  then show ?case by (intro exI [of _ "[]"]) (simp add: step_names_def)
next
  case (Cons step steps)
  obtain r s1 where r: "run_step P ms step out s = (r, s1)" by (rule prod.exhaust)
  show ?case
  proof (cases r)
    case (Inl e)
    with Cons.prems r have "step # steps = [] @ (step # steps) \<and> fst ` set out' = fst ` set out \<union> step_names [] \<and> failed \<noteq> None"
      by (auto simp: step_names_def)
    then show ?thesis by blast
  next
    case (Inr out1)
    with Cons.prems r have "run_steps P ms steps out1 s1 = ((out', failed), s')" by simp
    from Cons.IH [OF this] obtain ran rest where "steps = ran @ rest" "fst ` set out' = fst ` set out1 \<union> step_names ran"
      "failed = None \<longrightarrow> rest = []" by blast
    with run_step_names [of P ms step out s out1 s1] r Inr have "step # steps = (step # ran) @ rest \<and>
        fst ` set out' = fst ` set out \<union> step_names (step # ran) \<and> (failed = None \<longrightarrow> rest = [])"
      by (auto simp: step_names_Cons)
    then show ?thesis by blast
  qed
qed

lemma workflow_body_outputs:
  assumes "workflow_body C inp steps s = (Inr p, s')"
  shows "\<exists>done rest. steps = done @ rest \<and> fst ` set (wf_outputs p) = step_names done \<and> (rest \<noteq> [] \<longrightarrow> wf_challenge p)"
proof -
  from assms obtain s1 where "pg_goto (sc_page C) (in_url inp) (or_default (in_waitUntil inp) WaitDomContentLoaded) (script_timeout C inp) s = (Inr (), s1)"
    by (auto simp: workflow_body_def Let_def then_do_Inr_iff)
  obtain out failed s2 where run: "run_steps (sc_page C) (script_timeout C inp) steps [] s1 = ((out, failed), s2)"
    by (metis prod.exhaust)
  from run_steps_names [OF run] obtain ran rest where split: "steps = ran @ rest" "fst ` set out = step_names ran" "failed = None \<longrightarrow> rest = []"
    by auto
  have "wf_outputs p = out \<and> (failed \<noteq> None \<longrightarrow> wf_challenge p)"
    using assms run \<open>pg_goto _ _ _ _ _ = _\<close>
    by (auto simp: workflow_body_def Let_def then_do_Inr_iff split: if_splits sum.splits)
  with split show ?thesis by blast
qed

lemma fallback_produced:
  "runChallengeFallback cfg admit attempt inp preferred need s = (Inr r, s') \<Longrightarrow>
     produced attempt inp (fb_selectedBackend r) (fb_value r) (fb_challengeRemaining r)"
  using runChallengeFallback_ok [of cfg admit attempt inp preferred need s r s'] by (simp add: fallback_ok_def)

lemma produced_on_page:
  assumes "lends ctx" "produced (\<lambda>b options s. then_do (ctx v p b options body s) (\<lambda>x s'. (Inr (x, flag x), s'))) inp b x challenged"
  shows "challenged = flag x \<and> (\<exists>s1 s2. body s1 = (Inr x, s2))"
proof -
  from assms(2) obtain s where "fst (then_do (ctx v p b (fallback_options inp b) body s) (\<lambda>x s'. (Inr (x, flag x), s'))) = Inr (x, challenged)"
    by (auto simp: produced_def)
  then obtain s' where "ctx v p b (fallback_options inp b) body s = (Inr x, s')" "challenged = flag x"
    by (cases "ctx v p b (fallback_options inp b) body s"; cases "fst (ctx v p b (fallback_options inp b) body s)") auto
  with assms(1) show ?thesis unfolding lends_def by blast
qed

lemma catching_Inr: "catching f r = (Inr x, s) \<longleftrightarrow> r = (Inr x, s)"
  by (cases r; cases "fst r") (auto simp: catching_def)


section \<open>Errors have a code\<close>

lemma script_error_known: "isOpenBrowseError (script_error a b e)"
  by (cases e) (simp_all add: script_error_def isOpenBrowseError_def ob_err_def)

lemma recording_error_known: "isOpenBrowseError (recording_error e)"
  by (cases e) (simp_all add: recording_error_def isOpenBrowseError_def ob_err_def)

lemma catching_Inl: "catching f r = (Inl e, s) \<Longrightarrow> \<exists>e'. e = f e'"
  by (cases r; cases "fst r") (auto simp: catching_def)

lemma then_do_Inl_iff: "then_do r f = (Inl e, s') \<longleftrightarrow> r = (Inl e, s') \<or> (\<exists>x w. r = (Inr x, w) \<and> f x w = (Inl e, s'))"
  by (cases r; cases "fst r") auto

text \<open>Once the address passed the guard, every error of a workflow, a download or a recording is one of the program's own,
  with a code and a status: no message of the browser reaches the caller as an unknown failure. A recording removes
  its directory on every path.\<close>

theorem script_errors_known:
  assumes "check_script_url C inp (in_url inp) s = (Inr (), s0)"
  shows "(runWorkflow C wctx inp steps s = (Inl e, s') \<longrightarrow> isOpenBrowseError e) \<and>
    (browserDownload C dctx click inp sel i s = (Inl e, s') \<longrightarrow> isOpenBrowseError e) \<and>
    (rd_mkdtemp D s0 = (Inr dir, s1) \<longrightarrow>
       (recordVideo C D rctx inp ms s = (Inl e, s') \<longrightarrow> isOpenBrowseError e) \<and>
       (\<exists>r s2. recordVideo C D rctx inp ms s = (r, rd_rm D dir s2)))"
proof (intro conjI impI)
  show "isOpenBrowseError e" if "runWorkflow C wctx inp steps s = (Inl e, s')"
    using that assms script_error_known by (auto simp: runWorkflow_def dest!: catching_Inl)
  show "isOpenBrowseError e" if "browserDownload C dctx click inp sel i s = (Inl e, s')"
    using that assms script_error_known by (auto simp: browserDownload_def dest!: catching_Inl)
next
  assume dir: "rd_mkdtemp D s0 = (Inr dir, s1)"
  obtain r s2 where r: "catching recording_error (record_in C D (rctx dir (video_size inp)) inp ms dir s1) = (r, s2)" by (rule prod.exhaust)
  then have v: "recordVideo C D rctx inp ms s = (r, rd_rm D dir s2)" using assms dir by (simp add: recordVideo_def)
  then show "\<exists>r s2. recordVideo C D rctx inp ms s = (r, rd_rm D dir s2)" by blast
  show "isOpenBrowseError e" if "recordVideo C D rctx inp ms s = (Inl e, s')"
  proof -
    from that v have "r = Inl e" by simp
    with r have "catching recording_error (record_in C D (rctx dir (video_size inp)) inp ms dir s1) = (Inl e, s2)" by simp
    from catching_Inl [OF this] show ?thesis using recording_error_known by auto
  qed
qed

section \<open>Downloads\<close>

lemma read_download_Inr:
  "read_download cfg chunks failure acc = Inr body \<Longrightarrow> int (length acc) \<le> maxResponseBytes cfg \<Longrightarrow>
     failure = None \<and> body = acc @ concat chunks \<and> int (length body) \<le> maxResponseBytes cfg"
proof (induction chunks arbitrary: acc)
  case (Cons chunk chunks)
  then have "int (length (acc @ chunk)) \<le> maxResponseBytes cfg" "read_download cfg chunks failure (acc @ chunk) = Inr body"
    by (auto split: if_splits)
  from Cons.IH [OF this(2,1)] show ?case by auto
qed (auto split: option.splits)

lemma safe_filename_ok:
  "safe_filename s \<noteq> [] \<and> length (safe_filename s) \<le> 180 \<and> (\<forall>c \<in> set (safe_filename s). \<not> unsafe_name_char c)"
proof -
  define t where "t = take 180 (map (\<lambda>c. if unsafe_name_char c then CHR ''_'' else c) s)"
  have "\<not> unsafe_name_char CHR ''_''" by code_simp
  then have t: "\<forall>c \<in> set t. \<not> unsafe_name_char c" "length t \<le> 180"
    unfolding t_def by (auto dest!: in_set_takeD split: if_splits)
  have s: "safe_filename s = (if t = [] then ''download'' else t)"
    by (simp only: safe_filename_def Let_def t_def)
  have d: "list_all (\<lambda>c. \<not> unsafe_name_char c) ''download'' \<and> length ''download'' \<le> 180" by code_simp
  show ?thesis
  proof (cases "t = []")
    case True
    with s have "safe_filename s = ''download''" by simp
    with d show ?thesis unfolding list_all_iff by simp
  next
    case False
    with s t show ?thesis by simp
  qed
qed


section \<open>A page for the witnesses\<close>

definition sample_script_page :: "unit script_page" where
  "sample_script_page = \<lparr>pg_goto = (\<lambda>_ _ _ s. (Inr (), s)), pg_waitVisible = (\<lambda>_ _ s. (Inr (), s)), pg_click = (\<lambda>_ _ _ s. (Inr (), s)),
     pg_fill = (\<lambda>_ _ _ s. (Inl (JsError ''Timeout 10ms exceeded''), s)), pg_press = (\<lambda>_ _ _ s. (Inr (), s)), pg_all = (\<lambda>_ s. (Inr [], s)),
     pg_inner = (\<lambda>_. []), pg_content = (\<lambda>s. (Inr ''<p>ok</p>'', s)), pg_title = (\<lambda>s. (Inr ''ok'', s)),
     pg_url = (\<lambda>_. ''https://93.184.216.34/''), pg_sleep = (\<lambda>_ s. s)\<rparr>"

definition sample_script :: "unit script_env" where
  "sample_script = \<lparr>sc_config = sample_config, sc_parse = (\<lambda>_. Some public_url), sc_guard = (\<lambda>_ _. None), sc_stringify = (\<lambda>_. Some ''{}''),
     sc_admit = sample_admission, sc_page = sample_script_page\<rparr>"

definition lend_page :: "(unit, 'v) with_context" where
  "lend_page v p b options body = body"

lemma lend_page_lends: "lends lend_page"
  by (auto simp: lends_def lend_page_def)

definition sample_extraction :: "workflow_step list" where
  "sample_extraction = [StepWait ''p'', StepExtract ''t'' ''p'' RuleText None True]"

definition sample_workflow_answer :: "workflow_page fallback_result" where
  "sample_workflow_answer = \<lparr>fb_value = \<lparr>wf_finalUrl = ''https://93.184.216.34/'', wf_title = ''ok'',
     wf_outputs = [(''t'', JArr [])], wf_challenge = False\<rparr>, fb_backendAttempts = [Playwright],
     fb_selectedBackend = Playwright, fb_challengeRemaining = False\<rparr>"

lemma sample_workflow_run:
  "runWorkflow sample_script lend_page sample_request sample_extraction () = (Inr sample_workflow_answer, ())"
  by code_simp


definition sample_recorder :: "unit recorder" where
  "sample_recorder = \<lparr>rd_mkdtemp = (\<lambda>s. (Inr ''/tmp/v'', s)), rd_rm = (\<lambda>_ s. s), rd_video = (\<lambda>_. None), rd_save = (\<lambda>_ _ s. (Inr [], s))\<rparr>"

definition sample_download :: started_download where
  "sample_download = \<lparr>sd_url = ''https://93.184.216.34/a'', sd_stream = Some ([''ab'', ''c''], None), sd_suggested = ''a/b.csv''\<rparr>"

definition sample_click :: "string \<Rightarrow> nat \<Rightarrow> millis \<Rightarrow> (unit, started_download) page_op" where
  "sample_click sel i ms s = (Inr sample_download, s)"

lemma sample_target_checked: "check_script_url sample_script sample_request (in_url sample_request) () = (Inr (), ())"
  by code_simp

lemma sample_timeout_run:
  "runWorkflow sample_script lend_page sample_request [StepFill ''p'' ''x''] ()
     = (Inl (ob_err ''TARGET_TIMEOUT'' ''Workflow step timed out'' 408 True), ())"
  by code_simp

lemma sample_directory: "rd_mkdtemp sample_recorder () = (Inr ''/tmp/v'', ())"
  by (simp add: sample_recorder_def)

theorem script_errors_known_witness:
  "isOpenBrowseError (ob_err ''TARGET_TIMEOUT'' ''Workflow step timed out'' 408 True) \<and>
   (\<exists>r s2. recordVideo sample_script sample_recorder (\<lambda>_ _. lend_page) sample_request None () = (r, rd_rm sample_recorder ''/tmp/v'' s2))"
  using script_errors_known [OF sample_target_checked, where wctx = lend_page and steps = "[StepFill ''p'' ''x'']" and
      e = "ob_err ''TARGET_TIMEOUT'' ''Workflow step timed out'' 408 True" and s' = "()" and dctx = lend_page and click = sample_click and
      sel = "''a''" and i = None and D = sample_recorder and dir = "''/tmp/v''" and ?s1.0 = "()" and rctx = "\<lambda>_ _. lend_page" and ms = None]
    sample_timeout_run sample_directory by blast

definition sample_downloaded :: download_result where
  "sample_downloaded = \<lparr>dl_body = ''abc'', dl_filename = ''a_b.csv'', dl_contentType = ''text/csv; charset=utf-8'',
     dl_sourceUrl = ''https://93.184.216.34/a''\<rparr>"

lemma sample_script_fields: "sc_page sample_script = sample_script_page" "sc_config sample_script = sample_config"
  by (simp_all add: sample_script_def)

lemma sample_download_parts:
  "check_script_url sample_script sample_request ''https://93.184.216.34/a'' () = (Inr (), ())"
  "safe_filename ''a/b.csv'' = ''a_b.csv''"
  "download_type ''a_b.csv'' = ''text/csv; charset=utf-8''"
  "read_download (sc_config sample_script) [''ab'', ''c''] None [] = Inr ''abc''"
  by code_simp+

lemma sample_download_run:
  "browserDownload sample_script lend_page sample_click sample_request ''a'' None () = (Inr sample_downloaded, ())"
  unfolding browserDownload_def sample_target_checked
  by (simp add: download_body_def sample_download_parts sample_script_page_def sample_script_fields(1) lend_page_def sample_click_def
      sample_download_def sample_downloaded_def catching_def del: read_download.simps)

lemma sample_bytes: "0 \<le> maxResponseBytes (sc_config sample_script)"
  using sample_config_ok by (simp add: sample_script_fields config_ok_def)


end
