(* ===== verification/OB_Sockets.thy ===== *)
theory OB_Sockets
  imports OB_Launch OB_Cdp OB_SessionRoutes OB_Jobs OB_BqlExec "HOL-Library.Sublist"
begin

text \<open>
  The WebSocket relays between a client and a browser, \<open>src/src/server/routes/sockets.ts\<close>, the socket of
  \<open>src/src/server/routes/cdp-reconnect.ts\<close> and that of \<open>src/src/server/routes/sessions/interaction.ts\<close>. The two sockets
  and the browser send their events in any order that the protocol allows; each listener is one operation on the
  state of the relay.
\<close>

section \<open>The request\<close>

text \<open>\<open>Number.isSafeInteger\<close> holds of an integer between \<open>-(2 ^ 53 - 1)\<close> and \<open>2 ^ 53 - 1\<close>.\<close>

definition safe_integer :: "int \<Rightarrow> bool" where
  "safe_integer n \<longleftrightarrow> \<bar>n\<bar> < 2 ^ 53"

text \<open>The life of a relay, from the text of the parameter \<open>timeout\<close> if it has one.\<close>

definition relay_ttl :: "config \<Rightarrow> string option \<Rightarrow> millis" where
  "relay_ttl cfg raw =
     (case raw of
        None \<Rightarrow> jobTimeoutMs cfg
      | Some s \<Rightarrow>
          (case parse_int s of
             Some n \<Rightarrow> if safe_integer n then min (max n 1000) (jobTimeoutMs cfg) else jobTimeoutMs cfg
           | None \<Rightarrow> jobTimeoutMs cfg))"

datatype relay_kind =
    SessionRelay   \<comment> \<open>\<open>/chromium/playwright\<close>: a live session of its own\<close>
  | CdpRelay       \<comment> \<open>\<open>/\<close>, \<open>/chromium\<close>, \<open>/chrome\<close>: a Chromium of its own\<close>
  | NativeRelay    \<comment> \<open>\<open>/firefox/playwright\<close>, \<open>/webkit/playwright\<close>: a browser server of its own\<close>
  | TargetRelay    \<comment> \<open>\<open>/v1/cdp/sessions/:id\<close>: a browser that outlives the socket\<close>
  | DirectRelay    \<comment> \<open>\<open>/v1/sessions/:id/cdp\<close>\<close>
  | ViewerRelay    \<comment> \<open>\<open>/v1/sessions/:id/vnc\<close>\<close>

text \<open>\<open>rq_timeout\<close>, \<open>rq_record\<close> and \<open>rq_replay\<close> are parameters that are texts.\<close>

record relay_query =
  rq_timeout :: "string option"
  rq_record :: "string option"
  rq_replay :: "string option"
  rq_launch :: jsval
  rq_headless :: jsval

record launch_parsers =
  lq_json :: "string \<Rightarrow> jsval option"
  lq_base64 :: "string \<Rightarrow> string"
  lq_schema :: "jsval \<Rightarrow> client_launch outcome"

definition relay_options :: "config \<Rightarrow> launch_parsers \<Rightarrow> relay_query \<Rightarrow> safe_launch_options outcome" where
  "relay_options cfg P q = parseClientLaunchOptions cfg (lq_json P) (lq_base64 P) (lq_schema P) (rq_launch q) (rq_headless q)"

fun headful_refusal :: "relay_kind \<Rightarrow> string" where
  "headful_refusal CdpRelay = ''Headful CDP is reserved for live VNC sessions''"
| "headful_refusal _ = ''Headful Playwright is reserved for live VNC sessions''"

text \<open>The close code for a request that is refused before anything is launched.\<close>

definition refuse_relay :: "config \<Rightarrow> relay_kind \<Rightarrow> safe_launch_options \<Rightarrow> (int \<times> string) option" where
  "refuse_relay cfg kind launch =
     (if sl_headless launch = Some False \<and> vncBridgeUrl cfg \<noteq> [] then Some (1008, headful_refusal kind) else None)"

section \<open>The state\<close>

datatype socket_state = SocketConnecting | SocketOpen | SocketClosing | SocketClosed

datatype browser_life = NoBrowser | BrowserStarting | BrowserRunning | BrowserStopped

text \<open>\<open>rl_taken\<close> is every message of the client in order, \<open>rl_waiting\<close> the array \<open>pendingMessages\<close>, \<open>rl_sent\<close> what the upstream
  socket was given and \<open>rl_lost\<close> what no listener kept; \<open>rl_emitted\<close> is what upstream sent while the client was
  open, \<open>rl_returned\<close> what the client was given. \<open>rl_watching\<close> says whether the listener for the end of the client
  is registered, \<open>rl_directory\<close> whether the profile directory of a launched Chromium exists; \<open>rl_early\<close> records that the client went
  away while the browser was starting.\<close>

record 'm relay =
  rl_kind :: relay_kind
  rl_taken :: "'m list"
  rl_waiting :: "'m list"
  rl_sent :: "'m list"
  rl_lost :: "'m list"
  rl_emitted :: "'m list"
  rl_returned :: "'m list"
  rl_upstream :: "socket_state option"
  rl_client :: socket_state
  rl_closeCode :: "(int \<times> string) option"
  rl_watching :: bool
  rl_browser :: browser_life
  rl_directory :: bool
  rl_timer :: bool
  rl_early :: bool

definition direct :: "relay_kind \<Rightarrow> bool" where
  "direct kind \<longleftrightarrow> kind \<in> {DirectRelay, ViewerRelay}"

definition launches :: "relay_kind \<Rightarrow> bool" where
  "launches kind \<longleftrightarrow> kind \<in> {SessionRelay, CdpRelay, NativeRelay}"

definition relay_start :: "relay_kind \<Rightarrow> 'm relay" where
  "relay_start kind =
     \<lparr>rl_kind = kind, rl_taken = [], rl_waiting = [], rl_sent = [], rl_lost = [], rl_emitted = [], rl_returned = [],
      rl_upstream = (if launches kind then None else Some SocketConnecting), rl_client = SocketOpen, rl_closeCode = None,
      rl_watching = (kind \<noteq> SessionRelay), rl_browser = (if launches kind then BrowserStarting else NoBrowser),
      rl_directory = (kind = CdpRelay), rl_timer = False, rl_early = False\<rparr>"

section \<open>The listeners\<close>

definition client_message :: "'m \<Rightarrow> 'm relay \<Rightarrow> 'm relay" where
  "client_message m R =
     (let R1 = R\<lparr>rl_taken := rl_taken R @ [m]\<rparr> in
      if rl_upstream R = Some SocketOpen then R1\<lparr>rl_sent := rl_sent R @ [m]\<rparr>
      else if direct (rl_kind R) then R1\<lparr>rl_lost := rl_lost R @ [m]\<rparr>
      else R1\<lparr>rl_waiting := rl_waiting R @ [m]\<rparr>)"

text \<open>\<open>client.close(code, reason)\<close> does nothing when the client is closing already.\<close>

definition close_client :: "(int \<times> string) option \<Rightarrow> 'm relay \<Rightarrow> 'm relay" where
  "close_client reason R =
     (if rl_client R = SocketOpen then R\<lparr>rl_client := SocketClosing, rl_closeCode := reason\<rparr> else R)"

definition launch_done :: "'m relay \<Rightarrow> 'm relay" where
  "launch_done R =
     R\<lparr>rl_browser := BrowserRunning, rl_upstream := Some SocketConnecting, rl_watching := True, rl_timer := True\<rparr>"

fun launch_refusal :: "relay_kind \<Rightarrow> string" where
  "launch_refusal NativeRelay = ''Could not start Playwright browser session''"
| "launch_refusal _ = ''Could not start Chromium CDP session''"

text \<open>A Chromium that fails to start removes its own directory. The handler of a session has no \<open>catch\<close>: its promise rejects.\<close>

definition launch_failed :: "'m relay \<Rightarrow> 'm relay" where
  "launch_failed R =
     (let R1 = R\<lparr>rl_browser := NoBrowser, rl_directory := False\<rparr> in
      if rl_kind R = SessionRelay then R1 else close_client (Some (1011, launch_refusal (rl_kind R))) R1)"

definition upstream_open :: "'m relay \<Rightarrow> 'm relay" where
  "upstream_open R = R\<lparr>rl_upstream := Some SocketOpen, rl_sent := rl_sent R @ rl_waiting R, rl_waiting := []\<rparr>"

definition upstream_message :: "'m \<Rightarrow> 'm relay \<Rightarrow> 'm relay" where
  "upstream_message m R =
     (if rl_client R = SocketOpen then R\<lparr>rl_emitted := rl_emitted R @ [m], rl_returned := rl_returned R @ [m]\<rparr> else R)"

definition upstream_close :: "'m relay \<Rightarrow> 'm relay" where
  "upstream_close R = close_client None (R\<lparr>rl_upstream := Some SocketClosed\<rparr>)"

fun upstream_refusal :: "relay_kind \<Rightarrow> string" where
  "upstream_refusal SessionRelay = ''Playwright upstream error''"
| "upstream_refusal NativeRelay = ''Playwright upstream error''"
| "upstream_refusal ViewerRelay = ''VNC bridge error''"
| "upstream_refusal _ = ''CDP upstream error''"

definition upstream_error :: "'m relay \<Rightarrow> 'm relay" where
  "upstream_error R = close_client (Some (1011, upstream_refusal (rl_kind R))) R"

definition relay_timeout :: "'m relay \<Rightarrow> 'm relay" where
  "relay_timeout R = close_client (Some (1000, ''Session timeout'')) (R\<lparr>rl_timer := False\<rparr>)"

text \<open>\<open>upstream?.close()\<close>.\<close>

definition close_upstream :: "'m relay \<Rightarrow> 'm relay" where
  "close_upstream R =
     (if rl_upstream R \<in> {Some SocketConnecting, Some SocketOpen} then R\<lparr>rl_upstream := Some SocketClosing\<rparr> else R)"

text \<open>\<open>await browser?.stop()\<close>: stopping a Chromium also removes its directory.\<close>

definition stop_browser :: "'m relay \<Rightarrow> 'm relay" where
  "stop_browser R =
     (if rl_browser R \<in> {BrowserRunning, BrowserStopped}
      then R\<lparr>rl_browser := BrowserStopped, rl_directory := False\<rparr> else R)"

definition client_closed :: "'m relay \<Rightarrow> 'm relay" where
  "client_closed R =
     (let R1 = R\<lparr>rl_client := SocketClosed, rl_early := (rl_browser R = BrowserStarting)\<rparr> in if rl_watching R then stop_browser (close_upstream R1) else R1)"

text \<open>The timer inside \<open>launchCdpBrowser\<close> closes the browser and leaves the directory to \<open>stop\<close>.\<close>

definition kill_timer :: "'m relay \<Rightarrow> 'm relay" where
  "kill_timer R = R\<lparr>rl_browser := BrowserStopped\<rparr>"

section \<open>The runs\<close>

inductive relay_step :: "'m relay \<Rightarrow> 'm relay \<Rightarrow> bool" where
  step_client_message: "rl_client R \<noteq> SocketClosed \<Longrightarrow> relay_step R (client_message m R)"
| step_launch_done: "rl_browser R = BrowserStarting \<Longrightarrow> relay_step R (launch_done R)"
| step_launch_failed: "rl_browser R = BrowserStarting \<Longrightarrow> relay_step R (launch_failed R)"
| step_upstream_open: "rl_upstream R = Some SocketConnecting \<Longrightarrow> relay_step R (upstream_open R)"
| step_upstream_message: "rl_upstream R \<in> {Some SocketOpen, Some SocketClosing} \<Longrightarrow> relay_step R (upstream_message m R)"
| step_upstream_error: "rl_upstream R \<notin> {None, Some SocketClosed} \<Longrightarrow> relay_step R (upstream_error R)"
| step_upstream_close: "rl_upstream R \<notin> {None, Some SocketClosed} \<Longrightarrow> relay_step R (upstream_close R)"
| step_timeout: "rl_timer R \<Longrightarrow> relay_step R (relay_timeout R)"
| step_client_closed: "rl_client R \<noteq> SocketClosed \<Longrightarrow> relay_step R (client_closed R)"
| step_kill_timer: "rl_kind R = CdpRelay \<Longrightarrow> rl_browser R = BrowserRunning \<Longrightarrow> relay_step R (kill_timer R)"

inductive_cases relay_stepE: "relay_step R R'"

lemmas relay_ops = client_message_def close_client_def launch_done_def launch_failed_def upstream_open_def upstream_message_def
  upstream_close_def upstream_error_def relay_timeout_def close_upstream_def stop_browser_def client_closed_def kill_timer_def

text \<open>Nothing is lost, doubled or reordered in either direction. A browser runs after the end of the client only when the
  client went away before the browser was there.\<close>

definition relay_inv :: "'m relay \<Rightarrow> bool" where
  "relay_inv R \<longleftrightarrow>
     rl_returned R = rl_emitted R \<and>
     (\<not> direct (rl_kind R) \<longrightarrow> rl_taken R = rl_sent R @ rl_waiting R \<and> rl_lost R = []) \<and>
     (direct (rl_kind R) \<longrightarrow> rl_waiting R = [] \<and> subseq (rl_sent R) (rl_taken R) \<and>
        length (rl_taken R) = length (rl_sent R) + length (rl_lost R)) \<and>
     (rl_upstream R = Some SocketOpen \<longrightarrow> rl_waiting R = []) \<and>
     (rl_browser R = BrowserStarting \<longrightarrow> rl_upstream R = None) \<and>
     (rl_upstream R = None \<longrightarrow> rl_sent R = [] \<and> rl_browser R \<in> {BrowserStarting, NoBrowser}) \<and>
     (rl_watching R \<or> rl_browser R = BrowserStarting \<or> rl_browser R = NoBrowser \<and> rl_upstream R = None) \<and>
     (rl_client R = SocketClosed \<and> rl_browser R \<in> {BrowserStarting, BrowserRunning} \<longrightarrow> rl_early R) \<and>
     (rl_client R = SocketClosed \<and> rl_directory R \<longrightarrow> rl_early R) \<and>
     (rl_client R = SocketClosed \<and> rl_upstream R \<in> {Some SocketConnecting, Some SocketOpen} \<longrightarrow> rl_early R) \<and>
     (rl_directory R \<longrightarrow> rl_kind R = CdpRelay \<and> rl_browser R \<noteq> NoBrowser)"

lemma relay_start_inv: "relay_inv (relay_start kind)"
  by (cases kind) (simp_all add: relay_inv_def relay_start_def launches_def direct_def)

lemma client_message_inv: "relay_inv R \<Longrightarrow> relay_inv (client_message m R)"
  by (cases "rl_upstream R = Some SocketOpen") (auto simp: relay_inv_def client_message_def Let_def list_emb_append_mono subseq_rev_drop_many)

lemma close_client_inv: "relay_inv R \<Longrightarrow> relay_inv (close_client reason R)"
  by (cases "rl_client R = SocketOpen") (auto simp: relay_inv_def close_client_def)

lemma launch_done_inv: "relay_inv R \<Longrightarrow> rl_browser R = BrowserStarting \<Longrightarrow> relay_inv (launch_done R)"
  by (simp add: relay_inv_def launch_done_def)

lemma launch_failed_inv:
  assumes "relay_inv R" "rl_browser R = BrowserStarting"
  shows "relay_inv (launch_failed R)"
proof -
  have "relay_inv (R\<lparr>rl_browser := NoBrowser, rl_directory := False\<rparr>)" using assms by (simp add: relay_inv_def)
  then show ?thesis by (simp add: launch_failed_def Let_def close_client_inv)
qed

lemma upstream_open_inv: "relay_inv R \<Longrightarrow> rl_upstream R = Some SocketConnecting \<Longrightarrow> relay_inv (upstream_open R)"
  by (auto simp: relay_inv_def upstream_open_def)

lemma upstream_message_inv: "relay_inv R \<Longrightarrow> relay_inv (upstream_message m R)"
  by (cases "rl_client R = SocketOpen") (simp_all add: relay_inv_def upstream_message_def)

lemma upstream_close_inv: "relay_inv R \<Longrightarrow> rl_upstream R \<noteq> None \<Longrightarrow> relay_inv (upstream_close R)"
  unfolding upstream_close_def by (rule close_client_inv) (auto simp: relay_inv_def)

lemma relay_timeout_inv: "relay_inv R \<Longrightarrow> relay_inv (relay_timeout R)"
  unfolding relay_timeout_def by (rule close_client_inv) (simp add: relay_inv_def)

lemma client_closed_inv: "relay_inv R \<Longrightarrow> rl_client R \<noteq> SocketClosed \<Longrightarrow> relay_inv (client_closed R)"
  by (cases "rl_watching R"; cases "rl_browser R"; cases "rl_upstream R \<in> {Some SocketConnecting, Some SocketOpen}")
    (auto simp: relay_inv_def client_closed_def close_upstream_def stop_browser_def Let_def)

lemma kill_timer_inv: "relay_inv R \<Longrightarrow> rl_browser R = BrowserRunning \<Longrightarrow> relay_inv (kill_timer R)"
  by (auto simp: relay_inv_def kill_timer_def)

lemmas relay_op_invs = client_message_inv launch_done_inv launch_failed_inv upstream_open_inv upstream_message_inv
  upstream_close_inv relay_timeout_inv client_closed_inv kill_timer_inv close_client_inv

lemma relay_step_inv: "relay_step R R' \<Longrightarrow> relay_inv R \<Longrightarrow> relay_inv R'"
  by (induction rule: relay_step.induct) (auto simp: upstream_error_def intro: relay_op_invs)

interpretation relay_system: invariant_system relay_step relay_inv
  by unfold_locales (rule relay_step_inv)

lemma relay_kind_fixed: "relay_step R R' \<Longrightarrow> rl_kind R' = rl_kind R"
  by (cases rule: relay_step.cases) (auto simp: relay_ops Let_def)

section \<open>The end of a session relay\<close>

text \<open>The trace is stored for the life of the relay, rounded up to whole seconds.\<close>

definition store_trace :: "'s route_env \<Rightarrow> string \<Rightarrow> string \<Rightarrow> millis \<Rightarrow> string \<Rightarrow> ('s, unit) route_op" where
  "store_trace R sid owner ttl trace w =
     (let now = rt_now R (snd w); secs = - ((- ttl) div 1000) in
      then_do (on_store (createArtifact (rt_store R) (rt_newId R (snd w)) now trace ''application/zip'' owner (Some secs)) w) (\<lambda>a w1.
      then_do (on_store (\<lambda>S. map_prod id (\<lambda>t. S\<lparr>sg_jobs := t\<rparr>)
        (createReplay (''rpl_'' @ rt_newId R (snd w)) now sid (art_id a) secs owner (sg_jobs S))) w1) (\<lambda>_. settled (Inr ()))))"

definition relay_cleanup :: "'s route_env \<Rightarrow> 's job_env \<Rightarrow> string \<Rightarrow> string \<Rightarrow> millis \<Rightarrow> ('s, unit) route_op" where
  "relay_cleanup R J sid owner ttl w =
     then_do (on_live (rt_stopTrace R sid) w) (\<lambda>trace w1.
     then_do (case trace of None \<Rightarrow> (Inr (), w1) | Some t \<Rightarrow> store_trace R sid owner ttl t w1) (\<lambda>_ w2.
     then_do (on_live (lp_close (rt_page R) sid) w2) (\<lambda>_ w3.
     then_do (on_store (deleteSession (rt_store R) sid (rt_now R (snd w3))) w3) (\<lambda>_ w4.
     dispatchWebhooks J owner ''session.closed'' (JObj [(''sessionId'', JStr sid)]) w4))))"

section \<open>Opening a relay\<close>

datatype 'm connection = Refused "int \<times> string" | Relayed "'m relay"

definition open_relay :: "config \<Rightarrow> relay_kind \<Rightarrow> safe_launch_options \<Rightarrow> 'm connection" where
  "open_relay cfg kind launch = (case refuse_relay cfg kind launch of Some why \<Rightarrow> Refused why | None \<Rightarrow> Relayed (relay_start kind))"

definition cdp_relay :: "config \<Rightarrow> launch_parsers \<Rightarrow> relay_query \<Rightarrow> ('m connection \<times> launch_settings \<times> millis) outcome" where
  "cdp_relay cfg P q =
     res_bind (relay_options cfg P q) (\<lambda>launch. Inr (open_relay cfg CdpRelay launch, cdp_settings cfg [] launch, relay_ttl cfg (rq_timeout q)))"

record native_settings =
  nv_headless :: bool
  nv_slowMo :: "int option"
  nv_ignoreHTTPSErrors :: "bool option"
  nv_args :: "string list option"

definition native_options :: "string \<Rightarrow> safe_launch_options \<Rightarrow> native_settings" where
  "native_options browser launch =
     \<lparr>nv_headless = or_default (sl_headless launch) True, nv_slowMo = sl_slowMo launch, nv_ignoreHTTPSErrors = sl_acceptInsecureCerts launch,
      nv_args = (if browser = ''chromium'' then sl_args launch else None)\<rparr>"

definition native_relay :: "config \<Rightarrow> launch_parsers \<Rightarrow> string \<Rightarrow> relay_query \<Rightarrow> ('m connection \<times> native_settings \<times> millis) outcome" where
  "native_relay cfg P browser q =
     res_bind (relay_options cfg P q) (\<lambda>launch.
       Inr (open_relay cfg NativeRelay launch, native_options browser launch, relay_ttl cfg (rq_timeout q)))"

text \<open>The session of a session relay, and its launch, which the relay waits for.\<close>

definition session_relay ::
  "'s route_env \<Rightarrow> launch_parsers \<Rightarrow> gate_answer \<Rightarrow> relay_query \<Rightarrow> ('s, 'm connection \<times> stored_session option) route_op" where
  "session_relay R P who q w =
     (let E = rt_store R; cfg = se_config E; now = rt_now R (snd w) in
      then_do (settled (relay_options cfg P q) w) (\<lambda>launch w1.
      case open_relay cfg SessionRelay launch of
        Refused why \<Rightarrow> (Inr (Refused why, None), w1)
      | Relayed relay \<Rightarrow>
          then_do (settled (requestKeyHash who) w1) (\<lambda>owner w2.
          then_do (on_store (createSession E (rt_newId R (snd w)) (rt_iv R (snd w)) now
             \<lparr>ses_id = [], ses_ownerKeyHash = Some owner, ses_persistent = False, ses_createdAt = 0,
              ses_expiresAt = now + relay_ttl cfg (rq_timeout q), ses_viewport = (1280, 720), ses_proxyId = None,
              ses_storageState = None, ses_liveViewer = False\<rparr>) w2) (\<lambda>s. settled (Inr (Relayed relay, Some s))))))"

definition session_launch :: "'s route_env \<Rightarrow> stored_session \<Rightarrow> relay_query \<Rightarrow> ('s, unit) route_op" where
  "session_launch R session q w =
     then_do (on_live (lp_get (rt_page R) session None) w) (\<lambda>_ w1.
       if rq_record q = Some ''true'' \<or> rq_replay q = Some ''true'' then on_live (rt_startTrace R session None) w1 else (Inr (), w1))"

definition viewer_relay :: "'s route_env \<Rightarrow> jsval \<Rightarrow> ('s, 'm connection) route_op" where
  "viewer_relay R sid w =
     (if vncBridgeUrl (se_config (rt_store R)) = [] then (Inr (Refused (1013, ''VNC viewer unavailable'')), w)
      else (let refused = Refused (1008, ''Session is not a live VNC session'') in
            case sid of
              JStr s \<Rightarrow> (map_sum id (\<lambda>found. case found of
                           Some session \<Rightarrow> if ses_liveViewer session then Relayed (relay_start ViewerRelay) else refused
                         | None \<Rightarrow> refused) (getSession (rt_store R) s (rt_now R (snd w)) (fst w)), w)
            | _ \<Rightarrow> (Inr refused, w)))"

text \<open>\<open>ws_endpoint\<close> is the endpoint of the browser of a live session.\<close>

definition session_cdp_relay ::
  "'s route_env \<Rightarrow> (string \<Rightarrow> 's \<Rightarrow> string option) \<Rightarrow> gate_answer \<Rightarrow> string \<Rightarrow> ('s, 'm connection) route_op" where
  "session_cdp_relay R ws_endpoint who sid w =
     then_do (settled (getSession (rt_store R) sid (rt_now R (snd w)) (fst w)) w) (\<lambda>found w1.
     case found of
       None \<Rightarrow> (Inr (Refused (1008, ''Session not found'')), w1)
     | Some session \<Rightarrow>
         then_do (settled (requestKeyHash who) w1) (\<lambda>owner w2.
         then_do (live_session R session owner w2) (\<lambda>_ w3.
           (Inr (case ws_endpoint sid (snd w3) of
                   Some (_ # _) \<Rightarrow> Relayed (relay_start DirectRelay)
                 | _ \<Rightarrow> Refused (1011, ''Browser unavailable'')), w3))))"

section \<open>Reconnectable targets\<close>

text \<open>\<open>tg_launch\<close> launches the browser of a target, and \<open>tg_stop\<close> stops it.\<close>

record 's target_env =
  tg_config :: config
  tg_zod :: zod
  tg_sha :: "string \<Rightarrow> string"
  tg_now :: "'s \<Rightarrow> millis"
  tg_newId :: "'s \<Rightarrow> string"
  tg_token :: "'s \<Rightarrow> string"
  tg_iso :: "millis \<Rightarrow> string"
  tg_launch :: "millis \<Rightarrow> safe_launch_options \<Rightarrow> 's \<Rightarrow> nat outcome \<times> 's"
  tg_stop :: "nat \<Rightarrow> 's \<Rightarrow> unit outcome \<times> 's"

type_synonym ('s, 'a) target_op = "cdp_targets \<times> 's \<Rightarrow> 'a outcome \<times> cdp_targets \<times> 's"

definition connect_path :: "string \<Rightarrow> string \<Rightarrow> string" where
  "connect_path i token = ''/v1/cdp/sessions/'' @ i @ ''?accessToken='' @ token"

definition create_target_route :: "'s target_env \<Rightarrow> gate_answer \<Rightarrow> string option \<Rightarrow> jsval \<Rightarrow> ('s, jsval) target_op" where
  "create_target_route T who hostHeader body w =
     (let cfg = tg_config T in
      then_do (parse_request (tg_zod T) (SObject False
         [(''ttlSeconds'', SDefault (whole (Some 30) (Some (maxSessionTtlSeconds cfg))) (JNum 300)),
          (''headless'', SDefault SBool (JBool True))]) body, w) (\<lambda>parsed w1.
      let b = entries parsed; secs = or_default (int_field ''ttlSeconds'' b) 0 in
      then_do (requestKeyHash who, w1) (\<lambda>owner w2.
      then_do (case tg_launch T (cdp_ttl cfg secs) \<lparr>sl_args = None, sl_headless = Some (bool_field ''headless'' b), sl_slowMo = None,
                  sl_acceptInsecureCerts = None\<rparr> (snd w2) of (r, s) \<Rightarrow> (r, fst w2, s)) (\<lambda>browser w3.
      case cdp_create cfg (tg_sha T) (tg_newId T (snd w3)) (tg_token T (snd w3)) (tg_now T (snd w3)) owner secs browser (fst w3) of
        ((i, token, expires), ts) \<Rightarrow>
          (Inr (JObj [(''id'', JStr i), (''accessToken'', JStr token), (''expiresAt'', JStr (tg_iso T expires)),
             (''connectPath'', JStr (connect_path i token)),
             (''connectUrl'', JStr (''ws://'' @ or_default hostHeader (''localhost:'' @ show_int (port cfg)) @ connect_path i token)),
             (''protocol'', JStr ''cdp'')]), ts, snd w3)))))"

text \<open>The browser that the identifier and the token of a request name.\<close>

definition named_target :: "'s target_env \<Rightarrow> gate_answer \<Rightarrow> jsval \<Rightarrow> jsval \<Rightarrow> cdp_targets \<times> 's \<Rightarrow> (string \<times> nat) outcome" where
  "named_target T who params query w =
     res_bind (parse_request (tg_zod T) (SObject False [(''id'', SMatch (identifier_rx ''cdp_'') (SString 0 None))]) params) (\<lambda>p.
     res_bind (parse_request (tg_zod T) (SObject False [(''accessToken'', SString 40 (Some 256))]) query) (\<lambda>q.
     let i = text_of ''id'' (entries p) in
     res_bind (requestKeyHash who) (\<lambda>owner.
     map_sum id (\<lambda>b. (i, b)) (cdp_get (tg_sha T) (tg_now T (snd w)) i owner (text_of ''accessToken'' (entries q)) (fst w)))))"

definition delete_target_route :: "'s target_env \<Rightarrow> gate_answer \<Rightarrow> jsval \<Rightarrow> jsval \<Rightarrow> ('s, bool) target_op" where
  "delete_target_route T who params query w =
     then_do (named_target T who params query w, w) (\<lambda>(i, _) w1.
     case cdp_close i (fst w1) of
       (None, ts) \<Rightarrow> (Inr True, ts, snd w1)
     | (Some b, ts) \<Rightarrow> (case tg_stop T b (snd w1) of (r, s) \<Rightarrow> (map_sum id (\<lambda>_. True) r, ts, s)))"

definition target_relay :: "'s target_env \<Rightarrow> gate_answer \<Rightarrow> jsval \<Rightarrow> jsval \<Rightarrow> cdp_targets \<times> 's \<Rightarrow> 'm connection" where
  "target_relay T who params query w =
     (case named_target T who params query w of
        Inr _ \<Rightarrow> Relayed (relay_start TargetRelay)
      | Inl (OpenBrowseError e) \<Rightarrow> Refused (1008, message e)
      | Inl (JsError _) \<Rightarrow> Refused (1008, ''Could not connect CDP session''))"

end
