(* ===== verification/OB_Sockets_Props.thy ===== *)
theory OB_Sockets_Props
  imports OB_Sockets OB_SessionRoutes_Props
begin

text \<open>
  What a relay promises: no message is lost, doubled or reordered, nothing it started outlives its client, the exception to
  that, and how long it lives.
\<close>

lemma relay_reach_kind: "reach relay_step R R' \<Longrightarrow> rl_kind R' = rl_kind R"
  by (induction rule: reach.induct) (auto dest: relay_kind_fixed)

lemma relay_ttl_bounds: "1000 \<le> jobTimeoutMs cfg \<Longrightarrow> 1000 \<le> relay_ttl cfg raw \<and> relay_ttl cfg raw \<le> jobTimeoutMs cfg"
  by (auto simp: relay_ttl_def split: option.splits)


text \<open>A browser that nobody watches: no event stops it.\<close>

lemma abandoned_step:
  "relay_step R R' \<Longrightarrow> rl_client R = SocketClosed \<Longrightarrow> rl_browser R = BrowserRunning \<Longrightarrow>
     rl_client R' = SocketClosed \<and> rl_kind R' = rl_kind R \<and> rl_directory R' = rl_directory R \<and>
     (rl_kind R \<noteq> CdpRelay \<longrightarrow> rl_browser R' = BrowserRunning)"
  by (cases rule: relay_step.cases) (auto simp: relay_ops Let_def)

lemma stopped_step:
  "relay_step R R' \<Longrightarrow> rl_client R = SocketClosed \<Longrightarrow> rl_browser R = BrowserStopped \<Longrightarrow>
     rl_client R' = SocketClosed \<and> rl_browser R' = BrowserStopped \<and> rl_directory R' = rl_directory R"
  by (cases rule: relay_step.cases) (auto simp: relay_ops Let_def)

lemma abandoned_native:
  "reach relay_step R R' \<Longrightarrow> rl_client R = SocketClosed \<Longrightarrow> rl_browser R = BrowserRunning \<Longrightarrow> rl_kind R = NativeRelay \<Longrightarrow>
     rl_client R' = SocketClosed \<and> rl_browser R' = BrowserRunning \<and> rl_kind R' = NativeRelay"
  by (induction rule: reach.induct) (auto dest: abandoned_step)

lemma abandoned_directory:
  "reach relay_step R R' \<Longrightarrow> rl_client R = SocketClosed \<Longrightarrow> rl_browser R = BrowserRunning \<Longrightarrow> rl_directory R \<Longrightarrow>
     rl_client R' = SocketClosed \<and> rl_browser R' \<in> {BrowserRunning, BrowserStopped} \<and> rl_directory R'"
proof (induction rule: reach.induct)
  case (reach_step S T)
  then have S: "rl_client S = SocketClosed" "rl_browser S \<in> {BrowserRunning, BrowserStopped}" "rl_directory S" by auto
  from reach_step.hyps(2) show ?case
    using S by cases (auto simp: relay_ops Let_def)
qed simp

definition abandoned :: "relay_kind \<Rightarrow> 'm relay" where
  "abandoned kind = launch_done (client_closed (relay_start kind))"

lemma abandoned_reached:
  assumes "launches kind"
  shows "reach relay_step (relay_start kind) (abandoned kind)"
proof -
  have gone: "relay_step (relay_start kind) (client_closed (relay_start kind))"
    by (rule step_client_closed) (simp add: relay_start_def)
  have late: "relay_step (client_closed (relay_start kind)) (abandoned kind)"
    unfolding abandoned_def using assms by (intro step_launch_done) (simp add: relay_start_def relay_ops Let_def)
  show ?thesis by (rule reach_head [OF gone reach_one [where step = relay_step, OF late]])
qed

lemma abandoned_state:
  "launches kind \<Longrightarrow> rl_client (abandoned kind) = SocketClosed \<and> rl_browser (abandoned kind) = BrowserRunning \<and>
     rl_kind (abandoned kind) = kind \<and> rl_directory (abandoned kind) = (kind = CdpRelay)"
  by (simp add: abandoned_def relay_start_def relay_ops Let_def)

text \<open>A client that goes away while its browser is starting leaves it behind: \<open>cleanup\<close> has run before there was anything to stop,
  and nothing that can happen afterwards stops a Firefox or WebKit server, or removes the profile directory of a
  Chromium.\<close>

theorem relay_leaks_browser:
  "(\<exists>R :: 'a relay. reach relay_step (relay_start NativeRelay) R \<and> (\<forall>R'. reach relay_step R R' \<longrightarrow> rl_client R' = SocketClosed \<and> rl_browser R' = BrowserRunning)) \<and>
   (\<exists>R :: 'b relay. reach relay_step (relay_start CdpRelay) R \<and> (\<forall>R'. reach relay_step R R' \<longrightarrow> rl_client R' = SocketClosed \<and> rl_directory R'))"
proof -
  have l: "launches NativeRelay" "launches CdpRelay" by (simp_all add: launches_def)
  have n: "rl_client R' = SocketClosed \<and> rl_browser R' = BrowserRunning" if "reach relay_step (abandoned NativeRelay) R'" for R' :: "'a relay"
    using abandoned_native [OF that] by (simp add: abandoned_state l)
  have c: "rl_client R' = SocketClosed \<and> rl_directory R'" if "reach relay_step (abandoned CdpRelay) R'" for R' :: "'b relay"
    using abandoned_directory [OF that] by (simp add: abandoned_state l)
  show ?thesis using abandoned_reached [OF l(1)] n abandoned_reached [OF l(2)] c by blast
qed

section \<open>The end of a session relay\<close>

text \<open>A trace that cannot be stored ends the cleanup before the session is closed: its row stays, and the rejection is handled by
  nobody, because \<open>cleanup\<close> is called with \<open>void\<close>.\<close>

lemma relay_cleanup_stops:
  assumes "rt_stopTrace R sid (snd w) = (Inr (Some t), s1)"
    and "createArtifact (rt_store R) (rt_newId R s1) (rt_now R s1) t ''application/zip'' owner (Some (- ((- ttl) div 1000))) (fst w) = (Inl e, S1)"
  shows "relay_cleanup R J sid owner ttl w = (Inl e, S1, s1) \<and> sg_sessions S1 = sg_sessions (fst w)"
proof -
  have "sg_sessions S1 = sg_sessions (fst w)" using assms(2)
    by (cases "artifact_create (se_artifactsDir (rt_store R)) (rt_newId R s1) (rt_now R s1) t ''application/zip'' (- ((- ttl) div 1000)) owner
          (sg_artifacts (fst w))") (auto simp: createArtifact_def)
  then show ?thesis using assms by (simp add: relay_cleanup_def store_trace_def on_live_def on_store_def Let_def)
qed

text \<open>A message sent while the browser starts is delivered when it is up.\<close>

definition greeted :: "string relay" where
  "greeted = upstream_open (launch_done (client_message ''hello'' (relay_start CdpRelay)))"

lemma greeted_reached: "reach relay_step (relay_start CdpRelay) greeted"
proof -
  have 1: "relay_step (relay_start CdpRelay) (client_message ''hello'' (relay_start CdpRelay))"
    by (rule step_client_message) (simp add: relay_start_def)
  have 2: "relay_step (client_message ''hello'' (relay_start CdpRelay)) (launch_done (client_message ''hello'' (relay_start CdpRelay)))"
    by (rule step_launch_done) (simp add: relay_start_def relay_ops launches_def direct_def Let_def)
  have 3: "relay_step (launch_done (client_message ''hello'' (relay_start CdpRelay))) greeted"
    unfolding greeted_def by (rule step_upstream_open) (simp add: relay_ops Let_def direct_def relay_start_def launches_def)
  show ?thesis by (rule reach_head [OF 1 reach_head [OF 2 reach_one [where step = relay_step, OF 3]]])
qed


theorem relay_leaks_browser_witness:
  "\<exists>R :: string relay. reach relay_step (relay_start NativeRelay) R \<and> rl_client R = SocketClosed \<and> rl_browser R = BrowserRunning"
  using relay_leaks_browser reach_start [of relay_step] by blast

end
