(* ===== verification/OB_Launchers.thy ===== *)
theory OB_Launchers
  imports OB_Content
begin

text \<open>
  Starting a browser worker, \<open>launchBrowserWorker\<close> of \<open>src/src/execution/browser-launchers.ts\<close>: one server per backend, the
  connection to it, and the text of the error when it fails. The packages that start processes are a driver.
\<close>

section \<open>The error of a launch\<close>

definition not_separator :: "char \<Rightarrow> bool" where
  "not_separator c \<longleftrightarrow> \<not> is_space c \<and> c \<noteq> CHR 0x22 \<and> c \<noteq> CHR 0x27"

definition key_flag :: string where
  "key_flag = ''--profile-encryption-key''"

definition key_rx :: rx where
  "key_rx = seqs [lit_i key_flag, RAlt (ch (CHR ''='')) (plus space), plus (RSym not_separator)]"

definition credentials_rx :: rx where
  "credentials_rx = seqs [alts [RSeq (lit_i ''http'') (opt (lit_i ''s'')), lit_i ''socks5''], lit ''://'',
     plus (RSym (\<lambda>c. \<not> is_space c \<and> c \<notin> {CHR ''/'', CHR ''@'', CHR '':''})), ch (CHR '':''),
     plus (RSym (\<lambda>c. \<not> is_space c \<and> c \<notin> {CHR ''/'', CHR ''@''})), ch (CHR ''@'')]"

text \<open>The scheme that \<open>$1\<close> stands for.\<close>

definition scheme_of :: "string \<Rightarrow> string" where
  "scheme_of m = takeWhile (\<lambda>c. c \<noteq> CHR '':'') m @ ''://''"

definition redactBrowserLaunchError :: "js_error \<Rightarrow> string" where
  "redactBrowserLaunchError e =
     rx_replace_all credentials_rx (\<lambda>m. scheme_of m @ ''[REDACTED]@'')
       (rx_replace_all key_rx (\<lambda>_. key_flag @ ''=[REDACTED]'')
         (case e of OpenBrowseError o' \<Rightarrow> message o' | JsError m \<Rightarrow> m))"

definition backend_unavailable :: "string \<Rightarrow> js_error \<Rightarrow> js_error" where
  "backend_unavailable m e =
     (case e of
        OpenBrowseError _ \<Rightarrow> e
      | JsError _ \<Rightarrow> OpenBrowseError \<lparr>code = ''BROWSER_BACKEND_UNAVAILABLE'', message = m, statusCode = 503, retryable = True,
          details = [(''cause'', JStr (redactBrowserLaunchError e))]\<rparr>)"

section \<open>The driver\<close>

record launch_request =
  lr_headless :: bool
  lr_executable :: "string option"
  lr_sandbox :: "bool option"
  lr_ignoreDefaultArgs :: "string list"
  lr_args :: "string list"
  lr_camoufox :: "resolved_camoufox option"
  lr_human :: "(bool \<times> human_preset) option"
  lr_timeout :: millis

text \<open>\<open>ln_import\<close> is a dynamic import; a server and a browser are handles. Closing swallows its errors.\<close>

record 's launcher =
  ln_import :: "string \<Rightarrow> 's \<Rightarrow> unit outcome \<times> 's"
  ln_build :: "launch_request \<Rightarrow> 's \<Rightarrow> launch_request outcome \<times> 's"
  ln_launch :: "backend \<Rightarrow> launch_request \<Rightarrow> 's \<Rightarrow> nat outcome \<times> 's"
  ln_connect :: "backend \<Rightarrow> nat \<Rightarrow> millis \<Rightarrow> 's \<Rightarrow> nat outcome \<times> 's"
  ln_humanize :: "nat \<Rightarrow> human_preset \<Rightarrow> (string \<times> humanization_value) list option \<Rightarrow> 's \<Rightarrow> unit outcome \<times> 's"
  ln_closeBrowser :: "nat \<Rightarrow> 's \<Rightarrow> 's"
  ln_closeServer :: "nat \<Rightarrow> 's \<Rightarrow> 's"
  ln_pid :: "nat \<Rightarrow> 's \<Rightarrow> int option"
  ln_chromiumPath :: string
  ln_platform :: string
  ln_hmac :: "string \<Rightarrow> string \<Rightarrow> string"
  ln_stringify :: "jsval \<Rightarrow> string"
  ln_localeLe :: "string \<Rightarrow> string \<Rightarrow> bool"

record launched_worker =
  lw_backend :: backend
  lw_browser :: nat
  lw_server :: nat
  lw_pid :: int
  lw_profileKey :: string

definition clearcoteProfileEncryptionKey :: "'s launcher \<Rightarrow> config \<Rightarrow> string" where
  "clearcoteProfileEncryptionKey L cfg = ln_hmac L (encryptionKey cfg) ''openbrowse/clearcote/profile-encryption-key/v1''"

section \<open>Connecting\<close>

definition humanizes :: "backend \<Rightarrow> backend_options option \<Rightarrow> bool" where
  "humanizes b options \<longleftrightarrow> b = CloakBrowser \<and> or_default (Option.bind options humanize) True"

definition preset_of :: "backend_options option \<Rightarrow> human_preset" where
  "preset_of options = or_default (Option.bind options humanPreset) PresetDefault"

definition connect_browser :: "'s launcher \<Rightarrow> config \<Rightarrow> backend \<Rightarrow> nat \<Rightarrow> backend_options option \<Rightarrow> 's \<Rightarrow> nat outcome \<times> 's" where
  "connect_browser L cfg b server options s =
     then_do (ln_connect L b server (browserLaunchTimeoutMs cfg) s) (\<lambda>browser s1.
       if humanizes b options
       then then_do (ln_import L ''cloakbrowser'' s1) (\<lambda>_ s2.
              then_do (ln_humanize L browser (preset_of options) (Option.bind options humanConfig) s2) (\<lambda>_ s3. (Inr browser, s3)))
       else (Inr browser, s1))"

definition connectServer :: "'s launcher \<Rightarrow> config \<Rightarrow> backend \<Rightarrow> nat \<Rightarrow> backend_options option \<Rightarrow> 's \<Rightarrow> launched_worker outcome \<times> 's" where
  "connectServer L cfg b server options s =
     (case connect_browser L cfg b server options s of
        (Inl e, s1) \<Rightarrow> (Inl e, ln_closeServer L server s1)
      | (Inr browser, s1) \<Rightarrow>
          (case ln_pid L server s1 of
             Some pid \<Rightarrow>
               if pid = 0
               then (Inl (JsError ''Browser server did not expose a process PID''), ln_closeServer L server (ln_closeBrowser L browser s1))
               else (Inr \<lparr>lw_backend = b, lw_browser = browser, lw_server = server, lw_pid = pid,
                          lw_profileKey = browserProfileKey (ln_stringify L) (ln_localeLe L) (ln_platform L) b options\<rparr>, s1)
           | None \<Rightarrow> (Inl (JsError ''Browser server did not expose a process PID''),
                      ln_closeServer L server (ln_closeBrowser L browser s1))))"

section \<open>Launching\<close>

definition plain_request :: "config \<Rightarrow> bool \<Rightarrow> launch_request" where
  "plain_request cfg headless =
     \<lparr>lr_headless = headless, lr_executable = None, lr_sandbox = Some (chromiumSandbox cfg), lr_ignoreDefaultArgs = [],
      lr_args = chromiumExtensionArgs cfg, lr_camoufox = None, lr_human = None, lr_timeout = browserLaunchTimeoutMs cfg\<rparr>"

definition unavailable :: "string \<Rightarrow> 'a outcome \<times> 's \<Rightarrow> 'a outcome \<times> 's" where
  "unavailable m r = (case r of (Inl e, s) \<Rightarrow> (Inl (backend_unavailable m e), s) | (Inr x, s) \<Rightarrow> (Inr x, s))"

definition patchright_failed :: string where
  "patchright_failed = ''Patchright could not launch with the installed Playwright Chromium binary''"

definition launch_patchright :: "'s launcher \<Rightarrow> config \<Rightarrow> bool \<Rightarrow> 's \<Rightarrow> nat outcome \<times> 's" where
  "launch_patchright L cfg headless s =
     then_do (ln_import L ''patchright'' s) (\<lambda>_.
       ln_launch L Patchright ((plain_request cfg headless)\<lparr>lr_executable := Some (ln_chromiumPath L)\<rparr>))"

definition camoufox_failed :: string where
  "camoufox_failed = ''Camoufox could not launch; provision its verified browser with 'npm run prepare:camoufox' and CAMOUFOX_INSTALL_DIR when using a custom data path''"

definition launch_camoufox :: "'s launcher \<Rightarrow> config \<Rightarrow> backend_options option \<Rightarrow> bool \<Rightarrow> 's \<Rightarrow> nat outcome \<times> 's" where
  "launch_camoufox L cfg options headless s =
     then_do (ln_import L ''camoufox-js'' s) (\<lambda>_ s1.
     then_do (ln_import L ''playwright-core'' s1) (\<lambda>_.
       ln_launch L Camoufox \<lparr>lr_headless = headless, lr_executable = None, lr_sandbox = None, lr_ignoreDefaultArgs = [], lr_args = [],
         lr_camoufox = Some (resolvedCamoufoxOptions (ln_platform L) options), lr_human = None, lr_timeout = browserLaunchTimeoutMs cfg\<rparr>))"

definition clearcote_missing :: js_error where
  "clearcote_missing = ob_err ''BROWSER_BACKEND_UNAVAILABLE''
     ''Clearcote requires OPENBROWSE_CLEARCOTE_EXECUTABLE_PATH to point at an operator-verified browser binary'' 503 True"

definition clearcote_failed :: string where
  "clearcote_failed = ''Clearcote could not launch its operator-managed browser binary''"

definition launch_clearcote :: "'s launcher \<Rightarrow> config \<Rightarrow> backend_options option \<Rightarrow> bool \<Rightarrow> 's \<Rightarrow> nat outcome \<times> 's" where
  "launch_clearcote L cfg options headless =
     ln_launch L Clearcote ((plain_request cfg headless)\<lparr>lr_executable := Some (clearcoteExecutablePath cfg),
       lr_ignoreDefaultArgs := [''--enable-automation''],
       lr_args := chromiumExtensionArgs cfg @ [key_flag @ ''='' @ clearcoteProfileEncryptionKey L cfg]
         @ or_default (Option.bind options fingerprintArgs) []\<rparr>)"

definition cloak_failed :: string where
  "cloak_failed = ''CloakBrowser could not resolve or launch its operator-managed binary''"

definition launch_cloak :: "'s launcher \<Rightarrow> config \<Rightarrow> backend_options option \<Rightarrow> bool \<Rightarrow> 's \<Rightarrow> nat outcome \<times> 's" where
  "launch_cloak L cfg options headless s =
     then_do (ln_import L ''cloakbrowser'' s) (\<lambda>_ s1.
     then_do (ln_build L ((plain_request cfg headless)\<lparr>
         lr_args := chromiumExtensionArgs cfg @ or_default (Option.bind options fingerprintArgs) [],
         lr_human := Some (or_default (Option.bind options humanize) True, preset_of options)\<rparr>) s1)
       (ln_launch L CloakBrowser))"

text \<open>
  \<open>connectServer\<close> is returned and not awaited inside the \<open>try\<close>, so the \<open>catch\<close> covers the launch of the server only.
\<close>

definition launch_server :: "'s launcher \<Rightarrow> config \<Rightarrow> backend \<Rightarrow> backend_options option \<Rightarrow> bool \<Rightarrow> 's \<Rightarrow> nat outcome \<times> 's" where
  "launch_server L cfg b options headless s =
     (case b of
        Playwright \<Rightarrow> ln_launch L Playwright (plain_request cfg headless) s
      | Patchright \<Rightarrow> unavailable patchright_failed (launch_patchright L cfg headless s)
      | Camoufox \<Rightarrow> unavailable camoufox_failed (launch_camoufox L cfg options headless s)
      | Clearcote \<Rightarrow>
          if clearcoteExecutablePath cfg = [] then (Inl clearcote_missing, s)
          else unavailable clearcote_failed (launch_clearcote L cfg options headless s)
      | CloakBrowser \<Rightarrow> unavailable cloak_failed (launch_cloak L cfg options headless s))"

definition launchBrowserWorker ::
  "'s launcher \<Rightarrow> config \<Rightarrow> backend \<Rightarrow> backend_options option \<Rightarrow> bool option \<Rightarrow> 's \<Rightarrow> launched_worker outcome \<times> 's" where
  "launchBrowserWorker L cfg b options headless s =
     (case assertBrowserBackendEnabled cfg b of
        Inl e \<Rightarrow> (Inl e, s)
      | Inr _ \<Rightarrow>
          then_do (launch_server L cfg b options (or_default headless (browserHeadless cfg)) s) (\<lambda>server.
            connectServer L cfg b server options))"

end
