(* ===== verification/OB_Launchers_Props.thy ===== *)
theory OB_Launchers_Props
  imports OB_Launchers
begin

text \<open>
  What the launch of a worker promises: a failure leaves no server, the error that the operator's key can appear in does not
  depend on the key, and which failures the fallback never sees as one of a backend.
\<close>

section \<open>A failed launch leaves no server\<close>

lemma connectServer_cases:
  "connectServer L cfg b server options s = (r, s') \<Longrightarrow>
     (case r of
        Inl _ \<Rightarrow> \<exists>s2. s' = ln_closeServer L server s2
      | Inr w \<Rightarrow> lw_server w = server \<and> lw_backend w = b \<and> lw_pid w \<noteq> 0 \<and>
          lw_profileKey w = browserProfileKey (ln_stringify L) (ln_localeLe L) (ln_platform L) b options \<and>
          (\<exists>s1. ln_connect L b server (browserLaunchTimeoutMs cfg) s1 = (Inr (lw_browser w), snd (ln_connect L b server (browserLaunchTimeoutMs cfg) s1))))"
proof -
  assume run: "connectServer L cfg b server options s = (r, s')"
  obtain q s1 where q: "connect_browser L cfg b server options s = (q, s1)" by (rule prod.exhaust)
  show ?thesis
  proof (cases q)
    case (Inl e)
    with run q show ?thesis by (auto simp: connectServer_def)
  next
    case (Inr browser)
    with q have "fst (ln_connect L b server (browserLaunchTimeoutMs cfg) s) = Inr browser"
      by (cases "ln_connect L b server (browserLaunchTimeoutMs cfg) s"; cases "fst (ln_connect L b server (browserLaunchTimeoutMs cfg) s)")
        (auto simp: connect_browser_def then_do_Inr_iff split: if_splits)
    then have "ln_connect L b server (browserLaunchTimeoutMs cfg) s = (Inr browser, snd (ln_connect L b server (browserLaunchTimeoutMs cfg) s))"
      by (metis prod.collapse)
    with run q Inr show ?thesis by (auto simp: connectServer_def split: option.splits if_splits)
  qed
qed

text \<open>C35. Once the server of a worker has been started, a launch that fails in any way closes it as its last act, so it leaves no process
  behind; a launch that succeeds answers with that server, a process identifier, and the profile key of its
  options. Nothing is started for a backend that is not enabled.\<close>

theorem failed_launch_closes_server:
  assumes "launchBrowserWorker L cfg b options headless s = (r, s')"
  shows "(assertBrowserBackendEnabled cfg b \<noteq> Inr () \<longrightarrow> s' = s \<and> (\<exists>e. r = Inl e)) \<and>
    (assertBrowserBackendEnabled cfg b = Inr () \<and>
     launch_server L cfg b options (or_default headless (browserHeadless cfg)) s = (Inr server, s1) \<longrightarrow>
       (case r of
          Inl _ \<Rightarrow> \<exists>s2. s' = ln_closeServer L server s2
        | Inr w \<Rightarrow> lw_server w = server \<and> lw_backend w = b \<and> lw_pid w \<noteq> 0 \<and>
            lw_profileKey w = browserProfileKey (ln_stringify L) (ln_localeLe L) (ln_platform L) b options))"
proof (intro conjI impI)
  assume "assertBrowserBackendEnabled cfg b \<noteq> Inr ()"
  then obtain e where "assertBrowserBackendEnabled cfg b = Inl e" by (cases "assertBrowserBackendEnabled cfg b") auto
  with assms show "s' = s" "\<exists>e. r = Inl e" by (auto simp: launchBrowserWorker_def)
next
  assume "assertBrowserBackendEnabled cfg b = Inr () \<and>
     launch_server L cfg b options (or_default headless (browserHeadless cfg)) s = (Inr server, s1)"
  with assms have "connectServer L cfg b server options s1 = (r, s')" by (simp add: launchBrowserWorker_def)
  from connectServer_cases [OF this] show "case r of
          Inl _ \<Rightarrow> \<exists>s2. s' = ln_closeServer L server s2
        | Inr w \<Rightarrow> lw_server w = server \<and> lw_backend w = b \<and> lw_pid w \<noteq> 0 \<and>
            lw_profileKey w = browserProfileKey (ln_stringify L) (ln_localeLe L) (ln_platform L) b options"
    by (auto split: sum.splits)
qed

section \<open>The key in an error\<close>

fun folds :: "string \<Rightarrow> string \<Rightarrow> bool" where
  "folds [] s = True"
| "folds (c # w) [] = False"
| "folds (c # w) (d # s) = (lower_char d = lower_char c \<and> folds w s)"

lemma lit_i_rest: "rx_rest (lit_i w) s = (if folds w s then [drop (length w) s] else [])"
  by (induction w s rule: folds.induct) (auto simp: lit_i_def)

lemma folds_append: "length w \<le> length x \<Longrightarrow> folds w (x @ y) = folds w x"
  by (induction w x rule: folds.induct) auto

lemma star_rests: "x \<in> set (rx_rest (RStar (RSym P)) s) \<Longrightarrow> x = dropWhile P s \<or> x \<noteq> [] \<and> P (hd x)"
proof (induction s)
  case (Cons c s)
  then show ?case by (cases "P c") (auto simp: rx_rest.simps(5) [of _ "c # s"])
qed (simp add: rx_rest.simps(5))

lemma star_first: "\<exists>ts. rx_rest (RStar (RSym P)) s = dropWhile P s # ts"
  by (induction s) (subst rx_rest.simps(5), force)+

lemma plus_first: "P c \<Longrightarrow> \<exists>ts. rx_rest (plus (RSym P)) (c # s) = dropWhile P s # ts \<and> (\<forall>t \<in> set ts. t = dropWhile P s \<or> t \<noteq> [] \<and> P (hd t))"
proof -
  assume c: "P c"
  obtain ts where ts: "rx_rest (RStar (RSym P)) s = dropWhile P s # ts" using star_first by blast
  then have "\<forall>t \<in> set ts. t = dropWhile P s \<or> t \<noteq> [] \<and> P (hd t)" using star_rests [of _ P s] by auto
  with ts c show ?thesis by (simp add: plus_def)
qed

lemma plus_none: "s = [] \<or> \<not> P (hd s) \<Longrightarrow> rx_rest (plus (RSym P)) s = []"
  by (cases s) (auto simp: plus_def)

definition run_rest :: "string \<Rightarrow> string option" where
  "run_rest s = (if s \<noteq> [] \<and> not_separator (hd s) then Some (dropWhile not_separator s) else None)"

definition key_rest :: "string \<Rightarrow> string option" where
  "key_rest s =
     (if \<not> folds key_flag s then None
      else (case drop (length key_flag) s of
              [] \<Rightarrow> None
            | c # t \<Rightarrow> if c = CHR ''='' then run_rest t else if is_space c then run_rest (dropWhile is_space t) else None))"

definition first_rest :: "string list \<Rightarrow> string option" where
  "first_rest ts = (case ts of [] \<Rightarrow> None | t # _ \<Rightarrow> Some t)"

lemma run_first: "first_rest (rx_rest (plus (RSym not_separator)) s) = run_rest s"
proof (cases "s \<noteq> [] \<and> not_separator (hd s)")
  case True
  then obtain c t where "s = c # t" "not_separator c" by (cases s) auto
  with plus_first [of not_separator c t] show ?thesis by (auto simp: first_rest_def run_rest_def)
next
  case False
  then show ?thesis using plus_none [of s not_separator] by (auto simp: first_rest_def run_rest_def)
qed

lemma equals_no_space: "\<not> is_space (CHR ''='')"
  by code_simp

lemma space_separates: "is_space c \<Longrightarrow> \<not> not_separator c"
  by (simp add: not_separator_def)

lemma separator_then_run:
  "first_rest (concat (map (rx_rest (plus (RSym not_separator))) (rx_rest (RAlt (ch (CHR ''='')) (plus space)) s)))
     = (case s of [] \<Rightarrow> None
        | c # t \<Rightarrow> if c = CHR ''='' then run_rest t else if is_space c then run_rest (dropWhile is_space t) else None)"
proof (cases s)
  case Nil
  then show ?thesis using plus_none [of "[]" is_space] by (simp add: first_rest_def ch_def space_def)
next
  case (Cons c t)
  show ?thesis
  proof (cases "is_space c")
    case True
    then have "c \<noteq> CHR ''=''" using equals_no_space by auto
    moreover obtain ts where ts: "rx_rest (plus (RSym is_space)) (c # t) = dropWhile is_space t # ts"
        "\<forall>u \<in> set ts. u = dropWhile is_space t \<or> u \<noteq> [] \<and> is_space (hd u)"
      using plus_first [of is_space c t] True by blast
    have none: "rx_rest (plus (RSym not_separator)) u = []" if "u \<noteq> []" "is_space (hd u)" for u
      using plus_none [of u not_separator] space_separates that by blast
    have "first_rest (concat (map (rx_rest (plus (RSym not_separator))) (dropWhile is_space t # ts))) = run_rest (dropWhile is_space t)"
    proof (cases "rx_rest (plus (RSym not_separator)) (dropWhile is_space t) = []")
      case True
      then have "concat (map (rx_rest (plus (RSym not_separator))) (dropWhile is_space t # ts)) = []" using ts(2) none by auto
      then show ?thesis using run_first [of "dropWhile is_space t"] by (simp only: True)
    next
      case False
      then show ?thesis using run_first [of "dropWhile is_space t"] by (auto simp: first_rest_def split: list.splits)
    qed
    ultimately show ?thesis using Cons ts(1) True by (simp add: ch_def space_def)
  next
    case False
    then have "rx_rest (plus space) s = []" using Cons plus_none [of s is_space] by (simp add: space_def)
    with False Cons show ?thesis by (simp add: ch_def run_first) (simp add: first_rest_def)
  qed
qed

lemma then_nothing: "rx_rest (RSeq r REps) s = rx_rest r s"
proof -
  have "concat (map (rx_rest REps) xs) = xs" for xs by (induction xs) auto
  then show ?thesis by simp
qed

lemma key_first: "first_rest (rx_rest key_rx s) = key_rest s"
proof -
  have f: "rx_rest (RSeq r REps) = rx_rest r" for r using then_nothing by blast
  have "rx_rest key_rx s = (if folds key_flag s then concat (map (rx_rest (plus (RSym not_separator)))
          (rx_rest (RAlt (ch (CHR ''='')) (plus space)) (drop (length key_flag) s))) else [])"
    by (simp add: key_rx_def seqs_def lit_i_rest f del: rx_rest.simps(4))
  then show ?thesis by (simp add: key_rest_def separator_then_run first_rest_def [of "[]"] del: rx_rest.simps(4))
qed

lemma length_dropWhile_less: "s \<noteq> [] \<Longrightarrow> P (hd s) \<Longrightarrow> length (dropWhile P s) < length s"
  using length_dropWhile_le [of P "tl s"] by (cases s) (auto simp: less_Suc_eq_le)

lemma run_rest_shorter: "run_rest s = Some t \<Longrightarrow> length t < length s"
  by (auto simp: run_rest_def length_dropWhile_less split: if_splits)

lemma key_rest_shorter: "key_rest s = Some t \<Longrightarrow> length t < length s"
proof -
  assume k: "key_rest s = Some t"
  then obtain c u where u: "drop (length key_flag) s = c # u" "run_rest u = Some t \<or> run_rest (dropWhile is_space u) = Some t"
    by (auto simp: key_rest_def split: if_splits list.splits)
  then have "length t < length u"
    using run_rest_shorter [of u t] run_rest_shorter [of "dropWhile is_space u" t] length_dropWhile_le [of is_space u] by auto
  moreover have "length u < length s" using arg_cong [OF u(1), of length] by simp
  ultimately show ?thesis by simp
qed

lemma replace_key:
  "rx_replace_all key_rx (\<lambda>_. v) s =
     (case key_rest s of
        None \<Rightarrow> (case s of [] \<Rightarrow> [] | c # t \<Rightarrow> c # rx_replace_all key_rx (\<lambda>_. v) t)
      | Some t \<Rightarrow> v @ rx_replace_all key_rx (\<lambda>_. v) t)"
proof (cases "rx_rest key_rx s")
  case Nil
  then have "key_rest s = None" using key_first [of s] by (simp add: first_rest_def)
  with Nil show ?thesis by (subst rx_replace_all.simps) simp
next
  case (Cons t ts)
  then have "key_rest s = Some t" using key_first [of s] by (simp add: first_rest_def)
  with Cons key_rest_shorter [of s t] show ?thesis by (subst rx_replace_all.simps) simp
qed

text \<open>A key, what follows it, and the text with the key in it.\<close>

definition key_text :: "string \<Rightarrow> bool" where
  "key_text k \<longleftrightarrow> k \<noteq> [] \<and> list_all not_separator k"

definition key_ends :: "string \<Rightarrow> bool" where
  "key_ends b \<longleftrightarrow> b = [] \<or> \<not> not_separator (hd b)"

definition flag_text :: string where
  "flag_text = key_flag @ ''=''"

lemma flag_chars: "list_all not_separator flag_text" "length flag_text = Suc (length key_flag)" "folds key_flag flag_text"
  "list_all (\<lambda>c. \<not> is_space c) flag_text" "flag_text \<noteq> []"
  "drop (length key_flag) flag_text = ''=''"
  by code_simp+

lemma dropWhile_key: "list_all P x \<Longrightarrow> b = [] \<or> \<not> P (hd b) \<Longrightarrow> dropWhile P (x @ b) = b"
  by (cases b) (simp_all add: dropWhile_append1 dropWhile_append2 list_all_iff)

lemma run_to_end: "list_all not_separator x \<Longrightarrow> x \<noteq> [] \<Longrightarrow> key_ends b \<Longrightarrow> run_rest (x @ b) = Some b"
  using dropWhile_key [of not_separator x b] by (cases x) (auto simp: run_rest_def key_ends_def)

text \<open>Where a run that starts before the flag ends.\<close>

lemma run_before:
  "(\<forall>k. key_text k \<longrightarrow> run_rest (u @ flag_text @ k @ b) = None) \<or>
   (\<forall>k. key_text k \<longrightarrow> run_rest (u @ flag_text @ k @ b) = Some b) \<or>
   (\<exists>w. length w \<le> length u \<and> (\<forall>k. key_text k \<longrightarrow> run_rest (u @ flag_text @ k @ b) = Some (w @ flag_text @ k @ b)))"
  if b: "key_ends b"
proof (cases "list_all not_separator u")
  case True
  have "run_rest (u @ flag_text @ k @ b) = Some b" if "key_text k" for k
    using run_to_end [of "u @ flag_text @ k" b] True flag_chars(1) that b by (simp add: key_text_def)
  then show ?thesis by blast
next
  case False
  then obtain x where x: "x \<in> set u" "\<not> not_separator x" by (auto simp: list_all_iff)
  then have u: "u \<noteq> []" "dropWhile not_separator (u @ r) = dropWhile not_separator u @ r" for r
    by (auto simp: dropWhile_append1)
  have eq: "run_rest (u @ r) = (if not_separator (hd u) then Some (dropWhile not_separator u @ r) else None)" for r
    using u by (simp add: run_rest_def)
  show ?thesis
  proof (cases "not_separator (hd u)")
    case True
    have "\<forall>k. key_text k \<longrightarrow> run_rest (u @ flag_text @ k @ b) = Some (dropWhile not_separator u @ flag_text @ k @ b)"
      using eq True by simp
    then show ?thesis using length_dropWhile_le [of not_separator u] by blast
  next
    case False
    then show ?thesis using eq by simp
  qed
qed

lemma spaces_before: "list_all (\<lambda>c. \<not> is_space c) x \<Longrightarrow> x \<noteq> [] \<Longrightarrow> dropWhile is_space (u @ x @ r) = dropWhile is_space u @ x @ r"
  by (induction u) (auto simp: neq_Nil_conv)

lemma key_found:
  assumes b: "key_ends b"
  shows "(\<forall>k. key_text k \<longrightarrow> key_rest (v @ flag_text @ k @ b) = None) \<or>
   (\<forall>k. key_text k \<longrightarrow> key_rest (v @ flag_text @ k @ b) = Some b) \<or>
   (\<exists>w. length w < length v \<and> (\<forall>k. key_text k \<longrightarrow> key_rest (v @ flag_text @ k @ b) = Some (w @ flag_text @ k @ b)))"
proof -
  let ?n = "length key_flag"
  have len: "?n < length (v @ flag_text)" using flag_chars(2) by simp
  have folds: "folds key_flag (v @ flag_text @ r) = folds key_flag (v @ flag_text)" for r
    using folds_append [of key_flag "v @ flag_text" r] len by simp
  obtain c u where u: "drop ?n (v @ flag_text) = c # u" using len by (cases "drop ?n (v @ flag_text)") auto
  have dropped: "drop ?n (v @ flag_text @ r) = c # u @ r" for r
  proof -
    have "drop ?n ((v @ flag_text) @ r) = drop ?n (v @ flag_text) @ r" using len by (simp del: append_assoc)
    with u show ?thesis by simp
  qed
  have u_eq: "u = drop (Suc ?n) (v @ flag_text)" using u by (metis drop_Suc list.sel(3) tl_drop)
  note rest = key_rest_def folds dropped
  show ?thesis
  proof (cases "folds key_flag (v @ flag_text) \<and> (c = CHR ''='' \<or> is_space c)")
    case False
    then have "key_rest (v @ flag_text @ r) = None" for r by (auto simp: rest simp del: drop_append)
    then show ?thesis by blast
  next
    case found: True
    define y where "y = (if c = CHR ''='' then u else dropWhile is_space u)"
    show ?thesis
    proof (cases "length v \<le> ?n")
      case True
      then have "u = drop (Suc ?n - length v) flag_text" using flag_chars(2) u_eq by simp
      then have u_chars: "list_all not_separator u" "list_all (\<lambda>c. \<not> is_space c) u"
        using flag_chars(1,4) by (auto simp: list_all_iff dest: in_set_dropD)
      have "key_rest (v @ flag_text @ k @ b) = Some b" if k: "key_text k" for k
      proof -
        have uk: "list_all not_separator (u @ k)" "u @ k \<noteq> []" using u_chars k by (simp_all add: key_text_def)
        then have "\<not> is_space (hd (u @ k))" using space_separates by (cases "u @ k") auto
        then have "dropWhile is_space ((u @ k) @ b) = (u @ k) @ b" using uk(2) by (cases "u @ k") simp_all
        then show ?thesis using found run_to_end [OF uk b] by (auto simp: rest simp del: drop_append)
      qed
      then show ?thesis by blast
    next
      case False
      define u' where "u' = drop (Suc ?n) v"
      have uu: "u = u' @ flag_text" "length u' < length v" using u_eq False by (auto simp: u'_def)
      define y where "y = (if c = CHR ''='' then u' else dropWhile is_space u')"
      have "length y \<le> length u'" by (simp add: y_def length_dropWhile_le)
      then have y: "length y < length v" using uu(2) by simp
      have eq: "key_rest (v @ flag_text @ r) = run_rest (y @ flag_text @ r)" for r
        using found spaces_before [OF flag_chars(4,5), of u' r] by (auto simp: rest uu(1) y_def simp del: drop_append)
      from run_before [OF b, of y] show ?thesis unfolding eq using y by (meson le_less_trans)
    qed
  qed
qed

lemma key_blotted:
  assumes b: "key_ends b" and k: "key_text k" and k': "key_text k'"
  shows "rx_replace_all key_rx (\<lambda>_. r) (v @ flag_text @ k @ b) = rx_replace_all key_rx (\<lambda>_. r) (v @ flag_text @ k' @ b)"
proof (induction v rule: length_induct)
  case (1 v)
  let ?A = "\<lambda>w k. w @ flag_text @ k @ b"
  from key_found [OF b, of v] consider
      (none) "key_rest (?A v k) = None" "key_rest (?A v k') = None"
    | (to_end) "key_rest (?A v k) = Some b" "key_rest (?A v k') = Some b"
    | (inside) w where "length w < length v" "key_rest (?A v k) = Some (?A w k)" "key_rest (?A v k') = Some (?A w k')"
    by (elim disjE exE conjE; metis k k')
  then show ?case
  proof cases
    case none
    show ?thesis
    proof (cases v)
      case Nil
      have "key_rest (?A [] k) \<noteq> None"
        using run_to_end [of k b] b k folds_append [of key_flag flag_text "k @ b"] flag_chars(2,3,6)
        by (simp add: key_rest_def key_text_def)
      with none Nil show ?thesis by simp
    next
      case (Cons c t)
      with 1 have "rx_replace_all key_rx (\<lambda>_. r) (?A t k) = rx_replace_all key_rx (\<lambda>_. r) (?A t k')" by simp
      with none Cons show ?thesis using replace_key [of r "?A v k"] replace_key [of r "?A v k'"] by simp
    qed
  next
    case to_end
    then show ?thesis using replace_key [of r "?A v k"] replace_key [of r "?A v k'"] by simp
  next
    case (inside w)
    with 1 have "rx_replace_all key_rx (\<lambda>_. r) (?A w k) = rx_replace_all key_rx (\<lambda>_. r) (?A w k')" by blast
    with inside show ?thesis using replace_key [of r "?A v k"] replace_key [of r "?A v k'"] by simp
  qed
qed

definition launch_message :: "string \<Rightarrow> string \<Rightarrow> string \<Rightarrow> js_error" where
  "launch_message before k after = JsError (before @ key_flag @ ''='' @ k @ after)"

lemma redacted_key:
  assumes "key_text k" "key_text k'" "key_ends after"
  shows "redactBrowserLaunchError (launch_message before k after) = redactBrowserLaunchError (launch_message before k' after)"
  using key_blotted [OF assms(3,1,2), of "key_flag @ ''=[REDACTED]''" before]
  by (simp add: redactBrowserLaunchError_def launch_message_def flag_text_def)

text \<open>C36. What a client learns from a Clearcote that does not start is independent of the operator's profile key: whatever text surrounds the
  argument in the message of the launch, two keys without blanks and quotes give the same error.\<close>

theorem launch_error_hides_key:
  assumes "key_text k" "key_text k'" "key_ends after"
    and "launch_clearcote L cfg options h s = (Inl (launch_message before k after), s1)"
    and "launch_clearcote L' cfg options h s = (Inl (launch_message before k' after), s1')"
    and "clearcoteExecutablePath cfg \<noteq> []"
  shows "fst (launch_server L cfg Clearcote options h s) = fst (launch_server L' cfg Clearcote options h s) \<and>
    (\<exists>e. fst (launch_server L cfg Clearcote options h s) = Inl (OpenBrowseError e) \<and> code e = ''BROWSER_BACKEND_UNAVAILABLE'')"
  using redacted_key [OF assms(1-3), of before] assms(4-6)
  by (simp add: launch_server_def unavailable_def backend_unavailable_def) (simp add: launch_message_def)

text \<open>
  The connection to the server is not covered: \<open>return connectServer(...)\<close> leaves the \<open>try\<close> before the promise settles. Its
  error reaches the caller as it is, and the fallback, which goes on for a backend that is unavailable only, ends.
\<close>

lemma connect_error_escapes:
  assumes "assertBrowserBackendEnabled cfg b = Inr ()"
    and "launch_server L cfg b options (or_default headless (browserHeadless cfg)) s = (Inr server, s1)"
    and "ln_connect L b server (browserLaunchTimeoutMs cfg) s1 = (Inl (JsError m), s2)"
  shows "launchBrowserWorker L cfg b options headless s = (Inl (JsError m), ln_closeServer L server s2)"
    and "capability_present need b = Inr True \<Longrightarrow> admit b (fallback_options inp b) t = (a, t1) \<Longrightarrow> ad_allowed a \<Longrightarrow>
       attempt b (fallback_options inp b) t1 = (Inl (JsError m), t2) \<Longrightarrow>
       fallback_loop admit attempt inp need (b # bs) st t = (Inl (JsError m), t2)"
  using assms by (simp_all add: launchBrowserWorker_def connectServer_def connect_browser_def isOpenBrowseError_def Let_def)

section \<open>A launcher for the witnesses\<close>

definition sample_launcher :: "string \<Rightarrow> int option \<Rightarrow> nat launcher" where
  "sample_launcher key pid =
     \<lparr>ln_import = (\<lambda>_ s. (Inr (), s)), ln_build = (\<lambda>rq s. (Inr rq, s)),
      ln_launch = (\<lambda>b rq s. if b = Clearcote then (Inl (launch_message ''spawn '' key '' failed''), s) else (Inr s, Suc s)),
      ln_connect = (\<lambda>_ server _ s. (Inr server, s)), ln_humanize = (\<lambda>_ _ _ s. (Inr (), s)), ln_closeBrowser = (\<lambda>_ s. s),
      ln_closeServer = (\<lambda>_ s. s - 1), ln_pid = (\<lambda>_ _. pid), ln_chromiumPath = ''/c'', ln_platform = ''linux'', ln_hmac = (\<lambda>_ _. key),
      ln_stringify = (\<lambda>_. []), ln_localeLe = (\<lambda>_ _. True)\<rparr>"

lemma sample_playwright: "assertBrowserBackendEnabled sample_config Playwright = Inr ()"
  by code_simp

lemma sample_server:
  "launch_server (sample_launcher k pid) sample_config Playwright None (or_default None (browserHeadless sample_config)) 3 = (Inr 3, 4)"
  by (simp add: launch_server_def sample_launcher_def)

lemma sample_pidless:
  "launchBrowserWorker (sample_launcher k None) sample_config Playwright None None 3
     = (Inl (JsError ''Browser server did not expose a process PID''), 3)"
  using sample_server [of k None]
  by (simp add: launchBrowserWorker_def sample_playwright connectServer_def connect_browser_def humanizes_def)
    (simp add: sample_launcher_def)

theorem failed_launch_closes_server_witness: "\<exists>s2. (3::nat) = ln_closeServer (sample_launcher ''k'' None) 3 s2"
  using failed_launch_closes_server [OF sample_pidless [of "''k''"], of 3 4] sample_playwright sample_server [of "''k''" None] by simp

theorem launch_error_hides_key_witness:
  "fst (launch_server (sample_launcher ''secret'' None) (sample_config\<lparr>clearcoteExecutablePath := ''/cc''\<rparr>) Clearcote None True 0)
     = fst (launch_server (sample_launcher ''other'' None) (sample_config\<lparr>clearcoteExecutablePath := ''/cc''\<rparr>) Clearcote None True 0)"
proof -
  have k: "key_text ''secret''" "key_text ''other''" "key_ends '' failed''" by code_simp+
  have run: "launch_clearcote (sample_launcher key None) (sample_config\<lparr>clearcoteExecutablePath := ''/cc''\<rparr>) None True 0
      = (Inl (launch_message ''spawn '' key '' failed''), 0)" for key
    by (simp add: launch_clearcote_def sample_launcher_def)
  have path: "clearcoteExecutablePath (sample_config\<lparr>clearcoteExecutablePath := ''/cc''\<rparr>) \<noteq> []" by simp
  show ?thesis using launch_error_hides_key [OF k run run path] by blast
qed

end
