(* ===== verification/OB_Public.thy ===== *)
theory OB_Public
  imports OB_Gate OB_Alerts OB_Queue
begin

text \<open>
  The routes that need no session, \<open>src/src/server/routes/public.ts\<close>: the files of the landing page, the error pages, readiness,
  the metrics and the pressure of the service, and the usage of a key. The text of an error page and the file system are
  parameters, and so is \<open>Number\<close> on a text.
\<close>

section \<open>Paths\<close>

text \<open>An absolute path without dots is its list of names.\<close>

definition path_names :: "string \<Rightarrow> string list" where
  "path_names p = filter (\<lambda>n. n \<noteq> [] \<and> n \<noteq> ''.'') (split_on (CHR ''/'') p)"

definition go_up :: "string list \<Rightarrow> string \<Rightarrow> string list" where
  "go_up ns n = (if n = ''..'' then butlast ns else ns @ [n])"

definition is_absolute :: "string \<Rightarrow> bool" where
  "is_absolute p \<longleftrightarrow> starts_with p ''/''"

text \<open>\<open>resolve(base, p)\<close>.\<close>

definition resolve_path :: "string list \<Rightarrow> string \<Rightarrow> string list" where
  "resolve_path base p = foldl go_up (if is_absolute p then [] else base) (path_names p)"

text \<open>\<open>relative(a, b)\<close>.\<close>

fun relative_names :: "string list \<Rightarrow> string list \<Rightarrow> string list" where
  "relative_names (a # as) (b # bs) = (if a = b then relative_names as bs else replicate (Suc (length as)) ''..'' @ b # bs)"
| "relative_names as bs = replicate (length as) ''..'' @ bs"

definition relative_path :: "string list \<Rightarrow> string list \<Rightarrow> string" where
  "relative_path a b = join_with ''/'' (relative_names a b)"

text \<open>\<open>extname\<close> of the last name: from its last dot, unless the dot begins it.\<close>

definition extension_of :: "string \<Rightarrow> string" where
  "extension_of name =
     (let after = takeWhile (\<lambda>c. c \<noteq> CHR ''.'') (rev name) in
      if name = ''..'' \<or> length after + 1 \<ge> length name then [] else CHR ''.'' # rev after)"

section \<open>The landing page\<close>

record web_reply =
  wr_code :: int
  wr_type :: string
  wr_policy :: string
  wr_cache :: string
  wr_body :: string

definition landing_policy :: string where
  "landing_policy = ''default-src 'self'; base-uri 'none'; form-action 'self'; frame-ancestors 'none'; style-src 'self' 'unsafe-inline'; script-src 'self'; img-src 'self' data:; connect-src 'self'; object-src '' @ [CHR 0x27] @ ''none'' @ [CHR 0x27]"

definition errorPageCsp :: string where
  "errorPageCsp = ''default-src 'self'; base-uri 'none'; form-action 'self'; frame-ancestors 'none'; style-src 'self' 'unsafe-inline'; script-src 'none'; img-src 'self' https://http.cat data:; connect-src 'self'; object-src '' @ [CHR 0x27] @ ''none'' @ [CHR 0x27]"

definition html_type :: string where
  "html_type = ''text/html; charset=utf-8''"

definition error_page :: "(int \<Rightarrow> string) \<Rightarrow> int \<Rightarrow> web_reply" where
  "error_page render status =
     \<lparr>wr_code = status, wr_type = html_type, wr_policy = errorPageCsp, wr_cache = ''no-store'', wr_body = render status\<rparr>"

definition sendLandingIndex :: "(string list \<Rightarrow> string outcome) \<Rightarrow> string list \<Rightarrow> web_reply outcome" where
  "sendLandingIndex files base =
     map_sum id (\<lambda>body. \<lparr>wr_code = 200, wr_type = html_type, wr_policy = landing_policy, wr_cache = ''no-cache'', wr_body = body\<rparr>)
       (files (resolve_path base ''index.html''))"

definition asset_type :: "string \<Rightarrow> string" where
  "asset_type extension = or_default (map_of
     [(''.css'', ''text/css; charset=utf-8''), (''.js'', ''text/javascript; charset=utf-8''),
      (''.map'', ''application/json; charset=utf-8''), (''.svg'', ''image/svg+xml'')] extension) ''application/octet-stream''"

definition asset_refused :: "string list \<Rightarrow> string \<Rightarrow> bool" where
  "asset_refused base asset \<longleftrightarrow>
     (let local_path = relative_path base (resolve_path base asset) in
      asset = [] \<or> CHR 0x00 \<in> set asset \<or> is_absolute asset \<or> starts_with local_path ''..'' \<or> is_absolute local_path)"

definition landing_asset :: "(string list \<Rightarrow> string outcome) \<Rightarrow> (int \<Rightarrow> string) \<Rightarrow> string list \<Rightarrow> string \<Rightarrow> web_reply" where
  "landing_asset files render base asset =
     (let path = resolve_path base asset in
      if asset_refused base asset then error_page render 404
      else (case files path of
              Inl _ \<Rightarrow> error_page render 404
            | Inr body \<Rightarrow> \<lparr>wr_code = 200, wr_type = asset_type (case path of [] \<Rightarrow> [] | _ \<Rightarrow> extension_of (last path)),
                wr_policy = landing_policy, wr_cache = ''public, max-age=31536000, immutable'', wr_body = body\<rparr>))"

section \<open>Error pages\<close>

text \<open>\<open>src/src/error-pages/content.ts\<close>; \<open>status_text\<close> is the table \<open>STATUS_CODES\<close> of Node.\<close>

record error_page_content =
  ep_actionLabel :: string
  ep_actionPath :: string
  ep_detail :: string
  ep_eyebrow :: string
  ep_title :: string

definition httpCatCodes :: "int list" where
  "httpCatCodes = [400, 401, 402, 403, 404, 405, 406, 407, 408, 409, 410, 411, 412, 413, 414, 415, 416, 417, 418, 419, 420, 421, 422, 423, 424, 425, 426, 428, 429, 431, 444, 450, 451, 495, 496, 497, 498, 499, 500, 501, 502, 503, 504, 506, 507, 508, 509, 510, 511, 521, 522, 523, 525, 530, 599]"

definition pageCopy :: "(int \<times> error_page_content) list" where
  "pageCopy =
     [(401, \<lparr>ep_actionLabel = ''Read authentication'', ep_actionPath = ''/openapi.json'', ep_detail = ''Add a valid Bearer API key, then make the request again.'', ep_eyebrow = ''Authentication required'', ep_title = ''This request needs a key.''\<rparr>),
      (403, \<lparr>ep_actionLabel = ''Read the API contract'', ep_actionPath = ''/openapi.json'', ep_detail = ''Use an API key authorized for this route or ask the operator to update its policy.'', ep_eyebrow = ''Permission boundary'', ep_title = ''That route is outside this key's scope.''\<rparr>),
      (404, \<lparr>ep_actionLabel = ''Return to landing'', ep_actionPath = ''/landing'', ep_detail = ''The route may have moved, expired, or never existed. Start again from the service surface.'', ep_eyebrow = ''Route not found'', ep_title = ''Nothing is running at this address.''\<rparr>),
      (423, \<lparr>ep_actionLabel = ''Review safe-use policy'', ep_actionPath = ''/landing#method'', ep_detail = ''Configured browser backends were attempted, but the protected surface remained. Review backend availability, licensing, and target authorization.'', ep_eyebrow = ''Safety boundary engaged'', ep_title = ''OpenBrowse stopped this request.''\<rparr>),
      (429, \<lparr>ep_actionLabel = ''Return to OpenBrowse'', ep_actionPath = ''/landing#request'', ep_detail = ''The request limit has been reached. Wait for the window to reset, then retry with the same request.'', ep_eyebrow = ''Rate limit reached'', ep_title = ''This key needs a breather.''\<rparr>),
      (500, \<lparr>ep_actionLabel = ''Return to OpenBrowse'', ep_actionPath = ''/landing#request'', ep_detail = ''The request did not complete. Retry once; if it continues, inspect the service logs with the request ID.'', ep_eyebrow = ''Service fault'', ep_title = ''The workbench hit a fault.''\<rparr>),
      (502, \<lparr>ep_actionLabel = ''Return to OpenBrowse'', ep_actionPath = ''/landing'', ep_detail = ''The destination returned an invalid gateway response. Check the target and retry shortly.'', ep_eyebrow = ''Upstream did not answer'', ep_title = ''The next hop sent back noise.''\<rparr>),
      (503, \<lparr>ep_actionLabel = ''Return to OpenBrowse'', ep_actionPath = ''/landing#request'', ep_detail = ''OpenBrowse is not admitting more work right now. Wait for capacity, then retry the request.'', ep_eyebrow = ''Capacity reached'', ep_title = ''The browser pool is occupied.''\<rparr>),
      (504, \<lparr>ep_actionLabel = ''Return to OpenBrowse'', ep_actionPath = ''/landing'', ep_detail = ''No usable response arrived before the execution limit. Try again or lower the amount of work requested.'', ep_eyebrow = ''Execution timed out'', ep_title = ''The destination took too long.''\<rparr>)]"

definition contentForStatus :: "(int \<Rightarrow> string option) \<Rightarrow> int \<Rightarrow> error_page_content" where
  "contentForStatus status_text status =
     (case map_of pageCopy status of
        Some c \<Rightarrow> c
      | None \<Rightarrow>
          (let shown = or_default (status_text status) ''Unexpected response''; client = status < 500 in
           \<lparr>ep_actionLabel = (if client then ''Read the API contract'' else ''Check readiness''),
            ep_actionPath = (if client then ''/openapi.json'' else ''/readyz''),
            ep_detail = (if client then ''Check the request path, method, and credentials before trying again.''
               else ''The request could not complete. Retry once, then inspect the service health if it continues.''),
            ep_eyebrow = (if client then ''Request needs attention'' else ''Service needs attention''),
            ep_title = (if client then ''The request returned '' else ''The service returned '') @ shown @ ''.''\<rparr>))"

definition catStatusFor :: "int \<Rightarrow> int" where
  "catStatusFor status = (if status \<in> set httpCatCodes then status else if status \<ge> 500 then 500 else 400)"

definition escape_char :: "char \<Rightarrow> string" where
  "escape_char c =
     (if c = CHR ''&'' then ''&amp;'' else if c = CHR ''<'' then ''&lt;'' else if c = CHR ''>'' then ''&gt;''
      else if c = CHR 0x27 then ''&#39;'' else if c = CHR 0x22 then ''&quot;'' else [c])"

definition escapeHtml :: "string \<Rightarrow> string" where
  "escapeHtml v = concat (map escape_char v)"

definition shown_status :: "rat option \<Rightarrow> int" where
  "shown_status n = (case n of
       Some q \<Rightarrow> if of_int \<lfloor>q\<rfloor> = q \<and> 400 \<le> q \<and> q \<le> 599 then \<lfloor>q\<rfloor> else 404
     | None \<Rightarrow> 404)"

definition error_route :: "(int \<Rightarrow> string) \<Rightarrow> (string \<Rightarrow> rat option) \<Rightarrow> string \<Rightarrow> web_reply" where
  "error_route render number status = error_page render (shown_status (number status))"

definition blocked_route :: "(int \<Rightarrow> string) \<Rightarrow> web_reply" where
  "blocked_route render = error_page render 423"

definition not_found :: "(int \<Rightarrow> string) \<Rightarrow> string \<Rightarrow> string \<Rightarrow> jsval + web_reply" where
  "not_found render url requestId =
     (if starts_with url ''/v1/'' \<or> url = ''/mcp''
      then Inl (JObj [(''error'', JObj [(''code'', JStr ''NOT_FOUND''), (''message'', JStr ''Route not found''), (''requestId'', JStr requestId)])])
      else Inr (error_page render 404))"

section \<open>The state of the service\<close>

record readiness_reply =
  ry_code :: int
  ry_ready :: bool
  ry_workers :: pool_stats
  ry_details :: "worker_snapshot list"
  ry_alert :: "int option"

text \<open>\<open>Math.round\<close>.\<close>

definition js_round :: "rat \<Rightarrow> int" where
  "js_round q = \<lfloor>q + 1 / 2\<rfloor>"

text \<open>After \<open>refreshMemory\<close>; \<open>ry_alert\<close> is the megabytes of the alert \<open>health-failure\<close>, which nobody waits for.\<close>

definition ready_route :: "config \<Rightarrow> millis \<Rightarrow> pool \<Rightarrow> readiness_reply" where
  "ready_route cfg now p =
     (let rss = ms_totalRssMb (pl_memory p); ready = rss < of_int (memoryHardMb cfg) in
      \<lparr>ry_code = (if ready then 200 else 503), ry_ready = ready, ry_workers = pool_stats cfg None p,
       ry_details = workerSnapshots cfg now p, ry_alert = (if ready then None else Some (js_round rss))\<rparr>)"

text \<open>\<open>toFixed(1)\<close> of a number that is not negative.\<close>

definition fixed_text :: "rat \<Rightarrow> string" where
  "fixed_text q = (let n = \<lfloor>q * 10 + 1 / 2\<rfloor> in show_int (n div 10) @ ''.'' @ show_int (n mod 10))"

fun authority_number :: "memory_authority \<Rightarrow> int" where
  "authority_number AuthCgroup = 1"
| "authority_number AuthProcessTree = 2"
| "authority_number AuthNode = 3"

fun pressure_number :: "pressure \<Rightarrow> int" where
  "pressure_number Normal = 0"
| "pressure_number Pressure = 1"
| "pressure_number Critical = 2"

definition gauge :: "string \<Rightarrow> string \<Rightarrow> string" where
  "gauge name v = ''openbrowse_'' @ name @ '' '' @ v @ [CHR 0x0A]"

definition metrics_route :: "queue_stats \<Rightarrow> pool_stats \<Rightarrow> memory_snapshot \<Rightarrow> metrics \<Rightarrow> string" where
  "metrics_route q b memory m =
     concat (map (\<lambda>(name, v). gauge name v)
       [(''queue_depth'', show_int (int (qs_pending q))), (''active_jobs'', show_int (int (qs_active q))),
        (''queue_rejections_total{reason='' @ [CHR 0x22] @ ''memory'' @ [CHR 0x22] @ ''}'', show_int (int (fst (qs_rejections q)))),
        (''queue_rejections_total{reason='' @ [CHR 0x22] @ ''queue_full'' @ [CHR 0x22] @ ''}'', show_int (int (snd (qs_rejections q)))),
        (''memory_pressure'', show_int (pressure_number (qs_pressure q))),
        (''node_rss_megabytes'', fixed_text (ms_nodeRssMb memory)),
        (''browser_tree_rss_megabytes'', fixed_text (ms_browserRssMb memory)),
        (''process_tree_rss_megabytes'', fixed_text (ms_processTreeRssMb memory)),
        (''admission_rss_megabytes'', fixed_text (ms_totalRssMb memory)),
        (''memory_admission_authority'', show_int (authority_number (ms_authority memory))),
        (''browser_processes'', show_int (ps_processes b)), (''browser_contexts'', show_int (ps_busy b)),
        (''browser_workers_healthy'', show_int (ps_healthy b)), (''browser_workers_draining'', show_int (ps_draining b)),
        (''browser_workers_starting'', show_int (ps_starting b)), (''browser_worker_launches_total'', show_int (ps_launches b)),
        (''browser_worker_crashes_total'', show_int (ps_crashes b)), (''browser_worker_recycles_total'', show_int (ps_recycled b)),
        (''browser_worker_replacements_total'', show_int (ps_replacements b))])
     @ executionMetrics m"

fun authority_id :: "memory_authority \<Rightarrow> string" where
  "authority_id AuthCgroup = ''cgroup''"
| "authority_id AuthProcessTree = ''process-tree''"
| "authority_id AuthNode = ''node''"

fun pressure_id :: "pressure \<Rightarrow> string" where
  "pressure_id Normal = ''normal''"
| "pressure_id Pressure = ''pressure''"
| "pressure_id Critical = ''critical''"

definition fixed_json :: "rat \<Rightarrow> jsval" where
  "fixed_json q = JNum (to_fixed 1 q)"

definition memory_json :: "config \<Rightarrow> (millis \<Rightarrow> string) \<Rightarrow> memory_snapshot \<Rightarrow> jsval" where
  "memory_json cfg date m =
     JObj ([(''rssMb'', fixed_json (ms_totalRssMb m)), (''admissionAuthority'', JStr (authority_id (ms_authority m))),
            (''nodeRssMb'', fixed_json (ms_nodeRssMb m)), (''browserRssMb'', fixed_json (ms_browserRssMb m)),
            (''processTreeRssMb'', fixed_json (ms_processTreeRssMb m))]
       @ (case ms_container m of None \<Rightarrow> []
          | Some (rss, limit) \<Rightarrow> [(''containerRssMb'', fixed_json rss), (''containerLimitMb'', fixed_json limit)])
       @ [(''processTreesSupported'', JBool (ms_supported m)), (''sampledAt'', JStr (date (ms_sampledAt m))),
          (''softLimitMb'', JNum (of_int (memorySoftMb cfg))), (''hardLimitMb'', JNum (of_int (memoryHardMb cfg)))])"

record pressure_reply =
  pv_pressure :: string
  pv_memory :: jsval
  pv_active :: nat
  pv_queued :: nat
  pv_processes :: int
  pv_contexts :: int
  pv_workers :: pool_stats
  pv_details :: "worker_snapshot list"

definition pressure_route :: "config \<Rightarrow> (millis \<Rightarrow> string) \<Rightarrow> millis \<Rightarrow> queue_stats \<Rightarrow> pool \<Rightarrow> pressure_reply" where
  "pressure_route cfg date now q p =
     (let b = pool_stats cfg None p in
      \<lparr>pv_pressure = pressure_id (qs_pressure q), pv_memory = memory_json cfg date (pl_memory p), pv_active = qs_active q,
       pv_queued = qs_pending q, pv_processes = ps_processes b, pv_contexts = ps_busy b, pv_workers = b,
       pv_details = workerSnapshots cfg now p\<rparr>)"

section \<open>Usage\<close>

record usage_reply =
  ur_keyId :: string
  ur_policy :: "string option"
  ur_usage :: usage_summary
  ur_dailyRequests :: "int option"
  ur_remaining :: "int option"

definition usage_route :: "config \<Rightarrow> string \<Rightarrow> gate_answer \<Rightarrow> usage_table \<Rightarrow> usage_reply outcome" where
  "usage_route cfg day who U =
     (case who of
        Admitted key policy \<Rightarrow>
          if key = [] then Inl unauthorized
          else (let used = getUsage key day U; limit = daily_limit cfg policy in
                Inr \<lparr>ur_keyId = take 12 key, ur_policy = map_option pol_name policy, ur_usage = used,
                     ur_dailyRequests = (if limit = 0 then None else Some limit),
                     ur_remaining = (if limit > 0 then Some (max 0 (limit - int (use_requests used))) else None)\<rparr>)
      | _ \<Rightarrow> Inl unauthorized)"

end
