(* ===== verification/OB_Public_Props.thy ===== *)
theory OB_Public_Props
  imports OB_Public OB_Ssrf
begin

text \<open>
  What the public routes promise: the landing route serves the files below its directory and nothing else, the reported quota is the
  one the gate enforces, and readiness is the hard limit.
\<close>

section \<open>Paths\<close>

definition plain_name :: "string \<Rightarrow> bool" where
  "plain_name n \<longleftrightarrow> n \<noteq> [] \<and> n \<noteq> ''.'' \<and> n \<noteq> ''..'' \<and> CHR ''/'' \<notin> set n"

lemma path_names_chars: "n \<in> set (path_names p) \<Longrightarrow> n \<noteq> [] \<and> n \<noteq> ''.'' \<and> CHR ''/'' \<notin> set n"
  using split_on_no_sep by (fastforce simp: path_names_def)

lemma go_up_plain:
  "list_all plain_name base \<Longrightarrow> (\<And>n. n \<in> set ns \<Longrightarrow> n \<noteq> [] \<and> n \<noteq> ''.'' \<and> CHR ''/'' \<notin> set n) \<Longrightarrow> list_all plain_name (foldl go_up base ns)"
proof (induction ns arbitrary: base)
  case (Cons n ns)
  have "list_all plain_name (go_up base n)"
    using Cons.prems by (auto simp: go_up_def plain_name_def list_all_iff dest: in_set_butlastD)
  with Cons show ?case by simp
qed simp

lemma resolve_plain: "list_all plain_name base \<Longrightarrow> list_all plain_name (resolve_path base p)"
  unfolding resolve_path_def using go_up_plain [of "[]" "path_names p"] go_up_plain [of base "path_names p"] path_names_chars by auto

lemma replicated_hd: "hd (replicate n x) \<noteq> x \<Longrightarrow> n = 0"
  by (cases n) auto

lemma relative_below: "relative_names a b = ns \<Longrightarrow> (ns = [] \<or> hd ns \<noteq> ''..'') \<Longrightarrow> b = a @ ns"
  by (induction a b arbitrary: ns rule: relative_names.induct) (auto split: if_splits dest!: replicated_hd)

lemma relative_prefix [simp]: "relative_names a (a @ ns) = ns"
proof (induction a)
  case Nil
  then show ?case by (cases ns) simp_all
qed simp

lemma join_start: "ns \<noteq> [] \<Longrightarrow> \<exists>rest. join_with ''/'' ns = hd ns @ rest"
  by (cases ns; cases "tl ns") auto

lemma starts_up: "ns \<noteq> [] \<Longrightarrow> hd ns = ''..'' \<Longrightarrow> starts_with (join_with ''/'' ns) ''..''"
  using join_start [of ns] by (auto simp: starts_with_def)

text \<open>C37. Whatever name is asked for, the landing route answers 200 only with a file below its directory, reached by plain names: no
  sequence of dots, slashes or an absolute path leads out of it. Anything else is the 404 page, which is not
  cached.\<close>

theorem landing_stays_below:
  assumes "list_all plain_name base"
  shows "(\<exists>names body. landing_asset files render base asset =
        \<lparr>wr_code = 200, wr_type = asset_type (case base @ names of [] \<Rightarrow> [] | _ \<Rightarrow> extension_of (last (base @ names))),
         wr_policy = landing_policy, wr_cache = ''public, max-age=31536000, immutable'', wr_body = body\<rparr> \<and>
        files (base @ names) = Inr body \<and> list_all plain_name names) \<or>
    landing_asset files render base asset = error_page render 404"
proof (cases "asset_refused base asset")
  case True
  then show ?thesis by (simp add: landing_asset_def)
next
  case False
  let ?path = "resolve_path base asset"
  define names where "names = relative_names base ?path"
  have "names = [] \<or> hd names \<noteq> ''..''"
    using False starts_up [of names] by (auto simp: asset_refused_def Let_def relative_path_def names_def)
  then have path: "?path = base @ names" by (rule relative_below [OF names_def [symmetric]])
  have names: "list_all plain_name names" using resolve_plain [OF assms, of asset] path by simp
  have reply: "landing_asset files render base asset = (case files ?path of
        Inl _ \<Rightarrow> error_page render 404
      | Inr body \<Rightarrow> \<lparr>wr_code = 200, wr_type = asset_type (case ?path of [] \<Rightarrow> [] | _ \<Rightarrow> extension_of (last ?path)),
          wr_policy = landing_policy, wr_cache = ''public, max-age=31536000, immutable'', wr_body = body\<rparr>)"
    using False by (simp only: landing_asset_def Let_def if_False)
  show ?thesis
  proof (cases "files ?path")
    case (Inl e)
    with reply show ?thesis by (simp only: sum.case) blast
  next
    case (Inr body)
    with reply path have "landing_asset files render base asset =
        \<lparr>wr_code = 200, wr_type = asset_type (case base @ names of [] \<Rightarrow> [] | _ \<Rightarrow> extension_of (last (base @ names))),
         wr_policy = landing_policy, wr_cache = ''public, max-age=31536000, immutable'', wr_body = body\<rparr>"
      by (simp only: sum.case)
    moreover have "files (base @ names) = Inr body" using Inr path by (simp only:)
    ultimately show ?thesis using names by blast
  qed
qed

section \<open>The quota\<close>

text \<open>The quota that a key is told is the one the gate enforces: as long as the rate limit allows the request, it is admitted
  exactly when requests remain or there is no quota, and then the remaining number is one less.\<close>

theorem reported_quota_enforced:
  assumes "usage_route cfg day (Admitted key policy) (ga_usage G) = Inr reply"
    and "rt_count (next_counter now (map_of (ga_counters G) key)) \<le> rate_limit policy"
    and "0 \<le> daily_limit cfg policy"
  shows "(fst (meter cfg now day key policy G) = Inr () \<longleftrightarrow> ur_remaining reply \<noteq> Some 0) \<and>
    (fst (meter cfg now day key policy G) \<noteq> Inr () \<longrightarrow> fst (meter cfg now day key policy G) = Inl quota_exceeded) \<and>
    (\<forall>n. ur_remaining reply = Some n \<and> n > 0 \<longrightarrow>
       (\<exists>reply'. usage_route cfg day (Admitted key policy) (ga_usage (snd (meter cfg now day key policy G))) = Inr reply' \<and>
          ur_remaining reply' = Some (n - 1)))"
proof -
  let ?U = "ga_usage G"
  let ?limit = "nat (daily_limit cfg policy)"
  obtain r U' where r: "reserveUsage key ?limit day ?U = (r, U')" by (rule prod.exhaust)
  have key: "key \<noteq> []" and reply: "ur_remaining reply =
      (if daily_limit cfg policy > 0 then Some (max 0 (daily_limit cfg policy - int (use_requests (getUsage key day ?U)))) else None)"
    using assms(1) by (auto simp: usage_route_def Let_def split: if_splits)
  have m: "meter cfg now day key policy G = (case r of None \<Rightarrow> Inl quota_exceeded | Some _ \<Rightarrow> Inr (),
      G\<lparr>ga_counters := map_set key (next_counter now (map_of (ga_counters G) key)) (ga_counters G), ga_usage := U'\<rparr>)"
    using assms(2) r by (cases r) (simp_all add: meter_def Let_def)
  have refused: "r = None \<longleftrightarrow> ?limit > 0 \<and> use_requests (getUsage key day ?U) \<ge> ?limit" by (rule reserve_refused [OF r])
  have counted: "use_requests (getUsage key day U') = use_requests (getUsage key day ?U) + (if r \<noteq> None then 1 else 0)"
    using reserve_requests [OF r, of key day] by simp
  have none: "r = None \<longleftrightarrow> ur_remaining reply = Some 0"
    using refused reply assms(3) by auto
  have "\<exists>reply'. usage_route cfg day (Admitted key policy) U' = Inr reply' \<and> ur_remaining reply' = Some (n - 1)"
    if "ur_remaining reply = Some n" "n > 0" for n
  proof -
    from that none have "r \<noteq> None" by auto
    with counted that reply key show ?thesis by (auto simp: usage_route_def Let_def split: if_splits)
  qed
  with none m show ?thesis by (auto split: option.splits)
qed

section \<open>Error pages and readiness\<close>

lemma shown_status_range: "400 \<le> shown_status n \<and> shown_status n \<le> 599"
  by (auto simp: shown_status_def floor_le_iff le_floor_iff split: option.splits)

lemma escaped_html: "c \<in> set (escapeHtml v) \<Longrightarrow> c \<notin> {CHR ''<'', CHR ''>'', CHR 0x22, CHR 0x27}"
  by (induction v) (auto simp: escapeHtml_def escape_char_def split: if_splits)

lemma ready_iff_below_hard: "ry_code (ready_route cfg now p) = 200 \<longleftrightarrow> ms_totalRssMb (pl_memory p) < of_int (memoryHardMb cfg)"
  by (simp add: ready_route_def Let_def)

section \<open>Witnesses\<close>

definition site_files :: "string list \<Rightarrow> string outcome" where
  "site_files path = (if path = [''srv'', ''landing'', ''app.js''] then Inr ''x'' else if path = [''srv'', ''key''] then Inr ''secret'' else Inl (JsError ''ENOENT''))"

theorem landing_stays_below_witness:
  "wr_code (landing_asset site_files (\<lambda>_. []) [''srv'', ''landing''] ''a/../app.js'') = 200 \<and>
   landing_asset site_files (\<lambda>_. []) [''srv'', ''landing''] ''../key'' = error_page (\<lambda>_. []) 404"
proof -
  have base: "list_all plain_name [''srv'', ''landing'']" by code_simp
  have "wr_code (landing_asset site_files (\<lambda>_. []) [''srv'', ''landing''] ''a/../app.js'') = 200" by code_simp
  moreover have "wr_body (landing_asset site_files (\<lambda>_. []) [''srv'', ''landing''] ''../key'') \<noteq> ''x''" by code_simp
  then have "landing_asset site_files (\<lambda>_. []) [''srv'', ''landing''] ''../key'' = error_page (\<lambda>_. []) 404"
    using landing_stays_below [OF base, of site_files "\<lambda>_. []" "''../key''"] by (auto simp: site_files_def split: if_splits)
  ultimately show ?thesis ..
qed

definition fresh_gate :: gate where
  "fresh_gate = \<lparr>ga_counters = [], ga_usage = [((''k'', ''d''), (4, 4, 0))]\<rparr>"

definition five_a_day :: api_key_policy where
  "five_a_day = \<lparr>pol_name = ''p'', pol_allowedRoutes = [], pol_rateLimitPerMinute = None, pol_dailyRequestLimit = Some 5\<rparr>"

theorem reported_quota_enforced_witness:
  "fst (meter sample_config 0 ''d'' ''k'' (Some five_a_day) fresh_gate) = Inr ()"
proof -
  obtain reply where r: "usage_route sample_config ''d'' (Admitted ''k'' (Some five_a_day)) (ga_usage fresh_gate) = Inr reply" "ur_remaining reply = Some 1"
    by (simp add: usage_route_def daily_limit_def five_a_day_def fresh_gate_def getUsage_def map_get_or_def Let_def)
  have "rt_count (next_counter 0 (map_of (ga_counters fresh_gate) ''k'')) \<le> rate_limit (Some five_a_day)" "0 \<le> daily_limit sample_config (Some five_a_day)"
    by (simp_all add: next_counter_def fresh_gate_def rate_limit_def daily_limit_def five_a_day_def)
  from reported_quota_enforced [OF r(1) this] r(2) show ?thesis by simp
qed

end
