(* ===== verification/OB_Export.thy ===== *)
theory OB_Export
  imports OB_Jobs OB_BqlExec
begin

text \<open>
  Pages for a caller to keep and to find: the export of \<open>src/src/automation/map.ts\<close> (\<open>exportUrl\<close>, \<open>safeNativeFetch\<close>) and the
  search client of \<open>src/src/automation/integrations.ts\<close> (\<open>searchWeb\<close>). The network is a function on its own state, DNS is
  asked in the state of the moment, and the ZIP writer, the HTML parser and \<open>JSON\<close> are parameters.
\<close>

section \<open>One resource\<close>

record 's export_env =
  xe_config :: config
  xe_parse :: url_parser
  xe_resolve :: "string \<Rightarrow> string \<Rightarrow> url option"
  xe_guard :: "'s \<Rightarrow> resolver"
  xe_net :: "'s network"
  xe_load :: "byte_list \<Rightarrow> dom list"
  xe_utf8 :: "string \<Rightarrow> byte_list"
  xe_pretty :: "jsval \<Rightarrow> string"
  xe_zip :: "(string \<times> byte_list) list \<Rightarrow> byte_list"

record exported =
  xp_body :: byte_list
  xp_contentType :: string
  xp_finalUrl :: string

definition export_unreachable :: js_error where
  "export_unreachable = ob_err ''TARGET_NETWORK_ERROR'' ''Could not export target'' 502 True"

definition export_redirects :: js_error where
  "export_redirects = ob_err ''TARGET_NETWORK_ERROR'' ''Target exceeded the redirect limit'' 502 False"

definition export_refused :: "int \<Rightarrow> js_error" where
  "export_refused status = ob_err ''TARGET_NETWORK_ERROR'' (''Target returned HTTP '' @ show_int status) 502 True"

definition export_request :: "config \<Rightarrow> millis \<Rightarrow> safe_resolution \<Rightarrow> http_request" where
  "export_request cfg ms r =
     \<lparr>rq_url = safe_url r, rq_headers = [],
      rq_dispatcher = (if egressProxyUrl cfg \<noteq> [] then ViaProxy (egressProxyUrl cfg) else PinnedTo (safe_addresses r)),
      rq_timeout = ms\<rparr>"

definition resolve_export :: "'s export_env \<Rightarrow> string \<Rightarrow> 's \<Rightarrow> safe_resolution outcome" where
  "resolve_export E v s = resolveSafeUrl (xe_parse E) (xe_guard E s) v None"

text \<open>The loop, with the redirects still allowed.\<close>

fun export_follow ::
  "'s export_env \<Rightarrow> millis \<Rightarrow> nat \<Rightarrow> safe_resolution \<Rightarrow> 's \<Rightarrow> (safe_resolution \<times> http_response) outcome \<times> 's" where
  "export_follow E ms left r s =
     (case xe_net E (export_request (xe_config E) ms r) s of
        (Inl _, s1) \<Rightarrow> (Inl export_unreachable, s1)
      | (Inr resp, s1) \<Rightarrow>
          if rp_status resp \<notin> set redirect_statuses then (Inr (r, resp), s1)
          else if or_default (rp_location resp) [] = [] then (Inl export_redirects, s1)
          else (case left of
              0 \<Rightarrow> (Inl export_redirects, s1)
            | Suc n \<Rightarrow>
                (case xe_resolve E (or_default (rp_location resp) []) (url_href (safe_url r)) of
                   None \<Rightarrow> (Inl (JsError ''Invalid URL''), s1)
                 | Some u \<Rightarrow>
                     (case resolve_export E (url_href u) s1 of
                        Inl e \<Rightarrow> (Inl e, s1)
                      | Inr r1 \<Rightarrow> export_follow E ms n r1 s1))))"

declare export_follow.simps [simp del]

definition safeNativeFetch :: "'s export_env \<Rightarrow> string \<Rightarrow> millis \<Rightarrow> 's \<Rightarrow> exported outcome \<times> 's" where
  "safeNativeFetch E v ms s =
     (case resolve_export E v s of
        Inl e \<Rightarrow> (Inl e, s)
      | Inr r0 \<Rightarrow>
          then_do (export_follow E ms 5 r0 s) (\<lambda>(r, resp) s1.
            (if \<not> (200 \<le> rp_status resp \<and> rp_status resp \<le> 299) then Inl (export_refused (rp_status resp))
             else res_bind (readBoundedResponse (xe_config E) resp) (\<lambda>body.
                  res_bind (normalizeUrl (xe_parse E) (if rp_url resp \<noteq> [] then rp_url resp else url_href (safe_url r))) (\<lambda>final.
                  Inr \<lparr>xp_body = body, xp_contentType = or_default (rp_contentType resp) ''application/octet-stream'',
                       xp_finalUrl = final\<rparr>)), s1)))"

section \<open>The bundle\<close>

text \<open>\<open>encodeURIComponent\<close> on the bytes of a text.\<close>

definition component_safe :: "char \<Rightarrow> bool" where
  "component_safe c \<longleftrightarrow> is_letter c \<or> is_digit c \<or> c \<in> set ''-_.!~*()'' \<or> c = CHR 0x27"

definition encode_byte :: "char \<Rightarrow> string" where
  "encode_byte c =
     (if component_safe c then [c]
      else (let n = of_char c :: nat in [CHR ''%'', hex_digit (n div 16), hex_digit (n mod 16)]))"

definition encodeURIComponent :: "string \<Rightarrow> string" where
  "encodeURIComponent s = concat (map encode_byte s)"

definition resource_element :: "dom \<Rightarrow> bool" where
  "resource_element d \<longleftrightarrow>
     named ''img'' d \<and> dom_attr ''src'' d \<noteq> None \<or> named ''script'' d \<and> dom_attr ''src'' d \<noteq> None \<or>
     named ''link'' d \<and> dom_attr ''href'' d \<noteq> None"

definition resource_reference :: "dom \<Rightarrow> string" where
  "resource_reference d = attr_or_empty (if named ''link'' d then ''href'' else ''src'') d"

definition resource_url :: "'s export_env \<Rightarrow> string \<Rightarrow> string \<Rightarrow> dom \<Rightarrow> string list" where
  "resource_url E final origin d =
     (if resource_reference d = [] then []
      else case xe_resolve E (resource_reference d) final of
        None \<Rightarrow> []
      | Some u \<Rightarrow> if url_origin u = origin \<and> web_protocol (u_protocol u) then [url_href u] else [])"

text \<open>A \<open>Set\<close> in the order of its first insertions.\<close>

definition as_set :: "string list \<Rightarrow> string list" where
  "as_set xs = rev (remdups (rev xs))"

definition page_resources :: "'s export_env \<Rightarrow> string \<Rightarrow> string \<Rightarrow> dom list \<Rightarrow> string list" where
  "page_resources E final origin doc = as_set (concat (map (resource_url E final origin) (select resource_element doc)))"

definition resource_limit :: nat where
  "resource_limit = 2 * 1024 * 1024"

definition resource_path :: "url \<Rightarrow> string" where
  "resource_path u =
     ''resources/'' @ encodeURIComponent
       (let p = dropWhile (\<lambda>c. c = CHR ''/'') (u_pathname u) in if p = [] then ''index'' else p)"

type_synonym archive = "(string \<times> byte_list) list \<times> jsval list"

definition resource_failed :: "string \<Rightarrow> string \<Rightarrow> jsval" where
  "resource_failed r m = JObj [(''url'', JStr r), (''error'', JStr m)]"

definition resource_stored :: "string \<Rightarrow> string \<Rightarrow> jsval" where
  "resource_stored r path = JObj [(''url'', JStr r), (''path'', JStr path)]"

definition too_big :: string where
  "too_big = ''resource exceeds 2 MiB bundle limit''"

definition add_resource :: "'s export_env \<Rightarrow> string \<Rightarrow> exported outcome \<Rightarrow> archive \<Rightarrow> archive" where
  "add_resource E r fetched b =
     (case fetched of
        Inl e \<Rightarrow> (fst b, snd b @ [resource_failed r (thrown_message e)])
      | Inr item \<Rightarrow>
          if length (xp_body item) > resource_limit then (fst b, snd b @ [resource_failed r too_big])
          else (case xe_parse E r of
                  None \<Rightarrow> (fst b, snd b @ [resource_failed r ''Invalid URL''])
                | Some u \<Rightarrow> (fst b @ [(resource_path u, xp_body item)], snd b @ [resource_stored r (resource_path u)])))"

fun add_resources :: "'s export_env \<Rightarrow> millis \<Rightarrow> string list \<Rightarrow> archive \<Rightarrow> 's \<Rightarrow> archive \<times> 's" where
  "add_resources E ms [] b s = (b, s)"
| "add_resources E ms (r # rs) b s =
     (case safeNativeFetch E r ms s of (fetched, s1) \<Rightarrow> add_resources E ms rs (add_resource E r fetched b) s1)"

definition bundle_manifest :: "'s export_env \<Rightarrow> string \<Rightarrow> jsval list \<Rightarrow> byte_list" where
  "bundle_manifest E final manifest =
     xe_utf8 E (xe_pretty E (JObj [(''source'', JStr final), (''resources'', JArr manifest)]))"

definition bundled_resources :: "'s export_env \<Rightarrow> exported \<Rightarrow> string list outcome" where
  "bundled_resources E fetched =
     (case xe_parse E (xp_finalUrl fetched) of
        None \<Rightarrow> Inl (JsError ''Invalid URL'')
      | Some u \<Rightarrow> Inr (take 50 (page_resources E (xp_finalUrl fetched) (url_origin u) (xe_load E (xp_body fetched)))))"

definition bundle_page :: "'s export_env \<Rightarrow> millis \<Rightarrow> exported \<Rightarrow> 's \<Rightarrow> (string \<times> byte_list) list outcome \<times> 's" where
  "bundle_page E ms fetched s =
     (case bundled_resources E fetched of
        Inl e \<Rightarrow> (Inl e, s)
      | Inr rs \<Rightarrow>
          (case add_resources E ms rs ([(''index.html'', xp_body fetched)], []) s of
             ((files, manifest), s1) \<Rightarrow>
               (Inr (files @ [(''manifest.json'', bundle_manifest E (xp_finalUrl fetched) manifest)]), s1)))"

definition exportUrl :: "'s export_env \<Rightarrow> string \<Rightarrow> millis option \<Rightarrow> bool \<Rightarrow> 's \<Rightarrow> exported outcome \<times> 's" where
  "exportUrl E u timeoutMs includeResources s =
     (let ms = or_default timeoutMs 30000 in
      then_do (safeNativeFetch E u ms s) (\<lambda>fetched s1.
        if \<not> includeResources \<or> \<not> str_includes (xp_contentType fetched) ''html'' then (Inr fetched, s1)
        else then_do (bundle_page E ms fetched s1) (\<lambda>files s2.
          (Inr \<lparr>xp_body = xe_zip E files, xp_contentType = ''application/zip'', xp_finalUrl = xp_finalUrl fetched\<rparr>, s2))))"

section \<open>Search\<close>

record 's search_env =
  sr_config :: config
  sr_parse :: url_parser
  sr_net :: "url \<Rightarrow> string option \<Rightarrow> 's \<Rightarrow> (fetch_failure + http_response) \<times> 's"
  sr_json :: "byte_list \<Rightarrow> jsval option"

record search_result =
  sr_title :: string
  sr_url :: string
  sr_content :: string

definition search_unsupported :: js_error where
  "search_unsupported = ob_err ''UNSUPPORTED_FEATURE''
     ''Search needs an operator-configured OPENBROWSE_SEARCH_ENDPOINT (SearXNG-compatible JSON API)'' 501 False"

definition provider_error :: "string \<Rightarrow> bool \<Rightarrow> js_error" where
  "provider_error m retry = ob_err ''TARGET_NETWORK_ERROR'' m 502 retry"

definition search_address :: "url \<Rightarrow> string \<Rightarrow> string \<Rightarrow> url" where
  "search_address endpoint query categories =
     (let u = params_set ''format'' ''json'' (params_set ''q'' query endpoint) in
      if categories = [] then u else params_set ''categories'' categories u)"

definition search_item :: "jsval \<Rightarrow> search_result list" where
  "search_item v =
     (case v of
        JObj fs \<Rightarrow>
          (case (object_value fs ''title'', object_value fs ''url'') of
             (JStr t, JStr u) \<Rightarrow>
               [\<lparr>sr_title = t, sr_url = u,
                 sr_content = (case object_value fs ''content'' of JStr c \<Rightarrow> c | _ \<Rightarrow> [])\<rparr>]
           | _ \<Rightarrow> [])
      | _ \<Rightarrow> [])"

text \<open>A body \<open>null\<close> has no property to read, which throws outside the \<open>try\<close>.\<close>

definition search_list :: "jsval \<Rightarrow> jsval list outcome" where
  "search_list v =
     (case v of
        JNull \<Rightarrow> Inl (JsError (''Cannot read properties of null (reading '' @ [CHR 0x27] @ ''results'' @ [CHR 0x27] @ '')''))
      | JObj fs \<Rightarrow> (case object_value fs ''results'' of
          JArr xs \<Rightarrow> Inr xs
        | _ \<Rightarrow> Inl (provider_error ''Search provider returned an invalid JSON response'' False))
      | _ \<Rightarrow> Inl (provider_error ''Search provider returned an invalid JSON response'' False))"

definition search_body :: "'s search_env \<Rightarrow> http_response \<Rightarrow> jsval outcome" where
  "search_body E resp =
     (let bad = provider_error ''Search provider returned invalid or oversized JSON'' False in
      case readBoundedResponse (sr_config E) resp of
        Inl _ \<Rightarrow> Inl bad
      | Inr body \<Rightarrow> (case sr_json E body of None \<Rightarrow> Inl bad | Some v \<Rightarrow> Inr v))"

definition searchWeb :: "'s search_env \<Rightarrow> string \<Rightarrow> string \<Rightarrow> nat \<Rightarrow> 's \<Rightarrow> search_result list outcome \<times> 's" where
  "searchWeb E query categories limit s =
     (if searchEndpoint (sr_config E) = [] then (Inl search_unsupported, s)
      else case sr_parse E (searchEndpoint (sr_config E)) of
        None \<Rightarrow> (Inl (JsError ''Invalid URL''), s)
      | Some endpoint \<Rightarrow>
          (case sr_net E (search_address endpoint query categories)
                  (if egressProxyUrl (sr_config E) \<noteq> [] then Some (egressProxyUrl (sr_config E)) else None) s of
             (Inl _, s1) \<Rightarrow> (Inl (provider_error ''Configured search provider could not be reached'' True), s1)
           | (Inr resp, s1) \<Rightarrow>
               (if \<not> (200 \<le> rp_status resp \<and> rp_status resp \<le> 299)
                then Inl (provider_error (''Search provider returned HTTP '' @ show_int (rp_status resp)) True)
                else res_bind (search_body E resp) (\<lambda>v.
                     res_bind (search_list v) (\<lambda>xs. Inr (concat (map search_item (take limit xs))))), s1)))"

end
