(* ===== verification/OB_Export_Props.thy ===== *)
theory OB_Export_Props
  imports OB_Export
begin

text \<open>
  What the export and the search promise: every request of an export went through the network boundary in the state in which it was
  sent, and the archive is made of the page, bounded resources of its origin under plain names, and a manifest of all of them.
\<close>

section \<open>Requests\<close>

text \<open>An environment that writes down the requests, each with the state in which it was sent.\<close>

type_synonym 's request_log = "('s \<times> http_request) list"

definition log_request :: "'s network \<Rightarrow> ('s \<times> 's request_log) network" where
  "log_request net rq st = (case net rq (fst st) of (r, s) \<Rightarrow> (r, s, snd st @ [(fst st, rq)]))"

definition export_logged :: "'s export_env \<Rightarrow> ('s \<times> 's request_log) export_env" where
  "export_logged E =
     \<lparr>xe_config = xe_config E, xe_parse = xe_parse E, xe_resolve = xe_resolve E, xe_guard = (\<lambda>st. xe_guard E (fst st)),
      xe_net = log_request (xe_net E), xe_load = xe_load E, xe_utf8 = xe_utf8 E, xe_pretty = xe_pretty E, xe_zip = xe_zip E\<rparr>"

lemma export_logged_fields [simp]:
  "xe_config (export_logged E) = xe_config E" "xe_parse (export_logged E) = xe_parse E" "xe_resolve (export_logged E) = xe_resolve E"
  "xe_guard (export_logged E) st = xe_guard E (fst st)" "xe_net (export_logged E) = log_request (xe_net E)"
  by (simp_all add: export_logged_def)

definition checked_request :: "'s export_env \<Rightarrow> millis \<Rightarrow> 's \<times> http_request \<Rightarrow> bool" where
  "checked_request E ms entry \<longleftrightarrow>
     (\<exists>r. safe_target (xe_guard E (fst entry)) None r \<and> snd entry = export_request (xe_config E) ms r)"

text \<open>The log grows by at most a number of checked requests.\<close>

definition log_grows :: "'s export_env \<Rightarrow> millis \<Rightarrow> nat \<Rightarrow> ('s \<times> 's request_log) \<Rightarrow> ('s \<times> 's request_log) \<Rightarrow> bool" where
  "log_grows E ms n st st' \<longleftrightarrow> (\<exists>more. snd st' = snd st @ more \<and> length more \<le> n \<and> list_all (checked_request E ms) more)"

lemma log_grows_refl [simp]: "log_grows E ms n st st"
  by (simp add: log_grows_def)

lemma log_grows_trans: "log_grows E ms a st st1 \<Longrightarrow> log_grows E ms b st1 st2 \<Longrightarrow> a + b \<le> c \<Longrightarrow> log_grows E ms c st st2"
  unfolding log_grows_def by (elim exE conjE) (simp add: exI)

lemma log_grows_one:
  "safe_target (xe_guard E (fst st)) None r \<Longrightarrow> xe_net E (export_request (xe_config E) ms r) (fst st) = (ans, s1) \<Longrightarrow> 0 < n \<Longrightarrow>
     log_grows E ms n st (s1, snd st @ [(fst st, export_request (xe_config E) ms r)])"
  by (auto simp: log_grows_def checked_request_def)

lemma export_follow_log:
  "safe_target (xe_guard E (fst st)) None r \<Longrightarrow> export_follow (export_logged E) ms left r st = (out, st') \<Longrightarrow> log_grows E ms (Suc left) st st'"
proof (induction left arbitrary: r st)
  case (0 r st)
  obtain ans s1 where net: "xe_net E (export_request (xe_config E) ms r) (fst st) = (ans, s1)" by (rule prod.exhaust)
  have "st' = (s1, snd st @ [(fst st, export_request (xe_config E) ms r)])"
    using 0(2) net by (auto simp: export_follow.simps [of _ _ 0] log_request_def split: sum.splits if_splits)
  with log_grows_one [OF 0(1) net] show ?case by simp
next
  case (Suc n r st)
  obtain ans s1 where net: "xe_net E (export_request (xe_config E) ms r) (fst st) = (ans, s1)" by (rule prod.exhaust)
  let ?st1 = "(s1, snd st @ [(fst st, export_request (xe_config E) ms r)])"
  have one: "log_grows E ms k st ?st1" if "0 < k" for k using log_grows_one [OF Suc.prems(1) net that] .
  have logged: "xe_net (export_logged E) (export_request (xe_config E) ms r) st = (ans, ?st1)"
    by (simp add: log_request_def net)
  consider (stop) "st' = ?st1"
    | (redirect) v r1 where "resolve_export (export_logged E) v ?st1 = Inr r1" "export_follow (export_logged E) ms n r1 ?st1 = (out, st')"
    using Suc.prems(2)
    by (auto simp: export_follow.simps [of _ _ "Suc n"] log_request_def net split: sum.splits if_splits option.splits)
  then show ?case
  proof cases
    case stop
    then show ?thesis using one by simp
  next
    case redirect
    have "safe_target (xe_guard E (fst ?st1)) None r1"
      using resolveSafeUrl_InrD redirect(1) by (fastforce simp: resolve_export_def)
    from Suc.IH [OF this redirect(2)] one [of 1] show ?thesis using log_grows_trans by fastforce
  qed
qed

lemma safeNativeFetch_log: "safeNativeFetch (export_logged E) v ms st = (out, st') \<Longrightarrow> log_grows E ms 6 st st'"
proof -
  assume run: "safeNativeFetch (export_logged E) v ms st = (out, st')"
  show ?thesis
  proof (cases "resolve_export (export_logged E) v st")
    case (Inl e)
    with run show ?thesis by (simp add: safeNativeFetch_def)
  next
    case (Inr r0)
    obtain q st1 where q: "export_follow (export_logged E) ms 5 r0 st = (q, st1)" by (rule prod.exhaust)
    have "safe_target (xe_guard E (fst st)) None r0" using resolveSafeUrl_InrD Inr by (fastforce simp: resolve_export_def)
    from export_follow_log [OF this q] have "log_grows E ms 6 st st1" by simp
    moreover have "st' = st1" using run Inr q by (cases q) (auto simp: safeNativeFetch_def)
    ultimately show ?thesis by simp
  qed
qed

lemma add_resources_log: "add_resources (export_logged E) ms rs b st = (b', st') \<Longrightarrow> log_grows E ms (6 * length rs) st st'"
proof (induction rs arbitrary: b st)
  case (Cons r rs)
  obtain q st1 where q: "safeNativeFetch (export_logged E) r ms st = (q, st1)" by (rule prod.exhaust)
  with Cons.prems have "add_resources (export_logged E) ms rs (add_resource (export_logged E) r q b) st1 = (b', st')" by simp
  from log_grows_trans [OF safeNativeFetch_log [OF q] Cons.IH [OF this]] show ?case by simp
qed simp

lemma log_grows_mono: "log_grows E ms a st st' \<Longrightarrow> a \<le> b \<Longrightarrow> log_grows E ms b st st'"
  by (auto simp: log_grows_def)

lemma bundle_page_log: "bundle_page (export_logged E) ms fetched st = (out, st') \<Longrightarrow> log_grows E ms 300 st st'"
proof -
  assume run: "bundle_page (export_logged E) ms fetched st = (out, st')"
  show ?thesis
  proof (cases "bundled_resources (export_logged E) fetched")
    case (Inl e)
    with run show ?thesis by (simp add: bundle_page_def)
  next
    case (Inr rs)
    then have len: "length rs \<le> 50" by (auto simp: bundled_resources_def split: option.splits)
    obtain b st1 where b: "add_resources (export_logged E) ms rs ([(''index.html'', xp_body fetched)], []) st = (b, st1)" by (rule prod.exhaust)
    with run Inr have "st' = st1" by (cases b) (simp add: bundle_page_def)
    with log_grows_mono [OF add_resources_log [OF b]] len show ?thesis by simp
  qed
qed


section \<open>The archive\<close>

lemma encoded_char: "d \<in> set (encode_byte c) \<Longrightarrow> d \<noteq> CHR ''/'' \<and> d \<noteq> CHR 0x5C"
proof -
  assume d: "d \<in> set (encode_byte c)"
  have hex: "(of_char c :: nat) div 16 < 16" by (simp add: less_mult_imp_div_less)
  have safe: "\<not> component_safe (CHR ''/'')" "\<not> component_safe (CHR 0x5C)" by code_simp+
  have digit: "h \<noteq> CHR ''/'' \<and> h \<noteq> CHR 0x5C" if "form_safe h" for h
    using that by (auto simp: form_safe_def Let_def)
  show ?thesis
    using d safe digit [OF hex_digit_safe [OF hex]] digit [OF hex_digit_safe [of "of_char c mod 16"]]
    by (auto simp: encode_byte_def Let_def split: if_splits)
qed

definition flat_name :: "string \<Rightarrow> bool" where
  "flat_name n \<longleftrightarrow> list_all (\<lambda>c. c \<noteq> CHR ''/'' \<and> c \<noteq> CHR 0x5C) n"

lemma encoded_flat: "flat_name (encodeURIComponent s)"
  by (induction s) (auto simp: flat_name_def encodeURIComponent_def list_all_iff dest: encoded_char)

definition stored_resource :: "string \<times> byte_list \<Rightarrow> bool" where
  "stored_resource f \<longleftrightarrow> (\<exists>n. fst f = ''resources/'' @ n \<and> flat_name n) \<and> length (snd f) \<le> resource_limit"

definition entry_url :: "jsval \<Rightarrow> string" where
  "entry_url v = text_of ''url'' (entries v)"

lemma entry_urls: "entry_url (resource_failed r m) = r" "entry_url (resource_stored r p) = r"
  by (simp_all add: entry_url_def resource_failed_def resource_stored_def text_of_def str_field_def entries_def or_default_def object_value_def)

lemma resource_path_stored: "length body \<le> resource_limit \<Longrightarrow> stored_resource (resource_path u, body)"
  unfolding stored_resource_def resource_path_def fst_conv snd_conv using encoded_flat by blast

lemma add_resource_shape:
  "\<exists>more v. add_resource E r fetched b = (fst b @ more, snd b @ [v]) \<and> length more \<le> 1 \<and> list_all stored_resource more \<and> entry_url v = r"
proof -
  let ?goal = "\<lambda>more v. add_resource E r fetched b = (fst b @ more, snd b @ [v]) \<and> length more \<le> 1 \<and> list_all stored_resource more \<and> entry_url v = r"
  have failed: "add_resource E r fetched b = (fst b, snd b @ [resource_failed r m]) \<Longrightarrow> ?goal [] (resource_failed r m)" for m
    by (simp add: entry_urls)
  have stored: "add_resource E r fetched b = (fst b @ [(resource_path u, body)], snd b @ [resource_stored r (resource_path u)]) \<Longrightarrow>
      length body \<le> resource_limit \<Longrightarrow> ?goal [(resource_path u, body)] (resource_stored r (resource_path u))" for u body
    by (simp add: entry_urls resource_path_stored)
  show ?thesis
  proof (cases fetched)
    case (Inl e)
    then show ?thesis using failed [of "thrown_message e"] by (simp only: add_resource_def sum.case) blast
  next
    case (Inr item)
    show ?thesis
    proof (cases "length (xp_body item) > resource_limit")
      case True
      then have "add_resource E r fetched b = (fst b, snd b @ [resource_failed r too_big])" by (simp add: add_resource_def Inr)
      then show ?thesis using failed by blast
    next
      case False
      then show ?thesis
      proof (cases "xe_parse E r")
        case None
        with False have "add_resource E r fetched b = (fst b, snd b @ [resource_failed r ''Invalid URL''])"
          by (simp only: add_resource_def Inr sum.case if_False option.case)
        then show ?thesis using failed by blast
      next
        case (Some u)
        with False have "add_resource E r fetched b =
            (fst b @ [(resource_path u, xp_body item)], snd b @ [resource_stored r (resource_path u)])"
          by (simp only: add_resource_def Inr sum.case if_False option.case)
        then show ?thesis using stored False by (meson not_less)
      qed
    qed
  qed
qed

lemma add_resources_shape:
  "add_resources E ms rs b s = (b', s') \<Longrightarrow>
     \<exists>more listed. b' = (fst b @ more, snd b @ listed) \<and> length more \<le> length rs \<and> list_all stored_resource more \<and> map entry_url listed = rs"
proof (induction rs arbitrary: b s)
  case (Cons r rs)
  obtain q s1 where q: "safeNativeFetch E r ms s = (q, s1)" by (rule prod.exhaust)
  obtain m v where mv: "add_resource E r q b = (fst b @ m, snd b @ [v])" "length m \<le> 1" "list_all stored_resource m" "entry_url v = r"
    using add_resource_shape [of E r q b] by blast
  from Cons.prems q have "add_resources E ms rs (add_resource E r q b) s1 = (b', s')" by simp
  from Cons.IH [OF this] obtain more listed where "b' = (fst b @ m @ more, snd b @ v # listed)" "length more \<le> length rs"
      "list_all stored_resource more" "map entry_url listed = rs"
    using mv(1) by auto
  with mv show ?case by (intro exI [of _ "m @ more"] exI [of _ "v # listed"]) simp
qed simp

lemma as_set_set [simp]: "set (as_set xs) = set xs" "distinct (as_set xs)"
  by (simp_all add: as_set_def)

definition same_origin :: "'s export_env \<Rightarrow> string \<Rightarrow> string \<Rightarrow> bool" where
  "same_origin E final r \<longleftrightarrow>
     (\<exists>d u page. xe_resolve E d final = Some u \<and> xe_parse E final = Some page \<and> r = url_href u \<and>
        url_origin u = url_origin page \<and> web_protocol (u_protocol u))"

lemma resource_url_origin:
  "r \<in> set (resource_url E final (url_origin page) d) \<Longrightarrow> xe_parse E final = Some page \<Longrightarrow> same_origin E final r"
  unfolding same_origin_def by (cases "xe_resolve E (resource_reference d) final") (fastforce simp: resource_url_def split: if_splits)+

lemma bundled_same_origin:
  "bundled_resources E fetched = Inr rs \<Longrightarrow> length rs \<le> 50 \<and> distinct rs \<and> list_all (same_origin E (xp_finalUrl fetched)) rs"
  using resource_url_origin
  by (fastforce simp: bundled_resources_def page_resources_def list_all_iff split: option.splits dest!: in_set_takeD)

text \<open>An archive holds the page as \<open>index.html\<close>, at most fifty resources of at most two megabytes, each in the directory \<open>resources\<close>
  under a name without slashes, and the manifest, which names every resource that was asked for once and in order, whether it was
  stored or not; all of them are on the origin of the page.\<close>

theorem archive_contents:
  assumes "bundle_page E ms fetched s = (Inr files, s')"
  shows "\<exists>rs more listed. files = (''index.html'', xp_body fetched) # more @ [(''manifest.json'', bundle_manifest E (xp_finalUrl fetched) listed)] \<and>
    bundled_resources E fetched = Inr rs \<and> map entry_url listed = rs \<and> length more \<le> length rs \<and> length rs \<le> 50 \<and> distinct rs \<and>
    list_all stored_resource more \<and> list_all (same_origin E (xp_finalUrl fetched)) rs"
proof -
  obtain rs where rs: "bundled_resources E fetched = Inr rs"
    using assms by (cases "bundled_resources E fetched") (auto simp: bundle_page_def)
  obtain b s1 where b: "add_resources E ms rs ([(''index.html'', xp_body fetched)], []) s = (b, s1)" by (rule prod.exhaust)
  from add_resources_shape [OF b] obtain more listed where
    "b = ((''index.html'', xp_body fetched) # more, listed)" "length more \<le> length rs" "list_all stored_resource more" "map entry_url listed = rs"
    by auto
  with assms rs b bundled_same_origin [OF rs] show ?thesis by (auto simp: bundle_page_def)
qed

section \<open>Search\<close>

lemma search_item_one: "length (search_item v) \<le> 1"
  by (auto simp: search_item_def split: jsval.splits)

lemma concat_short: "(\<And>x. length (f x) \<le> 1) \<Longrightarrow> length (concat (map f xs)) \<le> length xs"
proof (induction xs)
  case (Cons x xs)
  from Cons.prems [of x] Cons.IH [OF Cons.prems] show ?case by simp
qed simp

lemma search_bounded: "searchWeb E query categories limit s = (Inr results, s') \<Longrightarrow> length results \<le> limit"
proof -
  assume "searchWeb E query categories limit s = (Inr results, s')"
  then obtain xs where "results = concat (map search_item (take limit xs))"
    by (auto simp: searchWeb_def res_bind_Inr_iff split: if_splits option.splits sum.splits prod.splits)
  with concat_short [of search_item "take limit xs"] search_item_one show ?thesis by simp
qed

section \<open>Witnesses\<close>

definition page_response :: "string \<Rightarrow> http_response" where
  "page_response kind = \<lparr>rp_status = 200, rp_url = [], rp_location = None, rp_contentType = Some kind, rp_declared = None,
     rp_body = Some ([[60]], None)\<rparr>"

definition sample_export :: "unit export_env" where
  "sample_export = \<lparr>xe_config = sample_config, xe_parse = (\<lambda>_. Some public_url), xe_resolve = (\<lambda>_ _. Some public_url),
     xe_guard = (\<lambda>_ _. None), xe_net = (\<lambda>_ s. (Inr (page_response ''text/html''), s)),
     xe_load = (\<lambda>_. [Elem ''img'' [(''src'', ''/x'')] []]), xe_utf8 = (\<lambda>_. []), xe_pretty = (\<lambda>_. []), xe_zip = (\<lambda>_. [80])\<rparr>"


definition sample_target :: safe_resolution where
  "sample_target = \<lparr>safe_url = public_url, safe_addresses = [(''93.184.216.34'', 4)]\<rparr>"

lemma sample_resolved: "resolveSafeUrl (\<lambda>_. Some public_url) (\<lambda>_. None) v None = Inr sample_target"
  by code_simp

lemma sample_export_simps:
  "resolve_export sample_export v s = Inr sample_target" "xe_net sample_export q s = (Inr (page_response ''text/html''), s)"
  "xe_config sample_export = sample_config" "xe_parse sample_export v = Some public_url"
  by (simp_all add: sample_export_def resolve_export_def sample_resolved)

lemma sample_read: "readBoundedResponse sample_config (page_response ''text/html'') = Inr [60]"
proof -
  have "1 \<le> maxResponseBytes sample_config" by code_simp
  then show ?thesis by (simp add: readBoundedResponse_def page_response_def)
qed

lemma sample_normal: "normalizeUrl (\<lambda>_. Some public_url) v = Inr (url_href public_url)"
  by code_simp

lemma sample_export_fetch:
  "safeNativeFetch (export_logged sample_export) u ms ((), sent)
     = (Inr \<lparr>xp_body = [60], xp_contentType = ''text/html'', xp_finalUrl = url_href public_url\<rparr>, (),
        sent @ [((), export_request sample_config ms sample_target)])"
proof -
  have status: "rp_status (page_response k) = 200" "rp_url (page_response k) = []" "rp_contentType (page_response k) = Some k" for k
    by (simp_all add: page_response_def)
  have "resolve_export (export_logged sample_export) v st = Inr sample_target" for v st
    by (simp add: resolve_export_def sample_export_def sample_resolved)
  moreover have parse: "xe_parse sample_export = (\<lambda>_. Some public_url)" by (simp add: sample_export_def)
  ultimately show ?thesis
    by (simp add: safeNativeFetch_def export_follow.simps log_request_def sample_export_simps status redirect_statuses_def sample_read
        sample_normal parse or_default_def)
qed

lemma sample_export_run:
  "exportUrl (export_logged sample_export) u None False ((), [])
     = (Inr \<lparr>xp_body = [60], xp_contentType = ''text/html'', xp_finalUrl = url_href public_url\<rparr>, (),
        [((), export_request sample_config 30000 sample_target)])"
  by (simp add: exportUrl_def sample_export_fetch or_default_def)


lemma sample_bundled:
  "bundled_resources sample_export \<lparr>xp_body = [60], xp_contentType = ''text/html'', xp_finalUrl = url_href public_url\<rparr> = Inr [url_href public_url]"
  by code_simp

lemma sample_fetch_plain:
  "safeNativeFetch sample_export u ms () = (Inr \<lparr>xp_body = [60], xp_contentType = ''text/html'', xp_finalUrl = url_href public_url\<rparr>, ())"
proof -
  have status: "rp_status (page_response k) = 200" "rp_url (page_response k) = []" "rp_contentType (page_response k) = Some k" for k
    by (simp_all add: page_response_def)
  have parse: "xe_parse sample_export = (\<lambda>_. Some public_url)" by (simp add: sample_export_def)
  then show ?thesis
    by (simp add: safeNativeFetch_def export_follow.simps sample_export_simps status redirect_statuses_def sample_read
        sample_normal parse or_default_def)
qed

theorem archive_contents_witness:
  "bundled_resources sample_export \<lparr>xp_body = [60], xp_contentType = ''text/html'', xp_finalUrl = url_href public_url\<rparr> = Inr [url_href public_url] \<and>
   list_all (same_origin sample_export (url_href public_url)) [url_href public_url]"
proof -
  let ?page = "\<lparr>xp_body = [60], xp_contentType = ''text/html'', xp_finalUrl = url_href public_url\<rparr>"
  obtain files where "bundle_page sample_export 30000 ?page () = (Inr files, ())"
    by (simp add: bundle_page_def sample_bundled sample_fetch_plain add_resource_def sample_export_simps resource_limit_def)
  from archive_contents [OF this] sample_bundled show ?thesis by auto
qed

end
