(* ===== verification/OB_Performance.thy ===== *)
theory OB_Performance
  imports OB_Media OB_Public
begin

text \<open>
  Reports about a page: \<open>basicPerformance\<close> of \<open>src/src/automation/performance.ts\<close>, which measures a page of the pool, and
  \<open>fullLighthouse\<close> of \<open>src/src/automation/lighthouse.ts\<close>, which runs the package of that name in a browser of its own.
\<close>

section \<open>What the page reports\<close>

text \<open>The entries of the performance timeline and the parts of the document that the script in the page reads.\<close>

record page_timeline =
  pt_navigation :: "(rat option \<times> rat option \<times> rat option) option"
  pt_paint :: "(string \<times> rat) list"
  pt_resources :: "rat option list"
  pt_viewport :: "string option option"
  pt_images :: "bool list"
  pt_title :: string
  pt_lang :: "string option"

record page_metrics =
  me_domContentLoaded :: rat
  me_load :: rat
  me_responseStart :: rat
  me_firstContentfulPaint :: rat
  me_resourceTransfer :: rat
  me_resourceCount :: nat
  me_title :: string
  me_hasViewport :: bool
  me_imageCount :: nat
  me_imagesWithoutAlt :: nat
  me_hasLang :: bool

definition navigation_time :: "((rat option \<times> rat option \<times> rat option) \<Rightarrow> rat option) \<Rightarrow> page_timeline \<Rightarrow> rat" where
  "navigation_time f p = or_default (Option.bind (pt_navigation p) f) 0"

definition paint_time :: "page_timeline \<Rightarrow> rat" where
  "paint_time p = or_default (map_option snd (find (\<lambda>(name, _). name = ''first-contentful-paint'') (pt_paint p))) 0"

definition viewport_rx :: rx where
  "viewport_rx = RAlt (lit_i ''width'') (lit_i ''initial-scale'')"

definition page_metrics_of :: "page_timeline \<Rightarrow> page_metrics" where
  "page_metrics_of p =
     \<lparr>me_domContentLoaded = navigation_time fst p, me_load = navigation_time (\<lambda>n. fst (snd n)) p,
      me_responseStart = navigation_time (\<lambda>n. snd (snd n)) p, me_firstContentfulPaint = paint_time p,
      me_resourceTransfer = sum_list (map (\<lambda>t. or_default t 0) (pt_resources p)), me_resourceCount = length (pt_resources p),
      me_title = pt_title p, me_hasViewport = rx_test viewport_rx (or_default (or_default (pt_viewport p) None) []),
      me_imageCount = length (pt_images p), me_imagesWithoutAlt = length (filter Not (pt_images p)),
      me_hasLang = (or_default (pt_lang p) [] \<noteq> [])\<rparr>"

section \<open>The report\<close>

record audit =
  au_title :: string
  au_score :: "rat option"
  au_numericValue :: "rat option"
  au_displayValue :: "string option"
  au_details :: "string option"

record performance_report =
  pr_requestedUrl :: string
  pr_finalUrl :: string
  pr_generatedAt :: millis
  pr_categories :: "(string \<times> rat \<times> string) list"
  pr_audits :: "(string \<times> audit) list"

definition plain_audit :: "string \<Rightarrow> rat option \<Rightarrow> audit" where
  "plain_audit t s = \<lparr>au_title = t, au_score = s, au_numericValue = None, au_displayValue = None, au_details = None\<rparr>"

definition yes_no :: "bool \<Rightarrow> rat option" where
  "yes_no b = Some (if b then 1 else 0)"

text \<open>\<open>a || b\<close> on numbers.\<close>

definition num_or :: "rat \<Rightarrow> rat \<Rightarrow> rat" where
  "num_or a b = (if a = 0 then b else a)"

definition timed_audit :: "string \<Rightarrow> rat option \<Rightarrow> rat \<Rightarrow> audit" where
  "timed_audit t s v = (plain_audit t s)\<lparr>au_numericValue := Some v, au_displayValue := Some (show_int (js_round v) @ '' ms'')\<rparr>"

definition falling_score :: "rat \<Rightarrow> rat \<Rightarrow> rat" where
  "falling_score v worst = max 0 (1 - v / worst)"

definition accessibility_score :: "page_metrics \<Rightarrow> rat" where
  "accessibility_score m =
     (if me_imageCount m = 0 then 1 else max 0 (1 - of_nat (me_imagesWithoutAlt m) / of_nat (me_imageCount m)))"

definition performance_score :: "page_metrics \<Rightarrow> rat \<Rightarrow> rat" where
  "performance_score m navigationMs = max 0 (min 1 (1 - max (num_or (me_load m) navigationMs) navigationMs / 10000))"

definition seo_score :: "page_metrics \<Rightarrow> string \<Rightarrow> rat" where
  "seo_score m finalUrl = of_nat (length (filter id [starts_with finalUrl ''https://'', me_hasViewport m, me_hasLang m])) / 3"

definition page_audits :: "(rat \<Rightarrow> string) \<Rightarrow> page_metrics \<Rightarrow> string \<Rightarrow> rat \<Rightarrow> rat \<Rightarrow> nat \<Rightarrow> (string \<times> audit) list" where
  "page_audits showNum m finalUrl navigationMs transferBytes requestCount =
     (let loaded = num_or (me_load m) navigationMs; bytes = num_or (me_resourceTransfer m) transferBytes;
          resources = (if me_resourceCount m = 0 then requestCount else me_resourceCount m) in
      [(''is-on-https'', plain_audit ''Uses HTTPS'' (yes_no (starts_with finalUrl ''https://''))),
       (''viewport'', plain_audit ''Has a responsive viewport meta tag'' (yes_no (me_hasViewport m))),
       (''html-has-lang'', plain_audit ''Document has an HTML language'' (yes_no (me_hasLang m))),
       (''image-alt'', (plain_audit ''Image elements have alternative text'' (Some (accessibility_score m)))\<lparr>au_details :=
          Some (show_int (int (me_imagesWithoutAlt m)) @ '' of '' @ show_int (int (me_imageCount m)) @ '' images lack alt text'')\<rparr>),
       (''first-contentful-paint'', timed_audit ''First Contentful Paint''
          (if me_firstContentfulPaint m = 0 then None else Some (falling_score (me_firstContentfulPaint m) 4000)) (me_firstContentfulPaint m)),
       (''dom-content-loaded'', timed_audit ''DOM Content Loaded'' (Some (falling_score (me_domContentLoaded m) 5000)) (me_domContentLoaded m)),
       (''load-time'', timed_audit ''Page Load'' (Some (falling_score loaded 10000)) loaded),
       (''total-byte-weight'', (plain_audit ''Total network transfer'' (Some (falling_score bytes 5000000)))\<lparr>au_numericValue := Some bytes,
          au_displayValue := Some (showNum bytes @ '' bytes across '' @ show_int (int resources) @ '' resources'')\<rparr>)])"

definition page_categories :: "page_metrics \<Rightarrow> string \<Rightarrow> rat \<Rightarrow> (string \<times> rat \<times> string) list" where
  "page_categories m finalUrl navigationMs =
     [(''performance'', performance_score m navigationMs, ''Performance''), (''accessibility'', accessibility_score m, ''Accessibility''),
      (''best-practices'', (if starts_with finalUrl ''https://'' then 1 else 1 / 2), ''Best Practices''), (''seo'', seo_score m finalUrl, ''SEO'')]"

text \<open>No selection is every category and every audit.\<close>

definition selected :: "string list option \<Rightarrow> (string \<times> 'a) list \<Rightarrow> (string \<times> 'a) list" where
  "selected wanted xs = (if or_default wanted [] = [] then xs else filter (\<lambda>(k, _). k \<in> set (or_default wanted [])) xs)"

record 's perf_page =
  pf_measure :: "('s, page_timeline) page_op"
  pf_responses :: "'s \<Rightarrow> rat option list"
  pf_now :: "'s \<Rightarrow> millis"

text \<open>The declared lengths of the responses; \<open>None\<close> is a header that is no number.\<close>

definition declared_bytes :: "rat option list \<Rightarrow> rat" where
  "declared_bytes ls = sum_list (map (\<lambda>l. case l of Some n \<Rightarrow> if n > 0 then n else 0 | None \<Rightarrow> 0) ls)"

definition performance_body ::
  "'s script_env \<Rightarrow> 's perf_page \<Rightarrow> (rat \<Rightarrow> string) \<Rightarrow> fetch_input \<Rightarrow> string list option \<Rightarrow> string list option \<Rightarrow> ('s, performance_report) page_op" where
  "performance_body C F showNum inp categories audits s =
     (let start = pf_now F s in
      then_do (pg_goto (sc_page C) (in_url inp) (or_default (in_waitUntil inp) WaitNetworkIdle) (or_default (in_timeoutMs inp) 30000) s) (\<lambda>_ s1.
      then_do (pf_measure F s1) (\<lambda>timeline s2.
      (res_bind (normalizeUrl (sc_parse C) (pg_url (sc_page C) s2)) (\<lambda>final.
         let m = page_metrics_of timeline; navigationMs = of_int (max 0 (pf_now F s2 - start)) in
         Inr \<lparr>pr_requestedUrl = in_url inp, pr_finalUrl = final, pr_generatedAt = pf_now F s2,
              pr_categories = selected categories (page_categories m final navigationMs),
              pr_audits = selected audits (page_audits showNum m final navigationMs (declared_bytes (pf_responses F s2))
                (length (pf_responses F s2)))\<rparr>), s2))))"

definition basicPerformance ::
  "'s script_env \<Rightarrow> ('s, performance_report) with_context \<Rightarrow> 's perf_page \<Rightarrow> (rat \<Rightarrow> string) \<Rightarrow> fetch_input \<Rightarrow> string list option \<Rightarrow>
   string list option \<Rightarrow> ('s, performance_report) page_op" where
  "basicPerformance C ctx F showNum inp categories audits s =
     then_do (check_script_url C inp (in_url inp) s) (\<lambda>_ s1.
     catching (script_error ''Performance audit timed out'' ''Performance audit failed'')
       (ctx (in_viewport inp) (in_proxy inp) (defaultBrowserBackend (sc_config C)) None
          (performance_body C F showNum inp categories audits) s1))"

section \<open>Lighthouse\<close>

record lighthouse_audit =
  la_title :: string
  la_score :: "rat option"
  la_numericValue :: "rat option"
  la_displayValue :: string
  la_description :: string

record lighthouse_report =
  lh_finalDisplayedUrl :: string
  lh_finalUrl :: string
  lh_fetchTime :: string
  lh_version :: string
  lh_categories :: "(string \<times> string \<times> rat option) list"
  lh_audits :: "(string \<times> lighthouse_audit) list"
  lh_raw :: string

record lighthouse_options =
  lo_port :: string
  lo_maxWait :: millis
  lo_categories :: "string list option"
  lo_audits :: "string list option"

text \<open>A browser of its own, by its endpoint, and the package, which may answer nothing.\<close>

record 's lighthouse_driver =
  ld_launch :: "millis \<Rightarrow> ('s, string) page_op"
  ld_run :: "string \<Rightarrow> lighthouse_options \<Rightarrow> ('s, lighthouse_report option) page_op"
  ld_stop :: "string \<Rightarrow> 's \<Rightarrow> 's"
  ld_now :: "'s \<Rightarrow> millis"

record lighthouse_result =
  lr_report :: performance_report
  lr_fetchTime :: string
  lr_version :: string
  lr_rawJson :: string

definition maxAudits :: nat where
  "maxAudits = 200"

definition nonempty :: "string \<Rightarrow> string option" where
  "nonempty s = (if s = [] then None else Some s)"

definition nonempty_list :: "string list option \<Rightarrow> string list option" where
  "nonempty_list xs = (if or_default xs [] = [] then None else xs)"

definition lighthouse_audit_of :: "lighthouse_audit \<Rightarrow> audit" where
  "lighthouse_audit_of a =
     \<lparr>au_title = la_title a, au_score = la_score a, au_numericValue = la_numericValue a,
      au_displayValue = nonempty (la_displayValue a), au_details = map_option (take 512) (nonempty (la_description a))\<rparr>"

definition no_lighthouse_report :: js_error where
  "no_lighthouse_report = ob_err ''RENDER_FAILED'' ''Lighthouse produced no report'' 422 True"

definition lighthouse_error :: "js_error \<Rightarrow> js_error" where
  "lighthouse_error e =
     (case e of
        OpenBrowseError _ \<Rightarrow> e
      | JsError m \<Rightarrow>
          if rx_test (RAlt (lit_i ''timeout'') (lit_i ''waiting'')) m then ob_err ''TARGET_TIMEOUT'' ''Lighthouse audit timed out'' 408 True
          else ob_err ''RENDER_FAILED'' ''Lighthouse audit failed'' 422 True)"

definition first_url :: "string list \<Rightarrow> string" where
  "first_url us = or_default (find (\<lambda>u. u \<noteq> []) us) []"

definition lighthouse_answer :: "'s script_env \<Rightarrow> 's lighthouse_driver \<Rightarrow> string \<Rightarrow> lighthouse_report \<Rightarrow> ('s, lighthouse_result) page_op" where
  "lighthouse_answer C D u lhr s =
     (res_bind (normalizeUrl (sc_parse C) (first_url [lh_finalDisplayedUrl lhr, lh_finalUrl lhr, u])) (\<lambda>final.
      res_bind (assertSafeUrl (sc_parse C) (sc_guard C s) final None) (\<lambda>_.
      Inr \<lparr>lr_report = \<lparr>pr_requestedUrl = u, pr_finalUrl = final, pr_generatedAt = ld_now D s,
             pr_categories = map (\<lambda>(k, t, score). (k, or_default score 0, t)) (lh_categories lhr),
             pr_audits = map (\<lambda>(k, a). (k, lighthouse_audit_of a)) (take maxAudits (lh_audits lhr))\<rparr>,
           lr_fetchTime = lh_fetchTime lhr, lr_version = lh_version lhr, lr_rawJson = lh_raw lhr\<rparr>)), s)"

definition lighthouse_run ::
  "'s script_env \<Rightarrow> 's lighthouse_driver \<Rightarrow> string \<Rightarrow> millis option \<Rightarrow> string list option \<Rightarrow> string list option \<Rightarrow> string \<Rightarrow>
   ('s, lighthouse_result) page_op" where
  "lighthouse_run C D u timeoutMs categories audits endpoint s =
     (case sc_parse C endpoint of
        None \<Rightarrow> (Inl (JsError ''Invalid URL''), s)
      | Some e \<Rightarrow>
          then_do (ld_run D u \<lparr>lo_port = u_port e, lo_maxWait = or_default timeoutMs (jobTimeoutMs (sc_config C)),
                     lo_categories = nonempty_list categories, lo_audits = nonempty_list audits\<rparr> s) (\<lambda>result s1.
          case result of
            None \<Rightarrow> (Inl no_lighthouse_report, s1)
          | Some lhr \<Rightarrow> lighthouse_answer C D u lhr s1))"

definition fullLighthouse ::
  "'s script_env \<Rightarrow> 's lighthouse_driver \<Rightarrow> string \<Rightarrow> millis option \<Rightarrow> string list option \<Rightarrow> string list option \<Rightarrow> ('s, lighthouse_result) page_op" where
  "fullLighthouse C D u timeoutMs categories audits s =
     (case assertSafeUrl (sc_parse C) (sc_guard C s) u None of
        Inl e \<Rightarrow> (Inl e, s)
      | Inr _ \<Rightarrow>
          then_do (ld_launch D (max (or_default timeoutMs (jobTimeoutMs (sc_config C))) 30000) s) (\<lambda>endpoint s1.
          case catching lighthouse_error (lighthouse_run C D u timeoutMs categories audits endpoint s1) of
            (r, s2) \<Rightarrow> (r, ld_stop D endpoint s2)))"

end
