(* ===== verification/OB_Performance_Props.thy ===== *)
theory OB_Performance_Props
  imports OB_Performance OB_Media_Props
begin

text \<open>
  What a performance report promises: scores between nothing and one, and exactly the audits and categories that were asked for; and
  that the browser started for Lighthouse is stopped.
\<close>

section \<open>Scores\<close>

definition unit_score :: "rat \<Rightarrow> bool" where
  "unit_score q \<longleftrightarrow> 0 \<le> q \<and> q \<le> 1"

text \<open>The times and sizes that a browser reports are not negative.\<close>

definition timeline_ok :: "page_timeline \<Rightarrow> bool" where
  "timeline_ok p \<longleftrightarrow>
     0 \<le> navigation_time fst p \<and> 0 \<le> navigation_time (\<lambda>n. fst (snd n)) p \<and> 0 \<le> paint_time p \<and>
     list_all (\<lambda>t. 0 \<le> or_default t 0) (pt_resources p)"

lemma falling_unit: "0 \<le> v \<Longrightarrow> 0 < w \<Longrightarrow> unit_score (falling_score v w)"
  by (simp add: unit_score_def falling_score_def)

lemma accessibility_unit: "unit_score (accessibility_score m)"
  by (auto simp: unit_score_def accessibility_score_def)

lemma performance_unit: "unit_score (performance_score m n)"
  by (auto simp: unit_score_def performance_score_def)

lemma seo_unit: "unit_score (seo_score m u)"
proof -
  have "length (filter id [a, b, c]) \<le> 3" for a b c :: bool by (simp add: le_SucI)
  then have "(of_nat (length (filter id [a, b, c])) :: rat) \<le> 3" for a b c :: bool by (metis of_nat_le_iff of_nat_numeral)
  then show ?thesis unfolding unit_score_def seo_score_def by (auto simp: divide_le_eq)
qed

lemma declared_bytes_nonneg: "0 \<le> declared_bytes ls"
  unfolding declared_bytes_def by (rule sum_list_nonneg) (auto split: option.splits)

lemma num_or_nonneg: "0 \<le> a \<Longrightarrow> 0 \<le> b \<Longrightarrow> 0 \<le> num_or a b"
  by (simp add: num_or_def)

lemma metrics_nonneg:
  assumes "timeline_ok p"
  shows "0 \<le> me_domContentLoaded (page_metrics_of p)" "0 \<le> me_load (page_metrics_of p)" "0 \<le> me_firstContentfulPaint (page_metrics_of p)"
    "0 \<le> me_resourceTransfer (page_metrics_of p)"
  using assms by (auto simp: timeline_ok_def page_metrics_of_def list_all_iff intro!: sum_list_nonneg)

definition audit_ids :: "string list" where
  "audit_ids = [''is-on-https'', ''viewport'', ''html-has-lang'', ''image-alt'', ''first-contentful-paint'', ''dom-content-loaded'',
     ''load-time'', ''total-byte-weight'']"

definition category_ids :: "string list" where
  "category_ids = [''performance'', ''accessibility'', ''best-practices'', ''seo'']"

definition scored :: "audit \<Rightarrow> bool" where
  "scored a \<longleftrightarrow> (case au_score a of None \<Rightarrow> True | Some q \<Rightarrow> unit_score q)"

lemma page_audits_ok:
  assumes "timeline_ok p" "0 \<le> ms" "0 \<le> bytes"
  shows "map fst (page_audits showNum (page_metrics_of p) u ms bytes n) = audit_ids"
    "list_all (\<lambda>(k, a). scored a) (page_audits showNum (page_metrics_of p) u ms bytes n)"
proof -
  have falls: "unit_score (falling_score (me_domContentLoaded (page_metrics_of p)) 5000)"
    "unit_score (falling_score (me_firstContentfulPaint (page_metrics_of p)) 4000)"
    "unit_score (falling_score (num_or (me_load (page_metrics_of p)) ms) 10000)"
    "unit_score (falling_score (num_or (me_resourceTransfer (page_metrics_of p)) bytes) 5000000)"
    using metrics_nonneg [OF assms(1)] assms(2,3) by (simp_all add: falling_unit num_or_nonneg)
  have bools: "unit_score 0" "unit_score 1" by (simp_all add: unit_score_def)
  show "map fst (page_audits showNum (page_metrics_of p) u ms bytes n) = audit_ids"
    by (simp add: page_audits_def Let_def audit_ids_def)
  show "list_all (\<lambda>(k, a). scored a) (page_audits showNum (page_metrics_of p) u ms bytes n)"
    using falls bools accessibility_unit by (simp add: page_audits_def Let_def scored_def plain_audit_def timed_audit_def yes_no_def)
qed

lemma page_categories_ok:
  "map fst (page_categories m u ms) = category_ids" "list_all (\<lambda>(k, q, t). unit_score q) (page_categories m u ms)"
  using accessibility_unit performance_unit seo_unit
  by (auto simp: page_categories_def category_ids_def unit_score_def)

definition asked :: "string list option \<Rightarrow> string \<Rightarrow> bool" where
  "asked wanted k \<longleftrightarrow> or_default wanted [] = [] \<or> k \<in> set (or_default wanted [])"

lemma selected_keys: "map fst (selected wanted xs) = filter (asked wanted) (map fst xs)"
  by (induction xs) (auto simp: selected_def asked_def)

lemma selected_all: "list_all P xs \<Longrightarrow> list_all P (selected wanted xs)"
  by (auto simp: selected_def list_all_iff)

text \<open>A report has exactly the audits and the categories that were asked for, in the fixed order, or all of them when none is named, and
  every score is between zero and one, or missing for a page that painted nothing. Its address is the normal form of the page's
  own, and nothing was measured unless the address that was asked for passed the guard.\<close>

theorem performance_report_scored:
  assumes "lends ctx" "basicPerformance C ctx F showNum inp categories audits s = (Inr rep, s')"
    and "\<forall>w p w'. pf_measure F w = (Inr p, w') \<longrightarrow> timeline_ok p"
  shows "map fst (pr_audits rep) = filter (asked audits) audit_ids \<and> map fst (pr_categories rep) = filter (asked categories) category_ids \<and>
    list_all (\<lambda>(k, a). scored a) (pr_audits rep) \<and> list_all (\<lambda>(k, q, t). unit_score q) (pr_categories rep) \<and>
    (\<exists>w. normalizeUrl (sc_parse C) (pg_url (sc_page C) w) = Inr (pr_finalUrl rep)) \<and>
    (\<exists>u. assertSafeUrl (sc_parse C) (sc_guard C s) (in_url inp) (map_option pxy_allowedDomains (in_proxy inp)) = Inr u)"
proof -
  from assms(2) obtain x w where safe: "check_script_url C inp (in_url inp) s = (Inr x, w)"
    and run: "ctx (in_viewport inp) (in_proxy inp) (defaultBrowserBackend (sc_config C)) None
      (performance_body C F showNum inp categories audits) w = (Inr rep, s')"
    unfolding basicPerformance_def then_do_Inr_iff catching_Inr by blast
  from run assms(1) obtain s1 s2 where "performance_body C F showNum inp categories audits s1 = (Inr rep, s2)" unfolding lends_def by blast
  then obtain t1 t2 p final where p: "pf_measure F t1 = (Inr p, t2)"
    and final: "normalizeUrl (sc_parse C) (pg_url (sc_page C) t2) = Inr final"
    and rep: "rep = \<lparr>pr_requestedUrl = in_url inp, pr_finalUrl = final, pr_generatedAt = pf_now F t2,
        pr_categories = selected categories (page_categories (page_metrics_of p) final (of_int (max 0 (pf_now F t2 - pf_now F s1)))),
        pr_audits = selected audits (page_audits showNum (page_metrics_of p) final (of_int (max 0 (pf_now F t2 - pf_now F s1)))
          (declared_bytes (pf_responses F t2)) (length (pf_responses F t2)))\<rparr>"
    by (auto simp: performance_body_def Let_def then_do_Inr_iff res_bind_Inr_iff)
  have "timeline_ok p" using assms(3) p by blast
  note audits = page_audits_ok [OF this _ declared_bytes_nonneg]
  have "0 \<le> (of_int (max 0 (pf_now F t2 - pf_now F s1)) :: rat)" by simp
  note audits = audits [OF this]
  have "\<exists>u. assertSafeUrl (sc_parse C) (sc_guard C s) (in_url inp) (map_option pxy_allowedDomains (in_proxy inp)) = Inr u"
    using safe by (cases "assertSafeUrl (sc_parse C) (sc_guard C s) (in_url inp) (map_option pxy_allowedDomains (in_proxy inp))")
      (auto simp: check_script_url_def)
  then show ?thesis
    using final audits page_categories_ok by (auto simp: rep selected_keys intro!: selected_all)
qed

text \<open>With the bounded engine the route drops the category \<open>pwa\<close>, and a selection that is empty afterwards selects everything.\<close>

lemma empty_selection_selects_all: "selected (Some []) xs = xs"
  by (simp add: selected_def or_default_def)

section \<open>Lighthouse\<close>

text \<open>Once its browser runs, every end of an audit stops it, as the last act.\<close>

lemma lighthouse_stops:
  assumes "assertSafeUrl (sc_parse C) (sc_guard C s) u None = Inr x"
    and "ld_launch D (max (or_default timeoutMs (jobTimeoutMs (sc_config C))) 30000) s = (Inr endpoint, s1)"
    and "fullLighthouse C D u timeoutMs categories audits s = (r, s')"
  shows "\<exists>s2. s' = ld_stop D endpoint s2"
  using assms by (auto simp: fullLighthouse_def split: prod.splits)

lemma lighthouse_bounded:
  assumes "lighthouse_answer C D u lhr s = (Inr res, s')"
  shows "length (pr_audits (lr_report res)) \<le> 200 \<and>
    list_all (\<lambda>(k, a). length (or_default (au_details a) []) \<le> 512) (pr_audits (lr_report res)) \<and>
    (\<exists>x. assertSafeUrl (sc_parse C) (sc_guard C s) (pr_finalUrl (lr_report res)) None = Inr x)"
  using assms
  by (auto simp: lighthouse_answer_def res_bind_Inr_iff maxAudits_def list_all_iff lighthouse_audit_of_def nonempty_def or_default_def)

section \<open>Witness\<close>

definition sample_timeline :: page_timeline where
  "sample_timeline = \<lparr>pt_navigation = Some (Some 100, Some 200, None), pt_paint = [], pt_resources = [Some 10, None], pt_viewport = None,
     pt_images = [True, False], pt_title = ''t'', pt_lang = Some ''en''\<rparr>"

definition sample_perf_page :: "unit perf_page" where
  "sample_perf_page = \<lparr>pf_measure = (\<lambda>s. (Inr sample_timeline, s)), pf_responses = (\<lambda>_. []), pf_now = (\<lambda>_. 0)\<rparr>"

lemma sample_timeline_ok: "\<forall>w p w'. pf_measure sample_perf_page w = (Inr p, w') \<longrightarrow> timeline_ok p"
proof -
  have "timeline_ok sample_timeline" by code_simp
  then show ?thesis by (simp add: sample_perf_page_def)
qed

lemma sample_performance:
  "\<exists>rep. basicPerformance sample_script lend_page sample_perf_page (\<lambda>_. []) sample_request None (Some [''viewport'']) () = (Inr rep, ())"
proof -
  have u: "in_url sample_request = in_url sample_request" ..
  have n: "normalizeUrl (sc_parse sample_script) (pg_url sample_script_page ()) = Inr (url_href public_url)" by code_simp
  show ?thesis
    by (simp add: basicPerformance_def sample_target_checked lend_page_def performance_body_def sample_script_fields catching_def Let_def n
        sample_perf_page_def) (simp add: sample_script_page_def)
qed

lemma sample_asked: "filter (asked (Some [''viewport''])) audit_ids = [''viewport'']" "filter (asked None) category_ids = category_ids"
  by code_simp+

theorem performance_report_scored_witness:
  "\<exists>rep :: performance_report. map fst (pr_audits rep) = [''viewport''] \<and> map fst (pr_categories rep) = category_ids"
proof -
  obtain rep where "basicPerformance sample_script lend_page sample_perf_page (\<lambda>_. []) sample_request None (Some [''viewport'']) () = (Inr rep, ())"
    using sample_performance by blast
  note ok = performance_report_scored [OF lend_page_lends this sample_timeline_ok]
  show ?thesis
  proof (intro exI conjI)
    show "map fst (pr_audits rep) = [''viewport'']" by (rule trans [OF ok [THEN conjunct1] sample_asked(1)])
    show "map fst (pr_categories rep) = category_ids" by (rule trans [OF ok [THEN conjunct2, THEN conjunct1] sample_asked(2)])
  qed
qed

end
