(* ===== verification/OB_Requests.thy ===== *)
theory OB_Requests
  imports OB_Mcp OB_Export OB_Performance
begin

text \<open>
  What the routes without a session share: the services they are registered with (\<open>src/src/server/routes/content.ts\<close>,
  \<open>src/src/server/routes/execution.ts\<close>), the reading of a validated body, the admission of a job, and the replies of
  \<open>src/src/server/presentation.ts\<close>.
\<close>

section \<open>Reading a body\<close>

definition flag_field :: "string \<Rightarrow> (string \<times> jsval) list \<Rightarrow> bool option" where
  "flag_field k fs = (case object_value fs k of JBool b \<Rightarrow> Some b | _ \<Rightarrow> None)"

definition texts_of :: "jsval \<Rightarrow> string list option" where
  "texts_of v = (case v of JArr xs \<Rightarrow> Some (map (\<lambda>x. case x of JStr s \<Rightarrow> s | _ \<Rightarrow> []) xs) | _ \<Rightarrow> None)"

definition texts_field :: "string \<Rightarrow> (string \<times> jsval) list \<Rightarrow> string list option" where
  "texts_field k fs = texts_of (object_value fs k)"

definition text_entries :: "jsval \<Rightarrow> (string \<times> string) list" where
  "text_entries v = map (\<lambda>(k, x). (k, case x of JStr s \<Rightarrow> s | _ \<Rightarrow> [])) (entries v)"

definition viewport_of :: "jsval \<Rightarrow> viewport option" where
  "viewport_of v =
     (case v of
        JObj fs \<Rightarrow> Some \<lparr>vp_width = or_default (int_field ''width'' fs) 0, vp_height = or_default (int_field ''height'' fs) 0,
          vp_deviceScaleFactor = (case object_value fs ''deviceScaleFactor'' of JNum q \<Rightarrow> Some q | _ \<Rightarrow> None)\<rparr>
      | _ \<Rightarrow> None)"

definition human_value :: "jsval \<Rightarrow> humanization_value" where
  "human_value v =
     (case v of JNum q \<Rightarrow> HNum q | JArr [JNum a, JNum b] \<Rightarrow> HRange a b | JBool b \<Rightarrow> HBool b | _ \<Rightarrow> HBool False)"

definition camoufox_of :: "(string \<times> jsval) list \<Rightarrow> camoufox_options" where
  "camoufox_of fs =
     \<lparr>cam_os = Option.bind (str_field ''os'' fs) (map_of [(''windows'', OsWindows), (''macos'', OsMacos), (''linux'', OsLinux)]),
      cam_locale = (case object_value fs ''locale'' of JStr s \<Rightarrow> Some (OneLocale s) | v \<Rightarrow> map_option ManyLocales (texts_of v)),
      cam_humanize = (case object_value fs ''humanize'' of JBool b \<Rightarrow> Some (CHBool b) | JNum q \<Rightarrow> Some (CHNum q) | _ \<Rightarrow> None),
      cam_blockImages = flag_field ''blockImages'' fs, cam_blockWebrtc = flag_field ''blockWebrtc'' fs,
      cam_enableCache = flag_field ''enableCache'' fs\<rparr>"

definition options_of :: "jsval \<Rightarrow> backend_options option" where
  "options_of v =
     (case v of
        JObj fs \<Rightarrow> Some \<lparr>fingerprintArgs = texts_field ''fingerprintArgs'' fs, humanize = flag_field ''humanize'' fs,
          humanPreset = map_option (\<lambda>s. if s = ''careful'' then PresetCareful else PresetDefault) (str_field ''humanPreset'' fs),
          humanConfig = (case object_value fs ''humanConfig'' of JObj hs \<Rightarrow> Some (map (\<lambda>(k, x). (k, human_value x)) hs) | _ \<Rightarrow> None),
          camoufox = (case object_value fs ''camoufox'' of JObj cs \<Rightarrow> Some (camoufox_of cs) | _ \<Rightarrow> None)\<rparr>
      | _ \<Rightarrow> None)"

definition backend_field :: "(string \<times> jsval) list \<Rightarrow> backend option" where
  "backend_field fs = Option.bind (str_field ''browserBackend'' fs) backend_of_id"

text \<open>The request of a page: an address with a time limit, and one with everything a body can say of the browser.\<close>

definition bare_input :: "string \<Rightarrow> millis option \<Rightarrow> stored_proxy option \<Rightarrow> fetch_input" where
  "bare_input u ms proxy =
     \<lparr>in_url = u, in_strategy = None, in_timeoutMs = (if ms = Some 0 then None else ms), in_headers = None, in_waitUntil = None,
      in_wait = None, in_browserBackend = None, in_browserOptions = None, in_viewport = None, in_proxy = proxy\<rparr>"

definition page_input :: "(string \<times> jsval) list \<Rightarrow> stored_proxy option \<Rightarrow> fetch_input" where
  "page_input body proxy = (bare_input (text_of ''url'' body) (int_field ''timeoutMs'' body) proxy)
     \<lparr>in_waitUntil := wait_of body, in_browserBackend := backend_field body,
      in_browserOptions := options_of (object_value body ''browserOptions''), in_viewport := viewport_of (object_value body ''viewport'')\<rparr>"

section \<open>The services\<close>

text \<open>
  The state is that of the storage and of the rest. \<open>we_admit\<close> is what \<open>queue.run\<close> does before a job of the given kind starts,
  \<open>we_settle\<close> what it does when the job is over.
\<close>

record 's web_env =
  we_store :: storage_env
  we_zod :: zod
  we_newId :: "storage \<times> 's \<Rightarrow> string"
  we_now :: "storage \<times> 's \<Rightarrow> millis"
  we_admit :: "string \<Rightarrow> ('s, unit) route_op"
  we_settle :: "storage \<times> 's \<Rightarrow> storage \<times> 's"
  we_jobs :: "'s job_env"
  we_fetch :: "api_fetch \<Rightarrow> ('s, fetch_response) route_op"
  we_cheerio :: cheerio
  we_query :: "dom list \<Rightarrow> string \<Rightarrow> dom list option"
  we_queryError :: "string \<Rightarrow> string"
  we_inner :: "dom \<Rightarrow> string"
  we_resolve :: "string \<Rightarrow> string \<Rightarrow> url option"
  we_map :: "(storage \<times> 's) map_env"
  we_script :: "(storage \<times> 's) script_env"
  we_media :: "(storage \<times> 's, string \<times> bool) with_context"
  we_shoot :: "shot_parameters \<Rightarrow> (storage \<times> 's, string) page_op"
  we_print :: "pdf_parameters \<Rightarrow> (storage \<times> 's, string) page_op"
  we_flow :: "(storage \<times> 's, workflow_page) with_context"
  we_load :: "(storage \<times> 's, download_result) with_context"
  we_click :: "string \<Rightarrow> nat \<Rightarrow> millis \<Rightarrow> (storage \<times> 's, started_download) page_op"
  we_film :: "string \<Rightarrow> int \<times> int \<Rightarrow> (storage \<times> 's, recorded_page) with_context"
  we_recorder :: "(storage \<times> 's) recorder"
  we_perf :: "(storage \<times> 's, performance_report) with_context"
  we_measure :: "(storage \<times> 's) perf_page"
  we_showNum :: "rat \<Rightarrow> string"
  we_lighthouse :: "(storage \<times> 's) lighthouse_driver"
  we_export :: "(storage \<times> 's) export_env"
  we_search :: "(storage \<times> 's) search_env"

abbreviation we_cfg :: "'s web_env \<Rightarrow> config" where
  "we_cfg V \<equiv> se_config (we_store V)"

definition web_args :: "'s web_env \<Rightarrow> schema \<Rightarrow> jsval \<Rightarrow> (string \<times> jsval) list outcome" where
  "web_args V sch v = map_sum id entries (parse_request (we_zod V) sch v)"

text \<open>\<open>queue.run(job, kind)\<close>: a job that was admitted gives its place back however it ends.\<close>

definition admitted :: "'s web_env \<Rightarrow> string \<Rightarrow> ('s, 'a) route_op \<Rightarrow> ('s, 'a) route_op" where
  "admitted V kind job w =
     (case we_admit V kind w of
        (Inl e, w1) \<Rightarrow> (Inl e, w1)
      | (Inr _, w1) \<Rightarrow> (case job w1 of (r, w2) \<Rightarrow> (r, we_settle V w2)))"

text \<open>The proxy a body names, of the caller.\<close>

definition body_proxy :: "'s web_env \<Rightarrow> gate_answer \<Rightarrow> (string \<times> jsval) list \<Rightarrow> ('s, stored_proxy option) route_op" where
  "body_proxy V who body w =
     (res_bind (requestKeyHash who) (\<lambda>owner. resolveProxy (we_store V) (fst w) (str_field ''proxyId'' body) (Some owner)), w)"

definition owned_fetch ::
  "'s web_env \<Rightarrow> gate_answer \<Rightarrow> string \<Rightarrow> strategy \<Rightarrow> millis option \<Rightarrow> output_kind list \<Rightarrow> cache_mode \<Rightarrow> int \<Rightarrow> ('s, fetch_response) route_op" where
  "owned_fetch V who u how ms outputs mode ttl w =
     then_do (settled (requestKeyHash who) w) (\<lambda>owner. we_fetch V (public_fetch u how ms outputs mode ttl owner))"

definition store_artifact :: "'s web_env \<Rightarrow> gate_answer \<Rightarrow> string \<Rightarrow> string \<Rightarrow> int \<Rightarrow> ('s, artifact) route_op" where
  "store_artifact V who body contentType ttl w =
     then_do (settled (requestKeyHash who) w) (\<lambda>owner w1.
       on_store (createArtifact (we_store V) (we_newId V w1) (we_now V w1) body contentType owner (Some ttl)) w1)"

section \<open>Schemas that routes share\<close>

definition formats_schema :: schema where
  "formats_schema = SDefault (SArray 0 None (SEnum [''html'', ''markdown'', ''links''])) (JArr [JStr ''markdown''])"

definition proxy_id_schema :: schema where
  "proxy_id_schema = SOptional (SString 0 None)"

definition backend_schemas :: "(string \<times> schema) list" where
  "backend_schemas =
     [(''browserBackend'', SOptional (SEnum (map backend_id browserBackendIds))), (''browserOptions'', SOptional browser_options_schema)]"

definition paper_schema :: schema where
  "paper_schema = SEnum [''A4'', ''Letter'', ''Legal'', ''A3'', ''A5'']"

definition margin_schema :: schema where
  "margin_schema = SOptional (SObject False (map (\<lambda>k. (k, SOptional (SString 0 (Some 16)))) [''top'', ''right'', ''bottom'', ''left'']))"

definition margin_of :: "(string \<times> jsval) list \<Rightarrow> (string \<times> string) list option" where
  "margin_of fs = (case object_value fs ''margin'' of
      JObj ms \<Rightarrow> Some (text_entries (JObj (filter (\<lambda>(k, v). v \<noteq> JUndefined) ms))) | _ \<Rightarrow> None)"

section \<open>Replies\<close>

datatype web_answer =
    WebFetch fetch_response
  | WebJson jsval
  | WebError int jsval
  | WebText string string
  | WebBinary string "(string \<times> string) list" string
  | WebFile string "(string \<times> string) list" byte_list
  | WebMap "mapped_url list"
  | WebPerformance performance_report
  | WebLighthouse lighthouse_result artifact
  | WebRecording artifact "recorded_page fallback_result"
  | WebJob crawl_request stored_job

definition sendBinary :: "(string \<times> string) list \<Rightarrow> string \<Rightarrow> string \<Rightarrow> string \<Rightarrow> web_answer" where
  "sendBinary headers body contentType requestId =
     WebBinary contentType (headers @ [(''X-OpenBrowse-Strategy'', ''browser''), (''X-Request-Id'', requestId)]) body"

text \<open>An attribute of an element, with its quotes.\<close>

definition attr :: "string \<Rightarrow> string \<Rightarrow> string" where
  "attr name v = CHR '' '' # name @ ''='' @ [CHR 0x22] @ v @ [CHR 0x22]"

definition xml_char :: "char \<Rightarrow> string" where
  "xml_char c =
     (if c = CHR ''&'' then ''&amp;'' else if c = CHR ''<'' then ''&lt;'' else if c = CHR ''>'' then ''&gt;''
      else if c = CHR 0x22 then ''&quot;'' else if c = CHR 0x27 then ''&apos;'' else [c])"

definition xml_text :: "string \<Rightarrow> string" where
  "xml_text s = concat (map xml_char s)"

definition card_font :: string where
  "card_font = attr ''font-family'' ''system-ui,sans-serif''"

text \<open>The pieces of the card in order.\<close>

definition card_pieces :: "int \<Rightarrow> int \<Rightarrow> bool \<Rightarrow> (string \<times> string) list \<Rightarrow> string list" where
  "card_pieces width height dark data =
     (let ink = (if dark then ''#f8fafc'' else ''#111827''); latency = (case map_of data ''latency'' of Some l \<Rightarrow> l | None \<Rightarrow> or_default (map_of data ''status'') ''unknown'') in
      [''<svg'', attr ''xmlns'' ''http://www.w3.org/2000/svg'', attr ''width'' (show_int width), attr ''height'' (show_int height),
       attr ''viewBox'' (''0 0 '' @ show_int width @ '' '' @ show_int height), attr ''role'' ''img'',
       attr ''aria-label'' (xml_text (or_default (map_of data ''title'') ''OpenBrowse status'')), ''>'',
       ''<rect'', attr ''width'' ''100%'', attr ''height'' ''100%'', attr ''rx'' ''16'', attr ''fill'' (if dark then ''#111827'' else ''#f8fafc''), ''/>'',
       ''<circle'', attr ''cx'' ''40'', attr ''cy'' ''40'', attr ''r'' ''10'',
       attr ''fill'' (if to_lower (or_default (map_of data ''status'') []) = ''healthy'' then ''#22c55e'' else ''#f59e0b''), ''/>'',
       ''<text'', attr ''x'' ''64'', attr ''y'' ''47'', attr ''fill'' ink, card_font, attr ''font-size'' ''24'', attr ''font-weight'' ''700'', ''>'',
       xml_text (or_default (map_of data ''title'') ''OpenBrowse''), ''</text>'',
       ''<text'', attr ''x'' ''32'', attr ''y'' (show_int (height - 32)), attr ''fill'' (if dark then ''#cbd5e1'' else ''#475569''), card_font,
       attr ''font-size'' ''18'', ''>'', xml_text latency, ''</text></svg>''])"

definition statusCard :: "int \<Rightarrow> int \<Rightarrow> bool \<Rightarrow> (string \<times> string) list \<Rightarrow> string" where
  "statusCard width height dark data = concat (card_pieces width height dark data)"

text \<open>The address of the socket of a session.\<close>

definition drop_final_slash :: "string \<Rightarrow> string" where
  "drop_final_slash p = (if p \<noteq> [] \<and> last p = CHR ''/'' then butlast p else p)"

definition socket_path :: "string \<Rightarrow> string" where
  "socket_path sid = ''/v1/sessions/'' @ sid @ ''/cdp''"

definition sessionConnectUrl :: "config \<Rightarrow> url_parser \<Rightarrow> string option \<Rightarrow> string \<Rightarrow> string outcome" where
  "sessionConnectUrl cfg parse hostHeader sid =
     (if externalUrl cfg \<noteq> []
      then (case parse (externalUrl cfg) of
              None \<Rightarrow> Inl (JsError ''Invalid URL'')
            | Some base \<Rightarrow> Inr (url_href (base
                \<lparr>u_protocol := (if u_protocol base = ''https:'' then ''wss:'' else ''ws:''),
                 u_pathname := drop_final_slash (u_pathname base) @ socket_path sid\<rparr>)))
      else Inr (''ws://'' @ or_default hostHeader (''localhost:'' @ show_int (config.port cfg)) @ socket_path sid))"

end
