(* ===== verification/OB_ContentRoutes.thy ===== *)
theory OB_ContentRoutes
  imports OB_Requests
begin

text \<open>
  The routes of \<open>src/src/server/routes/content.ts\<close>: the HTML of a page, its extraction, screenshots, documents and the status
  card. The names without a version are the migration aliases.
\<close>

definition limit_schema :: "config \<Rightarrow> schema" where
  "limit_schema cfg = SOptional (whole (Some 100) (Some (jobTimeoutMs cfg)))"

section \<open>HTML\<close>

definition content_schema :: "config \<Rightarrow> schema" where
  "content_schema cfg = SObject False
     [(''url'', url_schema), (''render'', strategy_schema), (''timeoutMs'', limit_schema cfg), (''proxyId'', proxy_id_schema)]"

text \<open>The fetch of a page through a proxy of the caller.\<close>

definition proxied_fetch :: "'s web_env \<Rightarrow> gate_answer \<Rightarrow> (string \<times> jsval) list \<Rightarrow> string \<Rightarrow> ('s, fetch_response) route_op" where
  "proxied_fetch V who body how w =
     then_do (settled (requestKeyHash who) w) (\<lambda>owner.
       we_fetch V ((public_fetch (text_of ''url'' body) (strategy_of how) (int_field ''timeoutMs'' body) [OutHtml] CacheDefault 300 owner)
         \<lparr>af_proxyId := (if text_of ''proxyId'' body = [] then None else str_field ''proxyId'' body)\<rparr>))"

definition v1_content :: "'s web_env \<Rightarrow> gate_answer \<Rightarrow> jsval \<Rightarrow> ('s, web_answer) route_op" where
  "v1_content V who raw w =
     then_do (settled (web_args V (content_schema (we_cfg V)) raw) w) (\<lambda>body w1.
     then_do (proxied_fetch V who body (text_of ''render'' body) w1) (\<lambda>r.
     settled (Inr (WebJson (JObj [(''html'', optional_json JStr (tf_html (fp_outputs r))), (''finalUrl'', JStr (fp_finalUrl r)),
       (''strategy'', JStr (stage_text (fp_strategy r)))])))))"

definition source_issues :: "jsval \<Rightarrow> string list" where
  "source_issues v =
     (if text_of ''url'' (entries v) \<noteq> [] \<or> text_of ''html'' (entries v) \<noteq> [] then [] else [''url or html is required''])"

definition html_page :: "string \<Rightarrow> web_answer" where
  "html_page h = WebText ''text/html; charset=utf-8'' h"

definition content_alias :: "'s web_env \<Rightarrow> gate_answer \<Rightarrow> jsval \<Rightarrow> ('s, web_answer) route_op" where
  "content_alias V who raw w =
     then_do (settled (web_args V (SRefine source_issues (SObject False
         [(''url'', SOptional url_schema), (''html'', SOptional (SString 0 (Some (nat (maxResponseBytes (we_cfg V)))))),
          (''timeout'', limit_schema (we_cfg V))])) raw) w) (\<lambda>body w1.
     if text_of ''html'' body \<noteq> [] then (Inr (html_page (text_of ''html'' body)), w1)
     else then_do (owned_fetch V who (text_of ''url'' body) BrowserOnly (int_field ''timeout'' body) [OutHtml] CacheNoStore 1 w1) (\<lambda>r.
       settled (Inr (html_page (or_default (tf_html (fp_outputs r)) [])))))"

section \<open>Extraction\<close>

definition rule_of :: "jsval \<Rightarrow> extract_rule" where
  "rule_of v =
     (let fs = entries v; t = text_of ''type'' fs in
      \<lparr>xr_selector = text_of ''selector'' fs,
       xr_kind = (if t = ''html'' then RuleHtml else if t = ''attribute'' then RuleAttribute else RuleText),
       xr_attribute = str_field ''attribute'' fs, xr_all = bool_field ''all'' fs\<rparr>)"

definition rules_of :: "jsval \<Rightarrow> (string \<times> extract_rule) list" where
  "rules_of v = map (\<lambda>(name, x). (name, rule_of x)) (entries v)"

definition v1_extract :: "'s web_env \<Rightarrow> gate_answer \<Rightarrow> jsval \<Rightarrow> ('s, web_answer) route_op" where
  "v1_extract V who raw w =
     then_do (settled (web_args V (SObject False
         [(''url'', url_schema), (''strategy'', strategy_schema),
          (''selectors'', SRefine selector_count (SRecord (SString 1 (Some 128)) selector_schema)),
          (''timeoutMs'', limit_schema (we_cfg V)), (''proxyId'', proxy_id_schema)]) raw) w) (\<lambda>body w1.
     then_do (proxied_fetch V who body (text_of ''strategy'' body) w1) (\<lambda>r.
     settled (res_bind (extract_data (we_cheerio V) (we_query V) (we_inner V) (we_resolve V) (or_default (tf_html (fp_outputs r)) [])
         (fp_finalUrl r) (rules_of (object_value body ''selectors''))) (\<lambda>data.
       Inr (WebJson (JObj [(''data'', JObj data), (''strategy'', JStr (stage_text (fp_strategy r)))]))))))"

section \<open>Screenshots and documents\<close>

definition image_type :: "bool \<Rightarrow> string" where
  "image_type jpeg = (if jpeg then ''image/jpeg'' else ''image/png'')"

definition shot_job :: "'s web_env \<Rightarrow> string \<Rightarrow> fetch_input \<Rightarrow> bool \<Rightarrow> bool option \<Rightarrow> int option \<Rightarrow> ('s, web_answer) route_op" where
  "shot_job V rid inp jpeg full quality w =
     then_do (admitted V ''screenshot'' (screenshot (we_script V) (we_media V) (we_shoot V) inp jpeg full quality) w) (\<lambda>img.
       settled (Inr (sendBinary [] img (image_type jpeg) rid)))"

definition shot_schema :: "config \<Rightarrow> schema" where
  "shot_schema cfg = SObject False
     ([(''url'', url_schema), (''format'', SDefault (SEnum [''png'', ''jpeg'']) (JStr ''png'')), (''fullPage'', SDefault SBool (JBool True)),
       (''quality'', SOptional (whole (Some 1) (Some 100))), (''viewport'', SOptional viewport_schema), (''timeoutMs'', limit_schema cfg),
       (''waitUntil'', SOptional (SEnum page_load_states))] @ backend_schemas @ [(''proxyId'', proxy_id_schema)])"

definition v1_screenshot :: "'s web_env \<Rightarrow> gate_answer \<Rightarrow> string \<Rightarrow> jsval \<Rightarrow> ('s, web_answer) route_op" where
  "v1_screenshot V who rid raw w =
     then_do (settled (web_args V (shot_schema (we_cfg V)) raw) w) (\<lambda>body w1.
     then_do (body_proxy V who body w1) (\<lambda>proxy.
     shot_job V rid (page_input body proxy) (text_of ''format'' body = ''jpeg'') (flag_field ''fullPage'' body) (int_field ''quality'' body)))"

definition screenshot_alias :: "'s web_env \<Rightarrow> string \<Rightarrow> jsval \<Rightarrow> ('s, web_answer) route_op" where
  "screenshot_alias V rid raw w =
     then_do (settled (web_args V (SObject False
         [(''url'', url_schema),
          (''options'', SDefault (SObject False [(''type'', SOptional (SEnum [''png'', ''jpeg''])), (''fullPage'', SOptional SBool),
             (''quality'', SOptional (whole (Some 1) (Some 100)))]) (JObj [])),
          (''timeout'', limit_schema (we_cfg V))]) raw) w) (\<lambda>body.
     let options = entries (object_value body ''options'') in
     shot_job V rid (bare_input (text_of ''url'' body) (int_field ''timeout'' body) None) (text_of ''type'' options = ''jpeg'')
       (flag_field ''fullPage'' options) (int_field ''quality'' options))"

definition print_job :: "'s web_env \<Rightarrow> string \<Rightarrow> fetch_input \<Rightarrow> (string \<times> jsval) list \<Rightarrow> ('s, web_answer) route_op" where
  "print_job V rid inp options w =
     then_do (admitted V ''pdf'' (pdf (we_script V) (we_media V) (we_print V) inp (str_field ''format'' options)
         (flag_field ''landscape'' options) (flag_field ''printBackground'' options) (margin_of options)) w) (\<lambda>doc.
       settled (Inr (sendBinary [] doc ''application/pdf'' rid)))"

definition v1_pdf :: "'s web_env \<Rightarrow> gate_answer \<Rightarrow> string \<Rightarrow> jsval \<Rightarrow> ('s, web_answer) route_op" where
  "v1_pdf V who rid raw w =
     then_do (settled (web_args V (SObject False
         ([(''url'', url_schema), (''format'', SDefault paper_schema (JStr ''A4'')), (''landscape'', SDefault SBool (JBool False)),
           (''printBackground'', SDefault SBool (JBool True)), (''margin'', margin_schema), (''timeoutMs'', limit_schema (we_cfg V))]
          @ backend_schemas @ [(''proxyId'', proxy_id_schema)])) raw) w) (\<lambda>body w1.
     then_do (body_proxy V who body w1) (\<lambda>proxy. print_job V rid (page_input body proxy) body))"

definition pdf_alias :: "'s web_env \<Rightarrow> string \<Rightarrow> jsval \<Rightarrow> ('s, web_answer) route_op" where
  "pdf_alias V rid raw w =
     then_do (settled (web_args V (SObject False
         [(''url'', url_schema),
          (''options'', SDefault (SObject False [(''format'', SOptional paper_schema), (''landscape'', SOptional SBool),
             (''printBackground'', SOptional SBool), (''margin'', margin_schema)]) (JObj [])),
          (''timeout'', limit_schema (we_cfg V))]) raw) w) (\<lambda>body.
     print_job V rid (bare_input (text_of ''url'' body) (int_field ''timeout'' body) None) (entries (object_value body ''options'')))"

section \<open>The status card\<close>

definition v1_svg :: "'s web_env \<Rightarrow> jsval \<Rightarrow> ('s, web_answer) route_op" where
  "v1_svg V raw w =
     then_do (settled (web_args V (SObject False
         [(''template'', SLiteral ''status-card''), (''width'', whole (Some 100) (Some 2048)), (''height'', whole (Some 80) (Some 2048)),
          (''theme'', SDefault (SEnum [''light'', ''dark'']) (JStr ''light'')), (''data'', SRecord (SString 0 (Some 64)) (SString 0 (Some 500)))])
         raw) w) (\<lambda>body.
     settled (Inr (WebText ''image/svg+xml; charset=utf-8''
       (statusCard (or_default (int_field ''width'' body) 0) (or_default (int_field ''height'' body) 0) (text_of ''theme'' body = ''dark'')
         (text_entries (object_value body ''data''))))))"

end
