(* ===== verification/OB_ExecutionRoutes.thy ===== *)
theory OB_ExecutionRoutes
  imports OB_ContentRoutes
begin

text \<open>
  The routes of \<open>src/src/server/routes/execution.ts\<close>: fetches, scrapes, site maps, the start of a crawl, search, export,
  performance, workflows, downloads and recordings.
\<close>

section \<open>Fetches\<close>

definition fetch_headers :: "(string \<times> jsval) list \<Rightarrow> (string \<times> string) list option" where
  "fetch_headers body = (case object_value body ''headers'' of JObj hs \<Rightarrow> Some (text_entries (JObj hs)) | _ \<Rightarrow> None)"

definition cache_mode_of :: "string \<Rightarrow> cache_mode" where
  "cache_mode_of s = (if s = ''no-store'' then CacheNoStore else if s = ''reload'' then CacheReload else CacheDefault)"

definition fetch_request :: "(string \<times> jsval) list \<Rightarrow> string \<Rightarrow> api_fetch" where
  "fetch_request body owner =
     (let cache = entries (object_value body ''cache'') in
      \<lparr>af_url = text_of ''url'' body, af_strategy = strategy_of (text_of ''strategy'' body), af_timeoutMs = int_field ''timeoutMs'' body,
       af_headers = fetch_headers body, af_waitUntil = wait_of body, af_wait = wait_condition (object_value body ''wait''),
       af_output = outputs_of body ''output'', af_browserBackend = backend_field body,
       af_browserOptions = options_of (object_value body ''browserOptions''), af_cacheMode = cache_mode_of (text_of ''mode'' cache),
       af_ttlSeconds = or_default (int_field ''ttlSeconds'' cache) 0, af_proxyId = str_field ''proxyId'' body,
       af_viewport = viewport_of (object_value body ''viewport''), af_ownerKeyHash = Some owner\<rparr>)"

definition fetch_answer :: "string \<Rightarrow> fetch_response \<Rightarrow> web_answer" where
  "fetch_answer rid r = WebFetch (r\<lparr>fp_requestId := rid\<rparr>)"

definition v1_fetch :: "'s web_env \<Rightarrow> gate_answer \<Rightarrow> string \<Rightarrow> jsval \<Rightarrow> ('s, web_answer) route_op" where
  "v1_fetch V who rid raw w =
     then_do (settled (web_args V (fetch_schema (we_cfg V)) raw) w) (\<lambda>body w1.
     then_do (settled (requestKeyHash who) w1) (\<lambda>owner w2.
     then_do (we_fetch V (fetch_request body owner) w2) (\<lambda>r. settled (Inr (fetch_answer rid r)))))"

definition smart_scrape :: "'s web_env \<Rightarrow> gate_answer \<Rightarrow> string \<Rightarrow> jsval \<Rightarrow> ('s, web_answer) route_op" where
  "smart_scrape V who rid raw w =
     then_do (settled (web_args V (SObject False
         [(''url'', url_schema), (''formats'', formats_schema), (''timeout'', limit_schema (we_cfg V))]) raw) w) (\<lambda>body w1.
     then_do (owned_fetch V who (text_of ''url'' body) Auto (int_field ''timeout'' body) (outputs_of body ''formats'') CacheDefault 300 w1) (\<lambda>r.
     settled (Inr (fetch_answer rid r))))"

section \<open>Scrapes\<close>

definition items_of :: "string \<Rightarrow> (string \<times> jsval) list \<Rightarrow> (string \<times> jsval) list list" where
  "items_of k body = (case object_value body k of JArr xs \<Rightarrow> map entries xs | _ \<Rightarrow> [])"

definition node_attributes :: "string list \<Rightarrow> dom \<Rightarrow> (string, jsval) jsmap" where
  "node_attributes names d = foldl (\<lambda>m k. map_set k (case dom_attr k d of Some v \<Rightarrow> JStr v | None \<Rightarrow> JNull) m) [] names"

definition scraped_node :: "'s web_env \<Rightarrow> string list \<Rightarrow> dom \<Rightarrow> jsval" where
  "scraped_node V names d =
     JObj [(''text'', JStr (trim (dom_text d))), (''html'', JStr (we_inner V d)), (''attributes'', JObj (node_attributes names d))]"

definition scraped_element :: "'s web_env \<Rightarrow> dom list \<Rightarrow> (string \<times> jsval) list \<Rightarrow> jsval outcome" where
  "scraped_element V doc element =
     (let sel = text_of ''selector'' element in
      case we_query V doc sel of
        None \<Rightarrow> Inl (JsError (we_queryError V sel))
      | Some ds \<Rightarrow> Inr (JObj [(''selector'', JStr sel),
          (''results'', JArr (map (scraped_node V (or_default (texts_field ''attributes'' element) [])) ds))]))"

definition scrape_route :: "'s web_env \<Rightarrow> gate_answer \<Rightarrow> jsval \<Rightarrow> ('s, web_answer) route_op" where
  "scrape_route V who raw w =
     then_do (settled (web_args V (SObject False
         [(''url'', url_schema),
          (''elements'', SArray 1 (Some 100) (SObject False [(''selector'', SString 1 (Some 512)),
             (''attributes'', SOptional (SArray 0 (Some 25) (SString 1 (Some 128))))])),
          (''timeout'', limit_schema (we_cfg V))]) raw) w) (\<lambda>body w1.
     then_do (owned_fetch V who (text_of ''url'' body) BrowserOnly (int_field ''timeout'' body) [OutHtml] CacheNoStore 1 w1) (\<lambda>r.
     settled (res_bind (map_outcome (scraped_element V (html_load (we_cheerio V) (or_default (tf_html (fp_outputs r)) []))) (items_of ''elements'' body))
       (\<lambda>data. res_bind (assertBoundedJson (we_cfg V) (sc_stringify (we_script V))
          (JObj [(''data'', JArr data), (''strategy'', JStr (stage_text (fp_strategy r)))]) ''Scrape response'') (\<lambda>v. Inr (WebJson v))))))"

section \<open>Site maps and crawls\<close>

definition map_options_of :: "(string \<times> jsval) list \<Rightarrow> map_options" where
  "map_options_of body =
     \<lparr>mo_maxUrls = map_option nat (int_field ''maxUrls'' body), mo_maxDepth = map_option nat (int_field ''maxDepth'' body),
      mo_include = texts_field ''include'' body, mo_exclude = texts_field ''exclude'' body, mo_search = str_field ''search'' body,
      mo_render = Some (strategy_of (text_of ''render'' body))\<rparr>"

definition pattern_schema :: schema where
  "pattern_schema = SOptional (SArray 0 (Some 50) (SString 0 (Some 256)))"

definition map_route :: "'s web_env \<Rightarrow> jsval \<Rightarrow> ('s, web_answer) route_op" where
  "map_route V raw w =
     then_do (settled (web_args V (SObject False
         [(''url'', url_schema), (''maxUrls'', SOptional (whole (Some 1) (Some 1000))), (''maxDepth'', SOptional (whole (Some 0) (Some 10))),
          (''include'', pattern_schema), (''exclude'', pattern_schema), (''search'', SOptional (SString 0 (Some 256))),
          (''render'', strategy_schema)]) raw) w) (\<lambda>body w1.
     then_do (admitted V ''automation'' (mapSite (we_map V) (text_of ''url'' body) (map_options_of body)) w1) (\<lambda>urls.
     settled (Inr (WebMap urls))))"

definition crawl_request_of :: "(string \<times> jsval) list \<Rightarrow> crawl_request" where
  "crawl_request_of body =
     \<lparr>cw_url = text_of ''url'' body, cw_maxUrls = nat (or_default (int_field ''maxUrls'' body) 0),
      cw_maxDepth = nat (or_default (int_field ''maxDepth'' body) 0), cw_formats = outputs_of body ''formats'',
      cw_ttlSeconds = or_default (int_field ''ttlSeconds'' body) 0\<rparr>"

text \<open>The job goes on after the answer, as \<open>crawl_job\<close>.\<close>

definition crawl_route :: "'s web_env \<Rightarrow> gate_answer \<Rightarrow> jsval \<Rightarrow> ('s, web_answer) route_op" where
  "crawl_route V who raw w =
     then_do (settled (web_args V (SObject False
         [(''url'', url_schema), (''maxUrls'', SDefault (whole (Some 1) (Some 250)) (JNum 50)),
          (''maxDepth'', SDefault (whole (Some 0) (Some 5)) (JNum 2)), (''formats'', formats_schema),
          (''ttlSeconds'', SDefault (whole (Some 60) (Some 86400)) (JNum 3600))]) raw) w) (\<lambda>body w1.
     then_do (settled (requestKeyHash who) w1) (\<lambda>owner w2.
     then_do (start_job (we_jobs V) ''crawl'' (json_text (je_stringify (we_jobs V)) (JObj body)) (cw_ttlSeconds (crawl_request_of body)) owner w2)
       (\<lambda>job. settled (Inr (WebJob (crawl_request_of body) job)))))"

section \<open>Search\<close>

definition result_fields :: "search_result \<Rightarrow> (string \<times> jsval) list" where
  "result_fields r = [(''title'', JStr (sr_title r)), (''url'', JStr (sr_url r)), (''content'', JStr (sr_content r))]"

definition scraped_fields :: "fetch_response outcome \<Rightarrow> (string \<times> jsval) list" where
  "scraped_fields r =
     (case r of
        Inr f \<Rightarrow> [(''scrape'', JObj [(''strategy'', JStr (stage_text (fp_strategy f))), (''html'', optional_json JStr (tf_html (fp_outputs f))),
          (''markdown'', optional_json JStr (tf_markdown (fp_outputs f))),
          (''links'', optional_json (\<lambda>ls. JArr (map JStr ls)) (tf_links (fp_outputs f)))])]
      | Inl e \<Rightarrow> [(''scrapeError'', JStr (thrown_message e))])"

definition search_answer :: "jsval list \<Rightarrow> jsval" where
  "search_answer items = JObj [(''results'', JArr items)]"

fun enrich_results ::
  "'s web_env \<Rightarrow> gate_answer \<Rightarrow> output_kind list \<Rightarrow> search_result list \<Rightarrow> jsval list \<Rightarrow> ('s, jsval list) route_op" where
  "enrich_results V who formats [] enriched w = (Inr enriched, w)"
| "enrich_results V who formats (r # rs) enriched w =
     (case owned_fetch V who (sr_url r) Auto None formats CacheDefault 300 w of
        (fetched, w1) \<Rightarrow>
          let item = JObj (result_fields r @ scraped_fields fetched) in
          (case assertBoundedJson (we_cfg V) (sc_stringify (we_script V)) (search_answer (enriched @ [item])) ''Search response'' of
             Inl e \<Rightarrow> (Inl e, w1)
           | Inr _ \<Rightarrow> enrich_results V who formats rs (enriched @ [item]) w1))"

definition search_route :: "'s web_env \<Rightarrow> gate_answer \<Rightarrow> jsval \<Rightarrow> ('s, web_answer) route_op" where
  "search_route V who raw w =
     then_do (settled (web_args V (SObject False
         [(''query'', SString 1 (Some 512)), (''categories'', SDefault (SEnum [''general'', ''news'', ''images'']) (JStr ''general'')),
          (''limit'', SDefault (whole (Some 1) (Some 20)) (JNum 10)), (''scrape'', SDefault SBool (JBool False)), (''formats'', formats_schema)])
         raw) w) (\<lambda>body w1.
     then_do (searchWeb (we_search V) (text_of ''query'' body) (text_of ''categories'' body) (nat (or_default (int_field ''limit'' body) 0)) w1)
       (\<lambda>results w2.
     if \<not> bool_field ''scrape'' body then (Inr (WebJson (search_answer (map (\<lambda>r. JObj (result_fields r)) results))), w2)
     else then_do (enrich_results V who (outputs_of body ''formats'') results [] w2) (\<lambda>items. settled (Inr (WebJson (search_answer items))))))"

section \<open>Export and performance\<close>

definition export_route :: "'s web_env \<Rightarrow> jsval \<Rightarrow> ('s, web_answer) route_op" where
  "export_route V raw w =
     then_do (settled (web_args V (SObject False
         [(''url'', url_schema), (''includeResources'', SDefault SBool (JBool False)), (''timeout'', limit_schema (we_cfg V))]) raw) w) (\<lambda>body w1.
     then_do (exportUrl (we_export V) (text_of ''url'' body) (int_field ''timeout'' body) (bool_field ''includeResources'' body) w1) (\<lambda>x.
     settled (Inr (WebFile (xp_contentType x) [(''X-OpenBrowse-Final-URL'', xp_finalUrl x)] (xp_body x)))))"

definition performance_schema :: "config \<Rightarrow> schema" where
  "performance_schema cfg = SObject False
     [(''url'', url_schema), (''timeout'', limit_schema cfg), (''engine'', SDefault (SEnum [''lighthouse'', ''bounded'']) (JStr ''bounded'')),
      (''config'', SOptional (SObject False [(''settings'', SOptional (SObject False
         [(''onlyCategories'', SOptional (SArray 0 (Some 5) (SEnum [''accessibility'', ''best-practices'', ''performance'', ''pwa'', ''seo'']))),
          (''onlyAudits'', SOptional (SArray 0 (Some 100) (SString 1 (Some 128))))]))]))]"

definition performance_settings :: "(string \<times> jsval) list \<Rightarrow> (string \<times> jsval) list" where
  "performance_settings body = entries (object_value (entries (object_value body ''config'')) ''settings'')"

definition lighthouse_disabled :: "string \<Rightarrow> web_answer" where
  "lighthouse_disabled rid = WebError 501 (JObj [(''error'', JObj [(''code'', JStr ''FEATURE_DISABLED''),
     (''message'', JStr ''Lighthouse is disabled. Enable OPENBROWSE_LIGHTHOUSE_ENABLED only in an isolated browser-worker deployment with egress controls.''),
     (''requestId'', JStr rid)])])"

definition performance_route :: "'s web_env \<Rightarrow> gate_answer \<Rightarrow> string \<Rightarrow> jsval \<Rightarrow> ('s, web_answer) route_op" where
  "performance_route V who rid raw w =
     then_do (settled (web_args V (performance_schema (we_cfg V)) raw) w) (\<lambda>body w1.
     let u = text_of ''url'' body; ms = int_field ''timeout'' body; settings = performance_settings body;
         categories = texts_field ''onlyCategories'' settings; audits = texts_field ''onlyAudits'' settings in
     if text_of ''engine'' body = ''bounded''
     then then_do (admitted V ''automation'' (basicPerformance (we_script V) (we_perf V) (we_measure V) (we_showNum V) (bare_input u ms None)
            (map_option (filter (\<lambda>c. c \<noteq> ''pwa'')) categories) audits) w1) (\<lambda>report. settled (Inr (WebPerformance report)))
     else if \<not> lighthouseEnabled (we_cfg V) then (Inr (lighthouse_disabled rid), w1)
     else then_do (admitted V ''automation'' (fullLighthouse (we_script V) (we_lighthouse V) u (if ms = Some 0 then None else ms) categories audits) w1)
       (\<lambda>result w2.
       then_do (store_artifact V who (lr_rawJson result) ''application/json'' 3600 w2) (\<lambda>stored. settled (Inr (WebLighthouse result stored)))))"

definition unblock_policy :: string where
  "unblock_policy = ''Detected challenges are retried once per configured browser backend. The response reports backendAttempts and challengeRemaining; no external CAPTCHA-solving service is used.''"

definition unblock_route :: "'s web_env \<Rightarrow> gate_answer \<Rightarrow> jsval \<Rightarrow> ('s, web_answer) route_op" where
  "unblock_route V who raw w =
     then_do (settled (web_args V (SObject False
         [(''url'', url_schema), (''content'', SDefault SBool (JBool True)), (''cookies'', SDefault SBool (JBool False)),
          (''screenshot'', SDefault SBool (JBool False)), (''timeout'', limit_schema (we_cfg V))]) raw) w) (\<lambda>body w1.
     then_do (owned_fetch V who (text_of ''url'' body) BrowserOnly (int_field ''timeout'' body) [OutHtml] CacheNoStore 1 w1) (\<lambda>r.
     settled (Inr (WebJson (JObj ([(''status'', JNum (of_int (fp_status r)))]
       @ (if bool_field ''content'' body then [(''html'', optional_json JStr (tf_html (fp_outputs r)))] else [])
       @ (if bool_field ''screenshot'' body then [(''screenshot'', JStr ''Use /screenshot for binary output'')] else [])
       @ [(''policy'', JStr unblock_policy)]))))))"

section \<open>Workflows\<close>

definition step_shape :: "string \<Rightarrow> (string \<times> schema) list \<Rightarrow> schema" where
  "step_shape k fs = SObject False ((''action'', SLiteral k) # (''selector'', SString 1 (Some 512)) # fs)"

definition workflow_schema :: "config \<Rightarrow> schema" where
  "workflow_schema cfg = SObject False
     ([(''url'', url_schema), (''timeoutMs'', limit_schema cfg), (''viewport'', SOptional viewport_schema)] @ backend_schemas @
      [(''proxyId'', proxy_id_schema),
       (''steps'', SArray 1 (Some 30) (SUnion
          [step_shape ''wait'' [], step_shape ''click'' [(''index'', SOptional (whole (Some 0) (Some 99)))],
           step_shape ''fill'' [(''value'', SString 0 (Some 10000))], step_shape ''press'' [(''key'', SString 1 (Some 64))],
           SRefine attribute_issues (step_shape ''extract'' [(''name'', SString 1 (Some 128)), (''type'', SEnum [''text'', ''html'', ''attribute'']),
             (''attribute'', SOptional (SString 0 (Some 128))), (''all'', SOptional SBool)])]))])"

definition step_of :: "(string \<times> jsval) list \<Rightarrow> workflow_step" where
  "step_of fs =
     (let action = text_of ''action'' fs; sel = text_of ''selector'' fs; rule = rule_of (JObj fs) in
      if action = ''wait'' then StepWait sel
      else if action = ''click'' then StepClick sel (map_option nat (int_field ''index'' fs))
      else if action = ''fill'' then StepFill sel (text_of ''value'' fs)
      else if action = ''press'' then StepPress sel (text_of ''key'' fs)
      else StepExtract (text_of ''name'' fs) sel (xr_kind rule) (xr_attribute rule) (xr_all rule))"

text \<open>The input of a workflow and of a recording has no wait condition.\<close>

definition scripted_input :: "(string \<times> jsval) list \<Rightarrow> stored_proxy option \<Rightarrow> fetch_input" where
  "scripted_input body proxy = (page_input body proxy)\<lparr>in_waitUntil := None\<rparr>"

definition workflow_handler :: "'s web_env \<Rightarrow> gate_answer \<Rightarrow> jsval \<Rightarrow> ('s, web_answer) route_op" where
  "workflow_handler V who raw w =
     then_do (settled (web_args V (workflow_schema (we_cfg V)) raw) w) (\<lambda>body w1.
     then_do (body_proxy V who body w1) (\<lambda>proxy w2.
     then_do (admitted V ''workflow'' (runWorkflow (we_script V) (we_flow V) (scripted_input body proxy) (map step_of (items_of ''steps'' body))) w2)
       (\<lambda>f. settled (Inr (WebJson (workflow_json f))))))"

section \<open>Downloads and recordings\<close>

definition download_headers :: "download_result \<Rightarrow> (string \<times> string) list" where
  "download_headers d =
     [(''Content-Disposition'', ''attachment; filename='' @ [CHR 0x22] @ map (\<lambda>c. if c = CHR 0x22 then CHR ''_'' else c) (dl_filename d) @ [CHR 0x22]),
      (''X-OpenBrowse-Source-URL'', dl_sourceUrl d)]"

definition download_route :: "'s web_env \<Rightarrow> gate_answer \<Rightarrow> string \<Rightarrow> jsval \<Rightarrow> ('s, web_answer) route_op" where
  "download_route V who rid raw w =
     then_do (settled (web_args V (SObject False
         [(''url'', url_schema), (''selector'', SString 1 (Some 512)), (''index'', SDefault (whole (Some 0) (Some 99)) (JNum 0)),
          (''timeout'', limit_schema (we_cfg V)), (''proxyId'', proxy_id_schema)]) raw) w) (\<lambda>body w1.
     then_do (body_proxy V who body w1) (\<lambda>proxy w2.
     then_do (admitted V ''download'' (browserDownload (we_script V) (we_load V) (we_click V)
         (bare_input (text_of ''url'' body) (int_field ''timeout'' body) proxy) (text_of ''selector'' body)
         (map_option nat (int_field ''index'' body))) w2) (\<lambda>d.
     settled (Inr (sendBinary (download_headers d) (dl_body d) (dl_contentType d) rid)))))"

definition recording_schema :: "config \<Rightarrow> schema" where
  "recording_schema cfg = SObject False
     ([(''url'', url_schema), (''durationMs'', SDefault (whole (Some 0) (Some 10000)) (JNum 1500)), (''timeoutMs'', limit_schema cfg),
       (''viewport'', SOptional viewport_schema)] @ backend_schemas @
      [(''proxyId'', proxy_id_schema), (''ttlSeconds'', SDefault (whole (Some 60) (Some 86400)) (JNum 3600))])"

definition recordings_route :: "'s web_env \<Rightarrow> gate_answer \<Rightarrow> jsval \<Rightarrow> ('s, web_answer) route_op" where
  "recordings_route V who raw w =
     then_do (settled (web_args V (recording_schema (we_cfg V)) raw) w) (\<lambda>body w1.
     then_do (body_proxy V who body w1) (\<lambda>proxy w2.
     then_do (admitted V ''automation'' (recordVideo (we_script V) (we_recorder V) (we_film V) (scripted_input body proxy) (int_field ''durationMs'' body)) w2)
       (\<lambda>(video, f) w3.
     then_do (store_artifact V who video ''video/webm'' (or_default (int_field ''ttlSeconds'' body) 0) w3) (\<lambda>stored.
     settled (Inr (WebRecording stored f))))))"

end
