(* ===== verification/OB_Admin.thy ===== *)
theory OB_Admin
  imports OB_ContentRoutes OB_CacheStore
begin

text \<open>
  The routes of \<open>src/src/server/routes/admin.ts\<close>: proxies, webhooks, the cache, render jobs, artifacts and the capabilities of the
  service. Random identifiers, initialisation vectors and secrets come from the environment.
\<close>

record 's admin_env =
  am_web :: "'s web_env"
  am_iv :: "storage \<times> 's \<Rightarrow> string"
  am_iv2 :: "storage \<times> 's \<Rightarrow> string"
  am_secret :: "storage \<times> 's \<Rightarrow> string"

abbreviation am_store :: "'s admin_env \<Rightarrow> storage_env" where
  "am_store A \<equiv> we_store (am_web A)"

section \<open>Proxies\<close>

definition web_scheme_only :: "url_parser \<Rightarrow> jsval \<Rightarrow> string list" where
  "web_scheme_only parse v =
     (case v of
        JStr s \<Rightarrow> (case parse s of
            Some u \<Rightarrow> if u_protocol u \<in> {''http:'', ''https:''} then [] else [''Proxy must use http or https'']
          | None \<Rightarrow> [''Proxy must use http or https''])
      | _ \<Rightarrow> [])"

definition domain_text :: "string \<Rightarrow> bool" where
  "domain_text s \<longleftrightarrow> s \<noteq> [] \<and> list_all (\<lambda>c. is_letter c \<or> is_digit c \<or> c = CHR ''.'' \<or> c = CHR ''-'') s"

definition proxy_schema :: "url_parser \<Rightarrow> schema" where
  "proxy_schema parse = SObject False
     [(''name'', SString 1 (Some 128)), (''url'', SRefine (web_scheme_only parse) (SMatch (\<lambda>s. parse s \<noteq> None) (SString 0 None))),
      (''allowedDomains'', SDefault (SArray 0 (Some 100) (SMatch domain_text (SString 1 (Some 253)))) (JArr []))]"

definition proxy_port :: "url \<Rightarrow> int" where
  "proxy_port u = (if u_port u \<noteq> [] then int (digits_val (u_port u)) else if u_protocol u = ''https:'' then 443 else 80)"

definition create_proxy_route :: "'s admin_env \<Rightarrow> gate_answer \<Rightarrow> jsval \<Rightarrow> ('s, jsval) route_op" where
  "create_proxy_route A who raw w =
     (let E = am_store A in
      then_do (settled (web_args (am_web A) (proxy_schema (se_parseUrl E)) raw) w) (\<lambda>body w1.
      then_do (settled (requestKeyHash who) w1) (\<lambda>owner w2.
      then_do (on_store (createProxy E (we_newId (am_web A) w2) (am_iv A w2) (text_of ''name'' body) (text_of ''url'' body)
          (or_default (texts_field ''allowedDomains'' body) []) owner) w2) (\<lambda>created.
      settled (case se_parseUrl E (text_of ''url'' body) of
          None \<Rightarrow> Inl (JsError ''Invalid URL'')
        | Some u \<Rightarrow> Inr (JObj [(''id'', JStr (pc_id created)), (''name'', JStr (pc_name created)), (''host'', JStr (u_hostname u)),
            (''port'', JNum (of_int (proxy_port u)))]))))))"

definition id_schema :: schema where
  "id_schema = SObject False [(''id'', SString 0 None)]"

definition deleted_reply :: "bool \<Rightarrow> jsval" where
  "deleted_reply b = JObj [(''deleted'', JBool b)]"

definition named_delete :: "'s admin_env \<Rightarrow> gate_answer \<Rightarrow> jsval \<Rightarrow> (string \<Rightarrow> string \<Rightarrow> storage \<Rightarrow> bool \<times> storage) \<Rightarrow> ('s, jsval) route_op" where
  "named_delete A who params del w =
     then_do (settled (web_args (am_web A) id_schema params) w) (\<lambda>ps w1.
     then_do (settled (requestKeyHash who) w1) (\<lambda>owner w2.
     (case del (text_of ''id'' ps) owner (fst w2) of (b, S) \<Rightarrow> (Inr (deleted_reply b), S, snd w2))))"

definition delete_proxy_route :: "'s admin_env \<Rightarrow> gate_answer \<Rightarrow> jsval \<Rightarrow> ('s, jsval) route_op" where
  "delete_proxy_route A who params = named_delete A who params deleteProxy"

section \<open>Webhooks\<close>

definition webhook_events :: "string list" where
  "webhook_events = [''job.complete'', ''job.failed'', ''session.closed'', ''*'']"

definition webhook_reply :: "stored_webhook \<Rightarrow> jsval" where
  "webhook_reply h = JObj [(''id'', JStr (whk_id h)), (''url'', JStr (whk_url h)), (''events'', JArr (map JStr (whk_events h))),
     (''secret'', JStr (whk_secret h))]"

definition create_webhook_route :: "'s admin_env \<Rightarrow> gate_answer \<Rightarrow> jsval \<Rightarrow> ('s, jsval) route_op" where
  "create_webhook_route A who raw w =
     (let C = we_script (am_web A) in
      then_do (settled (web_args (am_web A) (SObject False [(''url'', url_schema), (''events'', SArray 1 (Some 4) (SEnum webhook_events))]) raw) w)
        (\<lambda>body w1.
      then_do (settled (assertSafeUrl (sc_parse C) (sc_guard C w1) (text_of ''url'' body) None) w1) (\<lambda>_ w2.
      then_do (settled (requestKeyHash who) w2) (\<lambda>owner w3.
      then_do (on_store (\<lambda>S. map_prod id (\<lambda>t. S\<lparr>sg_webhooks := t\<rparr>)
          (createWebhook (se_box (am_store A)) (we_newId (am_web A) w3) (am_iv A w3) (am_iv2 A w3) (am_secret A w3) (text_of ''url'' body)
             (or_default (texts_field ''events'' body) []) owner (sg_webhooks S))) w3) (\<lambda>h. settled (Inr (webhook_reply h)))))))"

definition delete_webhook_route :: "'s admin_env \<Rightarrow> gate_answer \<Rightarrow> jsval \<Rightarrow> ('s, jsval) route_op" where
  "delete_webhook_route A who params =
     named_delete A who params (\<lambda>i owner S. map_prod id (\<lambda>t. S\<lparr>sg_webhooks := t\<rparr>) (deleteWebhook i owner (sg_webhooks S)))"

section \<open>The cache\<close>

definition purge_disabled :: js_error where
  "purge_disabled = ob_err ''FEATURE_DISABLED'' ''Global cache purge is disabled by operator policy'' 501 False"

definition purge_issues :: "jsval \<Rightarrow> string list" where
  "purge_issues v =
     (if text_of ''scope'' (entries v) = ''url'' \<and> text_of ''value'' (entries v) = [] then [''value is required for URL scope''] else [])"

definition purge_schema :: schema where
  "purge_schema = SRefine purge_issues (SObject False [(''scope'', SEnum [''all'', ''url'']), (''value'', SOptional (SString 0 (Some 4096)))])"

definition purge_route :: "'s admin_env \<Rightarrow> 'c cache_storage \<Rightarrow> jsval \<Rightarrow> 'c cache \<Rightarrow> jsval outcome \<times> 'c cache" where
  "purge_route A S raw c =
     (if \<not> cachePurgeEnabled (we_cfg (am_web A)) then (Inl purge_disabled, c)
      else case web_args (am_web A) purge_schema raw of
        Inl e \<Rightarrow> (Inl e, c)
      | Inr body \<Rightarrow>
          (case cache_purge S (if text_of ''scope'' body = ''url'' then str_field ''value'' body else None) c of
             (n, c1) \<Rightarrow> (Inr (JObj [(''purged'', JNum (of_nat n))]), c1)))"

definition usage_reply :: "nat \<times> int \<Rightarrow> jsval" where
  "usage_reply = (\<lambda>(entries, bytes). JObj [(''entries'', JNum (of_nat entries)), (''bytes'', JNum (of_int bytes))])"

definition cache_stats_route :: "('c \<Rightarrow> nat \<times> int) \<Rightarrow> 'c cache \<Rightarrow> jsval" where
  "cache_stats_route disk c =
     (case cache_stats disk c of (memory, stored) \<Rightarrow> JObj [(''memory'', usage_reply memory), (''disk'', usage_reply stored)])"

section \<open>Render jobs\<close>

definition shot_job_schema :: "config \<Rightarrow> schema" where
  "shot_job_schema cfg = SObject False
     [(''url'', url_schema), (''format'', SDefault (SEnum [''png'', ''jpeg'']) (JStr ''png'')), (''fullPage'', SDefault SBool (JBool True)),
      (''quality'', SOptional (whole (Some 1) (Some 100))), (''viewport'', SOptional viewport_schema), (''timeoutMs'', limit_schema cfg),
      (''waitUntil'', SOptional (SEnum page_load_states)), (''proxyId'', proxy_id_schema)]"

definition pdf_job_schema :: "config \<Rightarrow> schema" where
  "pdf_job_schema cfg = SObject False
     [(''url'', url_schema), (''format'', SDefault paper_schema (JStr ''A4'')), (''landscape'', SDefault SBool (JBool False)),
      (''printBackground'', SDefault SBool (JBool True)), (''margin'', margin_schema), (''timeoutMs'', limit_schema cfg),
      (''proxyId'', proxy_id_schema)]"

definition shot_request :: "(string \<times> jsval) list \<Rightarrow> screenshot_request" where
  "shot_request body =
     \<lparr>sc_url = text_of ''url'' body, sc_jpeg = (text_of ''format'' body = ''jpeg''), sc_fullPage = bool_field ''fullPage'' body,
      sc_quality = map_option nat (int_field ''quality'' body), sc_viewport = viewport_of (object_value body ''viewport''),
      sc_timeoutMs = int_field ''timeoutMs'' body, sc_waitUntil = wait_of body\<rparr>"

definition paper_request :: "(string \<times> jsval) list \<Rightarrow> pdf_request" where
  "paper_request body =
     \<lparr>pd_url = text_of ''url'' body, pd_format = text_of ''format'' body, pd_landscape = bool_field ''landscape'' body,
      pd_printBackground = bool_field ''printBackground'' body, pd_margin = margin_of body, pd_timeoutMs = int_field ''timeoutMs'' body\<rparr>"

text \<open>The validation of the job's own request, inside the job.\<close>

definition job_request :: "'s web_env \<Rightarrow> render_operation \<Rightarrow> jsval \<Rightarrow> (render_request \<times> string option) outcome" where
  "job_request V op v =
     (case op of
        OpScreenshot \<Rightarrow> res_bind (web_args V (shot_job_schema (we_cfg V)) v) (\<lambda>body.
          Inr (RenderScreenshot (shot_request body), str_field ''proxyId'' body))
      | OpPdf \<Rightarrow> res_bind (web_args V (pdf_job_schema (we_cfg V)) v) (\<lambda>body.
          Inr (RenderPdf (paper_request body), str_field ''proxyId'' body)))"

definition operation_of :: "string \<Rightarrow> render_operation" where
  "operation_of s = (if s = ''pdf'' then OpPdf else OpScreenshot)"

text \<open>The answer, and what the job goes on with.\<close>

definition create_job_route :: "'s admin_env \<Rightarrow> gate_answer \<Rightarrow> jsval \<Rightarrow> ('s, jsval \<times> stored_job \<times> render_operation \<times> jsval \<times> int) route_op" where
  "create_job_route A who raw w =
     (let V = am_web A; J = we_jobs V in
      then_do (settled (web_args V (SObject False
          [(''operation'', SEnum [''screenshot'', ''pdf'']), (''request'', SRecord (SString 0 None) SUnknown),
           (''ttlSeconds'', SDefault (whole (Some 60) (Some 86400)) (JNum 3600))]) raw) w) (\<lambda>body w1.
      then_do (settled (requestKeyHash who) w1) (\<lambda>owner w2.
      let request = object_value body ''request''; ttl = or_default (int_field ''ttlSeconds'' body) 0 in
      then_do (start_job J (text_of ''operation'' body) (json_text (je_stringify J) request) ttl owner w2) (\<lambda>job.
      settled (Inr (JObj [(''id'', JStr (job_id job)), (''status'', JStr (job_status_text (job_status job)))], job,
        operation_of (text_of ''operation'' body), request, ttl))))))"

definition job_route :: "'s admin_env \<Rightarrow> (string \<Rightarrow> jsval outcome) \<Rightarrow> gate_answer \<Rightarrow> jsval \<Rightarrow> ('s, jsval) route_op" where
  "job_route A parseJson who params w =
     then_do (settled (web_args (am_web A) id_schema params) w) (\<lambda>ps w1.
     then_do (settled (requestKeyHash who) w1) (\<lambda>owner w2.
     settled (show_job parseJson (text_of ''id'' ps) owner (we_now (am_web A) w2) (fst w2)) w2))"

definition artifact_gone :: js_error where
  "artifact_gone = ob_err ''ARTIFACT_NOT_FOUND'' ''Artifact does not exist or has expired'' 404 False"

definition artifact_route :: "'s admin_env \<Rightarrow> gate_answer \<Rightarrow> jsval \<Rightarrow> ('s, web_answer) route_op" where
  "artifact_route A who params w =
     then_do (settled (web_args (am_web A) id_schema params) w) (\<lambda>ps w1.
     then_do (settled (requestKeyHash who) w1) (\<lambda>owner w2.
     settled (case getArtifact (text_of ''id'' ps) (we_now (am_web A) w2) owner (fst w2) of
        None \<Rightarrow> Inl artifact_gone
      | Some (a, body) \<Rightarrow> Inr (WebBinary (art_contentType a) [(''Content-Length'', show_int (int (art_bytes a)))] body)) w2))"

section \<open>Capabilities\<close>

definition js_texts :: "(string \<times> string) list \<Rightarrow> jsval" where
  "js_texts fs = JObj (map (\<lambda>(k, v). (k, JStr v)) fs)"

definition by_operator :: string where
  "by_operator = ''disabled by operator policy''"

definition optional_backends :: "config \<Rightarrow> jsval" where
  "optional_backends cfg = js_texts
     [(''invisiblePlaywright'', ''replaced by the Node-native patchright-chromium backend''),
      (''cloakBrowser'', if CloakBrowser \<in> set (enabledBrowserBackends cfg)
         then ''operator-enabled; applicable binary/OEM/SaaS license accepted by operator''
         else ''installed integration; disabled until operator accepts licensing and enables the backend''),
      (''camoufox'', if Camoufox \<in> set (enabledBrowserBackends cfg) then ''operator-enabled; provision with npm run prepare:camoufox''
         else ''installed integration; disabled until the operator provisions and enables the backend''),
      (''clearcote'', if Clearcote \<in> set (enabledBrowserBackends cfg)
         then (if clearcoteExecutablePath cfg \<noteq> [] then ''operator-enabled; executable path configured''
               else ''enabled but unavailable until OPENBROWSE_CLEARCOTE_EXECUTABLE_PATH is configured'')
         else ''executable-path integration; disabled by default'')]"

definition rest_aliases :: "string list" where
  "rest_aliases = [''/content'', ''/scrape'', ''/screenshot'', ''/pdf'', ''/smart-scrape'', ''/map'', ''/crawl'', ''/search'', ''/export'',
     ''/download'', ''/performance'', ''/unblock'']"

definition capability_browsers :: "config \<Rightarrow> jsval" where
  "capability_browsers cfg = JObj
     [(''chromium'', JObj [(''playwright'', if rawBrowserProtocolBridges cfg then JBool True else JStr by_operator),
        (''cdp'', JStr (if rawBrowserProtocolBridges cfg
           then ''compatibility bridge at /, /chromium, /chrome; reconnectable sessions at /v1/cdp/sessions'' else by_operator))]),
      (''firefox'', js_texts [(''playwright'', ''native browser server; Docker image installs Firefox for Linux production hosts'')]),
      (''webkit'', JObj [(''playwright'', JBool True)])]"

definition capability_compatibility :: "config \<Rightarrow> jsval" where
  "capability_compatibility cfg = JObj
     [(''restAliases'', JArr (map JStr rest_aliases)),
      (''playwrightWebSocket'', JStr (if rawBrowserProtocolBridges cfg then ''/chromium/playwright'' else by_operator)),
      (''browserqlStudio'', JStr ''/browserql''),
      (''liveViewer'', JStr (if vncBridgeUrl cfg \<noteq> [] then ''/viewer (noVNC enabled)'' else ''/viewer (snapshot mode)'')),
      (''fullLighthouse'', JStr ''/performance with engine=lighthouse''),
      (''cachePurge'', JStr (if cachePurgeEnabled cfg then ''operator-enabled'' else by_operator)),
      (''searchProviderConfigured'', JBool (searchEndpoint cfg \<noteq> []))]"

definition capability_policies :: "config \<Rightarrow> jsval" where
  "capability_policies cfg = js_texts
     [(''captcha'', ''detect, bounded backend escalation, and authenticated human session handoff''),
      (''stealth'', ''operator-selected backends only; never chosen from hostname or target response''),
      (''fingerprintEvasion'', ''CloakBrowser and Clearcote accept bounded --fingerprint* arguments; Camoufox accepts typed backend options when operator-enabled''),
      (''humanization'', ''CloakBrowser accepts bounded humanization configuration when operator-enabled''),
      (''proxyRotation'', ''not implemented''),
      (''extensions'', if chromiumExtensionDirs cfg = [] then ''operator preloading supported; none configured''
         else ''operator-preloaded ('' @ show_int (int (length (chromiumExtensionDirs cfg))) @ '')'')]"

record capabilities =
  cb_planner :: string
  cb_defaultBackend :: backend
  cb_catalog :: "(backend_capabilities \<times> bool \<times> bool) list"
  cb_optional :: jsval
  cb_browsers :: jsval
  cb_compatibility :: jsval
  cb_policies :: jsval

definition capabilities_route :: "config \<Rightarrow> capabilities" where
  "capabilities_route cfg =
     \<lparr>cb_planner = ''deterministic-http-first-v1'', cb_defaultBackend = defaultBrowserBackend cfg, cb_catalog = browserBackendCatalog cfg,
      cb_optional = optional_backends cfg, cb_browsers = capability_browsers cfg, cb_compatibility = capability_compatibility cfg,
      cb_policies = capability_policies cfg\<rparr>"

end
