(* ===== verification/OB_Routes_Props.thy ===== *)
theory OB_Routes_Props
  imports OB_ExecutionRoutes OB_Admin OB_BqlExec_Props OB_Media_Props OB_Jobs_Props OB_Map_Props OB_Export_Props OB_SessionRoutes_Props
begin

text \<open>
  What the routes without a session promise: the proxy of a job is the caller's, an answer that gathers results is bounded, a recording can
  be downloaded by its owner and nobody else, and data cannot change the markup of the status card.
\<close>

section \<open>The status card\<close>

definition markup_char :: "char \<Rightarrow> bool" where
  "markup_char c \<longleftrightarrow> c = CHR ''<'' \<or> c = CHR ''>'' \<or> c = CHR 0x22"

definition markup :: "string \<Rightarrow> string" where
  "markup s = filter markup_char s"

lemma markup_append: "markup (a @ b) = markup a @ markup b"
  by (simp add: markup_def)

lemma xml_text_plain: "markup (xml_text s) = []"
  by (induction s) (auto simp: markup_def xml_text_def xml_char_def markup_char_def)

lemma show_nat_plain: "markup (show_nat n) = []"
proof -
  have "\<forall>c \<in> set (show_nat n). is_digit c" using show_nat_digits [of n] by (simp add: list_all_iff)
  then show ?thesis by (auto simp: markup_def markup_char_def filter_empty_conv is_digit_def)
qed

lemma show_int_plain: "markup (show_int n) = []"
  using show_nat_plain by (auto simp: show_int_def markup_append) (simp_all add: markup_def markup_char_def)

lemma attr_markup: "markup (attr n v) = markup n @ CHR 0x22 # markup v @ [CHR 0x22]"
  by (simp add: attr_def markup_def markup_char_def)

lemma concat_markup: "markup (concat xs) = concat (map markup xs)"
  unfolding markup_def filter_concat ..

text \<open>The markup of every piece.\<close>

lemma markup_simps: "markup [] = []" "markup (c # s) = (if markup_char c then c # markup s else markup s)"
  by (simp_all add: markup_def)

definition quotes :: string where
  "quotes = [CHR 0x22, CHR 0x22]"

lemma plain_attr: "markup n = [] \<Longrightarrow> markup v = [] \<Longrightarrow> markup (attr n v) = quotes"
  by (simp add: attr_markup quotes_def)

lemma card_markup:
  "map markup (card_pieces width height dark data) =
     [''<'', quotes, quotes, quotes, quotes, quotes, quotes, ''>'', ''<'', quotes, quotes, quotes, quotes, ''>'',
      ''<'', quotes, quotes, quotes, quotes, ''>'', ''<'', quotes, quotes, quotes, quotes, quotes, quotes, ''>'', [], ''<>'',
      ''<'', quotes, quotes, quotes, quotes, quotes, ''>'', [], ''<><>'']"
proof -
  have font: "markup card_font = quotes" by code_simp
  show ?thesis
    unfolding card_pieces_def Let_def
    by (simp add: font plain_attr xml_text_plain show_int_plain markup_append markup_simps markup_char_def)
qed

text \<open>The markup of the status card, its angle brackets and quotes, is the same for any size, theme and data: no title, status or
  latency of a caller can open or close an element or an attribute.\<close>

theorem card_markup_fixed:
  "markup (statusCard width height dark data) = markup (statusCard width' height' dark' data')"
  by (simp only: statusCard_def concat_markup card_markup)


section \<open>The caller's proxy\<close>

lemma proxy_get_owner: "proxy_get B pid owner rows = Inr (Some p) \<Longrightarrow> pxy_ownerKeyHash p = owner"
proof -
  assume p: "proxy_get B pid owner rows = Inr (Some p)"
  then obtain r where r: "find (\<lambda>r. pxy_id r = pid \<and> pxy_ownerKeyHash r = owner) rows = Some r"
    by (auto simp: proxy_get_def split: option.splits)
  then have "pxy_ownerKeyHash r = owner" by (auto simp: find_Some_iff)
  with p r show ?thesis by (cases "decrypt B (pxy_url r)") (auto simp: proxy_get_def)
qed

text \<open>No proxy, or one of the key that made the request.\<close>

definition own_proxy :: "gate_answer \<Rightarrow> stored_proxy option \<Rightarrow> bool" where
  "own_proxy who proxy \<longleftrightarrow> (\<exists>owner policy. who = Admitted owner policy \<and> (case proxy of None \<Rightarrow> True | Some p \<Rightarrow> pxy_ownerKeyHash p = owner))"

lemma resolveProxy_owner: "resolveProxy E S pid (Some owner) = Inr (Some p) \<Longrightarrow> pxy_ownerKeyHash p = owner"
  using proxy_get_owner [of "se_box E" "or_default pid []" "or_default (Some owner) []" "sg_proxies S" p]
  unfolding resolveProxy_def getProxy_def res_bind_Inr_iff
  by (cases "or_default pid [] = []"; cases "or_default (Some owner) [] = []") (auto simp: or_default_def res_bind_Inr_iff split: option.splits)

lemma body_proxy_own: "body_proxy V who body w = (Inr proxy, w') \<Longrightarrow> w' = w \<and> own_proxy who proxy"
proof -
  assume b: "body_proxy V who body w = (Inr proxy, w')"
  then obtain owner where owner: "requestKeyHash who = Inr owner"
    "resolveProxy (we_store V) (fst w) (str_field ''proxyId'' body) (Some owner) = Inr proxy" "w' = w"
    unfolding body_proxy_def prod.inject res_bind_Inr_iff by blast
  then obtain policy where "who = Admitted owner policy"
    by (cases who) (auto simp: requestKeyHash_def split: if_splits)
  moreover have "\<forall>p. proxy = Some p \<longrightarrow> pxy_ownerKeyHash p = owner" using resolveProxy_owner owner(2) by blast
  ultimately show ?thesis using owner(3) by (auto simp: own_proxy_def split: option.splits)
qed

definition picture_of ::
  "'s web_env \<Rightarrow> (string \<times> jsval) list \<Rightarrow> stored_proxy option \<Rightarrow> ('s, string) route_op" where
  "picture_of V body proxy = admitted V ''screenshot'' (screenshot (we_script V) (we_media V) (we_shoot V) (page_input body proxy)
     (text_of ''format'' body = ''jpeg'') (flag_field ''fullPage'' body) (int_field ''quality'' body))"

definition doc_of :: "'s web_env \<Rightarrow> (string \<times> jsval) list \<Rightarrow> stored_proxy option \<Rightarrow> ('s, string) route_op" where
  "doc_of V body proxy = admitted V ''pdf'' (pdf (we_script V) (we_media V) (we_print V) (page_input body proxy) (str_field ''format'' body)
     (flag_field ''landscape'' body) (flag_field ''printBackground'' body) (margin_of body))"

definition flow_of :: "'s web_env \<Rightarrow> (string \<times> jsval) list \<Rightarrow> stored_proxy option \<Rightarrow> ('s, workflow_page fallback_result) route_op" where
  "flow_of V body proxy = admitted V ''workflow''
     (runWorkflow (we_script V) (we_flow V) (scripted_input body proxy) (map step_of (items_of ''steps'' body)))"

definition file_of :: "'s web_env \<Rightarrow> (string \<times> jsval) list \<Rightarrow> stored_proxy option \<Rightarrow> ('s, download_result) route_op" where
  "file_of V body proxy = admitted V ''download'' (browserDownload (we_script V) (we_load V) (we_click V)
     (bare_input (text_of ''url'' body) (int_field ''timeout'' body) proxy) (text_of ''selector'' body) (map_option nat (int_field ''index'' body)))"

definition film_of :: "'s web_env \<Rightarrow> (string \<times> jsval) list \<Rightarrow> stored_proxy option \<Rightarrow> ('s, string \<times> recorded_page fallback_result) route_op" where
  "film_of V body proxy = admitted V ''automation''
     (recordVideo (we_script V) (we_recorder V) (we_film V) (scripted_input body proxy) (int_field ''durationMs'' body))"

text \<open>The job of a route: it begins in the state of the request, with the caller's proxy.\<close>

definition one_job :: "gate_answer \<Rightarrow> ((string \<times> jsval) list \<Rightarrow> stored_proxy option \<Rightarrow> ('s, 'v) route_op) \<Rightarrow> storage \<times> 's \<Rightarrow> 'v \<Rightarrow> storage \<times> 's \<Rightarrow> bool" where
  "one_job who job w v w' \<longleftrightarrow> (\<exists>body proxy. own_proxy who proxy \<and> job body proxy w = (Inr v, w'))"

lemma one_jobI: "body_proxy V who body w = (Inr proxy, w1) \<Longrightarrow> job body proxy w1 = (Inr v, w') \<Longrightarrow> one_job who job w v w'"
  using body_proxy_own unfolding one_job_def by blast

lemmas steps = then_do_Inr_iff settled_def

lemma screenshot_job:
  "v1_screenshot V who rid raw w = (Inr a, w') \<Longrightarrow> \<exists>img jpeg. one_job who (picture_of V) w img w' \<and> a = sendBinary [] img (image_type jpeg) rid"
  unfolding v1_screenshot_def shot_job_def picture_of_def [symmetric] steps by (elim exE conjE) (auto intro: one_jobI)

lemma pdf_job: "v1_pdf V who rid raw w = (Inr a, w') \<Longrightarrow> \<exists>doc. one_job who (doc_of V) w doc w' \<and> a = sendBinary [] doc ''application/pdf'' rid"
  unfolding v1_pdf_def print_job_def doc_of_def [symmetric] steps by (elim exE conjE) (auto intro: one_jobI)

lemma workflow_job: "workflow_handler V who raw w = (Inr a, w') \<Longrightarrow> \<exists>f. one_job who (flow_of V) w f w' \<and> a = WebJson (workflow_json f)"
  unfolding workflow_handler_def flow_of_def [symmetric] steps by (elim exE conjE) (auto intro: one_jobI)

lemma download_job:
  "download_route V who rid raw w = (Inr a, w') \<Longrightarrow>
     \<exists>d. one_job who (file_of V) w d w' \<and> a = sendBinary (download_headers d) (dl_body d) (dl_contentType d) rid"
  unfolding download_route_def file_of_def [symmetric] steps by (elim exE conjE) (auto intro: one_jobI)

lemma recording_job:
  "recordings_route V who raw w = (Inr a, w') \<Longrightarrow>
     \<exists>body video f w1 stored. one_job who (film_of V) w (video, f) w1 \<and>
       store_artifact V who video ''video/webm'' (or_default (int_field ''ttlSeconds'' body) 0) w1 = (Inr stored, w') \<and> a = WebRecording stored f"
  unfolding recordings_route_def film_of_def [symmetric] steps
proof (elim exE conjE, goal_cases)
  case (1 body w1 proxy w2 r w3)
  obtain video f where r: "r = (video, f)" by (rule prod.exhaust)
  have "one_job who (film_of V) w (video, f) w3" using 1 unfolding r by (intro one_jobI) auto
  moreover obtain stored where "store_artifact V who video ''video/webm'' (or_default (int_field ''ttlSeconds'' body) 0) w3 = (Inr stored, w')"
      "a = WebRecording stored f"
    using 1 by (auto simp: r steps)
  ultimately show ?case by blast
qed



section \<open>Search\<close>

lemma accepted_whole:
  assumes "accepts U (whole (Some lo) (Some hi)) v"
  shows "\<exists>q. v = JNum q \<and> lo \<le> \<lfloor>q\<rfloor> \<and> \<lfloor>q\<rfloor> \<le> hi"
  using assms by (auto simp: whole_def within_range_def le_floor_iff split: jsval.splits)

lemma accepted_field:
  "accepts U (SObject strict shape) v \<Longrightarrow> (k, sch) \<in> set shape \<Longrightarrow> accepts U sch (object_value (entries v) k)"
  by (auto simp: list_all_iff entries_def split: jsval.splits)

lemma web_args_accepted:
  "zod_ok U (we_zod V) \<Longrightarrow> web_args V sch raw = Inr body \<Longrightarrow> \<exists>v. accepts U sch v \<and> body = entries v"
  using parse_request_ok [of U "we_zod V" sch raw] by (cases "parse_request (we_zod V) sch raw") (auto simp: web_args_def)

lemma enrich_results_ok:
  "enrich_results V who formats rs done_items w = (Inr items, w') \<Longrightarrow>
     \<exists>new. items = done_items @ new \<and> list_all2 (\<lambda>r item. \<exists>more. item = JObj (result_fields r @ more)) rs new \<and>
       (rs \<noteq> [] \<longrightarrow> int (jsonBytes (sc_stringify (we_script V)) (search_answer items)) \<le> maxResponseBytes (we_cfg V))"
proof (induction rs arbitrary: done_items w)
  case (Cons r rs)
  obtain q w1 where q: "owned_fetch V who (sr_url r) Auto None formats CacheDefault 300 w = (q, w1)" by (rule prod.exhaust)
  let ?item = "JObj (result_fields r @ scraped_fields q)"
  from Cons.prems q have rest: "enrich_results V who formats rs (done_items @ [?item]) w1 = (Inr items, w')"
    and fits: "int (jsonBytes (sc_stringify (we_script V)) (search_answer (done_items @ [?item]))) \<le> maxResponseBytes (we_cfg V)"
    by (auto simp: Let_def assertBoundedJson_def split: if_splits)
  from Cons.IH [OF rest] obtain new where new: "items = done_items @ ?item # new"
      "list_all2 (\<lambda>r item. \<exists>more. item = JObj (result_fields r @ more)) rs new"
      "rs \<noteq> [] \<longrightarrow> int (jsonBytes (sc_stringify (we_script V)) (search_answer items)) \<le> maxResponseBytes (we_cfg V)"
    by auto
  have "int (jsonBytes (sc_stringify (we_script V)) (search_answer items)) \<le> maxResponseBytes (we_cfg V)"
    using new fits rest by (cases "rs = []") auto
  with new show ?case by (intro exI [of _ "?item # new"]) auto
qed auto

text \<open>A search answers with at most twenty results, those of the provider in order, each with the page that was scraped or the reason
  why not when pages were asked for; and then the whole answer is within the byte limit.\<close>

theorem search_answer_bounded:
  assumes "zod_ok U (we_zod V)" "search_route V who raw w = (Inr a, w')"
  shows "\<exists>body results items. a = WebJson (search_answer items) \<and> length results \<le> 20 \<and>
    list_all2 (\<lambda>r item. \<exists>more. item = JObj (result_fields r @ more)) results items \<and>
    (bool_field ''scrape'' body \<and> items \<noteq> [] \<longrightarrow>
       int (jsonBytes (sc_stringify (we_script V)) (search_answer items)) \<le> maxResponseBytes (we_cfg V)) \<and>
    (\<not> bool_field ''scrape'' body \<longrightarrow> items = map (\<lambda>r. JObj (result_fields r)) results)"
proof -
  from assms(2) obtain body w1 results w2 where args: "web_args V (SObject False
         [(''query'', SString 1 (Some 512)), (''categories'', SDefault (SEnum [''general'', ''news'', ''images'']) (JStr ''general'')),
          (''limit'', SDefault (whole (Some 1) (Some 20)) (JNum 10)), (''scrape'', SDefault SBool (JBool False)), (''formats'', formats_schema)])
         raw = Inr body"
    and found: "searchWeb (we_search V) (text_of ''query'' body) (text_of ''categories'' body) (nat (or_default (int_field ''limit'' body) 0)) w1 = (Inr results, w2)"
    and answer: "(if \<not> bool_field ''scrape'' body then (Inr (WebJson (search_answer (map (\<lambda>r. JObj (result_fields r)) results))), w2)
     else then_do (enrich_results V who (outputs_of body ''formats'') results [] w2) (\<lambda>items. settled (Inr (WebJson (search_answer items))))) = (Inr a, w')"
    unfolding search_route_def steps by blast
  from web_args_accepted [OF assms(1) args] obtain v where v: "body = entries v"
    and "accepts U (whole (Some 1) (Some 20)) (object_value body ''limit'')"
    using accepted_field [of U False _ _ "''limit''" "SDefault (whole (Some 1) (Some 20)) (JNum 10)"] by fastforce
  from accepted_whole [OF this(2)] obtain q where q: "object_value body ''limit'' = JNum q" "\<lfloor>q\<rfloor> \<le> 20" by blast
  have "nat \<lfloor>q\<rfloor> \<le> nat 20" by (rule nat_mono [OF q(2)])
  with q(1) have "nat (or_default (int_field ''limit'' body) 0) \<le> 20" by (simp add: int_field_def or_default_def)
  with search_bounded [OF found] have len: "length results \<le> 20" by simp
  show ?thesis
  proof (cases "bool_field ''scrape'' body")
    case True
    with answer obtain items where "enrich_results V who (outputs_of body ''formats'') results [] w2 = (Inr items, w')"
        "a = WebJson (search_answer items)"
      by (auto simp: steps)
    with enrich_results_ok [OF this(1)] len True show ?thesis by (intro exI [of _ body] exI [of _ results] exI [of _ items]) auto
  next
    case False
    with answer len show ?thesis
      by (intro exI [of _ body] exI [of _ results] exI [of _ "map (\<lambda>r. JObj (result_fields r)) results"])
        (auto simp: list_all2_map2 list.rel_refl)
  qed
qed

section \<open>Stored recordings\<close>

lemma store_artifact_get:
  assumes "store_artifact V who body ct ttl w = (Inr a, w')"
  shows "\<exists>owner. requestKeyHash who = Inr owner \<and> art_contentType a = ct \<and> art_bytes a = length body \<and>
    (\<forall>later. later \<le> art_expiresAt a \<longrightarrow> getArtifact (art_id a) later owner (fst w') = Some (a, body)) \<and>
    (\<forall>other later. other \<noteq> owner \<longrightarrow> getArtifact (art_id a) later other (fst w') = None)"
proof -
  from assms obtain owner where owner: "requestKeyHash who = Inr owner"
    and made: "on_store (createArtifact (we_store V) (we_newId V w) (we_now V w) body ct owner (Some ttl)) w = (Inr a, w')"
    unfolding store_artifact_def steps by blast
  let ?rows = "at_rows (sg_artifacts (fst w))"
  from made have a: "art_ownerKeyHash a = owner" "art_contentType a = ct" "art_bytes a = length body" "art_id a \<notin> art_id ` set ?rows"
      "at_rows (sg_artifacts (fst w')) = ?rows @ [a]" "map_of (at_files (sg_artifacts (fst w'))) (art_path a) = Some body"
    by (auto simp: on_store_def createArtifact_def artifact_create_def Let_def split: if_splits)
  have mine: "find (\<lambda>r. art_id r = art_id a \<and> art_ownerKeyHash r = owner) (?rows @ [a]) = Some a"
    by (rule find_snoc) (use a(1,4) in \<open>auto simp: image_iff\<close>)
  have others: "find (\<lambda>r. art_id r = art_id a \<and> art_ownerKeyHash r = other) (?rows @ [a]) = None" if "other \<noteq> owner" for other
    using that a(1,4) by (auto simp: find_None_iff image_iff)
  show ?thesis using owner a mine others by (auto simp: getArtifact_def artifact_get_def)
qed

lemma named_id: "text_of ''id'' [(''id'', JStr i)] = i"
  by (simp add: text_of_def str_field_def object_value_def or_default_def)

text \<open>C38. A recording that was answered can be downloaded by the key that made it until it expires, byte for byte and as WebM, and by no
  other key.\<close>

theorem recording_downloads:
  assumes "recordings_route V who raw w = (Inr (WebRecording a f), w')" "am_web A = V"
    and "web_args V id_schema params = Inr [(''id'', JStr (art_id a))]" "we_now V (fst w', later) \<le> art_expiresAt a"
    and "requestKeyHash other = Inr k" "requestKeyHash who \<noteq> Inr k"
  shows "\<exists>video w1. one_job who (film_of V) w (video, f) w1 \<and>
    artifact_route A who params (fst w', later)
      = (Inr (WebBinary ''video/webm'' [(''Content-Length'', show_int (int (length video)))] video), fst w', later) \<and>
    artifact_route A other params (fst w', later) = (Inl artifact_gone, fst w', later)"
proof -
  from recording_job [OF assms(1)] obtain body video w1 where job: "one_job who (film_of V) w (video, f) w1"
    and stored: "store_artifact V who video ''video/webm'' (or_default (int_field ''ttlSeconds'' body) 0) w1 = (Inr a, w')"
    by auto
  from store_artifact_get [OF stored] obtain owner where "requestKeyHash who = Inr owner" "art_contentType a = ''video/webm''"
      "art_bytes a = length video" "getArtifact (art_id a) (we_now V (fst w', later)) owner (fst w') = Some (a, video)"
      "getArtifact (art_id a) (we_now V (fst w', later)) k (fst w') = None"
    using assms(4,6) by auto
  with job assms(2,3,5) show ?thesis
    by (intro exI [of _ video] exI [of _ w1]) (simp add: artifact_route_def settled_def named_id)
qed

section \<open>Services for the witnesses\<close>

definition lend :: "(storage \<times> unit, 'v) with_context" where
  "lend v p b options body = body"

definition world_page :: "(storage \<times> unit) script_page" where
  "world_page = \<lparr>pg_goto = (\<lambda>_ _ _ s. (Inr (), s)), pg_waitVisible = (\<lambda>_ _ s. (Inr (), s)), pg_click = (\<lambda>_ _ _ s. (Inr (), s)),
     pg_fill = (\<lambda>_ _ _ s. (Inr (), s)), pg_press = (\<lambda>_ _ _ s. (Inr (), s)), pg_all = (\<lambda>_ s. (Inr [], s)),
     pg_inner = (\<lambda>_. []), pg_content = (\<lambda>s. (Inr ''<p>ok</p>'', s)), pg_title = (\<lambda>s. (Inr ''ok'', s)),
     pg_url = (\<lambda>_. ''https://93.184.216.34/''), pg_sleep = (\<lambda>_ s. s)\<rparr>"

definition world_admission :: "(storage \<times> unit) admission_check" where
  "world_admission b options s = (fst (sample_admission b options ()), s)"

definition world_script :: "(storage \<times> unit) script_env" where
  "world_script = \<lparr>sc_config = sample_config, sc_parse = (\<lambda>_. Some public_url), sc_guard = (\<lambda>_ _. None), sc_stringify = (\<lambda>_. Some ''{}''),
     sc_admit = world_admission, sc_page = world_page\<rparr>"

definition world_recorder :: "(storage \<times> unit) recorder" where
  "world_recorder = \<lparr>rd_mkdtemp = (\<lambda>s. (Inr ''/tmp/v'', s)), rd_rm = (\<lambda>_ s. s), rd_video = (\<lambda>_. Some 0), rd_save = (\<lambda>_ _ s. (Inr ''webm'', s))\<rparr>"

definition world_measure :: "(storage \<times> unit) perf_page" where
  "world_measure = \<lparr>pf_measure = (\<lambda>s. (Inl (JsError ''no timeline''), s)), pf_responses = (\<lambda>_. []), pf_now = (\<lambda>_. 0)\<rparr>"

definition world_lighthouse :: "(storage \<times> unit) lighthouse_driver" where
  "world_lighthouse = \<lparr>ld_launch = (\<lambda>_ s. (Inl (JsError ''no browser''), s)), ld_run = (\<lambda>_ _ s. (Inr None, s)), ld_stop = (\<lambda>_ s. s), ld_now = (\<lambda>_. 0)\<rparr>"

definition world_map :: "(storage \<times> unit) map_env" where
  "world_map = \<lparr>mp_parse = (\<lambda>_. Some public_url), mp_resolve = (\<lambda>_ _. None), mp_guard = (\<lambda>_ _. None),
     mp_fetch = (\<lambda>_ s. (Inl (JsError ''down''), s)), mp_load = (\<lambda>_. [])\<rparr>"

definition world_export :: "(storage \<times> unit) export_env" where
  "world_export = \<lparr>xe_config = sample_config, xe_parse = (\<lambda>_. Some public_url), xe_resolve = (\<lambda>_ _. None),
     xe_guard = (\<lambda>_ _. None), xe_net = (\<lambda>_ s. (Inl FetchFailed, s)), xe_load = (\<lambda>_. []), xe_utf8 = (\<lambda>_. []), xe_pretty = (\<lambda>_. []),
     xe_zip = (\<lambda>_. [])\<rparr>"

definition found_page :: jsval where
  "found_page = JObj [(''results'', JArr [JObj [(''title'', JStr ''t''), (''url'', JStr ''https://a'')], JNull])]"

definition world_search :: "(storage \<times> unit) search_env" where
  "world_search = \<lparr>sr_config = sample_config\<lparr>searchEndpoint := ''https://s''\<rparr>, sr_parse = (\<lambda>_. Some public_url),
     sr_net = (\<lambda>_ _ s. (Inr (page_response ''json''), s)), sr_json = (\<lambda>_. Some found_page)\<rparr>"

definition sample_web :: "unit web_env" where
  "sample_web =
     \<lparr>we_store = sample_env, we_zod = strict_zod, we_newId = (\<lambda>_. ''n''), we_now = (\<lambda>_. 0), we_admit = (\<lambda>_ w. (Inr (), w)),
      we_settle = (\<lambda>w. w), we_jobs = sample_jobs, we_fetch = (\<lambda>_ w. (Inl (JsError ''down''), w)),
      we_cheerio = \<lparr>html_load = (\<lambda>_. []), html_print = (\<lambda>_. [])\<rparr>, we_query = (\<lambda>_ _. None), we_queryError = (\<lambda>s. s), we_inner = (\<lambda>_. []),
      we_resolve = (\<lambda>_ _. None), we_map = world_map, we_script = world_script, we_media = lend, we_shoot = (\<lambda>_ s. (Inr ''img'', s)),
      we_print = (\<lambda>_ s. (Inr ''doc'', s)), we_flow = lend, we_load = lend, we_click = (\<lambda>_ _ _ s. (Inr sample_download, s)),
      we_film = (\<lambda>_ _. lend), we_recorder = world_recorder, we_perf = lend, we_measure = world_measure, we_showNum = (\<lambda>_. []),
      we_lighthouse = world_lighthouse, we_export = world_export, we_search = world_search\<rparr>"

definition ann :: gate_answer where
  "ann = Admitted ''ann'' None"

definition pdf_body :: jsval where
  "pdf_body = JObj [(''url'', JStr ''https://a''), (''format'', JStr ''A4''), (''landscape'', JBool False), (''printBackground'', JBool True)]"

definition recording_body_value :: jsval where
  "recording_body_value = JObj [(''url'', JStr ''https://a''), (''durationMs'', JNum 0), (''ttlSeconds'', JNum 60)]"

definition search_body_value :: jsval where
  "search_body_value = JObj [(''query'', JStr ''q''), (''categories'', JStr ''general''), (''limit'', JNum 5), (''scrape'', JBool False), (''formats'', JArr [])]"

lemma sample_pdf_run: "v1_pdf sample_web ann ''r'' pdf_body (sample_storage, ()) = (Inr (sendBinary [] ''doc'' ''application/pdf'' ''r''), sample_storage, ())"
  by code_simp

lemma sample_search_run:
  "search_route sample_web ann search_body_value (sample_storage, ())
     = (Inr (WebJson (search_answer [JObj (result_fields \<lparr>sr_title = ''t'', sr_url = ''https://a'', sr_content = []\<rparr>)])), sample_storage, ())"
  by code_simp

definition sample_recording_store :: storage where
  "sample_recording_store = fst (snd (recordings_route sample_web ann recording_body_value (sample_storage, ())))"

definition webm_artifact :: artifact where
  "webm_artifact = \<lparr>art_id = ''n'', art_ownerKeyHash = ''ann'', art_path = ''artifacts/n'', art_contentType = ''video/webm'', art_bytes = 4,
     art_createdAt = 0, art_expiresAt = 60000\<rparr>"

definition sample_film :: "recorded_page fallback_result" where
  "sample_film = \<lparr>fb_value = \<lparr>rv_video = Some 0, rv_finalUrl = ''https://93.184.216.34/'', rv_challenge = False\<rparr>,
     fb_backendAttempts = [Playwright], fb_selectedBackend = Playwright, fb_challengeRemaining = False\<rparr>"

definition recording_fields :: "(string \<times> jsval) list" where
  "recording_fields = [(''url'', JStr ''https://a''), (''durationMs'', JNum 0), (''ttlSeconds'', JNum 60)]"

lemma sample_recording_args: "web_args sample_web (recording_schema (we_cfg sample_web)) recording_body_value = Inr recording_fields"
  by code_simp

lemma sample_recording_proxy: "body_proxy sample_web ann recording_fields (sample_storage, ()) = (Inr None, sample_storage, ())"
  by code_simp

lemma sample_film_run: "film_of sample_web recording_fields None (sample_storage, ()) = (Inr (''webm'', sample_film), sample_storage, ())"
  by code_simp

lemma sample_recording_stored:
  "fst (store_artifact sample_web ann ''webm'' ''video/webm'' 60 (sample_storage, ())) = Inr webm_artifact"
  by (simp add: store_artifact_def settled_def requestKeyHash_def ann_def on_store_def createArtifact_def artifact_create_def Let_def
      sample_storage_def sample_web_def sample_env_def webm_artifact_def)

lemma sample_recording_run:
  "recordings_route sample_web ann recording_body_value (sample_storage, ()) = (Inr (WebRecording webm_artifact sample_film), sample_recording_store, ())"
proof -
  have ttl: "or_default (int_field ''ttlSeconds'' recording_fields) 0 = 60" by code_simp
  have "fst (recordings_route sample_web ann recording_body_value (sample_storage, ())) = Inr (WebRecording webm_artifact sample_film)"
    using sample_recording_stored sample_film_run
    by (simp add: recordings_route_def sample_recording_args settled_def sample_recording_proxy film_of_def ttl)
      (cases "store_artifact sample_web ann ''webm'' ''video/webm'' 60 (sample_storage, ())", simp add: settled_def)
  then show ?thesis by (simp add: sample_recording_store_def prod_eq_iff)
qed

definition sample_admin :: "unit admin_env" where
  "sample_admin = \<lparr>am_web = sample_web, am_iv = (\<lambda>_. ''i''), am_iv2 = (\<lambda>_. ''j''), am_secret = (\<lambda>_. ''s'')\<rparr>"

section \<open>Witnesses\<close>


theorem search_answer_bounded_witness:
  "\<exists>results. length results \<le> 20 \<and>
     search_answer [JObj (result_fields \<lparr>sr_title = ''t'', sr_url = ''https://a'', sr_content = []\<rparr>)] = search_answer (map (\<lambda>r. JObj (result_fields r)) results)"
proof -
  have zod: "zod_ok (\<lambda>_. True) (we_zod sample_web)" by (simp add: sample_web_def strict_zod_ok)
  from search_answer_bounded [OF zod sample_search_run] obtain body results items where
    r: "search_answer [JObj (result_fields \<lparr>sr_title = ''t'', sr_url = ''https://a'', sr_content = []\<rparr>)] = search_answer items"
       "length results \<le> 20" "list_all2 (\<lambda>r item. \<exists>more. item = JObj (result_fields r @ more)) results items"
    by auto
  then have "items = [JObj (result_fields \<lparr>sr_title = ''t'', sr_url = ''https://a'', sr_content = []\<rparr>)]" by (simp add: search_answer_def)
  then show ?thesis by (intro exI [of _ "[\<lparr>sr_title = ''t'', sr_url = ''https://a'', sr_content = []\<rparr>]"]) simp
qed

theorem recording_downloads_witness:
  "\<exists>video. artifact_route sample_admin ann (JObj [(''id'', JStr ''n'')]) (sample_recording_store, ())
      = (Inr (WebBinary ''video/webm'' [(''Content-Length'', show_int (int (length video)))] video), sample_recording_store, ()) \<and>
    artifact_route sample_admin (Admitted ''bob'' None) (JObj [(''id'', JStr ''n'')]) (sample_recording_store, ())
      = (Inl artifact_gone, sample_recording_store, ())"
proof -
  have web: "am_web sample_admin = sample_web" by (simp add: sample_admin_def)
  have named: "web_args sample_web id_schema (JObj [(''id'', JStr ''n'')]) = Inr [(''id'', JStr (art_id webm_artifact))]" by code_simp
  have alive: "we_now sample_web (fst (sample_recording_store, ()), ()) \<le> art_expiresAt webm_artifact" by (simp add: sample_web_def webm_artifact_def)
  have keys: "requestKeyHash (Admitted ''bob'' None) = Inr ''bob''" "requestKeyHash ann \<noteq> Inr ''bob''" by (simp_all add: requestKeyHash_def ann_def)
  from recording_downloads [OF sample_recording_run web named alive keys] show ?thesis by auto
qed

end
