(* ===== verification/OB_Server.thy ===== *)
theory OB_Server
  imports OB_Queue OB_Url OB_Regex
begin

text \<open>
  The assembly of the service, \<open>src/src/server.ts\<close>: what is logged of a request, the identifier it is given, the alert of the
  queue, and the shutdown of the parts in their order.
\<close>

section \<open>The log of a request\<close>

definition secret_name :: "string \<Rightarrow> bool" where
  "secret_name = rx_test (alts [lit_i ''token'', lit_i ''key'', lit_i ''secret'', lit_i ''password'', lit_i ''credential''])"

definition redacted :: string where
  "redacted = ''[REDACTED]''"

definition redact_key :: "string \<Rightarrow> url \<Rightarrow> url" where
  "redact_key k u = (if secret_name k then params_set k redacted u else u)"

text \<open>The names of the query once each, in the order of their first use.\<close>

definition query_names :: "url \<Rightarrow> string list" where
  "query_names u = rev (remdups (rev (map fst (search_params u))))"

definition redactRequestUrl :: "(string \<Rightarrow> string \<Rightarrow> url option) \<Rightarrow> string option \<Rightarrow> string" where
  "redactRequestUrl resolve v =
     (case v of
        None \<Rightarrow> []
      | Some s \<Rightarrow>
          (case resolve s ''http://openbrowse.invalid'' of
             None \<Rightarrow> s
           | Some u \<Rightarrow> u_pathname u @ url_search (fold redact_key (query_names u) u)))"

record request_log =
  lg_method :: string
  lg_url :: string
  lg_host :: "string option"
  lg_remoteAddress :: string
  lg_remotePort :: int

definition log_of_request ::
  "(string \<Rightarrow> string \<Rightarrow> url option) \<Rightarrow> string \<Rightarrow> string option \<Rightarrow> string option \<Rightarrow> string \<Rightarrow> int \<Rightarrow> request_log" where
  "log_of_request resolve verb url hostHeader address remotePort =
     \<lparr>lg_method = verb, lg_url = redactRequestUrl resolve url, lg_host = hostHeader, lg_remoteAddress = address,
      lg_remotePort = remotePort\<rparr>"

definition genReqId :: "string \<Rightarrow> string" where
  "genReqId uuid = ''req_'' @ filter (\<lambda>c. c \<noteq> CHR ''-'') uuid"

section \<open>The alert of the queue\<close>

record queue_alert =
  ql_active :: nat
  ql_pending :: nat
  ql_pressure :: pressure
  ql_estimatedJobMemoryMb :: rat

definition alert_of_queue :: "queue_stats \<Rightarrow> queue_alert" where
  "alert_of_queue st =
     \<lparr>ql_active = qs_active st, ql_pending = qs_pending st, ql_pressure = qs_pressure st,
      ql_estimatedJobMemoryMb = qs_estimatedJobMemoryMb st\<rparr>"

section \<open>Shutdown\<close>

type_synonym 's closer = "'s \<Rightarrow> unit outcome \<times> 's"

record 's server_parts =
  sp_app :: "'s closer"
  sp_sessions :: "'s closer"
  sp_cdp :: "'s closer"
  sp_pool :: "'s closer"
  sp_storage :: "'s closer"

text \<open>One after the other; a rejection ends the sequence.\<close>

fun close_in_order :: "'s closer list \<Rightarrow> 's closer" where
  "close_in_order [] s = (Inr (), s)"
| "close_in_order (c # cs) s = (case c s of (Inl e, s1) \<Rightarrow> (Inl e, s1) | (Inr _, s1) \<Rightarrow> close_in_order cs s1)"

definition close_parts :: "'s server_parts \<Rightarrow> 's closer" where
  "close_parts P = close_in_order [sp_app P, sp_sessions P, sp_cdp P, sp_pool P, sp_storage P]"

text \<open>\<open>closePromise ??= ...\<close>: the first call closes, every call gets its outcome.\<close>

definition close_services :: "'s server_parts \<Rightarrow> unit outcome option \<times> 's \<Rightarrow> unit outcome \<times> unit outcome option \<times> 's" where
  "close_services P st =
     (case st of
        (Some r, s) \<Rightarrow> (r, Some r, s)
      | (None, s) \<Rightarrow> (case close_parts P s of (r, s1) \<Rightarrow> (r, Some r, s1)))"

section \<open>What is logged\<close>

definition set_pair :: "string \<Rightarrow> string \<Rightarrow> (string \<times> string) list \<Rightarrow> (string \<times> string) list" where
  "set_pair k v ps =
     (case dropWhile (\<lambda>p. fst p \<noteq> k) ps of
        [] \<Rightarrow> ps @ [(k, v)]
      | _ # rest \<Rightarrow> takeWhile (\<lambda>p. fst p \<noteq> k) ps @ (k, v) # filter (\<lambda>p. fst p \<noteq> k) rest)"

lemma params_set_pairs [simp]: "search_params (params_set k v u) = set_pair k v (search_params u)"
  by (simp add: params_set_def set_pair_def Let_def)

lemma take_other: "filter (\<lambda>p. fst p \<noteq> k) (takeWhile (\<lambda>p. fst p \<noteq> k) ps) = takeWhile (\<lambda>p. fst p \<noteq> k) ps"
  by (induction ps) simp_all

lemma take_drop_other:
  "takeWhile (\<lambda>p. fst p \<noteq> k) ps @ filter (\<lambda>p. fst p \<noteq> k) (dropWhile (\<lambda>p. fst p \<noteq> k) ps) = filter (\<lambda>p. fst p \<noteq> k) ps"
  by (induction ps) simp_all

lemma take_no_key: "(k, x) \<notin> set (takeWhile (\<lambda>p. fst p \<noteq> k) ps)"
  by (auto dest: set_takeWhileD)

lemma set_pair_nil: "dropWhile (\<lambda>p. fst p \<noteq> k) ps = [] \<Longrightarrow> set_pair k v ps = ps @ [(k, v)]"
  by (simp only: set_pair_def list.case)

lemma set_pair_cons: "dropWhile (\<lambda>p. fst p \<noteq> k) ps = p # rest \<Longrightarrow>
    set_pair k v ps = takeWhile (\<lambda>p. fst p \<noteq> k) ps @ (k, v) # filter (\<lambda>p. fst p \<noteq> k) rest"
  by (simp only: set_pair_def list.case)

lemma drop_head: "dropWhile (\<lambda>p. fst p \<noteq> k) ps = p # rest \<Longrightarrow> fst p = k"
  using hd_dropWhile [of "\<lambda>p. fst p \<noteq> k" ps] by (metis list.distinct(1) list.sel(1))

lemma set_pair_keeps: "filter (\<lambda>p. fst p \<noteq> k) (set_pair k v ps) = filter (\<lambda>p. fst p \<noteq> k) ps"
proof (cases "dropWhile (\<lambda>p. fst p \<noteq> k) ps")
  case Nil
  show ?thesis by (simp only: set_pair_nil [OF Nil] filter_append) simp
next
  case (Cons p rest)
  have "filter (\<lambda>p. fst p \<noteq> k) (set_pair k v ps) = takeWhile (\<lambda>p. fst p \<noteq> k) ps @ filter (\<lambda>p. fst p \<noteq> k) rest"
    by (simp only: set_pair_cons [OF Cons] filter_append take_other) simp
  also have "filter (\<lambda>p. fst p \<noteq> k) rest = filter (\<lambda>p. fst p \<noteq> k) (dropWhile (\<lambda>p. fst p \<noteq> k) ps)"
    using drop_head [OF Cons] by (simp only: Cons) simp
  finally show ?thesis by (simp only: take_drop_other)
qed

lemma set_pair_value: "(k, x) \<in> set (set_pair k v ps) \<Longrightarrow> x = v"
proof (cases "dropWhile (\<lambda>p. fst p \<noteq> k) ps")
  case Nil
  assume mem: "(k, x) \<in> set (set_pair k v ps)"
  from take_no_key [of k x ps] have "(k, x) \<notin> set ps" by (metis Nil append_Nil2 takeWhile_dropWhile_id)
  with mem show ?thesis by (simp add: set_pair_nil [OF Nil])
next
  case (Cons p rest)
  assume mem: "(k, x) \<in> set (set_pair k v ps)"
  with take_no_key [of k x ps] show ?thesis by (simp add: set_pair_cons [OF Cons])
qed

lemma filter_weaker: "(\<And>p. P p \<Longrightarrow> Q p) \<Longrightarrow> filter Q xs = filter Q ys \<Longrightarrow> filter P xs = filter P ys"
proof -
  assume pq: "\<And>p. P p \<Longrightarrow> Q p" and eq: "filter Q xs = filter Q ys"
  have "filter P zs = filter P (filter Q zs)" for zs using pq by (induction zs) auto
  with eq show ?thesis by metis
qed

definition plain_pairs :: "(string \<times> string) list \<Rightarrow> (string \<times> string) list" where
  "plain_pairs = filter (\<lambda>p. \<not> secret_name (fst p))"

definition hidden :: "string set \<Rightarrow> url \<Rightarrow> bool" where
  "hidden K u \<longleftrightarrow> (\<forall>(k, v) \<in> set (search_params u). k \<in> K \<and> secret_name k \<longrightarrow> v = redacted)"

lemma redact_key_keeps: "plain_pairs (search_params (redact_key k u)) = plain_pairs (search_params u)"
  unfolding plain_pairs_def redact_key_def
  using filter_weaker [OF _ set_pair_keeps, of "\<lambda>p. \<not> secret_name (fst p)" k redacted "search_params u"] by auto

lemma set_pair_other:
  assumes "k' \<noteq> k"
  shows "(k', v) \<in> set (set_pair k w ps) \<longleftrightarrow> (k', v) \<in> set ps"
proof -
  have mem: "(k', v) \<in> set qs \<longleftrightarrow> (k', v) \<in> set (filter (\<lambda>p. fst p \<noteq> k) qs)" for qs :: "(string \<times> string) list"
    using assms by simp
  show ?thesis by (subst (1 2) mem) (simp only: set_pair_keeps)
qed

lemma redact_key_other: "k' \<noteq> k \<Longrightarrow> (k', v) \<in> set (search_params (redact_key k u)) \<longleftrightarrow> (k', v) \<in> set (search_params u)"
  by (simp add: redact_key_def set_pair_other)

lemma redact_key_hides: "hidden K u \<Longrightarrow> hidden (insert k K) (redact_key k u)"
proof -
  assume h: "hidden K u"
  have "v = redacted" if "(k', v) \<in> set (search_params (redact_key k u))" "k' \<in> insert k K" "secret_name k'" for k' v
  proof (cases "k' = k")
    case True
    with that show ?thesis using set_pair_value by (auto simp: redact_key_def)
  next
    case False
    with that redact_key_other [OF False] h show ?thesis by (auto simp: hidden_def)
  qed
  then show ?thesis by (auto simp: hidden_def)
qed

lemma redact_keys: "hidden K u \<Longrightarrow> hidden (set ks \<union> K) (fold redact_key ks u) \<and>
    plain_pairs (search_params (fold redact_key ks u)) = plain_pairs (search_params u)"
proof (induction ks arbitrary: u K)
  case (Cons k ks)
  from Cons.IH [OF redact_key_hides [OF Cons.prems], of k] show ?case by (auto simp: redact_key_keeps)
qed simp

lemma redact_keys_names: "k \<notin> set ks \<Longrightarrow> (k, v) \<in> set (search_params (fold redact_key ks u)) \<longleftrightarrow> (k, v) \<in> set (search_params u)"
  by (induction ks arbitrary: u) (auto simp: redact_key_other)

text \<open>The log of a request shows its path and a query in which every parameter with a secret name, repeated ones included, is redacted,
  and the other parameters are as they were, in their order.\<close>

theorem logged_url_redacted:
  assumes "resolve s ''http://openbrowse.invalid'' = Some u"
  shows "\<exists>u'. redactRequestUrl resolve (Some s) = u_pathname u @ url_search u' \<and>
    (\<forall>(k, v) \<in> set (search_params u'). secret_name k \<longrightarrow> v = redacted) \<and>
    plain_pairs (search_params u') = plain_pairs (search_params u)"
proof -
  let ?u = "fold redact_key (query_names u) u"
  have names: "set (query_names u) = fst ` set (search_params u)" by (simp add: query_names_def)
  from redact_keys [of "{}" u "query_names u"] have h: "hidden (set (query_names u)) ?u" "plain_pairs (search_params ?u) = plain_pairs (search_params u)"
    by (simp_all add: hidden_def)
  have "v = redacted" if "(k, v) \<in> set (search_params ?u)" "secret_name k" for k v
  proof (cases "k \<in> set (query_names u)")
    case True
    with h(1) that show ?thesis by (auto simp: hidden_def)
  next
    case False
    with redact_keys_names that(1) have "(k, v) \<in> set (search_params u)" by blast
    with False names show ?thesis by force
  qed
  with h(2) assms show ?thesis by (intro exI [of _ ?u]) (auto simp: redactRequestUrl_def)
qed

definition logged_sample :: url where
  "logged_sample = \<lparr>u_protocol = ''http:'', u_username = [], u_password = [], u_hostname = ''openbrowse.invalid'', u_port = [],
     u_pathname = ''/cdp'', u_query = Some ''token=abc&a=1&Token=x&token=d'', u_fragment = None\<rparr>"

theorem logged_url_redacted_witness:
  "redactRequestUrl (\<lambda>_ _. Some logged_sample) (Some ''x'') = ''/cdp?token=%5BREDACTED%5D&a=1&Token=%5BREDACTED%5D'' \<and>
   (\<exists>u'. plain_pairs (search_params u') = [(''a'', ''1'')])"
proof -
  have "redactRequestUrl (\<lambda>_ _. Some logged_sample) (Some ''x'') = ''/cdp?token=%5BREDACTED%5D&a=1&Token=%5BREDACTED%5D''" by code_simp
  moreover have "plain_pairs (search_params logged_sample) = [(''a'', ''1'')]" by code_simp
  ultimately show ?thesis using logged_url_redacted [of "\<lambda>_ _. Some logged_sample" "''x''" logged_sample] by auto
qed

text \<open>A target that is no URL, such as one that begins with two slashes and has no host, is logged as it is, its token included.\<close>

lemma unparsed_url_logged: "resolve s ''http://openbrowse.invalid'' = None \<Longrightarrow> redactRequestUrl resolve (Some s) = s"
  by (simp add: redactRequestUrl_def)

section \<open>What a shutdown does\<close>

text \<open>However often it is called, the parts are closed once.\<close>

lemma close_once:
  "close_services P (c, s) = (r, st) \<Longrightarrow> close_services P st = (r, st)"
  by (auto simp: close_services_def split: option.splits prod.splits)

text \<open>When the application does not close, neither the sessions nor the pool nor the storage are asked to.\<close>

lemma close_stops: "sp_app P s = (Inl e, s1) \<Longrightarrow> close_services P (None, s) = (Inl e, Some (Inl e), s1)"
  by (simp add: close_services_def close_parts_def)

end
