(* ===== verification/Spec2Isabelle.thy ===== *)
theory Spec2Isabelle
  imports OB_BqlExec_Props OB_Map_Props OB_Jobs_Props OB_SessionRoutes_Props OB_Inspect OB_Ssrf OB_ProcessMemory OB_Queue OB_Storage OB_Pool_Props OB_Challenge OB_Alerts OB_Launch OB_Cdp
    OB_Markdown_Props OB_Article_Props OB_Content_Props OB_Extract OB_Fetch_Props OB_BqlHandler OB_Agent_Props OB_Mcp_Props OB_Media_Props OB_Sockets_Props OB_Launchers_Props OB_Public_Props
    OB_Export_Props OB_Performance_Props OB_Routes_Props OB_Server
begin

text \<open>
  A verification library for OpenBrowse, the self-hosted browser execution service under \<open>src/src/\<close>
  (TypeScript on Node.js).

  The program. A request enters through Fastify, whose hooks (\<open>server/lifecycle.ts\<close>) authenticate it, count it
  against the rate limit and the daily quota, and check that the session it names belongs to its key. A route then
  parses the body with a schema, and asks a service for the work. A fetch goes through the cache, the admission queue
  (bounded by memory and by length) and the pipeline: first a plain HTTP request that refuses private addresses on
  every redirect, then, when the page looks like a client-rendered shell or a challenge, a page in a browser of the
  pool, possibly on another backend. Live sessions keep a browser between requests; agent commands, BrowserQL actions,
  the MCP tools and the session routes drive its page. Crawls and render jobs go on after their reply. Everything a key
  owns is stored in SQLite tables scoped by the hash of the key, with secrets in encrypted envelopes.

  Conventions. Every definition is translated from the code and executable unless it is a step relation. The clock,
  random identifiers, SHA-256, the cipher, \<open>JSON\<close>, the WHATWG \<open>URL\<close> parser, DNS, zod, cheerio, undici, SQLite's
  engine, Playwright and the file system are not in the repository: they are arguments of the definitions that use
  them, and what a theorem needs from one of them is a named hypothesis (\<open>codec_ok\<close>, \<open>schemas_parsed\<close> and the like)
  with a witness at a concrete instance. A thrown value is the left side of a sum, a promise that rejects likewise. An
  \<open>async\<close> method whose interleaving matters is cut at its suspension points and the parts are the steps of a relation
  (queue, pool, sessions, frame stream, readiness wait, cache requests in flight); the other handlers are modelled one
  call at a time. JavaScript numbers are \<open>int\<close> where the code only ever holds integers below \<open>2 ^ 53\<close>, and
  words where the code works bitwise. Maps keep insertion order: they are association lists.

  Base.
  \<^item> \<open>OB_Prelude\<close>: JavaScript values, errors (\<open>errors.ts\<close>), results, ordered maps, string operations and the
    collections of hints. \<open>OB_System\<close>: the locales \<open>invariant_system\<close> and \<open>event_system\<close>, reachability and its
    induction, interpreted by every stateful component. \<open>OB_Types\<close>: the unions and records of \<open>execution/types.ts\<close> and
    \<open>storage/types.ts\<close>. \<open>OB_Url\<close>: what the code uses of the \<open>URL\<close> object. \<open>OB_Regex\<close>: backtracking regular
    expressions, used where the code has one.
  \<^item> \<open>OB_Config\<close>, \<open>OB_Config_Facts\<close>: \<open>config.ts\<close> and \<open>config/\<close>. A configuration that loads is within the bounds that
    the other components rely on.
  \<^item> \<open>OB_Errors\<close>: the error handler and the byte bounds (\<open>errors.ts\<close>, \<open>bounds.ts\<close>). \<open>OB_Alerts\<close>: \<open>alerts.ts\<close>,
    \<open>telemetry.ts\<close>.

  The network boundary and the gate.
  \<^item> \<open>OB_Security\<close>, \<open>OB_Ssrf\<close>: \<open>security.ts\<close>. The octet tests are a list of CIDR blocks, and a URL that passes
    \<open>resolveSafeUrl\<close> names a host whose every address is public.
  \<^item> \<open>OB_Http\<close>, \<open>OB_Analysis\<close>: \<open>execution/http.ts\<close> and \<open>execution/shared.ts\<close>. Every request on the wire went through the
    boundary, to the address it resolved, whatever the redirects.
  \<^item> \<open>OB_Gate\<close>: \<open>server/lifecycle.ts\<close>. What a request that passes has shown, the rate over any minute, and the owner of
    the session it names.
  \<^item> \<open>OB_Schemas\<close>: \<open>server/input/\<close>, as data with the meaning of what a schema accepts. \<open>OB_Launch\<close>, \<open>OB_Cdp\<close>: the
    arguments a client may give a browser, and the reconnectable DevTools targets.

  Resources.
  \<^item> \<open>OB_Queue\<close>, \<open>OB_ProcessMemory\<close>: \<open>queue.ts\<close>, \<open>process-memory.ts\<close>. The invariant of the queue, what \<open>drain\<close>
    starts, every outcome of \<open>run\<close>, a run in which the queue stalls, what is read from \<open>/proc\<close> and the walk of the process tree.
  \<^item> \<open>OB_Pool\<close>, \<open>OB_Pool_System\<close>, \<open>OB_Pool_Facts\<close>, \<open>OB_Pool_Props\<close>: \<open>execution/pool.ts\<close> as a step relation with the
    launches, selections, contexts and recyclings that are under way.
  \<^item> \<open>OB_Sessions\<close>: \<open>execution/sessions.ts\<close> as a step relation. \<open>OB_Backends\<close>, \<open>OB_Challenge\<close>: the choice of a backend and
    the fallback from one to the next. \<open>OB_Launchers\<close>, \<open>OB_Launchers_Props\<close>: \<open>execution/browser-launchers.ts\<close> over a driver that
    starts processes; a failed launch leaves no server, and its error does not show the profile key.
  \<^item> \<open>OB_Cache\<close>, \<open>OB_CacheStore\<close>: \<open>cache.ts\<close> over \<open>storage/cache-store.ts\<close>. The memory layer is proved over the locale
    \<open>cache_backing\<close>, which the disk layer interprets; a lookup returns what was last put.
  \<^item> \<open>OB_Secrets\<close>, \<open>OB_SecretStores\<close>, \<open>OB_Stores\<close>, \<open>OB_Storage\<close>, \<open>OB_Isolation\<close>: \<open>storage.ts\<close> and \<open>storage/\<close>. The locale
    \<open>owner_isolation\<close> states that an operation of one owner neither reads nor changes the rows of another; the stores
    interpret it.

  Content.
  \<^item> \<open>OB_Planner\<close>: \<open>execution/planner.ts\<close>, \<open>execution/domain-observations.ts\<close>. \<open>OB_Readiness\<close>, \<open>OB_Content\<close>,
    \<open>OB_Content_Props\<close>, \<open>OB_Extract\<close>: \<open>execution/content.ts\<close>. \<open>OB_Dom\<close>, \<open>OB_Markdown\<close>, \<open>OB_Article\<close> with their
    properties: \<open>execution/markdown.ts\<close>, \<open>execution/article.ts\<close> over parsed trees.
  \<^item> \<open>OB_Fetch\<close>, \<open>OB_Fetch_Props\<close>: \<open>server/core/fetch.ts\<close>, the composition of cache, queue and pipeline.
  \<^item> \<open>OB_Map\<close>, \<open>OB_Map_Props\<close>, \<open>OB_Jobs\<close>, \<open>OB_Jobs_Props\<close>: the site map, crawls, render jobs and webhooks
    (\<open>automation/map.ts\<close>, \<open>automation/integrations.ts\<close>, \<open>server/routes/execution.ts\<close>, \<open>server/routes/admin.ts\<close>).

  \<^item> \<open>OB_Export\<close>, \<open>OB_Export_Props\<close>: the archive of a page (\<open>automation/map.ts\<close>) and the client of the search service
    (\<open>automation/integrations.ts\<close>). Every request of an export went through the boundary, and there is a bound on them.
  \<^item> \<open>OB_Performance\<close>, \<open>OB_Performance_Props\<close>: \<open>automation/performance.ts\<close>, \<open>automation/lighthouse.ts\<close> over the processes
    they start.

  Routes without a session.
  \<^item> \<open>OB_Requests\<close>: what the routes share, that is the schemas of their bodies, the proxy a body names, admission to the
    queue, stored artifacts. \<open>OB_ContentRoutes\<close>: \<open>server/routes/content.ts\<close>, \<open>server/presentation.ts\<close>. \<open>OB_ExecutionRoutes\<close>:
    \<open>server/routes/execution.ts\<close>. \<open>OB_Admin\<close>: \<open>server/routes/admin.ts\<close>. \<open>OB_Routes_Props\<close>: the jobs of these routes run over a
    proxy of the caller's key, and what they store is found by that key only.
  \<^item> \<open>OB_Public\<close>, \<open>OB_Public_Props\<close>: \<open>server/routes/public.ts\<close>, \<open>error-pages/\<close>. \<open>OB_Server\<close>: what \<open>server.ts\<close> logs of a
    request, its alert of the queue, and the shutdown.

  Live pages.
  \<^item> \<open>OB_Agent\<close>, \<open>OB_Agent_Props\<close>: \<open>server/core/agent.ts\<close> over a driver of the page. \<open>OB_Bql\<close>, \<open>OB_BqlHandler\<close>,
    \<open>OB_BqlExec\<close>, \<open>OB_BqlCommands\<close>, \<open>OB_BqlExec_Props\<close>: BrowserQL (\<open>server/browserql.ts\<close>,
    \<open>server/browserql-handler.ts\<close>, \<open>server/core/bql.ts\<close>).
  \<^item> \<open>OB_SessionRoutes\<close>, \<open>OB_SessionRoutes_Props\<close>, \<open>OB_Inspect\<close>: \<open>server/routes/sessions/\<close>, and the frame stream as a
    step relation.
  \<^item> \<open>OB_Mcp\<close>, \<open>OB_Mcp_Props\<close>: the JSON-RPC endpoint (\<open>server/mcp.ts\<close>, \<open>server/routes/mcp.ts\<close>) with its tools. \<open>OB_Media\<close>,
    \<open>OB_Media_Props\<close>: workflows, downloads, captures and recordings (\<open>execution/workflow.ts\<close>, \<open>execution/media.ts\<close>).
  \<^item> \<open>OB_Sockets\<close>, \<open>OB_Sockets_Props\<close>: the WebSocket relays (\<open>server/routes/sockets.ts\<close>, \<open>server/routes/cdp-reconnect.ts\<close>) as
    a step relation over the events of the two sockets and the browser.

  Bounds and fuel. The recursions are structural or have a measure (the backends still to try, the redirects still
  allowed, the pages still to visit, the processes still to count), and the theorems of kind termination and liveness
  say that they return. Polling loops run against a clock that moves by the interval between two polls, so the
  deadline over the interval bounds them. The stores' limits, the queue's length and the rates are those of the
  configuration, never a constant of the model.

  Not modelled. The work inside Playwright, the browsers, Lighthouse, yt-dlp, SQLite, cheerio, undici and zod; DDL and
  migration (\<open>storage/database.ts\<close>), which SQLite executes; the construction and the wiring of the services
  (\<open>server.ts\<close>, \<open>index.ts\<close>), which is the composition of the definitions here; the markup of the error pages
  (\<open>error-pages/template.ts\<close>); the front end, scripts and tests. Two requests that interleave inside one route handler
  are not modelled beyond the components above that are step relations.
\<close>

end
